(* ===== verification/Prelude.thy ===== *)
theory Prelude
  imports Complex_Main "HOL-Library.AList"
begin

text \<open>
  Shared vocabulary of the development: identifiers, clock readings, JSON values and Python
  dictionaries, \<open>AppError\<close> (src/backend/app/core/errors.py) with the result type the services
  return, ASCII string operations, and tables of rows keyed by a primary key.  A table is a
  list of rows, so that every query of the source is an executable function on lists.
\<close>

section \<open>Collections of facts\<close>

named_theorems table_simps \<open>reading a table after a write\<close>
named_theorems result_simps \<open>results of fallible operations\<close>

section \<open>Identifiers, time, JSON\<close>

text \<open>A \<open>uuid.UUID\<close> is its 128-bit integer; a \<open>datetime\<close> counts microseconds since the epoch.\<close>

type_synonym uuid = nat
type_synonym datetime = int
type_synonym bytes = "nat list"

definition seconds :: "int \<Rightarrow> int" where
  "seconds n = n * 1000000"

datatype json =
    JNull
  | JBool bool
  | JInt int
  | JFloat string \<comment> \<open>a float, by its \<open>repr\<close>\<close>
  | JStr string
  | JList "json list"
  | JObj "(string \<times> json) list"
  | JOther string \<comment> \<open>any other Python object, by its \<open>str()\<close>\<close>

type_synonym dict = "(string \<times> json) list"

text \<open>\<open>d.get(k)\<close>: a missing key reads as \<open>None\<close>.\<close>

definition dict_get :: "dict \<Rightarrow> string \<Rightarrow> json" where
  "dict_get d k = (case map_of d k of Some v \<Rightarrow> v | None \<Rightarrow> JNull)"

definition dict_get_or :: "dict \<Rightarrow> string \<Rightarrow> json \<Rightarrow> json" where
  "dict_get_or d k v0 = (case map_of d k of Some v \<Rightarrow> v | None \<Rightarrow> v0)"

text \<open>\<open>{**d, k: v, ...}\<close>: later keys win, an existing key keeps its position.\<close>

fun dict_merge :: "dict \<Rightarrow> dict \<Rightarrow> dict" where
  "dict_merge d [] = d"
| "dict_merge d ((k, v) # e) = dict_merge (AList.update k v d) e"

lemma map_of_dict_merge: "distinct (map fst e) \<Longrightarrow> map_of (dict_merge d e) = map_of d ++ map_of e"
proof (induction d e rule: dict_merge.induct)
  case (2 d k v e)
  then have "k \<notin> dom (map_of e)" by (force simp: dom_map_of_conv_image_fst)
  with 2 show ?case
    by (auto simp: fun_eq_iff map_add_def update_conv split: option.splits)
qed simp

definition json_opt :: "('a \<Rightarrow> json) \<Rightarrow> 'a option \<Rightarrow> json" where
  "json_opt f x = (case x of None \<Rightarrow> JNull | Some v \<Rightarrow> f v)"

section \<open>Errors and results\<close>

datatype app_error = AppError (status_code: nat) (code: string) (message: string) (details: dict)

abbreviation app_error :: "nat \<Rightarrow> string \<Rightarrow> string \<Rightarrow> app_error" where
  "app_error s c m \<equiv> AppError s c m []"

text \<open>What a call can raise: an \<open>AppError\<close>, or an exception of Python or SQLAlchemy.\<close>

datatype exn =
    App app_error
  | IntegrityError
  | AssertionError
  | PyError string

type_synonym 'a result = "exn + 'a"

abbreviation raise_app :: "nat \<Rightarrow> string \<Rightarrow> string \<Rightarrow> 'a result" where
  "raise_app s c m \<equiv> Inl (App (app_error s c m))"

fun is_ok :: "'e + 'a \<Rightarrow> bool" where
  "is_ok (Inl _) = False"
| "is_ok (Inr _) = True"

fun err_code :: "'a result \<Rightarrow> string option" where
  "err_code (Inl (App e)) = Some (code e)"
| "err_code _ = None"

definition bind_result :: "'e + 'a \<Rightarrow> ('a \<Rightarrow> 'e + 'b) \<Rightarrow> 'e + 'b" where
  "bind_result r f = (case r of Inl e \<Rightarrow> Inl e | Inr x \<Rightarrow> f x)"

lemma bind_result_simps [simp]:
  "bind_result (Inl e) f = Inl e"
  "bind_result (Inr x) f = f x"
  by (simp_all add: bind_result_def)

lemma bind_result_Inr_iff [result_simps]:
  "bind_result r f = Inr y \<longleftrightarrow> (\<exists>x. r = Inr x \<and> f x = Inr y)"
  by (cases r) simp_all

lemma bind_result_Inl_iff [result_simps]:
  "bind_result r f = Inl e \<longleftrightarrow> r = Inl e \<or> (\<exists>x. r = Inr x \<and> f x = Inl e)"
  by (cases r) auto

text \<open>\<open>[f(x) for x in xs]\<close> where \<open>f\<close> may raise: the first error wins.\<close>

fun map_result :: "('a \<Rightarrow> 'e + 'b) \<Rightarrow> 'a list \<Rightarrow> 'e + 'b list" where
  "map_result f [] = Inr []"
| "map_result f (x # xs) =
     bind_result (f x) (\<lambda>y. bind_result (map_result f xs) (\<lambda>ys. Inr (y # ys)))"

lemma map_result_Inr: "map_result f xs = Inr ys \<Longrightarrow> list_all2 (\<lambda>x y. f x = Inr y) xs ys"
  by (induction xs arbitrary: ys) (auto simp: result_simps)

section \<open>ASCII strings\<close>

definition char_upper :: "char \<Rightarrow> char" where
  "char_upper c = (let n = (of_char c :: nat) in if 97 \<le> n \<and> n \<le> 122 then char_of (n - 32) else c)"

definition char_lower :: "char \<Rightarrow> char" where
  "char_lower c = (let n = (of_char c :: nat) in if 65 \<le> n \<and> n \<le> 90 then char_of (n + 32) else c)"

definition str_upper :: "string \<Rightarrow> string" where
  "str_upper s = map char_upper s"

definition str_lower :: "string \<Rightarrow> string" where
  "str_lower s = map char_lower s"

definition is_space :: "char \<Rightarrow> bool" where
  "is_space c = (let n = (of_char c :: nat) in n = 32 \<or> (9 \<le> n \<and> n \<le> 13) \<or> (28 \<le> n \<and> n \<le> 31))"

definition str_strip :: "string \<Rightarrow> string" where
  "str_strip s = rev (dropWhile is_space (rev (dropWhile is_space s)))"

text \<open>\<open>part in s\<close> on strings.\<close>

fun is_prefix :: "string \<Rightarrow> string \<Rightarrow> bool" where
  "is_prefix [] _ = True"
| "is_prefix (_ # _) [] = False"
| "is_prefix (x # xs) (y # ys) = (x = y \<and> is_prefix xs ys)"

fun contains_str :: "string \<Rightarrow> string \<Rightarrow> bool" where
  "contains_str p [] = (p = [])"
| "contains_str p (c # s) = (is_prefix p (c # s) \<or> contains_str p s)"

definition digit_char :: "nat \<Rightarrow> char" where
  "digit_char n = char_of (if n < 10 then 48 + n else 87 + n)"

text \<open>The digits of a non-negative integer in a base of at most 16, as \<open>str\<close> and \<open>%x\<close> print them.\<close>

function int_digits :: "int \<Rightarrow> int \<Rightarrow> string" where
  "int_digits b n =
     (if n < b \<or> b \<le> 1 then [digit_char (nat n)]
      else int_digits b (n div b) @ [digit_char (nat (n mod b))])"
  by pat_completeness auto
termination
  by (relation "measure (\<lambda>(b, n). nat n)") (auto intro!: int_div_less_self)

declare int_digits.simps [simp del]

text \<open>A \<open>case\<close> in place of the \<open>if\<close>, so that kernel evaluation unfolds one branch only.\<close>

lemma int_digits_code [code]:
  "int_digits b n = (case n < b \<or> b \<le> 1 of
     True \<Rightarrow> [digit_char (nat n)]
   | False \<Rightarrow> int_digits b (n div b) @ [digit_char (nat (n mod b))])"
  by (simp add: int_digits.simps[of b n])

definition int_str :: "int \<Rightarrow> string" where
  "int_str i = (if i < 0 then CHR ''-'' # int_digits 10 (- i) else int_digits 10 i)"

text \<open>\<open>str(uuid)\<close>: 32 hexadecimal digits in groups of 8, 4, 4, 4 and 12.\<close>

fun hex_digits :: "nat \<Rightarrow> int \<Rightarrow> string" where
  "hex_digits 0 n = []"
| "hex_digits (Suc k) n = hex_digits k (n div 16) @ [digit_char (nat (n mod 16))]"

definition uuid_str :: "uuid \<Rightarrow> string" where
  "uuid_str u = (let h = hex_digits 32 (int u) in
     take 8 h @ ''-'' @ take 4 (drop 8 h) @ ''-'' @ take 4 (drop 12 h) @ ''-'' @
     take 4 (drop 16 h) @ ''-'' @ drop 20 h)"

lemma length_hex_digits [simp]: "length (hex_digits k n) = k"
  by (induction k n rule: hex_digits.induct) simp_all

text \<open>\<open>repr\<close> of a string and of a JSON value, and \<open>str\<close> of a JSON value.\<close>

definition escape_char :: "char \<Rightarrow> char \<Rightarrow> string" where
  "escape_char quote c =
     (let n = (of_char c :: nat) in
      if c = quote \<or> n = 92 then [char_of (92::nat), c]
      else if n = 9 then [char_of (92::nat), CHR ''t''] else if n = 10 then [char_of (92::nat), CHR ''n'']
      else if n = 13 then [char_of (92::nat), CHR ''r'']
      else if n < 32 \<or> n \<ge> 127 then [char_of (92::nat), CHR ''x''] @ hex_digits 2 (int n)
      else [c])"

definition str_repr :: "string \<Rightarrow> string" where
  "str_repr s =
     (let quote = (if CHR 39 \<in> set s \<and> CHR 34 \<notin> set s then CHR 34 else CHR 39) in
      quote # concat (map (escape_char quote) s) @ [quote])"

fun join_with :: "string \<Rightarrow> string list \<Rightarrow> string" where
  "join_with sep [] = []"
| "join_with sep [x] = x"
| "join_with sep (x # y # xs) = x @ sep @ join_with sep (y # xs)"

fun json_repr :: "json \<Rightarrow> string" where
  "json_repr JNull = ''None''"
| "json_repr (JBool b) = (if b then ''True'' else ''False'')"
| "json_repr (JInt i) = int_str i"
| "json_repr (JFloat s) = s"
| "json_repr (JStr s) = str_repr s"
| "json_repr (JList xs) = ''['' @ join_with '', '' (map json_repr xs) @ '']''"
| "json_repr (JObj d) =
     ''{'' @ join_with '', '' (map (\<lambda>(k, v). str_repr k @ '': '' @ json_repr v) d) @ ''}''"
| "json_repr (JOther s) = s"

definition py_str :: "json \<Rightarrow> string" where
  "py_str v = (case v of JStr s \<Rightarrow> s | _ \<Rightarrow> json_repr v)"

lemma py_str_JStr [simp]: "py_str (JStr s) = s"
  by (simp add: py_str_def)

section \<open>Tables\<close>

text \<open>
  \<open>session.get(Row, i)\<close> finds a row by its key; \<open>modify\<close> writes the attributes of one row;
  \<open>add\<close> appends.
\<close>

definition get_row :: "('r \<Rightarrow> 'k) \<Rightarrow> 'r list \<Rightarrow> 'k \<Rightarrow> 'r option" where
  "get_row key rows i = find (\<lambda>r. key r = i) rows"

definition modify_row :: "('r \<Rightarrow> 'k) \<Rightarrow> 'k \<Rightarrow> ('r \<Rightarrow> 'r) \<Rightarrow> 'r list \<Rightarrow> 'r list" where
  "modify_row key i f rows = map (\<lambda>r. if key r = i then f r else r) rows"

definition unique_on :: "('r \<Rightarrow> 'k) \<Rightarrow> ('r \<Rightarrow> bool) \<Rightarrow> 'r list \<Rightarrow> bool" where
  "unique_on k P rows \<longleftrightarrow> distinct (map k (filter P rows))"

lemma get_row_Some: "get_row key rows i = Some r \<Longrightarrow> r \<in> set rows \<and> key r = i"
  by (auto simp: get_row_def find_Some_iff)

lemma get_row_None: "get_row key rows i = None \<longleftrightarrow> i \<notin> key ` set rows"
  by (auto simp: get_row_def find_None_iff)

lemma get_row_Nil [table_simps]: "get_row key [] i = None"
  by (simp add: get_row_def)

lemma get_row_Cons [table_simps]:
  "get_row key (r # rows) i = (if key r = i then Some r else get_row key rows i)"
  by (simp add: get_row_def)

lemma get_row_append [table_simps]:
  "get_row key (rows @ rows') i =
     (case get_row key rows i of None \<Rightarrow> get_row key rows' i | Some r \<Rightarrow> Some r)"
  by (induction rows) (simp_all add: table_simps)

lemma get_row_mem: "distinct (map key rows) \<Longrightarrow> r \<in> set rows \<Longrightarrow> get_row key rows (key r) = Some r"
  by (induction rows) (auto simp: table_simps)

lemma set_modify_row: "set (modify_row key i f rows) = (\<lambda>r. if key r = i then f r else r) ` set rows"
  by (auto simp: modify_row_def)

lemma length_modify_row [simp]: "length (modify_row key i f rows) = length rows"
  by (simp add: modify_row_def)

lemma unique_on_append1 [table_simps]:
  "unique_on k P (rows @ [r]) \<longleftrightarrow>
     unique_on k P rows \<and> (P r \<longrightarrow> k r \<notin> k ` {x \<in> set rows. P x})"
  by (auto simp: unique_on_def)

lemma unique_onD:
  "unique_on k P rows \<Longrightarrow> x \<in> set rows \<Longrightarrow> y \<in> set rows \<Longrightarrow> P x \<Longrightarrow> P y \<Longrightarrow> k x = k y \<Longrightarrow> x = y"
  by (auto simp: unique_on_def distinct_map inj_on_def)

lemma find_append: "find P (xs @ ys) = (case find P xs of None \<Rightarrow> find P ys | Some x \<Rightarrow> Some x)"
  by (induction xs) auto

lemma find_Some_mem: "find P xs = Some x \<Longrightarrow> x \<in> set xs \<and> P x"
  by (auto simp: find_Some_iff)

lemma find_None_mem: "find P xs = None \<Longrightarrow> x \<in> set xs \<Longrightarrow> \<not> P x"
  by (auto simp: find_None_iff)

text \<open>Writes that keep the key: what the services do to a row they have loaded.\<close>

lemma map_modify_row [simp]:
  "(\<And>r. h (f r) = h r) \<Longrightarrow> map h (modify_row key i f rows) = map h rows"
  by (simp add: modify_row_def)

lemma image_modify_row [simp]:
  "(\<And>r. h (f r) = h r) \<Longrightarrow> h ` set (modify_row key i f rows) = h ` set rows"
  using map_modify_row[of h f key i rows] by (metis image_set)

lemma get_modify_row [table_simps]:
  "(\<And>r. key (f r) = key r) \<Longrightarrow>
   get_row key (modify_row key i f rows) j =
     (if i = j then map_option f (get_row key rows j) else get_row key rows j)"
  by (induction rows) (auto simp: modify_row_def table_simps)

lemma get_modify_row_at:
  "(\<And>r. r \<in> set rows \<Longrightarrow> key r = i \<Longrightarrow> key (f r) = i) \<Longrightarrow>
   get_row key (modify_row key i f rows) j =
     (if i = j then map_option f (get_row key rows j) else get_row key rows j)"
  by (induction rows) (auto simp: modify_row_def table_simps)

lemma find_modify_row:
  "(\<And>r. P (f r) = P r) \<Longrightarrow> find P (modify_row key j f rows) = map_option (\<lambda>r. if key r = j then f r else r) (find P rows)"
  by (induction rows) (auto simp: modify_row_def)

lemma modify_row_cong_id: "(\<And>r. r \<in> set rows \<Longrightarrow> key r = i \<Longrightarrow> f r = r) \<Longrightarrow> modify_row key i f rows = rows"
  by (simp add: modify_row_def map_idI)

section \<open>Transition systems\<close>

text \<open>
  The services are transition systems on the database.  \<open>invariant_system\<close> is what a service shows
  of its handlers; \<open>absorbing_system\<close> is what a service shows of records that have reached a final
  state.  They are interpreted on the step relations of the services.
\<close>

inductive reachable :: "('s \<Rightarrow> bool) \<Rightarrow> ('s \<Rightarrow> 's \<Rightarrow> bool) \<Rightarrow> 's \<Rightarrow> bool" for init step where
  reachable_init: "init s \<Longrightarrow> reachable init step s"
| reachable_step: "reachable init step s \<Longrightarrow> step s t \<Longrightarrow> reachable init step t"

lemma reachable_rtranclp: "reachable init step s \<Longrightarrow> step\<^sup>*\<^sup>* s t \<Longrightarrow> reachable init step t"
  by (rotate_tac 1, induction rule: rtranclp_induct) (auto intro: reachable_step)

locale invariant_system =
  fixes init :: "'s \<Rightarrow> bool" and step :: "'s \<Rightarrow> 's \<Rightarrow> bool" and inv :: "'s \<Rightarrow> bool"
  assumes inv_init: "init s \<Longrightarrow> inv s"
    and inv_step: "step s t \<Longrightarrow> inv s \<Longrightarrow> inv t"
begin

lemma inv_reachable: "reachable init step s \<Longrightarrow> inv s"
  by (induction rule: reachable.induct) (auto intro: inv_init inv_step)

lemma inv_steps: "step\<^sup>*\<^sup>* s t \<Longrightarrow> inv s \<Longrightarrow> inv t"
  by (induction rule: rtranclp_induct) (auto intro: inv_step)

end

text \<open>
  \<open>refinement_system\<close> is what a service shows of an abstract view of its state: every step of the
  service is a step of the view, as long as the invariant that gives the view its meaning holds.
\<close>

locale refinement_system =
  fixes view :: "'s \<Rightarrow> 'a" and inv :: "'s \<Rightarrow> bool" and step :: "'s \<Rightarrow> 's \<Rightarrow> bool" and astep :: "'a \<Rightarrow> 'a \<Rightarrow> bool"
  assumes sim_inv: "step s t \<Longrightarrow> inv s \<Longrightarrow> inv t"
    and sim_step: "step s t \<Longrightarrow> inv s \<Longrightarrow> astep (view s) (view t)"
begin

lemma sim_steps: "step\<^sup>*\<^sup>* s t \<Longrightarrow> inv s \<Longrightarrow> inv t \<and> astep\<^sup>*\<^sup>* (view s) (view t)"
  by (induction rule: rtranclp_induct) (auto intro: sim_inv dest: sim_step rtranclp.rtrancl_into_rtrancl)

end

locale absorbing_system =
  fixes step :: "'s \<Rightarrow> 's \<Rightarrow> bool" and final :: "'s \<Rightarrow> 'k \<Rightarrow> bool" and view :: "'s \<Rightarrow> 'k \<Rightarrow> 'v"
  assumes final_step: "step s t \<Longrightarrow> final s k \<Longrightarrow> view t k = view s k"
    and final_view: "view t k = view s k \<Longrightarrow> final s k \<Longrightarrow> final t k"
begin

lemma final_steps: "step\<^sup>*\<^sup>* s t \<Longrightarrow> final s k \<Longrightarrow> final t k \<and> view t k = view s k"
  by (induction rule: rtranclp_induct) (metis final_step final_view)+

end

end
