(* ===== verification/Models_Auth.thy ===== *)
theory Models_Auth
  imports Prelude
begin

text \<open>
  Rows of src/backend/app/models/auth.py and models/cluster.py, with the unique and check
  constraints their tables declare.  Columns filled by the database itself and read by no
  modelled code (\<open>created_at\<close>, \<open>updated_at\<close> server defaults) are left out.
\<close>

section \<open>models/auth.py\<close>

datatype user_role = SUPER_ADMIN | OPERATOR | CUSTOMER

fun user_role_value :: "user_role \<Rightarrow> string" where
  "user_role_value SUPER_ADMIN = ''SUPER_ADMIN''"
| "user_role_value OPERATOR = ''OPERATOR''"
| "user_role_value CUSTOMER = ''CUSTOMER''"

record user =
  user_id :: uuid
  user_email :: string
  user_display_name :: string
  user_role_of :: user_role
  user_password_hash :: string
  user_is_active :: bool
  user_session_epoch :: int
  user_last_login_at :: "datetime option"
  user_created_by_id :: "uuid option"
  user_disabled_at :: "datetime option"
  user_deleted_at :: "datetime option"
  user_version :: int

record organization =
  org_id :: uuid
  org_name :: string
  org_is_active :: bool
  org_created_by_id :: uuid
  org_version :: int

record organization_member =
  mem_id :: uuid
  mem_organization_id :: uuid
  mem_user_id :: uuid
  mem_added_by_id :: uuid

record refresh_token =
  rt_id :: uuid
  rt_user_id :: uuid
  rt_family_id :: uuid
  rt_token_hash :: bytes
  rt_parent_id :: "uuid option"
  rt_replaced_by_id :: "uuid option"
  rt_expires_at :: datetime
  rt_revoked_at :: "datetime option"
  rt_reuse_detected_at :: "datetime option"

record login_throttle =
  lt_key_hash :: bytes
  lt_failure_count :: int
  lt_window_started_at :: datetime
  lt_locked_until :: "datetime option"

record audit_log =
  al_created_at :: datetime
  al_action :: string
  al_outcome :: string
  al_actor_user_id :: "uuid option"
  al_actor_role :: "string option"
  al_organization_id :: "uuid option"
  al_workload_id :: "uuid option"
  al_operation_id :: "uuid option"
  al_source_ip :: "string option"
  al_user_agent :: "string option"
  al_pve_upid :: "string option"
  al_resource_type :: "string option"
  al_resource_id :: "string option"
  al_request_id :: "string option"
  al_before :: "dict option"
  al_after :: "dict option"
  al_result :: string
  al_error_code :: "string option"

definition users_ok :: "user list \<Rightarrow> bool" where
  "users_ok us \<longleftrightarrow> distinct (map user_id us) \<and> distinct (map user_email us)"

definition organizations_ok :: "organization list \<Rightarrow> bool" where
  "organizations_ok os \<longleftrightarrow> distinct (map org_id os) \<and> distinct (map org_name os)"

definition members_ok :: "organization_member list \<Rightarrow> bool" where
  "members_ok ms \<longleftrightarrow> distinct (map mem_id ms) \<and>
     distinct (map (\<lambda>m. (mem_organization_id m, mem_user_id m)) ms)"

definition refresh_tokens_ok :: "refresh_token list \<Rightarrow> bool" where
  "refresh_tokens_ok ts \<longleftrightarrow> distinct (map rt_id ts) \<and> distinct (map rt_token_hash ts)"

definition login_throttles_ok :: "login_throttle list \<Rightarrow> bool" where
  "login_throttles_ok ts \<longleftrightarrow> distinct (map lt_key_hash ts)"

section \<open>models/cluster.py\<close>

record cluster =
  cl_id :: uuid
  cl_name :: string
  cl_api_base_url :: string
  cl_ca_bundle_pem :: "string option"
  cl_is_active :: bool
  cl_last_connection_error_code :: "string option"
  cl_last_connected_at :: "datetime option"
  cl_disabled_at :: "datetime option"
  cl_version :: int

record cluster_credential =
  cred_id :: uuid
  cred_cluster_id :: uuid
  cred_token_identifier :: string
  cred_secret_ciphertext :: bytes
  cred_secret_nonce :: bytes
  cred_key_version :: string
  cred_is_active :: bool
  cred_last_used_at :: "datetime option"
  cred_retired_at :: "datetime option"

definition clusters_ok :: "cluster list \<Rightarrow> bool" where
  "clusters_ok cs \<longleftrightarrow> distinct (map cl_id cs) \<and> distinct (map cl_name cs) \<and>
     distinct (map cl_api_base_url cs)"

definition credentials_ok :: "cluster_credential list \<Rightarrow> bool" where
  "credentials_ok cs \<longleftrightarrow> distinct (map cred_id cs) \<and> unique_on cred_cluster_id cred_is_active cs"

end
