(* ===== verification/Models_Operation.thy ===== *)
theory Models_Operation
  imports Prelude
begin

text \<open>
  Rows of src/backend/app/models/operation.py: workloads, their assignments, the operations the
  workers run, and the Proxmox tasks of an operation; with the constraints of their tables.
  An operation's \<open>action\<close> stays the string the column holds, because backup and restore
  operations share the table and have actions outside the two enumerations.

  And the rows of src/backend/app/models/backup.py: the PBS storages backups go to, the backups of a
  workload and the restores from them, each with its operation; and the constraints of the tables.
\<close>

datatype power_action = START | SHUTDOWN | STOP | REBOOT | RESET

fun power_action_value :: "power_action \<Rightarrow> string" where
  "power_action_value START = ''start''"
| "power_action_value SHUTDOWN = ''shutdown''"
| "power_action_value STOP = ''stop''"
| "power_action_value REBOOT = ''reboot''"
| "power_action_value RESET = ''reset''"

text \<open>\<open>PowerAction(s)\<close>, \<open>None\<close> for the \<open>ValueError\<close>.\<close>

definition power_action_of :: "string \<Rightarrow> power_action option" where
  "power_action_of s = find (\<lambda>a. power_action_value a = s) [START, SHUTDOWN, STOP, REBOOT, RESET]"

datatype admin_vm_action = UPDATE_SPEC | DELETE_VM

fun admin_vm_action_value :: "admin_vm_action \<Rightarrow> string" where
  "admin_vm_action_value UPDATE_SPEC = ''update_spec''"
| "admin_vm_action_value DELETE_VM = ''delete''"

definition is_admin_action :: "string \<Rightarrow> bool" where
  "is_admin_action s \<longleftrightarrow> s \<in> set (map admin_vm_action_value [UPDATE_SPEC, DELETE_VM])"

datatype operation_status = Op_QUEUED | Op_RUNNING | Op_SUCCEEDED | Op_FAILED | Op_TIMEOUT

fun operation_status_value :: "operation_status \<Rightarrow> string" where
  "operation_status_value Op_QUEUED = ''QUEUED''"
| "operation_status_value Op_RUNNING = ''RUNNING''"
| "operation_status_value Op_SUCCEEDED = ''SUCCEEDED''"
| "operation_status_value Op_FAILED = ''FAILED''"
| "operation_status_value Op_TIMEOUT = ''TIMEOUT''"

fun terminal_status :: "operation_status \<Rightarrow> bool" where
  "terminal_status Op_SUCCEEDED = True"
| "terminal_status Op_FAILED = True"
| "terminal_status Op_TIMEOUT = True"
| "terminal_status _ = False"

abbreviation active_status :: "operation_status \<Rightarrow> bool" where
  "active_status s \<equiv> \<not> terminal_status s"

datatype workload_kind = QEMU | LXC

fun workload_kind_value :: "workload_kind \<Rightarrow> string" where
  "workload_kind_value QEMU = ''QEMU''"
| "workload_kind_value LXC = ''LXC''"

record workload =
  wl_id :: uuid
  wl_cluster_id :: uuid
  wl_vmid :: int
  wl_node :: string
  wl_kind :: workload_kind
  wl_name :: "string option"
  wl_power_state :: string
  wl_cpu_cores :: "int option"
  wl_memory_bytes :: "int option"
  wl_disk_bytes :: "int option"
  wl_is_template :: bool
  wl_is_present :: bool
  wl_organization_id :: "uuid option"
  wl_observed_at :: datetime
  wl_version :: int

record workload_assignment =
  wa_id :: uuid
  wa_workload_id :: uuid
  wa_organization_id :: uuid
  wa_assigned_by_id :: uuid
  wa_assigned_at :: datetime
  wa_revoked_by_id :: "uuid option"
  wa_revoked_at :: "datetime option"
  wa_revoke_reason :: "string option"

record operation =
  op_id :: uuid
  op_operation_type :: string
  op_action :: string
  op_status :: operation_status
  op_requested_by_id :: uuid
  op_source_ip :: string
  op_organization_id :: "uuid option"
  op_cluster_id :: uuid
  op_workload_id :: uuid
  op_idempotency_key_hash :: bytes
  op_request_fingerprint :: bytes
  op_celery_task_id :: string
  op_result :: dict
  op_error_code :: "string option"
  op_error_summary :: "string option"
  op_retryable :: "bool option"
  op_attempt_count :: int
  op_requested_at :: datetime
  op_started_at :: "datetime option"
  op_finished_at :: "datetime option"
  op_heartbeat_at :: "datetime option"
  op_version :: int

record pve_task =
  pt_id :: uuid
  pt_operation_id :: uuid
  pt_cluster_id :: uuid
  pt_workload_id :: uuid
  pt_step_name :: string
  pt_upid :: string
  pt_status :: string
  pt_pve_node :: string
  pt_pve_exit_status :: "string option"
  pt_submitted_at :: datetime
  pt_last_polled_at :: "datetime option"
  pt_completed_at :: "datetime option"
  pt_poll_attempts :: int
  pt_error_code :: "string option"
  pt_error_summary :: "string option"

definition workloads_ok :: "workload list \<Rightarrow> bool" where
  "workloads_ok ws \<longleftrightarrow> distinct (map wl_id ws) \<and>
     distinct (map (\<lambda>w. (wl_cluster_id w, wl_vmid w)) ws)"

definition assignments_ok :: "workload_assignment list \<Rightarrow> bool" where
  "assignments_ok xs \<longleftrightarrow> distinct (map wa_id xs) \<and>
     unique_on wa_workload_id (\<lambda>a. wa_revoked_at a = None) xs"

definition operations_ok :: "operation list \<Rightarrow> bool" where
  "operations_ok os \<longleftrightarrow> distinct (map op_id os) \<and>
     distinct (map (\<lambda>x. (op_requested_by_id x, op_idempotency_key_hash x)) os) \<and>
     unique_on op_workload_id (\<lambda>x. active_status (op_status x)) os"

definition pve_tasks_ok :: "pve_task list \<Rightarrow> bool" where
  "pve_tasks_ok ts \<longleftrightarrow> distinct (map pt_id ts) \<and>
     distinct (map (\<lambda>t. (pt_cluster_id t, pt_upid t)) ts) \<and>
     distinct (map (\<lambda>t. (pt_operation_id t, pt_step_name t, pt_upid t)) ts)"

lemma power_action_of_value [simp]: "power_action_of (power_action_value a) = Some a"
  by (cases a) (simp_all add: power_action_of_def)

lemma power_action_of_Some: "power_action_of s = Some a \<longleftrightarrow> s = power_action_value a"
  by (cases a) (auto simp: power_action_of_def find_Some_iff split: if_splits)

lemma power_action_not_admin [simp]: "\<not> is_admin_action (power_action_value a)"
  by (cases a) (simp_all add: is_admin_action_def)

record backup_target =
  bt_id :: uuid
  bt_cluster_id :: uuid
  bt_storage_id :: string
  bt_datastore :: "string option"
  bt_namespace :: "string option"
  bt_is_enabled :: bool
  bt_last_observed_available :: bool
  bt_last_checked_at :: "datetime option"
  bt_created_by_id :: uuid
  bt_version :: int

record backup_run =
  br_id :: uuid
  br_operation_id :: uuid
  br_backup_target_id :: uuid
  br_workload_id :: uuid
  br_organization_id :: "uuid option"
  br_mode :: string
  br_compression :: string
  br_status :: operation_status
  br_snapshot_volume_id :: "string option"
  br_snapshot_time :: "json option" \<comment> \<open>the number of seconds \<open>fromtimestamp\<close> was given\<close>
  br_size_bytes :: "int option"
  br_transferred_bytes :: "int option"
  br_started_at :: "datetime option"
  br_finished_at :: "datetime option"

record restore_run =
  rr_id :: uuid
  rr_operation_id :: uuid
  rr_backup_run_id :: uuid
  rr_cluster_id :: uuid
  rr_source_workload_id :: uuid
  rr_target_node :: string
  rr_target_vmid :: int
  rr_target_name :: string
  rr_status :: operation_status
  rr_started_at :: "datetime option"
  rr_finished_at :: "datetime option"

definition backup_targets_ok :: "backup_target list \<Rightarrow> bool" where
  "backup_targets_ok ts \<longleftrightarrow> distinct (map bt_id ts) \<and> distinct (map (\<lambda>t. (bt_cluster_id t, bt_storage_id t)) ts)"

definition backup_runs_ok :: "backup_run list \<Rightarrow> bool" where
  "backup_runs_ok rs \<longleftrightarrow> distinct (map br_id rs) \<and> distinct (map br_operation_id rs)"

text \<open>\<open>uq_restore_runs_active_target\<close>: one unfinished restore into a VMID of a cluster.\<close>

definition restore_runs_ok :: "restore_run list \<Rightarrow> bool" where
  "restore_runs_ok rs \<longleftrightarrow> distinct (map rr_id rs) \<and> distinct (map rr_operation_id rs) \<and>
     unique_on (\<lambda>r. (rr_cluster_id r, rr_target_vmid r)) (\<lambda>r. active_status (rr_status r)) rs"

end
