(* ===== verification/Ip_Network.thy ===== *)
theory Ip_Network
  imports Prelude
begin

text \<open>
  The part of Python's \<open>ipaddress\<close> module that IPAM, provisioning and the endpoint policy use:
  addresses, networks given by a base address and a prefix length, membership by netmask,
  \<open>overlaps\<close>, and the parsers \<open>ip_address\<close> and \<open>ip_network(..., strict=False)\<close> for both
  families.  The lemmas turn the netmask arithmetic into intervals of integers.
\<close>

unbundle bit_operations_syntax

section \<open>Addresses and networks\<close>

datatype ip_family = V4 | V6

fun max_prefixlen :: "ip_family \<Rightarrow> nat" where
  "max_prefixlen V4 = 32"
| "max_prefixlen V6 = 128"

fun version_number :: "ip_family \<Rightarrow> int" where
  "version_number V4 = 4"
| "version_number V6 = 6"

datatype address = Address (address_version: ip_family) (address_int: int)

datatype network =
  Network (network_version: ip_family) (network_address: int) (prefixlen: nat)

definition all_ones :: "ip_family \<Rightarrow> int" where
  "all_ones v = mask (max_prefixlen v)"

text \<open>\<open>_ALL_ONES ^ (_ALL_ONES >> prefixlen)\<close>\<close>

definition netmask :: "ip_family \<Rightarrow> nat \<Rightarrow> int" where
  "netmask v p = all_ones v XOR drop_bit p (all_ones v)"

definition num_addresses :: "network \<Rightarrow> int" where
  "num_addresses n = 2 ^ (max_prefixlen (network_version n) - prefixlen n)"

definition broadcast_address :: "network \<Rightarrow> int" where
  "broadcast_address n =
     network_address n OR (netmask (network_version n) (prefixlen n) XOR all_ones (network_version n))"

definition mk_network :: "ip_family \<Rightarrow> int \<Rightarrow> nat \<Rightarrow> network" where
  "mk_network v a p = Network v (a AND netmask v p) p"

definition in_network :: "address \<Rightarrow> network \<Rightarrow> bool" where
  "in_network a n \<longleftrightarrow> address_version a = network_version n \<and>
     (address_int a AND netmask (network_version n) (prefixlen n)) = network_address n"

definition overlaps :: "network \<Rightarrow> network \<Rightarrow> bool" where
  "overlaps m n \<longleftrightarrow>
     in_network (Address (network_version n) (network_address n)) m \<or>
     in_network (Address (network_version n) (broadcast_address n)) m \<or>
     in_network (Address (network_version m) (network_address m)) n \<or>
     in_network (Address (network_version m) (broadcast_address m)) n"

definition wf_address :: "address \<Rightarrow> bool" where
  "wf_address a \<longleftrightarrow> 0 \<le> address_int a \<and> address_int a < 2 ^ max_prefixlen (address_version a)"

text \<open>What the constructors of \<open>IPv4Network\<close> and \<open>IPv6Network\<close> guarantee.\<close>

definition wf_network :: "network \<Rightarrow> bool" where
  "wf_network n \<longleftrightarrow> prefixlen n \<le> max_prefixlen (network_version n) \<and>
     0 \<le> network_address n \<and> network_address n < 2 ^ max_prefixlen (network_version n) \<and>
     network_address n mod num_addresses n = 0"

section \<open>Netmasks as intervals\<close>

lemma netmask_bit: "p \<le> max_prefixlen v \<Longrightarrow>
  bit (netmask v p) i \<longleftrightarrow> max_prefixlen v - p \<le> i \<and> i < max_prefixlen v"
  by (auto simp: netmask_def all_ones_def bit_xor_iff bit_drop_bit_eq bit_mask_iff)

lemma and_netmask:
  assumes p: "p \<le> max_prefixlen v" and a: "0 \<le> a" "a < 2 ^ max_prefixlen v"
  shows "a AND netmask v p = a - a mod 2 ^ (max_prefixlen v - p)"
proof -
  let ?k = "max_prefixlen v - p"
  have tb: "take_bit (max_prefixlen v) a = a"
    using a by (simp add: take_bit_int_eq_self)
  have "a AND netmask v p = push_bit ?k (drop_bit ?k a)"
  proof (rule bit_eqI)
    fix i
    have "bit a i \<Longrightarrow> i < max_prefixlen v"
      by (metis tb bit_take_bit_iff)
    then show "bit (a AND netmask v p) i = bit (push_bit ?k (drop_bit ?k a)) i"
      using p by (auto simp: bit_and_iff netmask_bit bit_push_bit_iff bit_drop_bit_eq)
  qed
  also have "\<dots> = a - a mod 2 ^ ?k"
    by (simp add: push_bit_eq_mult drop_bit_eq_div minus_mod_eq_div_mult)
  finally show ?thesis .
qed

lemma num_addresses_pos [simp]: "0 < num_addresses n"
  by (simp add: num_addresses_def)

lemma num_addresses_ge1: "1 \<le> num_addresses n"
  using num_addresses_pos[of n] by linarith

lemma block_of_iff:
  fixes a b s :: int
  assumes "0 < s" "b mod s = 0"
  shows "a - a mod s = b \<longleftrightarrow> b \<le> a \<and> a < b + s"
proof
  assume "a - a mod s = b"
  with pos_mod_bound[OF \<open>0 < s\<close>, of a] pos_mod_sign[OF \<open>0 < s\<close>, of a]
  show "b \<le> a \<and> a < b + s" by linarith
next
  assume r: "b \<le> a \<and> a < b + s"
  have "a mod s = (a - b) mod s" using assms(2) by (metis diff_zero mod_diff_right_eq)
  also have "\<dots> = a - b" using r by (intro mod_pos_pos_trivial) auto
  finally show "a - a mod s = b" by simp
qed

theorem in_network_iff:
  assumes "wf_network n" "wf_address a"
  shows "in_network a n \<longleftrightarrow> address_version a = network_version n \<and>
    network_address n \<le> address_int a \<and> address_int a < network_address n + num_addresses n"
proof (cases "address_version a = network_version n")
  case True
  with assms have "in_network a n \<longleftrightarrow>
      address_int a - address_int a mod num_addresses n = network_address n"
    by (simp add: in_network_def wf_network_def wf_address_def and_netmask num_addresses_def)
  with assms True show ?thesis
    by (simp add: block_of_iff wf_network_def)
qed (simp add: in_network_def)

lemma wf_network_top:
  assumes "wf_network n"
  shows "network_address n + num_addresses n \<le> 2 ^ max_prefixlen (network_version n)"
proof -
  let ?w = "max_prefixlen (network_version n)" and ?s = "num_addresses n"
  have s: "?s dvd 2 ^ ?w" by (auto simp: num_addresses_def intro: le_imp_power_dvd)
  then obtain q where q: "2 ^ ?w = ?s * q" by blast
  obtain b where b: "network_address n = ?s * b"
    using assms by (auto simp: wf_network_def mod_eq_0_iff_dvd)
  have "?s * b < ?s * q" using assms b q by (simp add: wf_network_def)
  then have "b + 1 \<le> q" by (simp add: mult_less_cancel_left_pos)
  then have "?s * (b + 1) \<le> ?s * q" by (simp add: mult_le_cancel_left_pos)
  with b q show ?thesis by (simp add: algebra_simps)
qed

lemma host_mask: "p \<le> max_prefixlen v \<Longrightarrow> netmask v p XOR all_ones v = mask (max_prefixlen v - p)"
  by (rule bit_eqI)
    (auto simp: bit_xor_iff netmask_bit all_ones_def bit_mask_iff)

lemma broadcast_address_eq:
  assumes "wf_network n"
  shows "broadcast_address n = network_address n + num_addresses n - 1"
proof -
  let ?k = "max_prefixlen (network_version n) - prefixlen n"
  obtain b where b: "network_address n = push_bit ?k b"
    using assms by (auto simp: wf_network_def num_addresses_def push_bit_eq_mult mod_eq_0_iff_dvd
        mult.commute elim!: dvdE)
  have "network_address n AND mask ?k = 0"
    by (rule bit_eqI) (auto simp: b bit_and_iff bit_push_bit_iff bit_mask_iff)
  then have "network_address n OR mask ?k = network_address n + mask ?k"
    by (simp add: disjunctive_add bit_eq_iff bit_and_iff)
  with assms show ?thesis
    by (simp add: broadcast_address_def host_mask wf_network_def num_addresses_def mask_eq_exp_minus_1)
qed

lemma wf_network_ends:
  assumes "wf_network n"
  shows "wf_address (Address (network_version n) (network_address n))"
    and "wf_address (Address (network_version n) (broadcast_address n))"
  using assms wf_network_top[OF assms] num_addresses_ge1[of n]
  by (auto simp: wf_address_def wf_network_def broadcast_address_eq)

definition net_range :: "network \<Rightarrow> int set" where
  "net_range n = {network_address n ..< network_address n + num_addresses n}"

text \<open>\<open>overlaps\<close> tests four corners; on well-formed networks that is interval intersection.\<close>

lemma in_network_corner:
  assumes "wf_network m" "wf_network n"
  shows "in_network (Address (network_version n) (network_address n)) m \<longleftrightarrow>
      network_version n = network_version m \<and> network_address n \<in> net_range m"
    and "in_network (Address (network_version n) (broadcast_address n)) m \<longleftrightarrow>
      network_version n = network_version m \<and> network_address n + num_addresses n - 1 \<in> net_range m"
  using in_network_iff[OF assms(1) wf_network_ends(1)[OF assms(2)]]
    in_network_iff[OF assms(1) wf_network_ends(2)[OF assms(2)]]
  by (auto simp: net_range_def broadcast_address_eq[OF assms(2)])

lemma overlaps_iff:
  assumes "wf_network m" "wf_network n"
  shows "overlaps m n \<longleftrightarrow> network_version m = network_version n \<and> net_range m \<inter> net_range n \<noteq> {}"
proof -
  have "net_range m \<inter> net_range n \<noteq> {} \<longleftrightarrow>
      network_address m < network_address n + num_addresses n \<and>
      network_address n < network_address m + num_addresses m"
    using num_addresses_ge1[of m] num_addresses_ge1[of n] by (auto simp: net_range_def)
  then show ?thesis
    using num_addresses_ge1[of m] num_addresses_ge1[of n] assms
    by (auto simp: overlaps_def in_network_corner net_range_def)
qed

lemma overlaps_sym: "overlaps m n \<longleftrightarrow> overlaps n m"
  by (auto simp: overlaps_def)

lemma wf_mk_network:
  assumes "p \<le> max_prefixlen v" "0 \<le> a" "a < 2 ^ max_prefixlen v"
  shows "wf_network (mk_network v a p)"
proof -
  let ?s = "2 ^ (max_prefixlen v - p) :: int"
  have "a mod ?s \<le> a" using assms(2) by (simp add: zmod_le_nonneg_dividend)
  moreover have "0 \<le> a mod ?s" by simp
  moreover have "a - a mod ?s < 2 ^ max_prefixlen v" using assms(3) calculation by linarith
  moreover have "(a - a mod ?s) mod ?s = 0" by (simp add: mod_eq_0_iff_dvd)
  ultimately show ?thesis
    using assms by (simp add: mk_network_def wf_network_def and_netmask num_addresses_def)
qed

section \<open>Parsing\<close>

fun str_split :: "char \<Rightarrow> string \<Rightarrow> string list" where
  "str_split c [] = [[]]"
| "str_split c (x # xs) =
     (if x = c then [] # str_split c xs
      else (case str_split c xs of [] \<Rightarrow> [[x]] | w # ws \<Rightarrow> (x # w) # ws))"

definition digit_val :: "char \<Rightarrow> nat option" where
  "digit_val c = (let n = (of_char c :: nat) in if 48 \<le> n \<and> n \<le> 57 then Some (n - 48) else None)"

definition hex_val :: "char \<Rightarrow> nat option" where
  "hex_val c = (let n = (of_char c :: nat) in
     if 48 \<le> n \<and> n \<le> 57 then Some (n - 48)
     else if 97 \<le> n \<and> n \<le> 102 then Some (n - 87)
     else if 65 \<le> n \<and> n \<le> 70 then Some (n - 55) else None)"

text \<open>\<open>int(s, base)\<close> on a string of digits, most significant first.\<close>

fun digits_value :: "(char \<Rightarrow> nat option) \<Rightarrow> int \<Rightarrow> int \<Rightarrow> string \<Rightarrow> int option" where
  "digits_value dv base acc [] = Some acc"
| "digits_value dv base acc (c # cs) =
     (case dv c of None \<Rightarrow> None | Some d \<Rightarrow> digits_value dv base (base * acc + int d) cs)"

definition parse_octet :: "string \<Rightarrow> int option" where
  "parse_octet s =
     (if s = [] \<or> length s > 3 \<or> (s \<noteq> ''0'' \<and> hd s = CHR ''0'') then None
      else case digits_value digit_val 10 0 s of
        None \<Rightarrow> None | Some n \<Rightarrow> if n > 255 then None else Some n)"

definition ipv4_int :: "string \<Rightarrow> int option" where
  "ipv4_int s = (case map parse_octet (str_split (CHR ''.'') s) of
     [Some a, Some b, Some c, Some d] \<Rightarrow> Some (((a * 256 + b) * 256 + c) * 256 + d)
   | _ \<Rightarrow> None)"

definition parse_hextet :: "string \<Rightarrow> int option" where
  "parse_hextet s = (if s = [] \<or> length s > 4 then None else digits_value hex_val 16 0 s)"

fun hextets :: "int \<Rightarrow> string list \<Rightarrow> int option" where
  "hextets acc [] = Some acc"
| "hextets acc (h # hs) = (case parse_hextet h of None \<Rightarrow> None | Some n \<Rightarrow> hextets (65536 * acc + n) hs)"

text \<open>A trailing dotted quad stands for two hextets.\<close>

definition expand_tail :: "string list \<Rightarrow> string list option" where
  "expand_tail parts =
     (if CHR ''.'' \<in> set (last parts) then
        (case ipv4_int (last parts) of None \<Rightarrow> None
         | Some n \<Rightarrow> Some (butlast parts @ [hex_digits 4 (n div 65536), hex_digits 4 (n mod 65536)]))
      else Some parts)"

text \<open>Positions \<open>0 < i < len - 1\<close> of empty parts: where \<open>::\<close> was.\<close>

definition skip_indices :: "string list \<Rightarrow> nat list" where
  "skip_indices parts = filter (\<lambda>i. parts ! i = []) [1 ..< length parts - 1]"

definition ipv6_parts :: "string list \<Rightarrow> int option" where
  "ipv6_parts parts =
     (case skip_indices parts of
        [] \<Rightarrow> if length parts \<noteq> 8 then None else hextets 0 parts
      | [k] \<Rightarrow>
         (let hi = (if hd parts = [] then k - 1 else k);
              lo = (if last parts = [] then length parts - k - 2 else length parts - k - 1) in
          if hd parts = [] \<and> hi \<noteq> 0 \<or> last parts = [] \<and> lo \<noteq> 0 \<or> hi + lo \<ge> 8 then None
          else (case hextets 0 (take hi parts) of None \<Rightarrow> None
            | Some a \<Rightarrow> hextets (a * 65536 ^ (8 - (hi + lo)))
                (if lo = 0 then [] else drop (length parts - lo) parts)))
      | _ \<Rightarrow> None)"

text \<open>A zone identifier after \<open>%\<close> must be one non-empty word; the integer does not depend on it.\<close>

definition ipv6_int :: "string \<Rightarrow> int option" where
  "ipv6_int s =
     (case str_split (CHR ''%'') s of
        [] \<Rightarrow> None
      | a # zs \<Rightarrow>
         if zs \<noteq> [] \<and> (length zs \<noteq> 1 \<or> hd zs = []) then None
         else (let parts = str_split (CHR '':'') a in
           if length parts < 3 then None
           else case expand_tail parts of None \<Rightarrow> None
             | Some ps \<Rightarrow> if length ps > 9 then None else ipv6_parts ps))"

definition parse_address :: "string \<Rightarrow> address option" where
  "parse_address s = (case ipv4_int s of
     Some n \<Rightarrow> Some (Address V4 n)
   | None \<Rightarrow> (case ipv6_int s of Some n \<Rightarrow> Some (Address V6 n) | None \<Rightarrow> None))"

definition parse_prefix :: "ip_family \<Rightarrow> string \<Rightarrow> nat option" where
  "parse_prefix v s = (if s = [] then None else case digits_value digit_val 10 0 s of None \<Rightarrow> None
     | Some n \<Rightarrow> if n > int (max_prefixlen v) then None else Some (nat n))"

text \<open>\<open>_prefix_from_ip_string\<close>: a netmask, else a hostmask, of contiguous bits.\<close>

definition prefix_of_mask :: "int \<Rightarrow> nat option" where
  "prefix_of_mask m =
     (case find (\<lambda>p. netmask V4 p = m) [0 ..< 33] of
        Some p \<Rightarrow> Some p
      | None \<Rightarrow> find (\<lambda>p. netmask V4 p XOR all_ones V4 = m) [0 ..< 33])"

definition ipv4_mask :: "string \<Rightarrow> nat option" where
  "ipv4_mask s = (case parse_prefix V4 s of Some p \<Rightarrow> Some p
     | None \<Rightarrow> (case ipv4_int s of None \<Rightarrow> None | Some m \<Rightarrow> prefix_of_mask m))"

definition parse_network_parts :: "string \<Rightarrow> (ip_family \<times> int \<times> nat) option" where
  "parse_network_parts s =
     (let ws = str_split (CHR ''/'') s; a = hd ws in
      if length ws > 2 then None
      else (case (ipv4_int a, if length ws = 1 then Some 32 else ipv4_mask (ws ! 1)) of
        (Some n, Some p) \<Rightarrow> Some (V4, n, p)
      | _ \<Rightarrow> (case (ipv6_int a, if length ws = 1 then Some 128 else parse_prefix V6 (ws ! 1)) of
          (Some n, Some p) \<Rightarrow> Some (V6, n, p)
        | _ \<Rightarrow> None)))"

definition parse_network :: "string \<Rightarrow> network option" where
  "parse_network s = (case parse_network_parts s of
     Some (v, n, p) \<Rightarrow> Some (mk_network v n p) | None \<Rightarrow> None)"

section \<open>Printing\<close>

definition ipv4_str :: "int \<Rightarrow> string" where
  "ipv4_str n = int_str (n div 16777216) @ ''.'' @ int_str (n div 65536 mod 256) @ ''.'' @
     int_str (n div 256 mod 256) @ ''.'' @ int_str (n mod 256)"

fun join_str :: "string \<Rightarrow> string list \<Rightarrow> string" where
  "join_str sep [] = []"
| "join_str sep [x] = x"
| "join_str sep (x # xs) = x @ sep @ join_str sep xs"

text \<open>\<open>_compress_hextets\<close>: the leftmost longest run of zero hextets, as (start, length).\<close>

fun zero_run :: "nat \<Rightarrow> nat \<Rightarrow> nat \<Rightarrow> nat \<times> nat \<Rightarrow> int list \<Rightarrow> nat \<times> nat" where
  "zero_run i cs cl best [] = best"
| "zero_run i cs cl best (h # hs) =
     (if h = 0 then
        (let cs' = (if cl = 0 then i else cs); cl' = Suc cl in
         zero_run (Suc i) cs' cl' (if cl' > snd best then (cs', cl') else best) hs)
      else zero_run (Suc i) 0 0 best hs)"

definition ipv6_str :: "int \<Rightarrow> string" where
  "ipv6_str n =
     (let hs = map (\<lambda>k. n div 65536 ^ k mod 65536) [7, 6, 5, 4, 3, 2, 1, 0];
          (st, len) = zero_run 0 0 0 (0, 0) hs;
          ws = map (\<lambda>h. int_digits 16 h) hs in
      join_str '':''
        (if len > 1 then
           (if st = 0 then [[]] else []) @ take st ws @ [[]] @ drop (st + len) ws @
           (if st + len = 8 then [[]] else [])
         else ws))"

definition address_str :: "address \<Rightarrow> string" where
  "address_str a = (case address_version a of V4 \<Rightarrow> ipv4_str (address_int a) | V6 \<Rightarrow> ipv6_str (address_int a))"

definition network_str :: "network \<Rightarrow> string" where
  "network_str n = address_str (Address (network_version n) (network_address n)) @ ''/'' @ int_str (int (prefixlen n))"

lemma parse_network_examples:
  "parse_network ''10.0.1.7/24'' = Some (Network V4 167772416 24)"
  "parse_network ''10.0.1.0/255.255.255.0'' = Some (Network V4 167772416 24)"
  "parse_network ''2001:db8::/64'' = Some (Network V6 42540766411282592856903984951653826560 64)"
  "parse_network ''10.0.1'' = None"
  "parse_address ''::ffff:10.0.0.1'' = Some (Address V6 281470849515521)"
  "parse_address ''10.0.0.01'' = None"
  "network_str (Network V4 167772416 24) = ''10.0.1.0/24''"
  "network_str (Network V6 42540766411282592856903984951653826560 64) = ''2001:db8::/64''"
  by code_simp+

section \<open>Parsed values are well-formed\<close>

lemma digit_val_bound: "digit_val c = Some d \<Longrightarrow> int d < 10"
  by (auto simp: digit_val_def Let_def split: if_splits)

lemma hex_val_bound: "hex_val c = Some d \<Longrightarrow> int d < 16"
  by (auto simp: hex_val_def Let_def split: if_splits)

text \<open>Appending \<open>k\<close> digits to \<open>acc\<close> stays in the block of \<open>acc\<close>.\<close>

lemma shift_step:
  fixes acc b n r m :: int
  assumes "0 \<le> n" "n < b" "0 < m" "r < m * (b * acc + n + 1)"
  shows "r < b * m * (acc + 1)"
proof -
  have "m * (b * acc + n + 1) \<le> m * (b * acc + b)" using assms by (intro mult_left_mono) auto
  with assms(4) show ?thesis by (simp add: algebra_simps)
qed

lemma digits_value_bound:
  assumes "digits_value dv b acc s = Some r" "\<And>c d. dv c = Some d \<Longrightarrow> int d < b" "0 \<le> acc" "0 < b"
  shows "0 \<le> r \<and> r < b ^ length s * (acc + 1)"
  using assms
proof (induction s arbitrary: acc)
  case (Cons c s)
  then obtain d where d: "dv c = Some d" "digits_value dv b (b * acc + int d) s = Some r" "int d < b"
    by (auto split: option.splits)
  with Cons.IH[OF d(2)] Cons.prems have "0 \<le> r \<and> r < b ^ length s * (b * acc + int d + 1)" by simp
  with d Cons.prems shift_step[of "int d" b "b ^ length s" r acc] show ?case by simp
qed simp

lemma parse_octet_bound: "parse_octet s = Some n \<Longrightarrow> 0 \<le> n \<and> n \<le> 255"
  using digits_value_bound[OF _ digit_val_bound, where acc = 0 and s = s and r = n]
  by (auto simp: parse_octet_def split: if_splits option.splits)

lemma ipv4_int_bound: "ipv4_int s = Some n \<Longrightarrow> 0 \<le> n \<and> n < 2 ^ 32"
  by (auto simp: ipv4_int_def split: list.splits option.splits dest!: parse_octet_bound)

lemma parse_hextet_bound: "parse_hextet s = Some n \<Longrightarrow> 0 \<le> n \<and> n < 65536"
proof -
  assume h: "parse_hextet s = Some n"
  then have len: "length s \<le> 4" and v: "digits_value hex_val 16 0 s = Some n"
    by (auto simp: parse_hextet_def split: if_splits)
  have "0 \<le> n \<and> n < 16 ^ length s" using digits_value_bound[OF v hex_val_bound] by simp
  moreover have "(16::int) ^ length s \<le> 16 ^ 4" using len by (intro power_increasing) auto
  ultimately show ?thesis by simp
qed

lemma hextets_bound:
  "hextets acc hs = Some r \<Longrightarrow> 0 \<le> acc \<Longrightarrow> 0 \<le> r \<and> r < 65536 ^ length hs * (acc + 1)"
proof (induction acc hs rule: hextets.induct)
  case (2 acc h hs)
  then obtain n where n: "parse_hextet h = Some n" "hextets (65536 * acc + n) hs = Some r"
    by (auto split: option.splits)
  with 2 parse_hextet_bound[OF n(1)] have "0 \<le> r \<and> r < 65536 ^ length hs * (65536 * acc + n + 1)" by simp
  with parse_hextet_bound[OF n(1)] shift_step[of n 65536 "65536 ^ length hs" r acc] show ?case by simp
qed simp

lemma ipv6_parts_bound:
  assumes "ipv6_parts parts = Some n"
  shows "0 \<le> n \<and> n < 2 ^ 128"
proof (cases "skip_indices parts")
  case Nil
  with assms show ?thesis
    by (auto simp: ipv6_parts_def split: if_splits dest: hextets_bound)
next
  case (Cons k ks)
  define hi where "hi = (if hd parts = [] then k - 1 else k)"
  define lo where "lo = (if last parts = [] then length parts - k - 2 else length parts - k - 1)"
  define B :: int where "B = 65536"
  from assms Cons obtain a where hl: "hi + lo < 8" and a: "hextets 0 (take hi parts) = Some a"
    and n: "hextets (a * B ^ (8 - (hi + lo))) (if lo = 0 then [] else drop (length parts - lo) parts) = Some n"
    by (auto simp: ipv6_parts_def Let_def hi_def lo_def B_def split: if_splits list.splits option.splits)
  have "0 \<le> a \<and> a < B ^ length (take hi parts)" using hextets_bound[OF a] by (simp add: B_def)
  moreover have "B ^ length (take hi parts) \<le> B ^ hi" by (intro power_increasing) (auto simp: B_def)
  ultimately have a': "0 \<le> a" "a + 1 \<le> B ^ hi" by linarith+
  let ?S = "B ^ (8 - (hi + lo))" and ?d = "if lo = 0 then [] else drop (length parts - lo) parts"
  have S: "1 \<le> ?S" by (simp add: B_def)
  have "length ?d \<le> lo" by (simp, arith)
  then have d: "B ^ length ?d \<le> B ^ lo" by (intro power_increasing) (auto simp: B_def)
  have n': "0 \<le> n" "n < B ^ length ?d * (a * ?S + 1)"
    using hextets_bound[OF n] a' S by (auto simp: B_def)
  have "a * ?S + 1 \<le> (a + 1) * ?S" using S by (simp add: algebra_simps)
  also have "\<dots> \<le> B ^ hi * ?S" using a' S by (intro mult_right_mono) auto
  finally have "B ^ length ?d * (a * ?S + 1) \<le> B ^ lo * (B ^ hi * ?S)"
    using d a' S by (intro mult_mono) (auto simp: B_def)
  also have "\<dots> = B ^ 8" using hl by (simp flip: power_add)
  finally show ?thesis using n' by (simp add: B_def)
qed

lemma ipv6_int_bound: "ipv6_int s = Some n \<Longrightarrow> 0 \<le> n \<and> n < 2 ^ 128"
  by (auto simp: ipv6_int_def Let_def split: list.splits option.splits if_splits dest: ipv6_parts_bound)

lemma parse_prefix_bound: "parse_prefix v s = Some p \<Longrightarrow> p \<le> max_prefixlen v"
  by (auto simp: parse_prefix_def split: if_splits option.splits)

lemma ipv4_mask_bound: "ipv4_mask s = Some p \<Longrightarrow> p \<le> 32"
  by (auto simp: ipv4_mask_def prefix_of_mask_def find_Some_iff less_Suc_eq_le
      split: option.splits dest: parse_prefix_bound)

lemma parse_network_wf: "parse_network s = Some n \<Longrightarrow> wf_network n"
  by (auto simp: parse_network_def parse_network_parts_def Let_def
      split: option.splits if_splits prod.splits
      intro!: wf_mk_network
      dest: ipv4_int_bound ipv6_int_bound parse_prefix_bound ipv4_mask_bound)

lemma parse_address_wf: "parse_address s = Some a \<Longrightarrow> wf_address a"
  by (auto simp: parse_address_def wf_address_def split: option.splits
      dest: ipv4_int_bound ipv6_int_bound)

end
