(* ===== verification/Models_Ipam.thy ===== *)
theory Models_Ipam
  imports Ip_Network
begin

text \<open>
  Rows of src/backend/app/models/ipam.py and the constraints of their tables.  \<open>CIDR\<close> and
  \<open>INET\<close> columns hold parsed values; \<open>next_offset\<close>, a \<open>NUMERIC(39, 0)\<close>, is an integer.
\<close>

datatype ip_address_state =
  Addr_AVAILABLE | Addr_RESERVED | Addr_ASSIGNED | Addr_QUARANTINED | Addr_DISABLED

datatype ip_allocation_kind = Kind_AUTOMATIC | Kind_MANUAL

fun ip_allocation_kind_value :: "ip_allocation_kind \<Rightarrow> string" where
  "ip_allocation_kind_value Kind_AUTOMATIC = ''AUTOMATIC''"
| "ip_allocation_kind_value Kind_MANUAL = ''MANUAL''"

datatype ip_allocation_status = Alloc_RESERVED | Alloc_ASSIGNED | Alloc_QUARANTINED | Alloc_RELEASED

datatype allocation_strategy = SEQUENTIAL | RANDOM

fun allocation_strategy_value :: "allocation_strategy \<Rightarrow> string" where
  "allocation_strategy_value SEQUENTIAL = ''SEQUENTIAL''"
| "allocation_strategy_value RANDOM = ''RANDOM''"

record ip_pool =
  pool_id :: uuid
  pool_name :: string
  pool_cluster_id :: "uuid option"
  pool_cidr :: network
  pool_gateway :: "address option"
  pool_dns_servers :: "address list"
  pool_bridge :: string
  pool_vlan_tag :: "int option"
  pool_ip_family :: int
  pool_allocation_strategy :: allocation_strategy
  pool_quarantine_seconds :: int
  pool_next_offset :: int
  pool_is_active :: bool
  pool_created_by_id :: uuid
  pool_version :: int

record ip_pool_exclusion =
  ex_id :: uuid
  ex_pool_id :: uuid
  ex_start_address :: address
  ex_end_address :: address
  ex_reason :: "string option"

record ip_address =
  addr_id :: uuid
  addr_pool_id :: uuid
  addr_address :: address
  addr_state :: ip_address_state
  addr_reserved_for :: "string option"
  addr_quarantined_until :: "datetime option"
  addr_last_allocated_at :: "datetime option"
  addr_version :: int

record ip_allocation =
  alloc_id :: uuid
  alloc_ip_address_id :: uuid
  alloc_workload_id :: "uuid option"
  alloc_provisioning_request_id :: "uuid option"
  alloc_kind :: ip_allocation_kind
  alloc_status :: ip_allocation_status
  alloc_allocated_by_id :: uuid
  alloc_allocated_at :: datetime
  alloc_confirmed_at :: "datetime option"
  alloc_released_at :: "datetime option"
  alloc_release_reason :: "string option"
  alloc_version :: int

fun active_allocation :: "ip_allocation_status \<Rightarrow> bool" where
  "active_allocation Alloc_RELEASED = False"
| "active_allocation _ = True"

definition ip_pool_check :: "ip_pool \<Rightarrow> bool" where
  "ip_pool_check p \<longleftrightarrow> pool_ip_family p \<in> {4, 6} \<and>
     (case pool_vlan_tag p of None \<Rightarrow> True | Some t \<Rightarrow> 1 \<le> t \<and> t \<le> 4094) \<and>
     0 \<le> pool_quarantine_seconds p"

definition ip_pools_ok :: "ip_pool list \<Rightarrow> bool" where
  "ip_pools_ok ps \<longleftrightarrow> distinct (map pool_id ps) \<and> distinct (map pool_name ps) \<and>
     list_all ip_pool_check ps"

definition exclusions_ok :: "ip_pool_exclusion list \<Rightarrow> bool" where
  "exclusions_ok es \<longleftrightarrow> distinct (map ex_id es) \<and>
     distinct (map (\<lambda>e. (ex_pool_id e, ex_start_address e, ex_end_address e)) es)"

definition ip_addresses_ok :: "ip_address list \<Rightarrow> bool" where
  "ip_addresses_ok xs \<longleftrightarrow> distinct (map addr_id xs) \<and>
     distinct (map (\<lambda>a. (addr_pool_id a, addr_address a)) xs)"

definition ip_allocations_ok :: "ip_allocation list \<Rightarrow> bool" where
  "ip_allocations_ok xs \<longleftrightarrow> distinct (map alloc_id xs) \<and>
     unique_on alloc_ip_address_id (\<lambda>a. active_allocation (alloc_status a)) xs \<and>
     unique_on alloc_provisioning_request_id
       (\<lambda>a. alloc_provisioning_request_id a \<noteq> None \<and> active_allocation (alloc_status a)) xs"

end
