(* ===== verification/Models_Provisioning.thy ===== *)
theory Models_Provisioning
  imports Ip_Network
begin

text \<open>
  Rows of src/backend/app/models/provisioning.py: the catalog (products, templates, nodes), the
  provisioning requests and their steps; with the constraints of their tables.
\<close>

datatype provisioning_status =
  Prov_QUEUED | Prov_RUNNING | Prov_SUCCEEDED | Prov_FAILED | Prov_MANUAL_REVIEW

fun provisioning_terminal :: "provisioning_status \<Rightarrow> bool" where
  "provisioning_terminal Prov_QUEUED = False"
| "provisioning_terminal Prov_RUNNING = False"
| "provisioning_terminal _ = True"

datatype provisioning_step_status = Step_PENDING | Step_RUNNING | Step_SUCCEEDED | Step_FAILED

datatype template_os_type = LINUX | WINDOWS

fun template_os_type_value :: "template_os_type \<Rightarrow> string" where
  "template_os_type_value LINUX = ''LINUX''"
| "template_os_type_value WINDOWS = ''WINDOWS''"

record product =
  prod_id :: uuid
  prod_name :: string
  prod_cpu_cores :: int
  prod_memory_bytes :: int
  prod_disk_bytes :: int
  prod_is_enabled :: bool
  prod_created_by_id :: uuid

record template =
  tmpl_id :: uuid
  tmpl_name :: string
  tmpl_source_workload_id :: uuid
  tmpl_source_disk :: string
  tmpl_default_storage :: string
  tmpl_default_bridge :: string
  tmpl_default_vlan_tag :: "int option"
  tmpl_cloud_init_enabled :: bool
  tmpl_linux_only :: bool
  tmpl_os_type :: template_os_type
  tmpl_is_enabled :: bool
  tmpl_created_by_id :: uuid

record provisioning_node =
  node_id :: uuid
  node_cluster_id :: uuid
  node_name :: string
  node_is_enabled :: bool
  node_is_maintenance :: bool
  node_available_memory_bytes :: int
  node_available_storage_bytes :: int
  node_last_selected_at :: "datetime option"

record provisioning_request =
  req_id :: uuid
  req_requested_by_id :: uuid
  req_idempotency_key_hash :: bytes
  req_request_fingerprint :: bytes
  req_product_id :: uuid
  req_template_id :: uuid
  req_organization_id :: uuid
  req_target_cluster_id :: uuid
  req_target_node_id :: "uuid option"
  req_target_vmid :: "int option"
  req_target_name :: string
  req_ip_pool_id :: uuid
  req_requested_ip_address :: "address option"
  req_ip_address_id :: "uuid option"
  req_workload_id :: "uuid option"
  req_status :: provisioning_status
  req_current_step :: string
  req_spec_snapshot :: dict
  req_initial_password_ciphertext :: "bytes option"
  req_initial_password_nonce :: "bytes option"
  req_initial_password_key_version :: "string option"
  req_initial_password_cleared_at :: "datetime option"
  req_celery_task_id :: string
  req_clone_submitted :: bool
  req_error_code :: "string option"
  req_error_summary :: "string option"
  req_requested_at :: datetime
  req_started_at :: "datetime option"
  req_finished_at :: "datetime option"
  req_heartbeat_at :: "datetime option"
  req_runner_id :: "uuid option"
  req_lease_expires_at :: "datetime option"
  req_version :: int

record provisioning_step =
  step_id :: uuid
  step_request_id :: uuid
  step_order :: int
  step_name :: string
  step_status :: provisioning_step_status
  step_attempt_count :: int
  step_pve_upid :: "string option"
  step_safe_result :: dict
  step_error_code :: "string option"
  step_error_summary :: "string option"
  step_started_at :: "datetime option"
  step_finished_at :: "datetime option"

definition products_ok :: "product list \<Rightarrow> bool" where
  "products_ok ps \<longleftrightarrow> distinct (map prod_id ps) \<and> distinct (map prod_name ps) \<and>
     list_all (\<lambda>p. 0 < prod_cpu_cores p \<and> 0 < prod_memory_bytes p \<and> 0 < prod_disk_bytes p) ps"

definition templates_ok :: "template list \<Rightarrow> bool" where
  "templates_ok ts \<longleftrightarrow> distinct (map tmpl_id ts) \<and> distinct (map tmpl_name ts) \<and>
     distinct (map tmpl_source_workload_id ts) \<and>
     list_all (\<lambda>t. tmpl_os_type t = LINUX \<and> tmpl_linux_only t \<or>
                   tmpl_os_type t = WINDOWS \<and> \<not> tmpl_linux_only t) ts"

definition nodes_ok :: "provisioning_node list \<Rightarrow> bool" where
  "nodes_ok ns \<longleftrightarrow> distinct (map node_id ns) \<and>
     distinct (map (\<lambda>n. (node_cluster_id n, node_name n)) ns)"

text \<open>\<open>uq_provisioning_active_vmid\<close>: every status but \<open>FAILED\<close> keeps its VMID.\<close>

definition holds_vmid :: "provisioning_request \<Rightarrow> bool" where
  "holds_vmid r \<longleftrightarrow> req_target_vmid r \<noteq> None \<and> req_status r \<noteq> Prov_FAILED"

definition requests_ok :: "provisioning_request list \<Rightarrow> bool" where
  "requests_ok rs \<longleftrightarrow> distinct (map req_id rs) \<and>
     distinct (map (\<lambda>r. (req_requested_by_id r, req_idempotency_key_hash r)) rs) \<and>
     unique_on (\<lambda>r. (req_target_cluster_id r, req_target_vmid r)) holds_vmid rs"

definition steps_ok :: "provisioning_step list \<Rightarrow> bool" where
  "steps_ok xs \<longleftrightarrow> distinct (map step_id xs) \<and>
     distinct (map (\<lambda>s. (step_request_id s, step_order s)) xs) \<and>
     distinct (map (\<lambda>s. (step_request_id s, step_name s)) xs)"

end
