(* ===== verification/Database.thy ===== *)
theory Database
  imports Models_Auth Models_Operation Models_Ipam Models_Provisioning
begin

text \<open>
  The database the services share: one table per model, and the integrity check PostgreSQL
  makes on commit (primary keys, unique constraints and partial unique indexes, check
  constraints, foreign keys).  A request handler works on a copy of the state and either
  commits it whole or leaves the stored one untouched, as the SQLAlchemy session does; row
  locks and advisory locks serialise the transactions, so a handler is one atomic step.
\<close>

record db =
  users :: "user list"
  organizations :: "organization list"
  members :: "organization_member list"
  refresh_tokens :: "refresh_token list"
  login_throttles :: "login_throttle list"
  clusters :: "cluster list"
  credentials :: "cluster_credential list"
  workloads :: "workload list"
  assignments :: "workload_assignment list"
  operations :: "operation list"
  pve_tasks :: "pve_task list"
  ip_pools :: "ip_pool list"
  exclusions :: "ip_pool_exclusion list"
  ip_addresses :: "ip_address list"
  ip_allocations :: "ip_allocation list"
  products :: "product list"
  templates :: "template list"
  nodes :: "provisioning_node list"
  requests :: "provisioning_request list"
  steps :: "provisioning_step list"
  backup_targets :: "backup_target list"
  backup_runs :: "backup_run list"
  restore_runs :: "restore_run list"
  audit_logs :: "audit_log list"

definition empty_db :: db where
  "empty_db = \<lparr>users = [], organizations = [], members = [], refresh_tokens = [],
     login_throttles = [], clusters = [], credentials = [], workloads = [], assignments = [],
     operations = [], pve_tasks = [], ip_pools = [], exclusions = [], ip_addresses = [],
     ip_allocations = [], products = [], templates = [], nodes = [], requests = [], steps = [],
     backup_targets = [], backup_runs = [], restore_runs = [], audit_logs = []\<rparr>"

text \<open>A foreign key: every value of the column names a row of the target (\<open>NULL\<close> is allowed).\<close>

abbreviation get_user :: "db \<Rightarrow> uuid \<Rightarrow> user option" where
  "get_user d i \<equiv> get_row user_id (users d) i"

definition fk :: "('r \<Rightarrow> uuid) \<Rightarrow> 'r list \<Rightarrow> ('t \<Rightarrow> uuid) \<Rightarrow> 't list \<Rightarrow> bool" where
  "fk col rows key targets \<longleftrightarrow> list_all (\<lambda>r. col r \<in> set (map key targets)) rows"

definition fk_opt :: "('r \<Rightarrow> uuid option) \<Rightarrow> 'r list \<Rightarrow> ('t \<Rightarrow> uuid) \<Rightarrow> 't list \<Rightarrow> bool" where
  "fk_opt col rows key targets \<longleftrightarrow>
     list_all (\<lambda>r. case col r of None \<Rightarrow> True | Some k \<Rightarrow> k \<in> set (map key targets)) rows"

definition ipam_fks :: "db \<Rightarrow> bool" where
  "ipam_fks d \<longleftrightarrow>
     fk_opt pool_cluster_id (ip_pools d) cl_id (clusters d) \<and>
     fk pool_created_by_id (ip_pools d) user_id (users d) \<and>
     fk ex_pool_id (exclusions d) pool_id (ip_pools d) \<and>
     fk addr_pool_id (ip_addresses d) pool_id (ip_pools d) \<and>
     fk alloc_ip_address_id (ip_allocations d) addr_id (ip_addresses d) \<and>
     fk_opt alloc_workload_id (ip_allocations d) wl_id (workloads d) \<and>
     fk_opt alloc_provisioning_request_id (ip_allocations d) req_id (requests d) \<and>
     fk alloc_allocated_by_id (ip_allocations d) user_id (users d)"

definition operation_fks :: "db \<Rightarrow> bool" where
  "operation_fks d \<longleftrightarrow>
     fk wl_cluster_id (workloads d) cl_id (clusters d) \<and>
     fk_opt wl_organization_id (workloads d) org_id (organizations d) \<and>
     fk wa_workload_id (assignments d) wl_id (workloads d) \<and>
     fk wa_organization_id (assignments d) org_id (organizations d) \<and>
     fk wa_assigned_by_id (assignments d) user_id (users d) \<and>
     fk_opt wa_revoked_by_id (assignments d) user_id (users d) \<and>
     fk op_requested_by_id (operations d) user_id (users d) \<and>
     fk_opt op_organization_id (operations d) org_id (organizations d) \<and>
     fk op_cluster_id (operations d) cl_id (clusters d) \<and>
     fk op_workload_id (operations d) wl_id (workloads d) \<and>
     fk pt_operation_id (pve_tasks d) op_id (operations d) \<and>
     fk pt_cluster_id (pve_tasks d) cl_id (clusters d) \<and>
     fk pt_workload_id (pve_tasks d) wl_id (workloads d)"

definition provisioning_fks :: "db \<Rightarrow> bool" where
  "provisioning_fks d \<longleftrightarrow>
     fk prod_created_by_id (products d) user_id (users d) \<and>
     fk tmpl_created_by_id (templates d) user_id (users d) \<and>
     fk tmpl_source_workload_id (templates d) wl_id (workloads d) \<and>
     fk node_cluster_id (nodes d) cl_id (clusters d) \<and>
     fk req_requested_by_id (requests d) user_id (users d) \<and>
     fk req_product_id (requests d) prod_id (products d) \<and>
     fk req_template_id (requests d) tmpl_id (templates d) \<and>
     fk req_organization_id (requests d) org_id (organizations d) \<and>
     fk req_target_cluster_id (requests d) cl_id (clusters d) \<and>
     fk_opt req_target_node_id (requests d) node_id (nodes d) \<and>
     fk req_ip_pool_id (requests d) pool_id (ip_pools d) \<and>
     fk_opt req_ip_address_id (requests d) addr_id (ip_addresses d) \<and>
     fk_opt req_workload_id (requests d) wl_id (workloads d) \<and>
     fk step_request_id (steps d) req_id (requests d)"

definition backup_fks :: "db \<Rightarrow> bool" where
  "backup_fks d \<longleftrightarrow>
     fk bt_cluster_id (backup_targets d) cl_id (clusters d) \<and>
     fk bt_created_by_id (backup_targets d) user_id (users d) \<and>
     fk br_operation_id (backup_runs d) op_id (operations d) \<and>
     fk br_backup_target_id (backup_runs d) bt_id (backup_targets d) \<and>
     fk br_workload_id (backup_runs d) wl_id (workloads d) \<and>
     fk_opt br_organization_id (backup_runs d) org_id (organizations d) \<and>
     fk rr_operation_id (restore_runs d) op_id (operations d) \<and>
     fk rr_backup_run_id (restore_runs d) br_id (backup_runs d) \<and>
     fk rr_cluster_id (restore_runs d) cl_id (clusters d) \<and>
     fk rr_source_workload_id (restore_runs d) wl_id (workloads d)"

definition auth_fks :: "db \<Rightarrow> bool" where
  "auth_fks d \<longleftrightarrow>
     fk_opt user_created_by_id (users d) user_id (users d) \<and>
     fk org_created_by_id (organizations d) user_id (users d) \<and>
     fk mem_added_by_id (members d) user_id (users d) \<and>
     fk mem_organization_id (members d) org_id (organizations d) \<and>
     fk mem_user_id (members d) user_id (users d) \<and>
     fk rt_user_id (refresh_tokens d) user_id (users d) \<and>
     fk_opt rt_parent_id (refresh_tokens d) rt_id (refresh_tokens d) \<and>
     fk_opt rt_replaced_by_id (refresh_tokens d) rt_id (refresh_tokens d) \<and>
     fk cred_cluster_id (credentials d) cl_id (clusters d)"

definition tables_ok :: "db \<Rightarrow> bool" where
  "tables_ok d \<longleftrightarrow>
     users_ok (users d) \<and> organizations_ok (organizations d) \<and> members_ok (members d) \<and>
     refresh_tokens_ok (refresh_tokens d) \<and> login_throttles_ok (login_throttles d) \<and>
     clusters_ok (clusters d) \<and> credentials_ok (credentials d) \<and>
     workloads_ok (workloads d) \<and> assignments_ok (assignments d) \<and>
     operations_ok (operations d) \<and> pve_tasks_ok (pve_tasks d) \<and>
     ip_pools_ok (ip_pools d) \<and> exclusions_ok (exclusions d) \<and>
     ip_addresses_ok (ip_addresses d) \<and> ip_allocations_ok (ip_allocations d) \<and>
     products_ok (products d) \<and> templates_ok (templates d) \<and> nodes_ok (nodes d) \<and>
     requests_ok (requests d) \<and> steps_ok (steps d) \<and>
     backup_targets_ok (backup_targets d) \<and> backup_runs_ok (backup_runs d) \<and>
     restore_runs_ok (restore_runs d)"

definition integrity :: "db \<Rightarrow> bool" where
  "integrity d \<longleftrightarrow> tables_ok d \<and> auth_fks d \<and> ipam_fks d \<and> operation_fks d \<and> provisioning_fks d \<and>
     backup_fks d"

lemmas integrity_defs = integrity_def tables_ok_def auth_fks_def ipam_fks_def operation_fks_def
  provisioning_fks_def backup_fks_def

text \<open>
  A handler returns its result and the stored state it leaves: an exception raised before a
  commit leaves the old state, one raised after a commit does not undo it.
\<close>

type_synonym 'a outcome = "'a result \<times> db"

definition try_in :: "db \<Rightarrow> 'x result \<Rightarrow> ('x \<Rightarrow> 'a outcome) \<Rightarrow> 'a outcome" where
  "try_in d r k = (case r of Inl e \<Rightarrow> (Inl e, d) | Inr x \<Rightarrow> k x)"

text \<open>\<open>session.commit()\<close> of the working state \<open>d'\<close>, raising \<open>e\<close> on an \<open>IntegrityError\<close>.\<close>

definition commit_in :: "db \<Rightarrow> exn \<Rightarrow> db \<Rightarrow> 'a result \<Rightarrow> 'a outcome" where
  "commit_in d e d' r = (if integrity d' then (r, d') else (Inl e, d))"

lemma try_in_simps [simp]:
  "try_in d (Inl e) k = (Inl e, d)"
  "try_in d (Inr x) k = k x"
  by (simp_all add: try_in_def)

lemma try_in_eq: "try_in d r k = o' \<longleftrightarrow> (\<exists>e. r = Inl e \<and> o' = (Inl e, d)) \<or> (\<exists>x. r = Inr x \<and> k x = o')"
  by (cases r) auto

lemma commit_in_eq:
  "commit_in d e d' r = (r', d'') \<longleftrightarrow>
     integrity d' \<and> r' = r \<and> d'' = d' \<or> \<not> integrity d' \<and> r' = Inl e \<and> d'' = d"
  by (auto simp: commit_in_def)

lemmas outcome_simps = try_in_eq commit_in_eq

lemma integrity_empty: "integrity empty_db"
  by (simp add: integrity_defs empty_db_def backup_targets_ok_def backup_runs_ok_def restore_runs_ok_def users_ok_def organizations_ok_def members_ok_def
      refresh_tokens_ok_def login_throttles_ok_def clusters_ok_def credentials_ok_def
      workloads_ok_def assignments_ok_def operations_ok_def pve_tasks_ok_def ip_pools_ok_def
      exclusions_ok_def ip_addresses_ok_def ip_allocations_ok_def products_ok_def
      templates_ok_def nodes_ok_def requests_ok_def steps_ok_def unique_on_def fk_def fk_opt_def)

text \<open>The uniqueness facts the component proofs read off a committed state.\<close>

lemma integrity_distinct:
  assumes "integrity d"
  shows "distinct (map pool_id (ip_pools d))"
    and "distinct (map addr_id (ip_addresses d))"
    and "distinct (map alloc_id (ip_allocations d))"
    and "distinct (map op_id (operations d))"
    and "distinct (map wl_id (workloads d))"
    and "distinct (map req_id (requests d))"
    and "distinct (map node_id (nodes d))"
  using assms by (auto simp: integrity_def tables_ok_def ip_pools_ok_def ip_addresses_ok_def
      ip_allocations_ok_def operations_ok_def workloads_ok_def requests_ok_def nodes_ok_def)

text \<open>Writes that leave the referencing columns alone.\<close>

lemma fk_map: "fk col rows key targets \<longleftrightarrow> set (map col rows) \<subseteq> set (map key targets)"
  by (auto simp: fk_def list_all_iff)

lemma fk_opt_map:
  "fk_opt ocol rows key targets \<longleftrightarrow> (\<forall>x \<in> set (map ocol rows). case x of None \<Rightarrow> True | Some k \<Rightarrow> k \<in> set (map key targets))"
  by (auto simp: fk_opt_def list_all_iff)

lemma fk_modify_row [simp]:
  "(\<And>r. col (f r) = col r) \<Longrightarrow> fk col (modify_row k i f rows) key targets = fk col rows key targets"
  "(\<And>r. ocol (f r) = ocol r) \<Longrightarrow> fk_opt ocol (modify_row k i f rows) key targets = fk_opt ocol rows key targets"
  by (simp_all only: fk_map fk_opt_map map_modify_row)

lemma fk_target_modify_row [simp]:
  "(\<And>r. key (f r) = key r) \<Longrightarrow> fk col rows key (modify_row k i f targets) = fk col rows key targets"
  "(\<And>r. key (f r) = key r) \<Longrightarrow> fk_opt ocol rows key (modify_row k i f targets) = fk_opt ocol rows key targets"
  by (simp_all only: fk_map fk_opt_map map_modify_row)

lemma unique_on_modify_row:
  assumes "unique_on k P rows" "\<And>r. k (f r) = k r" "\<And>r. r \<in> set rows \<Longrightarrow> key r = i \<Longrightarrow> P (f r) \<Longrightarrow> P r"
  shows "unique_on k P (modify_row key i f rows)"
  using assms
proof (induction rows)
  case (Cons r rows)
  then have "unique_on k P (modify_row key i f rows)" by (auto simp: unique_on_def split: if_splits)
  moreover have "k ` {x \<in> set (modify_row key i f rows). P x} \<subseteq> k ` {x \<in> set rows. P x}"
    using Cons.prems by (auto simp: set_modify_row)
  ultimately show ?case
    using Cons.prems by (auto simp: unique_on_def modify_row_def)
qed (simp add: unique_on_def modify_row_def)

end
