(* ===== verification/Audit_Log.thy ===== *)
theory Audit_Log
  imports Database
begin

text \<open>
  Authorisation and auditing, the two components every service calls:
  \<open>require_service_role\<close> of src/backend/app/security/access.py, and
  \<open>sanitize_audit_value\<close>/\<open>add_audit_event\<close> of src/backend/app/services/audit.py.
\<close>

section \<open>security/access.py\<close>

record principal =
  prin_user_id :: uuid
  prin_email :: string
  prin_role :: user_role
  prin_session_epoch :: int

definition require_service_role :: "principal \<Rightarrow> user_role list \<Rightarrow> unit result" where
  "require_service_role p roles =
     (if prin_role p \<notin> set roles then
        raise_app 403 ''FORBIDDEN'' ''You do not have permission to perform this action.''
      else Inr ())"

lemma require_service_role_Inr [result_simps]:
  "require_service_role p roles = Inr u \<longleftrightarrow> prin_role p \<in> set roles"
  by (auto simp: require_service_role_def)

section \<open>Masking\<close>

definition sensitive_parts :: "string list" where
  "sensitive_parts = [''password'', ''secret'', ''token'', ''authorization'', ''cookie'',
     ''private_key'', ''ca_bundle'']"

definition audit_mask :: json where
  "audit_mask = JStr ''[REDACTED]''"

definition normalized_key :: "string \<Rightarrow> string" where
  "normalized_key k = map (\<lambda>c. if c = CHR ''-'' then CHR ''_'' else c) (str_lower k)"

definition sensitive_key :: "string \<Rightarrow> bool" where
  "sensitive_key k \<longleftrightarrow> (\<exists>p \<in> set sensitive_parts. contains_str p (normalized_key k))"

fun sanitize_audit_value :: "string \<Rightarrow> json \<Rightarrow> json" where
  "sanitize_audit_value key (JObj d) =
     (if sensitive_key key then audit_mask
      else JObj (map (\<lambda>(k, v). (k, sanitize_audit_value k v)) d))"
| "sanitize_audit_value key (JList xs) =
     (if sensitive_key key then audit_mask else JList (map (sanitize_audit_value []) xs))"
| "sanitize_audit_value key (JOther s) = (if sensitive_key key then audit_mask else JStr s)"
| "sanitize_audit_value key v = (if sensitive_key key then audit_mask else v)"

text \<open>A value leaks if somewhere inside it a sensitive key carries anything but the mask.\<close>

fun leaks :: "json \<Rightarrow> bool" where
  "leaks (JObj d) \<longleftrightarrow> list_ex (\<lambda>(k, v). (sensitive_key k \<and> v \<noteq> audit_mask) \<or> leaks v) d"
| "leaks (JList xs) \<longleftrightarrow> list_ex leaks xs"
| "leaks _ \<longleftrightarrow> False"

lemma leaks_mask [simp]: "\<not> leaks audit_mask"
  by (simp add: audit_mask_def)

lemma sanitize_sensitive: "sensitive_key k \<Longrightarrow> sanitize_audit_value k v = audit_mask"
  by (cases v) simp_all

lemma sanitize_mask [simp]: "sanitize_audit_value k audit_mask = audit_mask"
  by (simp add: audit_mask_def)

text \<open>What a stored audit record never contains, at any depth of nesting.\<close>

lemma sanitize_no_leak: "\<not> leaks (sanitize_audit_value k v)"
proof (induction k v rule: sanitize_audit_value.induct)
  case (1 k d)
  then show ?case
    by (auto simp: list_ex_iff sanitize_sensitive)
next
  case (2 k xs)
  then show ?case by (auto simp: list_ex_iff)
qed auto

lemma sanitize_idem:
  "sanitize_audit_value k (sanitize_audit_value k v) = sanitize_audit_value k v"
  by (induction k v rule: sanitize_audit_value.induct) auto

text \<open>Masking changes nothing when no key is sensitive and every leaf is a JSON value.\<close>

fun plain :: "json \<Rightarrow> bool" where
  "plain (JObj d) \<longleftrightarrow> list_all (\<lambda>(k, v). \<not> sensitive_key k \<and> plain v) d"
| "plain (JList xs) \<longleftrightarrow> list_all plain xs"
| "plain (JOther s) \<longleftrightarrow> False"
| "plain _ \<longleftrightarrow> True"

lemma sensitive_key_Nil [simp]: "\<not> sensitive_key []"
  by (simp add: sensitive_key_def sensitive_parts_def normalized_key_def str_lower_def)

lemma sanitize_plain: "plain v \<Longrightarrow> \<not> sensitive_key k \<Longrightarrow> sanitize_audit_value k v = v"
  by (induction k v rule: sanitize_audit_value.induct)
    (auto simp: list_all_iff intro!: map_idI)

section \<open>Recording an event\<close>

text \<open>
  The request's context variables (core/logging.py, core/middleware.py), with the transaction's
  clock, which fills \<open>created_at\<close>.
\<close>

record audit_ctx =
  ac_now :: datetime
  ac_request_id :: "string option"
  ac_source_ip :: "string option"
  ac_user_agent :: "string option"

record audit_event =
  ev_action :: string
  ev_outcome :: string
  ev_request_id :: "string option"
  ev_actor_user_id :: "uuid option"
  ev_actor_role :: "user_role option"
  ev_organization_id :: "uuid option"
  ev_workload_id :: "uuid option"
  ev_operation_id :: "uuid option"
  ev_source_ip :: "string option"
  ev_user_agent :: "string option"
  ev_pve_upid :: "string option"
  ev_target_type :: "string option"
  ev_target_id :: "string option"
  ev_details :: "dict option"
  ev_before :: "dict option"
  ev_after :: "dict option"
  ev_error_code :: "string option"

text \<open>The keyword arguments and their defaults.\<close>

definition audit_event :: "string \<Rightarrow> string \<Rightarrow> string option \<Rightarrow> audit_event" where
  "audit_event act oc rid = \<lparr>ev_action = act, ev_outcome = oc, ev_request_id = rid,
     ev_actor_user_id = None, ev_actor_role = None, ev_organization_id = None,
     ev_workload_id = None, ev_operation_id = None, ev_source_ip = None, ev_user_agent = None,
     ev_pve_upid = None, ev_target_type = None, ev_target_id = None, ev_details = None,
     ev_before = None, ev_after = None, ev_error_code = None\<rparr>"

text \<open>Python's \<open>a or b\<close> on optional strings.\<close>

definition or_str :: "string option \<Rightarrow> string option \<Rightarrow> string option" where
  "or_str a b = (case a of Some (c # s) \<Rightarrow> Some (c # s) | _ \<Rightarrow> b)"

definition sanitize_dict :: "dict \<Rightarrow> dict" where
  "sanitize_dict d = map (\<lambda>(k, v). (k, sanitize_audit_value k v)) d"

lemma sanitize_dict: "sanitize_audit_value [] (JObj d) = JObj (sanitize_dict d)"
  by (simp add: sanitize_dict_def)

definition audit_row :: "audit_ctx \<Rightarrow> audit_event \<Rightarrow> audit_log" where
  "audit_row c e =
     (let combined_after = (if ev_after e \<noteq> None then ev_after e else ev_details e) in
      \<lparr>al_created_at = ac_now c, al_action = ev_action e, al_outcome = ev_outcome e,
       al_actor_user_id = ev_actor_user_id e,
       al_actor_role = map_option user_role_value (ev_actor_role e),
       al_organization_id = ev_organization_id e, al_workload_id = ev_workload_id e,
       al_operation_id = ev_operation_id e,
       al_source_ip = or_str (ev_source_ip e) (ac_source_ip c),
       al_user_agent = or_str (map_option (take 512) (or_str (ev_user_agent e) (ac_user_agent c))) None,
       al_pve_upid = ev_pve_upid e, al_resource_type = ev_target_type e,
       al_resource_id = ev_target_id e,
       al_request_id = or_str (ev_request_id e) (ac_request_id c),
       al_before = map_option sanitize_dict (ev_before e),
       al_after = map_option sanitize_dict combined_after,
       al_result = ev_outcome e, al_error_code = ev_error_code e\<rparr>)"

definition add_audit_event :: "audit_ctx \<Rightarrow> audit_event \<Rightarrow> db \<Rightarrow> db" where
  "add_audit_event c e d = d\<lparr>audit_logs := audit_logs d @ [audit_row c e]\<rparr>"

lemma integrity_audit [simp]: "integrity (d\<lparr>audit_logs := xs\<rparr>) = integrity d"
  by (simp add: integrity_defs)

lemma add_audit_event_tables [simp]:
  "users (add_audit_event c e d) = users d"
  "organizations (add_audit_event c e d) = organizations d"
  "members (add_audit_event c e d) = members d"
  "refresh_tokens (add_audit_event c e d) = refresh_tokens d"
  "login_throttles (add_audit_event c e d) = login_throttles d"
  "clusters (add_audit_event c e d) = clusters d"
  "credentials (add_audit_event c e d) = credentials d"
  "workloads (add_audit_event c e d) = workloads d"
  "assignments (add_audit_event c e d) = assignments d"
  "operations (add_audit_event c e d) = operations d"
  "pve_tasks (add_audit_event c e d) = pve_tasks d"
  "ip_pools (add_audit_event c e d) = ip_pools d"
  "exclusions (add_audit_event c e d) = exclusions d"
  "ip_addresses (add_audit_event c e d) = ip_addresses d"
  "ip_allocations (add_audit_event c e d) = ip_allocations d"
  "products (add_audit_event c e d) = products d"
  "templates (add_audit_event c e d) = templates d"
  "nodes (add_audit_event c e d) = nodes d"
  "requests (add_audit_event c e d) = requests d"
  "steps (add_audit_event c e d) = steps d"
  "backup_targets (add_audit_event c e d) = backup_targets d"
  "backup_runs (add_audit_event c e d) = backup_runs d"
  "restore_runs (add_audit_event c e d) = restore_runs d"
  "integrity (add_audit_event c e d) = integrity d"
  by (simp_all add: add_audit_event_def)

definition audit_clean :: "db \<Rightarrow> bool" where
  "audit_clean d \<longleftrightarrow> list_all (\<lambda>r.
     (case al_before r of None \<Rightarrow> True | Some b \<Rightarrow> \<not> leaks (JObj b)) \<and>
     (case al_after r of None \<Rightarrow> True | Some b \<Rightarrow> \<not> leaks (JObj b))) (audit_logs d)"

lemma leaks_sanitize_dict [simp]: "\<not> leaks (JObj (sanitize_dict d))"
  using sanitize_no_leak[of "[]" "JObj d"] by (simp add: sanitize_dict_def del: leaks.simps)

lemma add_audit_event_clean: "audit_clean d \<Longrightarrow> audit_clean (add_audit_event c e d)"
  by (auto simp: audit_clean_def add_audit_event_def audit_row_def Let_def simp del: leaks.simps
      split: option.splits)

section \<open>A service instance\<close>

text \<open>
  What every service object is built with: the caller, the request's id and source address, and
  the context above.  \<open>service_event\<close> fills the arguments the services always pass.
\<close>

record service =
  sv_principal :: principal
  sv_request_id :: string
  sv_source_ip :: string
  sv_ctx :: audit_ctx

abbreviation sv_now :: "service \<Rightarrow> datetime" where
  "sv_now sv \<equiv> ac_now (sv_ctx sv)"

definition service_event :: "service \<Rightarrow> string \<Rightarrow> string \<Rightarrow> string \<Rightarrow> uuid \<Rightarrow> audit_event" where
  "service_event sv act oc ttype tid =
     (audit_event act oc (Some (sv_request_id sv)))
       \<lparr>ev_actor_user_id := Some (prin_user_id (sv_principal sv)),
        ev_actor_role := Some (prin_role (sv_principal sv)),
        ev_source_ip := Some (sv_source_ip sv),
        ev_target_type := Some ttype,
        ev_target_id := Some (uuid_str tid)\<rparr>"

end
