(* ===== verification/Runner_Monad.thy ===== *)
theory Runner_Monad
  imports Audit_Log
begin

text \<open>
  The background workers (services/power_runner.py and its siblings) read and write the database in
  several transactions and talk to Proxmox in between.  Their code is modelled in a state and
  exception monad: the session's working state, the states committed so far (latest first), the
  state of the outside world, and the log of the calls that were made to Proxmox.  An exception
  keeps what was committed; the working changes since the last commit are lost with the session.

  The outside world is a type parameter \<open>'w\<close>: the clock, \<open>uuid4\<close>, \<open>sleep\<close> and the Proxmox API are
  functions on it about which nothing is assumed.  Other transactions do not interfere between the
  commits of one run: the workers hold the operation in status \<open>RUNNING\<close>, which no other code
  modelled here writes.
\<close>

section \<open>State and environment\<close>

record api_call =
  call_name :: string
  call_args :: "json list"
  call_error :: "exn option"

record 'w rs =
  rs_db :: db
  rs_commits :: "db list"
  rs_world :: 'w
  rs_calls :: "api_call list"

type_synonym ('w, 'a) rm = "'w rs \<Rightarrow> 'a result \<times> 'w rs"

record 'w runner_env =
  re_now :: "'w \<Rightarrow> datetime \<times> 'w"
  re_uuid4 :: "'w \<Rightarrow> uuid \<times> 'w"
  re_sleep :: "rat \<Rightarrow> 'w \<Rightarrow> 'w"

definition start_run :: "db \<Rightarrow> 'w \<Rightarrow> 'w rs" where
  "start_run d w = \<lparr>rs_db = d, rs_commits = [d], rs_world = w, rs_calls = []\<rparr>"

text \<open>What is stored once the run is over, whether it returned or raised.\<close>

definition stored :: "'w rs \<Rightarrow> db" where
  "stored s = hd (rs_commits s)"

section \<open>Operations of the monad\<close>

definition returnM :: "'a \<Rightarrow> ('w, 'a) rm" where
  "returnM x s = (Inr x, s)"

definition raiseM :: "exn \<Rightarrow> ('w, 'a) rm" where
  "raiseM e s = (Inl e, s)"

definition bindM :: "('w, 'a) rm \<Rightarrow> ('a \<Rightarrow> ('w, 'b) rm) \<Rightarrow> ('w, 'b) rm" where
  "bindM m f s = (case m s of (Inl e, s') \<Rightarrow> (Inl e, s') | (Inr x, s') \<Rightarrow> f x s')"

definition thenM :: "('w, unit) rm \<Rightarrow> ('w, 'b) rm \<Rightarrow> ('w, 'b) rm" where
  "thenM m k = bindM m (\<lambda>_. k)"

text \<open>\<open>try: ... except AppError as exc: ...\<close>\<close>

definition catch_app :: "('w, 'a) rm \<Rightarrow> (app_error \<Rightarrow> ('w, 'a) rm) \<Rightarrow> ('w, 'a) rm" where
  "catch_app m h s = (case m s of (Inl (App e), s') \<Rightarrow> h e s' | r \<Rightarrow> r)"

definition liftM :: "'a result \<Rightarrow> ('w, 'a) rm" where
  "liftM r = (case r of Inl e \<Rightarrow> raiseM e | Inr x \<Rightarrow> returnM x)"

definition readM :: "(db \<Rightarrow> 'a) \<Rightarrow> ('w, 'a) rm" where
  "readM f s = (Inr (f (rs_db s)), s)"

definition writeM :: "(db \<Rightarrow> db) \<Rightarrow> ('w, unit) rm" where
  "writeM f s = (Inr (), s\<lparr>rs_db := f (rs_db s)\<rparr>)"

definition commitM :: "('w, unit) rm" where
  "commitM s =
     (if integrity (rs_db s) then (Inr (), s\<lparr>rs_commits := rs_db s # rs_commits s\<rparr>)
      else (Inl IntegrityError, s\<lparr>rs_db := hd (rs_commits s)\<rparr>))"

definition rollbackM :: "('w, unit) rm" where
  "rollbackM s = (Inr (), s\<lparr>rs_db := hd (rs_commits s)\<rparr>)"

definition nowM :: "'w runner_env \<Rightarrow> ('w, datetime) rm" where
  "nowM E s = (case re_now E (rs_world s) of (t, w) \<Rightarrow> (Inr t, s\<lparr>rs_world := w\<rparr>))"

definition uuid4M :: "'w runner_env \<Rightarrow> ('w, uuid) rm" where
  "uuid4M E s = (case re_uuid4 E (rs_world s) of (u, w) \<Rightarrow> (Inr u, s\<lparr>rs_world := w\<rparr>))"

definition sleepM :: "'w runner_env \<Rightarrow> rat \<Rightarrow> ('w, unit) rm" where
  "sleepM E t s = (Inr (), s\<lparr>rs_world := re_sleep E t (rs_world s)\<rparr>)"

text \<open>A call to Proxmox, recorded with its arguments and its error.\<close>

definition callM :: "string \<Rightarrow> json list \<Rightarrow> ('w \<Rightarrow> 'a result \<times> 'w) \<Rightarrow> ('w, 'a) rm" where
  "callM name args f s =
     (case f (rs_world s) of (r, w) \<Rightarrow>
        (r, s\<lparr>rs_world := w,
              rs_calls := rs_calls s @ [\<lparr>call_name = name, call_args = args,
                call_error = (case r of Inl e \<Rightarrow> Some e | Inr _ \<Rightarrow> None)\<rparr>]\<rparr>))"

section \<open>Weakest preconditions\<close>

named_theorems wp_rules \<open>weakest preconditions of the monad's operations\<close>
named_theorems keeps_rules \<open>state predicates kept by the monad's operations\<close>

definition wp ::
    "('w, 'a) rm \<Rightarrow> ('a \<Rightarrow> 'w rs \<Rightarrow> bool) \<Rightarrow> (exn \<Rightarrow> 'w rs \<Rightarrow> bool) \<Rightarrow> 'w rs \<Rightarrow> bool" where
  "wp m Q E s = (case m s of (Inr x, s') \<Rightarrow> Q x s' | (Inl e, s') \<Rightarrow> E e s')"

lemma wp_returnM [wp_rules]: "wp (returnM x) Q E = Q x"
  by (rule ext) (simp add: wp_def returnM_def)

lemma wp_raiseM [wp_rules]: "wp (raiseM e) Q E = E e"
  by (rule ext) (simp add: wp_def raiseM_def)

lemma wp_bindM [wp_rules]: "wp (bindM m f) Q E = wp m (\<lambda>x. wp (f x) Q E) E"
  by (rule ext) (simp add: wp_def bindM_def split: prod.splits sum.splits)

lemma wp_thenM [wp_rules]: "wp (thenM m k) Q E = wp m (\<lambda>_. wp k Q E) E"
  by (simp add: thenM_def wp_bindM)

lemma wp_catch_app [wp_rules]:
  "wp (catch_app m h) Q E = wp m Q (\<lambda>e. case e of App a \<Rightarrow> wp (h a) Q E | _ \<Rightarrow> E e)"
  by (rule ext) (auto simp: wp_def catch_app_def split: prod.splits sum.splits exn.splits)

lemma wp_liftM [wp_rules]: "wp (liftM r) Q E = (case r of Inl e \<Rightarrow> E e | Inr x \<Rightarrow> Q x)"
  by (simp add: liftM_def wp_rules split: sum.splits)

lemma wp_readM [wp_rules]: "wp (readM f) Q E s = Q (f (rs_db s)) s"
  by (simp add: wp_def readM_def)

lemma wp_writeM [wp_rules]: "wp (writeM f) Q E s = Q () (s\<lparr>rs_db := f (rs_db s)\<rparr>)"
  by (simp add: wp_def writeM_def)

lemma wp_commitM [wp_rules]:
  "wp commitM Q E s =
     (if integrity (rs_db s) then Q () (s\<lparr>rs_commits := rs_db s # rs_commits s\<rparr>)
      else E IntegrityError (s\<lparr>rs_db := hd (rs_commits s)\<rparr>))"
  by (simp add: wp_def commitM_def)

lemma wp_rollbackM [wp_rules]: "wp rollbackM Q E s = Q () (s\<lparr>rs_db := hd (rs_commits s)\<rparr>)"
  by (simp add: wp_def rollbackM_def)

lemma wp_mono:
  "wp m Q E s \<Longrightarrow> (\<And>x t. Q x t \<Longrightarrow> Q' x t) \<Longrightarrow> (\<And>e t. E e t \<Longrightarrow> E' e t) \<Longrightarrow> wp m Q' E' s"
  by (auto simp: wp_def split: prod.splits sum.splits)

lemma wp_conj:
  "wp m Q E s \<Longrightarrow> wp m Q' E' s \<Longrightarrow> wp m (\<lambda>x t. Q x t \<and> Q' x t) (\<lambda>e t. E e t \<and> E' e t) s"
  by (auto simp: wp_def split: prod.splits sum.splits)

lemma wp_if [wp_rules]: "wp (if b then m else n) Q E = (if b then wp m Q E else wp n Q E)"
  by simp

lemma wp_result: "wp m Q E s \<Longrightarrow> m s = (Inr x, s') \<Longrightarrow> Q x s'"
  by (simp add: wp_def)

lemma wp_result_error: "wp m Q E s \<Longrightarrow> m s = (Inl e, s') \<Longrightarrow> E e s'"
  by (simp add: wp_def)

text \<open>
  The clock, \<open>uuid4\<close> and \<open>sleep\<close> change only the world; a call to Proxmox also appends to the log.
  What follows must hold for whatever they answer.
\<close>

lemma wp_nowM [wp_rules]:
  "wp (nowM V) Q E s = (case re_now V (rs_world s) of (t, w) \<Rightarrow> Q t (s\<lparr>rs_world := w\<rparr>))"
  by (simp add: wp_def nowM_def split: prod.splits)

lemma wp_uuid4M [wp_rules]:
  "wp (uuid4M V) Q E s = (case re_uuid4 V (rs_world s) of (t, w) \<Rightarrow> Q t (s\<lparr>rs_world := w\<rparr>))"
  by (simp add: wp_def uuid4M_def split: prod.splits)

lemma wp_sleepM [wp_rules]:
  "wp (sleepM V t) Q E s = Q () (s\<lparr>rs_world := re_sleep V t (rs_world s)\<rparr>)"
  by (simp add: wp_def sleepM_def)

lemma wp_callM [wp_rules]:
  "wp (callM nm args f) Q E s =
     (case f (rs_world s) of
        (Inr x, w) \<Rightarrow> Q x (s\<lparr>rs_world := w, rs_calls := rs_calls s @
           [\<lparr>call_name = nm, call_args = args, call_error = None\<rparr>]\<rparr>)
      | (Inl e, w) \<Rightarrow> E e (s\<lparr>rs_world := w, rs_calls := rs_calls s @
           [\<lparr>call_name = nm, call_args = args, call_error = Some e\<rparr>]\<rparr>))"
  by (simp add: wp_def callM_def split: prod.splits sum.splits)

section \<open>Kept predicates\<close>

text \<open>\<open>keeps I m\<close>: \<open>m\<close> leads from a state with \<open>I\<close> to one with \<open>I\<close>, however it ends.\<close>

definition keeps :: "('w rs \<Rightarrow> bool) \<Rightarrow> ('w, 'a) rm \<Rightarrow> bool" where
  "keeps I m \<longleftrightarrow> (\<forall>s. I s \<longrightarrow> wp m (\<lambda>_. I) (\<lambda>_. I) s)"

lemma keepsD: "keeps I m \<Longrightarrow> I s \<Longrightarrow> I (snd (m s))"
  by (auto simp: keeps_def wp_def split: prod.splits sum.splits) (metis prod.collapse sum.exhaust_sel)+

lemma keeps_at: "keeps I m \<Longrightarrow> I s \<Longrightarrow> wp m (\<lambda>_. I) (\<lambda>_. I) s"
  by (simp add: keeps_def)

lemma keeps_returnM [keeps_rules]: "keeps I (returnM x)"
  and keeps_raiseM [keeps_rules]: "keeps I (raiseM e)"
  and keeps_readM [keeps_rules]: "keeps I (readM f)"
  by (simp_all add: keeps_def wp_rules)

lemma keeps_liftM [keeps_rules]: "keeps I (liftM r)"
  by (cases r) (simp_all add: keeps_def wp_rules)

lemma keeps_bindM [keeps_rules]: "keeps I m \<Longrightarrow> (\<And>x. keeps I (f x)) \<Longrightarrow> keeps I (bindM m f)"
  by (auto simp: keeps_def wp_rules elim!: wp_mono)

lemma keeps_thenM [keeps_rules]: "keeps I m \<Longrightarrow> keeps I k \<Longrightarrow> keeps I (thenM m k)"
  by (auto simp: thenM_def intro: keeps_bindM)

lemma keeps_catch_app [keeps_rules]: "keeps I m \<Longrightarrow> (\<And>e. keeps I (h e)) \<Longrightarrow> keeps I (catch_app m h)"
  by (auto simp: keeps_def wp_rules elim!: wp_mono split: exn.splits)

lemma keeps_if [keeps_rules]: "keeps I m \<Longrightarrow> keeps I n \<Longrightarrow> keeps I (if b then m else n)"
  by simp

lemma keeps_case_option [keeps_rules]:
  "keeps I m \<Longrightarrow> (\<And>x. keeps I (n x)) \<Longrightarrow> keeps I (case v of None \<Rightarrow> m | Some x \<Rightarrow> n x)"
  by (cases v) simp_all

lemma keeps_case_prod [keeps_rules]: "(\<And>x y. keeps I (f x y)) \<Longrightarrow> keeps I (case p of (x, y) \<Rightarrow> f x y)"
  by (cases p) simp

text \<open>The predicates of interest do not read the world.\<close>

definition worldless :: "('w rs \<Rightarrow> bool) \<Rightarrow> bool" where
  "worldless I \<longleftrightarrow> (\<forall>s w. I (s\<lparr>rs_world := w\<rparr>) = I s)"

lemma keeps_nowM: "worldless I \<Longrightarrow> keeps I (nowM V)"
  and keeps_uuid4M: "worldless I \<Longrightarrow> keeps I (uuid4M V)"
  and keeps_sleepM: "worldless I \<Longrightarrow> keeps I (sleepM V t)"
  by (auto simp: keeps_def wp_rules worldless_def split: prod.splits)

end
