(* ===== verification/Runner_Service.thy ===== *)
theory Runner_Service
  imports Runner_Monad
begin

text \<open>
  What the workers have in common: a job record is active until the worker finishes it, finishing
  commits the job in a final status and is the last thing a run does.  The locale \<open>job_lifecycle\<close>
  is the contract of the record (which states of the database have the job active, which have it
  finished); its lemmas follow the structure of a worker's code.

  At the end there is more control flow for the workers: \<open>try ... except Exception\<close>, \<open>try ... finally\<close>, and a call of
  one of the services on the worker's own session.
\<close>

definition live :: "(db \<Rightarrow> bool) \<Rightarrow> 'w rs \<Rightarrow> bool" where
  "live A s \<longleftrightarrow> A (rs_db s) \<and> list_all A (rs_commits s) \<and> rs_commits s \<noteq> []"

definition finished :: "(db \<Rightarrow> bool) \<Rightarrow> (db \<Rightarrow> bool) \<Rightarrow> 'w rs \<Rightarrow> bool" where
  "finished A T s \<longleftrightarrow> (\<exists>c cs. rs_commits s = c # cs \<and> rs_db s = c \<and> T c \<and> integrity c \<and> list_all A cs)"

text \<open>
  \<open>ends A T m\<close>: started with the job active, \<open>m\<close> either returns with the job finished by its last
  commit, or raises with the job still active in every committed state.
\<close>

definition ends :: "(db \<Rightarrow> bool) \<Rightarrow> (db \<Rightarrow> bool) \<Rightarrow> ('w, 'a) rm \<Rightarrow> bool" where
  "ends A T m \<longleftrightarrow> (\<forall>s. live A s \<longrightarrow> wp m (\<lambda>_. finished A T) (\<lambda>_. live A) s)"

text \<open>A step that may finish the job and then says so by \<open>None\<close>.\<close>

definition ends_opt :: "(db \<Rightarrow> bool) \<Rightarrow> (db \<Rightarrow> bool) \<Rightarrow> ('w, 'a option) rm \<Rightarrow> bool" where
  "ends_opt A T m \<longleftrightarrow> (\<forall>s. live A s \<longrightarrow>
     wp m (\<lambda>x. case x of None \<Rightarrow> finished A T | Some _ \<Rightarrow> live A) (\<lambda>_. live A) s)"

named_theorems ends_rules \<open>structure of a worker's code\<close>

locale job_lifecycle =
  fixes active terminal :: "'k \<Rightarrow> db \<Rightarrow> bool"
  assumes audit_active: "active k (add_audit_event c e d) = active k d"
    and audit_terminal: "terminal k (add_audit_event c e d) = terminal k d"
    and exclusive: "terminal k d \<Longrightarrow> \<not> active k d"
begin

lemma worldless_live: "worldless (live (active k))"
  by (simp add: worldless_def live_def)

lemma live_calls: "live (active k) (s\<lparr>rs_calls := cs\<rparr>) = live (active k) s"
  by (simp add: live_def)

lemma keeps_call: "keeps (live (active k)) (callM nm args f)"
  by (auto simp: keeps_def wp_rules live_def split: prod.splits sum.splits)

lemma keeps_commit: "keeps (live (active k)) commitM"
  by (auto simp: keeps_def wp_rules live_def neq_Nil_conv)

lemma keeps_rollback: "keeps (live (active k)) rollbackM"
  by (auto simp: keeps_def wp_rules live_def neq_Nil_conv)

lemma keeps_write: "(\<And>d. active k d \<Longrightarrow> active k (f d)) \<Longrightarrow> keeps (live (active k)) (writeM f)"
  by (simp add: keeps_def wp_rules live_def)

lemmas keeps_now = keeps_nowM[OF worldless_live]
  and keeps_uuid4 = keeps_uuid4M[OF worldless_live]
  and keeps_sleep = keeps_sleepM[OF worldless_live]

lemma ends_bind: "keeps (live (active k)) m \<Longrightarrow> (\<And>x. ends (active k) T (f x)) \<Longrightarrow> ends (active k) T (bindM m f)"
  by (auto simp: ends_def keeps_def wp_rules elim!: wp_mono)

lemma ends_then: "keeps (live (active k)) m \<Longrightarrow> ends (active k) T n \<Longrightarrow> ends (active k) T (thenM m n)"
  by (auto simp: thenM_def intro: ends_bind)

lemma ends_raise: "ends (active k) T (raiseM e)"
  by (simp add: ends_def wp_rules)

lemma ends_if: "ends (active k) T m \<Longrightarrow> ends (active k) T n \<Longrightarrow> ends (active k) T (if b then m else n)"
  by simp

lemma ends_catch: "ends (active k) T m \<Longrightarrow> (\<And>e. ends (active k) T (h e)) \<Longrightarrow> ends (active k) T (catch_app m h)"
  by (auto simp: ends_def wp_rules elim!: wp_mono split: exn.splits)

lemma ends_bind_opt:
  "ends_opt (active k) T m \<Longrightarrow> (\<And>x. ends (active k) T (f x)) \<Longrightarrow>
   ends (active k) T (bindM m (\<lambda>v. case v of None \<Rightarrow> returnM () | Some x \<Rightarrow> f x))"
  by (auto simp: ends_def ends_opt_def wp_rules elim!: wp_mono split: option.splits)

lemma ends_opt_then:
  "keeps (live (active k)) m \<Longrightarrow> ends_opt (active k) T n \<Longrightarrow> ends_opt (active k) T (thenM m n)"
  unfolding ends_opt_def keeps_def wp_thenM by (blast intro: wp_mono)

lemma ends_opt_done: "ends (active k) T m \<Longrightarrow> ends_opt (active k) T (thenM m (returnM None))"
  by (auto simp: ends_opt_def ends_def wp_rules)

lemma ends_opt_catch:
  fixes m :: "('w, 'b) rm"
  assumes m: "keeps (live (active k)) m" and h: "\<And>e. ends_opt (active k) T (h e)"
  shows "ends_opt (active k) T (catch_app (bindM m (\<lambda>x. returnM (Some x))) h)"
  unfolding ends_opt_def wp_rules
proof (intro allI impI)
  fix s :: "'w rs" assume "live (active k) s"
  with m have "wp m (\<lambda>_. live (active k)) (\<lambda>_. live (active k)) s" by (simp add: keeps_def)
  then show "wp m (\<lambda>x. case Some x of None \<Rightarrow> finished (active k) T | Some _ \<Rightarrow> live (active k))
     (\<lambda>e. case e of App a \<Rightarrow> wp (h a)
           (\<lambda>x. case x of None \<Rightarrow> finished (active k) T | Some _ \<Rightarrow> live (active k)) (\<lambda>_. live (active k))
         | _ \<Rightarrow> live (active k)) s"
    using h by (elim wp_mono) (auto simp: ends_opt_def split: exn.splits)
qed

lemmas ends_opt_try = ends_opt_catch[OF _ ends_opt_done]

text \<open>The last write and its commit.\<close>

lemma ends_finish:
  assumes "\<And>d. active k d \<Longrightarrow> terminal k (f d)"
  shows "ends (active k) (terminal k) (thenM (writeM f) commitM)"
  using assms by (auto simp: ends_def wp_rules finished_def live_def neq_Nil_conv)

lemma finished_stored: "finished (active k) (terminal k) s \<Longrightarrow> terminal k (stored s) \<and> \<not> active k (stored s)"
  by (auto simp: finished_def stored_def exclusive)

end

section \<open>Control flow\<close>

definition tryM :: "('w, 'a) rm \<Rightarrow> ('w, 'a result) rm" where
  "tryM m s = (case m s of (r, s') \<Rightarrow> (Inr r, s'))"

definition finallyM :: "('w, 'a) rm \<Rightarrow> ('w, unit) rm \<Rightarrow> ('w, 'a) rm" where
  "finallyM m f s =
     (case m s of (r, s') \<Rightarrow> (case f s' of (Inl e, s'') \<Rightarrow> (Inl e, s'') | (Inr _, s'') \<Rightarrow> (r, s'')))"

text \<open>
  A service handler (theory \<open>Ipam_Allocation\<close> and others) gives the state it leaves: the caller's
  working state, or a new state that it has committed.  After an \<open>IntegrityError\<close> that the handler
  does not catch the session has lost its working changes.
\<close>

fun integrity_error :: "'a result \<Rightarrow> bool" where
  "integrity_error (Inl IntegrityError) = True"
| "integrity_error _ = False"

definition after_service :: "'a result \<Rightarrow> db \<Rightarrow> 'w rs \<Rightarrow> 'w rs" where
  "after_service r d' s =
     (if d' \<noteq> rs_db s then s\<lparr>rs_db := d', rs_commits := d' # rs_commits s\<rparr>
      else if integrity_error r then s\<lparr>rs_db := hd (rs_commits s)\<rparr> else s)"

definition serviceM :: "(db \<Rightarrow> 'a outcome) \<Rightarrow> ('w, 'a) rm" where
  "serviceM f s = (case f (rs_db s) of (r, d') \<Rightarrow> (r, after_service r d' s))"

section \<open>Weakest preconditions\<close>

lemma wp_tryM [wp_rules]: "wp (tryM m) Q E = wp m (\<lambda>x. Q (Inr x)) (\<lambda>e. Q (Inl e))"
  by (rule ext) (simp add: wp_def tryM_def split: prod.splits sum.splits)

lemma wp_finallyM [wp_rules]:
  "wp (finallyM m f) Q E = wp m (\<lambda>x. wp f (\<lambda>_. Q x) E) (\<lambda>e. wp f (\<lambda>_. E e) E)"
  by (rule ext) (auto simp: wp_def finallyM_def split: prod.splits sum.splits)

lemma wp_serviceM [wp_rules]:
  "wp (serviceM f) Q E s =
     (case f (rs_db s) of (r, d') \<Rightarrow>
        (case r of Inr x \<Rightarrow> Q x (after_service r d' s) | Inl e \<Rightarrow> E e (after_service r d' s)))"
  by (simp add: wp_def serviceM_def split: prod.splits sum.splits)

lemma keeps_tryM [keeps_rules]: "keeps I m \<Longrightarrow> keeps I (tryM m)"
  by (simp add: keeps_def wp_rules)

lemma keeps_finallyM: "keeps I m \<Longrightarrow> keeps I f \<Longrightarrow> keeps I (finallyM m f)"
  by (auto simp: keeps_def wp_rules elim!: wp_mono)

lemma keeps_case_sum [keeps_rules]:
  "(\<And>x. keeps I (f x)) \<Longrightarrow> (\<And>x. keeps I (g x)) \<Longrightarrow> keeps I (case v of Inl x \<Rightarrow> f x | Inr x \<Rightarrow> g x)"
  by (cases v) simp_all

lemma keeps_case_exn [keeps_rules]:
  "(\<And>x. keeps I (f x)) \<Longrightarrow> keeps I g \<Longrightarrow> keeps I h \<Longrightarrow> (\<And>x. keeps I (k x)) \<Longrightarrow>
   keeps I (case v of App x \<Rightarrow> f x | IntegrityError \<Rightarrow> g | AssertionError \<Rightarrow> h | PyError x \<Rightarrow> k x)"
  by (cases v) simp_all

lemma keeps_case_list [keeps_rules]:
  "keeps I m \<Longrightarrow> (\<And>x xs. keeps I (n x xs)) \<Longrightarrow> keeps I (case v of [] \<Rightarrow> m | x # xs \<Rightarrow> n x xs)"
  by (cases v) simp_all

lemma keeps_write_then:
  assumes "keeps I (writeM f)" "keeps I (writeM g)"
  shows "keeps I (writeM (\<lambda>d. g (f d)))"
  using keeps_thenM[OF assms] by (simp add: keeps_def wp_rules)

text \<open>A predicate on the working and the committed states, as \<open>live\<close>, across a service call.\<close>

lemma live_after_service:
  "live A s \<Longrightarrow> A d' \<Longrightarrow> live A (after_service r d' s)"
  by (cases "rs_commits s") (auto simp: live_def after_service_def)

lemma keeps_live_serviceM:
  assumes "\<And>d r d'. A d \<Longrightarrow> f d = (r, d') \<Longrightarrow> A d'"
  shows "keeps (live A) (serviceM f)"
  unfolding keeps_def wp_serviceM
proof (intro allI impI)
  fix s :: "'b rs" assume l: "live A s"
  obtain r d' where f: "f (rs_db s) = (r, d')" by fastforce
  with l assms[OF _ f] have "A d'" by (auto simp: live_def)
  then show "case f (rs_db s) of (r, d') \<Rightarrow>
      (case r of Inr x \<Rightarrow> live A (after_service r d' s) | Inl e \<Rightarrow> live A (after_service r d' s))"
    using live_after_service[OF l] f by (auto split: sum.splits)
qed

lemma worldless_liveA: "worldless (live A)"
  by (simp add: worldless_def live_def)

text \<open>
  \<open>live A\<close> is kept by everything that keeps \<open>A\<close> on the database: the rules the workers' frame proofs
  use, for any \<open>A\<close>.
\<close>

lemma keeps_live_write: "(\<And>d. A d \<Longrightarrow> A (f d)) \<Longrightarrow> keeps (live A) (writeM f)"
  by (simp add: keeps_def wp_rules live_def)

lemma keeps_live_commit: "keeps (live A) commitM"
  and keeps_live_rollback: "keeps (live A) rollbackM"
  and keeps_live_call: "keeps (live A) (callM nm args h)"
  by (auto simp: keeps_def wp_rules live_def neq_Nil_conv split: prod.splits sum.splits)

lemmas keeps_live_basic = keeps_live_commit keeps_live_rollback keeps_live_call
  keeps_nowM[OF worldless_liveA] keeps_uuid4M[OF worldless_liveA] keeps_sleepM[OF worldless_liveA]

end
