(* ===== verification/Config.thy ===== *)
theory Config
  imports Prelude
begin

text \<open>
  \<open>Settings\<close> of src/backend/app/core/config.py, from \<open>app_secret_key\<close> on: the fields, the bounds
  their declarations put on them and their defaults.  Seconds that may be fractional are rationals.
  The addresses of the database and of Redis are I/O and left out.
\<close>

record settings =
  app_secret_key :: string
  cors_origins :: "string list"
  access_token_ttl_seconds :: int
  refresh_token_ttl_days :: int
  login_failure_limit :: int
  login_failure_window_seconds :: int
  login_lockout_seconds :: int
  jwt_issuer :: string
  jwt_audience :: string
  pve_connect_timeout_seconds :: rat
  pve_read_timeout_seconds :: rat
  pve_max_connections :: int
  pve_max_keepalive_connections :: int
  pve_allowed_hosts :: "string list"
  pve_allowed_networks :: "string list"
  pve_task_poll_interval_seconds :: rat
  pve_task_timeout_seconds :: int
  pve_task_max_poll_attempts :: int
  pve_action_max_attempts :: int
  console_session_ttl_seconds :: int
  console_max_duration_seconds :: int
  console_connect_timeout_seconds :: rat
  console_sessions_per_minute :: int
  operation_lease_seconds :: int
  worker_heartbeat_ttl_seconds :: int
  queue_backlog_alert_threshold :: int
  ip_pool_low_available_threshold :: int
  provisioning_failure_alert_count :: int
  provisioning_failure_window_minutes :: int
  audit_retention_days :: int

definition in_range :: "int \<Rightarrow> int \<Rightarrow> int \<Rightarrow> bool" where
  "in_range lo hi n \<longleftrightarrow> lo \<le> n \<and> n \<le> hi"

definition settings_valid :: "settings \<Rightarrow> bool" where
  "settings_valid S \<longleftrightarrow>
     32 \<le> length (app_secret_key S) \<and>
     in_range 60 3600 (access_token_ttl_seconds S) \<and> in_range 1 90 (refresh_token_ttl_days S) \<and>
     in_range 2 20 (login_failure_limit S) \<and> in_range 60 86400 (login_failure_window_seconds S) \<and>
     in_range 60 86400 (login_lockout_seconds S) \<and>
     0 < pve_connect_timeout_seconds S \<and> pve_connect_timeout_seconds S \<le> 60 \<and>
     0 < pve_read_timeout_seconds S \<and> pve_read_timeout_seconds S \<le> 300 \<and>
     in_range 1 200 (pve_max_connections S) \<and> in_range 1 100 (pve_max_keepalive_connections S) \<and>
     0 < pve_task_poll_interval_seconds S \<and> pve_task_poll_interval_seconds S \<le> 30 \<and>
     in_range 10 3600 (pve_task_timeout_seconds S) \<and>
     in_range 1 1000 (pve_task_max_poll_attempts S) \<and> in_range 1 5 (pve_action_max_attempts S) \<and>
     in_range 10 120 (console_session_ttl_seconds S) \<and> in_range 60 14400 (console_max_duration_seconds S) \<and>
     0 < console_connect_timeout_seconds S \<and> console_connect_timeout_seconds S \<le> 60 \<and>
     in_range 1 60 (console_sessions_per_minute S) \<and>
     in_range 10 600 (operation_lease_seconds S) \<and> in_range 15 600 (worker_heartbeat_ttl_seconds S) \<and>
     in_range 1 1000000 (queue_backlog_alert_threshold S) \<and>
     in_range 0 1000000 (ip_pool_low_available_threshold S) \<and>
     in_range 1 1000 (provisioning_failure_alert_count S) \<and>
     in_range 1 10080 (provisioning_failure_window_minutes S) \<and>
     in_range 30 3650 (audit_retention_days S)"

definition default_settings :: "string \<Rightarrow> settings" where
  "default_settings key = \<lparr>app_secret_key = key, cors_origins = [], access_token_ttl_seconds = 900,
     refresh_token_ttl_days = 30, login_failure_limit = 5, login_failure_window_seconds = 900,
     login_lockout_seconds = 900, jwt_issuer = ''pve-master'', jwt_audience = ''pve-master-api'',
     pve_connect_timeout_seconds = 5, pve_read_timeout_seconds = 15, pve_max_connections = 20,
     pve_max_keepalive_connections = 10, pve_allowed_hosts = [], pve_allowed_networks = [],
     pve_task_poll_interval_seconds = 2, pve_task_timeout_seconds = 300,
     pve_task_max_poll_attempts = 150, pve_action_max_attempts = 3,
     console_session_ttl_seconds = 30, console_max_duration_seconds = 3600,
     console_connect_timeout_seconds = 15, console_sessions_per_minute = 10,
     operation_lease_seconds = 60, worker_heartbeat_ttl_seconds = 60,
     queue_backlog_alert_threshold = 100, ip_pool_low_available_threshold = 5,
     provisioning_failure_alert_count = 3, provisioning_failure_window_minutes = 30,
     audit_retention_days = 365\<rparr>"

lemma default_settings_valid: "32 \<le> length key \<Longrightarrow> settings_valid (default_settings key)"
  by (simp add: settings_valid_def default_settings_def in_range_def)

end
