(* ===== verification/Power_Runner.thy ===== *)
theory Power_Runner
  imports Runner_Monad Config
begin

text \<open>
  \<open>PowerOperationRunner\<close> of src/backend/app/services/power_runner.py: the worker that carries out
  power actions, size changes and deletions.  The Proxmox client is a record of functions on the
  world (\<open>PowerApi\<close>); decrypting the stored credential and building the client are parameters too.
  Loops are recursions on the attempts that are left.
\<close>

section \<open>The Proxmox API\<close>

record 'w power_api =
  submit_guest_power_action :: "workload_kind \<Rightarrow> string \<Rightarrow> int \<Rightarrow> string \<Rightarrow> 'w \<Rightarrow> string result \<times> 'w"
  get_task_status :: "string \<Rightarrow> string \<Rightarrow> 'w \<Rightarrow> dict result \<times> 'w"
  get_guest_status :: "workload_kind \<Rightarrow> string \<Rightarrow> int \<Rightarrow> 'w \<Rightarrow> dict result \<times> 'w"
  get_guest_config :: "workload_kind \<Rightarrow> string \<Rightarrow> int \<Rightarrow> 'w \<Rightarrow> dict result \<times> 'w"
  configure_guest :: "workload_kind \<Rightarrow> string \<Rightarrow> int \<Rightarrow> int \<Rightarrow> int \<Rightarrow> 'w \<Rightarrow> unit result \<times> 'w"
  resize_guest_disk :: "workload_kind \<Rightarrow> string \<Rightarrow> int \<Rightarrow> string \<Rightarrow> int \<Rightarrow> 'w \<Rightarrow> unit result \<times> 'w"
  delete_guest :: "workload_kind \<Rightarrow> string \<Rightarrow> int \<Rightarrow> 'w \<Rightarrow> string result \<times> 'w"

definition unavailable_api :: "app_error \<Rightarrow> 'w power_api" where
  "unavailable_api e = \<lparr>
     submit_guest_power_action = (\<lambda>_ _ _ _ w. (Inl (App e), w)),
     get_task_status = (\<lambda>_ _ w. (Inl (App e), w)),
     get_guest_status = (\<lambda>_ _ _ w. (Inl (App e), w)),
     get_guest_config = (\<lambda>_ _ _ w. (Inl (App e), w)),
     configure_guest = (\<lambda>_ _ _ _ _ w. (Inl (App e), w)),
     resize_guest_disk = (\<lambda>_ _ _ _ _ w. (Inl (App e), w)),
     delete_guest = (\<lambda>_ _ _ w. (Inl (App e), w))\<rparr>"

record 'w power_env =
  pe_env :: "'w runner_env"
  pe_settings :: settings
  pe_injected :: "'w power_api option"
  pe_decrypt :: "cluster_credential \<Rightarrow> uuid \<Rightarrow> string option"
  pe_connect :: "cluster \<Rightarrow> string \<Rightarrow> string \<Rightarrow> app_error + 'w power_api"

definition retryable_error_codes :: "string list" where
  "retryable_error_codes = [''CLUSTER_UNREACHABLE'', ''PVE_UPSTREAM_ERROR'', ''PVE_TIMEOUT'']"

definition is_retryable :: "app_error \<Rightarrow> bool" where
  "is_retryable e \<longleftrightarrow> code e \<in> set retryable_error_codes"

section \<open>Rows of a run\<close>

definition put_op :: "uuid \<Rightarrow> (operation \<Rightarrow> operation) \<Rightarrow> db \<Rightarrow> db" where
  "put_op i f d = d\<lparr>operations := modify_row op_id i f (operations d)\<rparr>"

definition put_wl :: "uuid \<Rightarrow> (workload \<Rightarrow> workload) \<Rightarrow> db \<Rightarrow> db" where
  "put_wl i f d = d\<lparr>workloads := modify_row wl_id i f (workloads d)\<rparr>"

definition put_task :: "uuid \<Rightarrow> (pve_task \<Rightarrow> pve_task) \<Rightarrow> db \<Rightarrow> db" where
  "put_task i f d = d\<lparr>pve_tasks := modify_row pt_id i f (pve_tasks d)\<rparr>"

definition add_task :: "pve_task \<Rightarrow> db \<Rightarrow> db" where
  "add_task t d = d\<lparr>pve_tasks := pve_tasks d @ [t]\<rparr>"

abbreviation get_op :: "db \<Rightarrow> uuid \<Rightarrow> operation option" where
  "get_op d i \<equiv> get_row op_id (operations d) i"

abbreviation get_wl :: "db \<Rightarrow> uuid \<Rightarrow> workload option" where
  "get_wl d i \<equiv> get_row wl_id (workloads d) i"

text \<open>The worker has no request, so its context variables have their defaults.\<close>

definition worker_ctx :: "datetime \<Rightarrow> audit_ctx" where
  "worker_ctx t = \<lparr>ac_now = t, ac_request_id = Some ''-'', ac_source_ip = None, ac_user_agent = None\<rparr>"

section \<open>Finishing\<close>

definition safe_error_summary :: "string option \<Rightarrow> string option" where
  "safe_error_summary c = (case c of
     Some (x # xs) \<Rightarrow> Some (''Workload operation failed ('' @ (x # xs) @ '').'') | _ \<Rightarrow> None)"

definition finish_op ::
    "datetime \<Rightarrow> operation_status \<Rightarrow> bool \<Rightarrow> string option \<Rightarrow> operation \<Rightarrow> operation" where
  "finish_op t st retry err x = x\<lparr>op_status := st, op_finished_at := Some t, op_heartbeat_at := Some t,
     op_error_code := err, op_error_summary := safe_error_summary err, op_retryable := Some retry,
     op_version := op_version x + 1\<rparr>"

definition finish_event ::
    "operation \<Rightarrow> user option \<Rightarrow> operation_status \<Rightarrow> string option \<Rightarrow> string option \<Rightarrow> dict \<Rightarrow> audit_event" where
  "finish_event op actor st err upid res =
     (audit_event (op_operation_type op) (if st = Op_SUCCEEDED then ''SUCCEEDED'' else ''FAILED'') None)
       \<lparr>ev_actor_user_id := Some (case actor of Some u \<Rightarrow> user_id u | None \<Rightarrow> op_requested_by_id op),
        ev_actor_role := map_option user_role_of actor,
        ev_organization_id := op_organization_id op,
        ev_workload_id := Some (op_workload_id op),
        ev_operation_id := Some (op_id op),
        ev_source_ip := Some (op_source_ip op),
        ev_pve_upid := upid,
        ev_target_type := Some (if is_admin_action (op_action op) then ''vm'' else ''workload''),
        ev_target_id := Some (uuid_str (op_workload_id op)),
        ev_details := Some
          [(''action_mode'', dict_get_or res ''action_mode'' (JStr ''STANDARD'')),
           (''workload_kind'', dict_get_or res ''workload_kind'' (JStr [])),
           (''status'', JStr (operation_status_value st)),
           (''error_code'', JStr (case err of Some c \<Rightarrow> c | None \<Rightarrow> []))]\<rparr>"

definition finish ::
    "'w power_env \<Rightarrow> operation \<Rightarrow> user option \<Rightarrow> operation_status \<Rightarrow> bool \<Rightarrow> string option \<Rightarrow> string option \<Rightarrow>
     ('w, unit) rm" where
  "finish P op actor st retry err upid =
     bindM (nowM (pe_env P)) (\<lambda>t.
     bindM (readM (\<lambda>d. case get_op d (op_id op) of Some x \<Rightarrow> op_result x | None \<Rightarrow> [])) (\<lambda>res.
     thenM (writeM (\<lambda>d. add_audit_event (worker_ctx t) (finish_event op actor st err upid res)
              (put_op (op_id op) (finish_op t st retry err) d)))
     commitM))"

definition finish_from_error ::
    "'w power_env \<Rightarrow> operation \<Rightarrow> user option \<Rightarrow> app_error \<Rightarrow> bool \<Rightarrow> string option \<Rightarrow> ('w, unit) rm" where
  "finish_from_error P op actor e submission upid =
     (let is_timeout = (code e = ''PVE_TIMEOUT'') in
      finish P op actor (if is_timeout then Op_TIMEOUT else Op_FAILED)
        (is_retryable e \<and> \<not> (submission \<and> is_timeout)) (Some (code e)) upid)"

section \<open>Calls\<close>

definition guest_args :: "workload \<Rightarrow> json list" where
  "guest_args w = [JStr (workload_kind_value (wl_kind w)), JStr (wl_node w), JInt (wl_vmid w)]"

definition call_guest_status :: "'w power_api \<Rightarrow> workload \<Rightarrow> ('w, dict) rm" where
  "call_guest_status api w =
     callM ''get_guest_status'' (guest_args w) (get_guest_status api (wl_kind w) (wl_node w) (wl_vmid w))"

definition call_submit :: "'w power_api \<Rightarrow> workload \<Rightarrow> string \<Rightarrow> ('w, string) rm" where
  "call_submit api w act =
     callM ''submit_guest_power_action'' (guest_args w @ [JStr act])
       (submit_guest_power_action api (wl_kind w) (wl_node w) (wl_vmid w) act)"

definition call_task_status :: "'w power_api \<Rightarrow> string \<Rightarrow> string \<Rightarrow> ('w, dict) rm" where
  "call_task_status api node upid =
     callM ''get_task_status'' [JStr node, JStr upid] (get_task_status api node upid)"

definition safe_guest_status ::
    "'w power_env \<Rightarrow> operation \<Rightarrow> user option \<Rightarrow> workload \<Rightarrow> 'w power_api \<Rightarrow> ('w, dict option) rm" where
  "safe_guest_status P op actor w api =
     catch_app (bindM (call_guest_status api w) (\<lambda>x. returnM (Some x)))
       (\<lambda>e. thenM (finish_from_error P op actor e False None) (returnM None))"

text \<open>\<open>str(status.get("status", "unknown"))\<close>\<close>

definition reported_state :: "dict \<Rightarrow> string" where
  "reported_state st = py_str (dict_get_or st ''status'' (JStr ''unknown''))"

definition no_op_result :: "power_action \<Rightarrow> dict \<Rightarrow> dict option result" where
  "no_op_result action st =
     (let state = str_lower (reported_state st) in
      if action = START \<and> state = ''running''
      then Inr (Some [(''no_op'', JBool True), (''message'', JStr ''The workload is already running.''),
                      (''final_power_state'', JStr ''RUNNING'')])
      else if action \<in> {SHUTDOWN, STOP} \<and> state = ''stopped''
      then Inr (Some [(''no_op'', JBool True), (''message'', JStr ''The workload is already stopped.''),
                      (''final_power_state'', JStr ''STOPPED'')])
      else if action \<in> {REBOOT, RESET} \<and> state \<noteq> ''running''
      then raise_app 409 ''VM_NOT_RUNNING'' ''The workload is not running.''
      else Inr None)"

section \<open>Submitting\<close>

fun submit_loop ::
    "nat \<Rightarrow> nat \<Rightarrow> 'w power_env \<Rightarrow> operation \<Rightarrow> user option \<Rightarrow> workload \<Rightarrow> 'w power_api \<Rightarrow> ('w, string option) rm" where
  "submit_loop 0 attempt P op actor w api = returnM None"
| "submit_loop (Suc n) attempt P op actor w api =
     catch_app (bindM (call_submit api w (op_action op)) (\<lambda>u. returnM (Some u)))
       (\<lambda>e. if is_retryable e \<and> code e \<noteq> ''PVE_TIMEOUT'' \<and>
               int attempt < pve_action_max_attempts (pe_settings P)
            then thenM (sleepM (pe_env P) (min (2 ^ (attempt - 1)) 5))
                   (submit_loop n (attempt + 1) P op actor w api)
            else thenM (finish_from_error P op actor e True None) (returnM None))"

definition submit ::
    "'w power_env \<Rightarrow> operation \<Rightarrow> user option \<Rightarrow> workload \<Rightarrow> 'w power_api \<Rightarrow> ('w, string option) rm" where
  "submit P op actor w api = submit_loop (nat (pve_action_max_attempts (pe_settings P))) 1 P op actor w api"

section \<open>Polling\<close>

definition pause :: "'w power_env \<Rightarrow> ('w, unit) rm" where
  "pause P = thenM commitM (sleepM (pe_env P) (pve_task_poll_interval_seconds (pe_settings P)))"

definition expected_state :: "power_action \<Rightarrow> string" where
  "expected_state a = (if a \<in> {SHUTDOWN, STOP} then ''STOPPED'' else ''RUNNING'')"

definition task_failed :: "string option \<Rightarrow> pve_task \<Rightarrow> pve_task" where
  "task_failed err t = t\<lparr>pt_status := ''FAILED'',
     pt_error_code := (case err of Some c \<Rightarrow> Some c | None \<Rightarrow> pt_error_code t)\<rparr>"

text \<open>The part of \<open>_poll\<close> after the task has stopped.\<close>

definition task_stopped ::
    "'w power_env \<Rightarrow> operation \<Rightarrow> user option \<Rightarrow> workload \<Rightarrow> pve_task \<Rightarrow> 'w power_api \<Rightarrow> dict \<Rightarrow> ('w, unit) rm" where
  "task_stopped P op actor w t api status =
     (let exit_status = dict_get status ''exitstatus'' in
      bindM (nowM (pe_env P)) (\<lambda>now.
      thenM (writeM (put_task (pt_id t) (\<lambda>x. x\<lparr>
               pt_pve_exit_status := (if exit_status = JNull then None else Some (py_str exit_status)),
               pt_completed_at := Some now\<rparr>)))
      (if exit_status \<noteq> JStr ''OK''
       then thenM (writeM (put_task (pt_id t) (task_failed None)))
              (finish P op actor Op_FAILED False (Some ''PVE_TASK_FAILED'') (Some (pt_upid t)))
       else
         thenM (writeM (put_task (pt_id t) (\<lambda>x. x\<lparr>pt_status := ''SUCCEEDED''\<rparr>)))
         (bindM (safe_guest_status P op actor w api) (\<lambda>final. case final of
            None \<Rightarrow> returnM ()
          | Some st \<Rightarrow>
            bindM (nowM (pe_env P)) (\<lambda>seen.
            let state = str_upper (reported_state st) in
            thenM (writeM (put_wl (wl_id w) (\<lambda>x. x\<lparr>wl_power_state := state, wl_observed_at := seen\<rparr>)))
            (case power_action_of (op_action op) of
               None \<Rightarrow> raiseM (PyError ''ValueError'')
             | Some a \<Rightarrow>
               if state \<noteq> expected_state a
               then finish P op actor Op_FAILED True (Some ''PVE_STATE_MISMATCH'') (Some (pt_upid t))
               else thenM (writeM (put_op (op_id op) (\<lambda>x. x\<lparr>op_result := dict_merge (op_result x)
                       [(''no_op'', JBool False), (''final_power_state'', JStr state)]\<rparr>)))
                    (finish P op actor Op_SUCCEEDED False None (Some (pt_upid t))))))))))"

definition read_attempts :: "uuid \<Rightarrow> ('w, int) rm" where
  "read_attempts i = readM (\<lambda>d. case get_row pt_id (pve_tasks d) i of Some t \<Rightarrow> pt_poll_attempts t | None \<Rightarrow> 0)"

text \<open>One turn of the loop, \<open>again\<close> being the next one.\<close>

definition poll_turn ::
    "'w power_env \<Rightarrow> operation \<Rightarrow> user option \<Rightarrow> workload \<Rightarrow> pve_task \<Rightarrow> 'w power_api \<Rightarrow> ('w, unit) rm \<Rightarrow> ('w, unit) rm" where
  "poll_turn P op actor w t api again =
     bindM (nowM (pe_env P)) (\<lambda>now.
     thenM (writeM (\<lambda>d. put_op (op_id op) (\<lambda>x. x\<lparr>op_heartbeat_at := Some now\<rparr>)
              (put_task (pt_id t) (\<lambda>x. x\<lparr>pt_poll_attempts := pt_poll_attempts x + 1,
                 pt_last_polled_at := Some now\<rparr>) d)))
     (bindM (catch_app (bindM (call_task_status api (pt_pve_node t) (pt_upid t)) (\<lambda>x. returnM (Inr x)))
               (\<lambda>e. returnM (Inl e))) (\<lambda>answer. case answer of
        Inl e \<Rightarrow>
          if is_retryable e then thenM (pause P) again
          else thenM (writeM (put_task (pt_id t) (task_failed (Some (code e)))))
                 (finish_from_error P op actor e False (Some (pt_upid t)))
      | Inr status \<Rightarrow>
          (let task_status = dict_get status ''status'' in
           if task_status = JStr ''running'' then thenM (pause P) again
           else if task_status \<noteq> JStr ''stopped''
           then thenM (writeM (put_task (pt_id t) (task_failed (Some ''PVE_INVALID_RESPONSE''))))
                  (finish P op actor Op_FAILED False (Some ''PVE_INVALID_RESPONSE'') (Some (pt_upid t)))
           else task_stopped P op actor w t api status))))"

text \<open>
  \<open>fuel\<close> bounds the turns; \<open>poll\<close> starts with the attempts that are left, so it never runs out
  (theory \<open>Power_Total\<close>).
\<close>

fun poll_loop ::
    "nat \<Rightarrow> 'w power_env \<Rightarrow> operation \<Rightarrow> user option \<Rightarrow> workload \<Rightarrow> pve_task \<Rightarrow> 'w power_api \<Rightarrow> datetime \<Rightarrow> ('w, unit) rm" where
  "poll_loop fuel P op actor w t api deadline =
     bindM (nowM (pe_env P)) (\<lambda>now.
     bindM (read_attempts (pt_id t)) (\<lambda>k.
       if now < deadline \<and> k < pve_task_max_poll_attempts (pe_settings P)
       then (case fuel of
           0 \<Rightarrow> raiseM (PyError ''out of fuel'')
         | Suc n \<Rightarrow> poll_turn P op actor w t api (poll_loop n P op actor w t api deadline))
       else thenM (writeM (put_task (pt_id t) (\<lambda>x. x\<lparr>pt_status := ''TIMEOUT'',
                     pt_error_code := Some ''PVE_TASK_TIMEOUT''\<rparr>)))
              (finish P op actor Op_TIMEOUT True (Some ''PVE_TASK_TIMEOUT'') (Some (pt_upid t)))))"

declare poll_loop.simps [simp del]

definition poll ::
    "'w power_env \<Rightarrow> operation \<Rightarrow> user option \<Rightarrow> workload \<Rightarrow> pve_task \<Rightarrow> 'w power_api \<Rightarrow> ('w, unit) rm" where
  "poll P op actor w t api =
     bindM (nowM (pe_env P)) (\<lambda>now.
     bindM (read_attempts (pt_id t)) (\<lambda>k.
       poll_loop (nat (pve_task_max_poll_attempts (pe_settings P) - k)) P op actor w t api
         (now + seconds (pve_task_timeout_seconds (pe_settings P)))))"

section \<open>Opening the client\<close>

definition open_client :: "'w power_env \<Rightarrow> workload \<Rightarrow> db \<Rightarrow> 'w power_api" where
  "open_client P w d = (case pe_injected P of
     Some api \<Rightarrow> api
   | None \<Rightarrow>
     (case (get_row cl_id (clusters d) (wl_cluster_id w),
            find (\<lambda>c. cred_cluster_id c = wl_cluster_id w \<and> cred_is_active c) (credentials d)) of
        (Some cl, Some cr) \<Rightarrow>
          if \<not> cl_is_active cl
          then unavailable_api (app_error 409 ''CLUSTER_UNAVAILABLE'' ''The workload cluster is unavailable.'')
          else (case pe_decrypt P cr (cl_id cl) of
              None \<Rightarrow> unavailable_api (app_error 500 ''CREDENTIAL_DECRYPTION_FAILED''
                ''The stored Proxmox credential could not be decrypted.'')
            | Some s \<Rightarrow> (case pe_connect P cl (cred_token_identifier cr) s of
                Inl e \<Rightarrow> unavailable_api e
              | Inr api \<Rightarrow> api))
      | _ \<Rightarrow> unavailable_api (app_error 409 ''CLUSTER_UNAVAILABLE'' ''The workload cluster is unavailable.'')))"

section \<open>Power actions\<close>

definition claim_op :: "datetime \<Rightarrow> operation \<Rightarrow> operation" where
  "claim_op now x = x\<lparr>op_status := Op_RUNNING,
     op_started_at := (case op_started_at x of Some t \<Rightarrow> Some t | None \<Rightarrow> Some now),
     op_heartbeat_at := Some now, op_attempt_count := op_attempt_count x + 1,
     op_version := op_version x + 1\<rparr>"

definition runnable :: "operation \<Rightarrow> workload \<Rightarrow> bool" where
  "runnable op w \<longleftrightarrow> wl_is_present w \<and> \<not> wl_is_template w \<and>
     \<not> (wl_kind w = LXC \<and> op_action op = power_action_value RESET)"

definition actor_authorized :: "db \<Rightarrow> operation \<Rightarrow> workload \<Rightarrow> user option \<Rightarrow> bool" where
  "actor_authorized d op w actor = (case actor of None \<Rightarrow> False | Some u \<Rightarrow>
     if \<not> user_is_active u then False
     else if user_role_of u = CUSTOMER then
       list_ex (\<lambda>m. mem_user_id m = user_id u \<and> Some (mem_organization_id m) = op_organization_id op \<and>
           list_ex (\<lambda>g. org_id g = mem_organization_id m \<and> org_is_active g) (organizations d)) (members d) \<and>
       wl_organization_id w = op_organization_id op \<and>
       op_action op \<in> set (map power_action_value [START, SHUTDOWN, STOP, REBOOT])
     else user_role_of u \<in> {SUPER_ADMIN, OPERATOR})"

definition find_task :: "db \<Rightarrow> uuid \<Rightarrow> pve_task option" where
  "find_task d i = find (\<lambda>t. pt_operation_id t = i) (pve_tasks d)"

definition lease_held :: "'w power_env \<Rightarrow> operation \<Rightarrow> datetime \<Rightarrow> bool" where
  "lease_held P op now =
     (case (case op_heartbeat_at op of Some t \<Rightarrow> Some t | None \<Rightarrow> op_started_at op) of
        Some t \<Rightarrow> t > now - seconds (operation_lease_seconds (pe_settings P)) | None \<Rightarrow> False)"

definition new_task :: "uuid \<Rightarrow> operation \<Rightarrow> workload \<Rightarrow> string \<Rightarrow> string \<Rightarrow> datetime \<Rightarrow> pve_task" where
  "new_task i op w step upid now = \<lparr>pt_id = i, pt_operation_id = op_id op,
     pt_cluster_id = wl_cluster_id w, pt_workload_id = wl_id w, pt_step_name = step, pt_upid = upid,
     pt_status = ''RUNNING'', pt_pve_node = wl_node w, pt_pve_exit_status = None,
     pt_submitted_at = now, pt_last_polled_at = None, pt_completed_at = None, pt_poll_attempts = 0,
     pt_error_code = None, pt_error_summary = None\<rparr>"

text \<open>The first submission of an action, up to the committed task.\<close>

definition submit_and_poll ::
    "'w power_env \<Rightarrow> operation \<Rightarrow> user option \<Rightarrow> workload \<Rightarrow> 'w power_api \<Rightarrow> power_action \<Rightarrow> ('w, unit) rm" where
  "submit_and_poll P op actor w api action =
     bindM (submit P op actor w api) (\<lambda>u. case u of
       None \<Rightarrow> returnM ()
     | Some upid \<Rightarrow>
       bindM (uuid4M (pe_env P)) (\<lambda>i.
       bindM (nowM (pe_env P)) (\<lambda>now.
       bindM (nowM (pe_env P)) (\<lambda>beat.
       let t = new_task i op w (''power_'' @ power_action_value action) upid now in
       thenM (writeM (\<lambda>d. put_op (op_id op) (\<lambda>x. x\<lparr>op_heartbeat_at := Some beat\<rparr>) (add_task t d)))
       (thenM commitM
       (poll P op actor w t api))))))"

definition start_action ::
    "'w power_env \<Rightarrow> operation \<Rightarrow> user option \<Rightarrow> workload \<Rightarrow> 'w power_api \<Rightarrow> power_action \<Rightarrow> bool \<Rightarrow> ('w, unit) rm" where
  "start_action P op actor w api action recovering =
     bindM (safe_guest_status P op actor w api) (\<lambda>current. case current of
       None \<Rightarrow> returnM ()
     | Some st \<Rightarrow>
       (case no_op_result action st of
          Inl (App e) \<Rightarrow> finish_from_error P op actor e False None
        | Inl e \<Rightarrow> raiseM e
        | Inr (Some no_op) \<Rightarrow>
            bindM (nowM (pe_env P)) (\<lambda>seen.
            thenM (writeM (\<lambda>d. put_op (op_id op) (\<lambda>x. x\<lparr>op_result := dict_merge (op_result x) no_op\<rparr>)
                    (put_wl (wl_id w) (\<lambda>x. x\<lparr>wl_power_state := str_upper (reported_state st),
                       wl_observed_at := seen\<rparr>) d)))
              (finish P op actor Op_SUCCEEDED False None None))
        | Inr None \<Rightarrow>
            if recovering \<and> action \<in> {REBOOT, RESET}
            then finish P op actor Op_FAILED False (Some ''OPERATION_STATE_UNKNOWN'') None
            else submit_and_poll P op actor w api action))"

definition run_action :: "'w power_env \<Rightarrow> operation \<Rightarrow> user option \<Rightarrow> workload \<Rightarrow> ('w, unit) rm" where
  "run_action P op actor w =
     bindM (readM (\<lambda>d. find_task d (op_id op))) (\<lambda>task.
     bindM (nowM (pe_env P)) (\<lambda>now.
     let recovering = (op_status op = Op_RUNNING) in
     if recovering \<and> task = None \<and> lease_held P op now then rollbackM
     else
       thenM (writeM (put_op (op_id op) (claim_op now)))
       (thenM commitM
       (case power_action_of (op_action op) of
          None \<Rightarrow> raiseM (PyError ''ValueError'')
        | Some action \<Rightarrow>
            bindM (readM (open_client P w)) (\<lambda>api.
            (case task of
               Some t \<Rightarrow> poll P op actor w t api
             | None \<Rightarrow> start_action P op actor w api action recovering))))))"

section \<open>Administrative actions\<close>

text \<open>\<open>isinstance(value, int)\<close>; a Python \<open>bool\<close> is an \<open>int\<close>.\<close>

fun as_int :: "json \<Rightarrow> int option" where
  "as_int (JInt i) = Some i"
| "as_int (JBool b) = Some (if b then 1 else 0)"
| "as_int _ = None"

definition is_digit :: "char \<Rightarrow> bool" where
  "is_digit c \<longleftrightarrow> (let n = (of_char c :: nat) in 48 \<le> n \<and> n \<le> 57)"

text \<open>\<open>re.fullmatch(r"(?:scsi|virtio|sata|ide)\d+", key)\<close>\<close>

definition disk_key :: "string \<Rightarrow> bool" where
  "disk_key k \<longleftrightarrow> list_ex (\<lambda>p. is_prefix p k \<and> length p < length k \<and> list_all is_digit (drop (length p) k))
     [''scsi'', ''virtio'', ''sata'', ''ide'']"

definition resizable_disk :: "workload_kind \<Rightarrow> dict \<Rightarrow> string result" where
  "resizable_disk kind config =
     (if kind = LXC then
        (if ''rootfs'' \<in> set (map fst config) then Inr ''rootfs''
         else raise_app 409 ''VM_DISK_LAYOUT_UNSUPPORTED'' ''The root disk was not found.'')
      else
        (case map fst (filter (\<lambda>(k, v). disk_key k \<and> \<not> contains_str ''media=cdrom'' (py_str v) \<and>
                \<not> contains_str ''cloudinit'' (py_str v)) config) of
           [disk] \<Rightarrow> Inr disk
         | _ \<Rightarrow> raise_app 409 ''VM_DISK_LAYOUT_UNSUPPORTED'' ''Exactly one VM disk is required.''))"

definition apply_spec :: "'w power_env \<Rightarrow> operation \<Rightarrow> workload \<Rightarrow> 'w power_api \<Rightarrow> ('w, unit) rm" where
  "apply_spec P op w api =
     (case (as_int (dict_get (op_result op) ''cpu_cores''), as_int (dict_get (op_result op) ''memory_bytes'')) of
        (Some cores, Some memory_bytes) \<Rightarrow>
          thenM (callM ''configure_guest'' (guest_args w @ [JInt cores, JInt (memory_bytes div 1024 ^ 2)])
                   (configure_guest api (wl_kind w) (wl_node w) (wl_vmid w) cores (memory_bytes div 1024 ^ 2)))
          (thenM
            (case as_int (dict_get (op_result op) ''disk_bytes'') of
               Some disk_bytes \<Rightarrow>
                 if disk_bytes > (case wl_disk_bytes w of Some b \<Rightarrow> b | None \<Rightarrow> 0) then
                   bindM (callM ''get_guest_config'' (guest_args w)
                            (get_guest_config api (wl_kind w) (wl_node w) (wl_vmid w))) (\<lambda>config.
                   bindM (liftM (resizable_disk (wl_kind w) config)) (\<lambda>disk.
                   thenM (callM ''resize_guest_disk'' (guest_args w @ [JStr disk, JInt disk_bytes])
                            (resize_guest_disk api (wl_kind w) (wl_node w) (wl_vmid w) disk disk_bytes))
                   (writeM (put_wl (wl_id w) (\<lambda>x. x\<lparr>wl_disk_bytes := Some disk_bytes\<rparr>)))))
                 else returnM ()
             | None \<Rightarrow> returnM ())
          (bindM (nowM (pe_env P)) (\<lambda>now.
             writeM (\<lambda>d. put_op (op_id op) (\<lambda>x. x\<lparr>op_result := dict_merge (op_result x) [(''applied'', JBool True)]\<rparr>)
               (put_wl (wl_id w) (\<lambda>x. x\<lparr>wl_cpu_cores := Some cores, wl_memory_bytes := Some memory_bytes,
                  wl_observed_at := now, wl_version := wl_version x + 1\<rparr>) d)))))
      | _ \<Rightarrow> raiseM (App (app_error 500 ''OPERATION_PAYLOAD_INVALID'' ''The VM operation is invalid.'')))"

fun poll_delete ::
    "nat \<Rightarrow> 'w power_env \<Rightarrow> operation \<Rightarrow> user option \<Rightarrow> workload \<Rightarrow> pve_task \<Rightarrow> 'w power_api \<Rightarrow> ('w, unit) rm" where
  "poll_delete 0 P op actor w t api =
     thenM (writeM (put_task (pt_id t) (\<lambda>x. x\<lparr>pt_status := ''TIMEOUT''\<rparr>)))
       (finish P op actor Op_TIMEOUT True (Some ''PVE_TASK_TIMEOUT'') (Some (pt_upid t)))"
| "poll_delete (Suc n) P op actor w t api =
     bindM (nowM (pe_env P)) (\<lambda>now.
     thenM (writeM (put_task (pt_id t) (\<lambda>x. x\<lparr>pt_poll_attempts := pt_poll_attempts x + 1,
              pt_last_polled_at := Some now\<rparr>)))
     (bindM (call_task_status api (pt_pve_node t) (pt_upid t)) (\<lambda>status.
      if dict_get status ''status'' = JStr ''running''
      then thenM (pause P) (poll_delete n P op actor w t api)
      else
        bindM (nowM (pe_env P)) (\<lambda>done.
        thenM (writeM (put_task (pt_id t) (\<lambda>x. x\<lparr>
                 pt_pve_exit_status := Some (py_str (dict_get_or status ''exitstatus'' (JStr []))),
                 pt_completed_at := Some done\<rparr>)))
        (if dict_get status ''status'' \<noteq> JStr ''stopped'' \<or> dict_get status ''exitstatus'' \<noteq> JStr ''OK''
         then thenM (writeM (put_task (pt_id t) (\<lambda>x. x\<lparr>pt_status := ''FAILED''\<rparr>)))
                (finish P op actor Op_FAILED False (Some ''PVE_TASK_FAILED'') (Some (pt_upid t)))
         else
           bindM (nowM (pe_env P)) (\<lambda>seen.
           thenM (writeM (\<lambda>d. put_op (op_id op) (\<lambda>x. x\<lparr>op_result := dict_merge (op_result x) [(''deleted'', JBool True)]\<rparr>)
                    (put_wl (wl_id w) (\<lambda>x. x\<lparr>wl_is_present := False, wl_observed_at := seen,
                       wl_version := wl_version x + 1\<rparr>)
                    (put_task (pt_id t) (\<lambda>x. x\<lparr>pt_status := ''SUCCEEDED''\<rparr>) d))))
             (finish P op actor Op_SUCCEEDED False None (Some (pt_upid t)))))))))"

definition delete_vm :: "'w power_env \<Rightarrow> operation \<Rightarrow> user option \<Rightarrow> workload \<Rightarrow> 'w power_api \<Rightarrow> ('w, unit) rm" where
  "delete_vm P op actor w api =
     bindM (call_guest_status api w) (\<lambda>current.
     if str_lower (reported_state current) \<noteq> ''stopped''
     then raiseM (App (app_error 409 ''VM_NOT_STOPPED'' ''Stop the VM before deleting it.''))
     else
       bindM (callM ''delete_guest'' (guest_args w)
                (delete_guest api (wl_kind w) (wl_node w) (wl_vmid w))) (\<lambda>upid.
       bindM (nowM (pe_env P)) (\<lambda>now.
       bindM (uuid4M (pe_env P)) (\<lambda>i.
       let t = new_task i op w ''delete'' upid now in
       thenM (writeM (add_task t))
       (thenM commitM
       (poll_delete (nat (pve_task_max_poll_attempts (pe_settings P))) P op actor w t api))))))"

definition run_admin_action :: "'w power_env \<Rightarrow> operation \<Rightarrow> ('w, unit) rm" where
  "run_admin_action P op =
     bindM (readM (\<lambda>d. (get_wl d (op_workload_id op), get_user d (op_requested_by_id op)))) (\<lambda>(wl, actor).
     (case wl of
        None \<Rightarrow> finish P op actor Op_FAILED False (Some ''VM_NOT_FOUND'') None
      | Some w \<Rightarrow>
        if \<not> wl_is_present w \<or> wl_is_template w
        then finish P op actor Op_FAILED False (Some ''VM_NOT_FOUND'') None
        else if (case actor of None \<Rightarrow> True
                 | Some u \<Rightarrow> \<not> user_is_active u \<or> user_role_of u \<noteq> SUPER_ADMIN)
        then finish P op actor Op_FAILED False (Some ''PERMISSION_REVOKED'') None
        else
          bindM (nowM (pe_env P)) (\<lambda>now.
          bindM (nowM (pe_env P)) (\<lambda>beat.
          thenM (writeM (put_op (op_id op) (\<lambda>x. (claim_op now x)\<lparr>op_heartbeat_at := Some beat\<rparr>)))
          (thenM commitM
          (bindM (readM (open_client P w)) (\<lambda>api.
             catch_app
               (if op_action op = admin_vm_action_value UPDATE_SPEC
                then thenM (apply_spec P op w api) (finish P op actor Op_SUCCEEDED False None None)
                else delete_vm P op actor w api)
               (\<lambda>e. finish_from_error P op actor e False None))))))))"

section \<open>\<open>run\<close>\<close>

definition run :: "'w power_env \<Rightarrow> uuid \<Rightarrow> ('w, unit) rm" where
  "run P i =
     bindM (readM (\<lambda>d. get_op d i)) (\<lambda>row. case row of
       None \<Rightarrow> returnM ()
     | Some op \<Rightarrow>
       if terminal_status (op_status op) then returnM ()
       else if is_admin_action (op_action op) then run_admin_action P op
       else
         bindM (readM (\<lambda>d. (get_wl d (op_workload_id op), get_user d (op_requested_by_id op)))) (\<lambda>(wl, actor).
           case wl of
             None \<Rightarrow> finish P op actor Op_FAILED False (Some ''VM_NOT_FOUND'') None
           | Some w \<Rightarrow>
               if \<not> runnable op w
               then finish P op actor Op_FAILED False (Some ''VM_NOT_FOUND'') None
               else
                 bindM (readM (\<lambda>d. actor_authorized d op w actor)) (\<lambda>ok.
                 if \<not> ok then finish P op actor Op_FAILED False (Some ''PERMISSION_REVOKED'') None
                 else run_action P op actor w)))"

text \<open>\<open>run_power_operation\<close>: one task of the worker, from the stored state to the stored state.\<close>

definition run_power_operation :: "'w power_env \<Rightarrow> uuid \<Rightarrow> db \<Rightarrow> 'w \<Rightarrow> unit result \<times> 'w rs" where
  "run_power_operation P i d w = run P i (start_run d w)"

end
