(* ===== verification/Free_Offset.thy ===== *)
theory Free_Offset
  imports Prelude "HOL-Library.Product_Lexorder"
begin

text \<open>
  \<open>IpamService._first_free_offset\<close> (src/backend/app/services/ipam.py): the search for the next
  address of a pool.  The blocked ranges are sorted, clipped to the pool and merged; then the
  gaps are walked from the pool's cursor to the end and from 0 to the cursor.  The walk never
  touches the addresses one by one, so it works on an IPv6 network of \<open>2 ^ 64\<close> addresses; the
  theorem is that it finds exactly what the one-by-one search would.
\<close>

type_synonym range = "int \<times> int"

section \<open>The code\<close>

fun merge_ranges :: "int \<Rightarrow> range list \<Rightarrow> range list \<Rightarrow> range list" where
  "merge_ranges sz merged [] = merged"
| "merge_ranges sz merged ((low, high) # bs) =
     (if high < 0 \<or> sz \<le> low then merge_ranges sz merged bs
      else let low = max 0 low; high = min (sz - 1) high in
        if merged \<noteq> [] \<and> low \<le> snd (last merged) + 1
        then merge_ranges sz
               (butlast merged @ [(fst (last merged), max (snd (last merged)) high)]) bs
        else merge_ranges sz (merged @ [(low, high)]) bs)"

fun scan_range :: "int \<Rightarrow> int \<Rightarrow> range list \<Rightarrow> int option" where
  "scan_range range_end cursor [] = (if cursor \<le> range_end then Some cursor else None)"
| "scan_range range_end cursor ((low, high) # ms) =
     (if high < cursor then scan_range range_end cursor ms
      else if range_end < low then (if cursor \<le> range_end then Some cursor else None)
      else if cursor < low then Some cursor
      else let cursor = max cursor (high + 1) in
        if range_end < cursor then None else scan_range range_end cursor ms)"

definition first_free_offset :: "int \<Rightarrow> int \<Rightarrow> range list \<Rightarrow> int option" where
  "first_free_offset sz start blocked =
     (let merged = merge_ranges sz [] (sort blocked) in
      case (if sz - 1 < start then None else scan_range (sz - 1) start merged) of
        Some offset \<Rightarrow> Some offset
      | None \<Rightarrow> if start - 1 < 0 then None else scan_range (start - 1) 0 merged)"

section \<open>The specification\<close>

definition covered :: "range list \<Rightarrow> int \<Rightarrow> bool" where
  "covered rs x \<longleftrightarrow> (\<exists>(low, high) \<in> set rs. low \<le> x \<and> x \<le> high)"

text \<open>The reference: look at every offset, from \<open>start\<close> upwards and around.\<close>

definition naive_first_free :: "int \<Rightarrow> int \<Rightarrow> range list \<Rightarrow> int option" where
  "naive_first_free sz start blocked =
     find (\<lambda>x. \<not> covered blocked x) ([start..sz - 1] @ [0..start - 1])"

lemma covered_simps [simp]:
  "\<not> covered [] x"
  "covered ((low, high) # rs) x \<longleftrightarrow> (low \<le> x \<and> x \<le> high) \<or> covered rs x"
  "covered (rs @ rs') x \<longleftrightarrow> covered rs x \<or> covered rs' x"
  by (auto simp: covered_def)

lemma covered_set: "set rs = set rs' \<Longrightarrow> covered rs x = covered rs' x"
  by (simp add: covered_def)

lemma covered_code [code]: "covered rs x = list_ex (\<lambda>(low, high). low \<le> x \<and> x \<le> high) rs"
  by (auto simp: covered_def list_ex_iff)

section \<open>Merging keeps the covered offsets\<close>

definition starts_below :: "int \<Rightarrow> range list \<Rightarrow> bool" where
  "starts_below b rs \<longleftrightarrow> (\<forall>r \<in> set rs. fst r \<le> b)"

lemma starts_below_simps [simp]:
  "starts_below b []"
  "starts_below b (r # rs) \<longleftrightarrow> fst r \<le> b \<and> starts_below b rs"
  "starts_below b (rs @ rs') \<longleftrightarrow> starts_below b rs \<and> starts_below b rs'"
  by (auto simp: starts_below_def)

text \<open>One round of the loop, on a clipped range that starts no earlier than those merged.\<close>

definition push_range :: "range list \<Rightarrow> range \<Rightarrow> range list" where
  "push_range merged r =
     (if merged \<noteq> [] \<and> fst r \<le> snd (last merged) + 1
      then butlast merged @ [(fst (last merged), max (snd (last merged)) (snd r))]
      else merged @ [r])"

lemma merge_ranges_Cons:
  "merge_ranges sz merged ((low, high) # bs) =
     (if high < 0 \<or> sz \<le> low then merge_ranges sz merged bs
      else merge_ranges sz (push_range merged (max 0 low, min (sz - 1) high)) bs)"
  by (auto simp: Let_def push_range_def)

lemma push_range_below: "starts_below b merged \<Longrightarrow> fst r \<le> b \<Longrightarrow> starts_below b (push_range merged r)"
  by (cases merged rule: rev_cases) (auto simp: push_range_def)

lemma push_range_sorted:
  "sorted (map fst merged) \<Longrightarrow> starts_below (fst r) merged \<Longrightarrow> sorted (map fst (push_range merged r))"
  by (cases merged rule: rev_cases) (auto simp: push_range_def sorted_append starts_below_def)

lemma push_range_covered:
  assumes "starts_below (fst r) merged"
  shows "covered (push_range merged r) x \<longleftrightarrow> covered merged x \<or> (fst r \<le> x \<and> x \<le> snd r)"
proof (cases merged rule: rev_cases)
  case Nil
  then show ?thesis by (cases r) (simp add: push_range_def)
next
  case (snoc ms l)
  then show ?thesis using assms by (cases r; cases l) (auto simp: push_range_def)
qed

lemma merge_ranges_sorted:
  assumes "sorted (map fst merged)" "sorted (map fst bs)"
    "\<forall>b \<in> set bs. starts_below (max 0 (fst b)) merged"
  shows "sorted (map fst (merge_ranges sz merged bs))"
  using assms
proof (induction bs arbitrary: merged)
  case (Cons b bs)
  obtain low high where b: "b = (low, high)" by force
  let ?m = "push_range merged (max 0 low, min (sz - 1) high)"
  have "sorted (map fst ?m)" using Cons.prems b by (intro push_range_sorted) auto
  moreover have "\<forall>c \<in> set bs. starts_below (max 0 (fst c)) ?m"
    using Cons.prems b by (auto intro!: push_range_below)
  ultimately show ?case
    using Cons b by (simp add: merge_ranges_Cons del: merge_ranges.simps(2))
qed simp

lemma merge_ranges_covered:
  assumes "sorted (map fst bs)" "\<forall>b \<in> set bs. starts_below (max 0 (fst b)) merged" "0 \<le> x" "x < sz"
  shows "covered (merge_ranges sz merged bs) x \<longleftrightarrow> covered merged x \<or> covered bs x"
  using assms
proof (induction bs arbitrary: merged)
  case (Cons b bs)
  obtain low high where b: "b = (low, high)" by force
  let ?m = "push_range merged (max 0 low, min (sz - 1) high)"
  have "\<forall>c \<in> set bs. starts_below (max 0 (fst c)) ?m"
    using Cons.prems b by (auto intro!: push_range_below)
  moreover have "covered ?m x \<longleftrightarrow> covered merged x \<or> (max 0 low \<le> x \<and> x \<le> min (sz - 1) high)"
    using Cons.prems b push_range_covered[of "(max 0 low, min (sz - 1) high)" merged x] by simp
  ultimately show ?case
    using Cons b by (auto simp add: merge_ranges_Cons simp del: merge_ranges.simps(2))
qed simp

section \<open>Walking the gaps\<close>

lemma upto_Cons: "c \<le> e \<Longrightarrow> [c..e] = c # [c + 1..e]"
  by (simp add: upto_rec1)

lemma find_skip:
  "(\<And>y. c \<le> y \<Longrightarrow> y < c' \<Longrightarrow> \<not> P y) \<Longrightarrow> c \<le> c' \<Longrightarrow> find P [c..e] = find P [c'..e]"
proof (induction "nat (c' - c)" arbitrary: c)
  case (Suc n)
  show ?case
  proof (cases "c \<le> e")
    case True
    have "\<not> P c" using Suc by simp
    moreover have "find P [c + 1..e] = find P [c'..e]" using Suc by (intro Suc.hyps) auto
    ultimately show ?thesis by (simp add: upto_Cons[OF True])
  qed (use Suc in simp)
qed simp

lemma find_upto_hit: "P c \<Longrightarrow> c \<le> e \<Longrightarrow> find P [c..e] = Some c"
  by (simp add: upto_Cons)

lemma covered_starts: "x < l \<Longrightarrow> \<forall>(low, high) \<in> set rs. l \<le> low \<Longrightarrow> \<not> covered rs x"
  by (auto simp: covered_def)

lemma find_cong_upto:
  "(\<And>x. c \<le> x \<Longrightarrow> x \<le> e \<Longrightarrow> P x = Q x) \<Longrightarrow> find P [c..e] = find Q [c..e]"
  by (rule find_cong) auto

lemma scan_range_find:
  "sorted (map fst ms) \<Longrightarrow> scan_range e c ms = find (\<lambda>x. \<not> covered ms x) [c..e]"
proof (induction e c ms rule: scan_range.induct)
  case (1 e c)
  then show ?case by (simp add: find_upto_hit)
next
  case (2 e c low high ms)
  have later: "\<forall>(l, h) \<in> set ms. low \<le> l" using 2(3) by auto
  show ?case
  proof (cases "high < c")
    case True
    then have "find (\<lambda>x. \<not> covered ((low, high) # ms) x) [c..e] = find (\<lambda>x. \<not> covered ms x) [c..e]"
      by (intro find_cong_upto) auto
    with True 2 show ?thesis by simp
  next
    case nskip: False
    show ?thesis
    proof (cases "c < low")
      case True
      then have "\<not> covered ((low, high) # ms) c" using later covered_starts[of c low ms] by simp
      with True nskip show ?thesis by (auto simp: find_upto_hit)
    next
      case False
      then have cov: "c \<le> y \<Longrightarrow> y < high + 1 \<Longrightarrow> covered ((low, high) # ms) y" for y by auto
      have "find (\<lambda>x. \<not> covered ((low, high) # ms) x) [c..e] =
          find (\<lambda>x. \<not> covered ((low, high) # ms) x) [high + 1..e]"
        by (rule find_skip) (use cov nskip in auto)
      also have "\<dots> = find (\<lambda>x. \<not> covered ms x) [high + 1..e]"
        by (rule find_cong_upto) auto
      finally show ?thesis
        using 2(2)[OF nskip] 2(3) nskip False by (auto simp: Let_def max_def)
    qed
  qed
qed

lemma sort_fst_sorted: "sorted (map fst (sort (bs :: range list)))"
proof -
  have "sorted_wrt (\<lambda>x y. fst x \<le> fst y) (sort bs)"
    using sorted_sort[of bs] unfolding sorted_wrt_map
    by (rule sorted_wrt_mono_rel[rotated]) (auto simp: less_eq_prod_def)
  then show ?thesis by (simp add: sorted_map)
qed

lemma first_free_offset_naive:
  assumes "0 \<le> start" "start \<le> sz"
  shows "first_free_offset sz start blocked = naive_first_free sz start blocked"
proof -
  let ?m = "merge_ranges sz [] (sort blocked)"
  have sorted: "sorted (map fst ?m)"
    by (intro merge_ranges_sorted sort_fst_sorted) (simp_all add: starts_below_def)
  have cov: "covered ?m x \<longleftrightarrow> covered blocked x" if "0 \<le> x" "x < sz" for x
    using merge_ranges_covered[OF sort_fst_sorted, of blocked "[]" x sz] that
      covered_set[of "sort blocked" blocked x]
    by (simp add: starts_below_def)
  have hi: "scan_range (sz - 1) start ?m = find (\<lambda>x. \<not> covered blocked x) [start..sz - 1]"
    using assms cov by (simp add: scan_range_find[OF sorted]) (intro find_cong_upto, auto)
  have lo: "scan_range (start - 1) 0 ?m = find (\<lambda>x. \<not> covered blocked x) [0..start - 1]"
    using assms cov by (simp add: scan_range_find[OF sorted]) (intro find_cong_upto, auto)
  show ?thesis
    by (auto simp: first_free_offset_def naive_first_free_def Let_def hi lo find_append
        split: option.splits)
qed

text \<open>What the allocator uses: the result is free and in range, and failure means exhaustion.\<close>

lemma first_free_offset_Some:
  assumes "0 \<le> start" "start \<le> sz" "first_free_offset sz start blocked = Some x"
  shows "0 \<le> x" "x < sz" "\<not> covered blocked x"
  using assms by (auto simp: first_free_offset_naive naive_first_free_def dest!: find_Some_mem)

lemma first_free_offset_None:
  assumes "0 \<le> start" "start \<le> sz"
  shows "first_free_offset sz start blocked = None \<longleftrightarrow> (\<forall>x. 0 \<le> x \<and> x < sz \<longrightarrow> covered blocked x)"
  using assms by (force simp: first_free_offset_naive naive_first_free_def find_None_iff)

end
