(* ===== verification/Ipam.thy ===== *)
theory Ipam
  imports Audit_Log Free_Offset "HOL-Library.List_Lexorder" "HOL-Library.Char_ord"
begin

text \<open>
  \<open>IpamService\<close> of src/backend/app/services/ipam.py with the payloads and responses of
  src/backend/app/schemas/ipam.py: address pools, allocation to workloads, the reservation that
  provisioning makes, and quarantine.  Every handler is a function from the stored state to a
  result and the next stored state; \<open>fresh\<close> supplies the values of \<open>uuid4()\<close> in the order of the
  calls, and \<open>draws\<close> the randomness of \<open>SystemRandom\<close>.  Addresses are kept parsed: \<open>str\<close> followed
  by \<open>ip_address\<close> gives the same address back.
\<close>

section \<open>schemas/ipam.py\<close>

record ip_range_request =
  rng_start :: address
  rng_end :: address
  rng_reason :: "string option"

record ip_pool_create =
  pc_name :: string
  pc_cluster_id :: "uuid option"
  pc_cidr :: string
  pc_gateway :: "address option"
  pc_dns_servers :: "address list"
  pc_bridge :: string
  pc_vlan_tag :: "int option"
  pc_excluded_ranges :: "ip_range_request list"
  pc_allocation_strategy :: allocation_strategy
  pc_quarantine_seconds :: int

definition str_len :: "nat \<Rightarrow> nat \<Rightarrow> string \<Rightarrow> bool" where
  "str_len lo hi s \<longleftrightarrow> lo \<le> length s \<and> length s \<le> hi"

definition opt_all :: "('a \<Rightarrow> bool) \<Rightarrow> 'a option \<Rightarrow> bool" where
  "opt_all P x = (case x of None \<Rightarrow> True | Some v \<Rightarrow> P v)"

definition between :: "int \<Rightarrow> int \<Rightarrow> int \<Rightarrow> bool" where
  "between lo hi n \<longleftrightarrow> lo \<le> n \<and> n \<le> hi"

definition ip_pool_create_valid :: "ip_pool_create \<Rightarrow> bool" where
  "ip_pool_create_valid p \<longleftrightarrow>
     str_len 1 120 (pc_name p) \<and> str_len 3 64 (pc_cidr p) \<and> length (pc_dns_servers p) \<le> 8 \<and>
     str_len 1 64 (pc_bridge p) \<and> opt_all (between 1 4094) (pc_vlan_tag p) \<and>
     length (pc_excluded_ranges p) \<le> 128 \<and>
     list_all (\<lambda>r. opt_all (str_len 0 255) (rng_reason r)) (pc_excluded_ranges p) \<and>
     between 0 2592000 (pc_quarantine_seconds p)"

text \<open>
  In an update, \<open>model_fields_set\<close> tells a field set to \<open>null\<close> from one left out: the outer
  option of the four fields the service asks it about.
\<close>

record ip_pool_update =
  pu_name :: "string option"
  pu_cluster_id :: "uuid option option"
  pu_cidr :: "string option"
  pu_gateway :: "address option option"
  pu_dns_servers :: "address list option option"
  pu_bridge :: "string option"
  pu_vlan_tag :: "int option option"
  pu_allocation_strategy :: "allocation_strategy option"
  pu_quarantine_seconds :: "int option"
  pu_version :: int

definition ip_pool_update_valid :: "ip_pool_update \<Rightarrow> bool" where
  "ip_pool_update_valid p \<longleftrightarrow>
     opt_all (str_len 1 120) (pu_name p) \<and> opt_all (str_len 3 64) (pu_cidr p) \<and>
     opt_all (opt_all (\<lambda>xs. length xs \<le> 8)) (pu_dns_servers p) \<and>
     opt_all (str_len 1 64) (pu_bridge p) \<and> opt_all (opt_all (between 1 4094)) (pu_vlan_tag p) \<and>
     opt_all (between 0 2592000) (pu_quarantine_seconds p) \<and> 1 \<le> pu_version p"

record ip_pool_response =
  pr_id :: uuid
  pr_name :: string
  pr_cluster_id :: "uuid option"
  pr_cidr :: string
  pr_prefix_length :: nat
  pr_gateway :: "string option"
  pr_dns_servers :: "string list"
  pr_bridge :: string
  pr_vlan_tag :: "int option"
  pr_ip_family :: int
  pr_allocation_strategy :: string
  pr_quarantine_seconds :: int
  pr_is_active :: bool
  pr_allocated_count :: nat
  pr_quarantined_count :: nat
  pr_availability_status :: string
  pr_version :: int

record ip_address_response =
  ar_id :: uuid
  ar_pool_id :: uuid
  ar_address :: string
  ar_state :: ip_address_state
  ar_reserved_for :: "string option"
  ar_quarantined_until :: "datetime option"
  ar_workload_id :: "uuid option"

record ip_allocation_response =
  lr_id :: uuid
  lr_pool_id :: uuid
  lr_ip_address_id :: uuid
  lr_address :: string
  lr_workload_id :: uuid
  lr_kind :: ip_allocation_kind
  lr_status :: ip_allocation_status
  lr_allocated_at :: datetime
  lr_released_at :: "datetime option"
  lr_quarantined_until :: "datetime option"

section \<open>Helpers of the service\<close>

definition network_of :: "string \<Rightarrow> network result" where
  "network_of s = (case parse_network s of
     Some n \<Rightarrow> Inr n | None \<Rightarrow> raise_app 422 ''INVALID_CIDR'' ''The CIDR is invalid.'')"

abbreviation get_pool_row :: "db \<Rightarrow> uuid \<Rightarrow> ip_pool option" where
  "get_pool_row d i \<equiv> get_row pool_id (ip_pools d) i"

abbreviation get_addr :: "db \<Rightarrow> uuid \<Rightarrow> ip_address option" where
  "get_addr d i \<equiv> get_row addr_id (ip_addresses d) i"

abbreviation get_alloc :: "db \<Rightarrow> uuid \<Rightarrow> ip_allocation option" where
  "get_alloc d i \<equiv> get_row alloc_id (ip_allocations d) i"

definition put_pool :: "uuid \<Rightarrow> (ip_pool \<Rightarrow> ip_pool) \<Rightarrow> db \<Rightarrow> db" where
  "put_pool i f d = d\<lparr>ip_pools := modify_row pool_id i f (ip_pools d)\<rparr>"

definition put_addr :: "uuid \<Rightarrow> (ip_address \<Rightarrow> ip_address) \<Rightarrow> db \<Rightarrow> db" where
  "put_addr i f d = d\<lparr>ip_addresses := modify_row addr_id i f (ip_addresses d)\<rparr>"

definition put_alloc :: "uuid \<Rightarrow> (ip_allocation \<Rightarrow> ip_allocation) \<Rightarrow> db \<Rightarrow> db" where
  "put_alloc i f d = d\<lparr>ip_allocations := modify_row alloc_id i f (ip_allocations d)\<rparr>"

definition add_addr :: "ip_address \<Rightarrow> db \<Rightarrow> db" where
  "add_addr a d = d\<lparr>ip_addresses := ip_addresses d @ [a]\<rparr>"

definition add_alloc :: "ip_allocation \<Rightarrow> db \<Rightarrow> db" where
  "add_alloc a d = d\<lparr>ip_allocations := ip_allocations d @ [a]\<rparr>"

definition locked_pool :: "db \<Rightarrow> uuid \<Rightarrow> ip_pool result" where
  "locked_pool d i = (case get_pool_row d i of
     Some p \<Rightarrow> if pool_is_active p then Inr p
               else raise_app 404 ''IP_POOL_NOT_FOUND'' ''The IP pool was not found.''
   | None \<Rightarrow> raise_app 404 ''IP_POOL_NOT_FOUND'' ''The IP pool was not found.'')"

definition exclusion_bounds :: "db \<Rightarrow> uuid \<Rightarrow> range list" where
  "exclusion_bounds d i =
     map (\<lambda>e. (address_int (ex_start_address e), address_int (ex_end_address e)))
       (filter (\<lambda>e. ex_pool_id e = i) (exclusions d))"

definition is_excluded :: "db \<Rightarrow> uuid \<Rightarrow> address \<Rightarrow> bool" where
  "is_excluded d i a \<longleftrightarrow> covered (exclusion_bounds d i) (address_int a)"

definition special :: "ip_pool \<Rightarrow> network \<Rightarrow> address \<Rightarrow> bool" where
  "special p n a \<longleftrightarrow>
     a = Address (network_version n) (network_address n) \<or>
     network_version n = V4 \<and> a = Address V4 (broadcast_address n) \<or>
     pool_gateway p = Some a"

definition validated_candidate :: "ip_pool \<Rightarrow> address \<Rightarrow> bool \<Rightarrow> address result" where
  "validated_candidate p a allow_special =
     (if address_version a \<noteq> network_version (pool_cidr p) \<or> \<not> in_network a (pool_cidr p)
      then raise_app 422 ''IP_OUTSIDE_POOL'' ''The IP address is outside the pool CIDR.''
      else if \<not> allow_special \<and> special p (pool_cidr p) a
      then raise_app 409 ''IP_ADDRESS_EXCLUDED'' ''The IP address is reserved by the network.''
      else Inr a)"

definition count_state :: "db \<Rightarrow> uuid \<Rightarrow> ip_address_state \<Rightarrow> nat" where
  "count_state d i s =
     length (filter (\<lambda>a. addr_pool_id a = i \<and> addr_state a = s) (ip_addresses d))"

definition pool_response :: "db \<Rightarrow> ip_pool \<Rightarrow> ip_pool_response" where
  "pool_response d p = \<lparr>pr_id = pool_id p, pr_name = pool_name p,
     pr_cluster_id = pool_cluster_id p, pr_cidr = network_str (pool_cidr p),
     pr_prefix_length = prefixlen (pool_cidr p),
     pr_gateway = map_option address_str (pool_gateway p),
     pr_dns_servers = map address_str (pool_dns_servers p), pr_bridge = pool_bridge p,
     pr_vlan_tag = pool_vlan_tag p, pr_ip_family = pool_ip_family p,
     pr_allocation_strategy = allocation_strategy_value (pool_allocation_strategy p),
     pr_quarantine_seconds = pool_quarantine_seconds p, pr_is_active = pool_is_active p,
     pr_allocated_count = count_state d (pool_id p) Addr_ASSIGNED,
     pr_quarantined_count = count_state d (pool_id p) Addr_QUARANTINED,
     pr_availability_status = (if pool_is_active p then ''AVAILABLE'' else ''DISABLED''),
     pr_version = pool_version p\<rparr>"

definition address_response :: "ip_address \<Rightarrow> uuid option \<Rightarrow> ip_address_response" where
  "address_response a w = \<lparr>ar_id = addr_id a, ar_pool_id = addr_pool_id a,
     ar_address = address_str (addr_address a), ar_state = addr_state a,
     ar_reserved_for = addr_reserved_for a, ar_quarantined_until = addr_quarantined_until a,
     ar_workload_id = w\<rparr>"

text \<open>The response asserts that the allocation belongs to a workload.\<close>

definition allocation_response ::
    "ip_allocation \<Rightarrow> ip_address \<Rightarrow> ip_pool \<Rightarrow> ip_allocation_response result" where
  "allocation_response l a p = (case alloc_workload_id l of
     None \<Rightarrow> Inl AssertionError
   | Some w \<Rightarrow> Inr \<lparr>lr_id = alloc_id l, lr_pool_id = pool_id p, lr_ip_address_id = addr_id a,
       lr_address = address_str (addr_address a), lr_workload_id = w, lr_kind = alloc_kind l,
       lr_status = alloc_status l, lr_allocated_at = alloc_allocated_at l,
       lr_released_at = alloc_released_at l, lr_quarantined_until = addr_quarantined_until a\<rparr>)"

definition ipam_init :: "service \<Rightarrow> unit result" where
  "ipam_init sv = require_service_role (sv_principal sv) [SUPER_ADMIN]"

definition audit_pool_event :: "service \<Rightarrow> string \<Rightarrow> string \<Rightarrow> uuid \<Rightarrow> ip_pool \<Rightarrow> db \<Rightarrow> db" where
  "audit_pool_event sv act ttype tid p =
     add_audit_event (sv_ctx sv) ((service_event sv act ''SUCCEEDED'' ttype tid)
       \<lparr>ev_details := Some [(''pool_id'', JStr (uuid_str (pool_id p)))]\<rparr>)"

section \<open>Pools\<close>

definition same_scope :: "uuid option \<Rightarrow> uuid option \<Rightarrow> bool" where
  "same_scope a b \<longleftrightarrow> a = b \<or> a = None \<or> b = None"

definition pool_conflict :: "network \<Rightarrow> uuid option \<Rightarrow> ip_pool \<Rightarrow> bool" where
  "pool_conflict n c p \<longleftrightarrow> same_scope (pool_cluster_id p) c \<and> overlaps n (pool_cidr p)"

definition check_exclusion :: "network \<Rightarrow> ip_range_request \<Rightarrow> (address \<times> address \<times> string option) result" where
  "check_exclusion n r =
     (let s = rng_start r; e = rng_end r in
      if address_version s \<noteq> network_version n \<or> address_version e \<noteq> network_version n
      then raise_app 422 ''IP_FAMILY_MISMATCH'' ''Excluded addresses must match the pool family.''
      else if \<not> in_network s n \<or> \<not> in_network e n \<or> address_int s > address_int e
      then raise_app 422 ''INVALID_EXCLUDED_RANGE'' ''An excluded range is outside the pool.''
      else Inr (s, e, rng_reason r))"

definition check_gateway :: "address option \<Rightarrow> network \<Rightarrow> unit result" where
  "check_gateway g n = (case g of
     Some a \<Rightarrow> if in_network a n then Inr ()
       else raise_app 422 ''GATEWAY_OUTSIDE_POOL'' ''The gateway must belong to the pool CIDR.''
   | None \<Rightarrow> Inr ())"

definition check_cluster :: "db \<Rightarrow> uuid option \<Rightarrow> unit result" where
  "check_cluster d c = (case c of
     Some i \<Rightarrow> if get_row cl_id (clusters d) i = None
       then raise_app 404 ''CLUSTER_NOT_FOUND'' ''The cluster was not found.'' else Inr ()
   | None \<Rightarrow> Inr ())"

definition check_dns :: "address list \<Rightarrow> network \<Rightarrow> unit result" where
  "check_dns dns n =
     (if list_ex (\<lambda>a. address_version a \<noteq> network_version n) dns
      then raise_app 422 ''IP_FAMILY_MISMATCH'' ''DNS addresses must match the pool family.''
      else Inr ())"

definition check_overlap :: "ip_pool list \<Rightarrow> network \<Rightarrow> uuid option \<Rightarrow> unit result" where
  "check_overlap ps n c =
     (if list_ex (pool_conflict n c) ps
      then raise_app 409 ''IP_POOL_OVERLAP'' ''The CIDR overlaps an existing pool in the same scope.''
      else Inr ())"

definition pool_conflict_error :: "string \<Rightarrow> exn" where
  "pool_conflict_error m = App (app_error 409 ''IP_POOL_CONFLICT'' m)"

definition new_pool :: "service \<Rightarrow> uuid \<Rightarrow> ip_pool_create \<Rightarrow> network \<Rightarrow> ip_pool" where
  "new_pool sv i c n = \<lparr>pool_id = i, pool_name = str_strip (pc_name c),
     pool_cluster_id = pc_cluster_id c, pool_cidr = n, pool_gateway = pc_gateway c,
     pool_dns_servers = pc_dns_servers c, pool_bridge = str_strip (pc_bridge c),
     pool_vlan_tag = pc_vlan_tag c, pool_ip_family = version_number (network_version n),
     pool_allocation_strategy = pc_allocation_strategy c,
     pool_quarantine_seconds = pc_quarantine_seconds c, pool_next_offset = 0,
     pool_is_active = True, pool_created_by_id = prin_user_id (sv_principal sv),
     pool_version = 1\<rparr>"

fun new_exclusions ::
    "(nat \<Rightarrow> uuid) \<Rightarrow> nat \<Rightarrow> uuid \<Rightarrow> (address \<times> address \<times> string option) list \<Rightarrow> ip_pool_exclusion list" where
  "new_exclusions fresh k i [] = []"
| "new_exclusions fresh k i ((s, e, r) # xs) =
     \<lparr>ex_id = fresh k, ex_pool_id = i, ex_start_address = s, ex_end_address = e, ex_reason = r\<rparr>
       # new_exclusions fresh (Suc k) i xs"

definition create_pool ::
    "service \<Rightarrow> (nat \<Rightarrow> uuid) \<Rightarrow> ip_pool_create \<Rightarrow> db \<Rightarrow> ip_pool_response outcome" where
  "create_pool sv fresh c d =
     try_in d (ipam_init sv) (\<lambda>_.
     try_in d (network_of (pc_cidr c)) (\<lambda>n.
     try_in d (check_gateway (pc_gateway c) n) (\<lambda>_.
     try_in d (check_cluster d (pc_cluster_id c)) (\<lambda>_.
     try_in d (map_result (check_exclusion n) (pc_excluded_ranges c)) (\<lambda>exs.
     try_in d (check_dns (pc_dns_servers c) n) (\<lambda>_.
     try_in d (check_overlap (filter pool_is_active (ip_pools d)) n (pc_cluster_id c)) (\<lambda>_.
       let p = new_pool sv (fresh 0) c n;
           d1 = d\<lparr>ip_pools := ip_pools d @ [p],
                  exclusions := exclusions d @ new_exclusions fresh 1 (pool_id p) exs\<rparr>;
           d2 = add_audit_event (sv_ctx sv)
                  ((service_event sv ''IP_POOL_CREATE'' ''SUCCEEDED'' ''ip_pool'' (pool_id p))
                    \<lparr>ev_details := Some [(''cidr'', JStr (network_str n)),
                       (''excluded_range_count'', JInt (int (length exs)))]\<rparr>) d1
       in commit_in d (pool_conflict_error ''The IP pool already exists.'') d2
            (Inr (pool_response d2 p)))))))))"

definition list_pools :: "service \<Rightarrow> db \<Rightarrow> ip_pool_response list result" where
  "list_pools sv d = bind_result (ipam_init sv) (\<lambda>_.
     Inr (map (pool_response d)
       (sort_key (\<lambda>p. (pool_name p, pool_id p)) (filter pool_is_active (ip_pools d)))))"

definition get_pool :: "service \<Rightarrow> uuid \<Rightarrow> db \<Rightarrow> ip_pool_response result" where
  "get_pool sv i d = bind_result (ipam_init sv) (\<lambda>_.
     case get_pool_row d i of
       None \<Rightarrow> raise_app 404 ''IP_POOL_NOT_FOUND'' ''The IP pool was not found.''
     | Some p \<Rightarrow> Inr (pool_response d p))"

definition check_pool_version :: "ip_pool \<Rightarrow> int \<Rightarrow> unit result" where
  "check_pool_version p v =
     (if pool_version p \<noteq> v
      then raise_app 409 ''IP_POOL_VERSION_CONFLICT'' ''The IP pool was modified by another request.''
      else Inr ())"

text \<open>The values an update asks for, the stored ones where the payload leaves a field out.\<close>

definition target_cluster :: "ip_pool_update \<Rightarrow> ip_pool \<Rightarrow> uuid option" where
  "target_cluster u p = (case pu_cluster_id u of Some c \<Rightarrow> c | None \<Rightarrow> pool_cluster_id p)"

definition target_network :: "ip_pool_update \<Rightarrow> ip_pool \<Rightarrow> network result" where
  "target_network u p = (case pu_cidr u of Some s \<Rightarrow> network_of s | None \<Rightarrow> Inr (pool_cidr p))"

definition target_gateway :: "ip_pool_update \<Rightarrow> ip_pool \<Rightarrow> address option" where
  "target_gateway u p = (case pu_gateway u of Some g \<Rightarrow> g | None \<Rightarrow> pool_gateway p)"

definition target_dns :: "ip_pool_update \<Rightarrow> ip_pool \<Rightarrow> address list" where
  "target_dns u p = (case pu_dns_servers u of
     Some None \<Rightarrow> [] | Some (Some xs) \<Rightarrow> xs | None \<Rightarrow> pool_dns_servers p)"

definition check_addressing :: "db \<Rightarrow> ip_pool \<Rightarrow> network \<Rightarrow> uuid option \<Rightarrow> address option \<Rightarrow> unit result" where
  "check_addressing d p n c g =
     (if (n \<noteq> pool_cidr p \<or> c \<noteq> pool_cluster_id p \<or> g \<noteq> pool_gateway p) \<and>
         length (filter (\<lambda>a. addr_pool_id a = pool_id p) (ip_addresses d)) > 0
      then raise_app 409 ''IP_POOL_ADDRESSES_EXIST''
        ''CIDR, cluster, or gateway cannot change after addresses have been used.''
      else if n \<noteq> pool_cidr p \<and> length (filter (\<lambda>e. ex_pool_id e = pool_id p) (exclusions d)) > 0
      then raise_app 409 ''IP_POOL_EXCLUSIONS_EXIST''
        ''CIDR cannot change while the pool has excluded address ranges.''
      else Inr ())"

definition pool_audit_dict :: "ip_pool \<Rightarrow> dict" where
  "pool_audit_dict p =
     [(''name'', JStr (pool_name p)),
      (''cluster_id'', json_opt (\<lambda>c. JStr (uuid_str c)) (pool_cluster_id p)),
      (''cidr'', JStr (network_str (pool_cidr p))),
      (''gateway'', json_opt (\<lambda>a. JStr (address_str a)) (pool_gateway p)),
      (''dns_servers'', JList (map (\<lambda>a. JStr (address_str a)) (pool_dns_servers p))),
      (''bridge'', JStr (pool_bridge p)),
      (''vlan_tag'', json_opt JInt (pool_vlan_tag p)),
      (''allocation_strategy'', JStr (allocation_strategy_value (pool_allocation_strategy p))),
      (''quarantine_seconds'', JInt (pool_quarantine_seconds p))]"

definition apply_update :: "ip_pool_update \<Rightarrow> network \<Rightarrow> ip_pool \<Rightarrow> ip_pool" where
  "apply_update u n p = p\<lparr>
     pool_name := (case pu_name u of Some s \<Rightarrow> str_strip s | None \<Rightarrow> pool_name p),
     pool_cluster_id := target_cluster u p,
     pool_cidr := n,
     pool_gateway := target_gateway u p,
     pool_dns_servers := target_dns u p,
     pool_bridge := (case pu_bridge u of Some s \<Rightarrow> str_strip s | None \<Rightarrow> pool_bridge p),
     pool_vlan_tag := (case pu_vlan_tag u of Some t \<Rightarrow> t | None \<Rightarrow> pool_vlan_tag p),
     pool_allocation_strategy := (case pu_allocation_strategy u of
        Some s \<Rightarrow> s | None \<Rightarrow> pool_allocation_strategy p),
     pool_quarantine_seconds := (case pu_quarantine_seconds u of
        Some s \<Rightarrow> s | None \<Rightarrow> pool_quarantine_seconds p),
     pool_ip_family := version_number (network_version n),
     pool_version := pool_version p + 1\<rparr>"

definition update_pool ::
    "service \<Rightarrow> uuid \<Rightarrow> ip_pool_update \<Rightarrow> db \<Rightarrow> ip_pool_response outcome" where
  "update_pool sv i u d =
     try_in d (ipam_init sv) (\<lambda>_.
     try_in d (locked_pool d i) (\<lambda>p.
     try_in d (check_pool_version p (pu_version u)) (\<lambda>_.
     try_in d (target_network u p) (\<lambda>n.
     try_in d (check_gateway (target_gateway u p) n) (\<lambda>_.
     try_in d (check_dns (target_dns u p) n) (\<lambda>_.
     try_in d (check_cluster d (target_cluster u p)) (\<lambda>_.
     try_in d (check_addressing d p n (target_cluster u p) (target_gateway u p)) (\<lambda>_.
     try_in d (check_overlap (filter (\<lambda>q. pool_is_active q \<and> pool_id q \<noteq> pool_id p) (ip_pools d))
                 n (target_cluster u p)) (\<lambda>_.
       let p' = apply_update u n p;
           d1 = put_pool i (\<lambda>_. p') d;
           d2 = add_audit_event (sv_ctx sv)
                  ((service_event sv ''IP_POOL_UPDATE'' ''SUCCEEDED'' ''ip_pool'' (pool_id p))
                    \<lparr>ev_before := Some (pool_audit_dict p), ev_after := Some (pool_audit_dict p')\<rparr>) d1
       in commit_in d (pool_conflict_error
              ''The IP pool name or network conflicts with an existing pool.'') d2
            (Inr (pool_response d2 p')))))))))))"

definition request_in_progress :: "provisioning_status \<Rightarrow> bool" where
  "request_in_progress s \<longleftrightarrow> s \<in> {Prov_QUEUED, Prov_RUNNING, Prov_MANUAL_REVIEW}"

definition delete_pool :: "service \<Rightarrow> uuid \<Rightarrow> int \<Rightarrow> db \<Rightarrow> unit outcome" where
  "delete_pool sv i v d =
     try_in d (ipam_init sv) (\<lambda>_.
     try_in d (locked_pool d i) (\<lambda>p.
     try_in d (check_pool_version p v) (\<lambda>_.
       let unavailable = length (filter (\<lambda>a. addr_pool_id a = pool_id p \<and>
             addr_state a \<noteq> Addr_AVAILABLE) (ip_addresses d));
           active = length (filter (\<lambda>r. req_ip_pool_id r = pool_id p \<and>
             request_in_progress (req_status r)) (requests d)) in
       if unavailable > 0 \<or> active > 0
       then (Inl (App (AppError 409 ''IP_POOL_IN_USE''
              ''Release reserved, assigned, or quarantined addresses before deleting the pool.''
              [(''unavailable_addresses'', JInt (int unavailable)),
               (''active_provisioning_requests'', JInt (int active))])), d)
       else
         let d1 = put_pool i (\<lambda>q. q\<lparr>pool_is_active := False, pool_version := pool_version q + 1\<rparr>) d;
             d2 = add_audit_event (sv_ctx sv)
                    ((service_event sv ''IP_POOL_DELETE'' ''SUCCEEDED'' ''ip_pool'' (pool_id p))
                      \<lparr>ev_before := Some [(''name'', JStr (pool_name p)),
                         (''cidr'', JStr (network_str (pool_cidr p))), (''is_active'', JBool True)],
                       ev_after := Some [(''is_active'', JBool False)]\<rparr>) d1
         in commit_in d IntegrityError d2 (Inr ()))))"

end
