(* ===== verification/Ipam_Allocation.thy ===== *)
theory Ipam_Allocation
  imports Ipam
begin

text \<open>
  The address operations of \<open>IpamService\<close> (src/backend/app/services/ipam.py): excluding an address,
  choosing a candidate, allocating, reserving for a provisioning request and confirming or
  quarantining that reservation, releasing into quarantine and approving the release.
\<close>

section \<open>Choosing an address\<close>

definition unavailable :: "'a result" where
  "unavailable = raise_app 409 ''IP_ADDRESS_UNAVAILABLE'' ''The IP address is not available.''"

definition unavailable_error :: exn where
  "unavailable_error = App (app_error 409 ''IP_ADDRESS_UNAVAILABLE'' ''The IP address is not available.'')"

definition find_addr :: "db \<Rightarrow> uuid \<Rightarrow> address \<Rightarrow> ip_address option" where
  "find_addr d i a = find (\<lambda>x. addr_pool_id x = i \<and> addr_address x = a) (ip_addresses d)"

definition available_row :: "uuid \<Rightarrow> uuid \<Rightarrow> address \<Rightarrow> ip_address" where
  "available_row new_id i a = \<lparr>addr_id = new_id, addr_pool_id = i, addr_address = a,
     addr_state = Addr_AVAILABLE, addr_reserved_for = None, addr_quarantined_until = None,
     addr_last_allocated_at = None, addr_version = 1\<rparr>"

text \<open>Offsets no new address may take: exclusions, known addresses, network, broadcast, gateway.\<close>

definition blocked_offsets :: "db \<Rightarrow> ip_pool \<Rightarrow> range list" where
  "blocked_offsets d p =
     (let n = pool_cidr p; base = network_address n; sz = num_addresses n in
      map (\<lambda>(low, high). (max 0 (low - base), min (sz - 1) (high - base)))
          (exclusion_bounds d (pool_id p)) @
      map (\<lambda>a. (address_int (addr_address a) - base, address_int (addr_address a) - base))
          (filter (\<lambda>a. addr_pool_id a = pool_id p) (ip_addresses d)) @
      [(0, 0)] @
      (if network_version n = V4 then [(sz - 1, sz - 1)] else []) @
      (case pool_gateway p of Some g \<Rightarrow> [(address_int g - base, address_int g - base)] | None \<Rightarrow> []))"

text \<open>\<open>randrange(n)\<close> of a draw, at most 1024 of them.\<close>

definition random_offset :: "int \<Rightarrow> range list \<Rightarrow> int list \<Rightarrow> int option" where
  "random_offset sz blocked draws =
     find (\<lambda>x. \<not> covered blocked x) (map (\<lambda>r. r mod sz) (take 1024 draws))"

definition choose_offset :: "ip_pool \<Rightarrow> range list \<Rightarrow> int list \<Rightarrow> int option" where
  "choose_offset p blocked draws =
     (let sz = num_addresses (pool_cidr p) in
      case (if pool_allocation_strategy p = RANDOM \<and> sz > 2
            then random_offset sz blocked draws else None) of
        Some x \<Rightarrow> Some x
      | None \<Rightarrow> first_free_offset sz (pool_next_offset p) blocked)"

definition lowest_available :: "db \<Rightarrow> ip_pool \<Rightarrow> ip_address option" where
  "lowest_available d p =
     (case sort_key (\<lambda>a. address_int (addr_address a))
        (filter (\<lambda>a. addr_pool_id a = pool_id p \<and> addr_state a = Addr_AVAILABLE) (ip_addresses d)) of
        [] \<Rightarrow> None | a # _ \<Rightarrow> Some a)"

text \<open>
  \<open>_automatic_candidate\<close>: a released address first, else the next free offset, whose row is
  added to the working state together with the pool's new cursor.
\<close>

definition automatic_candidate ::
    "(nat \<Rightarrow> uuid) \<Rightarrow> int list \<Rightarrow> ip_pool \<Rightarrow> db \<Rightarrow> (ip_address \<times> db) result" where
  "automatic_candidate fresh draws p d =
     (case lowest_available d p of
        Some a \<Rightarrow> Inr (a, d)
      | None \<Rightarrow>
          (let n = pool_cidr p in
           case choose_offset p (blocked_offsets d p) draws of
             None \<Rightarrow> raise_app 409 ''IP_POOL_EXHAUSTED'' ''No allocatable IP address remains in the pool.''
           | Some x \<Rightarrow>
               let a = available_row (fresh 0) (pool_id p)
                         (Address (network_version n) (network_address n + x))
               in Inr (a, add_addr a
                    (put_pool (pool_id p)
                      (\<lambda>q. q\<lparr>pool_next_offset := (x + 1) mod num_addresses n\<rparr>) d))))"

text \<open>The block \<open>allocate\<close> and \<open>reserve_for_provisioning\<close> share: a requested or automatic address.\<close>

definition candidate_address ::
    "(nat \<Rightarrow> uuid) \<Rightarrow> int list \<Rightarrow> ip_pool \<Rightarrow> address option \<Rightarrow> db \<Rightarrow> (ip_address \<times> db) result" where
  "candidate_address fresh draws p requested d =
     (case requested of
        Some r \<Rightarrow>
          bind_result (validated_candidate p r False) (\<lambda>a.
            if is_excluded d (pool_id p) a
            then raise_app 409 ''IP_ADDRESS_EXCLUDED'' ''The IP address is excluded.''
            else (case find_addr d (pool_id p) a of
                Some x \<Rightarrow> Inr (x, d)
              | None \<Rightarrow> let x = available_row (fresh 0) (pool_id p) a in Inr (x, add_addr x d)))
      | None \<Rightarrow> automatic_candidate fresh draws p d)"

definition available_candidate ::
    "(nat \<Rightarrow> uuid) \<Rightarrow> int list \<Rightarrow> ip_pool \<Rightarrow> address option \<Rightarrow> db \<Rightarrow> (ip_address \<times> db) result" where
  "available_candidate fresh draws p requested d =
     bind_result (candidate_address fresh draws p requested d) (\<lambda>(a, d1).
       if addr_state a \<noteq> Addr_AVAILABLE then unavailable else Inr (a, d1))"

definition allocation_kind :: "address option \<Rightarrow> ip_allocation_kind" where
  "allocation_kind requested = (if requested \<noteq> None then Kind_MANUAL else Kind_AUTOMATIC)"

section \<open>Handlers\<close>

definition reserve_address ::
    "service \<Rightarrow> (nat \<Rightarrow> uuid) \<Rightarrow> uuid \<Rightarrow> address \<Rightarrow> string \<Rightarrow> db \<Rightarrow> ip_address_response outcome" where
  "reserve_address sv fresh i r reason d =
     try_in d (ipam_init sv) (\<lambda>_.
     try_in d (locked_pool d i) (\<lambda>p.
     try_in d (validated_candidate p r False) (\<lambda>a.
       let disable = (\<lambda>x. x\<lparr>addr_state := Addr_DISABLED, addr_reserved_for := Some reason,
                            addr_quarantined_until := None\<rparr>) in
       case find_addr d (pool_id p) a of
         Some x \<Rightarrow>
           if addr_state x \<noteq> Addr_AVAILABLE then (unavailable, d)
           else commit_in d IntegrityError
             (audit_pool_event sv ''IP_ADDRESS_EXCLUDE'' ''ip_address'' (addr_id x) p
               (put_addr (addr_id x) disable d))
             (Inr (address_response (disable x) None))
       | None \<Rightarrow>
           let x = disable (available_row (fresh 0) (pool_id p) a) in
           commit_in d IntegrityError
             (audit_pool_event sv ''IP_ADDRESS_EXCLUDE'' ''ip_address'' (addr_id x) p (add_addr x d))
             (Inr (address_response x None)))))"

definition present_workload :: "db \<Rightarrow> uuid \<Rightarrow> workload result" where
  "present_workload d w = (case get_row wl_id (workloads d) w of
     Some x \<Rightarrow> if wl_is_present x then Inr x
               else raise_app 404 ''WORKLOAD_NOT_FOUND'' ''The workload was not found.''
   | None \<Rightarrow> raise_app 404 ''WORKLOAD_NOT_FOUND'' ''The workload was not found.'')"

definition mark_assigned :: "datetime \<Rightarrow> ip_address \<Rightarrow> ip_address" where
  "mark_assigned now a = a\<lparr>addr_state := Addr_ASSIGNED, addr_last_allocated_at := Some now,
     addr_quarantined_until := None, addr_reserved_for := None, addr_version := addr_version a + 1\<rparr>"

definition workload_allocation ::
    "service \<Rightarrow> uuid \<Rightarrow> uuid \<Rightarrow> uuid \<Rightarrow> ip_allocation_kind \<Rightarrow> ip_allocation" where
  "workload_allocation sv new_id a w k = \<lparr>alloc_id = new_id, alloc_ip_address_id = a,
     alloc_workload_id = Some w, alloc_provisioning_request_id = None, alloc_kind = k,
     alloc_status = Alloc_ASSIGNED, alloc_allocated_by_id = prin_user_id (sv_principal sv),
     alloc_allocated_at = sv_now sv, alloc_confirmed_at = Some (sv_now sv),
     alloc_released_at = None, alloc_release_reason = None, alloc_version = 1\<rparr>"

definition allocate ::
    "service \<Rightarrow> (nat \<Rightarrow> uuid) \<Rightarrow> int list \<Rightarrow> uuid \<Rightarrow> uuid \<Rightarrow> address option \<Rightarrow> db \<Rightarrow>
     ip_allocation_response outcome" where
  "allocate sv fresh draws i w requested d =
     try_in d (ipam_init sv) (\<lambda>_.
     try_in d (locked_pool d i) (\<lambda>p.
     try_in d (present_workload d w) (\<lambda>wl.
     if pool_cluster_id p \<noteq> None \<and> pool_cluster_id p \<noteq> Some (wl_cluster_id wl)
     then (raise_app 409 ''IP_POOL_CLUSTER_MISMATCH'' ''The workload is in another cluster.'', d)
     else
     try_in d (available_candidate fresh draws p requested d) (\<lambda>(a, d1).
       let k = allocation_kind requested;
           a' = mark_assigned (sv_now sv) a;
           l = workload_allocation sv (fresh 1) (addr_id a) (wl_id wl) k;
           d2 = add_alloc l (put_addr (addr_id a) (mark_assigned (sv_now sv)) d1);
           d3 = add_audit_event (sv_ctx sv)
                  ((service_event sv ''IP_ALLOCATE'' ''SUCCEEDED'' ''ip_allocation'' (alloc_id l))
                    \<lparr>ev_workload_id := Some (wl_id wl),
                     ev_details := Some [(''pool_id'', JStr (uuid_str (pool_id p))),
                       (''kind'', JStr (ip_allocation_kind_value k))]\<rparr>) d2
       in commit_in d unavailable_error d3 (allocation_response l a' p)))))"

definition mark_reserved :: "datetime \<Rightarrow> ip_address \<Rightarrow> ip_address" where
  "mark_reserved now a = a\<lparr>addr_state := Addr_RESERVED, addr_last_allocated_at := Some now,
     addr_version := addr_version a + 1\<rparr>"

definition request_allocation ::
    "service \<Rightarrow> uuid \<Rightarrow> uuid \<Rightarrow> uuid \<Rightarrow> ip_allocation_kind \<Rightarrow> ip_allocation" where
  "request_allocation sv new_id a r k = \<lparr>alloc_id = new_id, alloc_ip_address_id = a,
     alloc_workload_id = None, alloc_provisioning_request_id = Some r, alloc_kind = k,
     alloc_status = Alloc_RESERVED, alloc_allocated_by_id = prin_user_id (sv_principal sv),
     alloc_allocated_at = sv_now sv, alloc_confirmed_at = None,
     alloc_released_at = None, alloc_release_reason = None, alloc_version = 1\<rparr>"

definition find_request_alloc :: "db \<Rightarrow> uuid \<Rightarrow> ip_allocation_status list \<Rightarrow> ip_allocation option" where
  "find_request_alloc d r ss =
     find (\<lambda>x. alloc_provisioning_request_id x = Some r \<and> alloc_status x \<in> set ss) (ip_allocations d)"

definition reserve_for_provisioning ::
    "service \<Rightarrow> (nat \<Rightarrow> uuid) \<Rightarrow> int list \<Rightarrow> uuid \<Rightarrow> uuid \<Rightarrow> address option \<Rightarrow> db \<Rightarrow>
     (ip_address \<times> ip_allocation) outcome" where
  "reserve_for_provisioning sv fresh draws i r requested d =
     try_in d (ipam_init sv) (\<lambda>_.
     try_in d (locked_pool d i) (\<lambda>p.
     case find_request_alloc d r [Alloc_RESERVED, Alloc_ASSIGNED] of
       Some l \<Rightarrow> (case get_addr d (alloc_ip_address_id l) of
           None \<Rightarrow> (Inl AssertionError, d)
         | Some a \<Rightarrow> (Inr (a, l), d))
     | None \<Rightarrow>
       try_in d (available_candidate fresh draws p requested d) (\<lambda>(a, d1).
         let a' = mark_reserved (sv_now sv) a;
             l = request_allocation sv (fresh 1) (addr_id a) r (allocation_kind requested);
             d2 = add_alloc l (put_addr (addr_id a) (mark_reserved (sv_now sv)) d1)
         in commit_in d unavailable_error d2 (Inr (a', l)))))"

definition confirm_provisioning_ip :: "service \<Rightarrow> uuid \<Rightarrow> uuid \<Rightarrow> db \<Rightarrow> unit outcome" where
  "confirm_provisioning_ip sv r w d =
     try_in d (ipam_init sv) (\<lambda>_.
     case find_request_alloc d r [Alloc_RESERVED] of
       None \<Rightarrow>
         (if find_request_alloc d r [Alloc_ASSIGNED] \<noteq> None then (Inr (), d)
          else (raise_app 409 ''IP_RESERVATION_MISSING'' ''The provisioning IP reservation is missing.'', d))
     | Some l \<Rightarrow> (case get_addr d (alloc_ip_address_id l) of
         None \<Rightarrow> (Inl AssertionError, d)
       | Some a \<Rightarrow>
           commit_in d IntegrityError
             (put_addr (addr_id a)
               (\<lambda>x. x\<lparr>addr_state := Addr_ASSIGNED, addr_version := addr_version x + 1\<rparr>)
               (put_alloc (alloc_id l)
                 (\<lambda>x. x\<lparr>alloc_workload_id := Some w, alloc_status := Alloc_ASSIGNED,
                        alloc_confirmed_at := Some (sv_now sv),
                        alloc_version := alloc_version x + 1\<rparr>) d))
             (Inr ())))"

text \<open>Both ways into quarantine write the same attributes; only the recorded reason differs.\<close>

definition quarantine_alloc :: "datetime \<Rightarrow> string \<Rightarrow> ip_allocation \<Rightarrow> ip_allocation" where
  "quarantine_alloc now reason x = x\<lparr>alloc_status := Alloc_QUARANTINED,
     alloc_released_at := Some now, alloc_release_reason := Some reason,
     alloc_version := alloc_version x + 1\<rparr>"

definition quarantine_addr :: "datetime \<Rightarrow> ip_pool \<Rightarrow> ip_address \<Rightarrow> ip_address" where
  "quarantine_addr now p x = x\<lparr>addr_state := Addr_QUARANTINED,
     addr_quarantined_until := Some (now + seconds (pool_quarantine_seconds p)),
     addr_version := addr_version x + 1\<rparr>"

definition to_quarantine :: "datetime \<Rightarrow> string \<Rightarrow> ip_allocation \<Rightarrow> ip_address \<Rightarrow> ip_pool \<Rightarrow> db \<Rightarrow> db" where
  "to_quarantine now reason l a p d =
     put_addr (addr_id a) (quarantine_addr now p)
       (put_alloc (alloc_id l) (quarantine_alloc now reason) d)"

definition quarantine_provisioning_ip :: "service \<Rightarrow> uuid \<Rightarrow> db \<Rightarrow> unit outcome" where
  "quarantine_provisioning_ip sv r d =
     try_in d (ipam_init sv) (\<lambda>_.
     case find_request_alloc d r [Alloc_RESERVED] of
       None \<Rightarrow> (Inr (), d)
     | Some l \<Rightarrow> (case get_addr d (alloc_ip_address_id l) of
         None \<Rightarrow> (Inl AssertionError, d)
       | Some a \<Rightarrow> (case get_pool_row d (addr_pool_id a) of
           None \<Rightarrow> (Inl AssertionError, d)
         | Some p \<Rightarrow> commit_in d IntegrityError
             (to_quarantine (sv_now sv) ''Provisioning failed before clone completion'' l a p d)
             (Inr ()))))"

definition release :: "service \<Rightarrow> uuid \<Rightarrow> string \<Rightarrow> db \<Rightarrow> ip_allocation_response outcome" where
  "release sv i reason d =
     try_in d (ipam_init sv) (\<lambda>_.
     case get_alloc d i of
       None \<Rightarrow> (raise_app 404 ''IP_ALLOCATION_NOT_FOUND'' ''The IP allocation was not found.'', d)
     | Some l \<Rightarrow> (case get_addr d (alloc_ip_address_id l) of
         None \<Rightarrow> (Inl AssertionError, d)
       | Some a \<Rightarrow> (case get_pool_row d (addr_pool_id a) of
           None \<Rightarrow> (Inl AssertionError, d)
         | Some p \<Rightarrow>
             if alloc_status l = Alloc_RELEASED \<or> alloc_status l = Alloc_QUARANTINED
             then (allocation_response l a p, d)
             else commit_in d IntegrityError
               (audit_pool_event sv ''IP_RELEASE_TO_QUARANTINE'' ''ip_allocation'' (alloc_id l) p
                 (to_quarantine (sv_now sv) reason l a p d))
               (allocation_response (quarantine_alloc (sv_now sv) reason l)
                 (quarantine_addr (sv_now sv) p a) p))))"

definition approve_release :: "service \<Rightarrow> uuid \<Rightarrow> db \<Rightarrow> ip_address_response outcome" where
  "approve_release sv i d =
     try_in d (ipam_init sv) (\<lambda>_.
     case get_addr d i of
       None \<Rightarrow> (raise_app 404 ''IP_ADDRESS_NOT_FOUND'' ''The IP address was not found.'', d)
     | Some a \<Rightarrow>
         if addr_state a \<noteq> Addr_QUARANTINED
         then (raise_app 409 ''IP_ADDRESS_NOT_QUARANTINED'' ''The address is not quarantined.'', d)
         else if (case addr_quarantined_until a of Some t \<Rightarrow> t > sv_now sv | None \<Rightarrow> False)
         then (raise_app 409 ''IP_QUARANTINE_ACTIVE'' ''The quarantine period has not elapsed.'', d)
         else (case find (\<lambda>x. alloc_ip_address_id x = addr_id a \<and> alloc_status x = Alloc_QUARANTINED)
                 (ip_allocations d) of
             None \<Rightarrow> (raise_app 409 ''IP_ALLOCATION_STATE_INVALID'' ''No quarantined allocation exists.'', d)
           | Some l \<Rightarrow>
               let free = (\<lambda>x. x\<lparr>addr_state := Addr_AVAILABLE, addr_quarantined_until := None,
                                addr_version := addr_version x + 1\<rparr>);
                   d1 = put_addr (addr_id a) free
                     (put_alloc (alloc_id l) (\<lambda>x. x\<lparr>alloc_status := Alloc_RELEASED,
                        alloc_version := alloc_version x + 1\<rparr>) d)
               in (case get_pool_row d (addr_pool_id a) of
                   None \<Rightarrow> (Inl AssertionError, d)
                 | Some p \<Rightarrow> commit_in d IntegrityError
                     (audit_pool_event sv ''IP_RELEASE_APPROVE'' ''ip_address'' (addr_id a) p d1)
                     (Inr (address_response (free a) None)))))"

definition list_addresses :: "service \<Rightarrow> uuid \<Rightarrow> db \<Rightarrow> ip_address_response list result" where
  "list_addresses sv i d = bind_result (get_pool sv i d) (\<lambda>_.
     Inr (concat (map (\<lambda>a.
       (case filter (\<lambda>l. alloc_ip_address_id l = addr_id a \<and> active_allocation (alloc_status l))
               (ip_allocations d) of
          [] \<Rightarrow> [address_response a None]
        | ls \<Rightarrow> map (\<lambda>l. address_response a (alloc_workload_id l)) ls))
       (sort_key (\<lambda>a. address_int (addr_address a))
         (filter (\<lambda>a. addr_pool_id a = i) (ip_addresses d))))))"

end
