(* ===== verification/Provisioning_Api.thy ===== *)
theory Provisioning_Api
  imports Runner_Service Power_Runner Ipam_Allocation "HOL-Library.Option_ord" "HOL-Library.Product_Lexorder"
    "HOL-Library.List_Lexorder" "HOL-Library.Char_ord"
begin

text \<open>
  The ground of \<open>ProvisioningRunner\<close> (src/backend/app/services/provisioning_runner.py): the Proxmox
  API it uses, its environment, access to the rows of the request it works on, the lease, and the
  small helpers of the class.  The request object of the code is the row with the given id in the
  session's working state, read again at every access.
\<close>

section \<open>The Proxmox API\<close>

record 'w provisioning_api =
  get_guests :: "'w \<Rightarrow> dict list result \<times> 'w"
  clone_qemu_template :: "string \<Rightarrow> int \<Rightarrow> string \<Rightarrow> int \<Rightarrow> string \<Rightarrow> string \<Rightarrow> 'w \<Rightarrow> string result \<times> 'w"
  prov_task_status :: "string \<Rightarrow> string \<Rightarrow> 'w \<Rightarrow> dict result \<times> 'w"
  configure_qemu :: "string \<Rightarrow> int \<Rightarrow> (string \<times> string) list \<Rightarrow> 'w \<Rightarrow> unit result \<times> 'w"
  resize_qemu_disk :: "string \<Rightarrow> int \<Rightarrow> string \<Rightarrow> int \<Rightarrow> 'w \<Rightarrow> unit result \<times> 'w"
  submit_vm_power_action :: "string \<Rightarrow> int \<Rightarrow> string \<Rightarrow> 'w \<Rightarrow> string result \<times> 'w"
  get_vm_status :: "string \<Rightarrow> int \<Rightarrow> 'w \<Rightarrow> dict result \<times> 'w"

definition unavailable_provisioning_api :: "app_error \<Rightarrow> 'w provisioning_api" where
  "unavailable_provisioning_api e = \<lparr>
     get_guests = (\<lambda>w. (Inl (App e), w)),
     clone_qemu_template = (\<lambda>_ _ _ _ _ _ w. (Inl (App e), w)),
     prov_task_status = (\<lambda>_ _ w. (Inl (App e), w)),
     configure_qemu = (\<lambda>_ _ _ w. (Inl (App e), w)),
     resize_qemu_disk = (\<lambda>_ _ _ _ w. (Inl (App e), w)),
     submit_vm_power_action = (\<lambda>_ _ _ w. (Inl (App e), w)),
     get_vm_status = (\<lambda>_ _ w. (Inl (App e), w))\<rparr>"

text \<open>
  The environment: the clock and \<open>uuid4\<close>, the settings, the client if one is injected, else the
  two ciphers and the client's constructor; and the draws of the address pool's random strategy.
\<close>

record 'w prov_env =
  pv_env :: "'w runner_env"
  pv_settings :: settings
  pv_injected :: "'w provisioning_api option"
  pv_decrypt :: "cluster_credential \<Rightarrow> uuid \<Rightarrow> string option"
  pv_secret :: "bytes \<Rightarrow> bytes \<Rightarrow> string \<Rightarrow> uuid \<Rightarrow> uuid \<Rightarrow> string option"
  pv_connect :: "cluster \<Rightarrow> string \<Rightarrow> string \<Rightarrow> app_error + 'w provisioning_api"
  pv_draws :: "'w \<Rightarrow> int list \<times> 'w"

text \<open>
  The runner object: the request, the runner's own id, and the authorised requester
  (\<open>_actor\<close> and \<open>_principal\<close>, unset until the requester has been checked).
\<close>

record prov_runner =
  pr_request :: uuid
  pr_runner_id :: uuid
  pr_actor :: "user option"

definition drawsM :: "'w prov_env \<Rightarrow> ('w, int list) rm" where
  "drawsM V s = (case pv_draws V (rs_world s) of (x, w) \<Rightarrow> (Inr x, s\<lparr>rs_world := w\<rparr>))"

lemma wp_drawsM [wp_rules]:
  "wp (drawsM V) Q E s = (case pv_draws V (rs_world s) of (x, w) \<Rightarrow> Q x (s\<lparr>rs_world := w\<rparr>))"
  by (simp add: wp_def drawsM_def split: prod.splits)

lemma keeps_drawsM: "worldless I \<Longrightarrow> keeps I (drawsM V)"
  by (auto simp: keeps_def wp_rules worldless_def split: prod.splits)

section \<open>Rows\<close>

abbreviation get_req :: "db \<Rightarrow> uuid \<Rightarrow> provisioning_request option" where
  "get_req d i \<equiv> get_row req_id (requests d) i"

abbreviation get_step :: "db \<Rightarrow> uuid \<Rightarrow> provisioning_step option" where
  "get_step d i \<equiv> get_row step_id (steps d) i"

abbreviation get_node :: "db \<Rightarrow> uuid \<Rightarrow> provisioning_node option" where
  "get_node d i \<equiv> get_row node_id (nodes d) i"

definition put_req :: "uuid \<Rightarrow> (provisioning_request \<Rightarrow> provisioning_request) \<Rightarrow> db \<Rightarrow> db" where
  "put_req i f d = d\<lparr>requests := modify_row req_id i f (requests d)\<rparr>"

definition put_step :: "uuid \<Rightarrow> (provisioning_step \<Rightarrow> provisioning_step) \<Rightarrow> db \<Rightarrow> db" where
  "put_step i f d = d\<lparr>steps := modify_row step_id i f (steps d)\<rparr>"

definition put_node :: "uuid \<Rightarrow> (provisioning_node \<Rightarrow> provisioning_node) \<Rightarrow> db \<Rightarrow> db" where
  "put_node i f d = d\<lparr>nodes := modify_row node_id i f (nodes d)\<rparr>"

definition add_workload :: "workload \<Rightarrow> db \<Rightarrow> db" where
  "add_workload w d = d\<lparr>workloads := workloads d @ [w]\<rparr>"

definition add_assignment :: "workload_assignment \<Rightarrow> db \<Rightarrow> db" where
  "add_assignment a d = d\<lparr>assignments := assignments d @ [a]\<rparr>"

definition request_row :: "uuid \<Rightarrow> ('w, provisioning_request) rm" where
  "request_row i = bindM (readM (\<lambda>d. get_req d i)) (\<lambda>r. case r of
     None \<Rightarrow> raiseM (PyError ''ObjectDeletedError'') | Some x \<Rightarrow> returnM x)"

definition step_row :: "uuid \<Rightarrow> ('w, provisioning_step) rm" where
  "step_row i = bindM (readM (\<lambda>d. get_step d i)) (\<lambda>r. case r of
     None \<Rightarrow> raiseM (PyError ''ObjectDeletedError'') | Some x \<Rightarrow> returnM x)"

section \<open>The lease\<close>

text \<open>\<open>timedelta(seconds=...)\<close> is a whole number of microseconds.\<close>

definition lease_deadline :: "settings \<Rightarrow> datetime \<Rightarrow> datetime" where
  "lease_deadline S now =
     now + round (max (of_int (operation_lease_seconds S))
       (pve_connect_timeout_seconds S + pve_read_timeout_seconds S +
        pve_task_poll_interval_seconds S + 5) * 1000000)"

definition touch_row :: "settings \<Rightarrow> datetime \<Rightarrow> provisioning_request \<Rightarrow> provisioning_request" where
  "touch_row S now r = r\<lparr>req_heartbeat_at := Some now, req_lease_expires_at := Some (lease_deadline S now)\<rparr>"

definition touch_lease :: "'w prov_env \<Rightarrow> uuid \<Rightarrow> ('w, unit) rm" where
  "touch_lease V i = bindM (nowM (pv_env V)) (\<lambda>now. writeM (put_req i (touch_row (pv_settings V) now)))"

section \<open>Helpers of the class\<close>

abbreviation app_fail :: "nat \<Rightarrow> string \<Rightarrow> string \<Rightarrow> ('w, 'a) rm" where
  "app_fail s c m \<equiv> raiseM (App (app_error s c m))"

definition int_spec :: "uuid \<Rightarrow> string \<Rightarrow> ('w, int) rm" where
  "int_spec i key = bindM (request_row i) (\<lambda>r. case as_int (dict_get (req_spec_snapshot r) key) of
     Some v \<Rightarrow> returnM v
   | None \<Rightarrow> app_fail 409 ''SPEC_SNAPSHOT_INVALID'' ''The saved specification is invalid.'')"

fun as_str :: "json \<Rightarrow> string option" where
  "as_str (JStr s) = Some s"
| "as_str _ = None"

definition str_spec :: "uuid \<Rightarrow> string \<Rightarrow> ('w, string) rm" where
  "str_spec i key = bindM (request_row i) (\<lambda>r. case as_str (dict_get (req_spec_snapshot r) key) of
     Some v \<Rightarrow> returnM v
   | None \<Rightarrow> app_fail 409 ''SPEC_SNAPSHOT_INVALID'' ''The saved specification is invalid.'')"

definition vmid_of :: "uuid \<Rightarrow> ('w, int) rm" where
  "vmid_of i = bindM (request_row i) (\<lambda>r. case req_target_vmid r of
     Some v \<Rightarrow> returnM v
   | None \<Rightarrow> app_fail 409 ''VMID_RESERVATION_MISSING'' ''The VMID reservation is missing.'')"

definition node_of :: "uuid \<Rightarrow> ('w, provisioning_node) rm" where
  "node_of i = bindM (request_row i) (\<lambda>r. case req_target_node_id r of
     None \<Rightarrow> app_fail 409 ''TARGET_NODE_MISSING'' ''The target node is missing.''
   | Some n \<Rightarrow> bindM (readM (\<lambda>d. get_node d n)) (\<lambda>x. case x of
       None \<Rightarrow> app_fail 409 ''TARGET_NODE_MISSING'' ''The target node is missing.''
     | Some y \<Rightarrow> returnM y))"

definition address_of :: "uuid \<Rightarrow> ('w, ip_address) rm" where
  "address_of i = bindM (request_row i) (\<lambda>r. case req_ip_address_id r of
     None \<Rightarrow> app_fail 409 ''IP_RESERVATION_MISSING'' ''The IP reservation is missing.''
   | Some a \<Rightarrow> bindM (readM (\<lambda>d. get_addr d a)) (\<lambda>x. case x of
       None \<Rightarrow> app_fail 409 ''IP_RESERVATION_MISSING'' ''The IP reservation is missing.''
     | Some y \<Rightarrow> returnM y))"

definition find_step :: "db \<Rightarrow> uuid \<Rightarrow> string \<Rightarrow> provisioning_step option" where
  "find_step d i name = find (\<lambda>x. step_request_id x = i \<and> step_name x = name) (steps d)"

definition step_named :: "uuid \<Rightarrow> string \<Rightarrow> ('w, provisioning_step) rm" where
  "step_named i name = bindM (readM (\<lambda>d. find_step d i name)) (\<lambda>x. case x of
     None \<Rightarrow> raiseM AssertionError | Some y \<Rightarrow> returnM y)"

text \<open>\<open>_ipam\<close>: without a checked requester, \<open>self._principal\<close> is an \<open>AttributeError\<close>.\<close>

definition worker_service :: "user \<Rightarrow> datetime \<Rightarrow> service" where
  "worker_service u now = \<lparr>sv_principal = \<lparr>prin_user_id = user_id u, prin_email = user_email u,
       prin_role = user_role_of u, prin_session_epoch = user_session_epoch u\<rparr>,
     sv_request_id = ''worker'', sv_source_ip = ''worker'', sv_ctx = worker_ctx now\<rparr>"

definition ipamM :: "'w prov_env \<Rightarrow> prov_runner \<Rightarrow> (service \<Rightarrow> ('w, 'a) rm) \<Rightarrow> ('w, 'a) rm" where
  "ipamM V me k = (case pr_actor me of
     None \<Rightarrow> raiseM (PyError ''AttributeError'')
   | Some u \<Rightarrow> bindM (nowM (pv_env V)) (\<lambda>now. k (worker_service u now)))"

definition decrypt_initial_password :: "'w prov_env \<Rightarrow> uuid \<Rightarrow> ('w, string) rm" where
  "decrypt_initial_password V i = bindM (request_row i) (\<lambda>r.
     case (req_initial_password_ciphertext r, req_initial_password_nonce r, req_initial_password_key_version r) of
       (Some c, Some n, Some v) \<Rightarrow>
         (case pv_secret V c n v (req_target_cluster_id r) (req_id r) of
            Some p \<Rightarrow> returnM p
          | None \<Rightarrow> app_fail 500 ''WINDOWS_INITIAL_PASSWORD_DECRYPTION_FAILED''
              ''The Windows initial password could not be decrypted.'')
     | _ \<Rightarrow> app_fail 409 ''WINDOWS_INITIAL_PASSWORD_UNAVAILABLE''
              ''The Windows initial password is unavailable.'')"

definition has_password :: "provisioning_request \<Rightarrow> bool" where
  "has_password r \<longleftrightarrow> req_initial_password_ciphertext r \<noteq> None \<or> req_initial_password_nonce r \<noteq> None \<or>
     req_initial_password_key_version r \<noteq> None"

definition clear_password :: "datetime \<Rightarrow> provisioning_request \<Rightarrow> provisioning_request" where
  "clear_password now r =
     r\<lparr>req_initial_password_ciphertext := None, req_initial_password_nonce := None,
       req_initial_password_key_version := None, req_initial_password_cleared_at := Some now\<rparr>"

definition clear_initial_password :: "'w prov_env \<Rightarrow> uuid \<Rightarrow> ('w, unit) rm" where
  "clear_initial_password V i = bindM (request_row i) (\<lambda>r.
     if has_password r then bindM (nowM (pv_env V)) (\<lambda>now. writeM (put_req i (clear_password now)))
     else returnM ())"

definition open_provisioning_client :: "'w prov_env \<Rightarrow> uuid \<Rightarrow> db \<Rightarrow> 'w provisioning_api" where
  "open_provisioning_client V c d = (case pv_injected V of
     Some api \<Rightarrow> api
   | None \<Rightarrow>
     (case (get_row cl_id (clusters d) c,
            find (\<lambda>x. cred_cluster_id x = c \<and> cred_is_active x) (credentials d)) of
        (Some cl, Some cr) \<Rightarrow>
          if \<not> cl_is_active cl
          then unavailable_provisioning_api (app_error 409 ''CLUSTER_UNAVAILABLE'' ''The cluster is unavailable.'')
          else (case pv_decrypt V cr (cl_id cl) of
              None \<Rightarrow> unavailable_provisioning_api (app_error 500 ''CREDENTIAL_DECRYPTION_FAILED''
                ''The stored Proxmox credential could not be decrypted.'')
            | Some s \<Rightarrow> (case pv_connect V cl (cred_token_identifier cr) s of
                Inl e \<Rightarrow> unavailable_provisioning_api e
              | Inr api \<Rightarrow> api))
      | _ \<Rightarrow> unavailable_provisioning_api (app_error 409 ''CLUSTER_UNAVAILABLE'' ''The cluster is unavailable.'')))"

section \<open>Calls\<close>

definition vm_exists :: "'w provisioning_api \<Rightarrow> int \<Rightarrow> ('w, bool) rm" where
  "vm_exists api v = bindM (callM ''get_guests'' [] (get_guests api)) (\<lambda>gs.
     returnM (list_ex (\<lambda>g. as_int (dict_get g ''vmid'') = Some v) gs))"

definition call_vm_status :: "'w provisioning_api \<Rightarrow> string \<Rightarrow> int \<Rightarrow> ('w, dict) rm" where
  "call_vm_status api n v = callM ''get_vm_status'' [JStr n, JInt v] (get_vm_status api n v)"

definition call_configure :: "'w provisioning_api \<Rightarrow> string \<Rightarrow> int \<Rightarrow> (string \<times> string) list \<Rightarrow> ('w, unit) rm" where
  "call_configure api n v vs = callM ''configure_qemu''
     [JStr n, JInt v, JObj (map (\<lambda>(k, x). (k, JStr x)) vs)] (configure_qemu api n v vs)"

fun wait_loop :: "nat \<Rightarrow> 'w prov_env \<Rightarrow> uuid \<Rightarrow> 'w provisioning_api \<Rightarrow> string \<Rightarrow> string \<Rightarrow> ('w, unit) rm" where
  "wait_loop 0 V i api n upid = app_fail 504 ''PVE_TASK_TIMEOUT'' ''The Proxmox task timed out.''"
| "wait_loop (Suc k) V i api n upid =
     thenM (touch_lease V i)
     (thenM commitM
     (bindM (callM ''get_task_status'' [JStr n, JStr upid] (prov_task_status api n upid)) (\<lambda>status.
      if dict_get status ''status'' = JStr ''running''
      then thenM (sleepM (pv_env V) (pve_task_poll_interval_seconds (pv_settings V)))
             (wait_loop k V i api n upid)
      else if dict_get status ''status'' = JStr ''stopped'' \<and> dict_get status ''exitstatus'' = JStr ''OK''
      then returnM ()
      else app_fail 502 ''PVE_TASK_FAILED'' ''The Proxmox task failed.'')))"

definition wait_task :: "'w prov_env \<Rightarrow> uuid \<Rightarrow> 'w provisioning_api \<Rightarrow> string \<Rightarrow> string \<Rightarrow> ('w, unit) rm" where
  "wait_task V i api n upid = wait_loop (nat (pve_task_max_poll_attempts (pv_settings V))) V i api n upid"

end
