(* ===== verification/Provisioning_Steps.thy ===== *)
theory Provisioning_Steps
  imports Provisioning_Api
begin

text \<open>
  The fifteen steps of \<open>ProvisioningRunner\<close>: one definition per handler of
  src/backend/app/services/provisioning_runner.py, in the order of the code.  Each ends with the
  dictionary that becomes the step's \<open>safe_result\<close>.
\<close>

section \<open>Checks\<close>

definition validate_request :: "uuid \<Rightarrow> ('w, dict) rm" where
  "validate_request i = bindM (request_row i) (\<lambda>r.
     bindM (readM (\<lambda>d. (get_row org_id (organizations d) (req_organization_id r),
                        get_row cl_id (clusters d) (req_target_cluster_id r)))) (\<lambda>(org, cl).
     if (case org of None \<Rightarrow> True | Some x \<Rightarrow> \<not> org_is_active x)
     then app_fail 409 ''ORGANIZATION_UNAVAILABLE'' ''The organization is unavailable.''
     else if (case cl of None \<Rightarrow> True | Some x \<Rightarrow> \<not> cl_is_active x)
     then app_fail 409 ''CLUSTER_UNAVAILABLE'' ''The cluster is unavailable.''
     else returnM [(''validated'', JBool True)]))"

definition check_product :: "uuid \<Rightarrow> ('w, dict) rm" where
  "check_product i = bindM (request_row i) (\<lambda>r.
     bindM (readM (\<lambda>d. (get_row prod_id (products d) (req_product_id r),
                        get_row tmpl_id (templates d) (req_template_id r)))) (\<lambda>(prod, tmpl).
     case prod of
       None \<Rightarrow> app_fail 409 ''PRODUCT_UNAVAILABLE'' ''The product is unavailable.''
     | Some p \<Rightarrow>
       if \<not> prod_is_enabled p then app_fail 409 ''PRODUCT_UNAVAILABLE'' ''The product is unavailable.''
       else (case tmpl of
         None \<Rightarrow> app_fail 409 ''TEMPLATE_UNAVAILABLE'' ''The QEMU template is unavailable.''
       | Some t \<Rightarrow>
         if \<not> tmpl_is_enabled t \<or> \<not> tmpl_cloud_init_enabled t
         then app_fail 409 ''TEMPLATE_UNAVAILABLE'' ''The QEMU template is unavailable.''
         else if dict_get (req_spec_snapshot r) ''os_type'' \<noteq> JStr (template_os_type_value (tmpl_os_type t))
         then app_fail 409 ''TEMPLATE_OS_TYPE_CHANGED'' ''The template operating system type changed.''
         else if as_int (dict_get (req_spec_snapshot r) ''cpu_cores'') \<noteq> Some (prod_cpu_cores p) \<or>
                 as_int (dict_get (req_spec_snapshot r) ''memory_bytes'') \<noteq> Some (prod_memory_bytes p) \<or>
                 as_int (dict_get (req_spec_snapshot r) ''disk_bytes'') \<noteq> Some (prod_disk_bytes p)
         then app_fail 409 ''PRODUCT_SPEC_CHANGED'' ''The product specification changed.''
         else returnM [(''product_id'', JStr (uuid_str (prod_id p)))])))"

section \<open>Reservations\<close>

definition node_eligible :: "int \<Rightarrow> int \<Rightarrow> provisioning_node \<Rightarrow> bool" where
  "node_eligible memory disk n \<longleftrightarrow> node_is_enabled n \<and> \<not> node_is_maintenance n \<and>
     node_available_memory_bytes n \<ge> memory \<and> node_available_storage_bytes n \<ge> disk"

text \<open>\<open>ORDER BY last_selected_at NULLS FIRST, name\<close>, first row.\<close>

definition choose_node :: "db \<Rightarrow> uuid \<Rightarrow> int \<Rightarrow> int \<Rightarrow> provisioning_node option" where
  "choose_node d c memory disk =
     (case sort_key (\<lambda>n. (node_last_selected_at n, node_name n))
        (filter (\<lambda>n. node_cluster_id n = c \<and> node_eligible memory disk n) (nodes d)) of
        [] \<Rightarrow> None | n # _ \<Rightarrow> Some n)"

definition capacity_reserved :: "provisioning_request \<Rightarrow> bool" where
  "capacity_reserved r \<longleftrightarrow> dict_get (req_spec_snapshot r) ''node_capacity_reserved'' = JBool True"

definition set_capacity_reserved :: "bool \<Rightarrow> provisioning_request \<Rightarrow> provisioning_request" where
  "set_capacity_reserved b r =
     r\<lparr>req_spec_snapshot := dict_merge (req_spec_snapshot r) [(''node_capacity_reserved'', JBool b)]\<rparr>"

definition take_capacity :: "int \<Rightarrow> int \<Rightarrow> datetime \<Rightarrow> provisioning_node \<Rightarrow> provisioning_node" where
  "take_capacity memory disk now n = n\<lparr>
     node_available_memory_bytes := node_available_memory_bytes n - memory,
     node_available_storage_bytes := node_available_storage_bytes n - disk,
     node_last_selected_at := Some now\<rparr>"

definition select_target :: "'w prov_env \<Rightarrow> uuid \<Rightarrow> ('w, dict) rm" where
  "select_target V i =
     bindM (int_spec i ''memory_bytes'') (\<lambda>memory.
     bindM (int_spec i ''disk_bytes'') (\<lambda>disk.
     bindM (request_row i) (\<lambda>r.
     if capacity_reserved r
     then bindM (node_of i) (\<lambda>n. returnM [(''node'', JStr (node_name n)), (''resumed'', JBool True)])
     else
       bindM (case req_target_node_id r of
           Some k \<Rightarrow> bindM (readM (\<lambda>d. get_node d k)) (\<lambda>x. case x of
               None \<Rightarrow> app_fail 409 ''NO_ELIGIBLE_NODE'' ''The selected node is unavailable.''
             | Some n \<Rightarrow> returnM n)
         | None \<Rightarrow> bindM (readM (\<lambda>d. choose_node d (req_target_cluster_id r) memory disk)) (\<lambda>x. case x of
               None \<Rightarrow> app_fail 409 ''NO_ELIGIBLE_NODE'' ''No node has sufficient capacity.''
             | Some n \<Rightarrow> thenM (writeM (put_req i (\<lambda>y. y\<lparr>req_target_node_id := Some (node_id n)\<rparr>))) (returnM n)))
       (\<lambda>n.
       if \<not> node_eligible memory disk n
       then app_fail 409 ''NO_ELIGIBLE_NODE'' ''The selected node is unavailable.''
       else
         bindM (nowM (pv_env V)) (\<lambda>now.
         thenM (writeM (\<lambda>d. put_req i (set_capacity_reserved True)
                 (put_node (node_id n) (take_capacity memory disk now) d)))
         (thenM commitM
         (returnM [(''node'', JStr (node_name n))])))))))"

definition reserved_vmids :: "db \<Rightarrow> uuid \<Rightarrow> uuid \<Rightarrow> int list" where
  "reserved_vmids d c i =
     map (\<lambda>r. the (req_target_vmid r)) (filter (\<lambda>r. req_target_cluster_id r = c \<and> req_id r \<noteq> i \<and>
       req_target_vmid r \<noteq> None \<and>
       req_status r \<in> {Prov_QUEUED, Prov_RUNNING, Prov_SUCCEEDED, Prov_MANUAL_REVIEW}) (requests d))"

definition local_vmids :: "db \<Rightarrow> uuid \<Rightarrow> int list" where
  "local_vmids d c = map wl_vmid (filter (\<lambda>w. wl_cluster_id w = c) (workloads d))"

definition remote_vmids :: "dict list \<Rightarrow> int list" where
  "remote_vmids guests = List.map_filter (\<lambda>g. as_int (dict_get g ''vmid'')) guests"

text \<open>\<open>next(candidate for candidate in range(100, 1_000_000) if candidate not in unavailable)\<close>\<close>

function next_vmid :: "int \<Rightarrow> int list \<Rightarrow> int option" where
  "next_vmid c used =
     (if c \<ge> 1000000 then None else if c \<notin> set used then Some c else next_vmid (c + 1) used)"
  by pat_completeness auto
termination
  by (relation "measure (\<lambda>(c, _). nat (1000000 - c))") auto

declare next_vmid.simps [simp del]

definition pick_vmid :: "int option \<Rightarrow> int list \<Rightarrow> int result" where
  "pick_vmid requested used = (case requested of
     Some v \<Rightarrow> if v \<in> set used
               then raise_app 409 ''VMID_CONFLICT'' ''The requested VMID is already in use.'' else Inr v
   | None \<Rightarrow> (case next_vmid 100 used of
       None \<Rightarrow> raise_app 409 ''VMID_EXHAUSTED'' ''No VMID is available.'' | Some v \<Rightarrow> Inr v))"

definition reserve_vmid :: "uuid \<Rightarrow> 'w provisioning_api \<Rightarrow> ('w, dict) rm" where
  "reserve_vmid i api =
     bindM (callM ''get_guests'' [] (get_guests api)) (\<lambda>guests.
     bindM (request_row i) (\<lambda>r.
     bindM (readM (\<lambda>d. remote_vmids guests @ local_vmids d (req_target_cluster_id r) @
                       reserved_vmids d (req_target_cluster_id r) i)) (\<lambda>used.
     bindM (liftM (pick_vmid (req_target_vmid r) used)) (\<lambda>v.
     thenM (writeM (put_req i (\<lambda>x. x\<lparr>req_target_vmid := Some v\<rparr>)))
     (thenM commitM
     (returnM [(''vmid'', JInt v)]))))))"

definition pair_ids :: "uuid \<Rightarrow> uuid \<Rightarrow> nat \<Rightarrow> uuid" where
  "pair_ids a b k = (if k = 0 then a else b)"

definition reserve_ip :: "'w prov_env \<Rightarrow> prov_runner \<Rightarrow> ('w, dict) rm" where
  "reserve_ip V me = (let i = pr_request me in
     ipamM V me (\<lambda>sv.
     bindM (request_row i) (\<lambda>r.
     bindM (uuid4M (pv_env V)) (\<lambda>u.
     bindM (uuid4M (pv_env V)) (\<lambda>v.
     bindM (drawsM V) (\<lambda>draws.
     bindM (serviceM (reserve_for_provisioning sv (pair_ids u v) draws (req_ip_pool_id r) i
              (req_requested_ip_address r))) (\<lambda>(a, _).
     thenM (writeM (put_req i (\<lambda>x. x\<lparr>req_ip_address_id := Some (addr_id a)\<rparr>)))
     (thenM commitM
     (returnM [(''ip_address'', JStr (address_str (addr_address a)))])))))))))"

section \<open>The clone\<close>

definition ownership_conflict :: "string \<Rightarrow> ('w, 'a) rm" where
  "ownership_conflict m = app_fail 409 ''VMID_OWNERSHIP_CONFLICT'' m"

definition full_clone :: "uuid \<Rightarrow> uuid \<Rightarrow> 'w provisioning_api \<Rightarrow> ('w, dict) rm" where
  "full_clone i st api =
     bindM (node_of i) (\<lambda>n.
     bindM (vmid_of i) (\<lambda>v.
     bindM (vm_exists api v) (\<lambda>there.
     if there then
       bindM (request_row i) (\<lambda>r.
       bindM (step_row st) (\<lambda>x.
       if req_clone_submitted r \<and> step_pve_upid x \<noteq> None
       then returnM [(''already_exists'', JBool True), (''submission_verified'', JBool True)]
       else ownership_conflict ''The reserved VMID is occupied by a VM not verified as this provisioning request.''))
     else
       thenM (writeM (put_req i (\<lambda>x. x\<lparr>req_clone_submitted := True\<rparr>)))
       (thenM commitM
       (bindM (str_spec i ''source_node'') (\<lambda>sn.
       bindM (int_spec i ''source_vmid'') (\<lambda>sv.
       bindM (request_row i) (\<lambda>r.
       bindM (str_spec i ''storage'') (\<lambda>storage.
       bindM (callM ''clone_qemu_template'' [JStr sn, JInt sv, JStr (node_name n), JInt v,
                JStr (req_target_name r), JStr storage]
                (clone_qemu_template api sn sv (node_name n) v (req_target_name r) storage)) (\<lambda>upid.
       thenM (writeM (put_step st (\<lambda>x. x\<lparr>step_pve_upid := Some upid\<rparr>)))
       (thenM commitM
       (returnM [(''submitted'', JBool True)]))))))))))))"

definition wait_clone :: "'w prov_env \<Rightarrow> uuid \<Rightarrow> 'w provisioning_api \<Rightarrow> ('w, dict) rm" where
  "wait_clone V i api =
     bindM (step_named i ''FULL_CLONE'') (\<lambda>x.
     case step_pve_upid x of
       Some upid \<Rightarrow>
         bindM (node_of i) (\<lambda>n.
         thenM (wait_task V i api (node_name n) upid) (returnM [(''clone_complete'', JBool True)]))
     | None \<Rightarrow>
         bindM (vmid_of i) (\<lambda>v.
         bindM (vm_exists api v) (\<lambda>there.
         if there then ownership_conflict ''The clone VM exists without a verified Proxmox task identifier.''
         else app_fail 409 ''CLONE_STATE_UNKNOWN'' ''The clone result could not be determined.'')))"

section \<open>Configuration\<close>

definition configure_compute :: "uuid \<Rightarrow> 'w provisioning_api \<Rightarrow> ('w, dict) rm" where
  "configure_compute i api =
     bindM (node_of i) (\<lambda>n.
     bindM (vmid_of i) (\<lambda>v.
     bindM (int_spec i ''cpu_cores'') (\<lambda>cores.
     bindM (int_spec i ''memory_bytes'') (\<lambda>memory.
     thenM (call_configure api (node_name n) v
              [(''cores'', int_str cores), (''memory'', int_str (memory div (1024 * 1024)))])
     (returnM [(''configured'', JBool True)])))))"

definition resize_disk :: "uuid \<Rightarrow> 'w provisioning_api \<Rightarrow> ('w, dict) rm" where
  "resize_disk i api =
     bindM (node_of i) (\<lambda>n.
     bindM (vmid_of i) (\<lambda>v.
     bindM (str_spec i ''source_disk'') (\<lambda>disk.
     bindM (int_spec i ''disk_bytes'') (\<lambda>size.
     thenM (callM ''resize_qemu_disk'' [JStr (node_name n), JInt v, JStr disk, JInt size]
              (resize_qemu_disk api (node_name n) v disk size))
     (returnM [(''resized'', JBool True)])))))"

definition is_windows :: "provisioning_request \<Rightarrow> bool" where
  "is_windows r \<longleftrightarrow> dict_get (req_spec_snapshot r) ''os_type'' = JStr (template_os_type_value WINDOWS)"

definition initializer :: "provisioning_request \<Rightarrow> json" where
  "initializer r = JStr (if is_windows r then ''CLOUDBASE_INIT'' else ''CLOUD_INIT'')"

definition network_values :: "ip_pool \<Rightarrow> address \<Rightarrow> string \<Rightarrow> json \<Rightarrow> (string \<times> string) list" where
  "network_values p a bridge vlan =
     [(''net0'', ''virtio,bridge='' @ bridge @
         (case as_int vlan of Some t \<Rightarrow> '',tag='' @ py_str vlan | None \<Rightarrow> [])),
      (''ipconfig0'', ''ip='' @ address_str a @ ''/'' @ int_str (int (prefixlen (pool_cidr p))) @
         (case pool_gateway p of Some g \<Rightarrow> '',gw='' @ address_str g | None \<Rightarrow> []))] @
     (if pool_dns_servers p \<noteq> [] then [(''nameserver'', join_with '' '' (map address_str (pool_dns_servers p)))] else [])"

definition configure_network :: "uuid \<Rightarrow> 'w provisioning_api \<Rightarrow> ('w, dict) rm" where
  "configure_network i api =
     bindM (address_of i) (\<lambda>a.
     bindM (request_row i) (\<lambda>r.
     bindM (readM (\<lambda>d. get_pool_row d (req_ip_pool_id r))) (\<lambda>pool.
     case pool of
       None \<Rightarrow> raiseM AssertionError
     | Some p \<Rightarrow>
       bindM (str_spec i ''bridge'') (\<lambda>bridge.
       bindM (node_of i) (\<lambda>n.
       bindM (vmid_of i) (\<lambda>v.
       thenM (call_configure api (node_name n) v
                (network_values p (addr_address a) bridge (dict_get (req_spec_snapshot r) ''vlan_tag'')))
       (returnM [(''network_configured'', JBool True), (''initializer'', initializer r)])))))))"

fun str_list :: "json \<Rightarrow> string list option" where
  "str_list (JList xs) = (if list_all (\<lambda>x. as_str x \<noteq> None) xs then Some (List.map_filter as_str xs) else None)"
| "str_list _ = None"

definition configure_identity :: "'w prov_env \<Rightarrow> uuid \<Rightarrow> 'w provisioning_api \<Rightarrow> ('w, dict) rm" where
  "configure_identity V i api =
     bindM (request_row i) (\<lambda>r.
     if is_windows r then
       bindM (decrypt_initial_password V i) (\<lambda>password.
       bindM (node_of i) (\<lambda>n.
       bindM (vmid_of i) (\<lambda>v.
       bindM (str_spec i ''cloud_init_username'') (\<lambda>name.
       thenM (call_configure api (node_name n) v [(''ciuser'', name), (''cipassword'', password)])
       (thenM (clear_initial_password V i)
       (thenM commitM
       (returnM [(''credential'', JStr ''ONE_TIME_PASSWORD''), (''initializer'', JStr ''CLOUDBASE_INIT'')])))))))
     else
       (case str_list (dict_get (req_spec_snapshot r) ''ssh_public_keys'') of
          Some (k # keys) \<Rightarrow>
            bindM (node_of i) (\<lambda>n.
            bindM (vmid_of i) (\<lambda>v.
            bindM (str_spec i ''cloud_init_username'') (\<lambda>name.
            thenM (call_configure api (node_name n) v [(''ciuser'', name), (''sshkeys'', join_with [char_of (10::nat)] (k # keys))])
            (returnM [(''ssh_key_count'', JInt (int (length (k # keys)))), (''initializer'', initializer r)]))))
        | _ \<Rightarrow> app_fail 409 ''SSH_KEYS_INVALID'' ''The SSH public keys are invalid.''))"

section \<open>Start and hand-over\<close>

definition start_after_create :: "provisioning_request \<Rightarrow> bool" where
  "start_after_create r \<longleftrightarrow> dict_get (req_spec_snapshot r) ''start_after_create'' = JBool True"

definition start_vm :: "'w prov_env \<Rightarrow> uuid \<Rightarrow> uuid \<Rightarrow> 'w provisioning_api \<Rightarrow> ('w, dict) rm" where
  "start_vm V i st api =
     bindM (request_row i) (\<lambda>r.
     if \<not> start_after_create r then returnM [(''skipped'', JBool True)]
     else
       bindM (node_of i) (\<lambda>n.
       bindM (vmid_of i) (\<lambda>v.
       bindM (call_vm_status api (node_name n) v) (\<lambda>current.
       if dict_get current ''status'' = JStr ''running'' then returnM [(''already_running'', JBool True)]
       else
         bindM (callM ''submit_vm_power_action'' [JStr (node_name n), JInt v, JStr ''start'']
                  (submit_vm_power_action api (node_name n) v ''start'')) (\<lambda>upid.
         thenM (writeM (put_step st (\<lambda>x. x\<lparr>step_pve_upid := Some upid\<rparr>)))
         (thenM commitM
         (thenM (wait_task V i api (node_name n) upid)
         (returnM [(''started'', JBool True)]))))))))"

definition verify_status :: "uuid \<Rightarrow> 'w provisioning_api \<Rightarrow> ('w, dict) rm" where
  "verify_status i api =
     bindM (node_of i) (\<lambda>n.
     bindM (vmid_of i) (\<lambda>v.
     bindM (call_vm_status api (node_name n) v) (\<lambda>status.
     bindM (request_row i) (\<lambda>r.
     if start_after_create r \<and> dict_get status ''status'' \<noteq> JStr ''running''
     then app_fail 409 ''VM_START_VERIFICATION_FAILED'' ''The VM did not reach running state.''
     else returnM [(''power_state'', JStr (str_upper (reported_state status)))]))))"

definition find_vm :: "db \<Rightarrow> uuid \<Rightarrow> int \<Rightarrow> workload option" where
  "find_vm d c v = find (\<lambda>w. wl_cluster_id w = c \<and> wl_vmid w = v) (workloads d)"

definition find_assignment :: "db \<Rightarrow> uuid \<Rightarrow> workload_assignment option" where
  "find_assignment d w = find (\<lambda>a. wa_workload_id a = w \<and> wa_revoked_at a = None) (assignments d)"

definition new_workload ::
    "uuid \<Rightarrow> provisioning_request \<Rightarrow> string \<Rightarrow> int \<Rightarrow> string \<Rightarrow> int \<Rightarrow> int \<Rightarrow> int \<Rightarrow> uuid option \<Rightarrow> datetime \<Rightarrow> workload" where
  "new_workload u r nd v st cores memory disk org now = \<lparr>wl_id = u, wl_cluster_id = req_target_cluster_id r,
     wl_vmid = v, wl_node = nd, wl_kind = QEMU, wl_name = Some (req_target_name r), wl_power_state = st,
     wl_cpu_cores = Some cores, wl_memory_bytes = Some memory, wl_disk_bytes = Some disk,
     wl_is_template = False, wl_is_present = True, wl_organization_id = org, wl_observed_at = now,
     wl_version = 1\<rparr>"

definition new_assignment :: "uuid \<Rightarrow> uuid \<Rightarrow> uuid \<Rightarrow> uuid \<Rightarrow> datetime \<Rightarrow> workload_assignment" where
  "new_assignment u w org assigner now = \<lparr>wa_id = u, wa_workload_id = w, wa_organization_id = org,
     wa_assigned_by_id = assigner, wa_assigned_at = now, wa_revoked_by_id = None, wa_revoked_at = None,
     wa_revoke_reason = None\<rparr>"

definition ownership_error :: "('w, 'a) rm" where
  "ownership_error = app_fail 409 ''WORKLOAD_OWNERSHIP_CONFLICT'' ''The VM is assigned elsewhere.''"

definition created_workload :: "'w prov_env \<Rightarrow> provisioning_request \<Rightarrow> ('w, workload) rm" where
  "created_workload V r = (let i = req_id r in
     bindM (vmid_of i) (\<lambda>v.
     bindM (readM (\<lambda>d. find_vm d (req_target_cluster_id r) v)) (\<lambda>found. case found of
       Some w \<Rightarrow>
         if wl_organization_id w \<notin> {None, Some (req_organization_id r)} then ownership_error else returnM w
     | None \<Rightarrow>
         bindM (uuid4M (pv_env V)) (\<lambda>u.
         bindM (node_of i) (\<lambda>n.
         bindM (int_spec i ''cpu_cores'') (\<lambda>cores.
         bindM (int_spec i ''memory_bytes'') (\<lambda>memory.
         bindM (int_spec i ''disk_bytes'') (\<lambda>disk.
         bindM (nowM (pv_env V)) (\<lambda>now.
         let w = new_workload u r (node_name n) v (if start_after_create r then ''RUNNING'' else ''STOPPED'')
                   cores memory disk (Some (req_organization_id r)) now in
         thenM (writeM (add_workload w)) (returnM w))))))))))"

definition assign_organization :: "'w prov_env \<Rightarrow> prov_runner \<Rightarrow> ('w, dict) rm" where
  "assign_organization V me = (let i = pr_request me in
     bindM (request_row i) (\<lambda>r.
     bindM (created_workload V r) (\<lambda>w.
     bindM (readM (\<lambda>d. find_assignment d (wl_id w))) (\<lambda>a.
     if (case a of Some x \<Rightarrow> wa_organization_id x \<noteq> req_organization_id r | None \<Rightarrow> False) then ownership_error
     else (case pr_actor me of
       None \<Rightarrow> raiseM (PyError ''AttributeError'')
     | Some actor \<Rightarrow>
       bindM (uuid4M (pv_env V)) (\<lambda>u.
       bindM (nowM (pv_env V)) (\<lambda>now.
       thenM (writeM (\<lambda>d. add_audit_event (worker_ctx now)
           ((audit_event ''VM_ASSIGNED'' ''SUCCEEDED'' None)
             \<lparr>ev_actor_user_id := Some (user_id actor), ev_actor_role := Some (user_role_of actor),
              ev_organization_id := Some (req_organization_id r), ev_workload_id := Some (wl_id w),
              ev_target_type := Some ''workload'', ev_target_id := Some (uuid_str (wl_id w)),
              ev_after := Some [(''organization_id'', JStr (uuid_str (req_organization_id r)))]\<rparr>)
           (put_req i (\<lambda>x. x\<lparr>req_workload_id := Some (wl_id w)\<rparr>)
           (put_wl (wl_id w) (\<lambda>x. x\<lparr>wl_organization_id := Some (req_organization_id r), wl_is_present := True\<rparr>)
           (if a = None then add_assignment (new_assignment u (wl_id w) (req_organization_id r) (user_id actor) now) d
            else d)))))
       (thenM commitM
       (returnM [(''workload_id'', JStr (uuid_str (wl_id w)))])))))))))"

definition confirm_ip :: "'w prov_env \<Rightarrow> prov_runner \<Rightarrow> ('w, dict) rm" where
  "confirm_ip V me = bindM (request_row (pr_request me)) (\<lambda>r. case req_workload_id r of
     None \<Rightarrow> app_fail 409 ''WORKLOAD_MISSING'' ''The created workload is missing.''
   | Some w \<Rightarrow>
       ipamM V me (\<lambda>sv.
       thenM (serviceM (confirm_provisioning_ip sv (pr_request me) w))
       (returnM [(''assigned'', JBool True)])))"

section \<open>Dispatch\<close>

definition provisioning_steps :: "string list" where
  "provisioning_steps = [''VALIDATE_REQUEST'', ''CHECK_PRODUCT'', ''SELECT_TARGET'', ''RESERVE_VMID'',
     ''RESERVE_IP'', ''FULL_CLONE'', ''WAIT_CLONE'', ''CONFIGURE_COMPUTE'', ''RESIZE_DISK'',
     ''CONFIGURE_NETWORK'', ''CONFIGURE_IDENTITY'', ''START_VM'', ''VERIFY_STATUS'',
     ''ASSIGN_ORGANIZATION'', ''CONFIRM_IP'']"

definition handlers :: "'w prov_env \<Rightarrow> prov_runner \<Rightarrow> uuid \<Rightarrow> 'w provisioning_api \<Rightarrow> (string \<times> ('w, dict) rm) list" where
  "handlers V me st api = (let i = pr_request me in
     [(''VALIDATE_REQUEST'', validate_request i),
      (''CHECK_PRODUCT'', check_product i),
      (''SELECT_TARGET'', select_target V i),
      (''RESERVE_VMID'', reserve_vmid i api),
      (''RESERVE_IP'', reserve_ip V me),
      (''FULL_CLONE'', full_clone i st api),
      (''WAIT_CLONE'', wait_clone V i api),
      (''CONFIGURE_COMPUTE'', configure_compute i api),
      (''RESIZE_DISK'', resize_disk i api),
      (''CONFIGURE_NETWORK'', configure_network i api),
      (''CONFIGURE_IDENTITY'', configure_identity V i api),
      (''START_VM'', start_vm V i st api),
      (''VERIFY_STATUS'', verify_status i api),
      (''ASSIGN_ORGANIZATION'', assign_organization V me),
      (''CONFIRM_IP'', confirm_ip V me)])"

definition execute_step ::
    "'w prov_env \<Rightarrow> prov_runner \<Rightarrow> provisioning_step \<Rightarrow> 'w provisioning_api \<Rightarrow> ('w, dict) rm" where
  "execute_step V me st api = (case map_of (handlers V me (step_id st) api) (step_name st) of
     None \<Rightarrow> app_fail 500 ''UNKNOWN_PROVISIONING_STEP'' ''The provisioning step is unknown.''
   | Some h \<Rightarrow> h)"

end
