(* ===== verification/Provisioning_Runner.thy ===== *)
theory Provisioning_Runner
  imports Provisioning_Steps
begin

text \<open>
  \<open>ProvisioningRunner.run\<close> of src/backend/app/services/provisioning_runner.py: claiming a request
  under a lease, walking through its steps, failing it, recording what may be left behind, and
  giving the claim back.

  After an \<open>IntegrityError\<close> that nobody has answered with a rollback the session refuses to work
  (\<open>PendingRollbackError\<close>), so a handler that goes on to use it raises in its turn.
\<close>

abbreviation broken_session :: exn where
  "broken_session \<equiv> PyError ''PendingRollbackError''"

section \<open>Claim and release\<close>

definition claimable :: "datetime \<Rightarrow> provisioning_request \<Rightarrow> bool" where
  "claimable now r \<longleftrightarrow> req_status r = Prov_QUEUED \<or>
     req_status r = Prov_RUNNING \<and>
       (req_runner_id r = None \<or>
        (case req_lease_expires_at r of None \<Rightarrow> True | Some t \<Rightarrow> t \<le> now))"

definition claim_row :: "settings \<Rightarrow> uuid \<Rightarrow> datetime \<Rightarrow> provisioning_request \<Rightarrow> provisioning_request" where
  "claim_row S runner now r = r\<lparr>req_status := Prov_RUNNING, req_runner_id := Some runner,
     req_lease_expires_at := Some (lease_deadline S now),
     req_started_at := (case req_started_at r of Some t \<Rightarrow> Some t | None \<Rightarrow> Some now),
     req_heartbeat_at := Some now, req_version := req_version r + 1\<rparr>"

definition claim :: "'w prov_env \<Rightarrow> uuid \<Rightarrow> uuid \<Rightarrow> ('w, bool) rm" where
  "claim V runner i =
     bindM (nowM (pv_env V)) (\<lambda>now.
     bindM (readM (\<lambda>d. case get_req d i of Some r \<Rightarrow> claimable now r | None \<Rightarrow> False)) (\<lambda>ok.
     if \<not> ok then thenM rollbackM (returnM False)
     else thenM (writeM (put_req i (claim_row (pv_settings V) runner now)))
            (thenM commitM (returnM True))))"

definition unclaim_row :: "uuid \<Rightarrow> provisioning_request \<Rightarrow> provisioning_request" where
  "unclaim_row runner r = (if req_runner_id r = Some runner \<and> req_status r = Prov_RUNNING
     then r\<lparr>req_runner_id := None, req_lease_expires_at := None\<rparr> else r)"

definition release_claim :: "uuid \<Rightarrow> uuid \<Rightarrow> ('w, unit) rm" where
  "release_claim runner i =
     bindM (tryM (thenM rollbackM (thenM (writeM (put_req i (unclaim_row runner))) commitM))) (\<lambda>r.
     case r of Inr _ \<Rightarrow> returnM () | Inl _ \<Rightarrow> rollbackM)"

section \<open>Failing\<close>

definition give_capacity :: "int \<Rightarrow> int \<Rightarrow> provisioning_node \<Rightarrow> provisioning_node" where
  "give_capacity memory disk n = n\<lparr>
     node_available_memory_bytes := node_available_memory_bytes n + memory,
     node_available_storage_bytes := node_available_storage_bytes n + disk\<rparr>"

definition release_node_capacity :: "uuid \<Rightarrow> ('w, unit) rm" where
  "release_node_capacity i =
     bindM (request_row i) (\<lambda>r.
     if \<not> capacity_reserved r then returnM ()
     else (case req_target_node_id r of
       None \<Rightarrow> raiseM (PyError ''RuntimeError'')
     | Some k \<Rightarrow>
       bindM (readM (\<lambda>d. get_node d k)) (\<lambda>x. case x of
         None \<Rightarrow> raiseM (PyError ''RuntimeError'')
       | Some n \<Rightarrow>
         bindM (int_spec i ''memory_bytes'') (\<lambda>memory.
         bindM (int_spec i ''disk_bytes'') (\<lambda>disk.
         thenM (writeM (\<lambda>d. put_req i (set_capacity_reserved False) (put_node k (give_capacity memory disk) d)))
         commitM)))))"

text \<open>\<open>_record_partial_workload\<close>, from the row with the reserved VMID on.\<close>

definition partial_event :: "uuid \<Rightarrow> provisioning_request \<Rightarrow> workload \<Rightarrow> audit_event" where
  "partial_event i r w =
     (audit_event ''PARTIAL_PROVISIONING_VM_RECORDED'' ''SUCCEEDED'' None)
       \<lparr>ev_actor_user_id := Some (req_requested_by_id r), ev_actor_role := Some SUPER_ADMIN,
        ev_organization_id := wl_organization_id w, ev_workload_id := Some (wl_id w),
        ev_target_type := Some ''workload'', ev_target_id := Some (uuid_str (wl_id w)),
        ev_after := Some [(''cluster_id'', JStr (uuid_str (wl_cluster_id w))),
          (''vmid'', JInt (wl_vmid w)),
          (''organization_id'', json_opt (\<lambda>k. JStr (uuid_str k)) (wl_organization_id w)),
          (''provisioning_request_id'', JStr (uuid_str i))]\<rparr>"

definition attach_partial :: "'w prov_env \<Rightarrow> uuid \<Rightarrow> provisioning_request \<Rightarrow> int \<Rightarrow> ('w, unit) rm" where
  "attach_partial V i r v =
     bindM (readM (\<lambda>d. find_vm d (req_target_cluster_id r) v)) (\<lambda>found. case found of
       None \<Rightarrow> returnM ()
     | Some w \<Rightarrow>
         if wl_organization_id w \<notin> {None, Some (req_organization_id r)} then returnM ()
         else
           bindM (nowM (pv_env V)) (\<lambda>seen.
           writeM (\<lambda>d. add_audit_event (worker_ctx seen) (partial_event i r w)
             (put_req i (\<lambda>y. y\<lparr>req_workload_id := Some (wl_id w)\<rparr>)
             (put_wl (wl_id w) (\<lambda>y. y\<lparr>wl_is_present := True, wl_observed_at := seen\<rparr>) d)))))"

definition insert_partial ::
    "'w prov_env \<Rightarrow> uuid \<Rightarrow> provisioning_request \<Rightarrow> int \<Rightarrow> provisioning_node \<Rightarrow> ('w, unit) rm" where
  "insert_partial V i r v n =
     bindM (uuid4M (pv_env V)) (\<lambda>u.
     bindM (int_spec i ''cpu_cores'') (\<lambda>cores.
     bindM (int_spec i ''memory_bytes'') (\<lambda>memory.
     bindM (int_spec i ''disk_bytes'') (\<lambda>disk.
     bindM (nowM (pv_env V)) (\<lambda>now.
     writeM (\<lambda>d. if find_vm d (req_target_cluster_id r) v = None
        then add_workload (new_workload u r (node_name n) v ''UNKNOWN'' cores memory disk None now) d
        else d))))))"

definition record_partial_workload :: "'w prov_env \<Rightarrow> uuid \<Rightarrow> ('w, unit) rm" where
  "record_partial_workload V i =
     bindM (request_row i) (\<lambda>r.
     case req_target_vmid r of None \<Rightarrow> returnM () | Some v \<Rightarrow>
     (case req_target_node_id r of None \<Rightarrow> returnM () | Some k \<Rightarrow>
       bindM (readM (\<lambda>d. find_step d i ''WAIT_CLONE'')) (\<lambda>st.
       case st of None \<Rightarrow> returnM () | Some x \<Rightarrow>
       if step_status x \<noteq> Step_SUCCEEDED then returnM ()
       else
         bindM (readM (\<lambda>d. get_node d k)) (\<lambda>nd.
         case nd of None \<Rightarrow> returnM () | Some n \<Rightarrow>
           thenM (insert_partial V i r v n) (attach_partial V i r v)))))"

definition fail_step :: "app_error \<Rightarrow> datetime \<Rightarrow> provisioning_step \<Rightarrow> provisioning_step" where
  "fail_step e now x = x\<lparr>step_status := Step_FAILED, step_error_code := Some (code e),
     step_error_summary := Some (message e), step_finished_at := Some now\<rparr>"

definition fail_row :: "bool \<Rightarrow> app_error \<Rightarrow> datetime \<Rightarrow> provisioning_request \<Rightarrow> provisioning_request" where
  "fail_row review e now r = r\<lparr>req_status := (if review then Prov_MANUAL_REVIEW else Prov_FAILED),
     req_error_code := Some (code e), req_error_summary := Some (message e),
     req_finished_at := Some now, req_runner_id := None, req_lease_expires_at := None\<rparr>"

definition fail_event :: "provisioning_request \<Rightarrow> bool \<Rightarrow> app_error \<Rightarrow> string option \<Rightarrow> audit_event" where
  "fail_event r review e st =
     (audit_event ''VM_PROVISION'' (if review then ''MANUAL_REVIEW'' else ''FAILED'') None)
       \<lparr>ev_actor_user_id := Some (req_requested_by_id r), ev_actor_role := Some SUPER_ADMIN,
        ev_organization_id := Some (req_organization_id r), ev_workload_id := req_workload_id r,
        ev_target_type := Some ''provisioning_request'', ev_target_id := Some (uuid_str (req_id r)),
        ev_details := Some [(''error_code'', JStr (code e)), (''step'', json_opt JStr st)],
        ev_error_code := Some (code e)\<rparr>"

text \<open>The \<open>try\<close> block: give the address and the node's capacity back; its answer is \<open>manual_review\<close>.\<close>

definition give_back :: "'w prov_env \<Rightarrow> prov_runner \<Rightarrow> ('w, bool) rm" where
  "give_back V me = (let i = pr_request me in
     bindM (tryM (thenM (ipamM V me (\<lambda>sv. serviceM (quarantine_provisioning_ip sv i)))
                   (release_node_capacity i))) (\<lambda>r.
     case r of Inr _ \<Rightarrow> returnM False
     | Inl IntegrityError \<Rightarrow> raiseM broken_session
     | Inl _ \<Rightarrow> returnM True))"

definition must_review :: "provisioning_request \<Rightarrow> app_error \<Rightarrow> bool" where
  "must_review r e \<longleftrightarrow> req_clone_submitted r \<or> code e = ''VMID_OWNERSHIP_CONFLICT''"

definition close_request ::
    "'w prov_env \<Rightarrow> uuid \<Rightarrow> bool \<Rightarrow> app_error \<Rightarrow> string option \<Rightarrow> ('w, unit) rm" where
  "close_request V i review e st =
     bindM (nowM (pv_env V)) (\<lambda>now.
     thenM (writeM (put_req i (fail_row review e now)))
     (thenM (clear_initial_password V i)
     (bindM (request_row i) (\<lambda>r.
     bindM (nowM (pv_env V)) (\<lambda>t.
     thenM (writeM (add_audit_event (worker_ctx t) (fail_event r review e st)))
     commitM)))))"

definition fail_request ::
    "'w prov_env \<Rightarrow> prov_runner \<Rightarrow> provisioning_step option \<Rightarrow> app_error \<Rightarrow> ('w, unit) rm" where
  "fail_request V me st e = (let i = pr_request me in
     thenM (case st of None \<Rightarrow> returnM ()
            | Some x \<Rightarrow> bindM (nowM (pv_env V)) (\<lambda>now. writeM (put_step (step_id x) (fail_step e now))))
     (bindM (request_row i) (\<lambda>r.
     bindM (if must_review r e then returnM True else give_back V me) (\<lambda>review.
     thenM (close_request V i review e (map_option step_name st))
     (if review then
        bindM (tryM (thenM (record_partial_workload V i) commitM)) (\<lambda>x. case x of
          Inr _ \<Rightarrow> returnM () | Inl _ \<Rightarrow> rollbackM)
      else returnM ())))))"

section \<open>The steps\<close>

definition begin_step :: "'w prov_env \<Rightarrow> uuid \<Rightarrow> provisioning_step \<Rightarrow> ('w, unit) rm" where
  "begin_step V i st =
     thenM (writeM (put_req i (\<lambda>x. x\<lparr>req_current_step := step_name st\<rparr>)))
     (thenM (touch_lease V i)
     (bindM (nowM (pv_env V)) (\<lambda>now.
     thenM (writeM (put_step (step_id st) (\<lambda>x. x\<lparr>step_status := Step_RUNNING,
              step_started_at := (case step_started_at x of Some t \<Rightarrow> Some t | None \<Rightarrow> Some now),
              step_attempt_count := step_attempt_count x + 1, step_error_code := None,
              step_error_summary := None\<rparr>)))
     commitM)))"

definition end_step :: "'w prov_env \<Rightarrow> uuid \<Rightarrow> provisioning_step \<Rightarrow> dict \<Rightarrow> ('w, unit) rm" where
  "end_step V i st res =
     bindM (nowM (pv_env V)) (\<lambda>now.
     thenM (writeM (\<lambda>d. put_req i (\<lambda>x. x\<lparr>req_version := req_version x + 1\<rparr>)
              (put_step (step_id st) (\<lambda>x. x\<lparr>step_status := Step_SUCCEEDED, step_safe_result := res,
                 step_finished_at := Some now\<rparr>) d)))
     (thenM (touch_lease V i)
     commitM))"

definition internal_error :: app_error where
  "internal_error = app_error 500 ''PROVISIONING_INTERNAL_ERROR'' ''The provisioning step failed unexpectedly.''"

text \<open>One turn of the loop; \<open>True\<close> means that the next step may follow.\<close>

definition after_step :: "'w prov_env \<Rightarrow> prov_runner \<Rightarrow> provisioning_step \<Rightarrow> dict result \<Rightarrow> ('w, bool) rm" where
  "after_step V me st r = (case r of
     Inr res \<Rightarrow> thenM (end_step V (pr_request me) st res) (returnM True)
   | Inl (App e) \<Rightarrow> thenM (fail_request V me (Some st) e) (returnM False)
   | Inl IntegrityError \<Rightarrow> raiseM broken_session
   | Inl e \<Rightarrow> thenM (fail_request V me (Some st) internal_error) (raiseM e))"

definition run_step ::
    "'w prov_env \<Rightarrow> prov_runner \<Rightarrow> 'w provisioning_api \<Rightarrow> provisioning_step \<Rightarrow> ('w, bool) rm" where
  "run_step V me api st =
     bindM (step_row (step_id st)) (\<lambda>x.
     if step_status x = Step_SUCCEEDED then returnM True
     else
       thenM (begin_step V (pr_request me) st)
       (bindM (tryM (execute_step V me st api)) (after_step V me st)))"

fun run_steps ::
    "'w prov_env \<Rightarrow> prov_runner \<Rightarrow> 'w provisioning_api \<Rightarrow> provisioning_step list \<Rightarrow> ('w, bool) rm" where
  "run_steps V me api [] = returnM True"
| "run_steps V me api (st # sts) =
     bindM (run_step V me api st) (\<lambda>go. if go then run_steps V me api sts else returnM False)"

definition succeed_row :: "datetime \<Rightarrow> provisioning_request \<Rightarrow> provisioning_request" where
  "succeed_row now r = r\<lparr>req_status := Prov_SUCCEEDED, req_current_step := ''COMPLETED'',
     req_finished_at := Some now, req_heartbeat_at := Some now, req_runner_id := None,
     req_lease_expires_at := None, req_error_code := None, req_error_summary := None\<rparr>"

definition succeed_request :: "'w prov_env \<Rightarrow> uuid \<Rightarrow> user \<Rightarrow> ('w, unit) rm" where
  "succeed_request V i actor =
     bindM (nowM (pv_env V)) (\<lambda>now.
     thenM (writeM (put_req i (succeed_row now)))
     (bindM (request_row i) (\<lambda>r.
     thenM (writeM (add_audit_event (worker_ctx now)
       ((audit_event ''VM_PROVISION'' ''SUCCEEDED'' None)
         \<lparr>ev_actor_user_id := Some (user_id actor), ev_actor_role := Some (user_role_of actor),
          ev_organization_id := Some (req_organization_id r), ev_workload_id := req_workload_id r,
          ev_target_type := Some ''provisioning_request'', ev_target_id := Some (uuid_str i),
          ev_details := Some [(''target_vmid'', json_opt JInt (req_target_vmid r))]\<rparr>)))
     commitM)))"

definition request_steps :: "db \<Rightarrow> uuid \<Rightarrow> provisioning_step list" where
  "request_steps d i = sort_key step_order (filter (\<lambda>x. step_request_id x = i) (steps d))"

definition permission_revoked :: app_error where
  "permission_revoked = app_error 403 ''PERMISSION_REVOKED'' ''The provisioning requester is no longer authorized.''"

definition requester_ok :: "user option \<Rightarrow> bool" where
  "requester_ok actor = (case actor of None \<Rightarrow> False
     | Some u \<Rightarrow> user_is_active u \<and> user_role_of u = SUPER_ADMIN)"

definition run_claimed :: "'w prov_env \<Rightarrow> uuid \<Rightarrow> uuid \<Rightarrow> ('w, unit) rm" where
  "run_claimed V runner i =
     bindM (request_row i) (\<lambda>r.
     bindM (readM (\<lambda>d. get_user d (req_requested_by_id r))) (\<lambda>actor.
     if \<not> requester_ok actor
     then
       thenM (writeM (put_req i (\<lambda>x. x\<lparr>req_runner_id := None, req_lease_expires_at := None\<rparr>)))
         (fail_request V \<lparr>pr_request = i, pr_runner_id = runner, pr_actor = None\<rparr> None permission_revoked)
     else
       bindM (readM (open_provisioning_client V (req_target_cluster_id r))) (\<lambda>api.
       bindM (readM (\<lambda>d. request_steps d i)) (\<lambda>sts.
       bindM (run_steps V \<lparr>pr_request = i, pr_runner_id = runner, pr_actor = actor\<rparr> api sts) (\<lambda>ok.
       if ok then succeed_request V i (the actor) else returnM ())))))"

definition run_provisioning :: "'w prov_env \<Rightarrow> uuid \<Rightarrow> ('w, unit) rm" where
  "run_provisioning V i =
     bindM (uuid4M (pv_env V)) (\<lambda>runner.
     bindM (claim V runner i) (\<lambda>claimed.
     if claimed then finallyM (run_claimed V runner i) (release_claim runner i) else returnM ()))"

definition run_provisioning_request :: "'w prov_env \<Rightarrow> uuid \<Rightarrow> db \<Rightarrow> 'w \<Rightarrow> unit result \<times> 'w rs" where
  "run_provisioning_request V i d w = run_provisioning V i (start_run d w)"

end
