(* ===== verification/Provisioning_Frame.thy ===== *)
theory Provisioning_Frame
  imports Provisioning_Runner
begin

text \<open>
  What the provisioning worker may change.  \<open>prov_frame i\<close> relates the database before and after a
  write of a step handler that works on request \<open>i\<close>.  The locale \<open>provisioning_invariant\<close> states what
  a predicate on the run's state needs in order to survive every step handler, its extension
  \<open>provisioning_run_invariant\<close> what it needs to survive a whole run; their lemmas walk through the
  code once, for all the predicates the properties use.
\<close>

section \<open>Writes of the step handlers\<close>

definition req_le :: "uuid \<Rightarrow> provisioning_request \<Rightarrow> provisioning_request \<Rightarrow> bool" where
  "req_le i r r' \<longleftrightarrow> req_id r' = req_id r \<and> (req_id r \<noteq> i \<longrightarrow> r' = r) \<and>
     req_status r' = req_status r \<and> req_runner_id r' = req_runner_id r \<and>
     req_requested_by_id r' = req_requested_by_id r \<and>
     req_requested_ip_address r' = req_requested_ip_address r \<and>
     (req_clone_submitted r \<longrightarrow> req_clone_submitted r') \<and> (has_password r' \<longrightarrow> has_password r)"

definition step_view :: "provisioning_step \<Rightarrow> provisioning_step" where
  "step_view x = x\<lparr>step_pve_upid := None\<rparr>"

definition prov_frame :: "uuid \<Rightarrow> db \<Rightarrow> db \<Rightarrow> bool" where
  "prov_frame i d d' \<longleftrightarrow> list_all2 (req_le i) (requests d) (requests d') \<and>
     map step_view (steps d') = map step_view (steps d) \<and>
     ip_pools d' = ip_pools d \<and> exclusions d' = exclusions d \<and>
     ip_addresses d' = ip_addresses d \<and> ip_allocations d' = ip_allocations d"

lemma req_le_refl [simp]: "req_le i r r"
  by (simp add: req_le_def)

lemma req_le_trans: "req_le i r r' \<Longrightarrow> req_le i r' r'' \<Longrightarrow> req_le i r r''"
  by (auto simp: req_le_def)

lemma prov_frame_refl [simp]: "prov_frame i d d"
  by (simp add: prov_frame_def list_all2_refl)

lemma prov_frame_trans: "prov_frame i d d' \<Longrightarrow> prov_frame i d' d'' \<Longrightarrow> prov_frame i d d''"
  unfolding prov_frame_def using list_all2_trans[of "req_le i" "req_le i" "req_le i"] req_le_trans by metis

lemma prov_frame_put_req:
  "(\<And>r. req_id r = i \<Longrightarrow> req_le i r (f r)) \<Longrightarrow> prov_frame i d (put_req i f d)"
  by (auto simp: prov_frame_def put_req_def modify_row_def list_all2_map2 intro!: list_all2_refl)

lemma prov_frame_put_step: "(\<And>x. step_view (f x) = step_view x) \<Longrightarrow> prov_frame i d (put_step k f d)"
  by (simp add: prov_frame_def put_step_def list_all2_refl)

lemma prov_frame_tables [simp]:
  "prov_frame i d (put_node k g d)" "prov_frame i d (put_wl j h d)"
  "prov_frame i d (add_workload w d)" "prov_frame i d (add_assignment a d)"
  "prov_frame i d (add_audit_event c e d)"
  by (simp_all add: prov_frame_def put_node_def put_wl_def add_workload_def add_assignment_def list_all2_refl)

text \<open>The frame of a composed write, one write at a time.\<close>

lemma prov_frame_tablesI:
  "prov_frame i d d' \<Longrightarrow> prov_frame i d (put_node k g d')" "prov_frame i d d' \<Longrightarrow> prov_frame i d (put_wl j h d')"
  "prov_frame i d d' \<Longrightarrow> prov_frame i d (add_workload w d')" "prov_frame i d d' \<Longrightarrow> prov_frame i d (add_assignment a d')"
  "prov_frame i d d' \<Longrightarrow> prov_frame i d (add_audit_event c e d')"
  "(\<And>r. req_id r = i \<Longrightarrow> req_le i r (f r)) \<Longrightarrow> prov_frame i d d' \<Longrightarrow> prov_frame i d (put_req i f d')"
  by (blast intro: prov_frame_trans prov_frame_tables prov_frame_put_req)+

lemma req_le_updates [simp]:
  "req_id r = i \<Longrightarrow> req_le i r (touch_row S t r)" "req_id r = i \<Longrightarrow> req_le i r (set_capacity_reserved b r)"
  "req_id r = i \<Longrightarrow> req_le i r (clear_password t r)"
  by (auto simp: req_le_def touch_row_def set_capacity_reserved_def clear_password_def has_password_def)

lemma get_req_frame:
  assumes "prov_frame i d d'" "get_req d j = Some r"
  shows "\<exists>r'. get_req d' j = Some r' \<and> req_le i r r'"
proof -
  have "list_all2 (req_le i) (requests d) (requests d')" using assms(1) by (simp add: prov_frame_def)
  then show ?thesis using assms(2)
    by (induction rule: list_all2_induct) (auto simp: table_simps req_le_def split: if_splits)
qed

lemma get_req_frame_None:
  assumes "prov_frame i d d'"
  shows "get_req d' j = None \<longleftrightarrow> get_req d j = None"
proof -
  have "list_all2 (req_le i) (requests d) (requests d')" using assms(1) by (simp add: prov_frame_def)
  then show ?thesis
    by (induction rule: list_all2_induct) (auto simp: table_simps req_le_def split: if_splits)
qed

section \<open>Predicates kept by every step handler\<close>

locale provisioning_invariant =
  fixes I :: "'w rs \<Rightarrow> bool" and i :: uuid
  assumes k_write: "(\<And>d. prov_frame i d (f d)) \<Longrightarrow> keeps I (writeM f)"
    and world: "worldless I" and commit: "keeps I commitM" and rollback: "keeps I rollbackM"
    and call_unit: "nm \<noteq> ''clone_qemu_template'' \<Longrightarrow> keeps I (callM nm args (h1 :: 'w \<Rightarrow> unit result \<times> 'w))"
    and call_string: "nm \<noteq> ''clone_qemu_template'' \<Longrightarrow> keeps I (callM nm args (h2 :: 'w \<Rightarrow> string result \<times> 'w))"
    and call_dict: "nm \<noteq> ''clone_qemu_template'' \<Longrightarrow> keeps I (callM nm args (h3 :: 'w \<Rightarrow> dict result \<times> 'w))"
    and call_dicts: "nm \<noteq> ''clone_qemu_template'' \<Longrightarrow> keeps I (callM nm args (h4 :: 'w \<Rightarrow> dict list result \<times> 'w))"
    and k_clone: "keeps I (full_clone i st api)"
    and k_reserve: "pr_request me = i \<Longrightarrow> keeps I (reserve_ip V me)"
    and k_confirm: "keeps I (serviceM (confirm_provisioning_ip sv i w))"
begin

lemmas basic = keeps_nowM[OF world] keeps_uuid4M[OF world] keeps_sleepM[OF world] keeps_drawsM[OF world]
  commit rollback call_unit call_string call_dict call_dicts keeps_returnM keeps_raiseM
  keeps_readM keeps_liftM keeps_bindM keeps_thenM keeps_catch_app keeps_if keeps_case_option keeps_case_prod
  keeps_case_list keeps_tryM

lemma rows:
  "keeps I (request_row j)" "keeps I (step_row k)" "keeps I (int_spec j key)" "keeps I (str_spec j key)"
  "keeps I (vmid_of j)" "keeps I (node_of j)" "keeps I (address_of j)" "keeps I (step_named j name)"
  "keeps I (decrypt_initial_password V j)"
  unfolding request_row_def step_row_def int_spec_def str_spec_def vmid_of_def node_of_def address_of_def
    step_named_def decrypt_initial_password_def
  by (intro basic)+

lemma k_req: "(\<And>r. req_id r = i \<Longrightarrow> req_le i r (f r)) \<Longrightarrow> keeps I (writeM (put_req i f))"
  by (rule k_write) (rule prov_frame_put_req)

lemma helpers:
  "keeps I (touch_lease V i)" "keeps I (clear_initial_password V i)"
  "keeps I (vm_exists api v)" "keeps I (call_vm_status api n v)" "keeps I (call_configure api n v vs)"
  unfolding touch_lease_def clear_initial_password_def vm_exists_def call_vm_status_def call_configure_def
  by (intro basic k_req rows; simp)+

lemma keeps_wait: "keeps I (wait_task V i api n upid)"
proof -
  have "keeps I (wait_loop k V i api n upid)" for k
    by (induction k) (auto intro!: basic helpers)
  then show ?thesis by (simp add: wait_task_def)
qed

lemma k_upid: "keeps I (writeM (put_step k (\<lambda>x. x\<lparr>step_pve_upid := u\<rparr>)))"
  by (rule k_write) (rule prov_frame_put_step, simp add: step_view_def)

lemmas frame_intros = prov_frame_tablesI prov_frame_refl

lemma k_capacity:
  "keeps I (writeM (\<lambda>d. put_req i (set_capacity_reserved b) (put_node k g d)))"
  by (intro k_write frame_intros) simp

lemma keeps_select_target: "keeps I (select_target V i)"
  unfolding select_target_def
  by (intro basic rows k_capacity k_req) (simp add: req_le_def has_password_def)

lemma keeps_checks: "keeps I (validate_request i)" "keeps I (check_product i)"
  unfolding validate_request_def check_product_def by (intro basic rows)+

lemma keeps_reserve_vmid: "keeps I (reserve_vmid i api)"
  unfolding reserve_vmid_def
  by (intro basic rows k_req; simp add: req_le_def has_password_def)

lemma keeps_configure:
  "keeps I (configure_compute i api)" "keeps I (resize_disk i api)" "keeps I (configure_network i api)"
  "keeps I (configure_identity V i api)" "keeps I (verify_status i api)"
  unfolding configure_compute_def resize_disk_def configure_network_def configure_identity_def verify_status_def
  by (intro basic rows helpers; simp)+

lemma keeps_wait_start: "keeps I (wait_clone V i api)" "keeps I (start_vm V i st api)"
  unfolding wait_clone_def start_vm_def ownership_conflict_def
  by (intro basic rows helpers keeps_wait k_upid; simp)+

lemma keeps_assign: "pr_request me = i \<Longrightarrow> keeps I (assign_organization V me)"
proof -
  assume me: "pr_request me = i"
  have w: "keeps I (created_workload V r)" for r
    unfolding created_workload_def Let_def ownership_error_def
    by (intro basic rows k_write frame_intros)
  show ?thesis
    unfolding assign_organization_def Let_def ownership_error_def me
    by (intro basic rows w k_write)
      (auto intro!: frame_intros simp: req_le_def has_password_def)
qed

lemma keeps_confirm_ip: "pr_request me = i \<Longrightarrow> keeps I (confirm_ip V me)"
  unfolding confirm_ip_def ipamM_def by (intro basic rows) (auto intro!: basic k_confirm)

lemma keeps_execute_step:
  assumes "pr_request me = i"
  shows "keeps I (execute_step V me st api)"
proof -
  have "\<forall>(n, h) \<in> set (handlers V me (step_id st) api). keeps I h"
    using assms
    by (simp add: handlers_def Let_def keeps_checks keeps_select_target keeps_reserve_vmid k_reserve k_clone
        keeps_wait_start keeps_configure keeps_assign keeps_confirm_ip)
  then show ?thesis
    unfolding execute_step_def
    by (auto split: option.splits dest!: map_of_SomeD intro: keeps_raiseM)
qed

end

end
