(* ===== verification/Power_Lifecycle.thy ===== *)
theory Power_Lifecycle
  imports Power_Runner Runner_Service
begin

text \<open>
  Every run of the power worker on an active operation finishes it with its last commit, or raises
  and leaves it active: the structure of the code in the rules of \<open>job_lifecycle\<close>.
\<close>

definition op_active :: "uuid \<Rightarrow> db \<Rightarrow> bool" where
  "op_active i d = (case get_op d i of Some x \<Rightarrow> active_status (op_status x) | None \<Rightarrow> False)"

definition op_terminal :: "uuid \<Rightarrow> db \<Rightarrow> bool" where
  "op_terminal i d = (case get_op d i of Some x \<Rightarrow> terminal_status (op_status x) | None \<Rightarrow> False)"

interpretation opj: job_lifecycle op_active op_terminal
  by unfold_locales (auto simp: op_active_def op_terminal_def split: option.splits)

section \<open>Writes that leave the status alone\<close>

lemma op_active_put [simp]:
  "op_active i (put_task j f d) = op_active i d"
  "op_active i (put_wl j g d) = op_active i d"
  "op_active i (add_task t d) = op_active i d"
  by (simp_all add: op_active_def put_task_def put_wl_def add_task_def)

lemma op_active_put_op:
  assumes "\<And>x. op_id (f x) = op_id x" "\<And>x. active_status (op_status x) \<Longrightarrow> active_status (op_status (f x))"
  shows "op_active i d \<Longrightarrow> op_active i (put_op j f d)"
  using assms by (auto simp: op_active_def put_op_def get_modify_row split: option.splits)

lemma op_terminal_put_op:
  assumes "\<And>x. op_id (f x) = op_id x" "\<And>x. terminal_status (op_status (f x))"
  shows "op_active i d \<Longrightarrow> op_terminal i (put_op i f d)"
  using assms by (auto simp: op_active_def op_terminal_def put_op_def get_modify_row split: option.splits)

lemma claim_op_simps [simp]:
  "op_id (claim_op now x) = op_id x" "op_status (claim_op now x) = Op_RUNNING"
  by (simp_all add: claim_op_def)

lemma finish_op_simps [simp]:
  "op_id (finish_op t st retry err x) = op_id x" "op_status (finish_op t st retry err x) = st"
  by (simp_all add: finish_op_def)

lemmas op_keeps = opj.keeps_now opj.keeps_uuid4 opj.keeps_sleep opj.keeps_call opj.keeps_commit
  opj.keeps_rollback keeps_returnM keeps_raiseM keeps_readM keeps_liftM keeps_bindM keeps_thenM
  keeps_catch_app keeps_if keeps_case_option

lemma op_keeps_write:
  "keeps (live (op_active i)) (writeM (put_task j f))"
  "keeps (live (op_active i)) (writeM (put_wl j g))"
  "keeps (live (op_active i)) (writeM (add_task t))"
  "(\<And>x. op_id (h x) = op_id x) \<Longrightarrow> (\<And>x. active_status (op_status x) \<Longrightarrow> active_status (op_status (h x))) \<Longrightarrow>
     keeps (live (op_active i)) (writeM (put_op j h))"
  by (auto intro!: opj.keeps_write op_active_put_op)

lemma op_keeps_calls:
  "keeps (live (op_active i)) (call_guest_status api w)"
  "keeps (live (op_active i)) (call_submit api w act)"
  "keeps (live (op_active i)) (call_task_status api node upid)"
  "keeps (live (op_active i)) (pause P)"
  "keeps (live (op_active i)) (read_attempts j)"
  by (simp_all add: call_guest_status_def call_submit_def call_task_status_def pause_def read_attempts_def op_keeps)

lemmas op_ends = opj.ends_bind opj.ends_then opj.ends_raise opj.ends_if opj.ends_bind_opt opj.ends_catch

section \<open>The pieces of the runner\<close>

lemma finish_ends:
  assumes "terminal_status st" "op_id op = i"
  shows "ends (op_active i) (op_terminal i) (finish P op actor st retry err upid)"
  unfolding finish_def
  by (intro op_ends op_keeps opj.ends_finish)
    (use assms in \<open>auto simp: opj.audit_terminal intro: op_terminal_put_op\<close>)

lemma finish_from_error_ends:
  "op_id op = i \<Longrightarrow> ends (op_active i) (op_terminal i) (finish_from_error P op actor e sub upid)"
  by (simp add: finish_from_error_def Let_def finish_ends)

lemma safe_guest_status_ends:
  "op_id op = i \<Longrightarrow> ends_opt (op_active i) (op_terminal i) (safe_guest_status P op actor w api)"
  unfolding safe_guest_status_def
  by (intro opj.ends_opt_try op_keeps_calls finish_from_error_ends)

lemma submit_loop_ends:
  "op_id op = i \<Longrightarrow> 0 < n \<Longrightarrow> int (attempt + n) = pve_action_max_attempts (pe_settings P) + 1 \<Longrightarrow>
   ends_opt (op_active i) (op_terminal i) (submit_loop n attempt P op actor w api)"
proof (induction n attempt P op actor w api rule: submit_loop.induct)
  case (2 n attempt P op actor w api)
  show ?case
    unfolding submit_loop.simps
  proof (rule opj.ends_opt_catch[OF op_keeps_calls(2)])
    fix e
    show "ends_opt (op_active i) (op_terminal i)
      (if is_retryable e \<and> code e \<noteq> ''PVE_TIMEOUT'' \<and> int attempt < pve_action_max_attempts (pe_settings P)
       then thenM (sleepM (pe_env P) (min (2 ^ (attempt - 1)) 5)) (submit_loop n (attempt + 1) P op actor w api)
       else thenM (finish_from_error P op actor e True None) (returnM None))"
      using "2.IH"[of e] "2.prems" finish_from_error_ends[OF "2.prems"(1)]
      by (auto intro!: opj.ends_opt_then opj.ends_opt_done op_keeps)
  qed
qed simp

lemma submit_ends:
  "op_id op = i \<Longrightarrow> 0 < pve_action_max_attempts (pe_settings P) \<Longrightarrow>
   ends_opt (op_active i) (op_terminal i) (submit P op actor w api)"
  unfolding submit_def by (rule submit_loop_ends) auto

lemma task_stopped_ends:
  "op_id op = i \<Longrightarrow> ends (op_active i) (op_terminal i) (task_stopped P op actor w t api status)"
  unfolding task_stopped_def Let_def
  by (intro op_ends op_keeps op_keeps_write finish_ends safe_guest_status_ends)
    (auto split: option.splits intro!: op_ends op_keeps op_keeps_write finish_ends)

lemma poll_turn_ends:
  assumes "op_id op = i" "ends (op_active i) (op_terminal i) again"
  shows "ends (op_active i) (op_terminal i) (poll_turn P op actor w t api again)"
  unfolding poll_turn_def
  by (intro op_ends op_keeps opj.keeps_write op_keeps_calls)
    (use assms in \<open>auto split: sum.splits simp: Let_def intro!: op_ends op_keeps_write op_active_put_op
        op_keeps_calls finish_ends finish_from_error_ends task_stopped_ends\<close>)

lemma poll_loop_ends:
  "op_id op = i \<Longrightarrow> ends (op_active i) (op_terminal i) (poll_loop fuel P op actor w t api deadline)"
proof (induction fuel)
  case 0
  then show ?case
    by (subst poll_loop.simps) (auto intro!: op_ends op_keeps op_keeps_calls op_keeps_write finish_ends)
next
  case (Suc n)
  then show ?case
    by (subst poll_loop.simps)
      (auto intro!: op_ends op_keeps op_keeps_calls op_keeps_write finish_ends poll_turn_ends)
qed

lemma poll_ends: "op_id op = i \<Longrightarrow> ends (op_active i) (op_terminal i) (poll P op actor w t api)"
  unfolding poll_def by (intro op_ends op_keeps op_keeps_calls poll_loop_ends)

lemma poll_delete_ends:
  "op_id op = i \<Longrightarrow> ends (op_active i) (op_terminal i) (poll_delete n P op actor w t api)"
  by (induction n)
    (auto intro!: op_ends op_keeps op_keeps_calls op_keeps_write opj.keeps_write op_active_put_op finish_ends)

lemma start_action_ends:
  assumes "op_id op = i" "0 < pve_action_max_attempts (pe_settings P)"
  shows "ends (op_active i) (op_terminal i) (start_action P op actor w api action recovering)"
proof -
  have "ends (op_active i) (op_terminal i) (submit_and_poll P op actor w api action)"
    unfolding submit_and_poll_def Let_def
    by (intro op_ends op_keeps submit_ends assms poll_ends opj.keeps_write)
      (auto intro!: op_active_put_op)
  then show ?thesis
    unfolding start_action_def
    by (intro opj.ends_bind_opt safe_guest_status_ends assms)
      (auto split: sum.splits exn.splits option.splits intro!: op_ends op_keeps opj.keeps_write
        op_active_put_op finish_ends finish_from_error_ends simp: assms)
qed

lemma apply_spec_keeps: "keeps (live (op_active i)) (apply_spec P op w api)"
  unfolding apply_spec_def
  by (auto split: option.splits intro!: op_keeps op_keeps_write opj.keeps_write op_active_put_op)

lemma run_admin_ends:
  "op_id op = i \<Longrightarrow> ends (op_active i) (op_terminal i) (run_admin_action P op)"
  unfolding run_admin_action_def delete_vm_def Let_def
  by (intro op_ends op_keeps)
    (auto split: option.splits intro!: op_ends op_keeps op_keeps_calls op_keeps_write apply_spec_keeps
      finish_ends finish_from_error_ends poll_delete_ends)

end
