(* ===== verification/Power_Safety.thy ===== *)
theory Power_Safety
  imports Power_Lifecycle
begin

text \<open>
  What a run of the power worker may do to Proxmox and to the database: how often it submits an
  action, that it always returns, what it leaves alone.
\<close>

section \<open>The outcome of a run\<close>

lemma run_action_outcome:
  assumes "op_id op = i" "0 < pve_action_max_attempts (pe_settings P)" "live (op_active i) s"
  shows "wp (run_action P op actor w)
    (\<lambda>_ t. finished (op_active i) (op_terminal i) t \<or>
       op_status op = Op_RUNNING \<and> find_task (rs_db s) i = None \<and>
       rs_commits t = rs_commits s \<and> rs_calls t = rs_calls s)
    (\<lambda>_. live (op_active i)) s"
proof -
  let ?rest = "\<lambda>now task. thenM (writeM (put_op (op_id op) (claim_op now)))
       (thenM commitM
       (case power_action_of (op_action op) of
          None \<Rightarrow> raiseM (PyError ''ValueError'')
        | Some action \<Rightarrow>
            bindM (readM (open_client P w)) (\<lambda>api.
            (case task of
               Some t \<Rightarrow> poll P op actor w t api
             | None \<Rightarrow> start_action P op actor w api action (op_status op = Op_RUNNING)))))"
  have rest: "ends (op_active i) (op_terminal i) (?rest now task)" for now task
    by (intro op_ends op_keeps op_keeps_write)
      (auto split: option.splits intro!: op_ends op_keeps poll_ends start_action_ends simp: assms)
  obtain now w' where now: "re_now (pe_env P) (rs_world s) = (now, w')" by fastforce
  have live: "live (op_active i) (s\<lparr>rs_world := w'\<rparr>)"
    using assms(3) by (simp add: live_def)
  show ?thesis
  proof (cases "op_status op = Op_RUNNING \<and> find_task (rs_db s) (op_id op) = None \<and> lease_held P op now")
    case True
    with assms(1) show ?thesis by (simp add: run_action_def wp_rules now Let_def)
  next
    case False
    from rest live have "wp (?rest now (find_task (rs_db s) (op_id op)))
        (\<lambda>_. finished (op_active i) (op_terminal i)) (\<lambda>_. live (op_active i)) (s\<lparr>rs_world := w'\<rparr>)"
      by (simp add: ends_def)
    then have "wp (?rest now (find_task (rs_db s) (op_id op)))
        (\<lambda>_ t. finished (op_active i) (op_terminal i) t \<or>
           op_status op = Op_RUNNING \<and> find_task (rs_db s) i = None \<and>
           rs_commits t = rs_commits s \<and> rs_calls t = rs_calls s)
        (\<lambda>_. live (op_active i)) (s\<lparr>rs_world := w'\<rparr>)"
      by (rule wp_mono) auto
    with False show ?thesis
      unfolding run_action_def Let_def
      by (simp only: wp_bindM wp_readM wp_nowM now prod.case if_False simp_thms)
  qed
qed

lemma run_outcome:
  assumes "0 < pve_action_max_attempts (pe_settings P)" "live (op_active i) s"
  shows "wp (run P i)
    (\<lambda>_ t. finished (op_active i) (op_terminal i) t \<or>
       find_task (rs_db s) i = None \<and> rs_commits t = rs_commits s \<and> rs_calls t = rs_calls s \<and>
       map_option op_status (get_op (rs_db s) i) = Some Op_RUNNING)
    (\<lambda>_. live (op_active i)) s"
proof -
  obtain op where op: "get_op (rs_db s) i = Some op" "active_status (op_status op)" "op_id op = i"
    using assms(2) get_row_Some[of op_id "operations (rs_db s)" i]
    by (auto simp: live_def op_active_def split: option.splits)
  let ?Q = "\<lambda>_ t. finished (op_active i) (op_terminal i) t \<or>
       find_task (rs_db s) i = None \<and> rs_commits t = rs_commits s \<and> rs_calls t = rs_calls s \<and>
       map_option op_status (get_op (rs_db s) i) = Some Op_RUNNING"
  have fin: "wp m ?Q (\<lambda>_. live (op_active i)) s" if "ends (op_active i) (op_terminal i) m" for m
    using that assms(2) by (auto simp: ends_def elim!: wp_mono)
  have act: "wp (run_action P op actor w) ?Q (\<lambda>_. live (op_active i)) s" for actor w
    by (rule wp_mono[OF run_action_outcome[OF op(3) assms]]) (use op in auto)
  have failed: "wp (finish P op actor Op_FAILED retry err upid) ?Q (\<lambda>_. live (op_active i)) s"
    for actor retry err upid
    using finish_ends[of Op_FAILED op i P] op(3) by (intro fin) simp
  show ?thesis
    using op fin[OF run_admin_ends[OF op(3)]] act failed
    by (auto simp: run_def wp_rules split: option.splits)
qed

section \<open>Submissions\<close>

text \<open>The calls that ask Proxmox for a power action; \<open>retry_safe\<close> ones did not reach a guest.\<close>

definition submits :: "api_call list \<Rightarrow> api_call list" where
  "submits cs = filter (\<lambda>c. call_name c = ''submit_guest_power_action'') cs"

definition retry_safe :: "api_call \<Rightarrow> bool" where
  "retry_safe c = (case call_error c of
     Some (App e) \<Rightarrow> is_retryable e \<and> code e \<noteq> ''PVE_TIMEOUT'' | _ \<Rightarrow> False)"

definition submitted :: "api_call list \<Rightarrow> 'w rs \<Rightarrow> bool" where
  "submitted S s \<longleftrightarrow> submits (rs_calls s) = S"

lemma submits_append [simp]:
  "submits (xs @ ys) = submits xs @ submits ys" "submits [] = []"
  "submits [\<lparr>call_name = nm, call_args = a, call_error = e\<rparr>] =
     (if nm = ''submit_guest_power_action'' then [\<lparr>call_name = nm, call_args = a, call_error = e\<rparr>] else [])"
  by (simp_all add: submits_def)

lemma submitted_simps [simp]:
  "submitted S (s\<lparr>rs_world := w\<rparr>) = submitted S s" "submitted S (s\<lparr>rs_db := d\<rparr>) = submitted S s"
  "submitted S (s\<lparr>rs_commits := c\<rparr>) = submitted S s"
  by (simp_all add: submitted_def)

lemma submitted_keeps_basic:
  "keeps (submitted S) (nowM V)" "keeps (submitted S) (uuid4M V)" "keeps (submitted S) (sleepM V t)"
  "keeps (submitted S) commitM" "keeps (submitted S) rollbackM" "keeps (submitted S) (writeM f)"
  by (auto simp: keeps_def wp_rules submitted_def split: prod.splits)

lemma submitted_keeps_call:
  "nm \<noteq> ''submit_guest_power_action'' \<Longrightarrow> keeps (submitted S) (callM nm args f)"
  by (auto simp: keeps_def wp_rules submitted_def split: prod.splits sum.splits)

lemmas submitted_keeps = submitted_keeps_basic keeps_returnM keeps_raiseM keeps_readM keeps_liftM
  keeps_bindM keeps_thenM keeps_catch_app keeps_if keeps_case_option keeps_case_prod

lemma submitted_keeps_calls:
  "keeps (submitted S) (call_guest_status api w)"
  "keeps (submitted S) (call_task_status api node upid)"
  "keeps (submitted S) (pause P)"
  "keeps (submitted S) (read_attempts j)"
  by (simp_all add: call_guest_status_def call_task_status_def pause_def read_attempts_def
      submitted_keeps submitted_keeps_call)

lemma submitted_finish: "keeps (submitted S) (finish P op actor st retry err upid)"
  unfolding finish_def by (intro submitted_keeps)

lemma submitted_finish_from_error: "keeps (submitted S) (finish_from_error P op actor e sub upid)"
  unfolding finish_from_error_def Let_def by (rule submitted_finish)

lemma submitted_safe_guest_status: "keeps (submitted S) (safe_guest_status P op actor w api)"
  unfolding safe_guest_status_def
  by (intro submitted_keeps submitted_keeps_calls submitted_finish_from_error)

lemma submitted_task_stopped: "keeps (submitted S) (task_stopped P op actor w t api status)"
  unfolding task_stopped_def Let_def
  by (intro submitted_keeps submitted_finish submitted_safe_guest_status)

lemma submitted_poll_turn:
  "keeps (submitted S) again \<Longrightarrow> keeps (submitted S) (poll_turn P op actor w t api again)"
  unfolding poll_turn_def Let_def
  by (intro submitted_keeps submitted_keeps_calls)
    (auto split: sum.splits intro!: submitted_keeps submitted_keeps_calls submitted_finish
      submitted_finish_from_error submitted_task_stopped)

lemma submitted_poll: "keeps (submitted S) (poll P op actor w t api)"
proof -
  have "keeps (submitted S) (poll_loop fuel P op actor w t api deadline)" for fuel deadline
  proof (induction fuel)
    case 0
    show ?case by (subst poll_loop.simps) (auto intro!: submitted_keeps submitted_keeps_calls submitted_finish)
  next
    case (Suc n)
    then show ?case
      by (subst poll_loop.simps)
        (auto intro!: submitted_keeps submitted_keeps_calls submitted_finish submitted_poll_turn)
  qed
  then show ?thesis unfolding poll_def by (intro submitted_keeps submitted_keeps_calls)
qed

lemma submitted_poll_delete: "keeps (submitted S) (poll_delete n P op actor w t api)"
  by (induction n) (auto intro!: submitted_keeps submitted_keeps_calls submitted_finish)

lemma submitted_apply_spec: "keeps (submitted S) (apply_spec P op w api)"
  unfolding apply_spec_def
  by (auto split: option.splits intro!: submitted_keeps submitted_keeps_call)

lemma submitted_admin: "keeps (submitted S) (run_admin_action P op)"
  unfolding run_admin_action_def delete_vm_def Let_def
  by (auto split: option.splits intro!: submitted_keeps submitted_keeps_call submitted_keeps_calls
      submitted_apply_spec submitted_finish submitted_finish_from_error submitted_poll_delete)

text \<open>All submissions but the last were safe to repeat, and there are at most \<open>n\<close> of them.\<close>

definition safely_submitted :: "nat \<Rightarrow> 'w rs \<Rightarrow> bool" where
  "safely_submitted n s \<longleftrightarrow> list_all retry_safe (butlast (submits (rs_calls s))) \<and>
     length (submits (rs_calls s)) \<le> n"

lemma submitted_safely:
  assumes "keeps (submitted (submits (rs_calls s))) m" "safely_submitted n s"
  shows "wp m (\<lambda>_. safely_submitted n) (\<lambda>_. safely_submitted n) s"
proof -
  have "wp m (\<lambda>_. submitted (submits (rs_calls s))) (\<lambda>_. submitted (submits (rs_calls s))) s"
    using assms(1) by (simp add: keeps_def submitted_def)
  then show ?thesis by (rule wp_mono) (use assms(2) in \<open>auto simp: safely_submitted_def submitted_def\<close>)
qed

lemma submit_loop_safe:
  "list_all retry_safe (submits (rs_calls s)) \<Longrightarrow> length (submits (rs_calls s)) + n \<le> N \<Longrightarrow>
   wp (submit_loop n attempt P op actor w api) (\<lambda>_. safely_submitted N) (\<lambda>_. safely_submitted N) s"
proof (induction n arbitrary: attempt s)
  case 0
  then show ?case by (auto simp: wp_rules safely_submitted_def list_all_iff dest: in_set_butlastD)
next
  case (Suc n)
  let ?c = "\<lambda>e. \<lparr>call_name = ''submit_guest_power_action'', call_args = guest_args w @ [JStr (op_action op)],
    call_error = e\<rparr>"
  obtain r w' where call: "submit_guest_power_action api (wl_kind w) (wl_node w) (wl_vmid w) (op_action op)
      (rs_world s) = (r, w')" by fastforce
  have safe: "safely_submitted N (s\<lparr>rs_world := w', rs_calls := rs_calls s @ [?c e]\<rparr>)" for e
    using Suc.prems by (simp add: safely_submitted_def)
  show ?case
  proof (cases r)
    case (Inr u)
    with safe call show ?thesis by (simp add: call_submit_def wp_rules)
  next
    case (Inl e)
    show ?thesis
    proof (cases e)
      case (App a)
      let ?t = "s\<lparr>rs_world := w', rs_calls := rs_calls s @ [?c (Some (App a))]\<rparr>"
      have "wp (finish_from_error P op actor a True None) (\<lambda>_. safely_submitted N) (\<lambda>_. safely_submitted N) ?t"
        by (rule submitted_safely[OF submitted_finish_from_error safe])
      moreover have "wp (submit_loop n (attempt + 1) P op actor w api) (\<lambda>_. safely_submitted N)
          (\<lambda>_. safely_submitted N) (?t\<lparr>rs_world := w''\<rparr>)"
        if "is_retryable a" "code a \<noteq> ''PVE_TIMEOUT''" for w''
        using that Suc.prems by (intro Suc.IH) (auto simp: retry_safe_def)
      ultimately show ?thesis
        using call Inl App by (simp add: call_submit_def wp_rules)
    qed (use Inl call safe in \<open>simp_all add: call_submit_def wp_rules\<close>)
  qed
qed

text \<open>Code that starts without a submission.\<close>

definition submits_ok :: "nat \<Rightarrow> ('w, 'a) rm \<Rightarrow> bool" where
  "submits_ok N m \<longleftrightarrow> (\<forall>s. submits (rs_calls s) = [] \<longrightarrow>
     wp m (\<lambda>_. safely_submitted N) (\<lambda>_. safely_submitted N) s)"

lemma submits_ok_keeps: "(\<And>S. keeps (submitted S) m) \<Longrightarrow> submits_ok N m"
  unfolding submits_ok_def by (intro allI impI submitted_safely) (auto simp: safely_submitted_def)

lemma submits_ok_bind:
  "keeps (submitted []) m \<Longrightarrow> (\<And>x. submits_ok N (f x)) \<Longrightarrow> submits_ok N (bindM m f)"
  by (auto simp: submits_ok_def keeps_def submitted_def wp_rules safely_submitted_def elim!: wp_mono)

lemma submits_ok_then: "keeps (submitted []) m \<Longrightarrow> submits_ok N n \<Longrightarrow> submits_ok N (thenM m n)"
  by (simp add: thenM_def submits_ok_bind)

lemma submits_ok_submit:
  assumes "\<And>x S. keeps (submitted S) (f x)"
  shows "submits_ok (nat (pve_action_max_attempts (pe_settings P))) (bindM (submit P op actor w api) f)"
  unfolding submits_ok_def wp_bindM
proof (intro allI impI)
  fix s :: "'a rs" assume "submits (rs_calls s) = []"
  then have "wp (submit P op actor w api)
      (\<lambda>_. safely_submitted (nat (pve_action_max_attempts (pe_settings P))))
      (\<lambda>_. safely_submitted (nat (pve_action_max_attempts (pe_settings P)))) s"
    unfolding submit_def by (intro submit_loop_safe) auto
  then show "wp (submit P op actor w api)
      (\<lambda>x. wp (f x) (\<lambda>_. safely_submitted (nat (pve_action_max_attempts (pe_settings P))))
        (\<lambda>_. safely_submitted (nat (pve_action_max_attempts (pe_settings P)))))
      (\<lambda>_. safely_submitted (nat (pve_action_max_attempts (pe_settings P)))) s"
    by (rule wp_mono) (use submitted_safely[OF assms] in blast)+
qed

lemma submits_ok_start:
  "submits_ok (nat (pve_action_max_attempts (pe_settings P)))
     (start_action P op actor w api action recovering)"
proof -
  let ?N = "nat (pve_action_max_attempts (pe_settings P))"
  have "submits_ok ?N (submit_and_poll P op actor w api action)"
    unfolding submit_and_poll_def Let_def
    by (rule submits_ok_submit) (intro submitted_keeps submitted_poll)
  then show ?thesis
    unfolding start_action_def
    by (intro submits_ok_bind submitted_safe_guest_status)
      (auto split: option.splits sum.splits exn.splits intro!: submits_ok_keeps submitted_keeps
        submitted_finish submitted_finish_from_error)
qed

lemma submits_ok_run: "submits_ok (nat (pve_action_max_attempts (pe_settings P))) (run P i)"
proof -
  have "submits_ok (nat (pve_action_max_attempts (pe_settings P))) (run_action P op actor w)" for op actor w
    unfolding run_action_def Let_def
    by (intro submits_ok_bind submitted_keeps)
      (auto split: option.splits intro!: submits_ok_bind submits_ok_then submits_ok_start submitted_keeps
        submits_ok_keeps[OF submitted_poll] submits_ok_keeps[OF keeps_raiseM]
        submits_ok_keeps[OF submitted_keeps_basic(5)])
  then show ?thesis
    unfolding run_def
    by (intro submits_ok_bind submitted_keeps)
      (auto split: option.splits intro!: submits_ok_bind submitted_keeps submits_ok_keeps[OF submitted_finish]
        submits_ok_keeps[OF submitted_admin] submits_ok_keeps[OF keeps_returnM])
qed

text \<open>With a recorded task, a run only polls.\<close>

lemma run_with_task_submits_nothing:
  assumes "find_task (rs_db s) i = Some t" "submitted S s"
  shows "wp (run P i) (\<lambda>_. submitted S) (\<lambda>_. submitted S) s"
proof -
  have keeps: "wp m (\<lambda>_. submitted S) (\<lambda>_. submitted S) s'"
    if "keeps (submitted S) m" "submitted S s'" for m :: "('a, unit) rm" and s'
    using that by (simp add: keeps_def)
  have "wp (run_action P op actor w) (\<lambda>_. submitted S) (\<lambda>_. submitted S) s" if "op_id op = i" for op actor w
    using assms that
    by (auto simp: run_action_def wp_rules Let_def split: prod.splits option.splits
        intro!: keeps submitted_poll)
  then show ?thesis
    using assms(2) keeps[OF submitted_finish assms(2)] keeps[OF submitted_admin assms(2)]
    by (auto simp: run_def wp_rules split: option.splits dest: get_row_Some)
qed

section \<open>Termination\<close>

definition is_app :: "exn \<Rightarrow> bool" where
  "is_app e = (case e of App _ \<Rightarrow> True | _ \<Rightarrow> False)"

definition app_only :: "('w \<Rightarrow> 'a result \<times> 'w) \<Rightarrow> bool" where
  "app_only f \<longleftrightarrow> (\<forall>w. case fst (f w) of Inl e \<Rightarrow> is_app e | Inr _ \<Rightarrow> True)"

text \<open>
  The client reports its failures as \<open>AppError\<close>, for the actions it accepts (theory \<open>Client_Properties\<close>
  shows it of src/backend/app/proxmox/client.py).
\<close>

definition submittable :: "workload_kind \<Rightarrow> string \<Rightarrow> bool" where
  "submittable k a \<longleftrightarrow> power_action_of a \<noteq> None \<and> \<not> (k = LXC \<and> a = power_action_value RESET)"

definition api_safe :: "'w power_api \<Rightarrow> bool" where
  "api_safe api \<longleftrightarrow> (\<forall>k n v a. submittable k a \<longrightarrow> app_only (submit_guest_power_action api k n v a)) \<and>
     (\<forall>n u. app_only (get_task_status api n u)) \<and>
     (\<forall>k n v. app_only (get_guest_status api k n v)) \<and> (\<forall>k n v. app_only (get_guest_config api k n v)) \<and>
     (\<forall>k n v c m. app_only (configure_guest api k n v c m)) \<and>
     (\<forall>k n v q b. app_only (resize_guest_disk api k n v q b)) \<and>
     (\<forall>k n v. app_only (delete_guest api k n v))"

definition env_safe :: "'w power_env \<Rightarrow> bool" where
  "env_safe P = (case pe_injected P of
     Some api \<Rightarrow> api_safe api
   | None \<Rightarrow> (\<forall>c t s api. pe_connect P c t s = Inr api \<longrightarrow> api_safe api))"

lemma unavailable_api_safe: "api_safe (unavailable_api e)"
  by (simp add: api_safe_def app_only_def unavailable_api_def is_app_def)

lemma open_client_safe: "env_safe P \<Longrightarrow> api_safe (open_client P w d)"
  by (auto simp: open_client_def env_safe_def unavailable_api_safe split: option.splits sum.splits)

definition raises_only :: "(exn \<Rightarrow> bool) \<Rightarrow> ('w, 'a) rm \<Rightarrow> bool" where
  "raises_only X m \<longleftrightarrow> (\<forall>s. wp m (\<lambda>_ _. True) (\<lambda>e _. X e) s)"

abbreviation integrity_only :: "exn \<Rightarrow> bool" where
  "integrity_only e \<equiv> e = IntegrityError"

abbreviation app_or_integrity :: "exn \<Rightarrow> bool" where
  "app_or_integrity e \<equiv> is_app e \<or> e = IntegrityError"

lemma raises_only_basic:
  "raises_only X (returnM x)" "raises_only X (readM f)" "raises_only X (writeM g)"
  "raises_only X (nowM V)" "raises_only X (uuid4M V)" "raises_only X (sleepM V t)" "raises_only X rollbackM"
  "X IntegrityError \<Longrightarrow> raises_only X commitM" "X e \<Longrightarrow> raises_only X (raiseM e)"
  by (auto simp: raises_only_def wp_rules split: prod.splits)

lemma raises_only_bind:
  "raises_only X m \<Longrightarrow> (\<And>x. raises_only X (f x)) \<Longrightarrow> raises_only X (bindM m f)"
  unfolding raises_only_def wp_bindM by (blast intro: wp_mono)

lemma raises_only_then: "raises_only X m \<Longrightarrow> raises_only X n \<Longrightarrow> raises_only X (thenM m n)"
  by (simp add: thenM_def raises_only_bind)

lemma raises_only_catch:
  assumes "raises_only app_or_integrity m" "\<And>e. raises_only integrity_only (h e)"
  shows "raises_only integrity_only (catch_app m h)"
  unfolding raises_only_def wp_catch_app
proof (intro allI)
  fix s
  have "wp m (\<lambda>_ _. True) (\<lambda>e _. app_or_integrity e) s" using assms(1) by (simp add: raises_only_def)
  then show "wp m (\<lambda>_ _. True) (\<lambda>e. case e of App a \<Rightarrow> wp (h a) (\<lambda>_ _. True) (\<lambda>e _. integrity_only e)
      | _ \<Rightarrow> \<lambda>_. integrity_only e) s"
    by (rule wp_mono) (use assms(2) in \<open>auto simp: raises_only_def is_app_def split: exn.splits\<close>)
qed

lemma raises_only_mono: "raises_only integrity_only m \<Longrightarrow> raises_only app_or_integrity m"
  by (auto simp: raises_only_def elim!: wp_mono)

lemma raises_only_call: "app_only f \<Longrightarrow> raises_only app_or_integrity (callM nm args f)"
  unfolding raises_only_def app_only_def wp_callM
  by (auto split: prod.splits sum.splits) (metis fst_conv sum.case(1))

lemmas raises_rules = raises_only_basic raises_only_bind raises_only_then

lemma finish_raises: "raises_only integrity_only (finish P op actor st retry err upid)"
  unfolding finish_def by (intro raises_rules) simp

lemma finish_from_error_raises: "raises_only integrity_only (finish_from_error P op actor e sub upid)"
  unfolding finish_from_error_def Let_def by (rule finish_raises)

lemma safe_guest_status_raises:
  "api_safe api \<Longrightarrow> raises_only integrity_only (safe_guest_status P op actor w api)"
  unfolding safe_guest_status_def call_guest_status_def
  by (intro raises_only_catch raises_rules raises_only_call finish_from_error_raises) (simp add: api_safe_def)

lemma submit_raises:
  assumes api: "api_safe api" and ok: "submittable (wl_kind w) (op_action op)"
  shows "raises_only integrity_only (submit P op actor w api)"
proof -
  have "raises_only integrity_only (submit_loop n attempt P op actor w api)" for n attempt
  proof (induction n arbitrary: attempt)
    case (Suc n)
    then show ?case
      unfolding submit_loop.simps call_submit_def
      by (intro raises_only_catch raises_rules raises_only_call)
        (use api ok in \<open>auto simp: api_safe_def intro!: raises_rules finish_from_error_raises\<close>)
  qed (simp add: raises_rules)
  then show ?thesis by (simp add: submit_def)
qed

lemma task_stopped_raises:
  assumes "api_safe api" "power_action_of (op_action op) \<noteq> None"
  shows "raises_only integrity_only (task_stopped P op actor w t api status)"
  unfolding task_stopped_def Let_def
  by (intro raises_rules)
    (use assms in \<open>auto split: option.splits intro!: raises_rules finish_raises safe_guest_status_raises\<close>)

end
