(* ===== verification/Power_Total.thy ===== *)
theory Power_Total
  imports Power_Safety
begin

text \<open>
  The worker always comes back: the loops are bounded by the settings, the polling loop by the
  attempts recorded on the task, so the fuel of the model is never used up.
\<close>

definition attempts_in :: "uuid \<Rightarrow> 'w rs \<Rightarrow> int option" where
  "attempts_in j s = map_option pt_poll_attempts (get_row pt_id (pve_tasks (rs_db s)) j)"

abbreviation returns :: "('w, 'a) rm \<Rightarrow> 'w rs \<Rightarrow> bool" where
  "returns m s \<equiv> wp m (\<lambda>_ _. True) (\<lambda>e _. integrity_only e) s"

lemma returnsI: "raises_only integrity_only m \<Longrightarrow> returns m s"
  by (simp add: raises_only_def)

lemma finish_returns: "returns (finish P op actor st retry err upid) s"
  by (rule returnsI[OF finish_raises])

lemma finish_from_error_returns: "returns (finish_from_error P op actor e sub upid) s"
  by (rule returnsI[OF finish_from_error_raises])

lemma get_task_put:
  "(\<And>x. pt_id (f x) = pt_id x) \<Longrightarrow>
   get_row pt_id (pve_tasks (put_task j f d)) k =
     (if j = k then map_option f (get_row pt_id (pve_tasks d) k) else get_row pt_id (pve_tasks d) k)"
  "get_row pt_id (pve_tasks (put_op i g d)) k = get_row pt_id (pve_tasks d) k"
  by (simp_all add: put_task_def put_op_def get_modify_row)

lemma pause_returns:
  "(\<And>s'. attempts_in j s' = attempts_in j s \<Longrightarrow> returns again s') \<Longrightarrow> returns (thenM (pause P) again) s"
  by (auto simp: pause_def wp_rules attempts_in_def)

lemma poll_turn_returns:
  assumes "api_safe api" "power_action_of (op_action op) \<noteq> None" "attempts_in (pt_id t) s = Some k"
    and again: "\<And>s'. attempts_in (pt_id t) s' = Some (k + 1) \<Longrightarrow> returns again s'"
  shows "returns (poll_turn P op actor w t api again) s"
proof -
  obtain now w1 where now: "re_now (pe_env P) (rs_world s) = (now, w1)" by fastforce
  let ?s1 = "s\<lparr>rs_world := w1, rs_db := put_op (op_id op) (\<lambda>x. x\<lparr>op_heartbeat_at := Some now\<rparr>)
      (put_task (pt_id t) (\<lambda>x. x\<lparr>pt_poll_attempts := pt_poll_attempts x + 1, pt_last_polled_at := Some now\<rparr>) (rs_db s))\<rparr>"
  have k1: "attempts_in (pt_id t) ?s1 = Some (k + 1)"
    using assms(3) by (auto simp: attempts_in_def get_task_put)
  obtain r w2 where call: "get_task_status api (pt_pve_node t) (pt_upid t) w1 = (r, w2)" by fastforce
  have app: "r = Inl e \<Longrightarrow> is_app e" for e
    using assms(1) call by (auto simp: api_safe_def app_only_def) (metis fst_conv sum.case(1))
  have again': "returns (thenM (pause P) again) (?s1\<lparr>rs_world := w2, rs_calls := cs\<rparr>)" for cs
    by (rule pause_returns[of "pt_id t"], rule again) (use k1 in \<open>simp add: attempts_in_def\<close>)
  show ?thesis
    using again' app finish_returns finish_from_error_returns
      returnsI[OF task_stopped_raises[OF assms(1,2)]]
    by (cases r) (auto simp: poll_turn_def call_task_status_def wp_rules now call Let_def is_app_def
        split: exn.splits)
qed

lemma poll_loop_returns:
  assumes "api_safe api" "power_action_of (op_action op) \<noteq> None"
  shows "attempts_in (pt_id t) s = Some k \<Longrightarrow> nat (pve_task_max_poll_attempts (pe_settings P) - k) \<le> fuel \<Longrightarrow>
    returns (poll_loop fuel P op actor w t api deadline) s"
proof (induction fuel arbitrary: s k)
  case 0
  obtain now w1 where "re_now (pe_env P) (rs_world s) = (now, w1)" by fastforce
  moreover obtain x where "get_row pt_id (pve_tasks (rs_db s)) (pt_id t) = Some x" "pt_poll_attempts x = k"
    using 0 by (auto simp: attempts_in_def)
  ultimately show ?case
    using 0(2) finish_returns
    by (subst poll_loop.simps) (auto simp: wp_rules read_attempts_def)
next
  case (Suc n)
  obtain now w1 where now: "re_now (pe_env P) (rs_world s) = (now, w1)" by fastforce
  moreover obtain x where x: "get_row pt_id (pve_tasks (rs_db s)) (pt_id t) = Some x" "pt_poll_attempts x = k"
    using Suc.prems by (auto simp: attempts_in_def)
  moreover have "returns (poll_turn P op actor w t api (poll_loop n P op actor w t api deadline))
      (s\<lparr>rs_world := w1\<rparr>)"
    by (rule poll_turn_returns[OF assms, where k = k])
      (use x Suc in \<open>auto simp: attempts_in_def\<close>)
  ultimately show ?case
    using finish_returns
    by (subst poll_loop.simps) (auto simp: wp_rules read_attempts_def)
qed

lemma poll_returns:
  assumes "api_safe api" "power_action_of (op_action op) \<noteq> None" "attempts_in (pt_id t) s = Some k"
  shows "returns (poll P op actor w t api) s"
proof -
  obtain now w1 where now: "re_now (pe_env P) (rs_world s) = (now, w1)" by fastforce
  obtain x where x: "get_row pt_id (pve_tasks (rs_db s)) (pt_id t) = Some x" "pt_poll_attempts x = k"
    using assms(3) by (auto simp: attempts_in_def)
  have "attempts_in (pt_id t) (s\<lparr>rs_world := w1\<rparr>) = Some k" using assms(3) by (simp add: attempts_in_def)
  from poll_loop_returns[OF assms(1,2) this order_refl, of P actor w] now x show ?thesis
    by (simp add: poll_def wp_rules read_attempts_def)
qed

section \<open>Power actions\<close>

lemma submittable_action: "submittable k a \<Longrightarrow> power_action_of a \<noteq> None"
  by (simp add: submittable_def)

lemma submit_and_poll_raises:
  assumes "api_safe api" "submittable (wl_kind w) (op_action op)"
  shows "raises_only integrity_only (submit_and_poll P op actor w api action)"
proof -
  have poll: "raises_only integrity_only (thenM (writeM (\<lambda>d. put_op (op_id op) f (add_task t d)))
      (thenM commitM (poll P op actor w t api)))" for f t
  proof -
    have "returns (poll P op actor w t api) s'"
      if db: "rs_db s' = put_op (op_id op) f (add_task t d)" for s' :: "'a rs" and d
    proof -
      obtain k where "attempts_in (pt_id t) s' = Some k"
        using db by (cases "get_row pt_id (pve_tasks d) (pt_id t)")
          (auto simp: attempts_in_def get_task_put add_task_def table_simps)
      then show ?thesis by (rule poll_returns[OF assms(1) submittable_action[OF assms(2)]])
    qed
    then show ?thesis by (auto simp: raises_only_def wp_rules)
  qed
  show ?thesis
    unfolding submit_and_poll_def Let_def
    by (intro raises_only_bind submit_raises assms)
      (auto split: option.splits intro!: raises_rules(1-7,10) poll)
qed

lemma no_op_result_app: "no_op_result a st = Inl e \<Longrightarrow> is_app e"
  by (auto simp: no_op_result_def Let_def is_app_def split: if_splits)

lemma start_action_raises:
  assumes "api_safe api" "submittable (wl_kind w) (op_action op)"
  shows "raises_only integrity_only (start_action P op actor w api action recovering)"
  unfolding start_action_def
  by (intro raises_only_bind safe_guest_status_raises assms)
    (auto split: option.splits sum.splits exn.splits dest!: no_op_result_app
      intro!: raises_rules finish_raises finish_from_error_raises submit_and_poll_raises assms
      simp: is_app_def)

lemma run_action_returns:
  assumes "env_safe P" "submittable (wl_kind w) (op_action op)"
  shows "returns (run_action P op actor w) s"
proof -
  obtain now w1 where now: "re_now (pe_env P) (rs_world s) = (now, w1)" by fastforce
  have safe: "api_safe (open_client P w d)" for d by (rule open_client_safe[OF assms(1)])
  have poll: "returns (poll P op actor w t (open_client P w d)) s'"
    if "find_task (rs_db s) (op_id op) = Some t" "pve_tasks (rs_db s') = pve_tasks (rs_db s)" for t d s'
  proof -
    have "t \<in> set (pve_tasks (rs_db s'))" using that by (auto simp: find_task_def dest: find_Some_mem)
    then obtain k where "attempts_in (pt_id t) s' = Some k"
      by (cases "get_row pt_id (pve_tasks (rs_db s')) (pt_id t)") (auto simp: attempts_in_def get_row_None)
    then show ?thesis by (rule poll_returns[OF safe submittable_action[OF assms(2)]])
  qed
  show ?thesis
    using submittable_action[OF assms(2)] poll returnsI[OF start_action_raises[OF safe assms(2)]]
    by (auto simp: run_action_def wp_rules now Let_def put_op_def split: option.splits)
qed

section \<open>Administrative actions\<close>

lemma resizable_disk_app: "resizable_disk k c = Inl e \<Longrightarrow> is_app e"
  by (auto simp: resizable_disk_def is_app_def split: if_splits list.splits)

lemma raises_only_lift: "(\<And>e. r = Inl e \<Longrightarrow> X e) \<Longrightarrow> raises_only X (liftM r)"
  by (cases r) (auto simp: raises_only_def wp_rules)

lemma is_app_App [simp]: "is_app (App e)"
  by (simp add: is_app_def)

lemma api_safe_calls:
  assumes "api_safe api"
  shows "app_only (get_task_status api n u)"
    "app_only (get_guest_status api k n v)" "app_only (get_guest_config api k n v)"
    "app_only (configure_guest api k n v c m)" "app_only (resize_guest_disk api k n v q b)"
    "app_only (delete_guest api k n v)"
  using assms by (simp_all add: api_safe_def)

lemma apply_spec_raises: "api_safe api \<Longrightarrow> raises_only app_or_integrity (apply_spec P op w api)"
  unfolding apply_spec_def
  by (auto split: option.splits
      intro!: raises_rules raises_only_call api_safe_calls raises_only_lift dest: resizable_disk_app)

lemma poll_delete_raises: "api_safe api \<Longrightarrow> raises_only app_or_integrity (poll_delete n P op actor w t api)"
  by (induction n)
    (auto simp: call_task_status_def pause_def
      intro!: raises_rules raises_only_call api_safe_calls raises_only_mono[OF finish_raises])

lemma run_admin_raises: "env_safe P \<Longrightarrow> returns (run_admin_action P op) s"
proof -
  assume "env_safe P"
  note safe = open_client_safe[OF this]
  have "raises_only integrity_only (catch_app
      (if op_action op = admin_vm_action_value UPDATE_SPEC
       then thenM (apply_spec P op w api) (finish P op actor Op_SUCCEEDED False None None)
       else delete_vm P op actor w api)
      (\<lambda>e. finish_from_error P op actor e False None))" if "api_safe api" for w actor api
    unfolding delete_vm_def Let_def call_guest_status_def
    by (intro raises_only_catch finish_from_error_raises)
      (use that in \<open>auto intro!: raises_rules raises_only_call api_safe_calls apply_spec_raises
        poll_delete_raises raises_only_mono[OF finish_raises]\<close>)
  from returnsI[OF this[OF safe]] finish_returns show ?thesis
    by (auto simp: run_admin_action_def wp_rules split: option.splits prod.splits)
qed

lemma run_returns:
  assumes "env_safe P" "\<And>op. get_op (rs_db s) i = Some op \<Longrightarrow>
    power_action_of (op_action op) \<noteq> None \<or> is_admin_action (op_action op)"
  shows "returns (run P i) s"
  using assms run_admin_raises[OF assms(1)] run_action_returns[OF assms(1)] finish_returns
  by (auto simp: run_def wp_rules runnable_def submittable_def split: option.splits)

end
