(* ===== verification/Power_Frame.thy ===== *)
theory Power_Frame
  imports Power_Total
begin

text \<open>
  What a run of the power worker leaves alone.  The locale \<open>power_run_invariant\<close> states what a
  predicate on the run's state needs in order to survive every step of the code; its lemma carries
  it through \<open>run\<close>.  It is interpreted on the frame (which rows a run may write), and on the
  integrity of what is committed.
\<close>

section \<open>The frame\<close>

definition op_frame :: "uuid \<Rightarrow> uuid \<Rightarrow> db \<Rightarrow> db \<Rightarrow> bool" where
  "op_frame i w d d' \<longleftrightarrow>
     d'\<lparr>operations := [], pve_tasks := [], workloads := [], audit_logs := []\<rparr> =
       d\<lparr>operations := [], pve_tasks := [], workloads := [], audit_logs := []\<rparr> \<and>
     map op_id (operations d') = map op_id (operations d) \<and>
     map wl_id (workloads d') = map wl_id (workloads d) \<and>
     (\<forall>k. k \<noteq> i \<longrightarrow> get_op d' k = get_op d k) \<and> (\<forall>k. k \<noteq> w \<longrightarrow> get_wl d' k = get_wl d k) \<and>
     (\<exists>evs. audit_logs d' = audit_logs d @ map (\<lambda>(c, e). audit_row c e) evs)"

lemma op_frame_refl: "op_frame i w d d"
  by (auto simp: op_frame_def intro: exI[of _ "[]"])

lemma op_frame_trans: "op_frame i w d d' \<Longrightarrow> op_frame i w d' d'' \<Longrightarrow> op_frame i w d d''"
  unfolding op_frame_def by (elim conjE exE, intro conjI) (simp_all, metis append.assoc map_append)

lemma op_frame_put_op:
  assumes "\<And>x. op_id (f x) = op_id x"
  shows "op_frame i w d (put_op i f d)"
  using assms by (auto simp: op_frame_def put_op_def get_modify_row intro: exI[of _ "[]"])

lemma op_frame_put_wl:
  assumes "\<And>x. wl_id (f x) = wl_id x"
  shows "op_frame i w d (put_wl w f d)"
  using assms by (auto simp: op_frame_def put_wl_def get_modify_row intro: exI[of _ "[]"])

lemma op_frame_task:
  "op_frame i w d (put_task j f d)" "op_frame i w d (add_task t d)"
  by (auto simp: op_frame_def put_task_def add_task_def intro: exI[of _ "[]"])

lemma op_frame_audit: "op_frame i w d (add_audit_event c e d)"
  by (auto simp: op_frame_def add_audit_event_def intro: exI[of _ "[(c, e)]"])

lemmas op_frame_rules = op_frame_trans[OF op_frame_put_op] op_frame_trans[OF op_frame_put_wl]
  op_frame_trans[OF op_frame_task(1)] op_frame_trans[OF op_frame_task(2)] op_frame_trans[OF op_frame_audit]

section \<open>Invariants of a run\<close>

locale power_run_invariant =
  fixes I :: "uuid \<Rightarrow> uuid \<Rightarrow> 'w rs \<Rightarrow> bool"
  assumes k_write: "(\<And>d. op_frame i w d (f d)) \<Longrightarrow> keeps (I i w) (writeM f)"
    and now: "keeps (I i w) (nowM V)" and uuid4: "keeps (I i w) (uuid4M V)"
    and sleep: "keeps (I i w) (sleepM V t)" and commit: "keeps (I i w) commitM"
    and rollback: "keeps (I i w) rollbackM"
    and call_unit: "keeps (I i w) (callM nm args (g :: 'w \<Rightarrow> unit result \<times> 'w))"
    and call_string: "keeps (I i w) (callM nm args (h :: 'w \<Rightarrow> string result \<times> 'w))"
    and call_dict: "keeps (I i w) (callM nm args (k :: 'w \<Rightarrow> dict result \<times> 'w))"
begin

lemmas basic = now uuid4 sleep commit rollback call_unit call_string call_dict keeps_returnM keeps_raiseM
  keeps_readM keeps_liftM keeps_bindM keeps_thenM keeps_catch_app keeps_if keeps_case_option

lemma calls:
  "keeps (I i w) (call_guest_status api x)" "keeps (I i w) (call_submit api x act)"
  "keeps (I i w) (call_task_status api node upid)" "keeps (I i w) (pause P)"
  "keeps (I i w) (read_attempts j)"
  by (simp_all add: call_guest_status_def call_submit_def call_task_status_def pause_def read_attempts_def basic)

lemma keeps_finish: "op_id op = i \<Longrightarrow> keeps (I i w) (finish P op actor st retry err upid)"
  unfolding finish_def
  by (intro basic k_write) (auto intro!: op_frame_trans[OF op_frame_put_op op_frame_audit])

lemma keeps_finish_from_error: "op_id op = i \<Longrightarrow> keeps (I i w) (finish_from_error P op actor e sub upid)"
  unfolding finish_from_error_def Let_def by (rule keeps_finish)

lemma keeps_safe_guest_status: "op_id op = i \<Longrightarrow> keeps (I i w) (safe_guest_status P op actor x api)"
  unfolding safe_guest_status_def by (intro basic calls keeps_finish_from_error)

lemma keeps_submit: "op_id op = i \<Longrightarrow> keeps (I i w) (submit P op actor x api)"
proof -
  assume "op_id op = i"
  then have "keeps (I i w) (submit_loop n attempt P op actor x api)" for n attempt
    by (induction n arbitrary: attempt) (auto intro!: basic calls keeps_finish_from_error)
  then show ?thesis by (simp add: submit_def)
qed

lemma keeps_task_stopped:
  "op_id op = i \<Longrightarrow> wl_id x = w \<Longrightarrow> keeps (I i w) (task_stopped P op actor x t api status)"
  unfolding task_stopped_def Let_def
  by (intro basic k_write op_frame_task keeps_finish keeps_safe_guest_status)
    (auto intro!: op_frame_put_op op_frame_put_wl)

lemma keeps_poll_turn:
  assumes "op_id op = i" "wl_id x = w" "keeps (I i w) again"
  shows "keeps (I i w) (poll_turn P op actor x t api again)"
  unfolding poll_turn_def
  by (intro basic calls k_write)
    (use assms in \<open>auto split: sum.splits simp: Let_def intro!: basic calls k_write op_frame_task
      keeps_finish keeps_finish_from_error keeps_task_stopped
      op_frame_trans[OF op_frame_task(1) op_frame_put_op]\<close>)

lemma keeps_poll:
  assumes "op_id op = i" "wl_id x = w"
  shows "keeps (I i w) (poll P op actor x t api)"
proof -
  have "keeps (I i w) (poll_loop fuel P op actor x t api deadline)" for fuel deadline
  proof (induction fuel)
    case 0
    show ?case
      by (subst poll_loop.simps) (use assms in \<open>auto intro!: basic calls k_write op_frame_task keeps_finish\<close>)
  next
    case (Suc n)
    then show ?case
      by (subst poll_loop.simps)
        (use assms in \<open>auto intro!: basic calls k_write op_frame_task keeps_finish keeps_poll_turn\<close>)
  qed
  then show ?thesis unfolding poll_def by (intro basic calls)
qed

lemma keeps_poll_delete:
  "op_id op = i \<Longrightarrow> wl_id x = w \<Longrightarrow> keeps (I i w) (poll_delete n P op actor x t api)"
  by (induction n)
    (auto intro!: basic calls k_write op_frame_task keeps_finish
      op_frame_trans[OF op_frame_task(1) op_frame_trans[OF op_frame_put_wl op_frame_put_op]])

lemma keeps_start_action:
  assumes "op_id op = i" "wl_id x = w"
  shows "keeps (I i w) (start_action P op actor x api action recovering)"
proof -
  have "keeps (I i w) (submit_and_poll P op actor x api action)"
    unfolding submit_and_poll_def Let_def
    by (intro basic keeps_submit k_write keeps_poll)
      (use assms in \<open>auto intro!: op_frame_trans[OF op_frame_task(2) op_frame_put_op]\<close>)
  then show ?thesis
    unfolding start_action_def
    by (intro basic keeps_safe_guest_status)
      (use assms in \<open>auto split: sum.splits exn.splits option.splits intro!: basic k_write keeps_finish
        keeps_finish_from_error op_frame_trans[OF op_frame_put_wl op_frame_put_op]\<close>)
qed

lemma keeps_apply_spec:
  assumes "op_id op = i" "wl_id x = w"
  shows "keeps (I i w) (apply_spec P op x api)"
  unfolding apply_spec_def
  using assms by (auto split: option.splits intro!: basic k_write op_frame_put_wl
      op_frame_trans[OF op_frame_put_wl op_frame_put_op])

lemma keeps_run_action:
  assumes "op_id op = i" "wl_id x = w"
  shows "keeps (I i w) (run_action P op actor x)"
  unfolding run_action_def Let_def
  by (intro basic k_write keeps_poll keeps_start_action assms)
    (use assms in \<open>auto intro!: op_frame_put_op\<close>)

lemma keeps_admin:
  assumes "op_id op = i" "wl_id x = w"
  shows "keeps (I i w) (catch_app
    (if op_action op = admin_vm_action_value UPDATE_SPEC
     then thenM (apply_spec P op x api) (finish P op actor Op_SUCCEEDED False None None)
     else delete_vm P op actor x api)
    (\<lambda>e. finish_from_error P op actor e False None))"
  unfolding delete_vm_def Let_def
  by (intro basic calls k_write op_frame_task keeps_finish keeps_finish_from_error keeps_apply_spec
      keeps_poll_delete assms)

lemma wp_run:
  assumes "I i w s" "get_op (rs_db s) i = Some op" "op_workload_id op = w"
  shows "wp (run P i) (\<lambda>_. I i w) (\<lambda>_. I i w) s"
proof -
  have op: "op_id op = i" using get_row_Some[OF assms(2)] by simp
  have wl: "wl_id x = w" if "get_wl (rs_db s) (op_workload_id op) = Some x" for x
    using get_row_Some[OF that] assms(3) by simp
  have keeps: "wp m (\<lambda>_. I i w) (\<lambda>_. I i w) s" if "keeps (I i w) m" for m :: "('w, unit) rm"
    using that assms(1) by (simp add: keeps_def)
  have admin: "keeps (I i w)
      (bindM (nowM (pe_env P)) (\<lambda>now. bindM (nowM (pe_env P)) (\<lambda>beat.
          thenM (writeM (put_op (op_id op) (\<lambda>y. (claim_op now y)\<lparr>op_heartbeat_at := Some beat\<rparr>)))
          (thenM commitM
          (bindM (readM (open_client P x)) (\<lambda>api. catch_app
             (if op_action op = admin_vm_action_value UPDATE_SPEC
              then thenM (apply_spec P op x api) (finish P op actor Op_SUCCEEDED False None None)
              else delete_vm P op actor x api)
             (\<lambda>e. finish_from_error P op actor e False None)))))))"
    if "wl_id x = w" for x actor
    using op that by (intro basic k_write keeps_admin) (auto intro!: op_frame_put_op)
  have fin: "keeps (I i w) (finish P op actor st retry err upid)" for actor st retry err upid
    by (rule keeps_finish[OF op])
  have "wp (run_admin_action P op) (\<lambda>_. I i w) (\<lambda>_. I i w) s"
    unfolding run_admin_action_def wp_bindM wp_readM prod.case
    by (cases "get_wl (rs_db s) (op_workload_id op)") (auto intro!: keeps fin admin dest: wl simp del: admin_vm_action_value.simps)
  moreover have "wp (run_action P op actor x) (\<lambda>_. I i w) (\<lambda>_. I i w) s" if "wl_id x = w" for x actor
    by (rule keeps[OF keeps_run_action[OF op that]])
  ultimately show ?thesis
    using assms(1,2) keeps[OF fin] wl unfolding run_def wp_bindM wp_readM
    by (cases "get_wl (rs_db s) (op_workload_id op)") (auto simp: wp_returnM wp_bindM wp_readM)
qed

end

section \<open>Interpretations\<close>

interpretation frame: power_run_invariant "\<lambda>i w. live (op_frame i w d0)"
proof unfold_locales
  fix i w and f :: "db \<Rightarrow> db"
  assume "\<And>d. op_frame i w d (f d)"
  then show "keeps (live (op_frame i w d0)) (writeM f)"
    using op_frame_trans by (fastforce simp: keeps_def live_def wp_rules)
qed (auto simp: keeps_def live_def wp_rules neq_Nil_conv split: prod.splits sum.splits)

definition committed_ok :: "'w rs \<Rightarrow> bool" where
  "committed_ok s \<longleftrightarrow> list_all integrity (rs_commits s) \<and> rs_commits s \<noteq> []"

interpretation committed: power_run_invariant "\<lambda>_ _. committed_ok"
  by unfold_locales (auto simp: keeps_def committed_ok_def wp_rules split: prod.splits sum.splits)

text \<open>What is stored after a run, however it ended.\<close>

lemma run_stored:
  assumes "get_op d i = Some op" "integrity d" "run_power_operation P i d w0 = (r, s)"
  shows "op_frame i (op_workload_id op) d (stored s)" "integrity (stored s)"
proof -
  have start: "get_op (rs_db (start_run d w0)) i = Some op" using assms(1) by (simp add: start_run_def)
  have "live (op_frame i (op_workload_id op) d) (start_run d w0)" "committed_ok (start_run d w0)"
    using assms(2) by (simp_all add: live_def start_run_def op_frame_refl committed_ok_def)
  from frame.wp_run[OF this(1) start refl, of P] committed.wp_run[OF this(2) start refl, of P] assms(3)
  have "live (op_frame i (op_workload_id op) d) s \<and> committed_ok s"
    by (cases r) (auto simp: run_power_operation_def wp_def)
  then show "op_frame i (op_workload_id op) d (stored s)" "integrity (stored s)"
    by (auto simp: live_def committed_ok_def stored_def neq_Nil_conv)
qed

lemma run_other:
  assumes "op_terminal i d \<or> get_op d i = None"
  shows "stored (snd (run_power_operation P i d w0)) = d"
  using assms
  by (auto simp: run_power_operation_def run_def op_terminal_def bindM_def readM_def returnM_def
      start_run_def stored_def split: option.splits)

section \<open>Writes that cannot violate a constraint\<close>

lemma integrity_put_op:
  assumes "integrity d" "\<And>x. op_id (f x) = op_id x" "\<And>x. op_requested_by_id (f x) = op_requested_by_id x"
    "\<And>x. op_idempotency_key_hash (f x) = op_idempotency_key_hash x" "\<And>x. op_workload_id (f x) = op_workload_id x"
    "\<And>x. op_cluster_id (f x) = op_cluster_id x" "\<And>x. op_organization_id (f x) = op_organization_id x"
    "\<And>x. x \<in> set (operations d) \<Longrightarrow> op_id x = i \<Longrightarrow> active_status (op_status (f x)) \<Longrightarrow> active_status (op_status x)"
  shows "integrity (put_op i f d)"
  using assms
  by (auto simp: integrity_defs put_op_def operations_ok_def intro!: unique_on_modify_row)

lemma integrity_finish:
  "integrity d \<Longrightarrow> terminal_status st \<Longrightarrow> integrity (put_op i (finish_op t st retry err) d)"
  by (rule integrity_put_op) (auto simp: finish_op_def)

end
