(* ===== verification/Ipam_Invariant.thy ===== *)
theory Ipam_Invariant
  imports Ipam_Allocation
begin

text \<open>
  What IPAM keeps true between its tables, beyond what the database enforces: an address is in
  the state its only active allocation is in, lies in its pool (an active one unless the address
  is available), is never the network, broadcast
  or gateway address and is excluded only when disabled; the cursor and the gateway of a pool are inside it;
  active pools of a common scope do not overlap.  Every handler keeps it.
\<close>

section \<open>The invariant\<close>

fun expected_allocs :: "ip_address_state \<Rightarrow> ip_allocation_status list" where
  "expected_allocs Addr_AVAILABLE = []"
| "expected_allocs Addr_DISABLED = []"
| "expected_allocs Addr_RESERVED = [Alloc_RESERVED]"
| "expected_allocs Addr_ASSIGNED = [Alloc_ASSIGNED]"
| "expected_allocs Addr_QUARANTINED = [Alloc_QUARANTINED]"

definition active_on :: "uuid \<Rightarrow> ip_allocation list \<Rightarrow> ip_allocation_status list" where
  "active_on i ls =
     map alloc_status (filter (\<lambda>l. alloc_ip_address_id l = i \<and> active_allocation (alloc_status l)) ls)"

definition agree :: "ip_address list \<Rightarrow> ip_allocation list \<Rightarrow> bool" where
  "agree as ls \<longleftrightarrow> (\<forall>a \<in> set as. active_on (addr_id a) ls = expected_allocs (addr_state a))"

definition pool_wf :: "ip_pool \<Rightarrow> bool" where
  "pool_wf p \<longleftrightarrow> wf_network (pool_cidr p) \<and>
     0 \<le> pool_next_offset p \<and> pool_next_offset p < num_addresses (pool_cidr p) \<and>
     opt_all (\<lambda>g. in_network g (pool_cidr p)) (pool_gateway p)"

definition address_ok :: "ip_pool \<Rightarrow> address \<Rightarrow> bool" where
  "address_ok p a \<longleftrightarrow> wf_address a \<and> in_network a (pool_cidr p) \<and> \<not> special p (pool_cidr p) a"

definition addr_wf :: "db \<Rightarrow> ip_address \<Rightarrow> bool" where
  "addr_wf d a \<longleftrightarrow> (\<exists>p. get_pool_row d (addr_pool_id a) = Some p \<and> address_ok p (addr_address a) \<and>
       (addr_state a = Addr_AVAILABLE \<or> pool_is_active p)) \<and>
     (addr_state a \<noteq> Addr_DISABLED \<longrightarrow> \<not> is_excluded d (addr_pool_id a) (addr_address a))"

definition cursors_wf :: "db \<Rightarrow> bool" where
  "cursors_wf d \<longleftrightarrow> (\<forall>p \<in> set (ip_pools d). pool_next_offset p \<noteq> 0 \<longrightarrow>
     (\<exists>a \<in> set (ip_addresses d). addr_pool_id a = pool_id p))"

definition pools_disjoint :: "ip_pool list \<Rightarrow> bool" where
  "pools_disjoint ps \<longleftrightarrow> (\<forall>p \<in> set ps. \<forall>q \<in> set ps.
     pool_is_active p \<and> pool_is_active q \<and> pool_id p \<noteq> pool_id q \<and>
     same_scope (pool_cluster_id p) (pool_cluster_id q) \<longrightarrow> \<not> overlaps (pool_cidr p) (pool_cidr q))"

definition ipam_wf :: "db \<Rightarrow> bool" where
  "ipam_wf d \<longleftrightarrow> agree (ip_addresses d) (ip_allocations d) \<and> list_all pool_wf (ip_pools d) \<and>
     list_all (addr_wf d) (ip_addresses d) \<and> cursors_wf d \<and> pools_disjoint (ip_pools d)"

definition ipam_inv :: "db \<Rightarrow> bool" where
  "ipam_inv d \<longleftrightarrow> integrity d \<and> ipam_wf d"

lemma ipam_inv_empty: "ipam_inv empty_db"
  unfolding ipam_inv_def
  by (rule conjI[OF integrity_empty])
    (simp add: ipam_wf_def empty_db_def agree_def cursors_wf_def pools_disjoint_def)

section \<open>Addresses and allocations agree\<close>

lemma active_on_simps [simp]:
  "active_on i [] = []"
  "active_on i (l # ls) =
     (if alloc_ip_address_id l = i \<and> active_allocation (alloc_status l)
      then alloc_status l # active_on i ls else active_on i ls)"
  "active_on i (ls @ ls') = active_on i ls @ active_on i ls'"
  by (simp_all add: active_on_def)

lemma expected_allocs_length: "length (expected_allocs s) \<le> 1"
  by (cases s) simp_all

lemma modify_row_split:
  assumes "distinct (map key rows)" "r \<in> set rows"
  obtains xs ys where "rows = xs @ r # ys" "modify_row key (key r) f rows = xs @ f r # ys"
proof -
  obtain xs ys where rows: "rows = xs @ r # ys" using assms(2) by (meson split_list)
  with assms(1) have "key r \<notin> key ` set xs" "key r \<notin> key ` set ys" by auto
  then have "\<forall>x \<in> set xs. key x \<noteq> key r" "\<forall>x \<in> set ys. key x \<noteq> key r" by (metis imageI)+
  then have "map (\<lambda>x. if key x = key r then f x else x) xs = xs"
    "map (\<lambda>x. if key x = key r then f x else x) ys = ys"
    by (simp_all add: map_idI)
  then have "modify_row key (key r) f rows = xs @ f r # ys"
    by (simp add: modify_row_def rows)
  with rows that show ?thesis by blast
qed

lemma agree_modify_addr:
  assumes "distinct (map addr_id as)" "agree as ls" "a \<in> set as" "addr_id (g a) = addr_id a"
    and same: "\<And>x. x \<in> set as \<Longrightarrow> x \<noteq> a \<Longrightarrow> active_on (addr_id x) ls' = active_on (addr_id x) ls"
    and new: "active_on (addr_id a) ls' = expected_allocs (addr_state (g a))"
  shows "agree (modify_row addr_id (addr_id a) g as) ls'"
proof -
  have "addr_id x = addr_id a \<Longrightarrow> x = a" if "x \<in> set as" for x
    using assms(1,3) that by (auto simp: distinct_map inj_on_def)
  with assms show ?thesis by (fastforce simp: agree_def set_modify_row)
qed

text \<open>A new allocation of an address that had none.\<close>

lemma agree_add:
  assumes "distinct (map addr_id as)" "agree as ls" "a \<in> set as" "addr_id (g a) = addr_id a"
    "active_on (addr_id a) ls = []" "alloc_ip_address_id l = addr_id a"
    "active_allocation (alloc_status l)" "expected_allocs (addr_state (g a)) = [alloc_status l]"
  shows "agree (modify_row addr_id (addr_id a) g as) (ls @ [l])"
proof -
  have "x \<in> set as \<Longrightarrow> x \<noteq> a \<Longrightarrow> addr_id a \<noteq> addr_id x" for x
    using assms(1,3) by (auto simp: distinct_map inj_on_def)
  with assms show ?thesis by (intro agree_modify_addr) auto
qed

text \<open>The active allocation of an address moves to another status.\<close>

lemma agree_move:
  assumes as: "distinct (map addr_id as)" "agree as ls" "a \<in> set as" "addr_id (g a) = addr_id a"
    and ls: "distinct (map alloc_id ls)" "l \<in> set ls" "active_allocation (alloc_status l)"
      "alloc_ip_address_id l = addr_id a" "alloc_ip_address_id (f l) = addr_id a"
    and new: "expected_allocs (addr_state (g a)) =
      (if active_allocation (alloc_status (f l)) then [alloc_status (f l)] else [])"
  shows "agree (modify_row addr_id (addr_id a) g as) (modify_row alloc_id (alloc_id l) f ls)"
proof -
  obtain xs ys where rows: "ls = xs @ l # ys" "modify_row alloc_id (alloc_id l) f ls = xs @ f l # ys"
    using modify_row_split[OF ls(1,2)] by metis
  have "length (active_on (addr_id a) ls) \<le> 1"
    using as(2,3) expected_allocs_length by (simp add: agree_def)
  then have none: "active_on (addr_id a) xs = []" "active_on (addr_id a) ys = []"
    using ls by (auto simp: rows(1))
  have "x \<in> set as \<Longrightarrow> x \<noteq> a \<Longrightarrow> addr_id a \<noteq> addr_id x" for x
    using as(1,3) by (auto simp: distinct_map inj_on_def)
  then show ?thesis
    unfolding rows(2) using as none ls new by (intro agree_modify_addr[of as ls]) (auto simp: rows(1))
qed

lemma agree_new_addr:
  assumes "agree as ls" "\<forall>l \<in> set ls. alloc_ip_address_id l \<in> addr_id ` set as"
    "addr_id a \<notin> addr_id ` set as" "expected_allocs (addr_state a) = []"
  shows "agree (as @ [a]) ls"
proof -
  have "active_on (addr_id a) ls = []"
    using assms(2,3) unfolding active_on_def by (metis (mono_tags, lifting) filter_False list.map(1))
  with assms show ?thesis by (auto simp: agree_def)
qed

section \<open>Reading the invariant\<close>

lemma ipam_wfD:
  assumes "ipam_wf d"
  shows "agree (ip_addresses d) (ip_allocations d)"
    and "p \<in> set (ip_pools d) \<Longrightarrow> pool_wf p"
    and "a \<in> set (ip_addresses d) \<Longrightarrow> addr_wf d a"
    and "cursors_wf d" and "pools_disjoint (ip_pools d)"
  using assms by (auto simp: ipam_wf_def list_all_iff)

lemma ipam_invD:
  assumes "ipam_inv d"
  shows "integrity d" "ipam_wf d"
    "\<forall>l \<in> set (ip_allocations d). alloc_ip_address_id l \<in> addr_id ` set (ip_addresses d)"
    "\<forall>a \<in> set (ip_addresses d). addr_pool_id a \<in> pool_id ` set (ip_pools d)"
    "\<forall>e \<in> set (exclusions d). ex_pool_id e \<in> pool_id ` set (ip_pools d)"
  using assms by (auto simp: ipam_inv_def integrity_def ipam_fks_def fk_def list_all_iff)

lemma is_excluded_cong [simp]:
  "is_excluded (d\<lparr>ip_pools := x\<rparr>) i a = is_excluded d i a"
  "is_excluded (d\<lparr>ip_addresses := y\<rparr>) i a = is_excluded d i a"
  "is_excluded (d\<lparr>ip_allocations := z\<rparr>) i a = is_excluded d i a"
  "is_excluded (d\<lparr>audit_logs := w\<rparr>) i a = is_excluded d i a"
  by (simp_all add: is_excluded_def exclusion_bounds_def)

lemma addr_wf_frame [simp]:
  "addr_wf (d\<lparr>ip_addresses := y\<rparr>) = addr_wf d"
  "addr_wf (d\<lparr>ip_allocations := z\<rparr>) = addr_wf d"
  "addr_wf (d\<lparr>audit_logs := w\<rparr>) = addr_wf d"
  by (simp_all add: addr_wf_def fun_eq_iff)

lemma ipam_wf_audit [simp]:
  "ipam_wf (add_audit_event c e d) = ipam_wf d"
  "ipam_inv (add_audit_event c e d) = ipam_inv d"
  "ipam_wf (audit_pool_event sv act tt ti p d) = ipam_wf d"
  "ipam_inv (audit_pool_event sv act tt ti p d) = ipam_inv d"
  by (simp_all add: ipam_inv_def ipam_wf_def cursors_wf_def audit_pool_event_def add_audit_event_def)

text \<open>Writing an address row: what has to hold of the written row.\<close>

lemma ipam_wf_addr:
  assumes "ipam_wf d" "agree (modify_row addr_id i g (ip_addresses d)) ls"
    and "\<And>x. addr_pool_id (g x) = addr_pool_id x" "\<And>x. addr_address (g x) = addr_address x"
    and "\<And>x. x \<in> set (ip_addresses d) \<Longrightarrow> addr_id x = i \<Longrightarrow>
      addr_state (g x) \<noteq> Addr_DISABLED \<Longrightarrow> addr_state x \<noteq> Addr_DISABLED"
    and "\<And>x. x \<in> set (ip_addresses d) \<Longrightarrow> addr_id x = i \<Longrightarrow> addr_state (g x) \<noteq> Addr_AVAILABLE \<Longrightarrow>
      addr_state x \<noteq> Addr_AVAILABLE \<or> (\<exists>p. get_pool_row d (addr_pool_id x) = Some p \<and> pool_is_active p)"
  shows "ipam_wf (d\<lparr>ip_addresses := modify_row addr_id i g (ip_addresses d), ip_allocations := ls\<rparr>)"
proof -
  let ?as = "modify_row addr_id i g (ip_addresses d)"
  have "addr_wf d y" if "y \<in> set ?as" for y
    using that assms(3-6) ipam_wfD(3)[OF assms(1)]
    by (fastforce simp: set_modify_row addr_wf_def split: if_splits)
  moreover have "addr_pool_id ` set ?as = addr_pool_id ` set (ip_addresses d)"
    by (simp add: assms(3))
  then have "cursors_wf (d\<lparr>ip_addresses := ?as, ip_allocations := ls\<rparr>)"
    using ipam_wfD(4)[OF assms(1)] unfolding cursors_wf_def by (simp, metis imageE imageI)
  ultimately show ?thesis using assms(1,2) by (simp add: ipam_wf_def list_all_iff)
qed

section \<open>Candidates\<close>

lemma choose_offset_Some:
  assumes "pool_wf p" "choose_offset p blocked draws = Some x"
  shows "0 \<le> x \<and> x < num_addresses (pool_cidr p) \<and> \<not> covered blocked x"
proof -
  let ?sz = "num_addresses (pool_cidr p)"
  consider "random_offset ?sz blocked draws = Some x"
    | "first_free_offset ?sz (pool_next_offset p) blocked = Some x"
    using assms(2) by (auto simp: choose_offset_def Let_def split: option.splits if_splits)
  then show ?thesis
  proof cases
    case 1
    then show ?thesis by (auto simp: random_offset_def dest!: find_Some_mem)
  next
    case 2
    with assms(1) first_free_offset_Some[of "pool_next_offset p" ?sz blocked x]
    show ?thesis by (simp add: pool_wf_def)
  qed
qed

lemma covered_map: "covered (map f rs) x \<longleftrightarrow> (\<exists>r \<in> set rs. fst (f r) \<le> x \<and> x \<le> snd (f r))"
  by (auto simp: covered_def case_prod_unfold)

lemma covered_blocked_offsets:
  "covered (blocked_offsets d p) x \<longleftrightarrow>
     (let n = pool_cidr p; base = network_address n; sz = num_addresses n in
      (\<exists>r \<in> set (exclusion_bounds d (pool_id p)).
         max 0 (fst r - base) \<le> x \<and> x \<le> min (sz - 1) (snd r - base)) \<or>
      (\<exists>a \<in> set (ip_addresses d). addr_pool_id a = pool_id p \<and> address_int (addr_address a) = base + x) \<or>
      x = 0 \<or> network_version n = V4 \<and> x = sz - 1 \<or>
      (\<exists>g. pool_gateway p = Some g \<and> address_int g = base + x))"
  by (auto simp: blocked_offsets_def Let_def covered_map case_prod_unfold split: option.splits)

text \<open>A chosen offset is an address the pool may hand out.\<close>

lemma free_offset_address:
  assumes "pool_wf p" "0 \<le> x" "x < num_addresses (pool_cidr p)" "\<not> covered (blocked_offsets d p) x"
  defines "a \<equiv> Address (network_version (pool_cidr p)) (network_address (pool_cidr p) + x)"
  shows "address_ok p a" "\<not> is_excluded d (pool_id p) a"
    "\<forall>r \<in> set (ip_addresses d). addr_pool_id r = pool_id p \<longrightarrow> addr_address r \<noteq> a"
proof -
  let ?n = "pool_cidr p"
  have n: "wf_network ?n" using assms(1) by (simp add: pool_wf_def)
  then have "wf_address a" "in_network a ?n"
    using assms(2,3) wf_network_top[OF n] in_network_iff[OF n, of a]
    by (auto simp: a_def wf_address_def wf_network_def)
  moreover have "\<not> special p ?n a"
    using assms(2-4) broadcast_address_eq[OF n]
    by (auto simp: special_def a_def covered_blocked_offsets Let_def)
  ultimately show "address_ok p a" by (simp add: address_ok_def)
  have "\<not> (max 0 (fst r - network_address ?n) \<le> x \<and>
      x \<le> min (num_addresses ?n - 1) (snd r - network_address ?n))"
    if "r \<in> set (exclusion_bounds d (pool_id p))" for r
    using that assms(4) by (auto simp: covered_blocked_offsets Let_def)
  then have "\<not> (fst r \<le> address_int a \<and> address_int a \<le> snd r)"
    if "r \<in> set (exclusion_bounds d (pool_id p))" for r
    using that assms(2,3) by (fastforce simp: a_def)
  then show "\<not> is_excluded d (pool_id p) a"
    by (auto simp: is_excluded_def covered_def)
  show "\<forall>r \<in> set (ip_addresses d). addr_pool_id r = pool_id p \<longrightarrow> addr_address r \<noteq> a"
    using assms(4) by (auto simp: a_def covered_blocked_offsets Let_def)
qed

lemma lowest_available_Some:
  assumes "lowest_available d p = Some a"
  shows "a \<in> set (ip_addresses d)" "addr_pool_id a = pool_id p" "addr_state a = Addr_AVAILABLE"
proof -
  let ?q = "filter (\<lambda>a. addr_pool_id a = pool_id p \<and> addr_state a = Addr_AVAILABLE) (ip_addresses d)"
  obtain xs where "sort_key (\<lambda>a. address_int (addr_address a)) ?q = a # xs"
    using assms by (auto simp: lowest_available_def split: list.splits)
  then have "a \<in> set ?q" by (metis list.set_intros(1) set_sort)
  then show "a \<in> set (ip_addresses d)" "addr_pool_id a = pool_id p" "addr_state a = Addr_AVAILABLE"
    by auto
qed

lemma ipam_wf_add_addr:
  assumes "ipam_inv d" "get_pool_row d (addr_pool_id a) = Some p" "address_ok p (addr_address a)"
    "addr_state a = Addr_DISABLED \<and> pool_is_active p \<or> addr_state a = Addr_AVAILABLE \<and>
       \<not> is_excluded d (addr_pool_id a) (addr_address a)"
    "distinct (map addr_id (ip_addresses d @ [a]))"
  shows "ipam_wf (add_addr a d)"
proof -
  have "agree (ip_addresses d @ [a]) (ip_allocations d)"
    using assms(1,4,5) ipam_invD(3)[OF assms(1)] ipam_wfD(1)[OF ipam_invD(2)[OF assms(1)]]
    by (intro agree_new_addr) auto
  moreover have "addr_wf d a" using assms(2-4) by (auto simp: addr_wf_def)
  ultimately show ?thesis
    using ipam_invD(2)[OF assms(1)] by (auto simp: ipam_wf_def add_addr_def cursors_wf_def)
qed

text \<open>Moving the cursor of a pool while one of its addresses exists.\<close>

lemma ipam_wf_cursor:
  assumes "ipam_wf d" "distinct (map pool_id (ip_pools d))" "get_pool_row d i = Some p"
    "0 \<le> k" "k < num_addresses (pool_cidr p)" "\<exists>a \<in> set (ip_addresses d). addr_pool_id a = i"
  shows "ipam_wf (put_pool i (\<lambda>q. q\<lparr>pool_next_offset := k\<rparr>) d)"
proof -
  let ?f = "\<lambda>q. q\<lparr>pool_next_offset := k\<rparr>"
  let ?d = "put_pool i ?f d"
  have only: "q = p" if "q \<in> set (ip_pools d)" "pool_id q = i" for q
    using that assms(2,3) get_row_Some[OF assms(3)] by (auto simp: distinct_map inj_on_def)
  have "addr_wf ?d = addr_wf d"
    by (rule ext, cases "get_pool_row d i")
      (auto simp: addr_wf_def put_pool_def get_modify_row address_ok_def special_def)
  moreover have "pool_wf q" if "q \<in> set (ip_pools ?d)" for q
    using that assms(4,5) only ipam_wfD(2)[OF assms(1)]
    by (auto simp: put_pool_def set_modify_row pool_wf_def)
  moreover have "cursors_wf ?d"
    using ipam_wfD(4)[OF assms(1)] assms(6)
    by (auto simp: cursors_wf_def put_pool_def set_modify_row)
  moreover have "pools_disjoint (ip_pools ?d)"
    using ipam_wfD(5)[OF assms(1)] by (auto simp: pools_disjoint_def put_pool_def set_modify_row)
  ultimately show ?thesis
    using assms(1) by (auto simp: ipam_wf_def list_all_iff put_pool_def)
qed

end
