(* ===== verification/Ipam_Steps.thy ===== *)
theory Ipam_Steps
  imports Ipam_Invariant
begin

text \<open>Every handler of \<open>IpamService\<close> keeps the invariant of the theory \<open>Ipam_Invariant\<close>.\<close>

section \<open>What the guards give\<close>

lemma locked_pool_Inr [result_simps]:
  "locked_pool d i = Inr p \<longleftrightarrow> get_pool_row d i = Some p \<and> pool_is_active p"
  by (auto simp: locked_pool_def split: option.splits)

lemma validated_candidate_Inr [result_simps]:
  "validated_candidate p a False = Inr b \<longleftrightarrow>
     b = a \<and> in_network a (pool_cidr p) \<and> \<not> special p (pool_cidr p) a"
  by (auto simp: validated_candidate_def in_network_def)

lemma ipam_init_Inr [result_simps]:
  "ipam_init sv = Inr u \<longleftrightarrow> prin_role (sv_principal sv) = SUPER_ADMIN"
  by (simp add: ipam_init_def result_simps)

lemma find_addr_Some:
  "find_addr d i a = Some x \<Longrightarrow> x \<in> set (ip_addresses d) \<and> addr_pool_id x = i \<and> addr_address x = a"
  by (auto simp: find_addr_def dest: find_Some_mem)

lemma available_row_simps [simp]:
  "addr_id (available_row u i a) = u" "addr_pool_id (available_row u i a) = i"
  "addr_address (available_row u i a) = a" "addr_state (available_row u i a) = Addr_AVAILABLE"
  by (simp_all add: available_row_def)

lemma get_pool_rowD: "get_pool_row d i = Some p \<Longrightarrow> pool_id p = i \<and> p \<in> set (ip_pools d)"
  using get_row_Some by metis

text \<open>How a candidate comes about: a stored row, or a new one.\<close>

lemma candidate_requested:
  assumes "candidate_address fresh draws p (Some r) d = Inr (a, d1)"
  shows "in_network r (pool_cidr p) \<and> \<not> special p (pool_cidr p) r \<and> \<not> is_excluded d (pool_id p) r \<and>
    (find_addr d (pool_id p) r = Some a \<and> d1 = d \<or>
     a = available_row (fresh 0) (pool_id p) r \<and> d1 = add_addr a d)"
  using assms
  by (cases "validated_candidate p r False")
    (auto simp: candidate_address_def result_simps Let_def split: option.splits if_splits)

lemma candidate_automatic:
  assumes "candidate_address fresh draws p None d = Inr (a, d1)"
  shows "lowest_available d p = Some a \<and> d1 = d \<or>
    (\<exists>x. choose_offset p (blocked_offsets d p) draws = Some x \<and>
      a = available_row (fresh 0) (pool_id p)
         (Address (network_version (pool_cidr p)) (network_address (pool_cidr p) + x)) \<and>
      d1 = add_addr a (put_pool (pool_id p)
         (\<lambda>q. q\<lparr>pool_next_offset := (x + 1) mod num_addresses (pool_cidr p)\<rparr>) d))"
  using assms
  by (auto simp: candidate_address_def automatic_candidate_def Let_def split: option.splits)

lemma candidate_cases:
  assumes "candidate_address fresh draws p requested d = Inr (a, d1)"
  obtains (stored) "d1 = d" "a \<in> set (ip_addresses d)" "addr_pool_id a = pool_id p"
  | (requested) r where "requested = Some r" "a = available_row (fresh 0) (pool_id p) r"
      "d1 = add_addr a d" "in_network r (pool_cidr p)" "\<not> special p (pool_cidr p) r"
      "\<not> is_excluded d (pool_id p) r"
  | (offset) x where "requested = None"
      "choose_offset p (blocked_offsets d p) draws = Some x"
      "a = available_row (fresh 0) (pool_id p)
         (Address (network_version (pool_cidr p)) (network_address (pool_cidr p) + x))"
      "d1 = add_addr a (put_pool (pool_id p)
         (\<lambda>q. q\<lparr>pool_next_offset := (x + 1) mod num_addresses (pool_cidr p)\<rparr>) d)"
proof (cases requested)
  case None
  with candidate_automatic[of fresh draws p d a d1] assms lowest_available_Some[of d p a] that(1,3)
  show ?thesis by blast
next
  case (Some r)
  with candidate_requested[of fresh draws p r d a d1] assms find_addr_Some[of d "pool_id p" r a] that(1,2)
  show ?thesis by blast
qed

lemma candidate_wf:
  assumes inv: "ipam_inv d" and p: "get_pool_row d (pool_id p) = Some p"
    and wf: "opt_all wf_address requested"
    and c: "candidate_address fresh draws p requested d = Inr (a, d1)"
    and ids: "distinct (map addr_id (ip_addresses d1))"
  shows "ipam_wf d1" "a \<in> set (ip_addresses d1)" "addr_pool_id a = pool_id p"
    "ip_allocations d1 = ip_allocations d"
proof -
  have goal: "ipam_wf d1 \<and> a \<in> set (ip_addresses d1) \<and> addr_pool_id a = pool_id p \<and>
      ip_allocations d1 = ip_allocations d"
    using c
  proof (cases rule: candidate_cases)
    case stored
    with inv show ?thesis by (simp add: ipam_inv_def)
  next
    case (requested r)
    have "ipam_wf (add_addr a d)"
      by (rule ipam_wf_add_addr[OF inv])
        (use requested p wf ids in \<open>auto simp: address_ok_def add_addr_def opt_all_def\<close>)
    with requested show ?thesis by (simp add: add_addr_def)
  next
    case (offset x)
    let ?n = "pool_cidr p" and ?k = "(x + 1) mod num_addresses (pool_cidr p)"
    have pw: "pool_wf p" using get_pool_rowD[OF p] ipam_wfD(2)[OF ipam_invD(2)[OF inv]] by auto
    note x = choose_offset_Some[OF pw offset(2)]
    note ok = free_offset_address[OF pw _ _ , of x d]
    have new: "ipam_wf (add_addr a d)"
      by (rule ipam_wf_add_addr[OF inv])
        (use offset p ids x ok in \<open>auto simp: add_addr_def put_pool_def\<close>)
    have "d1 = put_pool (pool_id p) (\<lambda>q. q\<lparr>pool_next_offset := ?k\<rparr>) (add_addr a d)"
      using offset(4) by (simp add: add_addr_def put_pool_def)
    moreover have "ipam_wf \<dots>"
      by (rule ipam_wf_cursor[OF new])
        (use p offset(3) integrity_distinct(1)[OF ipam_invD(1)[OF inv]] in \<open>auto simp: add_addr_def\<close>)
    ultimately show ?thesis using offset(3) by (simp add: add_addr_def put_pool_def)
  qed
  then show "ipam_wf d1" "a \<in> set (ip_addresses d1)" "addr_pool_id a = pool_id p"
    "ip_allocations d1 = ip_allocations d" by auto
qed

lemma candidate_pool:
  assumes "candidate_address fresh draws p requested d = Inr (a, d1)"
    "get_pool_row d (pool_id p) = Some p" "pool_is_active p"
  shows "\<exists>q. get_pool_row d1 (pool_id p) = Some q \<and> pool_is_active q"
  using assms(1) by (cases rule: candidate_cases)
    (use assms(2,3) in \<open>auto simp: add_addr_def put_pool_def get_modify_row\<close>)

section \<open>Allocations\<close>

lemma integrity_alloc_update:
  "distinct (map addr_id (ip_addresses d)) \<and> distinct (map alloc_id (ip_allocations d))"
  if "integrity d"
  using that integrity_distinct by blast

text \<open>Giving an available address to a new allocation.\<close>

lemma take_address_wf:
  assumes "ipam_inv d" "get_pool_row d (pool_id p) = Some p" "opt_all wf_address requested"
    "available_candidate fresh draws p requested d = Inr (a, d1)"
    "\<And>x. addr_id (g x) = addr_id x" "\<And>x. addr_pool_id (g x) = addr_pool_id x"
    "\<And>x. addr_address (g x) = addr_address x"
    "alloc_ip_address_id l = addr_id a" "active_allocation (alloc_status l)"
    "\<And>x. expected_allocs (addr_state (g x)) = [alloc_status l]"
    "distinct (map addr_id (ip_addresses (put_addr (addr_id a) g d1)))" "pool_is_active p"
  shows "ipam_wf (add_alloc l (put_addr (addr_id a) g d1))"
proof -
  have c: "candidate_address fresh draws p requested d = Inr (a, d1)" "addr_state a = Addr_AVAILABLE"
    using assms(4) by (auto simp: available_candidate_def result_simps unavailable_def split: if_splits)
  have ids: "distinct (map addr_id (ip_addresses d1))"
    using assms(11) by (simp add: put_addr_def assms(5))
  note w = candidate_wf[OF assms(1-3) c(1) ids]
  note ag = ipam_wfD(1)[OF w(1)]
  have "active_on (addr_id a) (ip_allocations d1) = []"
    using ag w(2) c(2) by (simp add: agree_def)
  then have "agree (modify_row addr_id (addr_id a) g (ip_addresses d1)) (ip_allocations d1 @ [l])"
    using assms(5,8-10) w(2) ag ids by (intro agree_add) auto
  moreover have "addr_state x \<noteq> Addr_DISABLED" if "x \<in> set (ip_addresses d1)" "addr_id x = addr_id a" for x
    using that ids w(2) c(2) by (auto simp: distinct_map inj_on_def)
  moreover have "\<exists>q. get_pool_row d1 (addr_pool_id x) = Some q \<and> pool_is_active q"
    if "x \<in> set (ip_addresses d1)" "addr_id x = addr_id a" for x
    using that ids w(2,3) candidate_pool[OF c(1) assms(2,12)] by (auto simp: distinct_map inj_on_def)
  ultimately show ?thesis
    using ipam_wf_addr[OF w(1), of "addr_id a" g "ip_allocations d1 @ [l]"] assms(6,7)
    by (simp add: add_alloc_def put_addr_def)
qed

text \<open>What a handler that took an address leaves behind.\<close>

lemma allocate_outcome:
  assumes "allocate sv fresh draws i w requested d = (r, d')" "d' \<noteq> d \<or> is_ok r"
  shows "\<exists>p wl a d1 e l. get_pool_row d i = Some p \<and> pool_is_active p \<and>
    present_workload d w = Inr wl \<and> available_candidate fresh draws p requested d = Inr (a, d1) \<and>
    l = workload_allocation sv (fresh 1) (addr_id a) (wl_id wl) (allocation_kind requested) \<and>
    d' = add_audit_event (sv_ctx sv) e (add_alloc l (put_addr (addr_id a) (mark_assigned (sv_now sv)) d1)) \<and>
    integrity d' \<and> r = allocation_response l (mark_assigned (sv_now sv) a) p"
proof -
  obtain p where p: "ipam_init sv = Inr ()" "locked_pool d i = Inr p"
    using assms by (auto simp: allocate_def try_in_def split: sum.splits)
  obtain wl where wl: "present_workload d w = Inr wl"
    "\<not> (pool_cluster_id p \<noteq> None \<and> pool_cluster_id p \<noteq> Some (wl_cluster_id wl))"
    using assms p by (auto simp: allocate_def try_in_def split: sum.splits if_splits)
  obtain a d1 where c: "available_candidate fresh draws p requested d = Inr (a, d1)"
    using assms p wl by (auto simp: allocate_def try_in_def split: sum.splits)
  have guards: "get_pool_row d i = Some p \<and> pool_is_active p" using p by (simp add: locked_pool_Inr)
  show ?thesis
    using assms guards unfolding allocate_def p wl(1) c try_in_simps if_not_P[OF wl(2)] Let_def commit_in_def
      prod.case
    by (intro exI[of _ p] exI[of _ wl] exI[of _ a] exI[of _ d1]) (auto simp: wl c split: if_splits)
qed

lemma reserve_for_provisioning_outcome:
  assumes "reserve_for_provisioning sv fresh draws i q requested d = (r, d')" "d' \<noteq> d"
  shows "\<exists>p a d1 l. get_pool_row d i = Some p \<and> pool_is_active p \<and>
    find_request_alloc d q [Alloc_RESERVED, Alloc_ASSIGNED] = None \<and>
    available_candidate fresh draws p requested d = Inr (a, d1) \<and>
    l = request_allocation sv (fresh 1) (addr_id a) q (allocation_kind requested) \<and>
    d' = add_alloc l (put_addr (addr_id a) (mark_reserved (sv_now sv)) d1) \<and>
    integrity d' \<and> r = Inr (mark_reserved (sv_now sv) a, l)"
  using assms
  by (auto simp: reserve_for_provisioning_def try_in_def commit_in_def Let_def locked_pool_Inr
      split: sum.splits if_splits prod.splits option.splits)

lemma allocate_inv:
  assumes "ipam_inv d" "opt_all wf_address requested"
    "allocate sv fresh draws i w requested d = (r, d')"
  shows "ipam_inv d'"
proof (cases "d' = d")
  case False
  from allocate_outcome[OF assms(3) disjI1[OF this]] obtain p a d1 e l and wl :: workload where
    p: "get_pool_row d i = Some p" "pool_is_active p"
    and c: "available_candidate fresh draws p requested d = Inr (a, d1)"
    and l: "l = workload_allocation sv (fresh 1) (addr_id a) (wl_id wl) (allocation_kind requested)"
    and d': "d' = add_audit_event (sv_ctx sv) e (add_alloc l (put_addr (addr_id a) (mark_assigned (sv_now sv)) d1))"
    and int: "integrity d'"
    by blast
  have "ipam_wf (add_alloc l (put_addr (addr_id a) (mark_assigned (sv_now sv)) d1))"
    by (rule take_address_wf[OF assms(1) _ assms(2) c])
      (use p get_pool_rowD[OF p(1)] integrity_distinct(2)[OF int] d' in
        \<open>auto simp: l mark_assigned_def workload_allocation_def add_alloc_def\<close>)
  with int d' show ?thesis by (simp add: ipam_inv_def)
qed (use assms in simp)

lemma reserve_for_provisioning_inv:
  assumes "ipam_inv d" "opt_all wf_address requested"
    "reserve_for_provisioning sv fresh draws i q requested d = (r, d')"
  shows "ipam_inv d'"
proof (cases "d' = d")
  case False
  from reserve_for_provisioning_outcome[OF assms(3) this] obtain p a d1 l where
    p: "get_pool_row d i = Some p" "pool_is_active p"
    and c: "available_candidate fresh draws p requested d = Inr (a, d1)"
    and l: "l = request_allocation sv (fresh 1) (addr_id a) q (allocation_kind requested)"
    and d': "d' = add_alloc l (put_addr (addr_id a) (mark_reserved (sv_now sv)) d1)"
    and int: "integrity d'"
    by blast
  have "ipam_wf d'"
    unfolding d'
    by (rule take_address_wf[OF assms(1) _ assms(2) c])
      (use p get_pool_rowD[OF p(1)] integrity_distinct(2)[OF int] d' in
        \<open>auto simp: l mark_reserved_def request_allocation_def add_alloc_def\<close>)
  with int show ?thesis by (simp add: ipam_inv_def)
qed (use assms in simp)

section \<open>Confirming, quarantining, releasing\<close>

text \<open>The active allocation of an address and the address move together.\<close>

lemma put_addr_alloc:
  "put_addr i g (put_alloc j f d) = d\<lparr>ip_addresses := modify_row addr_id i g (ip_addresses d),
     ip_allocations := modify_row alloc_id j f (ip_allocations d)\<rparr>"
  by (cases d) (simp add: put_addr_def put_alloc_def)

lemma move_wf:
  assumes inv: "ipam_inv d" and l: "l \<in> set (ip_allocations d)" "active_allocation (alloc_status l)"
    and a: "get_addr d (alloc_ip_address_id l) = Some a"
    and g: "\<And>x. addr_id (g x) = addr_id x" "\<And>x. addr_pool_id (g x) = addr_pool_id x"
      "\<And>x. addr_address (g x) = addr_address x"
    and f: "\<And>x. alloc_ip_address_id (f x) = alloc_ip_address_id x"
    and new: "expected_allocs (addr_state (g a)) =
      (if active_allocation (alloc_status (f l)) then [alloc_status (f l)] else [])"
  shows "ipam_wf (put_addr (addr_id a) g (put_alloc (alloc_id l) f d))"
proof -
  note ids = integrity_distinct(2,3)[OF ipam_invD(1)[OF inv]]
  note a' = get_row_Some[OF a]
  note ag = ipam_wfD(1)[OF ipam_invD(2)[OF inv]]
  have "agree (modify_row addr_id (addr_id a) g (ip_addresses d))
      (modify_row alloc_id (alloc_id l) f (ip_allocations d))"
    using a' g(1) f l new by (intro agree_move[OF ids(1) ag _ _ ids(2)]) auto
  moreover have "addr_state x \<noteq> Addr_DISABLED \<and> addr_state x \<noteq> Addr_AVAILABLE"
    if "x \<in> set (ip_addresses d)" "addr_id x = addr_id a" for x
  proof -
    have "active_on (addr_id a) (ip_allocations d) \<noteq> []"
      using l a' by (auto simp: active_on_def filter_empty_conv)
    then show ?thesis using ag that by (auto simp: agree_def)
  qed
  ultimately show ?thesis
    using ipam_wf_addr[OF ipam_invD(2)[OF inv], of "addr_id a" g] g(2,3)
    by (simp add: put_addr_alloc)
qed

lemma find_request_allocD:
  "find_request_alloc d r ss = Some l \<Longrightarrow>
     l \<in> set (ip_allocations d) \<and> alloc_provisioning_request_id l = Some r \<and> alloc_status l \<in> set ss"
  by (auto simp: find_request_alloc_def dest: find_Some_mem)

lemma confirm_provisioning_ip_inv:
  assumes "ipam_inv d" "confirm_provisioning_ip sv q w d = (r, d')"
  shows "ipam_inv d'"
proof (cases "d' = d")
  case False
  then obtain l a f g where l: "find_request_alloc d q [Alloc_RESERVED] = Some l"
    and a: "get_addr d (alloc_ip_address_id l) = Some a"
    and d': "d' = put_addr (addr_id a) g (put_alloc (alloc_id l) f d)" "integrity d'"
    and g: "g = (\<lambda>x::ip_address. x\<lparr>addr_state := Addr_ASSIGNED, addr_version := addr_version x + 1\<rparr>)"
    and f: "f = (\<lambda>x::ip_allocation. x\<lparr>alloc_workload_id := Some w, alloc_status := Alloc_ASSIGNED,
      alloc_confirmed_at := Some (sv_now sv), alloc_version := alloc_version x + 1\<rparr>)"
    using assms(2)
    by (simp add: confirm_provisioning_ip_def try_in_def commit_in_def
        split: sum.splits if_splits option.splits)
  have "ipam_wf d'"
    unfolding d'(1)
    by (rule move_wf[OF assms(1) _ _ a]) (use find_request_allocD[OF l] in \<open>auto simp: f g\<close>)
  with d' show ?thesis by (simp add: ipam_inv_def)
qed (use assms in simp)

lemma to_quarantine_inv:
  assumes "ipam_inv d" "l \<in> set (ip_allocations d)" "active_allocation (alloc_status l)"
    "get_addr d (alloc_ip_address_id l) = Some a" "integrity (to_quarantine now reason l a p d)"
  shows "ipam_inv (to_quarantine now reason l a p d)"
proof -
  have "ipam_wf (to_quarantine now reason l a p d)"
    unfolding to_quarantine_def
    by (rule move_wf[OF assms(1-4)]) (auto simp: quarantine_addr_def quarantine_alloc_def)
  with assms(5) show ?thesis by (simp add: ipam_inv_def)
qed

lemma quarantine_provisioning_ip_outcome:
  assumes "quarantine_provisioning_ip sv q d = (r, d')" "d' \<noteq> d"
  shows "\<exists>l a p. find_request_alloc d q [Alloc_RESERVED] = Some l \<and>
    get_addr d (alloc_ip_address_id l) = Some a \<and> get_pool_row d (addr_pool_id a) = Some p \<and>
    d' = to_quarantine (sv_now sv) ''Provisioning failed before clone completion'' l a p d \<and>
    integrity d' \<and> r = Inr ()"
  using assms
  by (auto simp: quarantine_provisioning_ip_def try_in_def commit_in_def
      split: sum.splits if_splits option.splits)

lemma quarantine_provisioning_ip_inv:
  assumes "ipam_inv d" "quarantine_provisioning_ip sv q d = (r, d')"
  shows "ipam_inv d'"
proof (cases "d' = d")
  case False
  from quarantine_provisioning_ip_outcome[OF assms(2) this] find_request_allocD assms(1) show ?thesis
    by (fastforce intro!: to_quarantine_inv)
qed (use assms in simp)

lemma audit_pool_event_simps [simp]:
  "integrity (audit_pool_event sv act tt ti p d) = integrity d"
  "ip_addresses (audit_pool_event sv act tt ti p d) = ip_addresses d"
  "ip_allocations (audit_pool_event sv act tt ti p d) = ip_allocations d"
  "ip_pools (audit_pool_event sv act tt ti p d) = ip_pools d"
  by (simp_all add: audit_pool_event_def)

lemma release_outcome:
  assumes "release sv i reason d = (r, d')" "d' \<noteq> d"
  shows "\<exists>l a p. get_alloc d i = Some l \<and> active_allocation (alloc_status l) \<and>
    alloc_status l \<noteq> Alloc_QUARANTINED \<and>
    get_addr d (alloc_ip_address_id l) = Some a \<and> get_pool_row d (addr_pool_id a) = Some p \<and>
    d' = audit_pool_event sv ''IP_RELEASE_TO_QUARANTINE'' ''ip_allocation'' (alloc_id l) p
           (to_quarantine (sv_now sv) reason l a p d) \<and>
    integrity d' \<and> r = allocation_response (quarantine_alloc (sv_now sv) reason l)
                 (quarantine_addr (sv_now sv) p a) p"
proof -
  obtain l where l: "get_alloc d i = Some l"
    using assms by (cases "get_alloc d i") (auto simp: release_def try_in_def split: sum.splits)
  obtain a where a: "get_addr d (alloc_ip_address_id l) = Some a"
    using assms l by (cases "get_addr d (alloc_ip_address_id l)")
      (auto simp: release_def try_in_def split: sum.splits)
  obtain p where p: "get_pool_row d (addr_pool_id a) = Some p"
    using assms l a by (cases "get_pool_row d (addr_pool_id a)")
      (auto simp: release_def try_in_def split: sum.splits)
  have "active_allocation (alloc_status l)" if "alloc_status l \<noteq> Alloc_RELEASED"
    using that by (cases "alloc_status l") auto
  with assms l a p show ?thesis
    by (auto simp: release_def try_in_def commit_in_def split: sum.splits if_splits)
qed

lemma release_inv:
  assumes "ipam_inv d" "release sv i reason d = (r, d')"
  shows "ipam_inv d'"
proof (cases "d' = d")
  case False
  from release_outcome[OF assms(2) this] obtain l a p where
    l: "get_alloc d i = Some l" "active_allocation (alloc_status l)"
    and a: "get_addr d (alloc_ip_address_id l) = Some a"
    and d': "d' = audit_pool_event sv ''IP_RELEASE_TO_QUARANTINE'' ''ip_allocation'' (alloc_id l) p
           (to_quarantine (sv_now sv) reason l a p d)" "integrity d'"
    by blast
  with to_quarantine_inv[OF assms(1) _ l(2) a] get_row_Some[OF l(1)] show ?thesis by simp
qed (use assms in simp)

lemma approve_release_outcome:
  assumes "approve_release sv i d = (r, d')" "d' \<noteq> d \<or> is_ok r"
  shows "\<exists>a l p f g. get_addr d i = Some a \<and> addr_state a = Addr_QUARANTINED \<and>
    \<not> (case addr_quarantined_until a of Some t \<Rightarrow> t > sv_now sv | None \<Rightarrow> False) \<and>
    l \<in> set (ip_allocations d) \<and> alloc_ip_address_id l = addr_id a \<and> alloc_status l = Alloc_QUARANTINED \<and>
    g = (\<lambda>x::ip_address. x\<lparr>addr_state := Addr_AVAILABLE, addr_quarantined_until := None,
           addr_version := addr_version x + 1\<rparr>) \<and>
    f = (\<lambda>x::ip_allocation. x\<lparr>alloc_status := Alloc_RELEASED, alloc_version := alloc_version x + 1\<rparr>) \<and>
    d' = audit_pool_event sv ''IP_RELEASE_APPROVE'' ''ip_address'' (addr_id a) p
           (put_addr (addr_id a) g (put_alloc (alloc_id l) f d)) \<and>
    integrity d' \<and> r = Inr (address_response (g a) None)"
  using assms find_Some_mem
  by (fastforce simp: approve_release_def try_in_def commit_in_def Let_def
      split: sum.splits if_splits option.splits)

lemma approve_release_inv:
  assumes "ipam_inv d" "approve_release sv i d = (r, d')"
  shows "ipam_inv d'"
proof (cases "d' = d")
  case False
  from approve_release_outcome[OF assms(2) disjI1[OF this]] obtain a l p f g where
    a: "get_addr d i = Some a" and l: "l \<in> set (ip_allocations d)" "alloc_ip_address_id l = addr_id a"
      "alloc_status l = Alloc_QUARANTINED"
    and g: "g = (\<lambda>x::ip_address. x\<lparr>addr_state := Addr_AVAILABLE, addr_quarantined_until := None,
           addr_version := addr_version x + 1\<rparr>)"
    and f: "f = (\<lambda>x::ip_allocation. x\<lparr>alloc_status := Alloc_RELEASED, alloc_version := alloc_version x + 1\<rparr>)"
    and d': "d' = audit_pool_event sv ''IP_RELEASE_APPROVE'' ''ip_address'' (addr_id a) p
           (put_addr (addr_id a) g (put_alloc (alloc_id l) f d))" "integrity d'"
    by blast
  have "ipam_wf (put_addr (addr_id a) g (put_alloc (alloc_id l) f d))"
    by (rule move_wf[OF assms(1) l(1)]) (use l a get_row_Some[OF a] in \<open>auto simp: f g\<close>)
  with d' show ?thesis by (simp add: ipam_inv_def)
qed (use assms in simp)

end
