(* ===== verification/Ipam_Pools.thy ===== *)
theory Ipam_Pools
  imports Ipam_Steps
begin

text \<open>
  The pool handlers of \<open>IpamService\<close> and \<open>reserve_address\<close> keep the invariant; then the step
  relation of the whole service, its reachable states, and what holds in all of them.
\<close>

section \<open>Writing a pool\<close>

lemma same_scope_sym: "same_scope a b = same_scope b a"
  by (auto simp: same_scope_def)

lemma ipam_wf_put_pool:
  assumes wf: "ipam_wf d" and ids: "distinct (map pool_id (ip_pools d))"
    and p: "get_pool_row d i = Some p" and id: "pool_id (f p) = i" and pw: "pool_wf (f p)"
    and cur: "pool_next_offset (f p) = pool_next_offset p"
    and addressing: "pool_cidr (f p) = pool_cidr p \<and> pool_gateway (f p) = pool_gateway p \<or>
      (\<forall>a \<in> set (ip_addresses d). addr_pool_id a \<noteq> i)"
    and dis: "\<And>q. pool_is_active (f p) \<Longrightarrow> q \<in> set (ip_pools d) \<Longrightarrow> pool_is_active q \<Longrightarrow> pool_id q \<noteq> i \<Longrightarrow>
      same_scope (pool_cluster_id (f p)) (pool_cluster_id q) \<Longrightarrow> \<not> overlaps (pool_cidr (f p)) (pool_cidr q)"
    and live: "pool_is_active (f p) = pool_is_active p \<or>
      (\<forall>a \<in> set (ip_addresses d). addr_pool_id a = i \<longrightarrow> addr_state a = Addr_AVAILABLE)"
  shows "ipam_wf (put_pool i f d)"
proof -
  let ?d = "put_pool i f d"
  note p' = get_pool_rowD[OF p]
  have only: "q = p" if "q \<in> set (ip_pools d)" "pool_id q = i" for q
    using that ids p' by (auto simp: distinct_map inj_on_def)
  have rows: "set (ip_pools ?d) = insert (f p) {q \<in> set (ip_pools d). pool_id q \<noteq> i}"
    using p' only by (force simp: put_pool_def set_modify_row)
  have get: "get_pool_row ?d j = (if j = i then Some (f p) else get_pool_row d j)" for j
  proof -
    have "pool_id (f q) = i" if "q \<in> set (ip_pools d)" "pool_id q = i" for q
      using only[OF that] id by simp
    then show ?thesis
      using get_modify_row_at[of "ip_pools d" pool_id i f j] p by (simp add: put_pool_def)
  qed
  have same: "ip_addresses ?d = ip_addresses d" "ip_allocations ?d = ip_allocations d"
    "is_excluded ?d = is_excluded d"
    by (auto simp: put_pool_def fun_eq_iff)
  have "addr_wf ?d a" if "a \<in> set (ip_addresses d)" for a
    using ipam_wfD(3)[OF wf that] that p addressing live
    by (auto simp: addr_wf_def get same address_ok_def special_def)
  moreover have "cursors_wf ?d"
    using ipam_wfD(4)[OF wf] p' id cur unfolding cursors_wf_def rows same
    by (metis (no_types, lifting) insert_iff mem_Collect_eq)
  moreover have "pools_disjoint (ip_pools ?d)"
    using ipam_wfD(5)[OF wf] dis id overlaps_sym same_scope_sym unfolding pools_disjoint_def rows
    by (smt (verit) insert_iff mem_Collect_eq)
  ultimately show ?thesis
    using wf pw by (auto simp: ipam_wf_def list_all_iff rows same)
qed

lemma network_of_wf: "network_of s = Inr n \<Longrightarrow> wf_network n"
  by (auto simp: network_of_def split: option.splits intro: parse_network_wf)

lemma check_overlap_Inr [result_simps]:
  "check_overlap ps n c = Inr u \<longleftrightarrow> (\<forall>p \<in> set ps. \<not> pool_conflict n c p)"
  by (auto simp: check_overlap_def list_ex_iff)

lemma check_addressing_Inr [result_simps]:
  "check_addressing d p n c g = Inr u \<longleftrightarrow>
     (n = pool_cidr p \<and> c = pool_cluster_id p \<and> g = pool_gateway p \<or>
      (\<forall>a \<in> set (ip_addresses d). addr_pool_id a \<noteq> pool_id p)) \<and>
     (n = pool_cidr p \<or> (\<forall>e \<in> set (exclusions d). ex_pool_id e \<noteq> pool_id p))"
  by (auto simp: check_addressing_def filter_empty_conv)

lemma check_gateway_Inr [result_simps]:
  "check_gateway g n = Inr u \<longleftrightarrow> opt_all (\<lambda>a. in_network a n) g"
  by (auto simp: check_gateway_def opt_all_def split: option.splits)

lemma check_pool_version_Inr [result_simps]:
  "check_pool_version p v = Inr u \<longleftrightarrow> pool_version p = v"
  by (simp add: check_pool_version_def)

section \<open>\<open>update_pool\<close>, \<open>delete_pool\<close>\<close>

lemma update_pool_outcome:
  assumes "update_pool sv i u d = (r, d')" "d' \<noteq> d \<or> is_ok r"
  shows "\<exists>p n e. get_pool_row d i = Some p \<and> pool_is_active p \<and> pool_version p = pu_version u \<and>
    target_network u p = Inr n \<and> check_gateway (target_gateway u p) n = Inr () \<and>
    check_addressing d p n (target_cluster u p) (target_gateway u p) = Inr () \<and>
    (\<forall>q \<in> set (ip_pools d). pool_is_active q \<and> pool_id q \<noteq> pool_id p \<longrightarrow>
       \<not> pool_conflict n (target_cluster u p) q) \<and>
    d' = add_audit_event (sv_ctx sv) e (put_pool i (\<lambda>_. apply_update u n p) d) \<and>
    integrity d' \<and> r = Inr (pool_response d' (apply_update u n p))"
proof -
  from assms obtain p n where
    "get_pool_row d i = Some p" "pool_is_active p" "pool_version p = pu_version u"
    "target_network u p = Inr n" "check_gateway (target_gateway u p) n = Inr ()"
    "check_addressing d p n (target_cluster u p) (target_gateway u p) = Inr ()"
    "check_overlap (filter (\<lambda>q. pool_is_active q \<and> pool_id q \<noteq> pool_id p) (ip_pools d))
       n (target_cluster u p) = Inr ()"
    by (auto simp: update_pool_def try_in_def locked_pool_Inr check_pool_version_Inr split: sum.splits)
  with assms show ?thesis
    by (simp add: update_pool_def try_in_def commit_in_def Let_def locked_pool_Inr check_pool_version_Inr
        check_overlap_Inr split: sum.splits if_splits) auto
qed


lemma update_pool_inv:
  assumes "ipam_inv d" "update_pool sv i u d = (r, d')"
  shows "ipam_inv d'"
proof (cases "d' = d")
  case False
  from update_pool_outcome[OF assms(2) disjI1[OF this]] obtain p n e where
    p: "get_pool_row d i = Some p" and n: "target_network u p = Inr n"
    and gw: "check_gateway (target_gateway u p) n = Inr ()"
    and addr: "check_addressing d p n (target_cluster u p) (target_gateway u p) = Inr ()"
    and dis: "\<forall>q \<in> set (ip_pools d). pool_is_active q \<and> pool_id q \<noteq> pool_id p \<longrightarrow>
       \<not> pool_conflict n (target_cluster u p) q"
    and d': "d' = add_audit_event (sv_ctx sv) e (put_pool i (\<lambda>_. apply_update u n p) d)" "integrity d'"
    by blast
  let ?f = "\<lambda>_::ip_pool. apply_update u n p"
  have f: "pool_id (?f p) = pool_id p" "pool_cidr (?f p) = n" "pool_gateway (?f p) = target_gateway u p"
    "pool_next_offset (?f p) = pool_next_offset p" "pool_cluster_id (?f p) = target_cluster u p"
    "pool_is_active (?f p) = pool_is_active p"
    by (simp_all add: apply_update_def)
  note p' = get_pool_rowD[OF p] and wf = ipam_invD(2)[OF assms(1)]
  have pw: "pool_wf p" and cur: "cursors_wf d" using ipam_wfD(2,4)[OF wf] p' by auto
  have n_wf: "wf_network n"
    using n pw by (auto simp: target_network_def pool_wf_def split: option.splits dest: network_of_wf)
  have "pool_wf (?f p)"
    using pw n_wf addr gw cur p' by (auto simp: pool_wf_def f result_simps cursors_wf_def)
  then have "ipam_wf (put_pool i ?f d)"
    using ipam_wf_put_pool[OF wf _ p, of ?f] integrity_distinct(1)[OF ipam_invD(1)[OF assms(1)]]
      p' addr dis
    by (auto simp: f result_simps pool_conflict_def same_scope_sym)
  with d' show ?thesis by (simp add: ipam_inv_def)
qed (use assms in simp)

lemma delete_pool_outcome:
  assumes "delete_pool sv i v d = (r, d')" "d' \<noteq> d"
  shows "\<exists>p e. get_pool_row d i = Some p \<and> pool_is_active p \<and> pool_version p = v \<and>
    (\<forall>a \<in> set (ip_addresses d). addr_pool_id a = i \<longrightarrow> addr_state a = Addr_AVAILABLE) \<and>
    (\<forall>q \<in> set (requests d). req_ip_pool_id q = i \<longrightarrow> \<not> request_in_progress (req_status q)) \<and>
    d' = add_audit_event (sv_ctx sv) e
      (put_pool i (\<lambda>q. q\<lparr>pool_is_active := False, pool_version := pool_version q + 1\<rparr>) d) \<and>
    integrity d' \<and> r = Inr ()"
proof -
  from assms obtain p where p: "get_pool_row d i = Some p" "pool_is_active p" "pool_version p = v"
    by (auto simp: delete_pool_def try_in_def locked_pool_Inr check_pool_version_Inr split: sum.splits)
  with assms get_pool_rowD[OF p(1)] show ?thesis
    by (simp add: delete_pool_def try_in_def commit_in_def Let_def locked_pool_Inr check_pool_version_Inr
        filter_empty_conv split: sum.splits if_splits) auto
qed

lemma delete_pool_inv:
  assumes "ipam_inv d" "delete_pool sv i v d = (r, d')"
  shows "ipam_inv d'"
proof (cases "d' = d")
  case False
  let ?f = "\<lambda>q::ip_pool. q\<lparr>pool_is_active := False, pool_version := pool_version q + 1\<rparr>"
  from delete_pool_outcome[OF assms(2) False] obtain p e where
    p: "get_pool_row d i = Some p"
    and free: "\<forall>a \<in> set (ip_addresses d). addr_pool_id a = i \<longrightarrow> addr_state a = Addr_AVAILABLE"
    and d': "d' = add_audit_event (sv_ctx sv) e (put_pool i ?f d)" "integrity d'"
    by blast
  have "ipam_wf (put_pool i ?f d)"
    using ipam_wf_put_pool[OF ipam_invD(2)[OF assms(1)] _ p, of ?f] get_pool_rowD[OF p] free
      integrity_distinct(1)[OF ipam_invD(1)[OF assms(1)]] ipam_wfD(2)[OF ipam_invD(2)[OF assms(1)], of p]
    by (auto simp: pool_wf_def)
  with d' show ?thesis by (simp add: ipam_inv_def)
qed (use assms in simp)

section \<open>\<open>create_pool\<close>, \<open>reserve_address\<close>\<close>

lemma new_exclusions_pool: "e \<in> set (new_exclusions fresh k i xs) \<Longrightarrow> ex_pool_id e = i"
  by (induction fresh k i xs rule: new_exclusions.induct) auto

lemma create_pool_outcome:
  assumes "create_pool sv fresh c d = (r, d')" "d' \<noteq> d \<or> is_ok r"
  shows "\<exists>n exs e. network_of (pc_cidr c) = Inr n \<and> check_gateway (pc_gateway c) n = Inr () \<and>
    map_result (check_exclusion n) (pc_excluded_ranges c) = Inr exs \<and>
    (\<forall>q \<in> set (ip_pools d). pool_is_active q \<longrightarrow> \<not> pool_conflict n (pc_cluster_id c) q) \<and>
    d' = add_audit_event (sv_ctx sv) e (d\<lparr>ip_pools := ip_pools d @ [new_pool sv (fresh 0) c n],
           exclusions := exclusions d @ new_exclusions fresh 1 (fresh 0) exs\<rparr>) \<and>
    integrity d' \<and> r = Inr (pool_response d' (new_pool sv (fresh 0) c n))"
proof -
  from assms obtain n exs where
    "network_of (pc_cidr c) = Inr n" "map_result (check_exclusion n) (pc_excluded_ranges c) = Inr exs"
    by (auto simp: create_pool_def try_in_def split: sum.splits)
  moreover have "pool_id (new_pool sv (fresh 0) c n) = fresh 0" by (simp add: new_pool_def)
  ultimately show ?thesis using assms
    by (simp add: create_pool_def try_in_def commit_in_def Let_def check_overlap_Inr
        split: sum.splits if_splits) auto
qed

lemma create_pool_inv:
  assumes "ipam_inv d" "create_pool sv fresh c d = (r, d')"
  shows "ipam_inv d'"
proof (cases "d' = d")
  case False
  from create_pool_outcome[OF assms(2) disjI1[OF this]] obtain n exs e where
    n: "network_of (pc_cidr c) = Inr n" and gw: "check_gateway (pc_gateway c) n = Inr ()"
    and dis: "\<forall>q \<in> set (ip_pools d). pool_is_active q \<longrightarrow> \<not> pool_conflict n (pc_cluster_id c) q"
    and d': "d' = add_audit_event (sv_ctx sv) e (d\<lparr>ip_pools := ip_pools d @ [new_pool sv (fresh 0) c n],
           exclusions := exclusions d @ new_exclusions fresh 1 (fresh 0) exs\<rparr>)" "integrity d'"
    by blast
  let ?p = "new_pool sv (fresh 0) c n"
  let ?d = "d\<lparr>ip_pools := ip_pools d @ [?p], exclusions := exclusions d @ new_exclusions fresh 1 (fresh 0) exs\<rparr>"
  have p: "pool_id ?p = fresh 0" "pool_cidr ?p = n" "pool_cluster_id ?p = pc_cluster_id c"
    "pool_next_offset ?p = 0" "pool_gateway ?p = pc_gateway c" by (simp_all add: new_pool_def)
  note wf = ipam_invD(2)[OF assms(1)] and fk = ipam_invD(4)[OF assms(1)]
  have fresh: "fresh 0 \<notin> pool_id ` set (ip_pools d)"
    using integrity_distinct(1)[OF d'(2)] by (auto simp: d'(1) p)
  have "addr_wf ?d a" if "a \<in> set (ip_addresses d)" for a
  proof -
    have "addr_pool_id a \<noteq> fresh 0" using fk fresh that by metis
    moreover have "exclusion_bounds ?d (addr_pool_id a) = exclusion_bounds d (addr_pool_id a)"
      using calculation new_exclusions_pool[of _ fresh 1 "fresh 0" exs]
      by (auto simp: exclusion_bounds_def filter_empty_conv)
    ultimately show ?thesis
      using ipam_wfD(3)[OF wf that] by (auto simp: addr_wf_def is_excluded_def get_row_append)
  qed
  moreover have "pool_wf ?p" using network_of_wf[OF n] gw by (simp add: pool_wf_def p result_simps)
  moreover have "cursors_wf ?d" using ipam_wfD(4)[OF wf] by (auto simp: cursors_wf_def p)
  moreover have "pools_disjoint (ip_pools ?d)"
    using ipam_wfD(5)[OF wf] dis overlaps_sym same_scope_sym
    by (auto simp: pools_disjoint_def p pool_conflict_def)
  ultimately have "ipam_wf ?d" using wf by (auto simp: ipam_wf_def list_all_iff)
  with d' show ?thesis by (simp add: ipam_inv_def)
qed (use assms in simp)

definition disable_row :: "string \<Rightarrow> ip_address \<Rightarrow> ip_address" where
  "disable_row reason x = x\<lparr>addr_state := Addr_DISABLED, addr_reserved_for := Some reason,
     addr_quarantined_until := None\<rparr>"

lemma reserve_address_outcome:
  assumes "reserve_address sv fresh i q reason d = (r, d')" "d' \<noteq> d \<or> is_ok r"
  shows "\<exists>p x d1. get_pool_row d i = Some p \<and> pool_is_active p \<and>
    in_network q (pool_cidr p) \<and> \<not> special p (pool_cidr p) q \<and>
    d' = audit_pool_event sv ''IP_ADDRESS_EXCLUDE'' ''ip_address'' (addr_id x) p d1 \<and> integrity d1 \<and>
    (find_addr d i q = Some x \<and> addr_state x = Addr_AVAILABLE \<and> d1 = put_addr (addr_id x) (disable_row reason) d \<or>
     find_addr d i q = None \<and> x = disable_row reason (available_row (fresh 0) i q) \<and> d1 = add_addr x d) \<and>
    r = Inr (address_response (disable_row reason x) None)"
proof -
  from assms obtain p where p: "get_pool_row d i = Some p" "pool_is_active p"
    "in_network q (pool_cidr p)" "\<not> special p (pool_cidr p) q"
    by (auto simp: reserve_address_def try_in_def locked_pool_Inr validated_candidate_Inr split: sum.splits)
  then have "locked_pool d i = Inr p" "validated_candidate p q False = Inr q" "pool_id p = i"
    using get_pool_rowD[OF p(1)] by (simp_all add: result_simps)
  with assms p show ?thesis
    by (cases "find_addr d i q")
      (auto simp: reserve_address_def try_in_def commit_in_def Let_def disable_row_def[abs_def] unavailable_def
        split: sum.splits if_splits)
qed


lemma reserve_address_inv:
  assumes "ipam_inv d" "wf_address q" "reserve_address sv fresh i q reason d = (r, d')"
  shows "ipam_inv d'"
proof (cases "d' = d")
  case False
  from reserve_address_outcome[OF assms(3) disjI1[OF this]] obtain p x d1 where
    p: "get_pool_row d i = Some p" "in_network q (pool_cidr p)" "\<not> special p (pool_cidr p) q"
      "pool_is_active p"
    and d': "d' = audit_pool_event sv ''IP_ADDRESS_EXCLUDE'' ''ip_address'' (addr_id x) p d1" "integrity d1"
    and alt: "find_addr d i q = Some x \<and> addr_state x = Addr_AVAILABLE \<and>
        d1 = put_addr (addr_id x) (disable_row reason) d \<or>
      x = disable_row reason (available_row (fresh 0) i q) \<and> d1 = add_addr x d"
    by blast
  note wf = ipam_invD(2)[OF assms(1)] and ids = integrity_distinct(2)[OF ipam_invD(1)[OF assms(1)]]
  from alt have "ipam_wf d1"
  proof
    assume x: "find_addr d i q = Some x \<and> addr_state x = Addr_AVAILABLE \<and>
        d1 = put_addr (addr_id x) (disable_row reason) d"
    then have mem: "x \<in> set (ip_addresses d)" using find_addr_Some by blast
    have "active_on (addr_id x) (ip_allocations d) = []"
      using ipam_wfD(1)[OF wf] mem x by (auto simp: agree_def)
    then have "agree (modify_row addr_id (addr_id x) (disable_row reason) (ip_addresses d)) (ip_allocations d)"
      by (intro agree_modify_addr[OF ids ipam_wfD(1)[OF wf] mem]) (auto simp: disable_row_def)
    moreover have "\<exists>p. get_pool_row d (addr_pool_id y) = Some p \<and> pool_is_active p"
      if "y \<in> set (ip_addresses d)" "addr_id y = addr_id x" for y
      using that ids mem p find_addr_Some[of d i q x] x by (auto simp: distinct_map inj_on_def)
    ultimately have "ipam_wf (d\<lparr>ip_addresses := modify_row addr_id (addr_id x) (disable_row reason)
        (ip_addresses d), ip_allocations := ip_allocations d\<rparr>)"
      by (intro ipam_wf_addr[OF wf]) (auto simp: disable_row_def)
    with x show ?thesis by (simp add: put_addr_def)
  next
    assume x: "x = disable_row reason (available_row (fresh 0) i q) \<and> d1 = add_addr x d"
    then have "distinct (map addr_id (ip_addresses d @ [x]))"
      using integrity_distinct(2)[OF d'(2)] by (simp add: add_addr_def)
    with x p assms(2) ipam_wf_add_addr[OF assms(1), of x p] show ?thesis
      by (simp add: disable_row_def address_ok_def)
  qed
  with d' show ?thesis by (simp add: ipam_inv_def)
qed (use assms in simp)

section \<open>The service as a transition system\<close>

text \<open>
  A step is one handler call, with any caller, identifiers and draws, or a transaction of another
  service, which leaves the IPAM tables alone.  The route layer parses the addresses it passes on.
\<close>

definition ipam_frame :: "db \<Rightarrow> db \<Rightarrow> bool" where
  "ipam_frame d d' \<longleftrightarrow> ip_pools d' = ip_pools d \<and> exclusions d' = exclusions d \<and>
     ip_addresses d' = ip_addresses d \<and> ip_allocations d' = ip_allocations d \<and> integrity d'"

inductive ipam_step :: "db \<Rightarrow> db \<Rightarrow> bool" where
  step_create: "create_pool sv fresh c d = (r, d') \<Longrightarrow> ipam_step d d'"
| step_update: "update_pool sv i u d = (r, d') \<Longrightarrow> ipam_step d d'"
| step_delete: "delete_pool sv i v d = (r, d') \<Longrightarrow> ipam_step d d'"
| step_exclude: "wf_address q \<Longrightarrow> reserve_address sv fresh i q reason d = (r, d') \<Longrightarrow> ipam_step d d'"
| step_allocate: "opt_all wf_address q \<Longrightarrow> allocate sv fresh draws i w q d = (r, d') \<Longrightarrow> ipam_step d d'"
| step_reserve: "opt_all wf_address q \<Longrightarrow>
    reserve_for_provisioning sv fresh draws i rq q d = (r, d') \<Longrightarrow> ipam_step d d'"
| step_confirm: "confirm_provisioning_ip sv rq w d = (r, d') \<Longrightarrow> ipam_step d d'"
| step_quarantine: "quarantine_provisioning_ip sv rq d = (r, d') \<Longrightarrow> ipam_step d d'"
| step_release: "release sv i reason d = (r, d') \<Longrightarrow> ipam_step d d'"
| step_approve: "approve_release sv i d = (r, d') \<Longrightarrow> ipam_step d d'"
| step_other: "ipam_frame d d' \<Longrightarrow> ipam_step d d'"

lemma ipam_frame_inv: "ipam_inv d \<Longrightarrow> ipam_frame d d' \<Longrightarrow> ipam_inv d'"
  by (auto simp: ipam_inv_def ipam_frame_def ipam_wf_def cursors_wf_def addr_wf_def
      is_excluded_def exclusion_bounds_def list_all_iff)

lemma ipam_step_inv: "ipam_step d d' \<Longrightarrow> ipam_inv d \<Longrightarrow> ipam_inv d'"
  by (induction rule: ipam_step.induct)
    (blast intro: create_pool_inv update_pool_inv delete_pool_inv reserve_address_inv allocate_inv
      reserve_for_provisioning_inv confirm_provisioning_ip_inv quarantine_provisioning_ip_inv
      release_inv approve_release_inv ipam_frame_inv)+

interpretation ipam: invariant_system "\<lambda>d. d = empty_db" ipam_step ipam_inv
  by unfold_locales (auto intro: ipam_inv_empty ipam_step_inv)

abbreviation ipam_reachable :: "db \<Rightarrow> bool" where
  "ipam_reachable \<equiv> reachable (\<lambda>d. d = empty_db) ipam_step"

end
