(* ===== verification/Provisioning_Lifecycle.thy ===== *)
theory Provisioning_Lifecycle
  imports Provisioning_Frame Power_Frame Ipam_Pools
begin

text \<open>
  Predicates on the request and its steps across a run of the provisioning worker: what the address
  service leaves alone, predicates on the working and the stored state that every step handler
  keeps, and the result of a run.
\<close>

section \<open>The address service leaves requests and steps alone\<close>

lemma candidate_requests:
  "available_candidate fresh draws p q d = Inr (a, d1) \<Longrightarrow> requests d1 = requests d \<and> steps d1 = steps d"
  by (auto simp: available_candidate_def candidate_address_def automatic_candidate_def result_simps Let_def
      add_addr_def put_pool_def unavailable_def split: option.splits if_splits prod.splits)

lemma reserve_requests:
  assumes "reserve_for_provisioning sv fresh draws p i q d = (r, d')"
  shows "requests d' = requests d \<and> steps d' = steps d"
proof (cases "d' = d")
  case False
  from reserve_for_provisioning_outcome[OF assms this] candidate_requests show ?thesis
    by (fastforce simp: add_alloc_def put_addr_def)
qed simp

lemma confirm_requests:
  "confirm_provisioning_ip sv i w d = (r, d') \<Longrightarrow> requests d' = requests d \<and> steps d' = steps d"
  by (auto simp: confirm_provisioning_ip_def try_in_def commit_in_def put_addr_def put_alloc_def
      split: sum.splits option.splits if_splits)

lemma quarantine_requests:
  "quarantine_provisioning_ip sv i d = (r, d') \<Longrightarrow> requests d' = requests d \<and> steps d' = steps d"
  by (auto simp: quarantine_provisioning_ip_def try_in_def commit_in_def to_quarantine_def put_addr_def put_alloc_def
      split: sum.splits option.splits if_splits)

section \<open>Predicates on the working and the stored state\<close>

definition holds :: "(db \<Rightarrow> bool) \<Rightarrow> 'w rs \<Rightarrow> bool" where
  "holds A s \<longleftrightarrow> A (rs_db s) \<and> rs_commits s \<noteq> [] \<and> A (stored s)"

text \<open>\<open>A\<close> reads requests and steps only, and survives what a step handler does to them.\<close>

definition handler_closed :: "uuid \<Rightarrow> (db \<Rightarrow> bool) \<Rightarrow> bool" where
  "handler_closed i A \<longleftrightarrow> (\<forall>d d'. A d \<longrightarrow> list_all2 (req_le i) (requests d) (requests d') \<longrightarrow>
     map step_view (steps d') = map step_view (steps d) \<longrightarrow> A d')"

lemma holds_basic:
  "worldless (holds A)" "keeps (holds A) commitM" "keeps (holds A) rollbackM" "keeps (holds A) (callM nm args h)"
  by (auto simp: worldless_def holds_def keeps_def stored_def wp_rules split: prod.splits sum.splits)

lemma holds_write: "(\<And>d. A d \<Longrightarrow> A (f d)) \<Longrightarrow> keeps (holds A) (writeM f)"
  by (simp add: keeps_def holds_def wp_rules stored_def)

lemma holds_service:
  assumes "\<And>d r d'. A d \<Longrightarrow> f d = (r, d') \<Longrightarrow> A d'"
  shows "keeps (holds A) (serviceM f)"
  unfolding keeps_def wp_serviceM
proof (intro allI impI)
  fix s :: "'b rs" assume h: "holds A s"
  obtain r d' where f: "f (rs_db s) = (r, d')" by fastforce
  with h assms[OF _ f] have "A d'" by (simp add: holds_def)
  with h have "holds A (after_service r d' s)" by (auto simp: holds_def after_service_def stored_def)
  with f show "case f (rs_db s) of (r, d') \<Rightarrow>
      (case r of Inr x \<Rightarrow> holds A (after_service r d' s) | Inl e \<Rightarrow> holds A (after_service r d' s))"
    by (auto split: sum.splits)
qed

lemma handler_closed_same:
  "handler_closed i A \<Longrightarrow> requests d' = requests d \<and> steps d' = steps d \<Longrightarrow> A d \<Longrightarrow> A d'"
  unfolding handler_closed_def by (metis list_all2_refl req_le_refl)

lemma handler_closed_frame: "handler_closed i A \<Longrightarrow> prov_frame i d d' \<Longrightarrow> A d \<Longrightarrow> A d'"
  by (auto simp: handler_closed_def prov_frame_def)

lemma holds_handlers:
  fixes A :: "db \<Rightarrow> bool"
  assumes "handler_closed i A"
  shows "provisioning_invariant (holds A :: 'w rs \<Rightarrow> bool) i"
proof -
  have w: "keeps (holds A) (writeM f)" if "\<And>d. prov_frame i d (f d)" for f
    using handler_closed_frame[OF assms that] by (rule holds_write)
  have req: "keeps (holds A) (writeM (put_req i f))" if "\<And>r. req_id r = i \<Longrightarrow> req_le i r (f r)" for f
    by (rule w) (rule prov_frame_put_req[OF that])
  have rows: "keeps (holds A) (request_row j)" "keeps (holds A) (step_row j)" "keeps (holds A) (node_of j)"
    "keeps (holds A) (vmid_of j)" "keeps (holds A) (int_spec j key)" "keeps (holds A) (str_spec j key)"
    for j key
    unfolding request_row_def step_row_def node_of_def vmid_of_def int_spec_def str_spec_def
    by (intro keeps_bindM keeps_case_option keeps_readM keeps_raiseM keeps_returnM)+
  note basic = keeps_nowM[OF holds_basic(1)] keeps_uuid4M[OF holds_basic(1)] keeps_drawsM[OF holds_basic(1)]
    holds_basic(2-) keeps_bindM keeps_thenM keeps_if keeps_returnM keeps_raiseM keeps_readM keeps_case_option
    keeps_case_prod
  have clone: "keeps (holds A) (full_clone i st api)" for st and api :: "'w provisioning_api"
    unfolding full_clone_def vm_exists_def ownership_conflict_def
    by (intro basic rows req w prov_frame_put_step) (simp_all add: req_le_def has_password_def step_view_def)
  have svc: "keeps (holds A) (serviceM (reserve_for_provisioning sv fresh draws p j q))" for sv fresh draws p j q
    by (rule holds_service) (erule (1) handler_closed_same[OF assms reserve_requests, rotated])
  have reserve: "keeps (holds A) (reserve_ip V me)" if "pr_request me = i" for V :: "'w prov_env" and me
    unfolding reserve_ip_def Let_def ipamM_def that
    by (intro basic rows svc req) (simp_all add: req_le_def has_password_def)
  show ?thesis
    by unfold_locales
      (use w clone reserve holds_basic holds_service handler_closed_same[OF assms confirm_requests] in blast)+
qed

section \<open>Predicates kept by a whole run\<close>

context provisioning_invariant
begin

lemma keeps_partial: "keeps I (record_partial_workload V i)"
proof -
  have "keeps I (insert_partial V i r v n)" for r v n
    unfolding insert_partial_def by (intro basic rows k_write) (simp add: prov_frame_tables)
  moreover have "keeps I (attach_partial V i r v)" for r v
    unfolding attach_partial_def
    by (intro basic k_write frame_intros) (simp add: req_le_def has_password_def)
  ultimately show ?thesis
    unfolding record_partial_workload_def by (intro basic rows)
qed

lemma keeps_release_capacity: "keeps I (release_node_capacity i)"
  unfolding release_node_capacity_def by (intro basic rows k_capacity)

lemma keeps_close:
  "(\<And>t. keeps I (writeM (put_req i (fail_row review e t)))) \<Longrightarrow> keeps I (close_request V i review e st)"
  unfolding close_request_def
  by (intro basic rows helpers) (auto intro!: k_write)

lemma keeps_review_tail:
  "keeps I (if review then bindM (tryM (thenM (record_partial_workload V i) commitM))
     (\<lambda>x. case x of Inr _ \<Rightarrow> returnM () | Inl _ \<Rightarrow> rollbackM) else returnM ())"
  by (intro basic keeps_partial keeps_case_sum)

lemma keeps_give_back:
  assumes "pr_request me = i" "\<And>sv. keeps I (serviceM (quarantine_provisioning_ip sv i))"
  shows "keeps I (give_back V me)"
  unfolding give_back_def Let_def ipamM_def assms(1)
  by (intro basic keeps_release_capacity assms(2) keeps_case_sum keeps_case_exn)

lemma keeps_fail_request:
  assumes "pr_request me = i" "\<And>sv. keeps I (serviceM (quarantine_provisioning_ip sv i))"
    "\<And>k e t. keeps I (writeM (put_step k (fail_step e t)))"
    "\<And>b e t. keeps I (writeM (put_req i (fail_row b e t)))"
  shows "keeps I (fail_request V me st e)"
  unfolding fail_request_def Let_def assms(1)
  by (intro basic rows assms(3) keeps_give_back[OF assms(1,2)] keeps_close assms(4) keeps_review_tail)

lemma keeps_succeed_request:
  "(\<And>t. keeps I (writeM (put_req i (succeed_row t)))) \<Longrightarrow> keeps I (succeed_request V i actor)"
  unfolding succeed_request_def by (intro basic rows) (auto intro!: k_write)

end

text \<open>
  \<open>I\<close> holds while the steps run, \<open>J\<close> from the end of the request on: after \<open>fail_request\<close> and
  \<open>succeed_request\<close>, and wherever an exception leaves the run.
\<close>

locale provisioning_run_invariant = provisioning_invariant +
  fixes J :: "'a rs \<Rightarrow> bool"
  assumes weaken: "I s \<Longrightarrow> J s"
    and k_step: "(\<And>x. step_id (f x) = step_id x) \<Longrightarrow> keeps I (writeM (put_step k f))"
    and k_unset: "keeps I (writeM (put_req i (\<lambda>x. x\<lparr>req_runner_id := None, req_lease_expires_at := None\<rparr>)))"
    and fail_ends: "pr_request me = i \<Longrightarrow> I s \<Longrightarrow> wp (fail_request V me st e) (\<lambda>_. J) (\<lambda>_. J) s"
    and succeed_ends: "I s \<Longrightarrow> wp (succeed_request V i actor) (\<lambda>_. J) (\<lambda>_. J) s"
begin

lemma keeps_begin_step: "keeps I (begin_step V i st)"
  unfolding begin_step_def
  by (intro basic helpers k_req k_step) (simp_all add: req_le_def has_password_def)

lemma keeps_end_step: "keeps I (end_step V i st res)"
proof -
  have "keeps I (writeM (\<lambda>d. put_req i (\<lambda>x. x\<lparr>req_version := req_version x + 1\<rparr>)
      (put_step (step_id st) (\<lambda>x. x\<lparr>step_status := Step_SUCCEEDED, step_safe_result := res,
         step_finished_at := Some now\<rparr>) d)))" for now
    by (rule keeps_write_then) (intro k_step k_req; simp add: req_le_def has_password_def)+
  then show ?thesis unfolding end_step_def by (intro basic helpers)
qed

lemma keeps_wp: "keeps I m \<Longrightarrow> I s \<Longrightarrow> (\<And>x t. I t \<Longrightarrow> Q x t) \<Longrightarrow> wp m Q (\<lambda>_. J) s"
  unfolding keeps_def by (blast intro: wp_mono weaken)

lemma after_step_ends:
  assumes "pr_request me = i" "I s"
  shows "wp (after_step V me st r) (\<lambda>go. if go then I else J) (\<lambda>_. J) s"
proof -
  have end_: "wp (end_step V i st res) (\<lambda>_. I) (\<lambda>_. J) s" for res
    by (rule keeps_wp[OF keeps_end_step assms(2)])
  note fail = fail_ends[OF assms]
  show ?thesis
  proof (cases r)
    case (Inl e)
    then show ?thesis
      using fail weaken[OF assms(2)] by (cases e) (simp_all add: after_step_def wp_rules)
  next
    case (Inr res)
    then show ?thesis using end_ assms(1) by (simp add: after_step_def wp_rules)
  qed
qed

lemma run_step_ends:
  assumes "pr_request me = i" "I s"
  shows "wp (run_step V me api st) (\<lambda>go. if go then I else J) (\<lambda>_. J) s"
proof -
  have exec: "wp (tryM (execute_step V me st api)) (\<lambda>r. wp (after_step V me st r) (\<lambda>go. if go then I else J) (\<lambda>_. J))
      (\<lambda>_. J) t" if "I t" for t
    by (rule keeps_wp[OF keeps_tryM[OF keeps_execute_step[OF assms(1)]] that]) (rule after_step_ends[OF assms(1)])
  have "wp (begin_step V (pr_request me) st) (\<lambda>_. wp (tryM (execute_step V me st api))
      (\<lambda>r. wp (after_step V me st r) (\<lambda>go. if go then I else J) (\<lambda>_. J)) (\<lambda>_. J)) (\<lambda>_. J) t" if "I t" for t
    unfolding assms(1) by (rule keeps_wp[OF keeps_begin_step that]) (rule exec)
  then show ?thesis
    unfolding run_step_def wp_bindM
    by (intro keeps_wp[OF rows(2) assms(2)]) (simp add: wp_thenM wp_bindM wp_returnM)
qed

lemma run_steps_ends:
  "pr_request me = i \<Longrightarrow> I s \<Longrightarrow> wp (run_steps V me api sts) (\<lambda>go. if go then I else J) (\<lambda>_. J) s"
proof (induction sts arbitrary: s)
  case (Cons st sts)
  show ?case
    unfolding run_steps.simps wp_bindM
    by (rule wp_mono[OF run_step_ends[OF Cons.prems]])
      (auto simp: wp_returnM split: if_splits intro: Cons.IH[OF Cons.prems(1)])
qed (simp add: wp_returnM)

lemma run_claimed_ends: "I s \<Longrightarrow> wp (run_claimed V runner i) (\<lambda>_. J) (\<lambda>_. J) s"
proof -
  assume s: "I s"
  have steps: "wp (run_steps V me api sts) (\<lambda>ok. if ok then wp (succeed_request V i x) (\<lambda>_. J) (\<lambda>_. J)
        else wp (returnM ()) (\<lambda>_. J) (\<lambda>_. J)) (\<lambda>_. J) t" if "pr_request me = i" "I t" for me api sts x t
    by (rule wp_mono[OF run_steps_ends[OF that]]) (auto simp: wp_returnM split: if_splits intro: succeed_ends)
  have revoked: "wp (thenM (writeM (put_req i (\<lambda>x. x\<lparr>req_runner_id := None, req_lease_expires_at := None\<rparr>)))
      (fail_request V me st e)) (\<lambda>_. J) (\<lambda>_. J) t" if "pr_request me = i" "I t" for me st e t
    unfolding wp_thenM by (rule keeps_wp[OF k_unset that(2)]) (rule fail_ends[OF that(1)])
  show ?thesis
    unfolding run_claimed_def wp_bindM
    by (rule keeps_wp[OF rows(1) s], rule keeps_wp[OF keeps_readM], assumption)
      (auto simp: wp_bindM wp_readM wp_if intro!: steps revoked)
qed

end

text \<open>The common case: one predicate throughout.\<close>

lemma provisioning_run_invariant_same:
  assumes "provisioning_invariant I i"
    "\<And>k f. (\<And>x. step_id (f x) = step_id x) \<Longrightarrow> keeps I (writeM (put_step k f))"
    "keeps I (writeM (put_req i (\<lambda>x. x\<lparr>req_runner_id := None, req_lease_expires_at := None\<rparr>)))"
    "\<And>b e t. keeps I (writeM (put_req i (fail_row b e t)))" "\<And>t. keeps I (writeM (put_req i (succeed_row t)))"
    "\<And>sv. keeps I (serviceM (quarantine_provisioning_ip sv i))"
  shows "provisioning_run_invariant I i I"
proof (rule provisioning_run_invariant.intro[OF assms(1)], rule provisioning_run_invariant_axioms.intro)
  fix me :: prov_runner and s V st e assume "pr_request me = i" "I s"
  then show "wp (fail_request V me st e) (\<lambda>_. I) (\<lambda>_. I) s"
    using provisioning_invariant.keeps_fail_request[OF assms(1) _ assms(6) assms(2) assms(4), of me V st e]
    by (simp add: keeps_def fail_step_def)
next
  fix s V actor assume "I s"
  then show "wp (succeed_request V i actor) (\<lambda>_. I) (\<lambda>_. I) s"
    using provisioning_invariant.keeps_succeed_request[OF assms(1,5), of V actor] by (simp add: keeps_def)
qed (use assms(2,3) in auto)

end
