(* ===== verification/Provisioning_Result.thy ===== *)
theory Provisioning_Result
  imports Provisioning_Lifecycle
begin

text \<open>
  Where a run of the provisioning worker leaves its request: finished, or given back so that any
  worker can take it up again.
\<close>

section \<open>Rows across a frame\<close>

lemma wp_same: "m s = n s \<Longrightarrow> wp m Q E s = wp n Q E s"
  by (simp add: wp_def)

lemma wp_any: "(\<And>x t. Q x t) \<Longrightarrow> (\<And>e t. E e t) \<Longrightarrow> wp m Q E s"
  by (simp add: wp_def split: prod.splits sum.splits)

lemma get_req_le:
  assumes "list_all2 (req_le i) rs rs'" "get_row req_id rs j = Some r"
  shows "\<exists>r'. get_row req_id rs' j = Some r' \<and> req_le i r r'"
  using assms by (induction rule: list_all2_induct) (auto simp: table_simps req_le_def split: if_splits)

lemma get_put_req:
  "(\<And>r. req_id r = i \<Longrightarrow> req_id (f r) = i) \<Longrightarrow>
   get_req (put_req i f d) j = (if i = j then map_option f (get_req d j) else get_req d j)"
  by (simp add: put_req_def get_modify_row_at)

lemma put_tables [simp]:
  "requests (put_step k g d) = requests d" "steps (put_req i f d) = steps d"
  "steps (put_step k g d) = modify_row step_id k g (steps d)"
  by (simp_all add: put_step_def put_req_def)

lemma integrity_put_req:
  assumes "integrity d"
    "\<And>r. req_id (f r) = req_id r" "\<And>r. req_requested_by_id (f r) = req_requested_by_id r"
    "\<And>r. req_idempotency_key_hash (f r) = req_idempotency_key_hash r"
    "\<And>r. req_product_id (f r) = req_product_id r" "\<And>r. req_template_id (f r) = req_template_id r"
    "\<And>r. req_organization_id (f r) = req_organization_id r"
    "\<And>r. req_target_cluster_id (f r) = req_target_cluster_id r"
    "\<And>r. req_target_node_id (f r) = req_target_node_id r" "\<And>r. req_target_vmid (f r) = req_target_vmid r"
    "\<And>r. req_ip_pool_id (f r) = req_ip_pool_id r" "\<And>r. req_ip_address_id (f r) = req_ip_address_id r"
    "\<And>r. req_workload_id (f r) = req_workload_id r"
    "\<And>r. r \<in> set (requests d) \<Longrightarrow> req_id r = i \<Longrightarrow> req_status r = Prov_FAILED \<Longrightarrow> req_status (f r) = Prov_FAILED"
  shows "integrity (put_req i f d)"
  using assms
  by (auto simp: integrity_defs put_req_def requests_ok_def holds_vmid_def intro!: unique_on_modify_row)

section \<open>The request settles\<close>

definition settling :: "uuid \<Rightarrow> uuid \<Rightarrow> db \<Rightarrow> bool" where
  "settling u i d \<longleftrightarrow> (\<exists>r. get_req d i = Some r \<and>
     (provisioning_terminal (req_status r) \<or> req_status r = Prov_RUNNING \<and> req_runner_id r \<in> {None, Some u}))"

definition settled :: "uuid \<Rightarrow> db \<Rightarrow> bool" where
  "settled i d \<longleftrightarrow> (\<exists>r. get_req d i = Some r \<and>
     (provisioning_terminal (req_status r) \<or> req_status r = Prov_RUNNING \<and> req_runner_id r = None))"

lemma settling_closed: "handler_closed i (settling u i)"
  unfolding handler_closed_def settling_def
proof (intro allI impI, elim exE conjE)
  fix d d' :: db and r assume "list_all2 (req_le i) (requests d) (requests d')" "get_req d i = Some r"
    and r: "provisioning_terminal (req_status r) \<or> req_status r = Prov_RUNNING \<and> req_runner_id r \<in> {None, Some u}"
  from get_req_le[OF this(1,2)] obtain r' where "get_req d' i = Some r'" "req_le i r r'" by blast
  with r show "\<exists>r. get_req d' i = Some r \<and>
      (provisioning_terminal (req_status r) \<or> req_status r = Prov_RUNNING \<and> req_runner_id r \<in> {None, Some u})"
    by (auto simp: req_le_def)
qed

lemma settling_put_req:
  assumes "settling u i d" "\<And>r. req_id (f r) = req_id r"
    "\<And>r. provisioning_terminal (req_status (f r)) \<or> req_status (f r) = req_status r \<and> req_runner_id (f r) \<in> {None, req_runner_id r}"
  shows "settling u i (put_req i f d)"
proof -
  obtain r where r: "get_req d i = Some r"
    "provisioning_terminal (req_status r) \<or> req_status r = Prov_RUNNING \<and> req_runner_id r \<in> {None, Some u}"
    using assms(1) by (auto simp: settling_def)
  then have "get_req (put_req i f d) i = Some (f r)" using assms(2) by (simp add: get_put_req)
  with r(2) assms(3)[of r] show ?thesis by (auto simp: settling_def)
qed

lemma settling_same: "requests d' = requests d \<Longrightarrow> settling u i d \<Longrightarrow> settling u i d'"
  by (simp add: settling_def)

lemma row_terminal [simp]:
  "provisioning_terminal (req_status (fail_row b e t r))" "provisioning_terminal (req_status (succeed_row t r))"
  "req_id (fail_row b e t r) = req_id r" "req_id (succeed_row t r) = req_id r"
  by (simp_all add: fail_row_def succeed_row_def)

lemma settling_quarantine: "keeps (holds (settling u i)) (serviceM (quarantine_provisioning_ip sv i))"
  by (rule holds_service) (blast dest: quarantine_requests intro: settling_same)

lemma settling_writes:
  "keeps (holds (settling u i)) (writeM (put_req i (fail_row b e t)))"
  "keeps (holds (settling u i)) (writeM (put_req i (succeed_row t)))"
  "keeps (holds (settling u i)) (writeM (put_req i (\<lambda>x. x\<lparr>req_runner_id := None, req_lease_expires_at := None\<rparr>)))"
  "keeps (holds (settling u i)) (writeM (put_step k f))"
  by (rule holds_write, erule settling_put_req; simp)+ (rule holds_write, erule settling_same[rotated], simp)

interpretation settle: provisioning_run_invariant "holds (settling u i)" i "holds (settling u i)"
  by (rule provisioning_run_invariant_same[OF holds_handlers[OF settling_closed]])
    (rule settling_writes settling_quarantine)+

section \<open>The committed states\<close>

text \<open>They satisfy the constraints, and the oldest is the one the run started from.\<close>

definition history :: "db \<Rightarrow> 'w rs \<Rightarrow> bool" where
  "history d0 s \<longleftrightarrow> committed_ok s \<and> last (rs_commits s) = d0"

lemma history_mem: "history d0 s \<Longrightarrow> d0 \<in> set (rs_commits s)"
  by (auto simp: history_def committed_ok_def)

lemma history_basic:
  "worldless (history d0)" "keeps (history d0) commitM" "keeps (history d0) rollbackM"
  "keeps (history d0) (callM nm args h)" "keeps (history d0) (writeM f)"
  by (auto simp: worldless_def history_def committed_ok_def keeps_def wp_rules split: prod.splits sum.splits)

lemma history_service:
  assumes "\<And>d r d'. f d = (r, d') \<Longrightarrow> d' \<noteq> d \<Longrightarrow> integrity d'"
  shows "keeps (history d0) (serviceM f)"
  using assms by (fastforce simp: keeps_def wp_rules history_def committed_ok_def after_service_def split: prod.splits sum.splits)

lemma service_integrity:
  "reserve_for_provisioning sv fresh draws p i q d = (r, d') \<Longrightarrow> d' \<noteq> d \<Longrightarrow> integrity d'"
  "confirm_provisioning_ip sv i w d = (r2, d') \<Longrightarrow> d' \<noteq> d \<Longrightarrow> integrity d'"
  "quarantine_provisioning_ip sv i d = (r3, d') \<Longrightarrow> d' \<noteq> d \<Longrightarrow> integrity d'"
  using reserve_for_provisioning_outcome quarantine_provisioning_ip_outcome
  by (blast, auto simp: confirm_provisioning_ip_def try_in_def commit_in_def split: sum.splits option.splits if_splits, blast)

lemma history_handlers: "provisioning_invariant (history d0) i"
proof -
  note basic = keeps_nowM[OF history_basic(1)] keeps_uuid4M[OF history_basic(1)]
    keeps_drawsM[OF history_basic(1)] history_basic(2-) keeps_bindM keeps_thenM keeps_if keeps_returnM
    keeps_raiseM keeps_readM keeps_case_option keeps_case_prod
  have rows: "keeps (history d0) (request_row j)" "keeps (history d0) (step_row j)" "keeps (history d0) (node_of j)"
    "keeps (history d0) (vmid_of j)" "keeps (history d0) (int_spec j key)" "keeps (history d0) (str_spec j key)"
    for j key
    unfolding request_row_def step_row_def node_of_def vmid_of_def int_spec_def str_spec_def by (intro basic)+
  have clone: "keeps (history d0) (full_clone i st api)" for st and api :: "'w provisioning_api"
    unfolding full_clone_def vm_exists_def ownership_conflict_def by (intro basic rows)
  have svc: "keeps (history d0) (serviceM (reserve_for_provisioning sv fresh draws p j q))" for sv fresh draws p j q
    by (rule history_service) (rule service_integrity(1))
  have reserve: "keeps (history d0) (reserve_ip V me)" for V :: "'w prov_env" and me
    unfolding reserve_ip_def Let_def ipamM_def
    by (intro basic rows svc)
  show ?thesis
    by (rule provisioning_invariant.intro)
      (rule history_basic clone reserve | rule history_service, erule (1) service_integrity(2))+
qed

lemma history_quarantine: "keeps (history d0) (serviceM (quarantine_provisioning_ip sv i))"
  by (rule history_service) (rule service_integrity(3))

interpretation integral: provisioning_run_invariant "history d0" i "history d0"
  by (rule provisioning_run_invariant_same[OF history_handlers]) (rule history_basic history_quarantine)+

section \<open>Claim and release\<close>

lemma claimable_not_failed: "claimable t r \<Longrightarrow> req_status r \<noteq> Prov_FAILED \<and> \<not> provisioning_terminal (req_status r)"
  by (auto simp: claimable_def)

lemma integrity_claim_row:
  assumes "integrity d" "get_req d i = Some q" "claimable t q"
  shows "integrity (put_req i (claim_row S u t) d)"
proof (rule integrity_put_req[OF assms(1)])
  fix r assume "r \<in> set (requests d)" "req_id r = i" "req_status r = Prov_FAILED"
  with assms(2) integrity_distinct(6)[OF assms(1)] get_row_mem have "r = q" by fastforce
  with claimable_not_failed[OF assms(3)] \<open>req_status r = Prov_FAILED\<close>
  show "req_status (claim_row S u t r) = Prov_FAILED" by simp
qed (simp_all add: claim_row_def)

lemma integrity_unclaim: "integrity d \<Longrightarrow> integrity (put_req i (unclaim_row u) d)"
  by (rule integrity_put_req) (simp_all add: unclaim_row_def)

text \<open>The state in which a claimed request is run.\<close>

definition claimed_state :: "'w prov_env \<Rightarrow> uuid \<Rightarrow> uuid \<Rightarrow> datetime \<Rightarrow> db \<Rightarrow> 'w \<Rightarrow> 'w rs" where
  "claimed_state V u i t d w = \<lparr>rs_db = put_req i (claim_row (pv_settings V) u t) d,
     rs_commits = [put_req i (claim_row (pv_settings V) u t) d, d], rs_world = w, rs_calls = []\<rparr>"

lemma run_provisioning_cases:
  assumes "integrity d" "get_req d i = Some q" "re_uuid4 (pv_env V) w = (u, w1)" "re_now (pv_env V) w1 = (t, w2)"
  shows "run_provisioning_request V i d w =
    (if claimable t q then finallyM (run_claimed V u i) (release_claim u i) (claimed_state V u i t d w2)
     else (Inr (), \<lparr>rs_db = d, rs_commits = [d], rs_world = w2, rs_calls = []\<rparr>))"
  using assms integrity_claim_row[OF assms(1,2)]
  by (simp add: run_provisioning_request_def run_provisioning_def claim_def claimed_state_def start_run_def
      bindM_def thenM_def readM_def writeM_def commitM_def rollbackM_def nowM_def uuid4M_def returnM_def)

lemma release_claim_result:
  assumes "committed_ok s"
  shows "\<exists>s'. release_claim u i s = (Inr (), s') \<and> rs_calls s' = rs_calls s \<and>
    rs_commits s' = put_req i (unclaim_row u) (stored s) # rs_commits s"
proof -
  have "integrity (put_req i (unclaim_row u) (hd (rs_commits s)))"
    using assms by (cases "rs_commits s") (auto simp: committed_ok_def integrity_unclaim)
  then show ?thesis
    by (simp add: release_claim_def bindM_def thenM_def tryM_def rollbackM_def writeM_def commitM_def returnM_def
        stored_def)
qed

lemma claimed_start:
  assumes "integrity d" "get_req d i = Some q" "claimable t q"
  shows "history d (claimed_state V u i t d w)" "holds (settling u i) (claimed_state V u i t d w)"
proof -
  show "history d (claimed_state V u i t d w)"
    using assms integrity_claim_row[OF assms] by (simp add: history_def committed_ok_def claimed_state_def)
  have "settling u i (put_req i (claim_row (pv_settings V) u t) d)"
    using assms(2) by (simp add: settling_def get_put_req claim_row_def)
  then show "holds (settling u i) (claimed_state V u i t d w)"
    by (simp add: holds_def stored_def claimed_state_def)
qed

text \<open>What the \<open>finally\<close> of \<open>run\<close> leaves of the state the steps ended in.\<close>

lemma finally_release:
  assumes "m s = (r, s1)" "committed_ok s1"
  shows "\<exists>s2. finallyM m (release_claim u i) s = (r, s2) \<and> rs_calls s2 = rs_calls s1 \<and>
    rs_commits s2 = put_req i (unclaim_row u) (stored s1) # rs_commits s1"
  using release_claim_result[OF assms(2), of u i] assms(1) by (auto simp: finallyM_def)

lemma settled_unclaim: "settling u i d \<Longrightarrow> settled i (put_req i (unclaim_row u) d)"
proof -
  assume "settling u i d"
  then obtain r where r: "get_req d i = Some r"
    "provisioning_terminal (req_status r) \<or> req_status r = Prov_RUNNING \<and> req_runner_id r \<in> {None, Some u}"
    by (auto simp: settling_def)
  have "get_req (put_req i (unclaim_row u) d) i = Some (unclaim_row u r)"
    using r(1) by (simp add: get_put_req unclaim_row_def)
  with r(2) show ?thesis by (auto simp: settled_def unclaim_row_def)
qed

lemma run_claimed_settles:
  assumes "integrity d" "get_req d i = Some q" "claimable t q"
    "finallyM (run_claimed V u i) (release_claim u i) (claimed_state V u i t d w) = (r, s)"
  shows "settled i (stored s) \<and> integrity (stored s)"
proof -
  obtain r1 s1 where run: "run_claimed V u i (claimed_state V u i t d w) = (r1, s1)" by fastforce
  note start = claimed_start[OF assms(1-3), where V = V and u = u and w = w]
  have s1: "history d s1" "holds (settling u i) s1"
    using integral.run_claimed_ends[OF start(1), of V u i] settle.run_claimed_ends[OF start(2), of V u] run
    by (auto simp: wp_def split: sum.splits)
  obtain s2 where "finallyM (run_claimed V u i) (release_claim u i) (claimed_state V u i t d w) = (r1, s2)"
    "rs_commits s2 = put_req i (unclaim_row u) (stored s1) # rs_commits s1"
    using finally_release[of "run_claimed V u i", OF run] s1(1) by (auto simp: history_def)
  moreover have "integrity (stored s1)"
    using s1(1) by (cases "rs_commits s1") (auto simp: history_def committed_ok_def stored_def)
  ultimately show ?thesis
    using assms(4) s1(2) integrity_unclaim settled_unclaim by (auto simp: holds_def stored_def)
qed

section \<open>What a run that returns has done\<close>

definition failed_result :: "uuid \<Rightarrow> db \<Rightarrow> bool" where
  "failed_result i d \<longleftrightarrow> (\<exists>r. get_req d i = Some r \<and> req_status r \<in> {Prov_FAILED, Prov_MANUAL_REVIEW} \<and>
     req_runner_id r = None \<and> \<not> has_password r)"

definition step_done :: "uuid \<Rightarrow> db \<Rightarrow> bool" where
  "step_done k d \<longleftrightarrow> (\<exists>x. get_step d k = Some x \<and> step_status x = Step_SUCCEEDED)"

definition step_keys :: "db \<Rightarrow> (uuid \<times> uuid) list" where
  "step_keys d = map (\<lambda>x. (step_id x, step_request_id x)) (steps d)"

definition progress :: "(uuid \<times> uuid) list \<Rightarrow> uuid set \<Rightarrow> db \<Rightarrow> bool" where
  "progress ks K d \<longleftrightarrow> step_keys d = ks \<and> (\<forall>k \<in> K. step_done k d)"

lemma failed_result_closed: "handler_closed i (failed_result i)"
  unfolding handler_closed_def failed_result_def
proof (intro allI impI, elim exE conjE)
  fix d d' :: db and r assume "list_all2 (req_le i) (requests d) (requests d')" "get_req d i = Some r"
    and r: "req_status r \<in> {Prov_FAILED, Prov_MANUAL_REVIEW}" "req_runner_id r = None" "\<not> has_password r"
  from get_req_le[OF this(1,2)] obtain r' where "get_req d' i = Some r'" "req_le i r r'" by blast
  with r show "\<exists>r. get_req d' i = Some r \<and> req_status r \<in> {Prov_FAILED, Prov_MANUAL_REVIEW} \<and>
     req_runner_id r = None \<and> \<not> has_password r"
    by (auto simp: req_le_def)
qed

lemma step_done_view: "step_done k d \<longleftrightarrow> (\<exists>x. get_row step_id (map step_view (steps d)) k = Some x \<and> step_status x = Step_SUCCEEDED)"
proof -
  have "get_row step_id (map step_view xs) k = map_option step_view (get_row step_id xs k)" for xs
    by (induction xs) (simp_all add: table_simps step_view_def)
  then show ?thesis by (auto simp: step_done_def step_view_def)
qed

lemma step_keys_view: "step_keys d = map (\<lambda>x. (step_id x, step_request_id x)) (map step_view (steps d))"
  by (simp add: step_keys_def step_view_def)

lemma progress_closed: "handler_closed i (progress ks K)"
  by (simp add: handler_closed_def progress_def step_done_view step_keys_view)

lemma progress_other [simp]:
  "progress ks K (put_req i f d) = progress ks K d" "progress ks K (add_audit_event c e d) = progress ks K d"
  by (simp_all add: progress_def step_keys_def step_done_def)

lemma progress_put_step:
  assumes "progress ks K d" "k \<notin> K" "\<And>x. step_id (f x) = step_id x" "\<And>x. step_request_id (f x) = step_request_id x"
  shows "progress ks K (put_step k f d)"
  using assms by (auto simp: progress_def step_keys_def step_done_def get_modify_row)

section \<open>Failing\<close>

lemma close_request_result:
  "wp (close_request V i review e st) (\<lambda>_. holds (failed_result i)) (\<lambda>_ _. True) s"
proof -
  have status: "req_status (fail_row review e t r) \<in> {Prov_FAILED, Prov_MANUAL_REVIEW} \<and>
      req_runner_id (fail_row review e t r) = None \<and> req_id (fail_row review e t r) = req_id r" for t r
    by (simp add: fail_row_def)
  have clear: "req_status (clear_password t r) = req_status r \<and> req_runner_id (clear_password t r) = req_runner_id r \<and>
      \<not> has_password (clear_password t r) \<and> req_id (clear_password t r) = req_id r" for t r
    by (simp add: clear_password_def has_password_def)
  show ?thesis
    unfolding close_request_def clear_initial_password_def request_row_def wp_rules
    using status clear
    by (auto split: prod.splits option.splits if_splits
        simp: wp_rules holds_def stored_def failed_result_def get_put_req)
qed

lemma fail_request_result:
  assumes "pr_request me = i"
  shows "wp (fail_request V me st e) (\<lambda>_. holds (failed_result i)) (\<lambda>_ _. True) s"
proof -
  have tail: "wp (if review then bindM (tryM (thenM (record_partial_workload V i) commitM))
     (\<lambda>x. case x of Inr _ \<Rightarrow> returnM () | Inl _ \<Rightarrow> rollbackM) else returnM ())
     (\<lambda>_. holds (failed_result i)) (\<lambda>_ _. True) s1" if "holds (failed_result i) s1" for review s1
    using provisioning_invariant.keeps_review_tail[OF holds_handlers[OF failed_result_closed],
        where review = review and V = V and i = i] that
    unfolding keeps_def by (blast intro: wp_mono)
  have close: "wp (close_request V i review e st') (\<lambda>_. wp (if review then bindM (tryM (thenM (record_partial_workload V i) commitM))
     (\<lambda>x. case x of Inr _ \<Rightarrow> returnM () | Inl _ \<Rightarrow> rollbackM) else returnM ())
     (\<lambda>_. holds (failed_result i)) (\<lambda>_ _. True)) (\<lambda>_ _. True) s1" for review st' s1
    by (rule wp_mono[OF close_request_result]) (simp_all add: tail)
  show ?thesis
    unfolding fail_request_def Let_def assms wp_thenM wp_bindM[of "request_row i"]
      wp_bindM[of "if must_review r e then _ else _" for r]
    by (rule wp_any, rule wp_any, rule wp_any, rule close) simp_all
qed

section \<open>The steps\<close>

definition clean :: "'w rs \<Rightarrow> bool" where
  "clean s \<longleftrightarrow> rs_commits s \<noteq> [] \<and> rs_db s = stored s"

lemma wp_commit_clean:
  "wp m (\<lambda>_ t. A (rs_db t)) E s \<Longrightarrow> (\<And>t. E IntegrityError t) \<Longrightarrow>
   wp (thenM m commitM) (\<lambda>_ t. holds A t \<and> clean t) E s"
  unfolding wp_thenM by (erule wp_mono) (simp_all add: wp_commitM holds_def clean_def stored_def)

lemma end_step_result:
  assumes "holds (progress ks K) s" "step_done (step_id st) (rs_db s) \<or> get_step (rs_db s) (step_id st) \<noteq> None"
    "step_id st \<notin> K"
  shows "wp (end_step V i st res) (\<lambda>_ t. holds (progress ks (insert (step_id st) K)) t \<and> clean t) (\<lambda>_ _. True) s"
proof -
  have p: "progress ks K (rs_db s)" using assms(1) by (simp add: holds_def)
  have row: "\<exists>x. get_step (rs_db s) (step_id st) = Some x" using assms(2) by (auto simp: step_done_def)
  have "progress ks (insert (step_id st) K) (put_step (step_id st) (\<lambda>x. x\<lparr>step_status := Step_SUCCEEDED,
      step_safe_result := res, step_finished_at := Some t\<rparr>) (rs_db s))" for t
    using progress_put_step[OF p assms(3), of "\<lambda>x. x\<lparr>step_status := Step_SUCCEEDED, step_safe_result := res,
      step_finished_at := Some t\<rparr>"] row
    by (auto simp: progress_def step_done_def get_modify_row)
  then show ?thesis
    unfolding end_step_def touch_lease_def
    by (simp add: wp_rules holds_def clean_def stored_def split: prod.splits)
qed

lemma execute_keeps_progress:
  assumes "pr_request me = i" "holds (progress ks K) s"
  shows "wp (execute_step V me st api) (\<lambda>_. holds (progress ks K)) (\<lambda>_. holds (progress ks K)) s"
  using provisioning_invariant.keeps_execute_step[OF holds_handlers[OF progress_closed] assms(1),
      where V = V and st = st and api = api] assms(2)
  unfolding keeps_def by blast

lemma begin_step_result:
  assumes "holds (progress ks K) s" "step_id st \<notin> K"
  shows "wp (begin_step V i st) (\<lambda>_. holds (progress ks K)) (\<lambda>_ _. True) s"
proof -
  have "progress ks K (put_step (step_id st) (\<lambda>x. x\<lparr>step_status := Step_RUNNING,
      step_started_at := (case step_started_at x of Some t \<Rightarrow> Some t | None \<Rightarrow> Some now),
      step_attempt_count := step_attempt_count x + 1, step_error_code := None, step_error_summary := None\<rparr>)
      (put_req i f (put_req i g (rs_db s))))" for now f g
    by (rule progress_put_step) (use assms in \<open>simp_all add: holds_def\<close>)
  then show ?thesis
    unfolding begin_step_def touch_lease_def
    by (simp add: wp_rules holds_def stored_def split: prod.splits)
qed

lemma run_step_result:
  assumes me: "pr_request me = i" and start: "holds (progress ks K) s" "clean s" and key: "step_id st \<in> fst ` set ks"
  shows "wp (run_step V me api st)
    (\<lambda>go t. if go then holds (progress ks (insert (step_id st) K)) t \<and> clean t else holds (failed_result i) t)
    (\<lambda>_ _. True) s"
proof -
  have present: "get_step d (step_id st) \<noteq> None" if "progress ks K d" for d
    using that key by (auto simp: progress_def step_keys_def get_row_None)
  have fin: "wp (end_step V i st res) (\<lambda>_ t. holds (progress ks (insert (step_id st) K)) t \<and> clean t) (\<lambda>_ _. True) t"
    if "holds (progress ks K) t" "step_id st \<notin> K" for t res
    by (rule end_step_result[OF that(1) _ that(2)]) (use that(1) present in \<open>simp add: holds_def\<close>)
  have fail: "wp (fail_request V me (Some st) e) (\<lambda>_. holds (failed_result i)) (\<lambda>_ _. True) t" for e t
    by (rule fail_request_result[OF me])
  obtain x where x: "get_step (rs_db s) (step_id st) = Some x"
    using present[of "rs_db s"] start(1) by (auto simp: holds_def)
  show ?thesis
  proof (cases "step_status x = Step_SUCCEEDED")
    case True
    then have "progress ks (insert (step_id st) K) (rs_db s)"
      using start(1) x by (auto simp: holds_def progress_def step_done_def)
    then have "holds (progress ks (insert (step_id st) K)) s" using start by (auto simp: holds_def clean_def)
    then show ?thesis
      using True x start(2) by (simp add: run_step_def step_row_def wp_rules)
  next
    case False
    then have k: "step_id st \<notin> K" using x start(1) by (auto simp: holds_def progress_def step_done_def)
    let ?Q = "\<lambda>go t. if go then holds (progress ks (insert (step_id st) K)) t \<and> clean t else holds (failed_result i) t"
    have after: "wp (after_step V me st (Inr res)) ?Q (\<lambda>_ _. True) t" if "holds (progress ks K) t" for res t
      using fin[OF that k] me by (simp add: after_step_def wp_rules)
    have after_error: "wp (after_step V me st (Inl e)) ?Q (\<lambda>_ _. True) t" for e t
      by (cases e) (simp_all add: after_step_def wp_rules fail wp_any)
    have exec: "wp (tryM (execute_step V me st api)) (\<lambda>r. wp (after_step V me st r) ?Q (\<lambda>_ _. True)) (\<lambda>_ _. True) t"
      if "holds (progress ks K) t" for t
      unfolding wp_tryM by (rule wp_mono[OF execute_keeps_progress[OF me that]]) (simp_all add: after after_error)
    have "wp (begin_step V (pr_request me) st) (\<lambda>_. wp (tryM (execute_step V me st api))
        (\<lambda>r. wp (after_step V me st r) ?Q (\<lambda>_ _. True)) (\<lambda>_ _. True)) (\<lambda>_ _. True) s"
      by (rule wp_mono[OF begin_step_result[OF start(1) k]]) (use exec in simp_all)
    then show ?thesis
      using False x unfolding run_step_def step_row_def wp_bindM wp_thenM wp_readM
      by (simp add: wp_rules)
  qed
qed

lemma run_steps_result:
  fixes V :: "'w prov_env"
  assumes "pr_request me = i" "holds (progress ks K) s" "clean s" "step_id ` set sts \<subseteq> fst ` set ks"
  shows "wp (run_steps V me api sts)
    (\<lambda>ok t. if ok then holds (progress ks (K \<union> step_id ` set sts)) t \<and> clean t else holds (failed_result i) t)
    (\<lambda>_ _. True) s"
  using assms(2-)
proof (induction sts arbitrary: K s)
  case (Cons st sts)
  have step: "wp (run_step V me api st)
    (\<lambda>go t. if go then holds (progress ks (insert (step_id st) K)) t \<and> clean t else holds (failed_result i) t)
    (\<lambda>_ _. True) s"
    by (rule run_step_result[OF assms(1) Cons.prems(1,2)]) (use Cons.prems(3) in simp)
  have sub: "step_id ` set sts \<subseteq> fst ` set ks" using Cons.prems(3) by simp
  show ?case
    unfolding run_steps.simps wp_bindM
  proof (rule wp_mono[OF step])
    fix go and t :: "'w rs"
    assume "if go then holds (progress ks (insert (step_id st) K)) t \<and> clean t else holds (failed_result i) t"
    then show "wp (if go then run_steps V me api sts else returnM False)
      (\<lambda>ok t. if ok then holds (progress ks (K \<union> step_id ` set (st # sts))) t \<and> clean t else holds (failed_result i) t)
      (\<lambda>_ _. True) t"
      using Cons.IH[OF _ _ sub, of "insert (step_id st) K" t] by (cases go) (auto simp: wp_returnM elim!: wp_mono split: if_splits)
  qed simp
qed (simp add: wp_returnM)

definition all_done :: "uuid \<Rightarrow> db \<Rightarrow> bool" where
  "all_done i d \<longleftrightarrow> (\<forall>x \<in> set (steps d). step_request_id x = i \<longrightarrow> step_status x = Step_SUCCEEDED)"

lemma progress_all_done:
  assumes "progress ks (fst ` {k \<in> set ks. snd k = i}) d" "distinct (map fst ks)"
  shows "all_done i d"
  unfolding all_done_def
proof (intro ballI impI)
  fix x assume x: "x \<in> set (steps d)" "step_request_id x = i"
  have keys: "ks = map (\<lambda>x. (step_id x, step_request_id x)) (steps d)"
    using assms(1) by (simp add: progress_def step_keys_def)
  have "distinct (map step_id (steps d))" using assms(2) unfolding keys by (simp add: comp_def)
  then have "get_step d (step_id x) = Some x" using x(1) by (rule get_row_mem)
  moreover have "step_id x \<in> fst ` {k \<in> set ks. snd k = i}" using x by (force simp: keys)
  then have "step_done (step_id x) d" using assms(1) by (auto simp: progress_def)
  ultimately show "step_status x = Step_SUCCEEDED" by (simp add: step_done_def)
qed

definition run_result :: "uuid \<Rightarrow> db \<Rightarrow> bool" where
  "run_result i d \<longleftrightarrow> failed_result i d \<or>
     (\<exists>r. get_req d i = Some r \<and> req_status r = Prov_SUCCEEDED \<and> req_runner_id r = None \<and> all_done i d)"

lemma run_result_failed: "failed_result i d \<Longrightarrow> run_result i d"
  by (simp add: run_result_def)

lemma succeed_request_result:
  assumes "all_done i (rs_db s)"
  shows "wp (succeed_request V i actor) (\<lambda>_ t. run_result i (stored t)) (\<lambda>_ _. True) s"
  using assms unfolding succeed_request_def request_row_def
  by (auto simp: wp_rules stored_def run_result_def all_done_def get_put_req succeed_row_def
      split: prod.splits option.splits)

lemma run_claimed_result:
  fixes V :: "'w prov_env"
  assumes "clean s" "distinct (map step_id (steps (rs_db s)))"
  shows "wp (run_claimed V u i) (\<lambda>_ t. run_result i (stored t)) (\<lambda>_ _. True) s"
proof -
  let ?ks = "step_keys (rs_db s)" and ?sts = "request_steps (rs_db s) i"
  have ids: "fst ` {k \<in> set ?ks. snd k = i} = step_id ` set ?sts" "step_id ` set ?sts \<subseteq> fst ` set ?ks"
    by (force simp: step_keys_def request_steps_def)+
  have dist: "distinct (map fst ?ks)" using assms(2) by (simp add: step_keys_def comp_def)
  have start: "holds (progress ?ks {}) s" using assms(1) by (simp add: clean_def holds_def progress_def)
  have succ: "wp (succeed_request V i x) (\<lambda>_ t. run_result i (stored t)) (\<lambda>_ _. True) t"
    if "progress ?ks (step_id ` set ?sts) (rs_db t)" for x t
    by (rule succeed_request_result[OF progress_all_done[OF _ dist]]) (use that ids(1) in simp)
  have steps: "wp (bindM (run_steps V me api ?sts) (\<lambda>ok. if ok then succeed_request V i x else returnM ()))
      (\<lambda>_ t. run_result i (stored t)) (\<lambda>_ _. True) s" if "pr_request me = i" for me api x
    unfolding wp_bindM
  proof (rule wp_mono[OF run_steps_result[OF that start assms(1) ids(2)]])
    fix ok and t :: "'w rs"
    assume "if ok then holds (progress ?ks ({} \<union> step_id ` set ?sts)) t \<and> clean t else holds (failed_result i) t"
    then show "wp (if ok then succeed_request V i x else returnM ()) (\<lambda>_ t. run_result i (stored t)) (\<lambda>_ _. True) t"
      by (cases ok) (auto simp: holds_def wp_returnM run_result_failed succ)
  qed simp
  have fail: "wp (fail_request V me None e) (\<lambda>_ t. run_result i (stored t)) (\<lambda>_ _. True) t" if "pr_request me = i" for me e t
    by (rule wp_mono[OF fail_request_result[OF that]]) (simp_all add: holds_def run_result_def)
  show ?thesis
  proof (cases "get_req (rs_db s) i")
    case None
    then show ?thesis by (simp add: run_claimed_def request_row_def wp_rules)
  next
    case (Some r)
    let ?actor = "get_user (rs_db s) (req_requested_by_id r)"
    let ?api = "open_provisioning_client V (req_target_cluster_id r) (rs_db s)"
    define m where "m = (if \<not> requester_ok ?actor
       then thenM (writeM (put_req i (\<lambda>x. x\<lparr>req_runner_id := None, req_lease_expires_at := None\<rparr>)))
         (fail_request V \<lparr>pr_request = i, pr_runner_id = u, pr_actor = None\<rparr> None permission_revoked)
       else bindM (run_steps V \<lparr>pr_request = i, pr_runner_id = u, pr_actor = ?actor\<rparr> ?api ?sts)
         (\<lambda>ok. if ok then succeed_request V i (the ?actor) else returnM ()))"
    have "run_claimed V u i s = m s"
      unfolding m_def using Some by (simp add: run_claimed_def request_row_def bindM_def readM_def returnM_def)
    moreover have "wp m (\<lambda>_ t. run_result i (stored t)) (\<lambda>_ _. True) s"
      unfolding m_def by (auto simp: wp_thenM wp_writeM steps fail)
    ultimately show ?thesis using wp_same[of "run_claimed V u i" s m] by simp
  qed
qed

section \<open>Whole runs\<close>

text \<open>The clock the claim is made by.\<close>

definition claim_time :: "'w prov_env \<Rightarrow> 'w \<Rightarrow> datetime" where
  "claim_time V w = fst (re_now (pv_env V) (snd (re_uuid4 (pv_env V) w)))"

lemma run_unclaimable:
  assumes "integrity d" "get_req d i = Some q" "\<not> claimable (claim_time V w) q"
  shows "\<exists>s. run_provisioning_request V i d w = (Inr (), s) \<and> stored s = d \<and> rs_calls s = []"
proof -
  obtain u w1 t w2 where w: "re_uuid4 (pv_env V) w = (u, w1)" "re_now (pv_env V) w1 = (t, w2)" by fastforce
  then show ?thesis
    using run_provisioning_cases[OF assms(1,2) w] assms(3) by (simp add: claim_time_def stored_def)
qed

lemma run_claimable:
  assumes "integrity d" "get_req d i = Some q" "claimable (claim_time V w) q"
    "run_provisioning_request V i d w = (r, s)"
  obtains u w2 where "finallyM (run_claimed V u i) (release_claim u i) (claimed_state V u i (claim_time V w) d w2) = (r, s)"
proof -
  obtain u w1 t w2 where w: "re_uuid4 (pv_env V) w = (u, w1)" "re_now (pv_env V) w1 = (t, w2)" by fastforce
  then have "t = claim_time V w" by (simp add: claim_time_def)
  then show ?thesis
    using that run_provisioning_cases[OF assms(1,2) w] assms(3,4) by simp
qed

lemma run_settles:
  assumes "integrity d" "get_req d i = Some q" "claimable (claim_time V w) q"
    "run_provisioning_request V i d w = (r, s)"
  shows "settled i (stored s) \<and> integrity (stored s)"
  by (rule run_claimable[OF assms]) (rule run_claimed_settles[OF assms(1-3)])

lemma run_returns_result:
  assumes "integrity d" "get_req d i = Some q" "claimable (claim_time V w) q"
    "run_provisioning_request V i d w = (Inr (), s)"
  shows "run_result i (stored s)"
proof -
  obtain u w2 where fin:
    "finallyM (run_claimed V u i) (release_claim u i) (claimed_state V u i (claim_time V w) d w2) = (Inr (), s)"
    using run_claimable[OF assms] .
  let ?s0 = "claimed_state V u i (claim_time V w) d w2"
  obtain r1 s1 where run: "run_claimed V u i ?s0 = (r1, s1)" by fastforce
  have "history d s1"
    using integral.run_claimed_ends[OF claimed_start(1)[OF assms(1-3), where V = V and u = u and w = w2], of V u i] run
    by (auto simp: wp_def split: sum.splits)
  then have "committed_ok s1" by (simp add: history_def)
  from finally_release[of "run_claimed V u i", OF run this, of u i] fin
  have s: "r1 = Inr ()" "stored s = put_req i (unclaim_row u) (stored s1)" by (auto simp: stored_def)
  have "distinct (map step_id (steps d))"
    using assms(1) by (simp add: integrity_def tables_ok_def steps_ok_def)
  then have "wp (run_claimed V u i) (\<lambda>_ t. run_result i (stored t)) (\<lambda>_ _. True) ?s0"
    by (intro run_claimed_result) (simp_all add: clean_def claimed_state_def stored_def)
  with run s(1) have "run_result i (stored s1)" by (simp add: wp_def)
  moreover from this obtain r where "get_req (stored s1) i = Some r" "req_runner_id r = None"
    by (auto simp: run_result_def failed_result_def)
  then have "get_req (stored s) i = get_req (stored s1) i"
    unfolding s(2) by (subst get_put_req) (simp_all add: unclaim_row_def)
  moreover have "steps (stored s) = steps (stored s1)" by (simp add: s(2))
  ultimately show ?thesis by (simp add: run_result_def failed_result_def all_done_def)
qed

end
