(* ===== verification/Provisioning_Safety.thy ===== *)
theory Provisioning_Safety
  imports Provisioning_Result
begin

text \<open>
  Once the clone of a guest may have been submitted, the resources of the request are kept: the
  request is not set to \<open>FAILED\<close> (which would free its VMID), and its address stays reserved.  The
  flag \<open>clone_submitted\<close> is committed before the call is made.
\<close>

section \<open>The flag and what it protects\<close>

definition flagged :: "uuid \<Rightarrow> db \<Rightarrow> bool" where
  "flagged i d \<longleftrightarrow> (\<exists>r. get_req d i = Some r \<and> req_clone_submitted r)"

definition failed :: "uuid \<Rightarrow> db \<Rightarrow> bool" where
  "failed i d \<longleftrightarrow> (case get_req d i of None \<Rightarrow> True | Some r \<Rightarrow> req_status r = Prov_FAILED)"

definition holds_address :: "uuid \<Rightarrow> ip_allocation \<Rightarrow> bool" where
  "holds_address i l \<longleftrightarrow> alloc_provisioning_request_id l = Some i \<and> alloc_status l \<in> {Alloc_RESERVED, Alloc_ASSIGNED}"

definition address_kept :: "uuid \<Rightarrow> db \<Rightarrow> db \<Rightarrow> bool" where
  "address_kept i d d' \<longleftrightarrow> (\<forall>l \<in> set (ip_allocations d). holds_address i l \<longrightarrow>
     (\<exists>l' \<in> set (ip_allocations d'). holds_address i l' \<and> alloc_id l' = alloc_id l \<and>
        alloc_ip_address_id l' = alloc_ip_address_id l))"

definition clone_kept :: "uuid \<Rightarrow> db \<Rightarrow> db \<Rightarrow> bool" where
  "clone_kept i d d' \<longleftrightarrow> (flagged i d \<longrightarrow> flagged i d' \<and> address_kept i d d') \<and> (flagged i d' \<longrightarrow> \<not> failed i d')"

definition clone_called :: "'w rs \<Rightarrow> bool" where
  "clone_called s \<longleftrightarrow> (\<exists>c \<in> set (rs_calls s). call_name c = ''clone_qemu_template'')"

definition clone_safe :: "uuid \<Rightarrow> 'w rs \<Rightarrow> bool" where
  "clone_safe i s \<longleftrightarrow> rs_commits s \<noteq> [] \<and>
     (\<forall>c \<in> set (rs_commits s). clone_kept i c (rs_db s) \<and> clone_kept i c (stored s)) \<and>
     (clone_called s \<longrightarrow> flagged i (rs_db s) \<and> flagged i (stored s))"

text \<open>While the steps run the request is not failed either.\<close>

definition clone_running :: "uuid \<Rightarrow> 'w rs \<Rightarrow> bool" where
  "clone_running i s \<longleftrightarrow> clone_safe i s \<and> \<not> failed i (rs_db s) \<and> \<not> failed i (stored s)"

definition clone_step :: "uuid \<Rightarrow> db \<Rightarrow> db \<Rightarrow> bool" where
  "clone_step i d d' \<longleftrightarrow> (flagged i d \<longrightarrow> flagged i d' \<and> address_kept i d d') \<and> \<not> failed i d'"

lemma address_kept_refl [simp]: "ip_allocations d' = ip_allocations d \<Longrightarrow> address_kept i d d'"
  by (auto simp: address_kept_def)

lemma address_kept_trans: "address_kept i c d \<Longrightarrow> address_kept i d d' \<Longrightarrow> address_kept i c d'"
  unfolding address_kept_def by metis

lemma clone_kept_step: "clone_kept i c d \<Longrightarrow> clone_step i d d' \<Longrightarrow> clone_kept i c d'"
  by (auto simp: clone_kept_def clone_step_def intro: address_kept_trans)

lemma flagged_le:
  "list_all2 (req_le i) (requests d) (requests d') \<Longrightarrow> flagged i d \<Longrightarrow> flagged i d'"
  unfolding flagged_def using get_req_le by (fastforce simp: req_le_def)

lemma failed_le:
  assumes "list_all2 (req_le i) (requests d) (requests d')"
  shows "failed i d' \<longleftrightarrow> failed i d"
  using assms unfolding failed_def
  by (induction rule: list_all2_induct) (auto simp: table_simps req_le_def split: if_splits)

lemma clone_step_frame: "prov_frame i d d' \<Longrightarrow> \<not> failed i d \<Longrightarrow> clone_step i d d'"
  using flagged_le[of i d d'] failed_le[of i d d'] by (auto simp: prov_frame_def clone_step_def)

lemma same_requests: "requests d' = requests d \<Longrightarrow> flagged i d' = flagged i d \<and> failed i d' = failed i d"
  by (simp add: flagged_def failed_def)

lemma flagged_put_req:
  assumes "\<And>r. req_id r = i \<Longrightarrow> req_id (f r) = i" "\<And>r. req_clone_submitted (f r) = req_clone_submitted r"
  shows "flagged i (put_req i f d) = flagged i d"
  using assms by (auto simp: flagged_def get_put_req)

section \<open>Rules\<close>

lemma clone_running_write:
  assumes "\<And>d. \<not> failed i d \<Longrightarrow> clone_step i d (f d)"
  shows "keeps (clone_running i :: 'w rs \<Rightarrow> bool) (writeM f)"
proof -
  have "clone_running i (s\<lparr>rs_db := f (rs_db s)\<rparr>)" if "clone_running i s" for s :: "'w rs"
    using that assms[of "rs_db s"] clone_kept_step
    by (auto simp: clone_running_def clone_safe_def clone_called_def clone_step_def stored_def)
  then show ?thesis by (simp add: keeps_def wp_rules)
qed

lemma clone_kept_self: "clone_kept i c d \<Longrightarrow> clone_kept i d d"
  by (simp add: clone_kept_def)

lemmas clone_running_defs = clone_running_def clone_safe_def clone_called_def stored_def

lemma clone_running_commit: "keeps (clone_running i :: 'w rs \<Rightarrow> bool) commitM"
proof -
  have "clone_running i (s\<lparr>rs_commits := rs_db s # rs_commits s\<rparr>)" if "clone_running i s" for s :: "'w rs"
    using that clone_kept_self by (cases "rs_commits s") (auto simp: clone_running_defs)
  moreover have "clone_running i (s\<lparr>rs_db := hd (rs_commits s)\<rparr>)" if "clone_running i s" for s :: "'w rs"
    using that by (auto simp: clone_running_defs)
  ultimately show ?thesis by (simp add: keeps_def wp_rules)
qed

lemma clone_running_basic:
  "worldless (clone_running i)" "keeps (clone_running i) rollbackM"
  "nm \<noteq> ''clone_qemu_template'' \<Longrightarrow> keeps (clone_running i) (callM nm args h)"
  by (auto simp: worldless_def keeps_def wp_rules clone_running_defs split: prod.splits sum.splits)

lemma clone_running_service:
  assumes "\<And>d r d'. f d = (r, d') \<Longrightarrow> \<not> failed i d \<Longrightarrow> clone_step i d d'"
  shows "keeps (clone_running i :: 'w rs \<Rightarrow> bool) (serviceM f)"
proof -
  have "clone_running i (after_service r d' s)" if "f (rs_db s) = (r, d')" "clone_running i s" for s :: "'w rs" and r d'
  proof (cases "d' = rs_db s")
    case True
    with that(2) show ?thesis
      by (auto simp: after_service_def clone_running_def clone_safe_def clone_called_def stored_def)
  next
    case False
    have step: "clone_step i (rs_db s) d'" using assms[OF that(1)] that(2) by (simp add: clone_running_def)
    then have "\<forall>c \<in> set (rs_commits s). clone_kept i c d'"
      using that(2) clone_kept_step by (auto simp: clone_running_def clone_safe_def)
    moreover have "clone_kept i d' d'" using calculation that(2) clone_kept_self
      by (cases "rs_commits s") (auto simp: clone_running_def clone_safe_def)
    ultimately show ?thesis
      using that(2) step False
      by (auto simp: after_service_def clone_running_def clone_safe_def clone_called_def stored_def clone_step_def)
  qed
  then show ?thesis by (auto simp: keeps_def wp_rules split: prod.splits sum.splits)
qed

section \<open>Step handlers\<close>

lemma candidate_allocations:
  "available_candidate fresh draws p q d = Inr (a, d1) \<Longrightarrow> ip_allocations d1 = ip_allocations d"
  by (auto simp: available_candidate_def candidate_address_def automatic_candidate_def result_simps Let_def
      add_addr_def put_pool_def unavailable_def split: option.splits if_splits prod.splits)

lemma reserve_clone_step:
  assumes "reserve_for_provisioning sv fresh draws p j q d = (r, d')" "\<not> failed i d"
  shows "clone_step i d d'"
proof -
  have "address_kept i d d'"
  proof (cases "d' = d")
    case False
    from reserve_for_provisioning_outcome[OF assms(1) this] candidate_allocations
    have "\<exists>l. ip_allocations d' = ip_allocations d @ [l]" by (fastforce simp: add_alloc_def put_addr_def)
    then show ?thesis by (auto simp: address_kept_def)
  qed simp
  then show ?thesis using same_requests[of d' d i] reserve_requests[OF assms(1)] assms(2) by (auto simp: clone_step_def)
qed

lemma address_kept_modify:
  assumes "ip_allocations d' = modify_row alloc_id k f (ip_allocations d)"
    "\<And>l. alloc_id (f l) = alloc_id l" "\<And>l. alloc_ip_address_id (f l) = alloc_ip_address_id l"
    "\<And>l. holds_address i l \<Longrightarrow> holds_address i (f l)"
  shows "address_kept i d d'"
  unfolding address_kept_def
proof (intro ballI impI)
  fix l assume "l \<in> set (ip_allocations d)" "holds_address i l"
  with assms show "\<exists>l' \<in> set (ip_allocations d'). holds_address i l' \<and> alloc_id l' = alloc_id l \<and>
      alloc_ip_address_id l' = alloc_ip_address_id l"
    by (intro bexI[of _ "if alloc_id l = k then f l else l"]) (auto simp: set_modify_row)
qed

lemma confirm_clone_step:
  assumes "confirm_provisioning_ip sv j w d = (r, d')" "\<not> failed i d"
  shows "clone_step i d d'"
proof -
  have "d' = d \<or> (\<exists>k. ip_allocations d' = modify_row alloc_id k (\<lambda>x. x\<lparr>alloc_workload_id := Some w,
      alloc_status := Alloc_ASSIGNED, alloc_confirmed_at := Some (sv_now sv), alloc_version := alloc_version x + 1\<rparr>)
      (ip_allocations d))"
    using assms(1)
    by (auto simp: confirm_provisioning_ip_def try_in_def commit_in_def put_addr_def put_alloc_def
        split: sum.splits option.splits if_splits)
  then have "address_kept i d d'" by (auto intro: address_kept_modify simp: holds_address_def)
  then show ?thesis using same_requests[of d' d i] confirm_requests[OF assms(1)] assms(2) by (auto simp: clone_step_def)
qed

lemma clone_running_frame: "(\<And>d. prov_frame i d (f d)) \<Longrightarrow> keeps (clone_running i) (writeM f)"
  by (rule clone_running_write) (rule clone_step_frame)

lemmas clone_running_rules = keeps_nowM[OF clone_running_basic(1)] keeps_uuid4M[OF clone_running_basic(1)]
  keeps_drawsM[OF clone_running_basic(1)] clone_running_commit clone_running_basic(2-) keeps_bindM keeps_thenM
  keeps_if keeps_returnM keeps_raiseM keeps_readM keeps_case_option keeps_case_prod

lemma clone_running_rows:
  "keeps (clone_running i) (request_row j)" "keeps (clone_running i) (step_row j)"
  "keeps (clone_running i) (node_of j)" "keeps (clone_running i) (vmid_of j)"
  unfolding request_row_def step_row_def node_of_def vmid_of_def by (intro clone_running_rules)+

text \<open>From the committed flag on.\<close>

definition clone_marked :: "uuid \<Rightarrow> 'w rs \<Rightarrow> bool" where
  "clone_marked i s \<longleftrightarrow> clone_running i s \<and> flagged i (rs_db s) \<and> flagged i (stored s)"

lemma clone_marked_calls: "clone_marked i s \<Longrightarrow> clone_marked i (s\<lparr>rs_world := w, rs_calls := cs\<rparr>)"
  by (auto simp: clone_marked_def clone_running_defs)

lemma clone_marked_write:
  assumes "\<And>d. prov_frame i d (f d)"
  shows "keeps (clone_marked i) (writeM f)"
proof -
  have "flagged i d \<Longrightarrow> flagged i (f d)" for d
    using flagged_le[of i d "f d"] assms[of d] by (simp add: prov_frame_def)
  then show ?thesis
    using keeps_at[OF clone_running_frame[of i f, OF assms]]
    by (auto simp: keeps_def[of "clone_marked i"] wp_rules clone_marked_def stored_def)
qed

lemma clone_marked_commit: "keeps (clone_marked i) commitM"
  unfolding keeps_def
proof (intro allI impI)
  fix s :: "'a rs" assume "clone_marked i s"
  then show "wp commitM (\<lambda>_. clone_marked i) (\<lambda>_. clone_marked i) s"
    using keeps_at[OF clone_running_commit, of i s] by (auto simp: wp_rules clone_marked_def stored_def)
qed

lemma clone_marked_rules:
  "keeps (clone_marked i) (readM f)" "keeps (clone_marked i) (raiseM e)" "keeps (clone_marked i) (returnM x)"
  "keeps (clone_marked i) (callM nm args h)"
  using clone_marked_calls by (fastforce simp: keeps_def wp_rules split: prod.splits sum.splits)+

lemma clone_marked_specs:
  "keeps (clone_marked i) (str_spec j key)" "keeps (clone_marked i) (int_spec j key)" "keeps (clone_marked i) (request_row j)"
  unfolding str_spec_def int_spec_def request_row_def
  by (intro keeps_bindM keeps_case_option clone_marked_rules)+

lemma mark_then:
  assumes "keeps (clone_marked i) m"
  shows "keeps (clone_running i) (thenM (writeM (put_req i (\<lambda>x. x\<lparr>req_clone_submitted := True\<rparr>))) (thenM commitM m))"
  unfolding keeps_def
proof (intro allI impI)
  fix s :: "'a rs" assume s: "clone_running i s"
  let ?s1 = "s\<lparr>rs_db := put_req i (\<lambda>x. x\<lparr>req_clone_submitted := True\<rparr>) (rs_db s)\<rparr>"
  have "prov_frame i d (put_req i (\<lambda>x. x\<lparr>req_clone_submitted := True\<rparr>) d)" for d
    by (rule prov_frame_put_req) (simp add: req_le_def has_password_def)
  from keeps_at[OF clone_running_frame[OF this] s] have s1: "clone_running i ?s1" by (simp add: wp_rules)
  have c: "wp commitM (\<lambda>_. clone_running i) (\<lambda>_. clone_running i) ?s1"
    by (rule keeps_at[OF clone_running_commit s1])
  have "flagged i (rs_db ?s1)"
    using s by (auto simp: clone_running_def failed_def flagged_def get_put_req split: option.splits)
  with c have "wp commitM (\<lambda>_. clone_marked i) (\<lambda>_. clone_running i) ?s1"
    by (auto simp: wp_commitM clone_marked_def stored_def)
  then have "wp commitM (\<lambda>_. wp m (\<lambda>_. clone_running i) (\<lambda>_. clone_running i)) (\<lambda>_. clone_running i) ?s1"
  proof (rule wp_mono)
    fix x and t :: "'a rs" assume "clone_marked i t"
    with assms have "wp m (\<lambda>_. clone_marked i) (\<lambda>_. clone_marked i) t" by (simp add: keeps_def)
    then show "wp m (\<lambda>_. clone_running i) (\<lambda>_. clone_running i) t"
      by (rule wp_mono) (simp_all add: clone_marked_def)
  qed
  then show "wp (thenM (writeM (put_req i (\<lambda>x. x\<lparr>req_clone_submitted := True\<rparr>))) (thenM commitM m))
      (\<lambda>_. clone_running i) (\<lambda>_. clone_running i) s"
    by (simp add: wp_rules)
qed

lemma clone_running_full_clone: "keeps (clone_running i) (full_clone i st api)"
  unfolding full_clone_def vm_exists_def ownership_conflict_def
  by (intro mark_then clone_running_rules clone_running_rows)
    (auto intro!: clone_marked_specs clone_marked_rules clone_marked_write clone_marked_commit prov_frame_put_step
      simp: step_view_def)

lemma clone_running_handlers: "provisioning_invariant (clone_running i) i"
proof -
  have svc: "keeps (clone_running i) (serviceM (reserve_for_provisioning sv fresh draws p j q))" for sv fresh draws p j q
    by (rule clone_running_service) (erule (1) reserve_clone_step)
  have reserve: "keeps (clone_running i) (reserve_ip V me)" if "pr_request me = i" for V :: "'w prov_env" and me
    unfolding reserve_ip_def Let_def ipamM_def that
    by (intro clone_running_rules clone_running_rows svc clone_running_frame prov_frame_put_req)
      (simp_all add: req_le_def has_password_def)
  show ?thesis
    by (rule provisioning_invariant.intro)
      (rule clone_running_frame clone_running_basic clone_running_commit clone_running_full_clone reserve
        | assumption | rule clone_running_service, erule (1) confirm_clone_step)+
qed

section \<open>Failing and succeeding\<close>

text \<open>No clone has been submitted: nothing is protected.\<close>

definition unmarked :: "uuid \<Rightarrow> 'w rs \<Rightarrow> bool" where
  "unmarked i s \<longleftrightarrow> rs_commits s \<noteq> [] \<and> \<not> flagged i (rs_db s) \<and> (\<forall>c \<in> set (rs_commits s). \<not> flagged i c) \<and>
     \<not> clone_called s"

lemma unmarked_safe: "unmarked i s \<Longrightarrow> clone_safe i s"
  by (cases "rs_commits s") (auto simp: unmarked_def clone_safe_def clone_kept_def stored_def)

lemma running_unmarked: "clone_running i s \<Longrightarrow> \<not> flagged i (rs_db s) \<Longrightarrow> unmarked i s"
  by (auto simp: clone_running_def clone_safe_def clone_kept_def unmarked_def)

text \<open>Giving back: unmarked and not failed.\<close>

definition giving :: "uuid \<Rightarrow> 'w rs \<Rightarrow> bool" where
  "giving i s \<longleftrightarrow> unmarked i s \<and> \<not> failed i (rs_db s) \<and> \<not> failed i (stored s)"

lemma giving_running: "giving i s \<Longrightarrow> clone_running i s"
  by (simp add: giving_def clone_running_def unmarked_safe)

lemma giving_rules:
  "worldless (giving i)" "keeps (giving i) commitM" "keeps (giving i) rollbackM"
  "worldless (unmarked i)" "keeps (unmarked i) commitM"
  by (auto simp: worldless_def keeps_def wp_rules giving_def unmarked_def clone_called_def stored_def)

lemma giving_write:
  assumes "\<And>d. flagged i (f d) = flagged i d" "\<And>d. failed i (f d) = failed i d"
  shows "keeps (giving i) (writeM f)"
  using assms by (auto simp: keeps_def wp_rules giving_def unmarked_def clone_called_def stored_def)

lemma unmarked_write: "(\<And>d. flagged i (f d) = flagged i d) \<Longrightarrow> keeps (unmarked i) (writeM f)"
  by (auto simp: keeps_def wp_rules unmarked_def clone_called_def)

lemma giving_quarantine: "keeps (giving i) (serviceM (quarantine_provisioning_ip sv j))"
  unfolding keeps_def wp_serviceM
proof (intro allI impI)
  fix s :: "'a rs" assume s: "giving i s"
  obtain r d' where q: "quarantine_provisioning_ip sv j (rs_db s) = (r, d')" by fastforce
  from same_requests[of d' "rs_db s" i] quarantine_requests[OF q] s
  have "giving i (after_service r d' s)"
    by (auto simp: giving_def unmarked_def after_service_def clone_called_def stored_def)
  with q show "case quarantine_provisioning_ip sv j (rs_db s) of (r, d') \<Rightarrow>
      (case r of Inl e \<Rightarrow> giving i (after_service r d' s) | Inr x \<Rightarrow> giving i (after_service r d' s))"
    by (auto split: sum.splits)
qed

lemma put_other [simp]:
  "flagged i (put_node k g d) = flagged i d" "failed i (put_node k g d) = failed i d"
  "flagged i (add_audit_event c e d) = flagged i d"
  by (simp_all add: flagged_def failed_def put_node_def)

lemma failed_put_req:
  assumes "\<And>r. req_id r = i \<Longrightarrow> req_id (f r) = i" "\<And>r. req_status (f r) = req_status r"
  shows "failed i (put_req i f d) = failed i d"
  using assms by (auto simp: failed_def get_put_req split: option.splits)

lemma giving_back: "pr_request me = i \<Longrightarrow> keeps (giving i) (give_back V me)"
proof -
  assume me: "pr_request me = i"
  have cap: "keeps (giving i) (writeM (\<lambda>d. put_req i (set_capacity_reserved False) (put_node k g d)))" for k g
    by (rule giving_write) (simp_all add: flagged_put_req failed_put_req set_capacity_reserved_def)
  show ?thesis
    unfolding give_back_def Let_def ipamM_def release_node_capacity_def int_spec_def request_row_def me
    by (intro keeps_bindM keeps_tryM keeps_thenM keeps_case_option keeps_nowM[OF giving_rules(1)] keeps_raiseM
        keeps_returnM keeps_readM keeps_if keeps_case_sum keeps_case_exn giving_quarantine cap giving_rules(2))
qed

lemma unmarked_close: "keeps (unmarked i) (close_request V i review e st)"
  unfolding close_request_def clear_initial_password_def request_row_def
  by (intro keeps_bindM keeps_thenM keeps_nowM[OF giving_rules(4)] keeps_readM keeps_case_option keeps_raiseM
      keeps_returnM keeps_if giving_rules(5) unmarked_write)
    (simp_all add: flagged_put_req fail_row_def clear_password_def)

lemma flagged_close [simp]:
  "flagged i (put_req i (fail_row b e t) d) = flagged i d" "flagged i (put_req i (succeed_row t) d) = flagged i d"
  by (simp_all add: flagged_put_req fail_row_def succeed_row_def)

lemma clone_step_put_req:
  assumes "\<And>r. req_id (f r) = req_id r" "\<And>r. req_clone_submitted (f r) = req_clone_submitted r"
    "\<And>r. req_status r \<noteq> Prov_FAILED \<Longrightarrow> req_status (f r) \<noteq> Prov_FAILED" "\<not> failed i d"
  shows "clone_step i d (put_req i f d)"
proof -
  have "\<not> failed i (put_req i f d)" using assms by (auto simp: failed_def get_put_req split: option.splits)
  moreover have "ip_allocations (put_req i f d) = ip_allocations d" by (simp add: put_req_def)
  ultimately show ?thesis using assms(1,2) by (simp add: clone_step_def flagged_put_req)
qed

lemma running_put_req:
  assumes "\<And>r. req_id (f r) = req_id r" "\<And>r. req_clone_submitted (f r) = req_clone_submitted r"
    "\<And>r. req_status r \<noteq> Prov_FAILED \<Longrightarrow> req_status (f r) \<noteq> Prov_FAILED"
  shows "keeps (clone_running i) (writeM (put_req i f))"
  by (rule clone_running_write) (rule clone_step_put_req[OF assms])

lemma running_put_step: "keeps (clone_running i) (writeM (put_step k f))"
proof (rule clone_running_write)
  fix d assume "\<not> failed i d"
  moreover have "ip_allocations (put_step k f d) = ip_allocations d" by (simp add: put_step_def)
  ultimately show "clone_step i d (put_step k f d)"
    using same_requests[of "put_step k f d" d i] by (simp add: clone_step_def)
qed

lemma running_close_review: "keeps (clone_running i) (close_request V i True e st)"
  by (rule provisioning_invariant.keeps_close[OF clone_running_handlers]) (rule running_put_req, simp_all add: fail_row_def)

lemma running_fail:
  assumes me: "pr_request me = i" and s: "clone_running i s"
  shows "wp (fail_request V me st e) (\<lambda>_. clone_safe i) (\<lambda>_. clone_safe i) s"
proof -
  let ?tail = "\<lambda>review. if review then bindM (tryM (thenM (record_partial_workload V i) commitM))
     (\<lambda>x. case x of Inr _ \<Rightarrow> returnM () | Inl _ \<Rightarrow> rollbackM) else returnM ()"
  have safe: "wp m (\<lambda>_. clone_safe i) (\<lambda>_. clone_safe i) t"
    if "keeps (clone_running i) m" "clone_running i t" for m :: "('a, unit) rm" and t
    using that unfolding keeps_def by (blast intro: wp_mono dest: clone_running_def[THEN iffD1])
  have tail: "keeps (clone_running i) (?tail review)" for review
    by (rule provisioning_invariant.keeps_review_tail[OF clone_running_handlers])
  have review: "wp (thenM (close_request V i True e x) (?tail True)) (\<lambda>_. clone_safe i) (\<lambda>_. clone_safe i) t"
    if "clone_running i t" for t x
    by (rule safe[OF keeps_thenM[OF running_close_review tail] that])
  have plain: "wp (thenM (close_request V i False e x) (?tail False)) (\<lambda>_. clone_safe i) (\<lambda>_. clone_safe i) t"
    if "giving i t" for t x
    using keeps_at[OF unmarked_close, of i t V False e x] that unmarked_safe
    by (auto simp: wp_thenM wp_returnM giving_def elim!: wp_mono)
  have decide: "wp (bindM (if must_review r e then returnM True else give_back V me)
      (\<lambda>review. thenM (close_request V i review e x) (?tail review))) (\<lambda>_. clone_safe i) (\<lambda>_. clone_safe i) t"
    if t: "clone_running i t" "get_req (rs_db t) i = Some r" for t r x
  proof (cases "must_review r e")
    case True
    with review[OF t(1)] show ?thesis by (simp add: wp_bindM wp_returnM)
  next
    case False
    then have "\<not> flagged i (rs_db t)" using t(2) by (simp add: must_review_def flagged_def)
    then have "giving i t" using t(1) running_unmarked by (simp add: giving_def clone_running_def)
    then have g: "wp (give_back V me) (\<lambda>_. giving i) (\<lambda>_. giving i) t" by (rule keeps_at[OF giving_back[OF me]])
    have "wp (give_back V me) (\<lambda>b. wp (thenM (close_request V i b e x) (?tail b)) (\<lambda>_. clone_safe i) (\<lambda>_. clone_safe i))
        (\<lambda>_. clone_safe i) t"
    proof (rule wp_mono[OF g])
      fix b and u :: "'a rs" assume u: "giving i u"
      show "wp (thenM (close_request V i b e x) (?tail b)) (\<lambda>_. clone_safe i) (\<lambda>_. clone_safe i) u"
        using review[OF giving_running[OF u]] plain[OF u] by (cases b) simp_all
    qed (simp add: giving_def unmarked_safe)
    with False show ?thesis by (simp add: wp_bindM)
  qed
  have row: "wp (bindM (request_row i) (\<lambda>r. bindM (if must_review r e then returnM True else give_back V me)
      (\<lambda>review. thenM (close_request V i review e x) (?tail review)))) (\<lambda>_. clone_safe i) (\<lambda>_. clone_safe i) t"
    if "clone_running i t" for t x
  proof (cases "get_req (rs_db t) i")
    case None
    with that show ?thesis by (simp add: request_row_def wp_bindM wp_readM wp_raiseM clone_running_def)
  next
    case (Some r)
    with decide[OF that Some] show ?thesis
      by (simp add: wp_bindM[of "request_row i"]) (simp add: request_row_def wp_bindM[of "readM _"] wp_readM wp_returnM)
  qed
  have first: "keeps (clone_running i) (case st of None \<Rightarrow> returnM ()
      | Some x \<Rightarrow> bindM (nowM (pv_env V)) (\<lambda>now. writeM (put_step (step_id x) (fail_step e now))))"
    by (intro clone_running_rules running_put_step)
  show ?thesis
    unfolding fail_request_def Let_def me wp_thenM[of "case st of None \<Rightarrow> _ | Some x \<Rightarrow> _ x"]
    by (rule wp_mono[OF keeps_at[OF first s]]) (use row in \<open>simp_all add: clone_running_def\<close>)
qed

interpretation cloned: provisioning_run_invariant "clone_running i" i "clone_safe i"
proof (rule provisioning_run_invariant.intro[OF clone_running_handlers], rule provisioning_run_invariant_axioms.intro)
  fix s :: "'a rs" and V :: "'a prov_env" and actor assume s: "clone_running i s"
  have "keeps (clone_running i) (succeed_request V i actor)"
    by (rule provisioning_invariant.keeps_succeed_request[OF clone_running_handlers])
      (rule running_put_req, simp_all add: succeed_row_def)
  from keeps_at[OF this s] show "wp (succeed_request V i actor) (\<lambda>_. clone_safe i) (\<lambda>_. clone_safe i) s"
    by (rule wp_mono) (simp_all add: clone_running_def)
qed (auto simp: clone_running_def intro!: running_put_step running_put_req running_fail)

section \<open>A whole run\<close>

lemma claimed_clone_running:
  assumes "get_req d i = Some q" "claimable t q"
  shows "clone_running i (claimed_state V u i t d w)"
proof -
  let ?d = "put_req i (claim_row (pv_settings V) u t) d"
  have "flagged i ?d = flagged i d" by (rule flagged_put_req) (simp_all add: claim_row_def)
  moreover have "\<not> failed i ?d" using assms by (simp add: failed_def get_put_req claim_row_def)
  moreover have "ip_allocations ?d = ip_allocations d" by (simp add: put_req_def)
  ultimately show ?thesis
    by (auto simp: clone_running_def clone_safe_def clone_kept_def claimed_state_def stored_def clone_called_def)
qed

lemma run_keeps_clone:
  assumes "integrity d" "get_req d i = Some q" "claimable (claim_time V w) q"
    "run_provisioning_request V i d w = (r, s)"
  shows "(\<forall>c \<in> set (rs_commits s). clone_kept i c (stored s)) \<and> (clone_called s \<longrightarrow> flagged i (stored s)) \<and> d \<in> set (rs_commits s)"
proof -
  obtain u w2 where fin:
    "finallyM (run_claimed V u i) (release_claim u i) (claimed_state V u i (claim_time V w) d w2) = (r, s)"
    using run_claimable[OF assms] .
  let ?s0 = "claimed_state V u i (claim_time V w) d w2"
  obtain r1 s1 where run: "run_claimed V u i ?s0 = (r1, s1)" by fastforce
  have h: "history d s1"
    using integral.run_claimed_ends[OF claimed_start(1)[OF assms(1-3), where V = V and u = u and w = w2], of V u i] run
    by (auto simp: wp_def split: sum.splits)
  have c: "clone_safe i s1"
    using cloned.run_claimed_ends[OF claimed_clone_running[OF assms(2,3), where V = V and u = u and w = w2], of V u] run
    by (auto simp: wp_def split: sum.splits)
  from finally_release[of "run_claimed V u i", OF run, of u i] h fin
  have s: "rs_commits s = put_req i (unclaim_row u) (stored s1) # rs_commits s1" "rs_calls s = rs_calls s1"
    by (auto simp: history_def)
  let ?d = "put_req i (unclaim_row u) (stored s1)"
  have same: "flagged i ?d = flagged i (stored s1)" "failed i ?d = failed i (stored s1)"
    by (simp_all add: flagged_put_req failed_put_req unclaim_row_def)
  have "address_kept i (stored s1) ?d" by (simp add: put_req_def)
  then have "clone_kept i c ?d" if "clone_kept i c (stored s1)" for c
    using that same address_kept_trans by (auto simp: clone_kept_def)
  moreover from this c have "clone_kept i ?d ?d"
    by (cases "rs_commits s1") (auto simp: clone_safe_def intro: clone_kept_self)
  ultimately show ?thesis
    using c s same history_mem[OF h] by (auto simp: clone_safe_def stored_def clone_called_def)
qed

end
