(* ===== verification/Provisioning_Capacity.thy ===== *)
theory Provisioning_Capacity
  imports Provisioning_Safety
begin

text \<open>
  The branch of the provisioning worker for a request whose requester has lost the role since it was
  queued.  The branch fails the request before \<open>_principal\<close> is set, and \<open>fail_request\<close> needs it to
  give the address back.

  The reservations of the provisioning worker: the capacity that \<open>_select_target\<close> takes from a node
  and \<open>_release_node_capacity\<close> gives back, the VMID that \<open>_reserve_vmid\<close> picks, and the lease.
\<close>

section \<open>Giving back without a requester\<close>

lemma give_back_unset: "pr_actor me = None \<Longrightarrow> give_back V me s = (Inr True, s)"
  by (simp add: give_back_def Let_def ipamM_def bindM_def tryM_def thenM_def raiseM_def returnM_def)

lemma bindM_run: "m s = (Inr x, t) \<Longrightarrow> bindM m f s = f x t"
  by (simp add: bindM_def)

lemma then_return: "thenM (returnM ()) m = m"
  by (rule ext) (simp add: thenM_def bindM_def returnM_def)

definition reviewed :: "uuid \<Rightarrow> db \<Rightarrow> string \<Rightarrow> db \<Rightarrow> bool" where
  "reviewed i d0 c d \<longleftrightarrow> nodes d = nodes d0 \<and> ip_addresses d = ip_addresses d0 \<and> ip_allocations d = ip_allocations d0 \<and>
     (\<exists>x. get_req d i = Some x \<and> req_status x = Prov_MANUAL_REVIEW \<and> req_error_code x = Some c)"

lemma reviewed_put_req:
  assumes "\<And>r. req_id (f r) = req_id r" "\<And>r. req_status (f r) = req_status r" "\<And>r. req_error_code (f r) = req_error_code r"
  shows "reviewed i d0 c d \<Longrightarrow> reviewed i d0 c (put_req i f d)"
  using assms by (auto simp: reviewed_def get_put_req) (simp_all add: put_req_def)

lemma reviewed_tables [simp]:
  "reviewed i d0 c (put_wl j h d) = reviewed i d0 c d" "reviewed i d0 c (add_workload w d) = reviewed i d0 c d"
  "reviewed i d0 c (add_audit_event x e d) = reviewed i d0 c d"
  by (simp_all add: reviewed_def put_wl_def add_workload_def)

text \<open>Recording a clone that may be left behind touches neither nodes nor addresses.\<close>

lemma reviewed_partial: "keeps (holds (reviewed i d0 c)) (record_partial_workload V i)"
proof -
  note rules = keeps_nowM[OF holds_basic(1)] keeps_uuid4M[OF holds_basic(1)] keeps_bindM keeps_thenM keeps_if
    keeps_returnM keeps_raiseM keeps_readM keeps_case_option holds_write
  have attach: "keeps (holds (reviewed i d0 c)) (attach_partial V i r v)" for r v
    unfolding attach_partial_def by (intro rules) (simp_all add: reviewed_put_req)
  have insert: "keeps (holds (reviewed i d0 c)) (insert_partial V i r v n)" for r v n
    unfolding insert_partial_def int_spec_def request_row_def by (intro rules) simp
  show ?thesis
    unfolding record_partial_workload_def request_row_def by (intro rules attach insert)
qed

definition tail_of_review :: "'w prov_env \<Rightarrow> uuid \<Rightarrow> ('w, unit) rm" where
  "tail_of_review V i = bindM (tryM (thenM (record_partial_workload V i) commitM)) (\<lambda>x. case x of
     Inr _ \<Rightarrow> returnM () | Inl _ \<Rightarrow> rollbackM)"

lemma tail_of_review_ends:
  assumes "holds (reviewed i d0 c) s"
  shows "wp (tail_of_review V i) (\<lambda>_. holds (reviewed i d0 c)) (\<lambda>_ _. False) s"
proof -
  have "keeps (holds (reviewed i d0 c)) (thenM (record_partial_workload V i) commitM)"
    by (intro keeps_thenM reviewed_partial holds_basic)
  from keeps_at[OF this assms] have
    "wp (thenM (record_partial_workload V i) commitM) (\<lambda>_. holds (reviewed i d0 c)) (\<lambda>_. holds (reviewed i d0 c)) s" .
  then show ?thesis
    unfolding tail_of_review_def wp_bindM wp_tryM
    by (rule wp_mono) (simp_all add: wp_rules, simp add: holds_def stored_def)
qed

lemma keeps_tail_of_review:
  fixes I :: "'w rs \<Rightarrow> bool"
  assumes "worldless I" "\<And>f. keeps I (writeM f)" "keeps I commitM" "keeps I rollbackM"
  shows "keeps I (tail_of_review V i)"
  unfolding tail_of_review_def record_partial_workload_def insert_partial_def attach_partial_def int_spec_def request_row_def
  by (intro keeps_nowM[OF assms(1)] keeps_uuid4M[OF assms(1)] assms(2-) keeps_bindM keeps_thenM keeps_if keeps_tryM
      keeps_case_sum keeps_returnM keeps_raiseM keeps_readM keeps_case_option)

lemma tail_of_review_calls: "rs_calls (snd (tail_of_review V i s)) = rs_calls s"
proof -
  have "keeps (\<lambda>t. rs_calls t = rs_calls s) (tail_of_review V i)"
    by (rule keeps_tail_of_review) (simp_all add: worldless_def keeps_def wp_rules)
  then show ?thesis by (auto dest: keepsD)
qed

section \<open>The branch\<close>

lemma close_request_review:
  assumes "integrity (rs_db s)" "get_req (rs_db s) i = Some x" "\<forall>r \<in> set (requests (rs_db s)). req_id r = i \<longrightarrow> req_status r \<noteq> Prov_FAILED"
    "nodes (rs_db s) = nodes d0" "ip_addresses (rs_db s) = ip_addresses d0" "ip_allocations (rs_db s) = ip_allocations d0"
    "committed_ok s"
  shows "wp (close_request V i True e st) (\<lambda>_ t. holds (reviewed i d0 (code e)) t \<and> committed_ok t \<and> rs_calls t = rs_calls s)
    (\<lambda>_ _. False) s"
proof -
  have fail: "integrity (put_req i (fail_row True e t) (rs_db s))" for t
    using assms(2,3) by (intro integrity_put_req[OF assms(1)]) (auto simp: fail_row_def)
  then have "integrity (put_req i (clear_password u) (put_req i (fail_row True e t) (rs_db s)))" for t u
    by (rule integrity_put_req) (auto simp: clear_password_def)
  moreover have "reviewed i d0 (code e) (put_req i (fail_row True e t) (rs_db s))" for t
    using assms(2,4-) by (auto simp: reviewed_def get_put_req fail_row_def) (simp_all add: put_req_def)
  moreover from this have "reviewed i d0 (code e) (put_req i (clear_password u) (put_req i (fail_row True e t) (rs_db s)))" for t u
    by (rule reviewed_put_req[rotated -1]) (simp_all add: clear_password_def)
  ultimately show ?thesis
    using fail assms(2,7)
    by (auto simp: close_request_def clear_initial_password_def request_row_def wp_rules get_put_req fail_row_def
        clear_password_def holds_def stored_def committed_ok_def split: prod.splits option.splits)
qed

abbreviation unset_runner :: "provisioning_request \<Rightarrow> provisioning_request" where
  "unset_runner \<equiv> \<lambda>x. x\<lparr>req_runner_id := None, req_lease_expires_at := None\<rparr>"

lemma mem_modify_row:
  assumes "r \<in> set (modify_row key i f rows)" "key r = i" "\<And>x. key (f x) = key x"
  shows "\<exists>x \<in> set rows. key x = i \<and> r = f x"
  using assms by (auto simp: set_modify_row split: if_splits)

lemma row_of_put_req:
  assumes "r \<in> set (requests (put_req i f d))" "req_id r = i" "\<And>x. req_id (f x) = req_id x"
  obtains x where "x \<in> set (requests d)" "req_id x = i" "r = f x"
  using mem_modify_row[of r req_id i f "requests d", OF _ assms(2,3)] assms(1) that by (auto simp: put_req_def)

lemma claimed_status:
  assumes "r \<in> set (requests (put_req i unset_runner (put_req i (claim_row S u t) d)))" "req_id r = i"
  shows "req_status r = Prov_RUNNING"
proof -
  obtain x where x: "x \<in> set (requests (put_req i (claim_row S u t) d))" "req_id x = i" "r = unset_runner x"
    using row_of_put_req[OF assms] by auto
  obtain y where "x = claim_row S u t y"
    using row_of_put_req[OF x(1,2)] by (auto simp: claim_row_def)
  with x(3) show ?thesis by (simp add: claim_row_def)
qed

lemma run_claimed_revoked:
  assumes "integrity d" "get_req d i = Some q" "claimable t q" "\<not> requester_ok (get_user d (req_requested_by_id q))"
  shows "wp (run_claimed V u i) (\<lambda>_ s. holds (reviewed i d ''PERMISSION_REVOKED'') s \<and> committed_ok s \<and> rs_calls s = [])
    (\<lambda>_ _. False) (claimed_state V u i t d w)"
proof -
  let ?d1 = "put_req i (claim_row (pv_settings V) u t) d" and ?me = "\<lparr>pr_request = i, pr_runner_id = u, pr_actor = None\<rparr>"
  define d2 where "d2 = put_req i unset_runner ?d1"
  let ?s = "(claimed_state V u i t d w)\<lparr>rs_db := d2\<rparr>"
  let ?post = "\<lambda>s. holds (reviewed i d ''PERMISSION_REVOKED'') s \<and> committed_ok s \<and> rs_calls s = []"
  have row: "get_req ?d1 i = Some (claim_row (pv_settings V) u t q)" "get_req d2 i = Some (unset_runner (claim_row (pv_settings V) u t q))"
    using assms(2) by (simp_all add: d2_def get_put_req claim_row_def)
  have tables: "nodes d2 = nodes d" "ip_addresses d2 = ip_addresses d" "ip_allocations d2 = ip_allocations d"
    by (simp_all add: d2_def put_req_def)
  have user: "get_user ?d1 k = get_user d k" for k by (simp add: put_req_def)
  have int: "integrity ?d1" by (rule integrity_claim_row[OF assms(1-3)])
  then have "integrity d2" unfolding d2_def by (rule integrity_put_req) simp_all
  moreover have "committed_ok ?s" using int assms(1) by (simp add: claimed_state_def committed_ok_def)
  moreover have "\<forall>r \<in> set (requests d2). req_id r = i \<longrightarrow> req_status r \<noteq> Prov_FAILED"
    using claimed_status[of _ i "pv_settings V" u t d, folded d2_def] by fastforce
  moreover have "rs_calls ?s = []" by (simp add: claimed_state_def)
  ultimately have close: "wp (close_request V i True permission_revoked None) (\<lambda>_. ?post) (\<lambda>_ _. False) ?s"
    using close_request_review[of ?s i _ d V permission_revoked None] row(2) tables
    by (simp add: permission_revoked_def)
  have tail: "wp (tail_of_review V i) (\<lambda>_. ?post) (\<lambda>_ _. False) s" if "?post s" for s
  proof -
    have "keeps committed_ok (tail_of_review V i)"
      by (rule keeps_tail_of_review) (auto simp: worldless_def keeps_def wp_rules committed_ok_def)
    from wp_conj[OF tail_of_review_ends[OF conjunct1[OF that]] keeps_at[OF this]] that tail_of_review_calls[of V i s]
    show ?thesis by (auto simp: wp_def split: prod.splits sum.splits)
  qed
  have "wp (fail_request V ?me None permission_revoked) (\<lambda>_. ?post) (\<lambda>_ _. False) ?s"
  proof -
    have "request_row i ?s = (Inr (unset_runner (claim_row (pv_settings V) u t q)), ?s)"
      using row(2) by (simp add: request_row_def bindM_def readM_def returnM_def)
    then have "fail_request V ?me None permission_revoked ?s =
        thenM (close_request V i True permission_revoked None) (tail_of_review V i) ?s"
      unfolding fail_request_def Let_def tail_of_review_def[symmetric]
      by (simp add: bindM_run[of "request_row i"] then_return
          bindM_run[of "give_back V ?me"] give_back_unset bindM_run[of "returnM True"] returnM_def[of True])
    moreover have "wp (thenM (close_request V i True permission_revoked None) (tail_of_review V i)) (\<lambda>_. ?post) (\<lambda>_ _. False) ?s"
      unfolding wp_thenM by (rule wp_mono[OF close tail])
    ultimately show ?thesis by (simp only: wp_def)
  qed
  then show ?thesis
    using row(1) assms(4) user
    by (simp add: run_claimed_def request_row_def wp_rules claimed_state_def claim_row_def d2_def)
qed

lemma run_revoked:
  assumes "integrity d" "get_req d i = Some q" "claimable (claim_time V w) q"
    "\<not> requester_ok (get_user d (req_requested_by_id q))" "run_provisioning_request V i d w = (r, s)"
  shows "r = Inr () \<and> rs_calls s = [] \<and> reviewed i d ''PERMISSION_REVOKED'' (stored s)"
proof -
  obtain u w2 where fin:
    "finallyM (run_claimed V u i) (release_claim u i) (claimed_state V u i (claim_time V w) d w2) = (r, s)"
    using run_claimable[OF assms(1-3,5)] .
  obtain r1 s1 where run: "run_claimed V u i (claimed_state V u i (claim_time V w) d w2) = (r1, s1)" by fastforce
  have s1: "r1 = Inr ()" "reviewed i d ''PERMISSION_REVOKED'' (stored s1)" "committed_ok s1" "rs_calls s1 = []"
    using run_claimed_revoked[OF assms(1-4), where V = V and u = u and w = w2] run
    by (auto simp: wp_def holds_def split: sum.splits)
  from finally_release[of "run_claimed V u i", OF run s1(3), of u i] fin s1
  show ?thesis by (auto simp: stored_def intro!: reviewed_put_req simp: unclaim_row_def)
qed

section \<open>Capacity\<close>

abbreviation spec_int :: "provisioning_request \<Rightarrow> string \<Rightarrow> int option" where
  "spec_int r k \<equiv> as_int (dict_get (req_spec_snapshot r) k)"

lemma dict_get_reserved:
  "dict_get (AList.update k v d) k' = (if k' = k then v else dict_get d k')"
  by (simp add: dict_get_def update_conv)

lemma set_capacity_reserved_simps [simp]:
  "capacity_reserved (set_capacity_reserved b r) = b"
  "spec_int (set_capacity_reserved b r) ''memory_bytes'' = spec_int r ''memory_bytes''"
  "spec_int (set_capacity_reserved b r) ''disk_bytes'' = spec_int r ''disk_bytes''"
  "req_target_node_id (set_capacity_reserved b r) = req_target_node_id r" "req_id (set_capacity_reserved b r) = req_id r"
  by (simp_all add: capacity_reserved_def set_capacity_reserved_def dict_get_reserved)

lemma get_node_mem: "get_node d k = Some n \<Longrightarrow> n \<in> set (nodes d) \<and> node_id n = k"
  by (rule get_row_Some)

lemma choose_node_eligible:
  assumes "choose_node d c memory disk = Some n"
  shows "n \<in> set (nodes d)" "node_cluster_id n = c" "node_eligible memory disk n"
    "\<And>m. m \<in> set (nodes d) \<Longrightarrow> node_cluster_id m = c \<Longrightarrow> node_eligible memory disk m \<Longrightarrow>
      node_last_selected_at n \<le> node_last_selected_at m"
proof -
  let ?xs = "filter (\<lambda>n. node_cluster_id n = c \<and> node_eligible memory disk n) (nodes d)"
    and ?key = "\<lambda>n. (node_last_selected_at n, node_name n)"
  obtain ns where ns: "sort_key ?key ?xs = n # ns"
    using assms by (auto simp: choose_node_def split: list.splits)
  then have set: "set (n # ns) = set ?xs" by (metis set_sort)
  then show "n \<in> set (nodes d)" "node_cluster_id n = c" "node_eligible memory disk n" by auto
  fix m assume "m \<in> set (nodes d)" "node_cluster_id m = c" "node_eligible memory disk m"
  then have "m \<in> set (n # ns)" unfolding set by simp
  moreover have "sorted (map ?key (n # ns))" using sorted_sort_key[of ?key ?xs] unfolding ns .
  ultimately have "?key n \<le> ?key m" by auto
  then show "node_last_selected_at n \<le> node_last_selected_at m" by (auto simp: less_eq_prod_def)
qed

text \<open>What \<open>_select_target\<close> does for a request that holds no capacity yet.\<close>

definition taken :: "uuid \<Rightarrow> db \<Rightarrow> db \<Rightarrow> bool" where
  "taken i d d' \<longleftrightarrow> (\<exists>r r' k n memory disk now. get_req d i = Some r \<and> get_req d' i = Some r' \<and>
     spec_int r ''memory_bytes'' = Some memory \<and> spec_int r ''disk_bytes'' = Some disk \<and>
     get_node d k = Some n \<and> node_eligible memory disk n \<and>
     nodes d' = modify_row node_id k (take_capacity memory disk now) (nodes d) \<and>
     capacity_reserved r' \<and> req_target_node_id r' = Some k \<and>
     spec_int r' ''memory_bytes'' = Some memory \<and> spec_int r' ''disk_bytes'' = Some disk)"

lemma int_spec_run:
  "int_spec i key s = (case get_req (rs_db s) i of
     None \<Rightarrow> (Inl (PyError ''ObjectDeletedError''), s)
   | Some r \<Rightarrow> (case spec_int r key of Some v \<Rightarrow> (Inr v, s)
       | None \<Rightarrow> (raise_app 409 ''SPEC_SNAPSHOT_INVALID'' ''The saved specification is invalid.'', s)))"
  by (simp add: int_spec_def request_row_def bindM_def readM_def returnM_def raiseM_def split: option.splits)

lemma request_row_run:
  "request_row i s = (case get_req (rs_db s) i of
     None \<Rightarrow> (Inl (PyError ''ObjectDeletedError''), s) | Some r \<Rightarrow> (Inr r, s))"
  by (simp add: request_row_def bindM_def readM_def returnM_def raiseM_def split: option.splits)

lemma get_put_node: "(\<And>n. node_id (g n) = node_id n) \<Longrightarrow> get_node (put_node k g d) j = (if j = k then map_option g (get_node d j) else get_node d j)"
  by (simp add: put_node_def get_modify_row)

lemma taken_write:
  assumes "get_req d i = Some r" "spec_int r ''memory_bytes'' = Some memory" "spec_int r ''disk_bytes'' = Some disk"
    "get_node d k = Some n" "node_eligible memory disk n" "get_req d1 i = Some r1" "nodes d1 = nodes d"
    "req_spec_snapshot r1 = req_spec_snapshot r" "req_target_node_id r1 = Some k"
  shows "taken i d (put_req i (set_capacity_reserved True) (put_node k (take_capacity memory disk now) d1))"
proof -
  have "get_req (put_req i (set_capacity_reserved True) (put_node k (take_capacity memory disk now) d1)) i =
      Some (set_capacity_reserved True r1)"
    using assms(6) by (simp add: get_put_req put_node_def)
  moreover have "nodes (put_req i (set_capacity_reserved True) (put_node k (take_capacity memory disk now) d1)) =
      modify_row node_id k (take_capacity memory disk now) (nodes d)"
    using assms(7) by (simp add: put_req_def put_node_def)
  moreover have "spec_int r1 ''memory_bytes'' = Some memory" "spec_int r1 ''disk_bytes'' = Some disk"
    using assms(2,3,8) by simp_all
  ultimately show ?thesis
    unfolding taken_def using assms(1-5,9) by (metis set_capacity_reserved_simps)
qed

text \<open>The node a request asked for, or the one that is chosen for it.\<close>

lemma select_target_taken:
  assumes r: "get_req (rs_db s) i = Some r" "\<not> capacity_reserved r" and d: "distinct (map node_id (nodes (rs_db s)))"
  shows "wp (select_target V i) (\<lambda>_ t. taken i (rs_db s) (rs_db t) \<and> integrity (rs_db t)) (\<lambda>_ _. True) s"
proof (cases "spec_int r ''memory_bytes''"; cases "spec_int r ''disk_bytes''")
  fix memory disk assume spec: "spec_int r ''memory_bytes'' = Some memory" "spec_int r ''disk_bytes'' = Some disk"
  have chosen: "taken i (rs_db s) (put_req i (set_capacity_reserved True) (put_node (node_id n) (take_capacity memory disk t)
      (put_req i (\<lambda>y. y\<lparr>req_target_node_id := Some (node_id n)\<rparr>) (rs_db s))))"
    if "choose_node (rs_db s) c memory disk = Some n" for n c t
  proof (rule taken_write[OF r(1) spec])
    note n = choose_node_eligible[OF that]
    show "get_node (rs_db s) (node_id n) = Some n" using get_row_mem[OF d n(1)] .
    show "node_eligible memory disk n" by fact
    show "get_req (put_req i (\<lambda>y. y\<lparr>req_target_node_id := Some (node_id n)\<rparr>) (rs_db s)) i =
        Some (r\<lparr>req_target_node_id := Some (node_id n)\<rparr>)" using r(1) by (simp add: get_put_req)
  qed (simp_all add: put_req_def)
  have asked: "taken i (rs_db s) (put_req i (set_capacity_reserved True) (put_node (node_id n) (take_capacity memory disk t) (rs_db s)))"
    if "req_target_node_id r = Some k" "get_node (rs_db s) k = Some n" "node_eligible memory disk n" for n k t
    using taken_write[OF r(1) spec that(2,3) r(1)] that(1) get_row_Some[OF that(2)] by simp
  show ?thesis
    using r spec asked chosen
    by (auto simp: select_target_def wp_rules wp_def[of "int_spec _ _"] wp_def[of "request_row _"] int_spec_run request_row_run
        split: option.splits prod.splits)
qed (use r in \<open>simp_all add: select_target_def wp_rules wp_def[of "int_spec _ _"] int_spec_run\<close>)

definition free_capacity :: "db \<Rightarrow> (uuid \<times> int \<times> int) list" where
  "free_capacity d = map (\<lambda>n. (node_id n, node_available_memory_bytes n, node_available_storage_bytes n)) (nodes d)"

lemma integrity_put_node:
  assumes "integrity d" "\<And>n. node_id (g n) = node_id n" "\<And>n. node_cluster_id (g n) = node_cluster_id n"
    "\<And>n. node_name (g n) = node_name n"
  shows "integrity (put_node k g d)"
  using assms
  by (auto simp: integrity_defs put_node_def nodes_ok_def)

lemma free_capacity_round_trip:
  "map (\<lambda>n. (node_id n, node_available_memory_bytes n, node_available_storage_bytes n))
     (modify_row node_id k (give_capacity memory disk) (modify_row node_id k (take_capacity memory disk now) ns)) =
   map (\<lambda>n. (node_id n, node_available_memory_bytes n, node_available_storage_bytes n)) ns"
  by (auto simp: modify_row_def take_capacity_def give_capacity_def)

lemma release_gives_back:
  assumes "taken i d (rs_db s)" "integrity (rs_db s)"
  shows "\<exists>t. release_node_capacity i s = (Inr (), t) \<and> free_capacity (rs_db t) = free_capacity d \<and>
    (\<exists>r. get_req (rs_db t) i = Some r \<and> \<not> capacity_reserved r) \<and> stored t = rs_db t"
proof -
  obtain r k n memory disk now where r: "get_req (rs_db s) i = Some r" "capacity_reserved r" "req_target_node_id r = Some k"
    "spec_int r ''memory_bytes'' = Some memory" "spec_int r ''disk_bytes'' = Some disk"
    and n: "get_node d k = Some n" "nodes (rs_db s) = modify_row node_id k (take_capacity memory disk now) (nodes d)"
    using assms(1) by (auto simp: taken_def)
  let ?d = "put_req i (set_capacity_reserved False) (put_node k (give_capacity memory disk) (rs_db s))"
  have "get_node (rs_db s) k = Some (take_capacity memory disk now n)"
    using n by (simp add: get_modify_row take_capacity_def)
  moreover have "integrity ?d"
    by (rule integrity_put_req[OF integrity_put_node[OF assms(2)]]) (simp_all add: give_capacity_def set_capacity_reserved_def)
  moreover have "free_capacity ?d = free_capacity d"
    using free_capacity_round_trip n(2) by (simp add: free_capacity_def put_req_def put_node_def)
  moreover have "get_req ?d i = Some (set_capacity_reserved False r)"
    using r(1) by (simp add: get_put_req put_node_def)
  ultimately show ?thesis
    using r
    by (simp add: release_node_capacity_def bindM_def request_row_run int_spec_run thenM_def readM_def writeM_def commitM_def
        stored_def)
qed

section \<open>The VMID\<close>

lemma next_vmid_Some:
  "next_vmid c used = Some v \<longleftrightarrow> c \<le> v \<and> v < 1000000 \<and> v \<notin> set used \<and> (\<forall>x. c \<le> x \<and> x < v \<longrightarrow> x \<in> set used)"
proof (induction c used rule: next_vmid.induct)
  case (1 c used)
  consider "c \<ge> 1000000" | "c < 1000000" "c \<notin> set used" | "c < 1000000" "c \<in> set used" by linarith
  then show ?case
  proof cases
    case 3
    then have "(\<forall>x. c + 1 \<le> x \<and> x < v \<longrightarrow> x \<in> set used) \<longleftrightarrow> (\<forall>x. c \<le> x \<and> x < v \<longrightarrow> x \<in> set used)" if "c < v"
      by (metis add1_zle_eq order_le_less)
    moreover have "v \<notin> set used \<Longrightarrow> c \<le> v \<longleftrightarrow> c + 1 \<le> v" using 3 by (cases "c = v") auto
    ultimately show ?thesis using 1 3 by (subst next_vmid.simps) auto
  next
    case 2
    then have "next_vmid c used = Some c" by (subst next_vmid.simps) simp
    moreover have "v = c" if "c \<le> v" "\<forall>x. c \<le> x \<and> x < v \<longrightarrow> x \<in> set used"
      using that 2(2) by (cases "v = c") force+
    ultimately show ?thesis using 2 by auto
  qed (subst next_vmid.simps, auto)
qed

lemma next_vmid_None: "next_vmid c used = None \<longleftrightarrow> (\<forall>x. c \<le> x \<and> x < 1000000 \<longrightarrow> x \<in> set used)"
proof (induction c used rule: next_vmid.induct)
  case (1 c used)
  show ?case
  proof (cases "c < 1000000 \<and> c \<in> set used")
    case True
    then have "(\<forall>x. c + 1 \<le> x \<and> x < 1000000 \<longrightarrow> x \<in> set used) \<longleftrightarrow> (\<forall>x. c \<le> x \<and> x < 1000000 \<longrightarrow> x \<in> set used)"
      by (metis add1_zle_eq order_le_less)
    with True 1 show ?thesis by (subst next_vmid.simps) auto
  next
    case False
    then show ?thesis by (subst next_vmid.simps) auto
  qed
qed

end
