(* ===== verification/Ipam_Demo.thy ===== *)
theory Ipam_Demo
  imports Ipam_Pools
begin

text \<open>
  A small installation on which the properties are exercised: an administrator, a customer, one
  cluster with one workload, and one pool \<open>192.0.2.0/29\<close> whose gateway is \<open>.1\<close> and whose
  addresses \<open>.2\<close> and \<open>.3\<close> are excluded.
\<close>

definition demo_admin :: principal where
  "demo_admin = \<lparr>prin_user_id = 1, prin_email = ''admin@example.com'', prin_role = SUPER_ADMIN,
     prin_session_epoch = 1\<rparr>"

definition demo_customer :: principal where
  "demo_customer = \<lparr>prin_user_id = 2, prin_email = ''c@example.com'', prin_role = CUSTOMER,
     prin_session_epoch = 1\<rparr>"

definition demo_service :: "principal \<Rightarrow> datetime \<Rightarrow> service" where
  "demo_service p now = \<lparr>sv_principal = p, sv_request_id = ''r'', sv_source_ip = ''198.51.100.1'',
     sv_ctx = \<lparr>ac_now = now, ac_request_id = None, ac_source_ip = None, ac_user_agent = None\<rparr>\<rparr>"

definition demo_user :: "uuid \<Rightarrow> string \<Rightarrow> user_role \<Rightarrow> user" where
  "demo_user i e r = \<lparr>user_id = i, user_email = e, user_display_name = e, user_role_of = r,
     user_password_hash = ''h'', user_is_active = True, user_session_epoch = 1,
     user_last_login_at = None, user_created_by_id = None, user_disabled_at = None,
     user_deleted_at = None, user_version = 1\<rparr>"

definition demo_cluster :: cluster where
  "demo_cluster = \<lparr>cl_id = 3, cl_name = ''lab'', cl_api_base_url = ''https://pve:8006'',
     cl_ca_bundle_pem = None, cl_is_active = True, cl_last_connection_error_code = None,
     cl_last_connected_at = None, cl_disabled_at = None, cl_version = 1\<rparr>"

definition demo_org :: organization where
  "demo_org = \<lparr>org_id = 4, org_name = ''acme'', org_is_active = True, org_created_by_id = 1,
     org_version = 1\<rparr>"

definition demo_member :: organization_member where
  "demo_member = \<lparr>mem_id = 5, mem_organization_id = 4, mem_user_id = 2, mem_added_by_id = 1\<rparr>"

definition demo_workload :: workload where
  "demo_workload = \<lparr>wl_id = 6, wl_cluster_id = 3, wl_vmid = 100, wl_node = ''n1'', wl_kind = QEMU,
     wl_name = Some ''web'', wl_power_state = ''stopped'', wl_cpu_cores = Some 2,
     wl_memory_bytes = Some 2147483648, wl_disk_bytes = Some 10737418240,
     wl_is_template = False, wl_is_present = True, wl_organization_id = Some 4,
     wl_observed_at = 0, wl_version = 1\<rparr>"

definition demo_network :: network where
  "demo_network = Network V4 3221225984 29"

definition demo_addr :: "int \<Rightarrow> address" where
  "demo_addr k = Address V4 (3221225984 + k)"

definition demo_pool :: ip_pool where
  "demo_pool = \<lparr>pool_id = 7, pool_name = ''public'', pool_cluster_id = Some 3,
     pool_cidr = demo_network, pool_gateway = Some (demo_addr 1), pool_dns_servers = [],
     pool_bridge = ''vmbr0'', pool_vlan_tag = None, pool_ip_family = 4,
     pool_allocation_strategy = SEQUENTIAL, pool_quarantine_seconds = 3600, pool_next_offset = 0,
     pool_is_active = True, pool_created_by_id = 1, pool_version = 1\<rparr>"

definition demo_exclusion :: ip_pool_exclusion where
  "demo_exclusion = \<lparr>ex_id = 8, ex_pool_id = 7, ex_start_address = demo_addr 2,
     ex_end_address = demo_addr 3, ex_reason = None\<rparr>"

definition demo_db :: db where
  "demo_db = empty_db\<lparr>users := [demo_user 1 ''admin@example.com'' SUPER_ADMIN,
       demo_user 2 ''c@example.com'' CUSTOMER],
     organizations := [demo_org], members := [demo_member], clusters := [demo_cluster],
     workloads := [demo_workload], ip_pools := [demo_pool], exclusions := [demo_exclusion]\<rparr>"

definition demo_ids :: "nat \<Rightarrow> uuid" where
  "demo_ids k = 100 + k"

lemmas demo_defs = demo_admin_def demo_customer_def demo_service_def demo_user_def
  demo_cluster_def demo_org_def demo_member_def demo_workload_def demo_network_def demo_addr_def
  demo_pool_def demo_exclusion_def demo_db_def demo_ids_def

lemma demo_integrity: "integrity demo_db"
  by code_simp

lemma demo_inv: "ipam_inv demo_db"
proof -
  have "list_all pool_wf (ip_pools demo_db)" by code_simp
  then show ?thesis
    using demo_integrity
    by (simp add: ipam_inv_def ipam_wf_def agree_def cursors_wf_def pools_disjoint_def demo_defs
        empty_db_def)
qed

end
