(* ===== verification/Ipam_Properties.thy ===== *)
theory Ipam_Properties
  imports Ipam_Demo
begin

text \<open>
  What the address management promises to its callers: the properties of \<open>IpamService\<close>, each with
  an instance on the installation of the theory \<open>Ipam_Demo\<close>.
\<close>

section \<open>At most one holder\<close>

text \<open>The active allocations of an address, as seen from one cluster.\<close>

definition holders :: "db \<Rightarrow> uuid \<Rightarrow> address \<Rightarrow> ip_allocation list" where
  "holders d c x = filter (\<lambda>l. active_allocation (alloc_status l) \<and>
     (case get_addr d (alloc_ip_address_id l) of
        None \<Rightarrow> False
      | Some a \<Rightarrow> addr_address a = x \<and>
          (case get_pool_row d (addr_pool_id a) of
             None \<Rightarrow> False
           | Some p \<Rightarrow> same_scope (pool_cluster_id p) (Some c)))) (ip_allocations d)"

lemma holders_iff:
  "l \<in> set (holders d c x) \<longleftrightarrow> l \<in> set (ip_allocations d) \<and> active_allocation (alloc_status l) \<and>
     (\<exists>a p. get_addr d (alloc_ip_address_id l) = Some a \<and> addr_address a = x \<and>
        get_pool_row d (addr_pool_id a) = Some p \<and> same_scope (pool_cluster_id p) (Some c))"
  by (auto simp: holders_def split: option.splits)

lemma addr_wf_used:
  assumes "ipam_inv d" "l \<in> set (ip_allocations d)" "active_allocation (alloc_status l)"
    "get_addr d (alloc_ip_address_id l) = Some a" "get_pool_row d (addr_pool_id a) = Some p"
  shows "pool_is_active p" "address_ok p (addr_address a)" "wf_network (pool_cidr p)"
proof -
  note wf = ipam_invD(2)[OF assms(1)] and a = get_row_Some[OF assms(4)]
  have "active_on (addr_id a) (ip_allocations d) \<noteq> []"
    using assms(2,3) a by (auto simp: active_on_def filter_empty_conv)
  then have "addr_state a \<noteq> Addr_AVAILABLE" using ipam_wfD(1)[OF wf] a by (auto simp: agree_def)
  with ipam_wfD(3)[OF wf, of a] a assms(5)
  show "pool_is_active p" "address_ok p (addr_address a)" by (auto simp: addr_wf_def)
  show "wf_network (pool_cidr p)"
    using ipam_wfD(2)[OF wf] get_pool_rowD[OF assms(5)] by (simp add: pool_wf_def)
qed

lemma common_address_overlap:
  assumes "wf_network m" "wf_network n" "wf_address x" "in_network x m" "in_network x n"
  shows "overlaps m n"
  using assms by (auto simp: overlaps_iff net_range_def in_network_iff)

lemma holder_unique:
  assumes inv: "ipam_inv d" and "l1 \<in> set (holders d c x)" "l2 \<in> set (holders d c x)"
  shows "l1 = l2"
proof -
  obtain a1 p1 where 1: "l1 \<in> set (ip_allocations d)" "active_allocation (alloc_status l1)"
    "get_addr d (alloc_ip_address_id l1) = Some a1" "addr_address a1 = x"
    "get_pool_row d (addr_pool_id a1) = Some p1" "same_scope (pool_cluster_id p1) (Some c)"
    using assms(2) by (auto simp: holders_iff)
  obtain a2 p2 where 2: "l2 \<in> set (ip_allocations d)" "active_allocation (alloc_status l2)"
    "get_addr d (alloc_ip_address_id l2) = Some a2" "addr_address a2 = x"
    "get_pool_row d (addr_pool_id a2) = Some p2" "same_scope (pool_cluster_id p2) (Some c)"
    using assms(3) by (auto simp: holders_iff)
  note u1 = addr_wf_used[OF inv 1(1-3,5)] and u2 = addr_wf_used[OF inv 2(1-3,5)]
  have "overlaps (pool_cidr p1) (pool_cidr p2)"
    using u1 u2 1(4) 2(4) by (auto simp: address_ok_def intro: common_address_overlap)
  moreover have "same_scope (pool_cluster_id p1) (pool_cluster_id p2)"
    using 1(6) 2(6) by (auto simp: same_scope_def)
  ultimately have "pool_id p1 = pool_id p2"
    using ipam_wfD(5)[OF ipam_invD(2)[OF inv]] u1 u2 get_pool_rowD[OF 1(5)] get_pool_rowD[OF 2(5)]
    unfolding pools_disjoint_def by metis
  then have "addr_pool_id a1 = addr_pool_id a2"
    using get_pool_rowD[OF 1(5)] get_pool_rowD[OF 2(5)] by simp
  then have "a1 = a2"
    using 1(3,4) 2(3,4) get_row_Some[OF 1(3)] get_row_Some[OF 2(3)] ipam_invD(1)[OF inv]
    by (auto simp: integrity_def tables_ok_def ip_addresses_ok_def distinct_map inj_on_def)
  then have "alloc_ip_address_id l1 = alloc_ip_address_id l2"
    using get_row_Some[OF 1(3)] get_row_Some[OF 2(3)] by simp
  then show ?thesis
    using 1(1,2) 2(1,2) ipam_invD(1)[OF inv]
    by (auto simp: integrity_def tables_ok_def ip_allocations_ok_def elim!: unique_onD)
qed

lemma length_le_1: "distinct xs \<Longrightarrow> (\<And>x y. x \<in> set xs \<Longrightarrow> y \<in> set xs \<Longrightarrow> x = y) \<Longrightarrow> length xs \<le> 1"
  by (cases xs) (auto, metis Suc_le_eq length_greater_0_conv list.set_intros(1) neq_Nil_conv)

lemma distinct_holders: "ipam_inv d \<Longrightarrow> distinct (holders d c x)"
  using integrity_distinct(3)[OF ipam_invD(1), of d] by (auto simp: holders_def distinct_map)

text \<open>
  C2. In every state the service can reach, however its calls interleave with each other and with
  the transactions of other services, an IP address has at most one active allocation among the
  pools a cluster can draw from (its own and the global ones), even when several pools exist.
\<close>

theorem address_has_one_holder:
  assumes "ipam_reachable d"
  shows "length (holders d c x) \<le> 1"
  using ipam.inv_reachable[OF assms] by (intro length_le_1 distinct_holders holder_unique)


text \<open>The demonstration installation before it has a pool, then with one, then with an allocation.\<close>

definition demo_base :: db where
  "demo_base = demo_db\<lparr>ip_pools := [], exclusions := []\<rparr>"

definition demo_create :: ip_pool_create where
  "demo_create = \<lparr>pc_name = ''public'', pc_cluster_id = Some 3, pc_cidr = ''192.0.2.0/29'',
     pc_gateway = Some (demo_addr 1), pc_dns_servers = [], pc_bridge = ''vmbr0'', pc_vlan_tag = None,
     pc_excluded_ranges = [\<lparr>rng_start = demo_addr 2, rng_end = demo_addr 3, rng_reason = None\<rparr>],
     pc_allocation_strategy = SEQUENTIAL, pc_quarantine_seconds = 3600\<rparr>"

definition demo_with_pool :: db where
  "demo_with_pool = snd (create_pool (demo_service demo_admin 0) demo_ids demo_create demo_base)"

definition demo_run :: db where
  "demo_run = snd (allocate (demo_service demo_admin 1) (\<lambda>k. demo_ids (k + 10)) [] 100 6 None demo_with_pool)"

lemma demo_base_integrity: "integrity demo_base"
  by code_simp

lemma demo_run_reachable: "ipam_reachable demo_run"
proof -
  have "ipam_frame empty_db demo_base"
    using demo_base_integrity by (simp add: ipam_frame_def demo_base_def demo_db_def empty_db_def)
  then have "ipam_reachable demo_base"
    using reachable_step[OF reachable_init, of "\<lambda>d. d = empty_db" empty_db ipam_step] step_other by blast
  from reachable_step[OF this step_create[OF prod.collapse[symmetric]]]
  have "ipam_reachable demo_with_pool" by (simp add: demo_with_pool_def)
  from reachable_step[OF this step_allocate[OF _ prod.collapse[symmetric]]]
  show ?thesis by (simp add: demo_run_def opt_all_def)
qed

theorem address_has_one_holder_witness:
  "length (holders demo_run 3 (demo_addr 4)) = 1"
proof -
  have "holders demo_run 3 (demo_addr 4) \<noteq> []" by code_simp
  moreover have "length (holders demo_run 3 (demo_addr 4)) \<le> 1"
    by (rule address_has_one_holder[OF demo_run_reachable])
  ultimately show ?thesis by (simp add: le_eq_less_or_eq)
qed

section \<open>What an allocation gives\<close>

lemma available_candidate_ok:
  assumes inv: "ipam_inv d" and p: "get_pool_row d (pool_id p) = Some p"
    and wf: "opt_all wf_address requested"
    and c: "available_candidate fresh draws p requested d = Inr (a, d1)"
  shows "address_ok p (addr_address a)" "\<not> is_excluded d (pool_id p) (addr_address a)"
    "\<forall>x \<in> set (ip_addresses d). addr_pool_id x = pool_id p \<longrightarrow> addr_address x = addr_address a \<longrightarrow>
       addr_state x = Addr_AVAILABLE"
    "requested = Some r \<Longrightarrow> addr_address a = r"
proof -
  have c': "candidate_address fresh draws p requested d = Inr (a, d1)" "addr_state a = Addr_AVAILABLE"
    using c by (auto simp: available_candidate_def result_simps unavailable_def split: if_splits)
  note wfd = ipam_invD(2)[OF inv]
  have stored: "addr_address x = addr_address a \<longrightarrow> x = a"
    if "a \<in> set (ip_addresses d)" "addr_pool_id a = pool_id p" "x \<in> set (ip_addresses d)"
      "addr_pool_id x = pool_id p" for x
    using that ipam_invD(1)[OF inv]
    by (auto simp: integrity_def tables_ok_def ip_addresses_ok_def distinct_map inj_on_def)
  have pw: "pool_wf p" using get_pool_rowD[OF p] ipam_wfD(2)[OF wfd] by auto
  have goal: "address_ok p (addr_address a) \<and> \<not> is_excluded d (pool_id p) (addr_address a) \<and>
    (\<forall>x \<in> set (ip_addresses d). addr_pool_id x = pool_id p \<longrightarrow> addr_address x = addr_address a \<longrightarrow>
       addr_state x = Addr_AVAILABLE) \<and> (requested = Some r \<longrightarrow> addr_address a = r)"
  proof (cases requested)
    case None
    from candidate_automatic[of fresh draws p d a d1] c'(1) None
    consider "lowest_available d p = Some a"
      | x where "choose_offset p (blocked_offsets d p) draws = Some x"
        "a = available_row (fresh 0) (pool_id p)
         (Address (network_version (pool_cidr p)) (network_address (pool_cidr p) + x))" by auto
    then show ?thesis
    proof cases
      case 1
      note l = lowest_available_Some[OF 1]
      from ipam_wfD(3)[OF wfd l(1)] l p stored c'(2) None show ?thesis
        by (auto simp: addr_wf_def)
    next
      case (2 x)
      note x = choose_offset_Some[OF pw 2(1)]
      from free_offset_address[OF pw, of x d] x 2(2) None show ?thesis by auto
    qed
  next
    case (Some q)
    with candidate_requested[of fresh draws p q d a d1] c'(1)
    have q: "in_network q (pool_cidr p)" "\<not> special p (pool_cidr p) q" "\<not> is_excluded d (pool_id p) q"
      "find_addr d (pool_id p) q = Some a \<or> a = available_row (fresh 0) (pool_id p) q \<and> d1 = add_addr a d"
      by auto
    then have addr: "addr_address a = q" using find_addr_Some by fastforce
    have "addr_state x = Addr_AVAILABLE"
      if "x \<in> set (ip_addresses d)" "addr_pool_id x = pool_id p" "addr_address x = q" for x
    proof (cases "find_addr d (pool_id p) q")
      case None
      with that show ?thesis by (auto simp: find_addr_def find_None_iff)
    next
      case (Some b)
      with c'(1) \<open>requested = Some q\<close> q(1-3) have "a = b"
        by (auto simp: candidate_address_def result_simps split: if_splits)
      with Some that stored[of x] find_addr_Some[OF Some] c'(2) show ?thesis by auto
    qed
    with q addr wf Some show ?thesis by (auto simp: address_ok_def opt_all_def)
  qed
  then show "address_ok p (addr_address a)" "\<not> is_excluded d (pool_id p) (addr_address a)"
    "\<forall>x \<in> set (ip_addresses d). addr_pool_id x = pool_id p \<longrightarrow> addr_address x = addr_address a \<longrightarrow>
       addr_state x = Addr_AVAILABLE"
    "requested = Some r \<Longrightarrow> addr_address a = r" by auto
qed

lemma allocation_response_Inr:
  "allocation_response l a p = Inr resp \<Longrightarrow>
     alloc_workload_id l = Some (lr_workload_id resp) \<and> lr_id resp = alloc_id l \<and>
     lr_address resp = address_str (addr_address a) \<and> lr_ip_address_id resp = addr_id a"
  by (auto simp: allocation_response_def split: option.splits)

text \<open>
  C3. A successful \<open>allocate\<close> hands out an address of an active pool that is none of the network,
  broadcast, gateway and excluded addresses, that no other record of the pool was using, and that
  is the requested one when one was requested; the workload then holds an active assignment of it.
\<close>

theorem allocate_gives_free_address:
  assumes "ipam_inv d" "opt_all wf_address requested"
    "allocate sv fresh draws i w requested d = (Inr resp, d')"
  shows "\<exists>p x. get_pool_row d i = Some p \<and> pool_is_active p \<and> lr_address resp = address_str x \<and>
    (\<forall>r. requested = Some r \<longrightarrow> x = r) \<and>
    in_network x (pool_cidr p) \<and> \<not> special p (pool_cidr p) x \<and> \<not> is_excluded d i x \<and>
    (\<forall>row \<in> set (ip_addresses d). addr_pool_id row = i \<and> addr_address row = x \<longrightarrow>
       addr_state row = Addr_AVAILABLE) \<and>
    (\<exists>l \<in> set (ip_allocations d'). alloc_id l = lr_id resp \<and> alloc_status l = Alloc_ASSIGNED \<and>
       alloc_workload_id l = Some w \<and> alloc_ip_address_id l = lr_ip_address_id resp)"
proof -
  from allocate_outcome[OF assms(3)] obtain p a d1 e l and wl :: workload where
    p: "get_pool_row d i = Some p" "pool_is_active p" and wl: "present_workload d w = Inr wl"
    and c: "available_candidate fresh draws p requested d = Inr (a, d1)"
    and l: "l = workload_allocation sv (fresh 1) (addr_id a) (wl_id wl) (allocation_kind requested)"
    and d': "d' = add_audit_event (sv_ctx sv) e (add_alloc l (put_addr (addr_id a) (mark_assigned (sv_now sv)) d1))"
    and r: "Inr resp = allocation_response l (mark_assigned (sv_now sv) a) p"
    by auto
  note p' = get_pool_rowD[OF p(1)]
  have "get_pool_row d (pool_id p) = Some p" using p p' by simp
  note ok = available_candidate_ok[OF assms(1) this assms(2) c]
  note resp = allocation_response_Inr[OF r[symmetric]]
  have "wl_id wl = w"
    using wl by (auto simp: present_workload_def split: option.splits if_splits dest: get_row_Some)
  then have "l \<in> set (ip_allocations d') \<and> alloc_id l = lr_id resp \<and> alloc_status l = Alloc_ASSIGNED \<and>
       alloc_workload_id l = Some w \<and> alloc_ip_address_id l = lr_ip_address_id resp"
    using resp by (simp add: d' add_alloc_def l workload_allocation_def mark_assigned_def)
  moreover have "lr_address resp = address_str (addr_address a)"
    using resp by (simp add: mark_assigned_def)
  ultimately show ?thesis using p p' ok
    by (intro exI[of _ p] exI[of _ "addr_address a"] conjI allI impI ballI bexI[of _ l])
      (auto simp: address_ok_def)
qed

theorem allocate_gives_free_address_witness:
  "\<exists>p x. get_pool_row demo_db 7 = Some p \<and>
     fst (allocate (demo_service demo_admin 0) demo_ids [] 7 6 (Some (demo_addr 5)) demo_db) \<noteq> Inl AssertionError \<and>
     x = demo_addr 5 \<and> in_network x (pool_cidr p) \<and> \<not> special p (pool_cidr p) x"
proof -
  have wf: "opt_all wf_address (Some (demo_addr 5))" by code_simp
  have "is_ok (fst (allocate (demo_service demo_admin 0) demo_ids [] 7 6 (Some (demo_addr 5)) demo_db))"
    by code_simp
  then obtain resp where r: "fst (allocate (demo_service demo_admin 0) demo_ids [] 7 6 (Some (demo_addr 5)) demo_db) = Inr resp"
    by (auto elim: is_ok.elims)
  then have "allocate (demo_service demo_admin 0) demo_ids [] 7 6 (Some (demo_addr 5)) demo_db =
      (Inr resp, snd (allocate (demo_service demo_admin 0) demo_ids [] 7 6 (Some (demo_addr 5)) demo_db))"
    by (metis prod.collapse)
  from allocate_gives_free_address[OF demo_inv wf this] r show ?thesis by auto
qed


section \<open>The search for a free offset\<close>

text \<open>
  C1. The range-merging search of the allocator finds exactly the offset that looking at every
  offset one by one would find, from the cursor to the end of the pool and then from its beginning,
  for any blocked ranges (overlapping, unordered, reaching out of the pool, empty).
\<close>

theorem first_free_offset_is_linear_search:
  assumes "0 \<le> start" "start \<le> sz"
  shows "first_free_offset sz start blocked = naive_first_free sz start blocked"
  using assms by (rule first_free_offset_naive)

theorem first_free_offset_is_linear_search_witness:
  "first_free_offset 16 12 [(14, 20), (0, 1), (12, 13), (1, 3)] = Some 4 \<and>
   naive_first_free 16 12 [(14, 20), (0, 1), (12, 13), (1, 3)] = Some 4"
proof -
  have "first_free_offset 16 12 [(14, 20), (0, 1), (12, 13), (1, 3)] = Some 4" by code_simp
  with first_free_offset_is_linear_search[of 12 16 "[(14, 20), (0, 1), (12, 13), (1, 3)]"]
  show ?thesis by simp
qed

section \<open>Exhaustion\<close>

definition allocatable :: "db \<Rightarrow> ip_pool \<Rightarrow> address \<Rightarrow> bool" where
  "allocatable d p x \<longleftrightarrow> address_ok p x \<and> \<not> is_excluded d (pool_id p) x \<and>
     (\<forall>row \<in> set (ip_addresses d). addr_pool_id row = pool_id p \<and> addr_address row = x \<longrightarrow>
        addr_state row = Addr_AVAILABLE)"

lemma lowest_available_None:
  "lowest_available d p = None \<longleftrightarrow>
     (\<forall>a \<in> set (ip_addresses d). addr_pool_id a = pool_id p \<longrightarrow> addr_state a \<noteq> Addr_AVAILABLE)"
proof -
  let ?q = "filter (\<lambda>a. addr_pool_id a = pool_id p \<and> addr_state a = Addr_AVAILABLE) (ip_addresses d)"
  have "lowest_available d p = None \<longleftrightarrow> sort_key (\<lambda>a. address_int (addr_address a)) ?q = []"
    by (cases "sort_key (\<lambda>a. address_int (addr_address a)) ?q") (simp_all add: lowest_available_def)
  also have "\<dots> \<longleftrightarrow> ?q = []" by (simp only: length_0_conv[symmetric] length_sort)
  finally show ?thesis by (auto simp: filter_empty_conv)
qed

lemma choose_offset_None:
  assumes "pool_wf p" "choose_offset p blocked draws = None" "0 \<le> x" "x < num_addresses (pool_cidr p)"
  shows "covered blocked x"
  using assms first_free_offset_None[of "pool_next_offset p" "num_addresses (pool_cidr p)" blocked]
  by (auto simp: choose_offset_def Let_def pool_wf_def split: option.splits if_splits)

text \<open>An address whose offset is blocked is special, excluded or already recorded.\<close>

lemma blocked_offset_cases:
  assumes inv: "ipam_inv d" and p: "get_pool_row d (pool_id p) = Some p" and ok: "address_ok p a"
    and cov: "covered (blocked_offsets d p) (address_int a - network_address (pool_cidr p))"
  shows "is_excluded d (pool_id p) a \<or>
    (\<exists>row \<in> set (ip_addresses d). addr_pool_id row = pool_id p \<and> addr_address row = a)"
proof -
  let ?n = "pool_cidr p" and ?x = "address_int a - network_address (pool_cidr p)"
  have pw: "pool_wf p" using get_pool_rowD[OF p] ipam_wfD(2)[OF ipam_invD(2)[OF inv]] by auto
  then have n: "wf_network ?n" by (simp add: pool_wf_def)
  have a: "in_network a ?n" "wf_address a" "\<not> special p ?n a" using ok by (auto simp: address_ok_def)
  have eq: "b = a" if "address_version b = network_version ?n" "address_int b = address_int a" for b
    using that a(1) by (cases a; cases b) (auto simp: in_network_def)
  from cov consider (ex) r where "r \<in> set (exclusion_bounds d (pool_id p))" "fst r - network_address ?n \<le> ?x"
      "?x \<le> snd r - network_address ?n"
    | (row) r where "r \<in> set (ip_addresses d)" "addr_pool_id r = pool_id p"
      "address_int (addr_address r) = address_int a"
    | (sp) "?x = 0 \<or> network_version ?n = V4 \<and> ?x = num_addresses ?n - 1 \<or>
       (\<exists>g. pool_gateway p = Some g \<and> address_int g = address_int a)"
    by (auto simp: covered_blocked_offsets Let_def)
  then show ?thesis
  proof cases
    case ex
    then show ?thesis by (auto simp: is_excluded_def covered_def intro!: bexI[of _ r])
  next
    case row
    have "in_network (addr_address r) ?n"
      using ipam_wfD(3)[OF ipam_invD(2)[OF inv] row(1)] row(2) p by (auto simp: addr_wf_def address_ok_def)
    then have "addr_address r = a" using row(3) eq by (simp add: in_network_def)
    with row show ?thesis by blast
  next
    case sp
    have "network_version ?n = V4 \<Longrightarrow> ?x = num_addresses ?n - 1 \<Longrightarrow> Address V4 (broadcast_address ?n) = a"
      by (rule eq) (simp_all add: broadcast_address_eq[OF n])
    moreover have "?x = 0 \<Longrightarrow> Address (network_version ?n) (network_address ?n) = a"
      by (rule eq) simp_all
    moreover have "pool_gateway p = Some g \<Longrightarrow> address_int g = address_int a \<Longrightarrow> g = a" for g
      using pw by (intro eq) (auto simp: pool_wf_def opt_all_def in_network_def)
    ultimately have "special p ?n a" using sp unfolding special_def by metis
    with a show ?thesis by simp
  qed
qed

lemma exhausted_iff:
  assumes "ipam_inv d" "get_pool_row d (pool_id p) = Some p"
  shows "(automatic_candidate fresh draws p d =
      raise_app 409 ''IP_POOL_EXHAUSTED'' ''No allocatable IP address remains in the pool.'') \<longleftrightarrow>
    \<not> (\<exists>x. allocatable d p x)"
proof -
  note wf = ipam_invD(2)[OF assms(1)]
  have pw: "pool_wf p" using get_pool_rowD[OF assms(2)] ipam_wfD(2)[OF wf] by auto
  show ?thesis
  proof (cases "lowest_available d p")
    case (Some a)
    note a = lowest_available_Some[OF this]
    have "available_candidate fresh draws p None d = Inr (a, d)"
      using Some a by (simp add: available_candidate_def candidate_address_def automatic_candidate_def)
    from available_candidate_ok(1-3)[OF assms _ this] have "allocatable d p (addr_address a)"
      by (auto simp: allocatable_def opt_all_def)
    with Some show ?thesis by (auto simp: automatic_candidate_def)
  next
    case None
    then have used: "\<forall>a \<in> set (ip_addresses d). addr_pool_id a = pool_id p \<longrightarrow> addr_state a \<noteq> Addr_AVAILABLE"
      by (simp add: lowest_available_None)
    show ?thesis
    proof (cases "choose_offset p (blocked_offsets d p) draws")
      case (Some x)
      note x = choose_offset_Some[OF pw Some]
      have "allocatable d p (Address (network_version (pool_cidr p)) (network_address (pool_cidr p) + x))"
        using free_offset_address[OF pw, of x d] x by (auto simp: allocatable_def)
      with Some None show ?thesis by (auto simp: automatic_candidate_def Let_def)
    next
      case none: None
      have "\<not> allocatable d p a" for a
      proof
        assume a: "allocatable d p a"
        then have ok: "address_ok p a" by (simp add: allocatable_def)
        then have "0 \<le> address_int a - network_address (pool_cidr p)"
          "address_int a - network_address (pool_cidr p) < num_addresses (pool_cidr p)"
          using pw in_network_iff[of "pool_cidr p" a] by (auto simp: address_ok_def pool_wf_def)
        from blocked_offset_cases[OF assms ok choose_offset_None[OF pw none this]] a used
        show False by (auto simp: allocatable_def)
      qed
      with none None show ?thesis by (simp add: automatic_candidate_def Let_def)
    qed
  qed
qed

text \<open>
  The automatic choice fails only by \<open>IP_POOL_EXHAUSTED\<close>, and exactly when the pool has no
  address left that could be handed out; the search misses nothing, whatever the cursor, the
  strategy and the random draws are.
\<close>

theorem pool_exhausted_iff:
  assumes "ipam_inv d" "get_pool_row d (pool_id p) = Some p"
  shows "(automatic_candidate fresh draws p d =
      raise_app 409 ''IP_POOL_EXHAUSTED'' ''No allocatable IP address remains in the pool.'') \<longleftrightarrow>
    \<not> (\<exists>x. allocatable d p x)"
  using assms by (rule exhausted_iff)

theorem pool_exhausted_iff_witness:
  "\<exists>x. allocatable demo_db demo_pool x"
proof -
  have "get_pool_row demo_db (pool_id demo_pool) = Some demo_pool" by code_simp
  moreover have "is_ok (automatic_candidate demo_ids [] demo_pool demo_db)" by code_simp
  ultimately show ?thesis using pool_exhausted_iff[OF demo_inv, of demo_pool demo_ids "[]"] by auto
qed

end
