(* ===== verification/Provisioning_Ipam.thy ===== *)
theory Provisioning_Ipam
  imports Provisioning_Safety Ipam_Properties
begin

text \<open>
  The provisioning worker and the address management together.  The worker calls the address service
  on its own session, whose uncommitted changes to other tables the service never looks at; so the
  invariant of the address tables carries over from the service's own states to every state a run
  commits.
\<close>

section \<open>The address tables alone\<close>

definition ipam_same :: "db \<Rightarrow> db \<Rightarrow> bool" where
  "ipam_same c d \<longleftrightarrow> ip_pools d = ip_pools c \<and> exclusions d = exclusions c \<and>
     ip_addresses d = ip_addresses c \<and> ip_allocations d = ip_allocations c"

definition ipam_ok :: "db \<Rightarrow> bool" where
  "ipam_ok d \<longleftrightarrow> (\<exists>c. ipam_inv c \<and> ipam_same c d)"

lemma ipam_ok_inv: "ipam_inv d \<Longrightarrow> ipam_ok d"
  by (auto simp: ipam_ok_def ipam_same_def)

lemma ipam_wf_same: "ipam_same c d \<Longrightarrow> ipam_wf c \<Longrightarrow> ipam_wf d"
  by (auto simp: ipam_same_def ipam_wf_def cursors_wf_def addr_wf_def is_excluded_def exclusion_bounds_def
      list_all_iff)

lemma ipam_ok_commit: "ipam_ok d \<Longrightarrow> integrity d \<Longrightarrow> ipam_inv d"
  using ipam_wf_same by (auto simp: ipam_ok_def ipam_inv_def)

lemma ipam_ok_same: "ipam_ok d \<Longrightarrow> ipam_same d d' \<Longrightarrow> ipam_ok d'"
  by (auto simp: ipam_ok_def ipam_same_def)

text \<open>The service on the session's state does what it would do on the committed one.\<close>

lemma candidate_same:
  assumes "ipam_same c d" "available_candidate fresh draws p q d = Inr (a, d1)"
  shows "\<exists>c1. available_candidate fresh draws p q c = Inr (a, c1) \<and> ipam_same c1 d1"
proof -
  have tables: "ip_pools d = ip_pools c" "exclusions d = exclusions c" "ip_addresses d = ip_addresses c"
    "ip_allocations d = ip_allocations c" using assms(1) by (simp_all add: ipam_same_def)
  then have same: "find_addr d (pool_id p) x = find_addr c (pool_id p) x" "is_excluded d (pool_id p) x = is_excluded c (pool_id p) x"
    "lowest_available d p = lowest_available c p" "blocked_offsets d p = blocked_offsets c p" for x
    by (simp_all add: find_addr_def is_excluded_def exclusion_bounds_def lowest_available_def blocked_offsets_def)
  have "available_candidate fresh draws p q c = map_sum id (\<lambda>(a, d1). (a, c\<lparr>ip_pools := ip_pools d1,
      ip_addresses := ip_addresses d1\<rparr>)) (available_candidate fresh draws p q d)"
    unfolding available_candidate_def candidate_address_def automatic_candidate_def same
    by (auto simp: tables Let_def bind_result_def add_addr_def put_pool_def unavailable_def split: option.splits sum.splits)
  moreover have "exclusions d1 = exclusions d \<and> ip_allocations d1 = ip_allocations d"
    using assms(2)
    by (auto simp: available_candidate_def candidate_address_def automatic_candidate_def result_simps Let_def
        add_addr_def put_pool_def unavailable_def split: option.splits if_splits prod.splits)
  ultimately show ?thesis using assms(2) tables by (auto simp: ipam_same_def)
qed

lemma ipam_same_moves:
  "ipam_same c d \<Longrightarrow> ipam_same (put_addr k g (put_alloc j f c)) (put_addr k g (put_alloc j f d))"
  "ipam_same c d \<Longrightarrow> ipam_same (add_alloc l (put_addr k g c)) (add_alloc l (put_addr k g d))"
  by (simp_all add: ipam_same_def put_addr_def put_alloc_def add_alloc_def)

lemma reserve_ok:
  assumes "ipam_ok d" "opt_all wf_address q" "reserve_for_provisioning sv fresh draws i j q d = (r, d')" "d' \<noteq> d"
  shows "ipam_inv d'"
proof -
  obtain c where c: "ipam_inv c" "ipam_same c d" using assms(1) by (auto simp: ipam_ok_def)
  from reserve_for_provisioning_outcome[OF assms(3,4)] obtain p a d1 l where
    p: "get_pool_row d i = Some p" "pool_is_active p"
    and cand: "available_candidate fresh draws p q d = Inr (a, d1)"
    and l: "l = request_allocation sv (fresh 1) (addr_id a) j (allocation_kind q)"
    and d': "d' = add_alloc l (put_addr (addr_id a) (mark_reserved (sv_now sv)) d1)" and int: "integrity d'"
    by blast
  from candidate_same[OF c(2) cand] obtain c1 where
    c1: "available_candidate fresh draws p q c = Inr (a, c1)" "ipam_same c1 d1" by blast
  have "get_pool_row c (pool_id p) = Some p" using p(1) c(2) get_pool_rowD[OF p(1)] by (simp add: ipam_same_def)
  moreover have "distinct (map addr_id (ip_addresses (put_addr (addr_id a) (mark_reserved (sv_now sv)) c1)))"
    using integrity_distinct(2)[OF int] c1(2) by (simp add: d' ipam_same_def add_alloc_def put_addr_def)
  ultimately have "ipam_wf (add_alloc l (put_addr (addr_id a) (mark_reserved (sv_now sv)) c1))"
    by (intro take_address_wf[OF c(1) _ assms(2) c1(1)])
      (use p in \<open>auto simp: l mark_reserved_def request_allocation_def\<close>)
  then show ?thesis
    using ipam_wf_same[OF ipam_same_moves(2)[OF c1(2)]] int by (simp add: d' ipam_inv_def)
qed

lemma move_ok:
  assumes "ipam_ok d" "find_request_alloc d j ss = Some l" "set ss \<subseteq> {Alloc_RESERVED, Alloc_ASSIGNED}"
    "get_addr d (alloc_ip_address_id l) = Some a"
    "\<And>x. addr_id (g x) = addr_id x" "\<And>x. addr_pool_id (g x) = addr_pool_id x"
    "\<And>x. addr_address (g x) = addr_address x" "\<And>x. alloc_ip_address_id (f x) = alloc_ip_address_id x"
    "expected_allocs (addr_state (g a)) = (if active_allocation (alloc_status (f l)) then [alloc_status (f l)] else [])"
    "integrity (put_addr (addr_id a) g (put_alloc (alloc_id l) f d))"
  shows "ipam_inv (put_addr (addr_id a) g (put_alloc (alloc_id l) f d))"
proof -
  obtain c where c: "ipam_inv c" "ipam_same c d" using assms(1) by (auto simp: ipam_ok_def)
  have "l \<in> set (ip_allocations d) \<and> alloc_status l \<in> set ss"
    using assms(2) by (auto simp: find_request_alloc_def dest: find_Some_mem)
  then have "l \<in> set (ip_allocations c)" "get_addr c (alloc_ip_address_id l) = Some a" "active_allocation (alloc_status l)"
    using c(2) assms(3,4) by (auto simp: ipam_same_def)
  then have "ipam_wf (put_addr (addr_id a) g (put_alloc (alloc_id l) f c))"
    by (intro move_wf[OF c(1)]) (use assms(5-9) in auto)
  then show ?thesis
    using ipam_wf_same[OF ipam_same_moves(1)[OF c(2)]] assms(10) by (simp add: ipam_inv_def)
qed

lemma confirm_ok:
  assumes "ipam_ok d" "confirm_provisioning_ip sv j w d = (r, d')" "d' \<noteq> d"
  shows "ipam_inv d'"
proof -
  obtain l a f g where l: "find_request_alloc d j [Alloc_RESERVED] = Some l"
    and a: "get_addr d (alloc_ip_address_id l) = Some a"
    and d': "d' = put_addr (addr_id a) g (put_alloc (alloc_id l) f d)" "integrity d'"
    and g: "g = (\<lambda>x::ip_address. x\<lparr>addr_state := Addr_ASSIGNED, addr_version := addr_version x + 1\<rparr>)"
    and f: "f = (\<lambda>x::ip_allocation. x\<lparr>alloc_workload_id := Some w, alloc_status := Alloc_ASSIGNED,
      alloc_confirmed_at := Some (sv_now sv), alloc_version := alloc_version x + 1\<rparr>)"
    using assms(2,3)
    by (simp add: confirm_provisioning_ip_def try_in_def commit_in_def split: sum.splits if_splits option.splits)
  show ?thesis
    unfolding d'(1) by (rule move_ok[OF assms(1) l _ a]) (use d' in \<open>auto simp: f g\<close>)
qed

lemma quarantine_ok:
  assumes "ipam_ok d" "quarantine_provisioning_ip sv j d = (r, d')" "d' \<noteq> d"
  shows "ipam_inv d'"
proof -
  from quarantine_provisioning_ip_outcome[OF assms(2,3)] obtain l a p where
    l: "find_request_alloc d j [Alloc_RESERVED] = Some l" "get_addr d (alloc_ip_address_id l) = Some a"
    and d': "d' = to_quarantine (sv_now sv) ''Provisioning failed before clone completion'' l a p d" "integrity d'"
    by blast
  show ?thesis
    unfolding d'(1) to_quarantine_def
    by (rule move_ok[OF assms(1) l(1) _ l(2)])
      (use d' in \<open>auto simp: to_quarantine_def quarantine_addr_def quarantine_alloc_def\<close>)
qed

section \<open>The invariant across a run\<close>

definition request_wf :: "uuid \<Rightarrow> db \<Rightarrow> bool" where
  "request_wf i d \<longleftrightarrow> (\<forall>r. get_req d i = Some r \<longrightarrow> opt_all wf_address (req_requested_ip_address r))"

definition ipam_run :: "uuid \<Rightarrow> 'w rs \<Rightarrow> bool" where
  "ipam_run i s \<longleftrightarrow> ipam_ok (rs_db s) \<and> rs_commits s \<noteq> [] \<and> list_all ipam_inv (rs_commits s) \<and> holds (request_wf i) s"

lemma request_wf_closed: "handler_closed i (request_wf i)"
  unfolding handler_closed_def
proof (intro allI impI)
  fix d d' :: db assume wf: "request_wf i d" and "list_all2 (req_le i) (requests d) (requests d')"
  from this(2) have "get_req d' i = Some r' \<Longrightarrow> \<exists>r. get_req d i = Some r \<and> req_le i r r'" for r'
    by (induction rule: list_all2_induct) (auto simp: table_simps req_le_def split: if_splits)
  with wf show "request_wf i d'" by (fastforce simp: request_wf_def req_le_def)
qed

lemma request_wf_put_req:
  assumes "\<And>r. req_id (f r) = req_id r" "\<And>r. req_requested_ip_address (f r) = req_requested_ip_address r" "request_wf i d"
  shows "request_wf i (put_req i f d)"
  using assms by (auto simp: request_wf_def get_put_req)

lemma request_wf_same: "requests d' = requests d \<Longrightarrow> request_wf i d \<Longrightarrow> request_wf i d'"
  by (simp add: request_wf_def)

lemma ipam_run_basic:
  "worldless (ipam_run i)" "keeps (ipam_run i) rollbackM" "keeps (ipam_run i) commitM"
  "keeps (ipam_run i) (callM nm args h)"
  by (auto simp: worldless_def keeps_def wp_rules ipam_run_def holds_def stored_def ipam_ok_commit ipam_ok_inv neq_Nil_conv
      split: prod.splits sum.splits)

lemma ipam_run_write:
  assumes "\<And>d. ipam_same d (f d)" "\<And>d. request_wf i d \<Longrightarrow> request_wf i (f d)"
  shows "keeps (ipam_run i) (writeM f)"
  using assms ipam_ok_same by (auto simp: keeps_def wp_rules ipam_run_def holds_def stored_def)

lemma ipam_run_service:
  assumes "\<And>d r d'. ipam_ok d \<Longrightarrow> f d = (r, d') \<Longrightarrow> d' \<noteq> d \<Longrightarrow> ipam_inv d'"
    "\<And>d r d'. f d = (r, d') \<Longrightarrow> requests d' = requests d \<and> steps d' = steps d"
  shows "keeps (ipam_run i) (serviceM f)"
  unfolding keeps_def wp_serviceM
proof (intro allI impI)
  fix s :: "'b rs" assume s: "ipam_run i s"
  obtain r d' where f: "f (rs_db s) = (r, d')" by fastforce
  have "ipam_run i (after_service r d' s)"
    using s assms(1)[OF _ f] request_wf_same[OF conjunct1[OF assms(2)[OF f]]] ipam_ok_inv
    by (auto simp: after_service_def ipam_run_def holds_def stored_def neq_Nil_conv)
  with f show "case f (rs_db s) of (r, d') \<Rightarrow>
      (case r of Inr x \<Rightarrow> ipam_run i (after_service r d' s) | Inl e \<Rightarrow> ipam_run i (after_service r d' s))"
    by (auto split: sum.splits)
qed

lemma ipam_run_frame: "(\<And>d. prov_frame i d (f d)) \<Longrightarrow> keeps (ipam_run i) (writeM f)"
  using handler_closed_frame[OF request_wf_closed, of i]
  by (intro ipam_run_write) (auto simp: prov_frame_def ipam_same_def)

lemmas ipam_run_rules = keeps_nowM[OF ipam_run_basic(1)] keeps_uuid4M[OF ipam_run_basic(1)]
  keeps_drawsM[OF ipam_run_basic(1)] ipam_run_basic(2-) keeps_bindM keeps_thenM
  keeps_if keeps_returnM keeps_raiseM keeps_readM keeps_case_option keeps_case_prod

lemma ipam_run_rows:
  "keeps (ipam_run i) (request_row j)" "keeps (ipam_run i) (step_row j)" "keeps (ipam_run i) (node_of j)"
  "keeps (ipam_run i) (vmid_of j)" "keeps (ipam_run i) (int_spec j key)" "keeps (ipam_run i) (str_spec j key)"
  unfolding request_row_def step_row_def node_of_def vmid_of_def int_spec_def str_spec_def
  by (intro ipam_run_rules)+

text \<open>The address a request asks for is well-formed.\<close>

lemma ipam_run_request_row:
  assumes "\<And>r. opt_all wf_address (req_requested_ip_address r) \<Longrightarrow> keeps (ipam_run i) (k r)"
  shows "keeps (ipam_run i) (bindM (request_row i) k)"
  unfolding keeps_def
proof (intro allI impI)
  fix s :: "'a rs" assume s: "ipam_run i s"
  show "wp (bindM (request_row i) k) (\<lambda>_. ipam_run i) (\<lambda>_. ipam_run i) s"
  proof (cases "get_req (rs_db s) i")
    case None
    with s show ?thesis by (simp add: request_row_def wp_rules)
  next
    case (Some r)
    then have "keeps (ipam_run i) (k r)" using s by (intro assms) (auto simp: ipam_run_def holds_def request_wf_def)
    with s Some show ?thesis by (simp add: request_row_def wp_bindM wp_readM wp_returnM keeps_at)
  qed
qed

lemma ipam_run_handlers: "provisioning_invariant (ipam_run i) i"
proof -
  have svc: "keeps (ipam_run i) (serviceM (reserve_for_provisioning sv fresh draws p j q))"
    if "opt_all wf_address q" for sv fresh draws p j q
    by (rule ipam_run_service) (erule reserve_ok[OF _ that], assumption+, rule reserve_requests)
  have reserve: "keeps (ipam_run i) (reserve_ip V me)" if "pr_request me = i" for V :: "'w prov_env" and me
    unfolding reserve_ip_def Let_def ipamM_def that
    by (intro ipam_run_request_row ipam_run_rules svc ipam_run_frame prov_frame_put_req)
      (simp_all add: req_le_def has_password_def)
  have clone: "keeps (ipam_run i) (full_clone i st api)" for st and api :: "'w provisioning_api"
    unfolding full_clone_def vm_exists_def ownership_conflict_def
    by (intro ipam_run_rules ipam_run_rows ipam_run_frame prov_frame_put_step prov_frame_put_req)
      (simp_all add: req_le_def has_password_def step_view_def)
  have confirm: "keeps (ipam_run i) (serviceM (confirm_provisioning_ip sv i w))" for sv w
    by (rule ipam_run_service) (erule (2) confirm_ok, rule confirm_requests)
  show ?thesis
    by (rule provisioning_invariant.intro)
      (rule ipam_run_frame ipam_run_basic clone reserve confirm | assumption)+
qed

interpretation addressed: provisioning_run_invariant "ipam_run i" i "ipam_run i"
proof (rule provisioning_run_invariant_same[OF ipam_run_handlers])
  have w: "keeps (ipam_run i) (writeM (put_req i f))"
    if "\<And>r. req_id (f r) = req_id r" "\<And>r. req_requested_ip_address (f r) = req_requested_ip_address r" for f
    by (rule ipam_run_write) (simp add: ipam_same_def put_req_def, rule request_wf_put_req[OF that])
  show "keeps (ipam_run i) (writeM (put_req i (fail_row b e t)))"
    "keeps (ipam_run i) (writeM (put_req i (succeed_row t)))"
    "keeps (ipam_run i) (writeM (put_req i (\<lambda>x. x\<lparr>req_runner_id := None, req_lease_expires_at := None\<rparr>)))" for b e t
    by (rule w; simp add: fail_row_def succeed_row_def)+
  show "keeps (ipam_run i) (serviceM (quarantine_provisioning_ip sv i))" for sv
    by (rule ipam_run_service) (erule (2) quarantine_ok, rule quarantine_requests)
  show "keeps (ipam_run i) (writeM (put_step k f))" for k f
    by (rule ipam_run_write) (simp_all add: ipam_same_def put_step_def request_wf_def)
qed

section \<open>A whole run\<close>

lemma ipam_inv_put_req: "ipam_inv d \<Longrightarrow> integrity (put_req i f d) \<Longrightarrow> ipam_inv (put_req i f d)"
  by (rule ipam_frame_inv) (simp_all add: ipam_frame_def put_req_def)

lemma claimed_ipam_run:
  assumes "ipam_inv d" "request_wf i d" "get_req d i = Some q" "claimable t q"
  shows "ipam_run i (claimed_state V u i t d w)"
proof -
  let ?d = "put_req i (claim_row (pv_settings V) u t) d"
  have "ipam_inv ?d"
    using ipam_inv_put_req[OF assms(1)] integrity_claim_row[OF ipam_invD(1)[OF assms(1)] assms(3,4)] by simp
  moreover have "request_wf i ?d" by (rule request_wf_put_req[OF _ _ assms(2)]) (simp_all add: claim_row_def)
  ultimately show ?thesis
    using assms(1) by (simp add: ipam_run_def holds_def stored_def claimed_state_def ipam_ok_inv)
qed

lemma run_keeps_ipam:
  assumes "ipam_inv d" "request_wf i d" "get_req d i = Some q" "run_provisioning_request V i d w = (r, s)"
  shows "\<forall>c \<in> set (rs_commits s). ipam_inv c"
proof (cases "claimable (claim_time V w) q")
  case True
  note int = ipam_invD(1)[OF assms(1)]
  obtain u w2 where fin:
    "finallyM (run_claimed V u i) (release_claim u i) (claimed_state V u i (claim_time V w) d w2) = (r, s)"
    using run_claimable[OF int assms(3) True assms(4)] .
  obtain r1 s1 where run: "run_claimed V u i (claimed_state V u i (claim_time V w) d w2) = (r1, s1)" by fastforce
  have h: "history d s1"
    using integral.run_claimed_ends[OF claimed_start(1)[OF int assms(3) True, where V = V and u = u and w = w2], of V u i] run
    by (auto simp: wp_def split: sum.splits)
  have k: "ipam_run i s1"
    using addressed.run_claimed_ends[OF claimed_ipam_run[OF assms(1-3) True, where V = V and u = u and w = w2], of V u] run
    by (auto simp: wp_def split: sum.splits)
  then have "ipam_inv (stored s1)" by (cases "rs_commits s1") (auto simp: ipam_run_def stored_def)
  then have "ipam_inv (put_req i (unclaim_row u) (stored s1))"
    using ipam_inv_put_req integrity_unclaim ipam_invD(1) by blast
  with finally_release[of "run_claimed V u i", OF run, of u i] h fin k show ?thesis
    by (auto simp: history_def ipam_run_def list_all_iff)
next
  case False
  obtain u w1 t w2 where w: "re_uuid4 (pv_env V) w = (u, w1)" "re_now (pv_env V) w1 = (t, w2)" by fastforce
  with False show ?thesis
    using run_provisioning_cases[OF ipam_invD(1)[OF assms(1)] assms(3) w] assms(1,4) by (auto simp: claim_time_def)
qed

end
