(* ===== verification/Operations.thy ===== *)
theory Operations
  imports Audit_Log "HOL-Library.List_Lexorder" "HOL-Library.Char_ord"
begin

text \<open>
  \<open>OperationService\<close> of src/backend/app/services/operations.py with the payloads of
  src/backend/app/schemas/operation.py: the requests that queue a power action, a change of a
  guest's size or its deletion, and the job view.  Requests are idempotent under a client's key
  and at most one operation per workload is active.

  \<open>sha256\<close> and \<open>hmac\<close> of Python's library are parameters (\<open>crypto\<close>): nothing here depends on which
  functions they are.  The message handed to the publisher is part of the result; the publisher's
  failure is swallowed by the code, so it changes nothing.
\<close>

section \<open>schemas/operation.py\<close>

record vm_spec_update_request =
  su_cpu_cores :: int
  su_memory_gib :: int
  su_disk_gib :: "int option"
  su_version :: int
  su_reason :: "string option"

record vm_delete_request =
  vd_confirmation :: string
  vd_reason :: "string option"

datatype admin_payload = Spec_Update vm_spec_update_request | Vm_Delete vm_delete_request

datatype job_action = Job_Power power_action | Job_Admin admin_vm_action | Job_backup | Job_restore

record job_response =
  jr_id :: uuid
  jr_workload_id :: uuid
  jr_organization_id :: "uuid option"
  jr_action :: job_action
  jr_action_mode :: string
  jr_status :: operation_status
  jr_result :: dict
  jr_error_code :: "string option"
  jr_error_summary :: "string option"
  jr_retryable :: "bool option"
  jr_pve_upid :: "string option"
  jr_pve_exit_status :: "string option"
  jr_requested_at :: datetime
  jr_started_at :: "datetime option"
  jr_finished_at :: "datetime option"

section \<open>Helpers\<close>

record crypto =
  sha256 :: "bytes \<Rightarrow> bytes"
  hmac_sha256 :: "bytes \<Rightarrow> bytes \<Rightarrow> bytes"

definition encode :: "string \<Rightarrow> bytes" where
  "encode s = map of_char s"

text \<open>\<open>json.dumps(..., sort_keys=True)\<close> of ASCII data.\<close>

definition json_escape :: "char \<Rightarrow> string" where
  "json_escape c =
     (let n = (of_char c :: nat); b = char_of (92 :: nat) in
      if n = 34 \<or> n = 92 then [b, c]
      else if n = 8 then [b, CHR ''b''] else if n = 9 then [b, CHR ''t'']
      else if n = 10 then [b, CHR ''n''] else if n = 12 then [b, CHR ''f'']
      else if n = 13 then [b, CHR ''r'']
      else if n < 32 \<or> n \<ge> 127 then [b, CHR ''u''] @ hex_digits 4 (int n)
      else [c])"

definition json_string :: "string \<Rightarrow> string" where
  "json_string s = CHR 34 # concat (map json_escape s) @ [CHR 34]"

fun json_dumps :: "json \<Rightarrow> string" where
  "json_dumps JNull = ''null''"
| "json_dumps (JBool b) = (if b then ''true'' else ''false'')"
| "json_dumps (JInt i) = int_str i"
| "json_dumps (JFloat s) = s"
| "json_dumps (JStr s) = json_string s"
| "json_dumps (JList xs) = ''['' @ join_with '', '' (map json_dumps xs) @ '']''"
| "json_dumps (JObj d) =
     ''{'' @ join_with '', '' (map snd (sort_key fst
       (map (\<lambda>(k, v). (k, json_string k @ '': '' @ json_dumps v)) d))) @ ''}''"
| "json_dumps (JOther s) = json_string s"

definition action_mode :: "power_action \<Rightarrow> string" where
  "action_mode a = (case a of SHUTDOWN \<Rightarrow> ''GRACEFUL'' | STOP \<Rightarrow> ''FORCED'' | _ \<Rightarrow> ''STANDARD'')"

definition key_hash :: "crypto \<Rightarrow> string \<Rightarrow> string \<Rightarrow> bytes" where
  "key_hash C secret key = hmac_sha256 C (encode secret) (encode key)"

definition job_action_of :: "string \<Rightarrow> job_action" where
  "job_action_of s = (case power_action_of s of
     Some a \<Rightarrow> Job_Power a
   | None \<Rightarrow> (case find (\<lambda>a. admin_vm_action_value a = s) [UPDATE_SPEC, DELETE_VM] of
       Some a \<Rightarrow> Job_Admin a | None \<Rightarrow> Job_backup))"

definition default_mode :: "string \<Rightarrow> string" where
  "default_mode s = (case power_action_of s of
     Some a \<Rightarrow> action_mode a
   | None \<Rightarrow> if s = admin_vm_action_value DELETE_VM then ''DESTRUCTIVE''
             else if is_admin_action s then ''CONFIGURATION'' else ''BACKUP'')"

text \<open>\<open>ORDER BY submitted_at DESC\<close>, first row.\<close>

definition latest_task :: "db \<Rightarrow> uuid \<Rightarrow> pve_task option" where
  "latest_task d i =
     (case sort_key (\<lambda>t. - pt_submitted_at t) (filter (\<lambda>t. pt_operation_id t = i) (pve_tasks d)) of
        [] \<Rightarrow> None | t # _ \<Rightarrow> Some t)"

definition job_response_of :: "db \<Rightarrow> operation \<Rightarrow> job_response" where
  "job_response_of d op =
     (let t = latest_task d (op_id op) in
      \<lparr>jr_id = op_id op, jr_workload_id = op_workload_id op,
       jr_organization_id = op_organization_id op, jr_action = job_action_of (op_action op),
       jr_action_mode = py_str (dict_get_or (op_result op) ''action_mode'' (JStr (default_mode (op_action op)))),
       jr_status = op_status op, jr_result = op_result op, jr_error_code = op_error_code op,
       jr_error_summary = op_error_summary op, jr_retryable = op_retryable op,
       jr_pve_upid = map_option pt_upid t,
       jr_pve_exit_status = (case t of Some x \<Rightarrow> pt_pve_exit_status x | None \<Rightarrow> None),
       jr_requested_at = op_requested_at op, jr_started_at = op_started_at op,
       jr_finished_at = op_finished_at op\<rparr>)"

definition find_idempotent :: "db \<Rightarrow> uuid \<Rightarrow> bytes \<Rightarrow> operation option" where
  "find_idempotent d u h =
     find (\<lambda>x. op_requested_by_id x = u \<and> op_idempotency_key_hash x = h) (operations d)"

definition find_active :: "db \<Rightarrow> uuid \<Rightarrow> operation option" where
  "find_active d w = find (\<lambda>x. op_workload_id x = w \<and> active_status (op_status x)) (operations d)"

definition add_operation :: "operation \<Rightarrow> db \<Rightarrow> db" where
  "add_operation x d = d\<lparr>operations := operations d @ [x]\<rparr>"

definition new_operation ::
    "service \<Rightarrow> uuid \<Rightarrow> string \<Rightarrow> string \<Rightarrow> string \<Rightarrow> workload \<Rightarrow> bytes \<Rightarrow> bytes \<Rightarrow> dict \<Rightarrow> operation" where
  "new_operation sv i task ty act w h fp res =
     \<lparr>op_id = i, op_operation_type = ty, op_action = act, op_status = Op_QUEUED,
      op_requested_by_id = prin_user_id (sv_principal sv), op_source_ip = sv_source_ip sv,
      op_organization_id = wl_organization_id w, op_cluster_id = wl_cluster_id w,
      op_workload_id = wl_id w, op_idempotency_key_hash = h, op_request_fingerprint = fp,
      op_celery_task_id = task, op_result = res, op_error_code = None, op_error_summary = None,
      op_retryable = None, op_attempt_count = 0, op_requested_at = sv_now sv,
      op_started_at = None, op_finished_at = None, op_heartbeat_at = None, op_version = 1\<rparr>"

definition operation_event :: "service \<Rightarrow> string \<Rightarrow> string \<Rightarrow> workload \<Rightarrow> uuid \<Rightarrow> audit_event" where
  "operation_event sv act ttype w i =
     (service_event sv act ''ATTEMPTED'' ttype (wl_id w))
       \<lparr>ev_organization_id := wl_organization_id w, ev_workload_id := Some (wl_id w),
        ev_operation_id := Some i\<rparr>"

type_synonym accepted = "job_response \<times> bool \<times> (uuid \<times> string) option"

definition operation_conflict :: exn where
  "operation_conflict = App (app_error 409 ''OPERATION_CONFLICT''
     ''A duplicate or conflicting operation already exists.'')"

section \<open>Power actions\<close>

definition power_fingerprint :: "uuid \<Rightarrow> power_action \<Rightarrow> string" where
  "power_fingerprint w a = uuid_str w @ '':'' @ power_action_value a"

definition guest_workload :: "db \<Rightarrow> uuid \<Rightarrow> workload option" where
  "guest_workload d i =
     find (\<lambda>w. wl_id w = i \<and> wl_is_present w \<and> \<not> wl_is_template w) (workloads d)"

definition request_power_action ::
    "service \<Rightarrow> crypto \<Rightarrow> string \<Rightarrow> (nat \<Rightarrow> uuid) \<Rightarrow> uuid \<Rightarrow> power_action \<Rightarrow> string \<Rightarrow> string option \<Rightarrow> db \<Rightarrow>
     accepted outcome" where
  "request_power_action sv C secret fresh i action key reason d =
     try_in d (require_service_role (sv_principal sv) [SUPER_ADMIN, OPERATOR]) (\<lambda>_.
     case guest_workload d i of
       None \<Rightarrow> (raise_app 404 ''VM_NOT_FOUND'' ''The workload was not found.'', d)
     | Some w \<Rightarrow>
       if wl_kind w = LXC \<and> action = RESET
       then (raise_app 409 ''POWER_ACTION_UNSUPPORTED'' ''Reset is not supported for containers.'', d)
       else
         let h = key_hash C secret key;
             fp = sha256 C (encode (power_fingerprint i action)) in
         case find_idempotent d (prin_user_id (sv_principal sv)) h of
           Some x \<Rightarrow>
             if op_request_fingerprint x \<noteq> fp
             then (raise_app 409 ''IDEMPOTENCY_KEY_REUSED''
                    ''The idempotency key was already used for another request.'', d)
             else (Inr (job_response_of d x, False, None), d)
         | None \<Rightarrow>
           (case find_active d i of
              Some x \<Rightarrow> (Inl (App (AppError 409 ''OPERATION_CONFLICT''
                  ''Another power operation is already running for this workload.''
                  [(''job_id'', JStr (uuid_str (op_id x)))])), d)
            | None \<Rightarrow>
              let task = uuid_str (fresh 1);
                  mode = action_mode action;
                  x = new_operation sv (fresh 0) task (''POWER_'' @ str_upper (power_action_value action))
                        (power_action_value action) w h fp
                        [(''action_mode'', JStr mode), (''reason_recorded'', JBool (reason \<noteq> None)),
                         (''workload_kind'', JStr (workload_kind_value (wl_kind w)))];
                  d1 = add_operation x d;
                  d2 = add_audit_event (sv_ctx sv)
                         ((operation_event sv (''VM_POWER_'' @ str_upper (power_action_value action))
                             ''workload'' w (op_id x))
                           \<lparr>ev_details := Some [(''action_mode'', JStr mode),
                              (''workload_kind'', JStr (workload_kind_value (wl_kind w)))]\<rparr>) d1
              in commit_in d operation_conflict d2
                   (Inr (job_response_of d2 x, True, Some (op_id x, task)))))"

section \<open>Administrative actions\<close>

definition gib :: int where "gib = 1024 ^ 3"

text \<open>The payload's checks and the \<open>requested\<close> dictionary they end with.\<close>

definition admin_requested :: "admin_payload \<Rightarrow> workload \<Rightarrow> dict result" where
  "admin_requested p w = (case p of
     Vm_Delete v \<Rightarrow>
       (let expected = (case wl_name w of Some (c # cs) \<Rightarrow> c # cs | _ \<Rightarrow> int_str (wl_vmid w)) in
        if vd_confirmation v \<noteq> expected
        then raise_app 422 ''VM_DELETE_CONFIRMATION_MISMATCH'' ''VM confirmation failed.''
        else if wl_organization_id w \<noteq> None
        then raise_app 409 ''VM_ASSIGNED'' ''Unassign the VM before deleting it.''
        else if str_upper (wl_power_state w) \<noteq> ''STOPPED''
        then raise_app 409 ''VM_NOT_STOPPED'' ''Stop the VM before deleting it.''
        else Inr [(''reason_recorded'', JBool (vd_reason v \<noteq> None))])
   | Spec_Update u \<Rightarrow>
       (if su_version u \<noteq> wl_version w
        then raise_app 409 ''WORKLOAD_VERSION_CONFLICT'' ''The VM inventory changed.''
        else
          let disk = (case su_disk_gib u of Some g \<Rightarrow> if g = 0 then None else Some (g * gib) | None \<Rightarrow> None) in
          if (case (disk, wl_disk_bytes w) of (Some r, Some b) \<Rightarrow> r < b | _ \<Rightarrow> False)
          then raise_app 422 ''DISK_SHRINK_FORBIDDEN'' ''VM disks cannot be shrunk.''
          else Inr [(''cpu_cores'', JInt (su_cpu_cores u)), (''memory_bytes'', JInt (su_memory_gib u * gib)),
                    (''disk_bytes'', json_opt JInt disk),
                    (''reason_recorded'', JBool (su_reason u \<noteq> None))]))"

definition request_admin_action ::
    "service \<Rightarrow> crypto \<Rightarrow> string \<Rightarrow> (nat \<Rightarrow> uuid) \<Rightarrow> uuid \<Rightarrow> admin_vm_action \<Rightarrow> string \<Rightarrow> admin_payload \<Rightarrow> db \<Rightarrow>
     accepted outcome" where
  "request_admin_action sv C secret fresh i action key payload d =
     try_in d (require_service_role (sv_principal sv) [SUPER_ADMIN]) (\<lambda>_.
     case guest_workload d i of
       None \<Rightarrow> (raise_app 404 ''VM_NOT_FOUND'' ''The virtual machine was not found.'', d)
     | Some w \<Rightarrow>
       try_in d (admin_requested payload w) (\<lambda>requested.
         let h = key_hash C secret key;
             fp = sha256 C (encode (json_dumps (JObj (dict_merge
                    [(''vm_id'', JStr (uuid_str i)), (''action'', JStr (admin_vm_action_value action))]
                    requested)))) in
         case find_idempotent d (prin_user_id (sv_principal sv)) h of
           Some x \<Rightarrow>
             if op_request_fingerprint x \<noteq> fp
             then (raise_app 409 ''IDEMPOTENCY_KEY_REUSED'' ''The idempotency key was reused.'', d)
             else (Inr (job_response_of d x, False, None), d)
         | None \<Rightarrow>
           if find_active d (wl_id w) \<noteq> None
           then (raise_app 409 ''OPERATION_CONFLICT'' ''Another VM operation is running.'', d)
           else
             let task = uuid_str (fresh 1);
                 ty = (if action = UPDATE_SPEC then ''VM_SPEC_UPDATE'' else ''VM_DELETE'');
                 x = new_operation sv (fresh 0) task ty (admin_vm_action_value action) w h fp requested;
                 d1 = add_operation x d;
                 d2 = add_audit_event (sv_ctx sv)
                        ((operation_event sv ty ''vm'' w (op_id x))\<lparr>ev_after := Some requested\<rparr>) d1
             in commit_in d operation_conflict d2
                  (Inr (job_response_of d2 x, True, Some (op_id x, task)))))"

definition get_job :: "service \<Rightarrow> uuid \<Rightarrow> db \<Rightarrow> job_response result" where
  "get_job sv i d =
     bind_result (require_service_role (sv_principal sv) [SUPER_ADMIN, OPERATOR]) (\<lambda>_.
       case get_row op_id (operations d) i of
         None \<Rightarrow> raise_app 404 ''JOB_NOT_FOUND'' ''The job was not found.''
       | Some x \<Rightarrow> Inr (job_response_of d x))"

end
