(* ===== verification/Workloads.thy ===== *)
theory Workloads
  imports Power_Runner "HOL-Library.Product_Lexorder"
begin

text \<open>
  \<open>WorkloadService\<close> of src/backend/app/services/workloads.py: assigning workloads to organisations
  and taking them away again.  \<open>list_workloads\<close>, whose order depends on the database's collation, is
  left out; \<open>get\<close> answers with the same response.
\<close>

section \<open>Responses\<close>

record workload_response =
  wlr_workload :: workload
  wlr_cluster_name :: string
  wlr_organization_name :: "string option"
  wlr_assigned_ip_addresses :: "string list"

record assignment_response =
  asr_assignment :: workload_assignment
  asr_organization_name :: string

section \<open>Queries\<close>

definition workload_not_found :: "'a result" where
  "workload_not_found = raise_app 404 ''WORKLOAD_NOT_FOUND'' ''The workload was not found.''"

definition cluster_active :: "db \<Rightarrow> uuid \<Rightarrow> bool" where
  "cluster_active d i \<longleftrightarrow> list_ex (\<lambda>c. cl_id c = i \<and> cl_is_active c) (clusters d)"

text \<open>The joined row is locked; the model's handlers are atomic.\<close>

definition locked_workload :: "db \<Rightarrow> uuid \<Rightarrow> workload result" where
  "locked_workload d i =
     (case find (\<lambda>w. wl_id w = i \<and> wl_is_present w \<and> cluster_active d (wl_cluster_id w)) (workloads d) of
        None \<Rightarrow> workload_not_found | Some w \<Rightarrow> Inr w)"

definition active_assignment :: "db \<Rightarrow> uuid \<Rightarrow> workload_assignment option" where
  "active_assignment d i = find (\<lambda>a. wa_workload_id a = i \<and> wa_revoked_at a = None) (assignments d)"

text \<open>PostgreSQL orders \<open>inet\<close> values by family, then by address.\<close>

definition assigned_ip_addresses :: "db \<Rightarrow> uuid \<Rightarrow> string list" where
  "assigned_ip_addresses d i =
     map address_str (sort_key (\<lambda>a. (version_number (address_version a), address_int a))
       (map addr_address (filter (\<lambda>x. list_ex (\<lambda>al. alloc_ip_address_id al = addr_id x \<and> alloc_workload_id al = Some i \<and>
            alloc_status al = Alloc_ASSIGNED) (ip_allocations d)) (ip_addresses d))))"

definition get_workload :: "service \<Rightarrow> uuid \<Rightarrow> db \<Rightarrow> workload_response result" where
  "get_workload sv i d =
     bind_result (require_service_role (sv_principal sv) [SUPER_ADMIN, OPERATOR]) (\<lambda>_.
     bind_result (locked_workload d i) (\<lambda>w.
     case get_row cl_id (clusters d) (wl_cluster_id w) of
       None \<Rightarrow> workload_not_found
     | Some c \<Rightarrow> Inr \<lparr>wlr_workload = w, wlr_cluster_name = cl_name c,
         wlr_organization_name = (case wl_organization_id w of None \<Rightarrow> None
           | Some g \<Rightarrow> map_option org_name (get_row org_id (organizations d) g)),
         wlr_assigned_ip_addresses = assigned_ip_addresses d i\<rparr>))"

definition assignment_history :: "service \<Rightarrow> uuid \<Rightarrow> db \<Rightarrow> assignment_response list result" where
  "assignment_history sv i d =
     bind_result (require_service_role (sv_principal sv) [SUPER_ADMIN, OPERATOR]) (\<lambda>_.
     if get_wl d i = None then workload_not_found
     else Inr (List.map_filter (\<lambda>a. map_option (\<lambda>g. \<lparr>asr_assignment = a, asr_organization_name = org_name g\<rparr>)
            (get_row org_id (organizations d) (wa_organization_id a)))
          (sort_key (\<lambda>a. - wa_assigned_at a) (filter (\<lambda>a. wa_workload_id a = i) (assignments d)))))"

section \<open>Assigning\<close>

definition workload_event :: "service \<Rightarrow> string \<Rightarrow> uuid \<Rightarrow> uuid \<Rightarrow> audit_event" where
  "workload_event sv act org i = (audit_event act ''SUCCEEDED'' (Some (sv_request_id sv)))
     \<lparr>ev_actor_user_id := Some (prin_user_id (sv_principal sv)), ev_actor_role := Some (prin_role (sv_principal sv)),
      ev_organization_id := Some org, ev_workload_id := Some i, ev_target_type := Some ''workload'',
      ev_target_id := Some (uuid_str i)\<rparr>"

definition set_owner :: "uuid option \<Rightarrow> workload \<Rightarrow> workload" where
  "set_owner g w = w\<lparr>wl_organization_id := g, wl_version := wl_version w + 1\<rparr>"

definition assigned_row :: "service \<Rightarrow> uuid \<Rightarrow> uuid \<Rightarrow> uuid \<Rightarrow> workload_assignment" where
  "assigned_row sv new_id i g = \<lparr>wa_id = new_id, wa_workload_id = i, wa_organization_id = g,
     wa_assigned_by_id = prin_user_id (sv_principal sv), wa_assigned_at = sv_now sv, wa_revoked_by_id = None,
     wa_revoked_at = None, wa_revoke_reason = None\<rparr>"

definition already_assigned :: "'a result" where
  "already_assigned = raise_app 409 ''WORKLOAD_ALREADY_ASSIGNED''
     ''The workload is already assigned to another organization.''"

definition assign :: "service \<Rightarrow> uuid \<Rightarrow> uuid \<Rightarrow> uuid \<Rightarrow> db \<Rightarrow> assignment_response outcome" where
  "assign sv new_id i organization_id d =
     try_in d (require_service_role (sv_principal sv) [SUPER_ADMIN, OPERATOR]) (\<lambda>_.
     try_in d (locked_workload d i) (\<lambda>w.
     case get_row org_id (organizations d) organization_id of
       None \<Rightarrow> (raise_app 404 ''ORGANIZATION_NOT_FOUND'' ''The organization was not found.'', d)
     | Some g \<Rightarrow>
       if \<not> org_is_active g then (raise_app 404 ''ORGANIZATION_NOT_FOUND'' ''The organization was not found.'', d)
       else if \<not> wl_is_present w \<or> wl_is_template w
       then (raise_app 409 ''WORKLOAD_NOT_ASSIGNABLE'' ''Only present, non-template workloads can be assigned.'', d)
       else (case active_assignment d (wl_id w) of
         Some a \<Rightarrow>
           if wa_organization_id a \<noteq> org_id g then (already_assigned, d)
           else (Inr \<lparr>asr_assignment = a, asr_organization_name = org_name g\<rparr>, d)
       | None \<Rightarrow>
           if wl_organization_id w \<notin> {None, Some (org_id g)} then (already_assigned, d)
           else
             let a = assigned_row sv new_id (wl_id w) (org_id g)
             in commit_in d (App (app_error 409 ''WORKLOAD_ALREADY_ASSIGNED'' ''The workload was assigned by another request.''))
                  (add_audit_event (sv_ctx sv) ((workload_event sv ''WORKLOAD_ASSIGNED'' (org_id g) (wl_id w))
                     \<lparr>ev_before := Some [(''organization_id'', JNull)],
                      ev_after := Some [(''organization_id'', JStr (uuid_str (org_id g)))]\<rparr>)
                    ((put_wl (wl_id w) (set_owner (Some (org_id g))) d)\<lparr>assignments := assignments d @ [a]\<rparr>))
                  (Inr \<lparr>asr_assignment = a, asr_organization_name = org_name g\<rparr>))))"

text \<open>\<open>reason.strip() if reason else None\<close>\<close>

definition recorded_reason :: "string option \<Rightarrow> string option" where
  "recorded_reason r = (case r of Some (c # cs) \<Rightarrow> Some (str_strip (c # cs)) | _ \<Rightarrow> None)"

definition revoked_row :: "service \<Rightarrow> string option \<Rightarrow> workload_assignment \<Rightarrow> workload_assignment" where
  "revoked_row sv reason a = a\<lparr>wa_revoked_by_id := Some (prin_user_id (sv_principal sv)),
     wa_revoked_at := Some (sv_now sv), wa_revoke_reason := recorded_reason reason\<rparr>"

definition put_assignment :: "uuid \<Rightarrow> (workload_assignment \<Rightarrow> workload_assignment) \<Rightarrow> db \<Rightarrow> db" where
  "put_assignment i f d = d\<lparr>assignments := modify_row wa_id i f (assignments d)\<rparr>"

definition unassign :: "service \<Rightarrow> uuid \<Rightarrow> string option \<Rightarrow> db \<Rightarrow> unit outcome" where
  "unassign sv i reason d =
     try_in d (require_service_role (sv_principal sv) [SUPER_ADMIN, OPERATOR]) (\<lambda>_.
     try_in d (locked_workload d i) (\<lambda>w.
     case wl_organization_id w of
       None \<Rightarrow> (Inr (), d)
     | Some g \<Rightarrow>
       if list_ex (\<lambda>x. op_workload_id x = wl_id w \<and> active_status (op_status x)) (operations d)
       then (raise_app 409 ''WORKLOAD_OPERATION_ACTIVE''
              ''The workload cannot be unassigned while an operation is active.'', d)
       else
         let d1 = (case active_assignment d (wl_id w) of
                     None \<Rightarrow> d | Some a \<Rightarrow> put_assignment (wa_id a) (revoked_row sv reason) d)
         in commit_in d IntegrityError
              (add_audit_event (sv_ctx sv) ((workload_event sv ''WORKLOAD_UNASSIGNED'' g (wl_id w))
                 \<lparr>ev_before := Some [(''organization_id'', JStr (uuid_str g))],
                  ev_after := Some [(''organization_id'', JNull), (''reason_recorded'', JBool (reason \<noteq> None))]\<rparr>)
                (put_wl (wl_id w) (set_owner None) d1))
              (Inr ())))"

section \<open>The abstract view: who owns what\<close>

text \<open>
  The promise of the service: ownership is a partial function from workloads to organisations.
  Assigning extends it where it is undefined, taking away undefines it, nothing else changes it.
\<close>

type_synonym ownership = "uuid \<rightharpoonup> uuid"

inductive ownership_step :: "ownership \<Rightarrow> ownership \<Rightarrow> bool" where
  own_same: "ownership_step m m"
| own_assign: "m w = None \<Longrightarrow> ownership_step m (m(w \<mapsto> g))"
| own_unassign: "ownership_step m (m(w := None))"

definition owner_of :: "db \<Rightarrow> ownership" where
  "owner_of d i = map_option wa_organization_id (active_assignment d i)"

text \<open>The column of the workload and the assignment that is not revoked tell the same owner.\<close>

definition ownership_ok :: "db \<Rightarrow> bool" where
  "ownership_ok d \<longleftrightarrow> integrity d \<and> list_all (\<lambda>w. wl_organization_id w = owner_of d (wl_id w)) (workloads d)"

lemma locked_workload_mem: "locked_workload d i = Inr w \<Longrightarrow> w \<in> set (workloads d) \<and> wl_id w = i"
  by (auto simp: locked_workload_def workload_not_found_def split: option.splits dest: find_Some_mem)

lemma find_modify_other:
  assumes "\<And>r. r \<in> set rows \<Longrightarrow> key r = i \<Longrightarrow> \<not> P r \<and> \<not> P (f r)"
  shows "find P (modify_row key i f rows) = find P rows"
  using assms by (induction rows) (auto simp: modify_row_def)

lemma owner_of_append:
  assumes "active_assignment d i = None" "assignments d' = assignments d @ [a]" "wa_workload_id a = i" "wa_revoked_at a = None"
  shows "owner_of d' = (owner_of d)(i \<mapsto> wa_organization_id a)"
proof
  fix j
  show "owner_of d' j = ((owner_of d)(i \<mapsto> wa_organization_id a)) j"
    using assms by (cases "j = i") (auto simp: owner_of_def active_assignment_def find_append split: option.splits)
qed

lemma owner_of_revoke:
  assumes "integrity d" "active_assignment d i = Some a" "assignments d' = modify_row wa_id (wa_id a) f (assignments d)"
    "\<And>x. wa_revoked_at (f x) \<noteq> None"
  shows "owner_of d' = (owner_of d)(i := None)"
proof
  fix j
  from assms(2) have a: "a \<in> set (assignments d)" "wa_workload_id a = i" "wa_revoked_at a = None"
    by (auto simp: active_assignment_def dest: find_Some_mem)
  have d: "distinct (map wa_id (assignments d))" "unique_on wa_workload_id (\<lambda>a. wa_revoked_at a = None) (assignments d)"
    using assms(1) by (simp_all add: integrity_def tables_ok_def assignments_ok_def)
  have at_a: "r = a" if "r \<in> set (assignments d)" "wa_id r = wa_id a" for r
    using d(1) a(1) that by (auto simp: distinct_map dest: inj_onD)
  show "owner_of d' j = ((owner_of d)(i := None)) j"
  proof (cases "j = i")
    case True
    have "\<not> (wa_workload_id (if wa_id r = wa_id a then f r else r) = i \<and>
        wa_revoked_at (if wa_id r = wa_id a then f r else r) = None)" if "r \<in> set (assignments d)" for r
      using that a(2) unique_onD[OF d(2) that a(1) _ a(3)] assms(4)[of r] by (cases "wa_id r = wa_id a") auto
    then have "\<not> (wa_workload_id r = i \<and> wa_revoked_at r = None)" if "r \<in> set (assignments d')" for r
      using that unfolding assms(3) set_modify_row by blast
    then have "active_assignment d' i = None" by (auto simp: active_assignment_def find_None_iff)
    with True show ?thesis by (simp add: owner_of_def)
  next
    case False
    have "find (\<lambda>x. wa_workload_id x = j \<and> wa_revoked_at x = None) (modify_row wa_id (wa_id a) f (assignments d)) =
        find (\<lambda>x. wa_workload_id x = j \<and> wa_revoked_at x = None) (assignments d)"
      by (rule find_modify_other) (use at_a a(2) False assms(4) in auto)
    with False show ?thesis by (simp add: owner_of_def active_assignment_def assms(3))
  qed
qed

lemma put_wl_tables [simp]:
  "assignments (put_wl i f d) = assignments d" "workloads (put_wl i f d) = modify_row wl_id i f (workloads d)"
  by (simp_all add: put_wl_def)

lemma set_owner_simps [simp]: "wl_id (set_owner g w) = wl_id w" "wl_organization_id (set_owner g w) = g"
  by (simp_all add: set_owner_def)

lemma ownership_ok_put:
  assumes "ownership_ok d" "integrity d'" "workloads d' = modify_row wl_id i (set_owner g) (workloads d)"
    "owner_of d' = (owner_of d)(i := g)"
  shows "ownership_ok d'"
proof -
  let ?f = "\<lambda>w. if wl_id w = i then set_owner g w else w"
  have "wl_organization_id (?f w) = owner_of d' (wl_id (?f w))" if "wl_organization_id w = owner_of d (wl_id w)" for w
    using that by (simp add: assms(4))
  then have "list_all (\<lambda>w. wl_organization_id (?f w) = owner_of d' (wl_id (?f w))) (workloads d)"
    using assms(1) unfolding ownership_ok_def by (blast intro: list.pred_mono_strong)
  then show ?thesis using assms(2,3) by (simp add: ownership_ok_def modify_row_def list.pred_map comp_def)
qed

lemma assign_refines:
  assumes "ownership_ok d" "assign sv n i g d = (r, d')"
  shows "ownership_ok d' \<and> (case r of
      Inr x \<Rightarrow> owner_of d' = (owner_of d)(i \<mapsto> g) \<and> owner_of d i \<in> {None, Some g} | Inl e \<Rightarrow> d' = d)"
proof (cases "\<exists>x w. require_service_role (sv_principal sv) [SUPER_ADMIN, OPERATOR] = Inr x \<and> locked_workload d i = Inr w")
  case False
  then obtain e where "r = Inl e" "d' = d"
    using assms(2) unfolding assign_def try_in_eq by blast
  with assms(1) show ?thesis by simp
next
  case True
  then obtain x w where ok: "require_service_role (sv_principal sv) [SUPER_ADMIN, OPERATOR] = Inr x"
    "locked_workload d i = Inr w" by blast
  note w = locked_workload_mem[OF ok(2)]
  show ?thesis
  proof (cases "active_assignment d i")
    case (Some a)
    then have "owner_of d i = Some (wa_organization_id a)" by (simp add: owner_of_def)
    then have "wa_organization_id a = g \<Longrightarrow> owner_of d = (owner_of d)(i \<mapsto> g)" by (simp add: fun_upd_idem)
    with Some ok w assms \<open>owner_of d i = _\<close> show ?thesis
      by (auto simp: assign_def already_assigned_def split: option.splits if_splits dest: get_row_Some)
  next
    case None
    then have free: "owner_of d i = None" by (simp add: owner_of_def)
    let ?a = "assigned_row sv n i g"
    let ?d1 = "(put_wl i (set_owner (Some g)) d)\<lparr>assignments := assignments d @ [?a]\<rparr>"
    have own: "owner_of (add_audit_event c e ?d1) = (owner_of d)(i \<mapsto> g)" for c e
      using owner_of_append[OF None, of _ ?a] by (simp add: assigned_row_def)
    have kept: "integrity ?d1 \<Longrightarrow> ownership_ok (add_audit_event c e ?d1)" for c e
      by (rule ownership_ok_put[OF assms(1), of _ i "Some g"]) (use own in simp_all)
    show ?thesis
      using assms ok w None free own kept
      by (auto simp: assign_def already_assigned_def Let_def commit_in_def split: option.splits if_splits
          dest: get_row_Some)
  qed
qed

lemma unassign_refines:
  assumes "ownership_ok d" "unassign sv i reason d = (r, d')"
  shows "ownership_ok d' \<and> (case r of Inr x \<Rightarrow> owner_of d' = (owner_of d)(i := None) | Inl e \<Rightarrow> d' = d)"
proof (cases "\<exists>x w. require_service_role (sv_principal sv) [SUPER_ADMIN, OPERATOR] = Inr x \<and> locked_workload d i = Inr w")
  case False
  then obtain e where "r = Inl e" "d' = d"
    using assms(2) unfolding unassign_def try_in_eq by blast
  with assms(1) show ?thesis by simp
next
  case True
  then obtain x w where ok: "require_service_role (sv_principal sv) [SUPER_ADMIN, OPERATOR] = Inr x"
    "locked_workload d i = Inr w" by blast
  note w = locked_workload_mem[OF ok(2)]
  have wo: "wl_organization_id w = owner_of d i" using assms(1) w by (auto simp: ownership_ok_def list_all_iff)
  show ?thesis
  proof (cases "active_assignment d i")
    case None
    then have "wl_organization_id w = None" by (simp add: wo owner_of_def)
    moreover have "owner_of d = (owner_of d)(i := None)" using None by (simp add: fun_upd_idem owner_of_def)
    moreover have "r = Inr () \<and> d' = d" using assms(2) ok calculation(1) by (simp add: unassign_def try_in_def)
    ultimately show ?thesis using assms(1) by simp
  next
    case (Some a)
    then have owned: "wl_organization_id w = Some (wa_organization_id a)" by (simp add: wo owner_of_def)
    let ?d1 = "put_wl i (set_owner None) (put_assignment (wa_id a) (revoked_row sv reason) d)"
    have own: "owner_of (add_audit_event c e ?d1) = (owner_of d)(i := None)" for c e
      using assms(1) Some by (intro owner_of_revoke[of _ _ a _ "revoked_row sv reason"])
        (simp_all add: ownership_ok_def put_assignment_def revoked_row_def)
    have kept: "integrity ?d1 \<Longrightarrow> ownership_ok (add_audit_event c e ?d1)" for c e
      by (rule ownership_ok_put[OF assms(1), of _ i None]) (use own in \<open>simp_all add: put_assignment_def\<close>)
    show ?thesis
      using assms ok(2) w Some owned own kept require_service_role_Inr[THEN iffD1, OF ok(1)]
      by (auto simp: unassign_def require_service_role_def Let_def commit_in_def split: if_splits)
  qed
qed

end
