(* ===== verification/Customer_Portal.thy ===== *)
theory Customer_Portal
  imports Operations Workloads
begin

text \<open>
  \<open>CustomerPortalService\<close> of src/backend/app/services/customer_portal.py with the answers of
  src/backend/app/schemas/customer.py: what a customer sees of the guests of their organisations, and
  the power actions they may request.  The ownership condition is part of every query.
\<close>

section \<open>schemas/customer.py\<close>

record customer_job_response =
  cj_id :: uuid
  cj_job_id :: uuid
  cj_vm_id :: uuid
  cj_action :: power_action
  cj_action_mode :: string
  cj_status :: operation_status
  cj_result :: dict
  cj_error_code :: "string option"
  cj_error_summary :: "string option"
  cj_retryable :: "bool option"
  cj_requested_at :: datetime
  cj_started_at :: "datetime option"
  cj_finished_at :: "datetime option"

record customer_vm_summary =
  cv_id :: uuid
  cv_name :: string
  cv_organization_name :: string
  cv_power_state :: string
  cv_cpu_cores :: "int option"
  cv_memory_bytes :: "int option"
  cv_disk_bytes :: "int option"
  cv_assigned_ip_addresses :: "string list"
  cv_observed_at :: datetime

record customer_vm_detail = customer_vm_summary +
  cv_recent_jobs :: "customer_job_response list"

section \<open>Ownership\<close>

text \<open>The two \<open>EXISTS\<close> subqueries, on the organisation of a row (\<open>NULL\<close> matches nothing).\<close>

definition member_of :: "db \<Rightarrow> uuid \<Rightarrow> uuid option \<Rightarrow> bool" where
  "member_of d u g \<longleftrightarrow> list_ex (\<lambda>m. mem_user_id m = u \<and> Some (mem_organization_id m) = g) (members d)"

definition active_organization :: "db \<Rightarrow> uuid option \<Rightarrow> bool" where
  "active_organization d g \<longleftrightarrow> list_ex (\<lambda>x. Some (org_id x) = g \<and> org_is_active x) (organizations d)"

definition owned_workload :: "db \<Rightarrow> uuid \<Rightarrow> workload \<Rightarrow> bool" where
  "owned_workload d u w \<longleftrightarrow> wl_organization_id w \<noteq> None \<and> wl_kind w = QEMU \<and> wl_is_present w \<and>
     \<not> wl_is_template w \<and> member_of d u (wl_organization_id w) \<and> active_organization d (wl_organization_id w)"

definition vm_not_found :: "'a result" where
  "vm_not_found = raise_app 404 ''VM_NOT_FOUND'' ''The virtual machine was not found.''"

definition owned_vm :: "service \<Rightarrow> uuid \<Rightarrow> db \<Rightarrow> workload result" where
  "owned_vm sv i d =
     (case find (\<lambda>w. owned_workload d (prin_user_id (sv_principal sv)) w \<and> wl_id w = i) (workloads d) of
        None \<Rightarrow> vm_not_found | Some w \<Rightarrow> Inr w)"

text \<open>\<open>_organization_names\<close>: the names of those of the given organisations that are active.\<close>

definition organization_names :: "db \<Rightarrow> workload list \<Rightarrow> uuid \<Rightarrow> string option" where
  "organization_names d ws g =
     (if Some g \<in> set (map wl_organization_id ws)
      then map_option org_name (find (\<lambda>x. org_id x = g \<and> org_is_active x) (organizations d)) else None)"

section \<open>Jobs\<close>

definition shown_keys :: "string list" where
  "shown_keys = [''action_mode'', ''no_op'', ''message'', ''final_power_state'']"

text \<open>\<open>PowerAction(operation.action)\<close> raises \<open>ValueError\<close> for an action of another kind.\<close>

definition customer_job_of :: "operation \<Rightarrow> customer_job_response result" where
  "customer_job_of op = (case power_action_of (op_action op) of
     None \<Rightarrow> Inl (PyError ''ValueError'')
   | Some a \<Rightarrow> Inr
       \<lparr>cj_id = op_id op, cj_job_id = op_id op, cj_vm_id = op_workload_id op, cj_action = a,
        cj_action_mode = py_str (dict_get_or (op_result op) ''action_mode'' (JStr ''STANDARD'')),
        cj_status = op_status op, cj_result = filter (\<lambda>(k, v). k \<in> set shown_keys) (op_result op),
        cj_error_code = op_error_code op, cj_error_summary = op_error_summary op, cj_retryable = op_retryable op,
        cj_requested_at = op_requested_at op, cj_started_at = op_started_at op, cj_finished_at = op_finished_at op\<rparr>)"

definition recent_jobs :: "service \<Rightarrow> uuid \<Rightarrow> db \<Rightarrow> customer_job_response list result" where
  "recent_jobs sv i d = map_result customer_job_of (take 10 (sort_key (\<lambda>x. - op_requested_at x)
     (filter (\<lambda>x. op_workload_id x = i \<and> op_requested_by_id x = prin_user_id (sv_principal sv)) (operations d))))"

definition customer_job :: "service \<Rightarrow> uuid \<Rightarrow> db \<Rightarrow> customer_job_response result" where
  "customer_job sv i d =
     bind_result (require_service_role (sv_principal sv) [CUSTOMER]) (\<lambda>_.
       case find (\<lambda>x. op_id x = i \<and> op_requested_by_id x = prin_user_id (sv_principal sv) \<and>
              member_of d (prin_user_id (sv_principal sv)) (op_organization_id x) \<and>
              active_organization d (op_organization_id x)) (operations d) of
         None \<Rightarrow> raise_app 404 ''JOB_NOT_FOUND'' ''The job was not found.''
       | Some x \<Rightarrow> customer_job_of x)"

section \<open>Guests\<close>

text \<open>\<open>workload.name or "Unnamed VM"\<close>\<close>

definition vm_name :: "workload \<Rightarrow> string" where
  "vm_name w = (case wl_name w of Some (c # cs) \<Rightarrow> c # cs | _ \<Rightarrow> ''Unnamed VM'')"

definition vm_summary :: "workload \<Rightarrow> string \<Rightarrow> string list \<Rightarrow> customer_vm_summary" where
  "vm_summary w g ips = \<lparr>cv_id = wl_id w, cv_name = vm_name w, cv_organization_name = g,
     cv_power_state = wl_power_state w, cv_cpu_cores = wl_cpu_cores w, cv_memory_bytes = wl_memory_bytes w,
     cv_disk_bytes = wl_disk_bytes w, cv_assigned_ip_addresses = ips, cv_observed_at = wl_observed_at w\<rparr>"

text \<open>A guest with its organisation's name, or nothing when that organisation is not active.\<close>

definition vm_entry :: "db \<Rightarrow> workload list \<Rightarrow> workload \<Rightarrow> customer_vm_summary option" where
  "vm_entry d ws w = (case wl_organization_id w of
     None \<Rightarrow> None
   | Some g \<Rightarrow> map_option (\<lambda>nm. vm_summary w nm (assigned_ip_addresses d (wl_id w))) (organization_names d ws g))"

text \<open>\<open>ORDER BY name, id\<close>: PostgreSQL sorts \<open>NULL\<close> last; names are compared by their bytes.\<close>

definition name_order :: "workload \<Rightarrow> bool \<times> string \<times> uuid" where
  "name_order w = (case wl_name w of None \<Rightarrow> (True, [], wl_id w) | Some s \<Rightarrow> (False, s, wl_id w))"

definition list_vms :: "service \<Rightarrow> db \<Rightarrow> customer_vm_summary list result" where
  "list_vms sv d =
     bind_result (require_service_role (sv_principal sv) [CUSTOMER]) (\<lambda>_.
       let owned = sort_key name_order (filter (owned_workload d (prin_user_id (sv_principal sv))) (workloads d))
       in Inr (List.map_filter (vm_entry d owned) owned))"

definition get_vm :: "service \<Rightarrow> uuid \<Rightarrow> db \<Rightarrow> customer_vm_detail result" where
  "get_vm sv i d =
     bind_result (require_service_role (sv_principal sv) [CUSTOMER]) (\<lambda>_.
     bind_result (owned_vm sv i d) (\<lambda>w.
     bind_result (recent_jobs sv (wl_id w) d) (\<lambda>jobs.
       case vm_entry d [w] w of
         None \<Rightarrow> vm_not_found
       | Some s \<Rightarrow> Inr (customer_vm_summary.extend s \<lparr>cv_recent_jobs = jobs\<rparr>))))"

section \<open>Power actions\<close>

definition customer_fingerprint :: "uuid \<Rightarrow> power_action \<Rightarrow> string" where
  "customer_fingerprint i a = ''customer:'' @ uuid_str i @ '':'' @ power_action_value a"

definition customer_operation ::
    "service \<Rightarrow> (nat \<Rightarrow> uuid) \<Rightarrow> power_action \<Rightarrow> workload \<Rightarrow> bytes \<Rightarrow> bytes \<Rightarrow> string option \<Rightarrow> operation" where
  "customer_operation sv fresh a w h fp reason =
     new_operation sv (fresh 0) (uuid_str (fresh 1)) (''POWER_'' @ str_upper (power_action_value a))
       (power_action_value a) w h fp
       [(''action_mode'', JStr (action_mode a)), (''reason_recorded'', JBool (reason \<noteq> None))]"

definition customer_event :: "service \<Rightarrow> workload \<Rightarrow> operation \<Rightarrow> audit_event" where
  "customer_event sv w x = (operation_event sv (op_operation_type x) ''vm'' w (op_id x))
     \<lparr>ev_details := Some [(''portal'', JStr ''customer''),
        (''action_mode'', dict_get (op_result x) ''action_mode'')]\<rparr>"

text \<open>The answer and the message for the publisher, whose failure is logged and swallowed.\<close>

definition customer_power_action ::
    "service \<Rightarrow> crypto \<Rightarrow> string \<Rightarrow> (nat \<Rightarrow> uuid) \<Rightarrow> uuid \<Rightarrow> power_action \<Rightarrow> string \<Rightarrow> string option \<Rightarrow> bool \<Rightarrow> db \<Rightarrow>
     (customer_job_response \<times> (uuid \<times> string) option) outcome" where
  "customer_power_action sv C secret fresh i action key reason confirm_forced d =
     try_in d (require_service_role (sv_principal sv) [CUSTOMER]) (\<lambda>_.
     if action \<notin> {START, SHUTDOWN, STOP, REBOOT}
     then (raise_app 403 ''CUSTOMER_ACTION_FORBIDDEN'' ''This power action is not available to customers.'', d)
     else try_in d (owned_vm sv i d) (\<lambda>w.
       if wl_organization_id w = None then (vm_not_found, d)
       else if action = STOP \<and> \<not> confirm_forced
       then (raise_app 422 ''FORCED_ACTION_CONFIRMATION_REQUIRED'' ''Forced stop requires explicit confirmation.'', d)
       else
         let h = key_hash C secret key;
             fp = sha256 C (encode (customer_fingerprint i action)) in
         case find_idempotent d (prin_user_id (sv_principal sv)) h of
           Some x \<Rightarrow>
             if op_request_fingerprint x \<noteq> fp
             then (raise_app 409 ''IDEMPOTENCY_KEY_REUSED''
                    ''The idempotency key was already used for another request.'', d)
             else if op_workload_id x \<noteq> wl_id w \<or> op_organization_id x \<noteq> wl_organization_id w
             then (vm_not_found, d)
             else (map_sum id (\<lambda>r. (r, None)) (customer_job_of x), d)
         | None \<Rightarrow>
           if find_active d (wl_id w) \<noteq> None
           then (raise_app 409 ''OPERATION_CONFLICT'' ''Another power operation is already running for this VM.'', d)
           else
             let x = customer_operation sv fresh action w h fp reason
             in commit_in d operation_conflict
                  (add_audit_event (sv_ctx sv) (customer_event sv w x) (add_operation x d))
                  (map_sum id (\<lambda>r. (r, Some (op_id x, op_celery_task_id x))) (customer_job_of x))))"


text \<open>What a request can leave behind: nothing, or one more queued operation with its audit row.\<close>

lemma customer_power_action_stores:
  assumes "customer_power_action sv C secret fresh i a key reason confirmed d = (r, d')"
  shows "d' = d \<or> (\<exists>e w h fp. d' = add_audit_event (sv_ctx sv) e
      (add_operation (customer_operation sv fresh a w h fp reason) d) \<and> integrity d')"
proof (cases "owned_vm sv i d")
  case (Inl e)
  then show ?thesis using assms by (auto simp: customer_power_action_def try_in_def split: sum.splits if_splits)
next
  case (Inr w)
  let ?h = "key_hash C secret key" and ?fp = "sha256 C (encode (customer_fingerprint i a))"
  let ?x = "customer_operation sv fresh a w ?h ?fp reason"
  have "d' = d \<or> commit_in d operation_conflict (add_audit_event (sv_ctx sv) (customer_event sv w ?x) (add_operation ?x d))
      (map_sum id (\<lambda>r. (r, Some (op_id ?x, op_celery_task_id ?x))) (customer_job_of ?x)) = (r, d')"
    using assms Inr
    by (simp add: customer_power_action_def try_in_def Let_def split: sum.splits if_splits option.splits)
  then show ?thesis by (auto simp only: commit_in_def split: if_splits)
qed

end
