(* ===== verification/Operation_Properties.thy ===== *)
theory Operation_Properties
  imports Power_Frame Customer_Portal Ipam_Demo
begin

text \<open>
  Operations from request to result: \<open>OperationService\<close>, the customer portal and the power worker as
  one transition system, and the properties of requests and runs, each with an instance on a small
  installation whose Proxmox is a clock and one guest that is running or stopped.
\<close>

section \<open>The transition system\<close>








section \<open>Finished operations stay as they are\<close>





section \<open>A small Proxmox\<close>

definition demo_env :: "(int \<times> bool) runner_env" where
  "demo_env = \<lparr>re_now = (\<lambda>(t, b). (t, (t + 1, b))), re_uuid4 = (\<lambda>(t, b). (300 + nat t, (t + 1, b))),
     re_sleep = (\<lambda>_ (t, b). (t + 1000000, b))\<rparr>"

definition demo_api :: "(int \<times> bool) power_api" where
  "demo_api = \<lparr>
     submit_guest_power_action = (\<lambda>_ _ _ a (t, b). (Inr ''UPID:1'', (t, a \<in> {''start'', ''reboot'', ''reset''}))),
     get_task_status = (\<lambda>_ _ w. (Inr [(''status'', JStr ''stopped''), (''exitstatus'', JStr ''OK'')], w)),
     get_guest_status = (\<lambda>_ _ _ (t, b). (Inr [(''status'', JStr (if b then ''running'' else ''stopped''))], (t, b))),
     get_guest_config = (\<lambda>_ _ _ w. (Inr [(''scsi0'', JStr ''local:vm-100-disk-0'')], w)),
     configure_guest = (\<lambda>_ _ _ _ _ w. (Inr (), w)),
     resize_guest_disk = (\<lambda>_ _ _ _ _ w. (Inr (), w)),
     delete_guest = (\<lambda>_ _ _ w. (Inr ''UPID:2'', w))\<rparr>"

text \<open>One attempt to submit and one poll, the smallest values the settings allow.\<close>

definition demo_settings :: settings where
  "demo_settings = (default_settings (replicate 32 CHR ''k''))
     \<lparr>pve_task_max_poll_attempts := 1, pve_action_max_attempts := 1\<rparr>"

definition demo_power :: "(int \<times> bool) power_env" where
  "demo_power = \<lparr>pe_env = demo_env, pe_settings = demo_settings,
     pe_injected = Some demo_api, pe_decrypt = (\<lambda>_ _. None),
     pe_connect = (\<lambda>_ _ _. Inl (app_error 500 ''X'' []))\<rparr>"

text \<open>The administrator's queued request to start the guest, operation number 100.\<close>

definition demo_op :: operation where
  "demo_op = new_operation (demo_service demo_admin 0) 100 ''task'' ''POWER_START'' ''start'' demo_workload
     [1] [2] [(''action_mode'', JStr ''STANDARD'')]"

definition demo_queued_op :: db where
  "demo_queued_op = demo_db\<lparr>operations := [demo_op]\<rparr>"

lemma demo_op_simps [simp]:
  "op_id demo_op = 100" "op_status demo_op = Op_QUEUED" "op_action demo_op = ''start''"
  "op_workload_id demo_op = 6" "op_requested_by_id demo_op = 1" "op_organization_id demo_op = Some 4"
  by (simp_all add: demo_op_def new_operation_def demo_service_def demo_admin_def demo_workload_def)

lemma demo_queued_op_row: "get_op demo_queued_op 100 = Some demo_op"
  by (simp add: demo_queued_op_def get_row_def)



lemma demo_env_safe: "env_safe demo_power"
  by (simp add: env_safe_def demo_power_def api_safe_def app_only_def demo_api_def split: prod.splits)

section \<open>Runs\<close>



text \<open>
  A run always comes back, however Proxmox answers and whatever the clock shows: with a client
  that reports its failures as \<open>AppError\<close>, the only exception that leaves a run of a power or
  administrative operation is the \<open>IntegrityError\<close> of a commit.  In particular the polling loop
  never runs out of the attempts it was started with.
\<close>

theorem power_run_returns:
  assumes "env_safe P" "get_op d i = Some op"
    "power_action_of (op_action op) \<noteq> None \<or> is_admin_action (op_action op)"
  shows "fst (run_power_operation P i d w) \<in> {Inr (), Inl IntegrityError}"
proof -
  have "returns (run P i) (start_run d w)"
    by (rule run_returns[OF assms(1)]) (use assms(2,3) in \<open>simp add: start_run_def\<close>)
  then show ?thesis
    by (cases "fst (run P i (start_run d w))")
      (auto simp: wp_def run_power_operation_def split: prod.splits)
qed

theorem power_run_returns_witness:
  "fst (run_power_operation demo_power 100 demo_queued_op (5, False)) \<in> {Inr (), Inl IntegrityError}"
  by (rule power_run_returns[OF demo_env_safe demo_queued_op_row])
    (simp add: power_action_of_Some exI[of _ START])

text \<open>
  C14. A power action reaches Proxmox at most once: within a run, another submission follows only one
  that failed with a retryable error other than a timeout (a timeout may have been carried out), there
  are at most as many as the settings allow, and none at all once a task of the operation is recorded.
\<close>

theorem power_action_submitted_safely:
  assumes "run_power_operation P i d w = (r, s)"
  shows "list_all retry_safe (butlast (submits (rs_calls s))) \<and>
    int (length (submits (rs_calls s))) \<le> max 0 (pve_action_max_attempts (pe_settings P)) \<and>
    (find_task d i \<noteq> None \<longrightarrow> submits (rs_calls s) = [])"
proof -
  have "submits (rs_calls s) = []" if "find_task d i = Some t" for t
    using run_with_task_submits_nothing[of "start_run d w" i t "[]" P] that assms
    by (cases r) (auto simp: run_power_operation_def wp_def submitted_def start_run_def)
  moreover
  have "wp (run P i) (\<lambda>_. safely_submitted (nat (pve_action_max_attempts (pe_settings P))))
      (\<lambda>_. safely_submitted (nat (pve_action_max_attempts (pe_settings P)))) (start_run d w)"
    using submits_ok_run[of P i] by (simp add: submits_ok_def start_run_def)
  with assms have "safely_submitted (nat (pve_action_max_attempts (pe_settings P))) s"
    by (cases r) (auto simp: run_power_operation_def wp_def)
  ultimately show ?thesis by (auto simp: safely_submitted_def)
qed

theorem power_action_submitted_safely_witness:
  "length (submits (rs_calls (snd (run_power_operation demo_power 100 demo_queued_op (5, False))))) \<le> 1"
  using power_action_submitted_safely[OF prod.collapse[symmetric], of demo_power 100 demo_queued_op "(5, False)"]
  by (simp add: demo_power_def demo_settings_def)

section \<open>Permissions are checked again\<close>

text \<open>
  A worker checks the requester again before it acts: if at run time the requester of a power
  action is gone, disabled, or no longer allowed (a customer outside the organization of the
  operation or its workload, or an action customers may not use), then the run calls nothing at all
  and finishes the operation with \<open>PERMISSION_REVOKED\<close>.
\<close>

theorem power_run_rechecks_permission:
  assumes "integrity d" "get_op d i = Some op" "active_status (op_status op)" "\<not> is_admin_action (op_action op)"
    "get_wl d (op_workload_id op) = Some w" "runnable op w"
    "\<not> actor_authorized d op w (get_user d (op_requested_by_id op))"
    "run_power_operation P i d w0 = (r, s)"
  shows "r = Inr () \<and> rs_calls s = [] \<and> (\<exists>x. get_op (stored s) i = Some x \<and> op_status x = Op_FAILED \<and>
    op_error_code x = Some ''PERMISSION_REVOKED'')"
proof -
  have op: "op_id op = i" using get_row_Some[OF assms(2)] by simp
  have "run P i (start_run d w0) = finish P op (get_user d (op_requested_by_id op)) Op_FAILED False
      (Some ''PERMISSION_REVOKED'') None (start_run d w0)"
    using assms(2-7) by (simp add: run_def bindM_def readM_def start_run_def)
  with assms(8) have "finish P op (get_user d (op_requested_by_id op)) Op_FAILED False
      (Some ''PERMISSION_REVOKED'') None (start_run d w0) = (r, s)"
    by (simp add: run_power_operation_def)
  moreover obtain t w1 where "re_now (pe_env P) w0 = (t, w1)" by fastforce
  ultimately show ?thesis
    using assms(2) op integrity_finish[OF assms(1), of Op_FAILED i t False "Some ''PERMISSION_REVOKED''"]
    by (auto simp: finish_def bindM_def thenM_def readM_def writeM_def commitM_def nowM_def start_run_def
        stored_def)
      (auto simp: put_op_def get_modify_row finish_op_def)
qed

text \<open>An operation of the customer on a workload of another organization.\<close>

definition demo_foreign_op :: db where
  "demo_foreign_op = demo_queued_op\<lparr>workloads := [demo_workload\<lparr>wl_organization_id := None\<rparr>],
     operations := [demo_op\<lparr>op_requested_by_id := 2\<rparr>]\<rparr>"

lemma demo_foreign_integrity: "integrity demo_foreign_op"
  by code_simp

theorem power_run_rechecks_permission_witness:
  "fst (run_power_operation demo_power 100 demo_foreign_op (5, False)) = Inr () \<and>
   rs_calls (snd (run_power_operation demo_power 100 demo_foreign_op (5, False))) = []"
proof -
  let ?op = "demo_op\<lparr>op_requested_by_id := 2\<rparr>" and ?w = "demo_workload\<lparr>wl_organization_id := None\<rparr>"
  have row: "get_op demo_foreign_op 100 = Some ?op" "get_wl demo_foreign_op 6 = Some ?w"
    "get_user demo_foreign_op 2 = Some (demo_user 2 ''c@example.com'' CUSTOMER)"
    by (simp_all add: demo_foreign_op_def demo_queued_op_def demo_db_def demo_workload_def demo_user_def get_row_def)
  then show ?thesis
    using power_run_rechecks_permission[OF demo_foreign_integrity row(1) _ _ _ _ _ prod.collapse[symmetric],
        of ?w demo_power "(5, False)"]
    by (simp add: runnable_def actor_authorized_def is_admin_action_def demo_workload_def demo_user_def)
qed

end
