(* ===== verification/Operation_Requests.thy ===== *)
theory Operation_Requests
  imports Operation_Properties
begin

text \<open>
  Idempotency keys: a repeated request is answered with the first one's operation, another request
  under the same key is refused.  The fingerprint that tells them apart is a hash of a text that
  determines the workload and the action.
\<close>

section \<open>The fingerprint determines the request\<close>

lemma digit_char_inj: "m < 16 \<Longrightarrow> n < 16 \<Longrightarrow> digit_char m = digit_char n \<Longrightarrow> m = n"
proof -
  assume mn: "m < 16" "n < 16" and eq: "digit_char m = digit_char n"
  let ?v = "\<lambda>n::nat. if n < 10 then 48 + n else 87 + n"
  have "of_char (digit_char k) = ?v k" if "k < 16" for k
    using that by (simp add: digit_char_def)
  then have "?v m = ?v n" using mn eq by metis
  then show ?thesis using mn by (simp split: if_splits)
qed

lemma hex_digits_inj:
  "0 \<le> m \<Longrightarrow> m < 16 ^ k \<Longrightarrow> 0 \<le> n \<Longrightarrow> n < 16 ^ k \<Longrightarrow> hex_digits k m = hex_digits k n \<Longrightarrow> m = n"
proof (induction k arbitrary: m n)
  case (Suc k)
  have d: "digit_char (nat (m mod 16)) = digit_char (nat (n mod 16))"
    and h: "hex_digits k (m div 16) = hex_digits k (n div 16)" using Suc.prems(5) by simp_all
  have "nat (m mod 16) = nat (n mod 16)" by (rule digit_char_inj[OF _ _ d]) auto
  then have "m mod 16 = n mod 16" by (simp add: eq_nat_nat_iff)
  moreover have "m div 16 = n div 16"
    using Suc.prems h by (intro Suc.IH) auto
  ultimately show ?case by (metis mult_div_mod_eq)
qed simp

lemma uuid_str_parts:
  assumes "uuid_str u = uuid_str v" "u < 2 ^ 128" "v < 2 ^ 128"
  shows "u = v"
proof -
  have eq: "xs = ys" if len: "length xs = 32" "length ys = 32"
    and str: "take 8 xs @ ''-'' @ take 4 (drop 8 xs) @ ''-'' @ take 4 (drop 12 xs) @ ''-'' @
      take 4 (drop 16 xs) @ ''-'' @ drop 20 xs =
      take 8 ys @ ''-'' @ take 4 (drop 8 ys) @ ''-'' @ take 4 (drop 12 ys) @ ''-'' @
      take 4 (drop 16 ys) @ ''-'' @ drop 20 ys" for xs ys :: string
  proof -
    have glue: "zs = take 8 zs @ take 4 (drop 8 zs) @ take 4 (drop 12 zs) @ take 4 (drop 16 zs) @ drop 20 zs"
      for zs :: string
      using append_take_drop_id[of 8 zs] append_take_drop_id[of 4 "drop 8 zs"]
        append_take_drop_id[of 4 "drop 12 zs"] append_take_drop_id[of 4 "drop 16 zs"] by simp
    from str len have "take 8 xs = take 8 ys" "take 4 (drop 8 xs) = take 4 (drop 8 ys)"
      "take 4 (drop 12 xs) = take 4 (drop 12 ys)" "take 4 (drop 16 xs) = take 4 (drop 16 ys)"
      "drop 20 xs = drop 20 ys"
      by (simp_all add: append_eq_append_conv)
    then show ?thesis using glue[of xs] glue[of ys] by simp
  qed
  have "hex_digits 32 (int u) = hex_digits 32 (int v)"
    using assms(1) unfolding uuid_str_def Let_def by (rule eq[OF length_hex_digits length_hex_digits])
  moreover have "int u < 16 ^ 32" "int v < 16 ^ 32" using assms(2,3) by simp_all
  ultimately show ?thesis using hex_digits_inj[of "int u" 32 "int v"] by simp
qed

lemma length_uuid_str [simp]: "length (uuid_str u) = 36"
  by (simp add: uuid_str_def Let_def)

lemma power_action_value_inj: "power_action_value a = power_action_value b \<longleftrightarrow> a = b"
  by (cases a; cases b) simp_all

lemma power_fingerprint_inj:
  assumes "i < 2 ^ 128" "j < 2 ^ 128"
  shows "power_fingerprint i a = power_fingerprint j b \<longleftrightarrow> i = j \<and> a = b"
  using uuid_str_parts[OF _ assms] by (auto simp: power_fingerprint_def append_eq_append_conv power_action_value_inj)

lemma encode_inj: "encode s = encode t \<longleftrightarrow> s = t"
  by (auto simp: encode_def dest!: map_injective intro: injI)


section \<open>Replays\<close>

lemma created_operation:
  assumes "request_power_action sv C secret fresh i a key reason d = (Inr (resp, True, msg), d1)"
  shows "\<exists>x. find_idempotent d1 (prin_user_id (sv_principal sv)) (key_hash C secret key) = Some x \<and>
    op_request_fingerprint x = sha256 C (encode (power_fingerprint i a)) \<and> op_id x = jr_id resp"
proof -
  obtain w where w: "require_service_role (sv_principal sv) [SUPER_ADMIN, OPERATOR] = Inr ()"
    "guest_workload d i = Some w" "\<not> (wl_kind w = LXC \<and> a = RESET)"
    using assms by (auto simp: request_power_action_def try_in_def split: sum.splits option.splits if_splits)
  have none: "find_idempotent d (prin_user_id (sv_principal sv)) (key_hash C secret key) = None"
    "find_active d i = None"
    using assms w by (auto simp: request_power_action_def Let_def split: option.splits if_splits)
  define x where "x = new_operation sv (fresh 0) (uuid_str (fresh 1)) (''POWER_'' @ str_upper (power_action_value a))
      (power_action_value a) w (key_hash C secret key) (sha256 C (encode (power_fingerprint i a)))
      [(''action_mode'', JStr (action_mode a)), (''reason_recorded'', JBool (reason \<noteq> None)),
       (''workload_kind'', JStr (workload_kind_value (wl_kind w)))]"
  have "operations d1 = operations d @ [x]" "jr_id resp = op_id x"
    using assms w none
    by (auto simp: request_power_action_def Let_def commit_in_def x_def add_operation_def job_response_of_def
        split: if_splits)
  moreover have "op_requested_by_id x = prin_user_id (sv_principal sv)"
    "op_idempotency_key_hash x = key_hash C secret key"
    "op_request_fingerprint x = sha256 C (encode (power_fingerprint i a))"
    by (simp_all add: x_def new_operation_def)
  ultimately show ?thesis
    using none(1) by (simp add: find_idempotent_def find_append)
qed

text \<open>
  C15. Requests are idempotent under the client's key.  Once a power request has been accepted, a
  further request of the same user with the same key changes nothing: the same request (same
  workload and action) is answered with the operation already created and nothing is queued again;
  any other request is refused with \<open>IDEMPOTENCY_KEY_REUSED\<close>, as long as \<open>sha256\<close> does not collide
  on the two texts.
\<close>

theorem power_request_idempotent:
  assumes "request_power_action sv C secret fresh i a key reason d = (Inr (resp, True, msg), d1)"
    "sv_principal sv2 = sv_principal sv" "i < 2 ^ 128" "j < 2 ^ 128"
    "inj_on (sha256 C) {encode (power_fingerprint i a), encode (power_fingerprint j b)}"
    "guest_workload d1 j = Some w" "\<not> (wl_kind w = LXC \<and> b = RESET)"
  shows "\<exists>r. request_power_action sv2 C secret fresh2 j b key reason2 d1 = (r, d1) \<and>
    (if j = i \<and> b = a then \<exists>resp2. r = Inr (resp2, False, None) \<and> jr_id resp2 = jr_id resp
     else r = raise_app 409 ''IDEMPOTENCY_KEY_REUSED''
                ''The idempotency key was already used for another request.'')"
proof -
  obtain x where x: "find_idempotent d1 (prin_user_id (sv_principal sv)) (key_hash C secret key) = Some x"
    "op_request_fingerprint x = sha256 C (encode (power_fingerprint i a))" "op_id x = jr_id resp"
    using created_operation[OF assms(1)] by blast
  have role: "require_service_role (sv_principal sv2) [SUPER_ADMIN, OPERATOR] = Inr ()"
    using assms(1,2) by (auto simp: request_power_action_def try_in_def split: sum.splits)
  have "sha256 C (encode (power_fingerprint i a)) = sha256 C (encode (power_fingerprint j b)) \<longleftrightarrow> j = i \<and> b = a"
    using assms(5) encode_inj power_fingerprint_inj[OF assms(3,4)] by (auto simp: inj_on_def)
  then show ?thesis
    using x role assms(2,6,7)
    by (auto simp: request_power_action_def Let_def job_response_of_def)
qed

definition demo_crypto :: crypto where
  "demo_crypto = \<lparr>sha256 = (\<lambda>m. m), hmac_sha256 = (\<lambda>k m. k @ m)\<rparr>"

lemma demo_request_created:
  "case request_power_action (demo_service demo_admin 0) demo_crypto ''s'' demo_ids 6 START ''key'' None demo_db of
     (Inr (resp, new, msg), d1) \<Rightarrow> new \<and> guest_workload d1 6 = Some demo_workload | _ \<Rightarrow> False"
  by code_simp

theorem power_request_idempotent_witness:
  "fst (request_power_action (demo_service demo_admin 5) demo_crypto ''s'' demo_ids 6 STOP ''key'' None
     (snd (request_power_action (demo_service demo_admin 0) demo_crypto ''s'' demo_ids 6 START ''key'' None demo_db))) =
   raise_app 409 ''IDEMPOTENCY_KEY_REUSED'' ''The idempotency key was already used for another request.''"
proof -
  obtain resp msg d1 where r:
    "request_power_action (demo_service demo_admin 0) demo_crypto ''s'' demo_ids 6 START ''key'' None demo_db =
       (Inr (resp, True, msg), d1)" and w: "guest_workload d1 6 = Some demo_workload"
    using demo_request_created by (auto split: prod.splits sum.splits)
  have "\<exists>r. request_power_action (demo_service demo_admin 5) demo_crypto ''s'' demo_ids 6 STOP ''key'' None d1 = (r, d1) \<and>
    (if (6::nat) = 6 \<and> STOP = START then \<exists>resp2. r = Inr (resp2, False, None) \<and> jr_id resp2 = jr_id resp
     else r = raise_app 409 ''IDEMPOTENCY_KEY_REUSED''
                ''The idempotency key was already used for another request.'')"
    by (rule power_request_idempotent[OF r _ _ _ _ w])
      (simp_all add: demo_service_def demo_crypto_def)
  then show ?thesis by (auto simp: r)
qed

section \<open>Instances of the properties of the transition system\<close>





end
