(* ===== verification/Tasks.thy ===== *)
theory Tasks
  imports Operation_Requests
begin

text \<open>
  The Celery tasks (src/backend/app/tasks, worker.py): the messages the services and the worker
  enqueue, the recovery a starting worker makes, and the purge of old audit rows.
\<close>

section \<open>Messages\<close>

text \<open>The arguments of \<open>celery_app.send_task\<close>; every queue of the tasks sent here is \<open>operations\<close>.\<close>

record task_message =
  tm_name :: string
  tm_arg :: uuid
  tm_task_id :: string

definition enqueue_power_operation :: "uuid \<Rightarrow> string \<Rightarrow> task_message" where
  "enqueue_power_operation i task =
     \<lparr>tm_name = ''app.tasks.power.execute_power_operation'', tm_arg = i, tm_task_id = task\<rparr>"

definition enqueue_backup_operation :: "uuid \<Rightarrow> string \<Rightarrow> task_message" where
  "enqueue_backup_operation i task =
     \<lparr>tm_name = ''app.tasks.backup.execute_backup_operation'', tm_arg = i, tm_task_id = task\<rparr>"

definition enqueue_restore_operation :: "uuid \<Rightarrow> string \<Rightarrow> task_message" where
  "enqueue_restore_operation i task =
     \<lparr>tm_name = ''app.tasks.backup.execute_restore_operation'', tm_arg = i, tm_task_id = task\<rparr>"

definition enqueue_provisioning_request :: "uuid \<Rightarrow> string \<Rightarrow> task_message" where
  "enqueue_provisioning_request i task =
     \<lparr>tm_name = ''app.tasks.provisioning.execute_provisioning_request'', tm_arg = i, tm_task_id = task\<rparr>"

lemmas enqueue_defs = enqueue_power_operation_def enqueue_backup_operation_def
  enqueue_restore_operation_def enqueue_provisioning_request_def

section \<open>Recovery\<close>

definition recover_power_operations :: "db \<Rightarrow> task_message list" where
  "recover_power_operations d =
     map (\<lambda>x. enqueue_power_operation (op_id x) (op_celery_task_id x))
       (filter (\<lambda>x. op_operation_type x \<noteq> ''WORKLOAD_BACKUP'' \<and> op_status x \<in> {Op_QUEUED, Op_RUNNING})
          (operations d))"

definition recover_backup_operations :: "db \<Rightarrow> task_message list" where
  "recover_backup_operations d =
     map (\<lambda>x. enqueue_backup_operation (op_id x) (op_celery_task_id x))
       (filter (\<lambda>x. op_operation_type x = ''WORKLOAD_BACKUP'' \<and> op_status x \<in> {Op_QUEUED, Op_RUNNING})
          (operations d)) @
     map (\<lambda>x. enqueue_restore_operation (op_id x) (op_celery_task_id x))
       (filter (\<lambda>x. op_operation_type x = ''WORKLOAD_RESTORE'' \<and> op_status x \<in> {Op_QUEUED, Op_RUNNING})
          (operations d))"

definition recoverable_request :: "datetime \<Rightarrow> provisioning_request \<Rightarrow> bool" where
  "recoverable_request now r \<longleftrightarrow> req_status r = Prov_QUEUED \<or>
     req_status r = Prov_RUNNING \<and>
       (req_runner_id r = None \<or>
        (case req_lease_expires_at r of None \<Rightarrow> True | Some t \<Rightarrow> t \<le> now))"

definition recover_provisioning_requests :: "datetime \<Rightarrow> db \<Rightarrow> task_message list" where
  "recover_provisioning_requests now d =
     map (\<lambda>r. enqueue_provisioning_request (req_id r) (req_celery_task_id r))
       (filter (recoverable_request now) (requests d))"

text \<open>\<open>recover_incomplete_power_operations\<close>, the \<open>worker_ready\<close> handler.\<close>

definition recover_incomplete :: "datetime \<Rightarrow> db \<Rightarrow> task_message list" where
  "recover_incomplete now d = recover_power_operations d @ recover_backup_operations d @
     recover_provisioning_requests now d"

section \<open>Maintenance\<close>

definition days :: "int \<Rightarrow> int" where
  "days n = seconds (n * 86400)"

definition purge_expired_audit_logs :: "settings \<Rightarrow> datetime \<Rightarrow> db \<Rightarrow> nat \<times> db" where
  "purge_expired_audit_logs S now d =
     (let old = (\<lambda>r. al_created_at r < now - days (audit_retention_days S)) in
      (length (filter old (audit_logs d)),
       d\<lparr>audit_logs := filter (\<lambda>r. \<not> old r) (audit_logs d)\<rparr>))"

section \<open>Nothing is forgotten\<close>

lemma active_status_in: "op_status x \<in> {Op_QUEUED, Op_RUNNING} \<longleftrightarrow> active_status (op_status x)"
  by (cases "op_status x") simp_all

text \<open>The message for the runner that carries out operations of the given type.\<close>

definition executor_message :: "operation \<Rightarrow> task_message" where
  "executor_message x =
     (if op_operation_type x = ''WORKLOAD_BACKUP'' then enqueue_backup_operation
      else if op_operation_type x = ''WORKLOAD_RESTORE'' then enqueue_restore_operation
      else enqueue_power_operation) (op_id x) (op_celery_task_id x)"

lemma tm_arg_enqueue [simp]:
  "tm_arg (enqueue_power_operation i t) = i" "tm_arg (enqueue_backup_operation i t) = i"
  "tm_arg (enqueue_restore_operation i t) = i" "tm_arg (enqueue_provisioning_request i t) = i"
  by (simp_all add: enqueue_defs)

lemma executor_message_sent:
  "x \<in> set (operations d) \<Longrightarrow> active_status (op_status x) \<Longrightarrow> executor_message x \<in> set (recover_incomplete now d)"
  unfolding recover_incomplete_def recover_power_operations_def recover_backup_operations_def
    executor_message_def active_status_in[symmetric] by simp

lemma recovered_active:
  assumes "m \<in> set (recover_incomplete now d)"
  shows "(\<exists>x \<in> set (operations d). tm_arg m = op_id x \<and> active_status (op_status x)) \<or>
    (\<exists>r \<in> set (requests d). tm_arg m = req_id r \<and> recoverable_request now r)"
  using assms unfolding recover_incomplete_def recover_power_operations_def recover_backup_operations_def
    recover_provisioning_requests_def active_status_in by auto

lemma recoverable_not_terminal: "recoverable_request now r \<Longrightarrow> \<not> provisioning_terminal (req_status r)"
  by (cases "req_status r") (simp_all add: recoverable_request_def)

text \<open>
  After a crash nothing that was accepted is lost: a starting worker sends every operation that
  is queued or running to the task that carries out operations of its type, under the task id it was
  created with, and every provisioning request that is queued or whose worker has lost its lease; and
  it sends nothing that is finished.
\<close>

theorem recovery_complete:
  "(\<forall>x \<in> set (operations d). active_status (op_status x) \<longrightarrow>
      executor_message x \<in> set (recover_incomplete now d)) \<and>
   (\<forall>r \<in> set (requests d). recoverable_request now r \<longrightarrow>
      enqueue_provisioning_request (req_id r) (req_celery_task_id r) \<in> set (recover_incomplete now d)) \<and>
   (\<forall>m \<in> set (recover_incomplete now d).
      (\<exists>x \<in> set (operations d). tm_arg m = op_id x \<and> active_status (op_status x)) \<or>
      (\<exists>r \<in> set (requests d). tm_arg m = req_id r \<and> \<not> provisioning_terminal (req_status r)))"
  using executor_message_sent recovered_active recoverable_not_terminal
  by (intro conjI ballI impI) (blast, simp add: recover_incomplete_def recover_provisioning_requests_def, blast)

theorem recovery_complete_witness:
  "active_status (op_status demo_op) \<and>
   enqueue_power_operation 100 ''task'' \<in> set (recover_incomplete 0 demo_queued_op)"
proof -
  have "demo_op \<in> set (operations demo_queued_op)" by (simp add: demo_queued_op_def)
  moreover have "executor_message demo_op = enqueue_power_operation 100 ''task''"
    by (simp add: executor_message_def demo_op_def new_operation_def)
  ultimately show ?thesis
    using recovery_complete[of demo_queued_op 0] by force
qed

section \<open>Restores reach the power worker\<close>

text \<open>
  The recovery of power operations leaves out backups only, so it also sends restores to the power
  worker, which does not know the action: it claims the operation, commits, and raises.
\<close>

lemma integrity_claim:
  assumes "integrity d" "get_op d i = Some op" "active_status (op_status op)"
  shows "integrity (put_op i (claim_op now) d)"
proof (rule integrity_put_op[OF assms(1)])
  fix x assume "x \<in> set (operations d)" "op_id x = i"
  with assms(2) integrity_distinct(4)[OF assms(1)] have "x = op"
    using get_row_mem by fastforce
  with assms(3) show "active_status (op_status x)" by simp
qed (simp_all add: claim_op_def)

text \<open>
  A queued restore is also handed to the power worker when a worker starts (the recovery of power
  operations leaves out only backups).  The power worker marks it as running, which makes the restore
  worker keep its hands off, and then raises \<open>ValueError\<close> without having called Proxmox.
\<close>

theorem recovered_restore_is_claimed_by_power_worker:
  assumes "integrity d" "get_op d i = Some op" "op_operation_type op = ''WORKLOAD_RESTORE''"
    "op_action op = ''restore''" "op_status op = Op_QUEUED"
    "get_wl d (op_workload_id op) = Some w" "wl_is_present w" "\<not> wl_is_template w"
    "actor_authorized d op w (get_user d (op_requested_by_id op))"
    "run_power_operation P i d w0 = (r, s)"
  shows "enqueue_power_operation i (op_celery_task_id op) \<in> set (recover_incomplete now d) \<and>
    r = Inl (PyError ''ValueError'') \<and> rs_calls s = [] \<and>
    map_option op_status (get_op (stored s) i) = Some Op_RUNNING"
proof -
  have op: "op \<in> set (operations d)" "op_id op = i" using get_row_Some[OF assms(2)] by simp_all
  obtain t w1 where now: "re_now (pe_env P) w0 = (t, w1)" by fastforce
  have claim: "integrity (put_op i (claim_op t) d)"
    by (rule integrity_claim[OF assms(1,2)]) (simp add: assms(5))
  have kind: "runnable op w" "\<not> is_admin_action (op_action op)" "power_action_of (op_action op) = None"
    using assms(4,7,8) by (simp_all add: runnable_def is_admin_action_def power_action_of_def)
  have run: "run P i (start_run d w0) = run_action P op (get_user d (op_requested_by_id op)) w (start_run d w0)"
    using assms(2,5,6,9) kind(1,2) by (simp add: run_def bindM_def readM_def start_run_def)
  have "run_action P op (get_user d (op_requested_by_id op)) w (start_run d w0) =
    (Inl (PyError ''ValueError''), \<lparr>rs_db = put_op i (claim_op t) d, rs_commits = [put_op i (claim_op t) d, d],
       rs_world = w1, rs_calls = []\<rparr>)"
    using now claim kind(3) assms(5) op(2)
    by (simp add: run_action_def bindM_def thenM_def readM_def writeM_def commitM_def nowM_def start_run_def raiseM_def)
  with run assms(10) have rs: "r = Inl (PyError ''ValueError'')"
    "s = \<lparr>rs_db = put_op i (claim_op t) d, rs_commits = [put_op i (claim_op t) d, d], rs_world = w1, rs_calls = []\<rparr>"
    by (simp_all add: run_power_operation_def)
  have "get_op (put_op i (claim_op t) d) i = Some (claim_op t op)"
    using assms(2) by (simp add: put_op_def get_modify_row claim_op_def)
  moreover have "enqueue_power_operation i (op_celery_task_id op) \<in> set (recover_incomplete now d)"
    using op assms(3,5) by (auto simp: recover_incomplete_def recover_power_operations_def)
  ultimately show ?thesis using rs by (simp add: stored_def claim_op_def)
qed

definition demo_restore_op :: db where
  "demo_restore_op = demo_db\<lparr>operations :=
     [demo_op\<lparr>op_operation_type := ''WORKLOAD_RESTORE'', op_action := ''restore''\<rparr>]\<rparr>"

lemma demo_restore_integrity: "integrity demo_restore_op"
  by code_simp

theorem recovered_restore_is_claimed_by_power_worker_witness:
  "fst (run_power_operation demo_power 100 demo_restore_op (5, False)) = Inl (PyError ''ValueError'')"
proof -
  let ?op = "demo_op\<lparr>op_operation_type := ''WORKLOAD_RESTORE'', op_action := ''restore''\<rparr>"
  have row: "get_op demo_restore_op 100 = Some ?op" "get_wl demo_restore_op 6 = Some demo_workload"
    "get_user demo_restore_op 1 = Some (demo_user 1 ''admin@example.com'' SUPER_ADMIN)"
    by (simp_all add: demo_restore_op_def demo_db_def demo_workload_def demo_user_def get_row_def)
  then show ?thesis
    using recovered_restore_is_claimed_by_power_worker[OF demo_restore_integrity row(1) _ _ _ _ _ _ _
        prod.collapse[symmetric], of demo_workload _ demo_power "(5, False)"]
    by (simp add: actor_authorized_def demo_workload_def demo_user_def)
qed

section \<open>Retention\<close>

text \<open>
  The purge removes exactly the audit rows older than the retention period, which is at least
  thirty days under every valid configuration: no row of the last thirty days is ever removed, and
  nothing else in the database changes.
\<close>

theorem purge_keeps_recent_audit_rows:
  assumes "settings_valid S" "purge_expired_audit_logs S now d = (n, d')"
  shows "(\<forall>r \<in> set (audit_logs d). al_created_at r \<ge> now - days 30 \<longrightarrow> r \<in> set (audit_logs d')) \<and>
    set (audit_logs d') \<subseteq> set (audit_logs d) \<and> length (audit_logs d') + n = length (audit_logs d) \<and>
    d' = d\<lparr>audit_logs := audit_logs d'\<rparr>"
proof -
  have old: "now - days (audit_retention_days S) \<le> now - days 30"
    using assms(1) by (simp add: settings_valid_def in_range_def days_def seconds_def)
  have d': "d' = d\<lparr>audit_logs := filter (\<lambda>r. \<not> al_created_at r < now - days (audit_retention_days S)) (audit_logs d)\<rparr>"
    "n = length (filter (\<lambda>r. al_created_at r < now - days (audit_retention_days S)) (audit_logs d))"
    using assms(2) by (simp_all add: purge_expired_audit_logs_def Let_def)
  then show ?thesis
    using old sum_length_filter_compl[of "\<lambda>r. al_created_at r < now - days (audit_retention_days S)" "audit_logs d"]
    by auto
qed

theorem purge_keeps_recent_audit_rows_witness:
  "let d = add_audit_event (worker_ctx (days 400)) (audit_event ''NEW'' ''SUCCEEDED'' None)
             (add_audit_event (worker_ctx 0) (audit_event ''OLD'' ''SUCCEEDED'' None) empty_db);
       p = purge_expired_audit_logs (default_settings (replicate 32 CHR ''k'')) (days 410) d
   in fst p = 1 \<and> map al_action (audit_logs (snd p)) = [''NEW''] \<and>
      set (audit_logs (snd p)) \<subseteq> set (audit_logs d)"
  using purge_keeps_recent_audit_rows[OF default_settings_valid prod.collapse[symmetric],
      of "replicate 32 CHR ''k''" _ "days 410"]
  by (simp add: Let_def) (simp add: purge_expired_audit_logs_def default_settings_def days_def seconds_def
      add_audit_event_def audit_row_def worker_ctx_def empty_db_def audit_event_def)

end
