(* ===== verification/Ipam_Lifecycle.thy ===== *)
theory Ipam_Lifecycle
  imports Ipam_Properties
begin

text \<open>
  Sequences of calls to \<open>IpamService\<close>: release and the quarantine that follows it, the reservation
  a provisioning request makes and confirms, two administrators editing one pool, callers without
  the role, and what an error leaves behind.
\<close>

section \<open>Moves keep the constraints\<close>

lemma integrity_move:
  assumes "integrity d"
    and "\<And>x. addr_id (g x) = addr_id x" "\<And>x. addr_pool_id (g x) = addr_pool_id x"
      "\<And>x. addr_address (g x) = addr_address x"
    and "\<And>x. alloc_id (f x) = alloc_id x" "\<And>x. alloc_ip_address_id (f x) = alloc_ip_address_id x"
      "\<And>x. alloc_provisioning_request_id (f x) = alloc_provisioning_request_id x"
      "\<And>x. alloc_allocated_by_id (f x) = alloc_allocated_by_id x"
      "\<And>x. x \<in> set (ip_allocations d) \<Longrightarrow> alloc_id x = j \<Longrightarrow>
         active_allocation (alloc_status (f x)) \<Longrightarrow> active_allocation (alloc_status x)"
    and "fk_opt alloc_workload_id (modify_row alloc_id j f (ip_allocations d)) wl_id (workloads d)"
  shows "integrity (put_addr i g (put_alloc j f d))"
  using assms
  by (auto simp: integrity_defs put_addr_alloc ip_addresses_ok_def ip_allocations_ok_def
      intro!: unique_on_modify_row)

lemma quarantine_simps [simp]:
  "alloc_id (quarantine_alloc now reason x) = alloc_id x"
  "alloc_ip_address_id (quarantine_alloc now reason x) = alloc_ip_address_id x"
  "alloc_provisioning_request_id (quarantine_alloc now reason x) = alloc_provisioning_request_id x"
  "alloc_allocated_by_id (quarantine_alloc now reason x) = alloc_allocated_by_id x"
  "alloc_workload_id (quarantine_alloc now reason x) = alloc_workload_id x"
  "alloc_status (quarantine_alloc now reason x) = Alloc_QUARANTINED"
  "addr_id (quarantine_addr now p a) = addr_id a"
  "addr_pool_id (quarantine_addr now p a) = addr_pool_id a"
  "addr_address (quarantine_addr now p a) = addr_address a"
  "addr_state (quarantine_addr now p a) = Addr_QUARANTINED"
  "addr_quarantined_until (quarantine_addr now p a) = Some (now + seconds (pool_quarantine_seconds p))"
  by (simp_all add: quarantine_alloc_def quarantine_addr_def)

section \<open>Quarantine\<close>

lemma to_quarantine_tables [simp]:
  "ip_pools (to_quarantine now reason l a p d) = ip_pools d"
  "ip_addresses (to_quarantine now reason l a p d) =
     modify_row addr_id (addr_id a) (quarantine_addr now p) (ip_addresses d)"
  "ip_allocations (to_quarantine now reason l a p d) =
     modify_row alloc_id (alloc_id l) (quarantine_alloc now reason) (ip_allocations d)"
  by (simp_all add: to_quarantine_def put_addr_alloc)



definition demo_held :: db where
  "demo_held = snd (allocate (demo_service demo_admin 0) demo_ids [] 7 6 None demo_db)"




section \<open>Reservations of provisioning requests\<close>

lemma find_request_alloc_append:
  "find_request_alloc (add_alloc l d) q ss =
     (case find_request_alloc d q ss of Some x \<Rightarrow> Some x
      | None \<Rightarrow> if alloc_provisioning_request_id l = Some q \<and> alloc_status l \<in> set ss then Some l else None)"
  by (auto simp: find_request_alloc_def add_alloc_def find_append split: option.splits)

lemma find_request_alloc_put_addr [simp]:
  "find_request_alloc (put_addr i g d) q ss = find_request_alloc d q ss"
  by (simp add: find_request_alloc_def put_addr_def)

lemma find_request_alloc_cong:
  "ip_allocations d = ip_allocations d' \<Longrightarrow> find_request_alloc d q ss = find_request_alloc d' q ss"
  by (simp add: find_request_alloc_def)

text \<open>The state a first reservation leaves.\<close>

lemma reserved_state:
  assumes inv: "ipam_inv d" and wf: "opt_all wf_address requested"
    and r: "reserve_for_provisioning sv fresh draws i q requested d = (Inr (a, l), d')" and "d' \<noteq> d"
  shows "find_request_alloc d' q [Alloc_RESERVED, Alloc_ASSIGNED] = Some l" "alloc_status l = Alloc_RESERVED"
    "get_addr d' (alloc_ip_address_id l) = Some a" "addr_state a = Addr_RESERVED"
    "\<exists>p. get_pool_row d' i = Some p \<and> pool_is_active p"
proof -
  from reserve_for_provisioning_outcome[OF r \<open>d' \<noteq> d\<close>] obtain p b d1 where
    p: "get_pool_row d i = Some p" "pool_is_active p"
    and none: "find_request_alloc d q [Alloc_RESERVED, Alloc_ASSIGNED] = None"
    and c: "available_candidate fresh draws p requested d = Inr (b, d1)"
    and d': "d' = add_alloc l (put_addr (addr_id b) (mark_reserved (sv_now sv)) d1)" "integrity d'"
    and l: "l = request_allocation sv (fresh 1) (addr_id b) q (allocation_kind requested)"
    and a: "a = mark_reserved (sv_now sv) b"
    by auto
  note p' = get_pool_rowD[OF p(1)]
  have c': "candidate_address fresh draws p requested d = Inr (b, d1)"
    using c by (auto simp: available_candidate_def result_simps unavailable_def split: if_splits)
  have ids: "distinct (map addr_id (ip_addresses d1))"
    using integrity_distinct(2)[OF d'(2)] by (simp add: d'(1) add_alloc_def put_addr_def mark_reserved_def)
  have pp: "get_pool_row d (pool_id p) = Some p" using p p' by simp
  note w = candidate_wf[OF inv pp wf c' ids]
  have "find_request_alloc d1 q [Alloc_RESERVED, Alloc_ASSIGNED] = None"
    using none find_request_alloc_cong[OF w(4)] by simp
  then show "find_request_alloc d' q [Alloc_RESERVED, Alloc_ASSIGNED] = Some l"
    by (simp add: d'(1) find_request_alloc_append l request_allocation_def)
  show "alloc_status l = Alloc_RESERVED" by (simp add: l request_allocation_def)
  show "addr_state a = Addr_RESERVED" by (simp add: a mark_reserved_def)
  show "get_addr d' (alloc_ip_address_id l) = Some a"
    using get_row_mem[OF ids w(2)]
    by (simp add: d'(1) add_alloc_def put_addr_def l request_allocation_def get_modify_row mark_reserved_def a)
  show "\<exists>p. get_pool_row d' i = Some p \<and> pool_is_active p"
    using candidate_pool[OF c' pp p(2)] p' by (simp add: d'(1) add_alloc_def put_addr_def)
qed

text \<open>
  Reserving an address for a provisioning request is idempotent: once a reservation has
  succeeded, a repeated call (a retried step, with other identifiers and draws, or asking for
  another address) returns the same address and allocation and changes nothing.
\<close>

theorem reserve_for_provisioning_idempotent:
  assumes "ipam_inv d" "opt_all wf_address requested"
    "reserve_for_provisioning sv fresh draws i q requested d = (Inr (a, l), d')"
    "prin_role (sv_principal sv2) = SUPER_ADMIN"
  shows "reserve_for_provisioning sv2 fresh2 draws2 i q requested2 d' = (Inr (a, l), d')"
proof (cases "d' = d")
  case True
  have init: "ipam_init sv2 = Inr ()" using assms(4) by (simp add: result_simps)
  obtain p where lp: "locked_pool d i = Inr p" "ipam_init sv = Inr ()"
    using assms(3) by (auto simp: reserve_for_provisioning_def try_in_def split: sum.splits)
  have "find_request_alloc d q [Alloc_RESERVED, Alloc_ASSIGNED] = Some l"
    "get_addr d (alloc_ip_address_id l) = Some a"
  proof -
    have "find_request_alloc d q [Alloc_RESERVED, Alloc_ASSIGNED] \<noteq> None"
    proof
      assume none: "find_request_alloc d q [Alloc_RESERVED, Alloc_ASSIGNED] = None"
      then obtain b d1 where c: "available_candidate fresh draws p requested d = Inr (b, d1)"
        using assms(3) lp by (auto simp: reserve_for_provisioning_def try_in_def split: sum.splits)
      have "d' = add_alloc l (put_addr (addr_id b) (mark_reserved (sv_now sv)) d1)"
        and l: "l = request_allocation sv (fresh 1) (addr_id b) q (allocation_kind requested)"
        using assms(3)
        by (auto simp: reserve_for_provisioning_def lp c none commit_in_def Let_def split: if_splits)
      then have "l \<in> set (ip_allocations d)" using True by (simp add: add_alloc_def)
      moreover have "alloc_provisioning_request_id l = Some q \<and> alloc_status l = Alloc_RESERVED"
        by (simp add: l request_allocation_def)
      ultimately show False
        using none by (auto simp: find_request_alloc_def find_None_iff)
    qed
    with assms(3) lp show "find_request_alloc d q [Alloc_RESERVED, Alloc_ASSIGNED] = Some l"
      "get_addr d (alloc_ip_address_id l) = Some a"
      by (auto simp: reserve_for_provisioning_def split: option.splits)
  qed
  with lp init True show ?thesis by (simp add: reserve_for_provisioning_def)
next
  case False
  note st = reserved_state[OF assms(1-3) False]
  from st(5) obtain p where "locked_pool d' i = Inr p" by (auto simp: locked_pool_def)
  moreover have "ipam_init sv2 = Inr ()" using assms(4) by (simp add: result_simps)
  ultimately show ?thesis using st(1,3) by (simp add: reserve_for_provisioning_def)
qed

text \<open>An installation with a queued provisioning request, number 50.\<close>

definition demo_request :: provisioning_request where
  "demo_request = \<lparr>req_id = 50, req_requested_by_id = 1, req_idempotency_key_hash = [1],
     req_request_fingerprint = [2], req_product_id = 51, req_template_id = 52,
     req_organization_id = 4, req_target_cluster_id = 3, req_target_node_id = None,
     req_target_vmid = None, req_target_name = ''vm'', req_ip_pool_id = 7,
     req_requested_ip_address = None, req_ip_address_id = None, req_workload_id = None,
     req_status = Prov_RUNNING, req_current_step = ''RESERVE_IP'', req_spec_snapshot = [],
     req_initial_password_ciphertext = None, req_initial_password_nonce = None,
     req_initial_password_key_version = None, req_initial_password_cleared_at = None,
     req_celery_task_id = ''t'', req_clone_submitted = False, req_error_code = None,
     req_error_summary = None, req_requested_at = 0, req_started_at = None,
     req_finished_at = None, req_heartbeat_at = None, req_runner_id = None,
     req_lease_expires_at = None, req_version = 1\<rparr>"

definition demo_product :: product where
  "demo_product = \<lparr>prod_id = 51, prod_name = ''small'', prod_cpu_cores = 1,
     prod_memory_bytes = 1073741824, prod_disk_bytes = 10737418240, prod_is_enabled = True,
     prod_created_by_id = 1\<rparr>"

definition demo_template :: template where
  "demo_template = \<lparr>tmpl_id = 52, tmpl_name = ''debian'', tmpl_source_workload_id = 6,
     tmpl_source_disk = ''scsi0'', tmpl_default_storage = ''local'', tmpl_default_bridge = ''vmbr0'',
     tmpl_default_vlan_tag = None, tmpl_cloud_init_enabled = True, tmpl_linux_only = True,
     tmpl_os_type = LINUX, tmpl_is_enabled = True, tmpl_created_by_id = 1\<rparr>"

definition demo_queued :: db where
  "demo_queued = demo_db\<lparr>products := [demo_product], templates := [demo_template],
     requests := [demo_request]\<rparr>"

lemma demo_queued_inv: "ipam_inv demo_queued"
proof (rule ipam_frame_inv[OF demo_inv])
  have "integrity demo_queued" by code_simp
  then show "ipam_frame demo_db demo_queued" by (simp add: ipam_frame_def demo_queued_def)
qed

definition demo_reserved :: "(ip_address \<times> ip_allocation) outcome" where
  "demo_reserved = reserve_for_provisioning (demo_service demo_admin 0) demo_ids [] 7 50 None demo_queued"

lemma demo_reserved_ok: "is_ok (fst demo_reserved)"
  unfolding demo_reserved_def by code_simp

theorem reserve_for_provisioning_idempotent_witness:
  "reserve_for_provisioning (demo_service demo_admin 7) demo_ids [3] 7 50 (Some (demo_addr 6)) (snd demo_reserved) =
     demo_reserved"
proof -
  obtain a l where r: "fst demo_reserved = Inr (a, l)"
    using demo_reserved_ok by (cases "fst demo_reserved") auto
  then have eq: "reserve_for_provisioning (demo_service demo_admin 0) demo_ids [] 7 50 None demo_queued =
      (Inr (a, l), snd demo_reserved)"
    by (metis demo_reserved_def prod.collapse)
  have "reserve_for_provisioning (demo_service demo_admin 7) demo_ids [3] 7 50 (Some (demo_addr 6))
      (snd demo_reserved) = (Inr (a, l), snd demo_reserved)"
    by (rule reserve_for_provisioning_idempotent[OF demo_queued_inv _ eq])
      (simp_all add: opt_all_def demo_service_def demo_admin_def)
  with r show ?thesis by (simp add: prod_eq_iff)
qed

section \<open>Optimistic locking\<close>

text \<open>
  Two administrators who read the same version of a pool cannot both change it: after the first
  \<open>update_pool\<close>, an \<open>update_pool\<close> or \<open>delete_pool\<close> that carries the version the first one carried
  is refused with \<open>IP_POOL_VERSION_CONFLICT\<close> and changes nothing.
\<close>

theorem stale_pool_version_rejected:
  assumes "update_pool sv i u d = (Inr resp, d1)"
    "prin_role (sv_principal sv2) = SUPER_ADMIN" "pu_version u2 = pu_version u"
  shows "update_pool sv2 i u2 d1 = (raise_app 409 ''IP_POOL_VERSION_CONFLICT''
      ''The IP pool was modified by another request.'', d1) \<and>
    delete_pool sv2 i (pu_version u) d1 = (raise_app 409 ''IP_POOL_VERSION_CONFLICT''
      ''The IP pool was modified by another request.'', d1)"
proof -
  from update_pool_outcome[OF assms(1)] obtain p n e where
    p: "get_pool_row d i = Some p" "pool_is_active p" "pool_version p = pu_version u"
    and d1: "d1 = add_audit_event (sv_ctx sv) e (put_pool i (\<lambda>_. apply_update u n p) d)"
    by auto
  have "get_pool_row d1 i = Some (apply_update u n p)"
    using p get_pool_rowD[OF p(1)] get_modify_row_at[of "ip_pools d" pool_id i "\<lambda>_. apply_update u n p" i]
    by (simp add: d1 put_pool_def apply_update_def)
  then have "locked_pool d1 i = Inr (apply_update u n p)"
    using p(2) by (simp add: locked_pool_def apply_update_def)
  moreover have "pool_version (apply_update u n p) = pu_version u + 1"
    using p(3) by (simp add: apply_update_def)
  moreover have "ipam_init sv2 = Inr ()" using assms(2) by (simp add: result_simps)
  ultimately show ?thesis
    using assms(3) by (simp add: update_pool_def delete_pool_def check_pool_version_def)
qed

definition demo_rename :: ip_pool_update where
  "demo_rename = \<lparr>pu_name = Some ''edge'', pu_cluster_id = None, pu_cidr = None, pu_gateway = None,
     pu_dns_servers = None, pu_bridge = None, pu_vlan_tag = None, pu_allocation_strategy = None,
     pu_quarantine_seconds = None, pu_version = 1\<rparr>"

lemma demo_rename_ok: "is_ok (fst (update_pool (demo_service demo_admin 0) 7 demo_rename demo_db))"
proof -
  have "ipam_init (demo_service demo_admin 0) = Inr ()" "locked_pool demo_db 7 = Inr demo_pool"
    "check_pool_version demo_pool (pu_version demo_rename) = Inr ()"
    "target_network demo_rename demo_pool = Inr demo_network"
    "check_gateway (target_gateway demo_rename demo_pool) demo_network = Inr ()"
    "check_dns (target_dns demo_rename demo_pool) demo_network = Inr ()"
    "check_cluster demo_db (target_cluster demo_rename demo_pool) = Inr ()"
    "check_addressing demo_db demo_pool demo_network (target_cluster demo_rename demo_pool)
       (target_gateway demo_rename demo_pool) = Inr ()"
    "check_overlap (filter (\<lambda>q. pool_is_active q \<and> pool_id q \<noteq> pool_id demo_pool) (ip_pools demo_db))
       demo_network (target_cluster demo_rename demo_pool) = Inr ()"
    "integrity (put_pool 7 (\<lambda>_. apply_update demo_rename demo_network demo_pool) demo_db)"
    by code_simp+
  then show ?thesis by (simp add: update_pool_def commit_in_def Let_def)
qed

theorem stale_pool_version_rejected_witness:
  "err_code (fst (delete_pool (demo_service demo_admin 9) 7 1
     (snd (update_pool (demo_service demo_admin 0) 7 demo_rename demo_db)))) =
   Some ''IP_POOL_VERSION_CONFLICT''"
proof -
  obtain resp where "update_pool (demo_service demo_admin 0) 7 demo_rename demo_db =
      (Inr resp, snd (update_pool (demo_service demo_admin 0) 7 demo_rename demo_db))"
    using demo_rename_ok by (metis is_ok.elims(2) prod.collapse)
  from stale_pool_version_rejected[OF this, of "demo_service demo_admin 9" demo_rename]
  show ?thesis by (simp add: demo_service_def demo_admin_def demo_rename_def)
qed

section \<open>Callers and errors\<close>

text \<open>
  Only a \<open>SUPER_ADMIN\<close> gets anything done: for every other caller each handler of the service
  answers \<open>FORBIDDEN\<close> and leaves the stored state as it is.
\<close>

theorem ipam_requires_super_admin:
  assumes "prin_role (sv_principal sv) \<noteq> SUPER_ADMIN"
  defines "forbidden \<equiv> App (app_error 403 ''FORBIDDEN'' ''You do not have permission to perform this action.'')"
  shows "create_pool sv fresh c d = (Inl forbidden, d) \<and> update_pool sv i u d = (Inl forbidden, d) \<and>
    delete_pool sv i v d = (Inl forbidden, d) \<and>
    reserve_address sv fresh i x reason d = (Inl forbidden, d) \<and>
    allocate sv fresh draws i w q d = (Inl forbidden, d) \<and>
    reserve_for_provisioning sv fresh draws i rq q d = (Inl forbidden, d) \<and>
    confirm_provisioning_ip sv rq w d = (Inl forbidden, d) \<and>
    quarantine_provisioning_ip sv rq d = (Inl forbidden, d) \<and>
    release sv i reason d = (Inl forbidden, d) \<and> approve_release sv i d = (Inl forbidden, d) \<and>
    list_pools sv d = Inl forbidden \<and> get_pool sv i d = Inl forbidden \<and>
    list_addresses sv i d = Inl forbidden"
proof -
  have "ipam_init sv = Inl forbidden"
    using assms by (simp add: ipam_init_def require_service_role_def)
  then show ?thesis
    by (simp add: create_pool_def update_pool_def delete_pool_def reserve_address_def allocate_def
        reserve_for_provisioning_def confirm_provisioning_ip_def quarantine_provisioning_ip_def
        release_def approve_release_def list_pools_def get_pool_def list_addresses_def)
qed

theorem ipam_requires_super_admin_witness:
  "err_code (fst (release (demo_service demo_customer 0) 101 ''mine'' demo_held)) = Some ''FORBIDDEN''"
  using ipam_requires_super_admin[of "demo_service demo_customer 0"]
  by (simp add: demo_service_def demo_customer_def)

text \<open>
  Releasing an allocation that a provisioning request still only reserves commits the move into
  quarantine and then fails: the response asserts a workload, so the caller sees an
  \<open>AssertionError\<close> although the stored state has changed.
\<close>

theorem release_of_reservation_fails_after_commit:
  assumes "ipam_inv d" "prin_role (sv_principal sv) = SUPER_ADMIN" "get_alloc d i = Some l"
    "alloc_status l = Alloc_RESERVED" "alloc_workload_id l = None"
  shows "\<exists>d'. release sv i reason d = (Inl AssertionError, d') \<and>
    map_option alloc_status (get_alloc d' i) = Some Alloc_QUARANTINED"
proof -
  note l = get_row_Some[OF assms(3)]
  obtain a where a: "get_addr d (alloc_ip_address_id l) = Some a"
    using ipam_invD(3)[OF assms(1)] l by (cases "get_addr d (alloc_ip_address_id l)") (auto simp: get_row_None)
  obtain p where p: "get_pool_row d (addr_pool_id a) = Some p"
    using ipam_wfD(3)[OF ipam_invD(2)[OF assms(1)], of a] get_row_Some[OF a] by (auto simp: addr_wf_def)
  have fk: "fk_opt alloc_workload_id (ip_allocations d) wl_id (workloads d)"
    using ipam_invD(1)[OF assms(1)] by (simp add: integrity_def ipam_fks_def)
  have only: "x = l" if "x \<in> set (ip_allocations d)" "alloc_id x = alloc_id l" for x
    using that l integrity_distinct(3)[OF ipam_invD(1)[OF assms(1)]] by (auto simp: distinct_map inj_on_def)
  have "integrity (to_quarantine (sv_now sv) reason l a p d)"
    unfolding to_quarantine_def
    by (rule integrity_move[OF ipam_invD(1)[OF assms(1)]]) (use fk assms(4) in \<open>auto dest!: only\<close>)
  moreover have "ipam_init sv = Inr ()" using assms(2) by (simp add: result_simps)
  ultimately have "release sv i reason d = (Inl AssertionError,
      audit_pool_event sv ''IP_RELEASE_TO_QUARANTINE'' ''ip_allocation'' (alloc_id l) p
           (to_quarantine (sv_now sv) reason l a p d))"
    using assms a p by (simp add: release_def commit_in_def allocation_response_def)
  moreover have "get_alloc (to_quarantine (sv_now sv) reason l a p d) i =
      Some (quarantine_alloc (sv_now sv) reason l)"
    using assms(3) l by (simp add: get_modify_row)
  ultimately show ?thesis by simp
qed

theorem release_of_reservation_fails_after_commit_witness:
  "\<exists>d'. release (demo_service demo_admin 9) 101 ''x'' (snd demo_reserved) = (Inl AssertionError, d') \<and>
     map_option alloc_status (get_alloc d' 101) = Some Alloc_QUARANTINED"
proof (rule release_of_reservation_fails_after_commit)
  show "ipam_inv (snd demo_reserved)"
    unfolding demo_reserved_def
    by (rule reserve_for_provisioning_inv[OF demo_queued_inv _ prod.collapse[symmetric]])
      (simp add: opt_all_def)
  show "prin_role (sv_principal (demo_service demo_admin 9)) = SUPER_ADMIN"
    by (simp add: demo_service_def demo_admin_def)
  show "get_alloc (snd demo_reserved) 101 = Some (request_allocation (demo_service demo_admin 0) 101 100 50 Kind_AUTOMATIC)"
    by code_simp
qed (simp_all add: request_allocation_def)

end
