(* ===== verification/Provisioning_Properties.thy ===== *)
theory Provisioning_Properties
  imports Provisioning_Capacity Provisioning_Ipam Tasks Ipam_Lifecycle
begin

text \<open>
  The properties of the provisioning worker, with instances on an installation that has one request.
\<close>

section \<open>A small installation\<close>

definition demo_prov_api :: "(int \<times> bool) provisioning_api" where
  "demo_prov_api = \<lparr>
     get_guests = (\<lambda>w. (Inr [[(''vmid'', JInt 100)], [(''vmid'', JInt 102)]], w)),
     clone_qemu_template = (\<lambda>_ _ _ _ _ _ (t, b). (Inr ''UPID:clone'', (t, True))),
     prov_task_status = (\<lambda>_ _ w. (Inr [(''status'', JStr ''stopped''), (''exitstatus'', JStr ''OK'')], w)),
     configure_qemu = (\<lambda>_ _ _ w. (Inr (), w)),
     resize_qemu_disk = (\<lambda>_ _ _ _ w. (Inr (), w)),
     submit_vm_power_action = (\<lambda>_ _ _ w. (Inr ''UPID:start'', w)),
     get_vm_status = (\<lambda>_ _ w. (Inr [(''status'', JStr ''running'')], w))\<rparr>"

definition demo_prov :: "(int \<times> bool) prov_env" where
  "demo_prov = \<lparr>pv_env = demo_env, pv_settings = demo_settings, pv_injected = Some demo_prov_api,
     pv_decrypt = (\<lambda>_ _. None), pv_secret = (\<lambda>_ _ _ _ _. None),
     pv_connect = (\<lambda>_ _ _. Inl (app_error 500 ''X'' [])), pv_draws = (\<lambda>w. ([], w))\<rparr>"

definition demo_node :: provisioning_node where
  "demo_node = \<lparr>node_id = 60, node_cluster_id = 3, node_name = ''n1'', node_is_enabled = True,
     node_is_maintenance = False, node_available_memory_bytes = 4294967296,
     node_available_storage_bytes = 107374182400, node_last_selected_at = None\<rparr>"

definition demo_spec :: dict where
  "demo_spec = [(''cpu_cores'', JInt 1), (''memory_bytes'', JInt 1073741824), (''disk_bytes'', JInt 10737418240)]"

definition demo_prov_db :: db where
  "demo_prov_db = demo_queued\<lparr>nodes := [demo_node],
     requests := [demo_request\<lparr>req_spec_snapshot := demo_spec\<rparr>]\<rparr>"

lemma demo_prov_inv: "ipam_inv demo_prov_db"
proof (rule ipam_frame_inv[OF demo_queued_inv])
  have "integrity demo_prov_db" by code_simp
  then show "ipam_frame demo_queued demo_prov_db" by (simp add: ipam_frame_def demo_prov_db_def)
qed

lemma demo_prov_integrity: "integrity demo_prov_db"
  by (rule ipam_invD(1)[OF demo_prov_inv])

lemma demo_prov_row: "get_req demo_prov_db 50 = Some (demo_request\<lparr>req_spec_snapshot := demo_spec\<rparr>)"
  by (simp add: demo_prov_db_def get_row_def demo_request_def)

lemma demo_prov_claimable: "claimable t (demo_request\<lparr>req_spec_snapshot := demo_spec\<rparr>)"
  by (simp add: claimable_def demo_request_def)

definition demo_prov_run :: "unit result \<times> (int \<times> bool) rs" where
  "demo_prov_run = run_provisioning_request demo_prov 50 demo_prov_db (5, False)"

lemma demo_prov_run: "run_provisioning_request demo_prov 50 demo_prov_db (5, False) = (fst demo_prov_run, snd demo_prov_run)"
  by (simp add: demo_prov_run_def)

text \<open>The same with all users disabled.\<close>

definition demo_revoked_db :: db where
  "demo_revoked_db = demo_prov_db\<lparr>users := map (\<lambda>u. u\<lparr>user_is_active := False\<rparr>) (users demo_prov_db)\<rparr>"

section \<open>Runs\<close>



text \<open>
  C21. A run that returns has finished its request: either it succeeded and every one of its steps
  did, or it failed or waits for a manual review; then the encrypted initial password is gone.
\<close>

theorem provisioning_run_result:
  assumes "integrity d" "get_req d i = Some q" "claimable (claim_time V w) q"
    "run_provisioning_request V i d w = (Inr (), s)"
  shows "\<exists>x. get_req (stored s) i = Some x \<and> req_runner_id x = None \<and>
    (req_status x = Prov_SUCCEEDED \<and>
       (\<forall>y \<in> set (steps (stored s)). step_request_id y = i \<longrightarrow> step_status y = Step_SUCCEEDED) \<or>
     req_status x \<in> {Prov_FAILED, Prov_MANUAL_REVIEW} \<and> req_initial_password_ciphertext x = None \<and>
       req_initial_password_nonce x = None)"
  using run_returns_result[OF assms]
  by (auto simp: run_result_def failed_result_def all_done_def has_password_def)

lemma demo_revoked:
  "integrity demo_revoked_db" "\<not> requester_ok (get_user demo_revoked_db 1)"
  by code_simp+

lemma demo_revoked_row: "get_req demo_revoked_db 50 = Some (demo_request\<lparr>req_spec_snapshot := demo_spec\<rparr>)"
  using demo_prov_row by (simp add: demo_revoked_db_def)

lemma demo_revoked_returns:
  "run_provisioning_request demo_prov 50 demo_revoked_db (5, False) =
     (Inr (), snd (run_provisioning_request demo_prov 50 demo_revoked_db (5, False)))"
proof -
  have "\<not> requester_ok (get_user demo_revoked_db (req_requested_by_id (demo_request\<lparr>req_spec_snapshot := demo_spec\<rparr>)))"
    using demo_revoked(2) by (simp add: demo_request_def)
  from run_revoked[OF demo_revoked(1) demo_revoked_row demo_prov_claimable this prod.collapse[symmetric], of demo_prov "(5, False)"]
  show ?thesis by (metis prod.collapse)
qed

theorem provisioning_run_result_witness:
  "\<exists>x. get_req (stored (snd (run_provisioning_request demo_prov 50 demo_revoked_db (5, False)))) 50 = Some x \<and>
     req_runner_id x = None"
  using provisioning_run_result[OF demo_revoked(1) demo_revoked_row demo_prov_claimable demo_revoked_returns] by blast




text \<open>
  C20. Every state a provisioning run commits satisfies the invariant of the address tables, so no
  address gets a second holder by it: the worker uses the address service on its own session, with
  changes to other tables pending.
\<close>

theorem provisioning_keeps_ipam_invariant:
  assumes "ipam_inv d" "request_wf i d" "get_req d i = Some q" "run_provisioning_request V i d w = (r, s)"
  shows "list_all ipam_inv (rs_commits s)"
  using run_keeps_ipam[OF assms] by (simp add: list_all_iff)

theorem provisioning_keeps_ipam_invariant_witness:
  "list_all ipam_inv (rs_commits (snd demo_prov_run))"
  by (rule provisioning_keeps_ipam_invariant[OF demo_prov_inv _ demo_prov_row demo_prov_run])
    (simp add: request_wf_def demo_prov_row, simp add: demo_request_def opt_all_def)

text \<open>
  C22. A request whose requester has lost the role is not cleaned up.  The worker sets it to
  \<open>MANUAL_REVIEW\<close> with \<open>PERMISSION_REVOKED\<close>, also when no clone was submitted: \<open>_fail_request\<close>
  needs the requester's principal to reach the address service, which is not set on this branch,
  and takes the \<open>AttributeError\<close> for a failed clean-up.  The reserved address is not quarantined
  and the node's capacity is not given back.
\<close>

theorem revoked_request_keeps_reservations:
  assumes "integrity d" "get_req d i = Some q" "claimable (claim_time V w) q"
    "\<not> requester_ok (get_user d (req_requested_by_id q))" "run_provisioning_request V i d w = (r, s)"
  shows "r = Inr () \<and> rs_calls s = [] \<and> nodes (stored s) = nodes d \<and> ip_addresses (stored s) = ip_addresses d \<and>
    ip_allocations (stored s) = ip_allocations d \<and>
    (\<exists>x. get_req (stored s) i = Some x \<and> req_status x = Prov_MANUAL_REVIEW \<and>
       req_error_code x = Some ''PERMISSION_REVOKED'')"
  using run_revoked[OF assms] by (simp add: reviewed_def)

theorem revoked_request_keeps_reservations_witness:
  "nodes (stored (snd (run_provisioning_request demo_prov 50 demo_revoked_db (5, False)))) = [demo_node]"
  using revoked_request_keeps_reservations[OF demo_revoked(1) demo_revoked_row demo_prov_claimable _ prod.collapse[symmetric], of demo_prov "(5, False)"]
    demo_revoked(2)
  by (simp add: demo_request_def demo_revoked_db_def demo_prov_db_def)

section \<open>Leases and reservations\<close>

text \<open>
  A claim keeps other workers out for the whole lease: after a worker has claimed a request at
  time \<open>t\<close>, a second run on it before \<open>t\<close> plus the lease calls nothing and writes nothing.
\<close>

theorem provisioning_lease_excludes:
  assumes "integrity d" "get_req d i = Some q" "claimable t q"
    "claim_time V w < t + operation_lease_seconds S * 1000000"
    "run_provisioning_request V i (put_req i (claim_row S u t) d) w = (r, s)"
  shows "r = Inr () \<and> stored s = put_req i (claim_row S u t) d \<and> rs_calls s = []"
proof -
  have "of_int (operation_lease_seconds S) * 1000000 \<le> max (of_int (operation_lease_seconds S))
      (pve_connect_timeout_seconds S + pve_read_timeout_seconds S + pve_task_poll_interval_seconds S + 5) * 1000000"
    by (intro mult_right_mono) simp_all
  then have "operation_lease_seconds S * 1000000 \<le> round (max (of_int (operation_lease_seconds S))
      (pve_connect_timeout_seconds S + pve_read_timeout_seconds S + pve_task_poll_interval_seconds S + 5) * 1000000)"
    using round_mono[of "of_int (operation_lease_seconds S) * 1000000"]
    by (metis of_int_mult of_int_numeral round_of_int)
  then have "\<not> claimable (claim_time V w) (claim_row S u t q)"
    using assms(4) by (simp add: claimable_def claim_row_def lease_deadline_def)
  moreover have "get_req (put_req i (claim_row S u t) d) i = Some (claim_row S u t q)"
    using assms(2) by (simp add: get_put_req claim_row_def)
  ultimately show ?thesis
    using run_unclaimable[OF integrity_claim_row[OF assms(1-3)]] assms(5) by fastforce
qed

theorem provisioning_lease_excludes_witness:
  "rs_calls (snd (run_provisioning_request demo_prov 50 (put_req 50 (claim_row demo_settings 9 0) demo_prov_db) (5, False))) = []"
  using provisioning_lease_excludes[OF demo_prov_integrity demo_prov_row demo_prov_claimable, of demo_prov "(5, False)" 0 demo_settings 9]
  by (simp add: prod_eq_iff demo_prov_def claim_time_def demo_env_def demo_settings_def default_settings_def)

text \<open>
  Capacity makes the round trip: what \<open>_select_target\<close> takes from a node for a request that
  holds none (the node had enough of both) \<open>_release_node_capacity\<close> gives back, so that every
  node's free memory and storage are what they were and the request holds no capacity any more.
\<close>

theorem capacity_round_trip:
  assumes "integrity (rs_db s)" "get_req (rs_db s) i = Some r" "\<not> capacity_reserved r"
    "select_target V i s = (Inr res, s1)"
  shows "\<exists>s2. release_node_capacity i s1 = (Inr (), s2) \<and> free_capacity (rs_db s2) = free_capacity (rs_db s) \<and>
    (\<exists>x. get_req (rs_db s2) i = Some x \<and> \<not> capacity_reserved x)"
proof -
  have "taken i (rs_db s) (rs_db s1) \<and> integrity (rs_db s1)"
    using wp_result[OF select_target_taken[OF assms(2,3) integrity_distinct(7)[OF assms(1)]] assms(4)] .
  then show ?thesis using release_gives_back by blast
qed

lemma demo_select_target:
  "is_ok (fst (select_target demo_prov 50 (start_run demo_prov_db (5, False))))"
  by code_simp

theorem capacity_round_trip_witness:
  "\<exists>s2. release_node_capacity 50 (snd (select_target demo_prov 50 (start_run demo_prov_db (5, False)))) = (Inr (), s2) \<and>
     free_capacity (rs_db s2) = [(60, 4294967296, 107374182400)]"
proof -
  obtain res where "select_target demo_prov 50 (start_run demo_prov_db (5, False)) =
      (Inr res, snd (select_target demo_prov 50 (start_run demo_prov_db (5, False))))"
    using demo_select_target by (metis is_ok.elims(2) prod.collapse)
  moreover have "rs_db (start_run demo_prov_db (5, False)) = demo_prov_db" by (simp add: start_run_def)
  moreover have "free_capacity demo_prov_db = [(60, 4294967296, 107374182400)]"
    by (simp add: free_capacity_def demo_prov_db_def demo_node_def)
  moreover have "\<not> capacity_reserved (demo_request\<lparr>req_spec_snapshot := demo_spec\<rparr>)"
    by (simp add: capacity_reserved_def demo_spec_def dict_get_def)
  ultimately show ?thesis
    using capacity_round_trip[of "start_run demo_prov_db (5, False)" 50] demo_prov_integrity demo_prov_row by metis
qed

text \<open>
  The VMID a request reserves is free: no guest Proxmox reports, no known workload of the
  cluster and no other request that holds a VMID has it.  A VMID the worker picks itself is the
  least free one from 100 to 999999, and it gives up only when all of them are taken.
\<close>

theorem reserve_vmid_picks_free:
  assumes "get_req (rs_db s) i = Some r" "get_guests api (rs_world s) = (Inr guests, w)"
  defines "used \<equiv> remote_vmids guests @ local_vmids (rs_db s) (req_target_cluster_id r) @
    reserved_vmids (rs_db s) (req_target_cluster_id r) i"
  shows "case fst (reserve_vmid i api s) of
      Inr _ \<Rightarrow> \<exists>v x. get_req (rs_db (snd (reserve_vmid i api s))) i = Some x \<and> req_target_vmid x = Some v \<and>
        v \<notin> set used \<and>
        (req_target_vmid r = None \<longrightarrow> 100 \<le> v \<and> v < 1000000 \<and> (\<forall>y. 100 \<le> y \<and> y < v \<longrightarrow> y \<in> set used))
    | Inl e \<Rightarrow> e = IntegrityError \<or>
        (case req_target_vmid r of Some v \<Rightarrow> v \<in> set used
         | None \<Rightarrow> \<forall>y. 100 \<le> y \<and> y < 1000000 \<longrightarrow> y \<in> set used)"
proof (cases "pick_vmid (req_target_vmid r) used")
  case (Inl e)
  then have "case req_target_vmid r of Some v \<Rightarrow> v \<in> set used | None \<Rightarrow> \<forall>y. 100 \<le> y \<and> y < 1000000 \<longrightarrow> y \<in> set used"
    by (auto simp: pick_vmid_def next_vmid_None split: option.splits if_splits)
  moreover have "fst (reserve_vmid i api s) = Inl e"
    using assms(1,2) Inl
    by (simp add: reserve_vmid_def bindM_def callM_def request_row_run readM_def liftM_def raiseM_def used_def)
  ultimately show ?thesis by simp
next
  case (Inr v)
  then have v: "v \<notin> set used"
    "req_target_vmid r = None \<longrightarrow> 100 \<le> v \<and> v < 1000000 \<and> (\<forall>y. 100 \<le> y \<and> y < v \<longrightarrow> y \<in> set used)"
    by (auto simp: pick_vmid_def next_vmid_Some split: option.splits if_splits)
  let ?d = "put_req i (\<lambda>x. x\<lparr>req_target_vmid := Some v\<rparr>) (rs_db s)"
  have "fst (reserve_vmid i api s) = (if integrity ?d then Inr [(''vmid'', JInt v)] else Inl IntegrityError)"
    "integrity ?d \<Longrightarrow> rs_db (snd (reserve_vmid i api s)) = ?d"
    using assms(1,2) Inr
    by (simp_all add: reserve_vmid_def bindM_def callM_def request_row_run readM_def liftM_def returnM_def used_def
        thenM_def writeM_def commitM_def)
  moreover have "get_req ?d i = Some (r\<lparr>req_target_vmid := Some v\<rparr>)" using assms(1) by (simp add: get_put_req)
  ultimately show ?thesis using v by auto
qed

theorem reserve_vmid_picks_free_witness:
  "case fst (reserve_vmid 50 demo_prov_api (start_run demo_prov_db (5, False))) of
     Inr _ \<Rightarrow> \<exists>v x. get_req (rs_db (snd (reserve_vmid 50 demo_prov_api (start_run demo_prov_db (5, False))))) 50 = Some x \<and>
       req_target_vmid x = Some v \<and> v \<notin> {100, 102} \<and> 100 \<le> v
   | Inl e \<Rightarrow> e = IntegrityError"
proof -
  let ?s = "start_run demo_prov_db (5, False)"
  have row: "get_req (rs_db ?s) 50 = Some (demo_request\<lparr>req_spec_snapshot := demo_spec\<rparr>)"
    using demo_prov_row by (simp add: start_run_def)
  have guests: "get_guests demo_prov_api (rs_world ?s) = (Inr [[(''vmid'', JInt 100)], [(''vmid'', JInt 102)]], (5, False))"
    by (simp add: demo_prov_api_def start_run_def)
  have q: "req_target_cluster_id (demo_request\<lparr>req_spec_snapshot := demo_spec\<rparr>) = 3"
    "req_target_vmid (demo_request\<lparr>req_spec_snapshot := demo_spec\<rparr>) = None" "rs_db ?s = demo_prov_db"
    by (simp_all add: demo_request_def start_run_def)
  have used: "remote_vmids [[(''vmid'', JInt 100)], [(''vmid'', JInt 102)]] @ local_vmids demo_prov_db 3 @
      reserved_vmids demo_prov_db 3 50 = [100, 102, 100]"
    by code_simp
  have "\<not> (\<forall>y. 100 \<le> y \<and> y < 1000000 \<longrightarrow> y \<in> set [100, 102, 100 :: int])"
    by (auto intro!: exI[of _ 101])
  with reserve_vmid_picks_free[OF row guests, unfolded q used] show ?thesis
    by (cases "fst (reserve_vmid 50 demo_prov_api ?s)") auto
qed

end
