(* ===== verification/Auth.thy ===== *)
theory Auth
  imports Operations Config
begin

text \<open>
  Sessions: \<open>TokenManager\<close> (src/backend/app/security/tokens.py), \<open>AuthService\<close>
  (src/backend/app/services/auth.py), \<open>get_current_principal\<close> (src/backend/app/dependencies.py) and
  the request schemas of src/backend/app/schemas/auth.py they use.

  PyJWT and argon2 are packages the sources only call: \<open>jwt_lib\<close> and \<open>au_verify\<close> stand for them.  What
  a call draws from the clock, \<open>uuid4\<close> and \<open>token_urlsafe\<close> is part of its argument \<open>auth_call\<close>.
\<close>

section \<open>Schemas\<close>

definition normalize_email :: "string \<Rightarrow> string option" where
  "normalize_email v = (let e = str_lower (str_strip v) in
     if length e > 320 \<or> \<not> contains_str ''@'' e \<or> is_prefix ''@'' e then None else Some e)"

record login_request =
  lq_email :: string
  lq_password :: string

definition validate_login_request :: "string \<Rightarrow> string \<Rightarrow> login_request option" where
  "validate_login_request email password = (case normalize_email email of
     None \<Rightarrow> None
   | Some e \<Rightarrow> if 1 \<le> length password \<and> length password \<le> 1024
               then Some \<lparr>lq_email = e, lq_password = password\<rparr> else None)"

record token_response =
  tr_access_token :: string
  tr_refresh_token :: string
  tr_expires_in :: int

section \<open>Tokens\<close>

text \<open>The dictionary that is signed, and PyJWT: \<open>encode\<close> with a key, \<open>decode\<close> at a time.\<close>

record payload =
  pl_sub :: string
  pl_type :: string
  pl_epoch :: int
  pl_role :: string
  pl_jti :: string
  pl_iat :: datetime
  pl_exp :: datetime
  pl_iss :: string
  pl_aud :: string

record jwt_lib =
  jwt_encode :: "payload \<Rightarrow> string \<Rightarrow> string"
  jwt_decode :: "string \<Rightarrow> string \<Rightarrow> string \<Rightarrow> string \<Rightarrow> datetime \<Rightarrow> payload option"

text \<open>
  What PyJWT documents: a token signed with a key is accepted with that key, audience and issuer, from
  its \<open>iat\<close> to its \<open>exp\<close>, and yields what was signed.  Times travel as whole seconds, so the last
  second before \<open>exp\<close> is left open.  A token has no white space.
\<close>

definition jwt_ok :: "jwt_lib \<Rightarrow> bool" where
  "jwt_ok J \<longleftrightarrow>
     (\<forall>p key t. pl_iat p \<le> t \<and> t + 1000000 \<le> pl_exp p \<longrightarrow>
        jwt_decode J (jwt_encode J p key) key (pl_aud p) (pl_iss p) t = Some p) \<and>
     (\<forall>p key. str_strip (jwt_encode J p key) = jwt_encode J p key)"

record access_claims =
  ac_user_id :: uuid
  ac_session_epoch :: int

text \<open>\<open>UUID(s)\<close>: \<open>urn:uuid:\<close>, braces and hyphens are dropped, 32 hexadecimal digits must remain.\<close>

definition hex_value :: "char \<Rightarrow> nat option" where
  "hex_value c = (let n = (of_char c :: nat) in
     if 48 \<le> n \<and> n \<le> 57 then Some (n - 48)
     else if 97 \<le> n \<and> n \<le> 102 then Some (n - 87)
     else if 65 \<le> n \<and> n \<le> 70 then Some (n - 55) else None)"

fun hex_number :: "nat \<Rightarrow> string \<Rightarrow> nat option" where
  "hex_number acc [] = Some acc"
| "hex_number acc (c # cs) = (case hex_value c of None \<Rightarrow> None | Some v \<Rightarrow> hex_number (16 * acc + v) cs)"

fun drop_str :: "string \<Rightarrow> string \<Rightarrow> string" where
  "drop_str p [] = []"
| "drop_str p (c # cs) = (if p \<noteq> [] \<and> is_prefix p (c # cs) then drop_str p (drop (length p - 1) cs)
     else c # drop_str p cs)"

definition strip_braces :: "string \<Rightarrow> string" where
  "strip_braces s = (let b = (\<lambda>c. c = CHR ''{'' \<or> c = CHR ''}'') in rev (dropWhile b (rev (dropWhile b s))))"

definition uuid_of_str :: "string \<Rightarrow> uuid option" where
  "uuid_of_str s =
     (let h = filter (\<lambda>c. c \<noteq> CHR ''-'') (strip_braces (drop_str ''uuid:'' (drop_str ''urn:'' s))) in
      if length h \<noteq> 32 then None else hex_number 0 h)"

record auth_env =
  au_settings :: settings
  au_crypto :: crypto
  au_jwt :: jwt_lib
  au_verify :: "string \<Rightarrow> string \<Rightarrow> bool"

record auth_call =
  cl_ctx :: audit_ctx
  cl_request_id :: string
  cl_token_now :: datetime
  cl_secret :: string
  cl_fresh :: "nat \<Rightarrow> uuid"

abbreviation cl_now :: "auth_call \<Rightarrow> datetime" where
  "cl_now x \<equiv> ac_now (cl_ctx x)"

definition refresh_ttl :: "settings \<Rightarrow> int" where
  "refresh_ttl S = refresh_token_ttl_days S * 86400 * 1000000"

definition create_access_token :: "auth_env \<Rightarrow> datetime \<Rightarrow> uuid \<Rightarrow> user \<Rightarrow> string \<times> int" where
  "create_access_token A now jti u =
     (let S = au_settings A in
      (jwt_encode (au_jwt A)
        \<lparr>pl_sub = uuid_str (user_id u), pl_type = ''access'', pl_epoch = user_session_epoch u,
         pl_role = user_role_value (user_role_of u), pl_jti = uuid_str jti, pl_iat = now,
         pl_exp = now + seconds (access_token_ttl_seconds S), pl_iss = jwt_issuer S, pl_aud = jwt_audience S\<rparr>
        (app_secret_key S), access_token_ttl_seconds S))"

definition invalid_access_token :: exn where
  "invalid_access_token = App (app_error 401 ''INVALID_ACCESS_TOKEN'' ''The access token is invalid or expired.'')"

definition decode_access_token :: "auth_env \<Rightarrow> datetime \<Rightarrow> string \<Rightarrow> access_claims result" where
  "decode_access_token A now token =
     (let S = au_settings A in
      case jwt_decode (au_jwt A) token (app_secret_key S) (jwt_audience S) (jwt_issuer S) now of
        None \<Rightarrow> Inl invalid_access_token
      | Some p \<Rightarrow>
          if pl_type p \<noteq> ''access'' then Inl invalid_access_token
          else (case uuid_of_str (pl_sub p) of
              None \<Rightarrow> Inl invalid_access_token
            | Some u \<Rightarrow> Inr \<lparr>ac_user_id = u, ac_session_epoch = pl_epoch p\<rparr>))"

definition hash_refresh_secret :: "auth_env \<Rightarrow> string \<Rightarrow> bytes" where
  "hash_refresh_secret A s = sha256 (au_crypto A) (encode s)"

section \<open>The caller of a request\<close>

text \<open>\<open>get_current_principal\<close>, from the \<open>Authorization\<close> header.\<close>

definition current_user :: "db \<Rightarrow> access_claims \<Rightarrow> user option" where
  "current_user d c = (case get_user d (ac_user_id c) of
     None \<Rightarrow> None
   | Some u \<Rightarrow> if \<not> user_is_active u \<or> user_session_epoch u \<noteq> ac_session_epoch c then None else Some u)"

definition get_current_principal :: "auth_env \<Rightarrow> datetime \<Rightarrow> string option \<Rightarrow> db \<Rightarrow> principal result" where
  "get_current_principal A now authorization d = (case authorization of
     None \<Rightarrow> raise_app 401 ''AUTHENTICATION_REQUIRED'' ''A valid access token is required.''
   | Some h \<Rightarrow>
       if \<not> is_prefix ''Bearer '' h
       then raise_app 401 ''AUTHENTICATION_REQUIRED'' ''A valid access token is required.''
       else bind_result (decode_access_token A now (str_strip (drop 7 h))) (\<lambda>c.
         case current_user d c of
           None \<Rightarrow> Inl invalid_access_token
         | Some u \<Rightarrow> Inr \<lparr>prin_user_id = user_id u, prin_email = user_email u,
             prin_role = user_role_of u, prin_session_epoch = user_session_epoch u\<rparr>))"

section \<open>Rows\<close>

definition put_user :: "uuid \<Rightarrow> (user \<Rightarrow> user) \<Rightarrow> db \<Rightarrow> db" where
  "put_user i f d = d\<lparr>users := modify_row user_id i f (users d)\<rparr>"

definition put_token :: "uuid \<Rightarrow> (refresh_token \<Rightarrow> refresh_token) \<Rightarrow> db \<Rightarrow> db" where
  "put_token i f d = d\<lparr>refresh_tokens := modify_row rt_id i f (refresh_tokens d)\<rparr>"

definition add_token :: "refresh_token \<Rightarrow> db \<Rightarrow> db" where
  "add_token t d = d\<lparr>refresh_tokens := refresh_tokens d @ [t]\<rparr>"

definition find_throttle :: "db \<Rightarrow> bytes \<Rightarrow> login_throttle option" where
  "find_throttle d k = find (\<lambda>t. lt_key_hash t = k) (login_throttles d)"

text \<open>The row with its key is written, or added when there is none.\<close>

definition save_throttle :: "login_throttle \<Rightarrow> db \<Rightarrow> db" where
  "save_throttle t d = d\<lparr>login_throttles :=
     (if find_throttle d (lt_key_hash t) = None then login_throttles d @ [t]
      else modify_row lt_key_hash (lt_key_hash t) (\<lambda>_. t) (login_throttles d))\<rparr>"

definition delete_throttle :: "bytes \<Rightarrow> db \<Rightarrow> db" where
  "delete_throttle k d = d\<lparr>login_throttles := filter (\<lambda>t. lt_key_hash t \<noteq> k) (login_throttles d)\<rparr>"

definition find_token :: "db \<Rightarrow> bytes \<Rightarrow> refresh_token option" where
  "find_token d h = find (\<lambda>t. rt_token_hash t = h) (refresh_tokens d)"

definition bump_epoch :: "user \<Rightarrow> user" where
  "bump_epoch u = u\<lparr>user_session_epoch := user_session_epoch u + 1\<rparr>"

definition revoke :: "datetime \<Rightarrow> refresh_token \<Rightarrow> refresh_token" where
  "revoke now t = (if rt_revoked_at t = None then t\<lparr>rt_revoked_at := Some now\<rparr> else t)"

definition revoke_family :: "uuid \<Rightarrow> datetime \<Rightarrow> db \<Rightarrow> db" where
  "revoke_family f now d = d\<lparr>refresh_tokens :=
     map (\<lambda>t. if rt_family_id t = f then revoke now t else t) (refresh_tokens d)\<rparr>"

section \<open>Login\<close>

definition rate_limited :: exn where
  "rate_limited = App (app_error 429 ''LOGIN_RATE_LIMITED'' ''Too many login attempts. Try again later.'')"

definition invalid_credentials :: exn where
  "invalid_credentials = App (app_error 401 ''INVALID_CREDENTIALS'' ''The email or password is invalid.'')"

definition throttle_key :: "auth_env \<Rightarrow> string \<Rightarrow> string \<Rightarrow> bytes" where
  "throttle_key A email source =
     hmac_sha256 (au_crypto A) (encode (app_secret_key (au_settings A))) (encode (email @ [CHR 0x00] @ source))"

definition is_locked :: "datetime \<Rightarrow> login_throttle option \<Rightarrow> bool" where
  "is_locked now t = (case t of None \<Rightarrow> False
     | Some x \<Rightarrow> (case lt_locked_until x of None \<Rightarrow> False | Some u \<Rightarrow> u > now))"

text \<open>\<open>_record_failure\<close>: the row after one more failure; it is locked if the limit is reached.\<close>

definition failure_row :: "settings \<Rightarrow> bytes \<Rightarrow> datetime \<Rightarrow> login_throttle option \<Rightarrow> login_throttle" where
  "failure_row S key now t =
     (let t0 = (case t of
          None \<Rightarrow> \<lparr>lt_key_hash = key, lt_failure_count = 0, lt_window_started_at = now, lt_locked_until = None\<rparr>
        | Some x \<Rightarrow> if now - lt_window_started_at x \<ge> seconds (login_failure_window_seconds S)
            then x\<lparr>lt_failure_count := 0, lt_window_started_at := now, lt_locked_until := None\<rparr> else x);
          t1 = t0\<lparr>lt_failure_count := lt_failure_count t0 + 1\<rparr>
      in if lt_failure_count t1 \<ge> login_failure_limit S
         then t1\<lparr>lt_locked_until := Some (now + seconds (login_lockout_seconds S))\<rparr> else t1)"

definition record_failure :: "settings \<Rightarrow> bytes \<Rightarrow> datetime \<Rightarrow> login_throttle option \<Rightarrow> db \<Rightarrow> bool \<times> db" where
  "record_failure S key now t d =
     (let r = failure_row S key now t in (lt_failure_count r \<ge> login_failure_limit S, save_throttle r d))"

definition issue_token_pair :: "auth_env \<Rightarrow> auth_call \<Rightarrow> user \<Rightarrow> db \<Rightarrow> token_response \<times> db" where
  "issue_token_pair A x u d =
     (let t = \<lparr>rt_id = cl_fresh x 1, rt_user_id = user_id u, rt_family_id = cl_fresh x 0,
            rt_token_hash = hash_refresh_secret A (cl_secret x), rt_parent_id = None, rt_replaced_by_id = None,
            rt_expires_at = cl_now x + refresh_ttl (au_settings A), rt_revoked_at = None, rt_reuse_detected_at = None\<rparr>;
          (token, ttl) = create_access_token A (cl_token_now x) (cl_fresh x 2) u
      in (\<lparr>tr_access_token = token, tr_refresh_token = cl_secret x, tr_expires_in = ttl\<rparr>, add_token t d))"

definition login_event :: "auth_call \<Rightarrow> string \<Rightarrow> user option \<Rightarrow> audit_event" where
  "login_event x oc u = (audit_event ''AUTH_LOGIN'' oc (Some (cl_request_id x)))
     \<lparr>ev_actor_user_id := map_option user_id u, ev_actor_role := map_option user_role_of u\<rparr>"

definition denied_event :: "auth_call \<Rightarrow> string \<Rightarrow> string \<Rightarrow> user option \<Rightarrow> audit_event" where
  "denied_event x reason ecode u = (login_event x ''DENIED'' u)
     \<lparr>ev_details := Some [(''reason'', JStr reason)], ev_error_code := Some ecode\<rparr>"

definition login :: "auth_env \<Rightarrow> auth_call \<Rightarrow> login_request \<Rightarrow> string \<Rightarrow> db \<Rightarrow> token_response outcome" where
  "login A x rq source d =
     (let now = cl_now x; key = throttle_key A (lq_email rq) source; throttle = find_throttle d key in
      if is_locked now throttle
      then commit_in d IntegrityError
             (add_audit_event (cl_ctx x) (denied_event x ''RATE_LIMITED'' ''LOGIN_RATE_LIMITED'' None) d)
             (Inl rate_limited)
      else
        let u = find (\<lambda>y. user_email y = lq_email rq) (users d);
            ok = (case u of None \<Rightarrow> False
              | Some y \<Rightarrow> au_verify A (user_password_hash y) (lq_password rq) \<and> user_is_active y)
        in case (u, ok) of
             (Some y, True) \<Rightarrow>
               let d1 = put_user (user_id y) (\<lambda>z. z\<lparr>user_last_login_at := Some now\<rparr>) (delete_throttle key d);
                   (resp, d2) = issue_token_pair A x y d1
               in commit_in d IntegrityError
                    (add_audit_event (cl_ctx x) ((login_event x ''SUCCEEDED'' u)
                       \<lparr>ev_target_type := Some ''user'', ev_target_id := Some (uuid_str (user_id y))\<rparr>) d2)
                    (Inr resp)
           | _ \<Rightarrow>
               let (locked, d1) = record_failure (au_settings A) key now throttle d
               in commit_in d IntegrityError
                    (add_audit_event (cl_ctx x) (denied_event x ''INVALID_CREDENTIALS'' ''INVALID_CREDENTIALS'' u) d1)
                    (Inl (if locked then rate_limited else invalid_credentials)))"

section \<open>Refresh and logout\<close>

definition invalid_refresh :: exn where
  "invalid_refresh = App (app_error 401 ''INVALID_REFRESH_TOKEN'' ''The refresh token is invalid or expired.'')"

definition reused_refresh :: exn where
  "reused_refresh = App (app_error 401 ''REFRESH_TOKEN_REUSED''
     ''Refresh token reuse was detected; the session was revoked.'')"

definition family_event :: "auth_call \<Rightarrow> string \<Rightarrow> string \<Rightarrow> user \<Rightarrow> refresh_token \<Rightarrow> audit_event" where
  "family_event x act oc u t = (audit_event act oc (Some (cl_request_id x)))
     \<lparr>ev_actor_user_id := Some (user_id u), ev_actor_role := Some (user_role_of u),
      ev_target_type := Some ''refresh_token_family'', ev_target_id := Some (uuid_str (rt_family_id t))\<rparr>"

definition replacement_token :: "auth_env \<Rightarrow> auth_call \<Rightarrow> user \<Rightarrow> refresh_token \<Rightarrow> refresh_token" where
  "replacement_token A x u t = \<lparr>rt_id = cl_fresh x 0, rt_user_id = user_id u, rt_family_id = rt_family_id t,
     rt_token_hash = hash_refresh_secret A (cl_secret x), rt_parent_id = Some (rt_id t), rt_replaced_by_id = None,
     rt_expires_at = cl_now x + refresh_ttl (au_settings A), rt_revoked_at = None, rt_reuse_detected_at = None\<rparr>"

definition reuse_detected :: "auth_call \<Rightarrow> user \<Rightarrow> refresh_token \<Rightarrow> db \<Rightarrow> db" where
  "reuse_detected x u t d =
     add_audit_event (cl_ctx x) (family_event x ''AUTH_REFRESH_REUSE'' ''DENIED'' u t)
       (put_user (user_id u) bump_epoch
         (revoke_family (rt_family_id t) (cl_now x)
           (put_token (rt_id t) (\<lambda>y. y\<lparr>rt_reuse_detected_at := Some (cl_now x)\<rparr>) d)))"

definition rotated :: "auth_env \<Rightarrow> auth_call \<Rightarrow> user \<Rightarrow> refresh_token \<Rightarrow> db \<Rightarrow> db" where
  "rotated A x u t d =
     add_audit_event (cl_ctx x) (family_event x ''AUTH_REFRESH'' ''SUCCEEDED'' u t)
       (put_token (rt_id t) (\<lambda>y. y\<lparr>rt_revoked_at := Some (cl_now x), rt_replaced_by_id := Some (cl_fresh x 0)\<rparr>)
         (add_token (replacement_token A x u t) d))"

definition refresh :: "auth_env \<Rightarrow> auth_call \<Rightarrow> string \<Rightarrow> db \<Rightarrow> token_response outcome" where
  "refresh A x raw d =
     (case find_token d (hash_refresh_secret A raw) of
        None \<Rightarrow> (Inl invalid_refresh, d)
      | Some t \<Rightarrow>
        (case get_user d (rt_user_id t) of
           None \<Rightarrow> (Inl invalid_refresh, d)
         | Some u \<Rightarrow>
           if \<not> user_is_active u then (Inl invalid_refresh, d)
           else if rt_revoked_at t \<noteq> None \<or> rt_replaced_by_id t \<noteq> None
           then commit_in d IntegrityError (reuse_detected x u t d) (Inl reused_refresh)
           else if rt_expires_at t \<le> cl_now x
           then commit_in d IntegrityError
                  (put_token (rt_id t) (\<lambda>y. y\<lparr>rt_revoked_at := Some (cl_now x)\<rparr>) d) (Inl invalid_refresh)
           else
             let (token, ttl) = create_access_token A (cl_token_now x) (cl_fresh x 1) u
             in commit_in d IntegrityError (rotated A x u t d)
                  (Inr \<lparr>tr_access_token = token, tr_refresh_token = cl_secret x, tr_expires_in = ttl\<rparr>)))"

definition logout :: "auth_env \<Rightarrow> auth_call \<Rightarrow> string \<Rightarrow> db \<Rightarrow> unit outcome" where
  "logout A x raw d =
     (case find_token d (hash_refresh_secret A raw) of
        None \<Rightarrow> (Inr (), d)
      | Some t \<Rightarrow>
          let d1 = revoke_family (rt_family_id t) (cl_now x) d
          in commit_in d IntegrityError
               (case get_user d (rt_user_id t) of
                  None \<Rightarrow> d1
                | Some u \<Rightarrow> add_audit_event (cl_ctx x) (family_event x ''AUTH_LOGOUT'' ''SUCCEEDED'' u t)
                    (put_user (user_id u) bump_epoch d1))
               (Inr ()))"

end
