(* ===== verification/Accounts.thy ===== *)
theory Accounts
  imports Auth
begin

text \<open>
  \<open>AccountService\<close> of src/backend/app/services/accounts.py: every operation that writes users,
  organisations and members, and \<open>me\<close>.  The listings only read and are left out; \<open>created_at\<close> and
  \<open>updated_at\<close> are left out of the responses.
\<close>

section \<open>Schemas\<close>

record user_create =
  uc_email :: string
  uc_display_name :: string
  uc_role :: user_role
  uc_password :: string

record user_update =
  uu_display_name :: "string option"
  uu_role :: "user_role option"
  uu_is_active :: "bool option"
  uu_version :: "int option"

record change_password_request =
  cp_current :: string
  cp_new :: string

record organization_update =
  ou_name :: "string option"
  ou_is_active :: "bool option"
  ou_version :: int

definition password_valid :: "string \<Rightarrow> bool" where
  "password_valid p \<longleftrightarrow> 12 \<le> length p \<and> length p \<le> 1024"

definition change_password_valid :: "change_password_request \<Rightarrow> bool" where
  "change_password_valid r \<longleftrightarrow> 1 \<le> length (cp_current r) \<and> length (cp_current r) \<le> 1024 \<and>
     password_valid (cp_new r) \<and> cp_current r \<noteq> cp_new r"

definition organization_update_valid :: "organization_update \<Rightarrow> bool" where
  "organization_update_valid r \<longleftrightarrow> ou_version r \<ge> 1 \<and> (ou_name r \<noteq> None \<or> ou_is_active r \<noteq> None) \<and>
     (case ou_name r of None \<Rightarrow> True | Some n \<Rightarrow> 1 \<le> length n \<and> length n \<le> 160)"

record user_response =
  ur_id :: uuid
  ur_email :: string
  ur_display_name :: string
  ur_role :: user_role
  ur_is_active :: bool
  ur_last_login_at :: "datetime option"
  ur_version :: int

definition user_response_of :: "user \<Rightarrow> user_response" where
  "user_response_of u = \<lparr>ur_id = user_id u, ur_email = user_email u, ur_display_name = user_display_name u,
     ur_role = user_role_of u, ur_is_active = user_is_active u, ur_last_login_at = user_last_login_at u,
     ur_version = user_version u\<rparr>"

record organization_response =
  or_id :: uuid
  or_name :: string
  or_is_active :: bool
  or_version :: int

definition organization_response_of :: "organization \<Rightarrow> organization_response" where
  "organization_response_of g = \<lparr>or_id = org_id g, or_name = org_name g, or_is_active = org_is_active g,
     or_version = org_version g\<rparr>"

section \<open>Helpers of the class\<close>

text \<open>
  The service: caller, request id, context; argon2's \<open>hash\<close>, which salts and so gives another string
  each time, is part of a call's arguments, \<open>verify\<close> that of \<open>auth_env\<close>.
\<close>

abbreviation get_org :: "db \<Rightarrow> uuid \<Rightarrow> organization option" where
  "get_org d i \<equiv> get_row org_id (organizations d) i"

definition put_org :: "uuid \<Rightarrow> (organization \<Rightarrow> organization) \<Rightarrow> db \<Rightarrow> db" where
  "put_org i f d = d\<lparr>organizations := modify_row org_id i f (organizations d)\<rparr>"

definition get_account :: "db \<Rightarrow> uuid \<Rightarrow> user result" where
  "get_account d i = (case find (\<lambda>u. user_id u = i \<and> user_deleted_at u = None) (users d) of
     None \<Rightarrow> raise_app 404 ''USER_NOT_FOUND'' ''The user was not found.'' | Some u \<Rightarrow> Inr u)"

definition get_organization :: "db \<Rightarrow> uuid \<Rightarrow> bool \<Rightarrow> organization result" where
  "get_organization d i include_inactive =
     (case find (\<lambda>g. org_id g = i \<and> (include_inactive \<or> org_is_active g)) (organizations d) of
        None \<Rightarrow> raise_app 404 ''ORGANIZATION_NOT_FOUND'' ''The organization was not found.'' | Some g \<Rightarrow> Inr g)"

definition account_event :: "service \<Rightarrow> string \<Rightarrow> string \<Rightarrow> uuid \<Rightarrow> audit_event" where
  "account_event sv act ttype i = (audit_event act ''SUCCEEDED'' (Some (sv_request_id sv)))
     \<lparr>ev_actor_user_id := Some (prin_user_id (sv_principal sv)), ev_actor_role := Some (prin_role (sv_principal sv)),
      ev_target_type := Some ttype, ev_target_id := Some (uuid_str i)\<rparr>"

definition audit_account :: "service \<Rightarrow> string \<Rightarrow> uuid \<Rightarrow> db \<Rightarrow> db" where
  "audit_account sv act i d = add_audit_event (sv_ctx sv) (account_event sv act ''account'' i) d"

definition conflict_error :: "string \<Rightarrow> exn" where
  "conflict_error m = App (app_error 409 ''RESOURCE_CONFLICT'' m)"

definition require_super_admin :: "service \<Rightarrow> unit result" where
  "require_super_admin sv = require_service_role (sv_principal sv) [SUPER_ADMIN]"

definition revoke_user_tokens :: "uuid \<Rightarrow> datetime \<Rightarrow> db \<Rightarrow> db" where
  "revoke_user_tokens i now d = d\<lparr>refresh_tokens :=
     map (\<lambda>t. if rt_user_id t = i then revoke now t else t) (refresh_tokens d)\<rparr>"

definition user_version_conflict :: exn where
  "user_version_conflict = App (app_error 409 ''USER_VERSION_CONFLICT'' ''The user was modified by another request.'')"

section \<open>Users\<close>

definition me :: "service \<Rightarrow> db \<Rightarrow> user_response result" where
  "me sv d = bind_result (get_account d (prin_user_id (sv_principal sv))) (\<lambda>u. Inr (user_response_of u))"

definition set_password :: "string \<Rightarrow> user \<Rightarrow> user" where
  "set_password h u = u\<lparr>user_password_hash := h, user_session_epoch := user_session_epoch u + 1,
     user_version := user_version u + 1\<rparr>"

definition change_password :: "auth_env \<Rightarrow> service \<Rightarrow> string \<Rightarrow> change_password_request \<Rightarrow> db \<Rightarrow> unit outcome" where
  "change_password A sv hashed rq d =
     try_in d (get_account d (prin_user_id (sv_principal sv))) (\<lambda>u.
     if \<not> au_verify A (user_password_hash u) (cp_current rq)
     then (raise_app 400 ''CURRENT_PASSWORD_INVALID'' ''The current password is invalid.'', d)
     else commit_in d IntegrityError
       (audit_account sv ''USER_PASSWORD_CHANGED'' (user_id u)
         (revoke_user_tokens (user_id u) (sv_now sv) (put_user (user_id u) (set_password hashed) d)))
       (Inr ()))"

definition new_user :: "service \<Rightarrow> uuid \<Rightarrow> string \<Rightarrow> user_create \<Rightarrow> user" where
  "new_user sv i hashed rq = \<lparr>user_id = i, user_email = uc_email rq, user_display_name = str_strip (uc_display_name rq),
     user_role_of = uc_role rq, user_password_hash = hashed, user_is_active = True, user_session_epoch = 0,
     user_last_login_at = None, user_created_by_id = Some (prin_user_id (sv_principal sv)), user_disabled_at = None,
     user_deleted_at = None, user_version = 1\<rparr>"

definition create_user :: "service \<Rightarrow> uuid \<Rightarrow> string \<Rightarrow> user_create \<Rightarrow> db \<Rightarrow> user_response outcome" where
  "create_user sv i hashed rq d =
     try_in d (require_super_admin sv) (\<lambda>_.
     let u = new_user sv i hashed rq
     in commit_in d (conflict_error ''A user with this email already exists.'')
          (audit_account sv ''USER_CREATED'' i (d\<lparr>users := users d @ [u]\<rparr>)) (Inr (user_response_of u)))"

text \<open>The first account, made on the command line (src/backend/app/cli/create_admin.py).\<close>

definition first_admin :: "uuid \<Rightarrow> string \<Rightarrow> string \<Rightarrow> string \<Rightarrow> user" where
  "first_admin i email name hashed = \<lparr>user_id = i, user_email = email, user_display_name = name,
     user_role_of = SUPER_ADMIN, user_password_hash = hashed, user_is_active = True, user_session_epoch = 0,
     user_last_login_at = None, user_created_by_id = None, user_disabled_at = None, user_deleted_at = None,
     user_version = 1\<rparr>"

definition create_admin :: "uuid \<Rightarrow> string \<Rightarrow> string \<Rightarrow> string \<Rightarrow> db \<Rightarrow> unit outcome" where
  "create_admin i email name hashed d =
     (if list_ex (\<lambda>u. user_email u = email) (users d) then (Inl (PyError ''ValueError''), d)
      else commit_in d (PyError ''ValueError'') (d\<lparr>users := users d @ [first_admin i email name hashed]\<rparr>) (Inr ()))"

definition active_super_admins :: "db \<Rightarrow> user list" where
  "active_super_admins d = filter (\<lambda>u. user_role_of u = SUPER_ADMIN \<and> user_is_active u) (users d)"

definition removing_super_admin :: "user_update \<Rightarrow> user \<Rightarrow> bool" where
  "removing_super_admin rq u \<longleftrightarrow> user_role_of u = SUPER_ADMIN \<and>
     (uu_role rq \<notin> {None, Some SUPER_ADMIN} \<or> uu_is_active rq = Some False)"

definition status_changes :: "user_update \<Rightarrow> user \<Rightarrow> bool" where
  "status_changes rq u \<longleftrightarrow> (case uu_is_active rq of None \<Rightarrow> False | Some b \<Rightarrow> b \<noteq> user_is_active u)"

definition set_status :: "datetime \<Rightarrow> bool \<Rightarrow> user \<Rightarrow> user" where
  "set_status now b u = u\<lparr>user_is_active := b, user_disabled_at := (if b then None else Some now),
     user_session_epoch := user_session_epoch u + 1\<rparr>"

definition updated_user :: "datetime \<Rightarrow> user_update \<Rightarrow> user \<Rightarrow> user" where
  "updated_user now rq u =
     (let u1 = (case uu_display_name rq of Some n \<Rightarrow> u\<lparr>user_display_name := str_strip n\<rparr> | None \<Rightarrow> u);
          u2 = (case uu_role rq of Some r \<Rightarrow> u1\<lparr>user_role_of := r\<rparr> | None \<Rightarrow> u1);
          u3 = (if status_changes rq u then set_status now (the (uu_is_active rq)) u2 else u2)
      in u3\<lparr>user_version := user_version u3 + 1\<rparr>)"

definition user_view :: "user \<Rightarrow> dict" where
  "user_view u = [(''display_name'', JStr (user_display_name u)), (''role'', JStr (user_role_value (user_role_of u))),
     (''is_active'', JBool (user_is_active u))]"

definition update_action :: "user \<Rightarrow> user \<Rightarrow> string" where
  "update_action u u' = (if user_role_of u \<noteq> user_role_of u' then ''USER_ROLE_CHANGED''
     else if user_is_active u \<and> \<not> user_is_active u' then ''USER_DISABLED'' else ''USER_UPDATED'')"

definition update_user :: "service \<Rightarrow> uuid \<Rightarrow> user_update \<Rightarrow> db \<Rightarrow> user_response outcome" where
  "update_user sv i rq d =
     try_in d (require_super_admin sv) (\<lambda>_.
     try_in d (get_account d i) (\<lambda>u.
     if (case uu_version rq of None \<Rightarrow> False | Some v \<Rightarrow> v \<noteq> user_version u) then (Inl user_version_conflict, d)
     else if removing_super_admin rq u \<and> length (active_super_admins d) \<le> 1
     then (raise_app 409 ''LAST_SUPER_ADMIN'' ''The last active super administrator cannot be changed.'', d)
     else
       let u' = updated_user (sv_now sv) rq u;
           d1 = put_user i (\<lambda>_. u') d;
           d2 = (if status_changes rq u then revoke_user_tokens i (sv_now sv) d1 else d1)
       in commit_in d IntegrityError
            (add_audit_event (sv_ctx sv) ((account_event sv (update_action u u') ''user'' i)
               \<lparr>ev_before := Some (user_view u), ev_after := Some (user_view u')\<rparr>) d2)
            (Inr (user_response_of u'))))"

text \<open>The UTF-8 bytes of the display name a deleted user gets.\<close>

definition deleted_name :: string where
  "deleted_name = map char_of [236, 130, 173, 236, 160, 156, 235, 144, 156, 32, 236, 130, 172, 236, 154, 169, 236, 158, 144 :: nat]"

definition erased_user :: "datetime \<Rightarrow> user \<Rightarrow> user" where
  "erased_user now u = u\<lparr>user_email := ''deleted+'' @ uuid_str (user_id u) @ ''@deleted.invalid'',
     user_display_name := deleted_name, user_role_of := CUSTOMER, user_is_active := False,
     user_disabled_at := Some now, user_deleted_at := Some now,
     user_session_epoch := user_session_epoch u + 1, user_version := user_version u + 1\<rparr>"

definition delete_user :: "service \<Rightarrow> uuid \<Rightarrow> int \<Rightarrow> db \<Rightarrow> unit outcome" where
  "delete_user sv i version d =
     try_in d (require_super_admin sv) (\<lambda>_.
     if i = prin_user_id (sv_principal sv)
     then (raise_app 409 ''USER_SELF_DELETE'' ''The current user cannot delete their own account.'', d)
     else try_in d (get_account d i) (\<lambda>u.
     if version \<noteq> user_version u then (Inl user_version_conflict, d)
     else if user_role_of u = SUPER_ADMIN \<and> user_is_active u \<and>
             length (filter (\<lambda>y. user_deleted_at y = None) (active_super_admins d)) \<le> 1
     then (raise_app 409 ''LAST_SUPER_ADMIN'' ''The last active super administrator cannot be deleted.'', d)
     else
       let d1 = d\<lparr>members := filter (\<lambda>m. mem_user_id m \<noteq> i) (members d)\<rparr>;
           d2 = put_user i (\<lambda>_. erased_user (sv_now sv) u) (revoke_user_tokens i (sv_now sv) d1)
       in commit_in d IntegrityError
            (add_audit_event (sv_ctx sv) ((account_event sv ''USER_DELETED'' ''user'' i)
               \<lparr>ev_before := Some (user_view u),
                ev_after := Some [(''is_active'', JBool False), (''deleted'', JBool True)]\<rparr>) d2)
            (Inr ())))"

definition reset_password :: "service \<Rightarrow> string \<Rightarrow> uuid \<Rightarrow> db \<Rightarrow> unit outcome" where
  "reset_password sv hashed i d =
     try_in d (require_super_admin sv) (\<lambda>_.
     try_in d (get_account d i) (\<lambda>u.
     commit_in d IntegrityError
       (audit_account sv ''USER_PASSWORD_RESET'' i
         (revoke_user_tokens i (sv_now sv) (put_user i (set_password hashed) d)))
       (Inr ())))"

section \<open>Organisations and members\<close>

definition create_organization :: "service \<Rightarrow> uuid \<Rightarrow> string \<Rightarrow> db \<Rightarrow> organization_response outcome" where
  "create_organization sv i name d =
     try_in d (require_super_admin sv) (\<lambda>_.
     let g = \<lparr>org_id = i, org_name = str_strip name, org_is_active = True,
               org_created_by_id = prin_user_id (sv_principal sv), org_version = 1\<rparr>
     in commit_in d (conflict_error ''An organization with this name already exists.'')
          (audit_account sv ''ORGANIZATION_CREATED'' i (d\<lparr>organizations := organizations d @ [g]\<rparr>))
          (Inr (organization_response_of g)))"

definition organization_version_conflict :: exn where
  "organization_version_conflict = App (app_error 409 ''ORGANIZATION_VERSION_CONFLICT''
     ''The organization was modified by another request.'')"

definition organization_view :: "organization \<Rightarrow> dict" where
  "organization_view g = [(''name'', JStr (org_name g)), (''is_active'', JBool (org_is_active g))]"

definition organization_event :: "service \<Rightarrow> string \<Rightarrow> organization \<Rightarrow> organization \<Rightarrow> audit_event" where
  "organization_event sv act g g' = (account_event sv act ''organization'' (org_id g))
     \<lparr>ev_organization_id := Some (org_id g), ev_before := Some (organization_view g),
      ev_after := Some (organization_view g')\<rparr>"

definition update_organization :: "service \<Rightarrow> uuid \<Rightarrow> organization_update \<Rightarrow> db \<Rightarrow> organization_response outcome" where
  "update_organization sv i rq d =
     try_in d (require_super_admin sv) (\<lambda>_.
     try_in d (get_organization d i True) (\<lambda>g.
     if ou_version rq \<noteq> org_version g then (Inl organization_version_conflict, d)
     else if ou_is_active rq = Some False \<and> org_is_active g
     then (raise_app 422 ''ORGANIZATION_DEACTIVATION_REQUIRES_DELETE''
             ''Use the organization delete endpoint to validate and deactivate it.'', d)
     else
       let g' = g\<lparr>org_name := (case ou_name rq of Some n \<Rightarrow> str_strip n | None \<Rightarrow> org_name g),
                  org_is_active := (ou_is_active rq = Some True \<or> org_is_active g),
                  org_version := org_version g + 1\<rparr>
       in commit_in d (App (app_error 409 ''ORGANIZATION_NAME_CONFLICT'' ''An organization with this name already exists.''))
            (add_audit_event (sv_ctx sv) (organization_event sv ''ORGANIZATION_UPDATED'' g g') (put_org i (\<lambda>_. g') d))
            (Inr (organization_response_of g'))))"

definition open_request :: "provisioning_status \<Rightarrow> bool" where
  "open_request s \<longleftrightarrow> s \<in> {Prov_QUEUED, Prov_RUNNING, Prov_MANUAL_REVIEW}"

definition organization_members :: "db \<Rightarrow> uuid \<Rightarrow> organization_member list" where
  "organization_members d i = filter (\<lambda>m. mem_organization_id m = i) (members d)"

definition organization_assignments :: "db \<Rightarrow> uuid \<Rightarrow> workload_assignment list" where
  "organization_assignments d i = filter (\<lambda>a. wa_organization_id a = i \<and> wa_revoked_at a = None) (assignments d)"

definition organization_requests :: "db \<Rightarrow> uuid \<Rightarrow> provisioning_request list" where
  "organization_requests d i = filter (\<lambda>r. req_organization_id r = i \<and> open_request (req_status r)) (requests d)"

definition organization_in_use :: "db \<Rightarrow> uuid \<Rightarrow> bool" where
  "organization_in_use d i \<longleftrightarrow> organization_members d i \<noteq> [] \<or> organization_assignments d i \<noteq> [] \<or>
     organization_requests d i \<noteq> []"

definition usage_details :: "db \<Rightarrow> uuid \<Rightarrow> dict" where
  "usage_details d i = [(''members'', JInt (int (length (organization_members d i)))),
     (''workload_assignments'', JInt (int (length (organization_assignments d i)))),
     (''active_provisioning_requests'', JInt (int (length (organization_requests d i))))]"

definition delete_organization :: "service \<Rightarrow> uuid \<Rightarrow> int \<Rightarrow> db \<Rightarrow> unit outcome" where
  "delete_organization sv i version d =
     try_in d (require_super_admin sv) (\<lambda>_.
     try_in d (get_organization d i False) (\<lambda>g.
     if version \<noteq> org_version g then (Inl organization_version_conflict, d)
     else if organization_in_use d i
     then (Inl (App (AppError 409 ''ORGANIZATION_IN_USE''
             ''Remove members, workload assignments, and active provisioning requests before deleting the organization.''
             (usage_details d i))), d)
     else
       let g' = g\<lparr>org_is_active := False, org_version := org_version g + 1\<rparr>
       in commit_in d IntegrityError
            (add_audit_event (sv_ctx sv) (organization_event sv ''ORGANIZATION_DELETED'' g g') (put_org i (\<lambda>_. g') d))
            (Inr ())))"

definition add_member :: "service \<Rightarrow> uuid \<Rightarrow> uuid \<Rightarrow> uuid \<Rightarrow> db \<Rightarrow> organization_member outcome" where
  "add_member sv new_id i u d =
     try_in d (require_super_admin sv) (\<lambda>_.
     if (case get_org d i of None \<Rightarrow> True | Some g \<Rightarrow> \<not> org_is_active g)
     then (raise_app 404 ''ORGANIZATION_NOT_FOUND'' ''The organization was not found.'', d)
     else if (case get_user d u of None \<Rightarrow> True | Some x \<Rightarrow> \<not> user_is_active x)
     then (raise_app 404 ''USER_NOT_FOUND'' ''The user was not found.'', d)
     else
       let m = \<lparr>mem_id = new_id, mem_organization_id = i, mem_user_id = u,
                mem_added_by_id = prin_user_id (sv_principal sv)\<rparr>
       in commit_in d (conflict_error ''The user is already an organization member.'')
            (audit_account sv ''ORGANIZATION_MEMBER_ADDED'' new_id (d\<lparr>members := members d @ [m]\<rparr>)) (Inr m))"

definition remove_member :: "service \<Rightarrow> uuid \<Rightarrow> uuid \<Rightarrow> db \<Rightarrow> unit outcome" where
  "remove_member sv i u d =
     try_in d (require_super_admin sv) (\<lambda>_.
     case find (\<lambda>m. mem_organization_id m = i \<and> mem_user_id m = u) (members d) of
       None \<Rightarrow> (raise_app 404 ''ORGANIZATION_MEMBER_NOT_FOUND'' ''The organization member was not found.'', d)
     | Some m \<Rightarrow> commit_in d IntegrityError
         (add_audit_event (sv_ctx sv) ((account_event sv ''ORGANIZATION_MEMBER_REMOVED'' ''organization_member'' (mem_id m))
            \<lparr>ev_organization_id := Some i, ev_before := Some [(''user_id'', JStr (uuid_str u))]\<rparr>)
            (d\<lparr>members := filter (\<lambda>x. mem_id x \<noteq> mem_id m) (members d)\<rparr>))
         (Inr ()))"

end
