(* ===== verification/Sessions.thy ===== *)
theory Sessions
  imports Accounts
begin

text \<open>
  What the operations on sessions and accounts do to users and refresh tokens: an outcome lemma per
  operation, the step relation they form together, and the facts that hold along it: a user's
  session epoch never falls, a family of refresh tokens has at most one live token, and a family
  without one gets none.
\<close>

section \<open>Tables\<close>

lemma auth_tables [simp]:
  "users (put_token i f d) = users d" "users (add_token t d) = users d" "users (save_throttle h d) = users d"
  "users (delete_throttle k d) = users d" "users (revoke_family g now d) = users d"
  "users (revoke_user_tokens i now d) = users d" "users (put_user i g' d) = modify_row user_id i g' (users d)"
  "refresh_tokens (put_user i g' d) = refresh_tokens d" "refresh_tokens (save_throttle h d) = refresh_tokens d"
  "refresh_tokens (delete_throttle k d) = refresh_tokens d"
  "refresh_tokens (put_token i f d) = modify_row rt_id i f (refresh_tokens d)"
  "refresh_tokens (add_token t d) = refresh_tokens d @ [t]"
  "refresh_tokens (revoke_family g now d) = map (\<lambda>t. if rt_family_id t = g then revoke now t else t) (refresh_tokens d)"
  "refresh_tokens (revoke_user_tokens i now d) = map (\<lambda>t. if rt_user_id t = i then revoke now t else t) (refresh_tokens d)"
  by (simp_all add: put_token_def add_token_def save_throttle_def delete_throttle_def revoke_family_def
      revoke_user_tokens_def put_user_def)

lemma audit_account_tables [simp]:
  "users (audit_account sv act i d) = users d" "refresh_tokens (audit_account sv act i d) = refresh_tokens d"
  "integrity (audit_account sv act i d) = integrity d"
  by (simp_all add: audit_account_def)

lemma row_simps [simp]:
  "user_id (bump_epoch u) = user_id u" "user_id (set_password h u) = user_id u"
  "user_id (updated_user now rq u) = user_id u" "user_id (erased_user now u) = user_id u"
  "rt_id (revoke now t) = rt_id t" "rt_user_id (revoke now t) = rt_user_id t" "rt_family_id (revoke now t) = rt_family_id t"
  "rt_token_hash (revoke now t) = rt_token_hash t" "rt_replaced_by_id (revoke now t) = rt_replaced_by_id t"
  "rt_parent_id (revoke now t) = rt_parent_id t" "rt_revoked_at (revoke now t) \<noteq> None"
  by (auto simp: bump_epoch_def set_password_def updated_user_def erased_user_def set_status_def revoke_def Let_def
      split: option.splits)

section \<open>Users\<close>

text \<open>\<open>users_le d d'\<close>: every user is still there, with the same or a later epoch.\<close>

definition users_le :: "db \<Rightarrow> db \<Rightarrow> bool" where
  "users_le d d' \<longleftrightarrow> (\<forall>i u. get_user d i = Some u \<longrightarrow>
     (\<exists>u'. get_user d' i = Some u' \<and> user_session_epoch u \<le> user_session_epoch u'))"

lemma users_le_refl [simp]: "users_le d d"
  by (simp add: users_le_def)

lemma users_le_trans: "users_le d d' \<Longrightarrow> users_le d' d'' \<Longrightarrow> users_le d d''"
  unfolding users_le_def by (meson order_trans)

lemma users_le_same [simp]: "users d' = users d \<Longrightarrow> users_le d d'"
  by (simp add: users_le_def)

lemma users_le_modify:
  assumes "users d' = modify_row user_id i f (users d)" "\<And>u. user_id u = i \<Longrightarrow> user_id (f u) = i"
    "\<And>u. get_user d i = Some u \<Longrightarrow> user_session_epoch u \<le> user_session_epoch (f u)"
  shows "users_le d d'"
  using assms by (auto simp: users_le_def get_modify_row_at)

lemma users_le_append: "users d' = users d @ [u] \<Longrightarrow> users_le d d'"
  by (auto simp: users_le_def get_row_append)

lemma integrity_users:
  assumes "integrity d"
  shows "distinct (map user_id (users d))" "distinct (map rt_id (refresh_tokens d))"
    "distinct (map rt_token_hash (refresh_tokens d))" "distinct (map user_email (users d))"
  using assms by (auto simp: integrity_def tables_ok_def users_ok_def refresh_tokens_ok_def)

lemma get_account_row:
  assumes "integrity d" "get_account d i = Inr u"
  shows "get_user d i = Some u" "user_deleted_at u = None" "user_id u = i" "u \<in> set (users d)"
proof -
  from assms(2) have u: "u \<in> set (users d)" "user_id u = i" "user_deleted_at u = None"
    by (auto simp: get_account_def split: option.splits dest: find_Some_mem)
  with get_row_mem[OF integrity_users(1)[OF assms(1)]] show "get_user d i = Some u" "user_deleted_at u = None"
    "user_id u = i" "u \<in> set (users d)" by auto
qed

section \<open>Constraints\<close>

lemma integrity_put_user:
  assumes "integrity d" "\<And>u. user_id (f u) = user_id u" "\<And>u. user_email (f u) = user_email u"
    "\<And>u. user_created_by_id (f u) = user_created_by_id u"
  shows "integrity (put_user i f d)"
  using assms
  by (auto simp: integrity_defs
      put_user_def users_ok_def)

lemma integrity_throttles:
  "distinct (map lt_key_hash ts) \<Longrightarrow> integrity (d\<lparr>login_throttles := ts\<rparr>) = integrity (d\<lparr>login_throttles := []\<rparr>)"
  by (simp add: integrity_defs
      login_throttles_ok_def)

lemma integrity_no_throttles: "integrity d \<Longrightarrow> integrity (d\<lparr>login_throttles := []\<rparr>)"
  by (simp add: integrity_defs
      login_throttles_ok_def)

lemma integrity_throttle_keys: "integrity d \<Longrightarrow> distinct (map lt_key_hash (login_throttles d))"
  by (simp add: integrity_def tables_ok_def login_throttles_ok_def)

lemma integrity_delete_throttle: "integrity d \<Longrightarrow> integrity (delete_throttle k d)"
  using integrity_throttles[of "filter (\<lambda>t. lt_key_hash t \<noteq> k) (login_throttles d)" d] integrity_no_throttles[of d]
    integrity_throttle_keys[of d]
  by (simp add: delete_throttle_def distinct_map_filter)

lemma integrity_save_throttle: "integrity d \<Longrightarrow> integrity (save_throttle t d)"
proof -
  assume d: "integrity d"
  have "distinct (map lt_key_hash (login_throttles (save_throttle t d)))"
  proof (cases "find_throttle d (lt_key_hash t)")
    case None
    then have "lt_key_hash t \<notin> lt_key_hash ` set (login_throttles d)" by (auto simp: find_throttle_def find_None_iff)
    with None integrity_throttle_keys[OF d] show ?thesis by (simp add: save_throttle_def)
  next
    case (Some y)
    have "map lt_key_hash (modify_row lt_key_hash (lt_key_hash t) (\<lambda>_. t) (login_throttles d)) =
        map lt_key_hash (login_throttles d)" by (simp add: modify_row_def)
    with Some integrity_throttle_keys[OF d] show ?thesis by (simp add: save_throttle_def)
  qed
  with integrity_no_throttles[OF d] integrity_throttles[of "login_throttles (save_throttle t d)" d] show ?thesis
    by (simp add: save_throttle_def)
qed

definition tokens_ok :: "refresh_token list \<Rightarrow> user list \<Rightarrow> bool" where
  "tokens_ok ts us \<longleftrightarrow> refresh_tokens_ok ts \<and> fk rt_user_id ts user_id us \<and>
     fk_opt rt_parent_id ts rt_id ts \<and> fk_opt rt_replaced_by_id ts rt_id ts"

lemma integrity_tokens:
  "integrity (d\<lparr>refresh_tokens := ts\<rparr>) \<longleftrightarrow> integrity (d\<lparr>refresh_tokens := []\<rparr>) \<and> tokens_ok ts (users d)"
  by (auto simp: integrity_defs
      tokens_ok_def refresh_tokens_ok_def fk_def fk_opt_def)

lemma integrity_tokens_ok:
  "integrity d \<longleftrightarrow> integrity (d\<lparr>refresh_tokens := []\<rparr>) \<and> tokens_ok (refresh_tokens d) (users d)"
  using integrity_tokens[of "refresh_tokens d" d] by simp

lemma integrity_map_tokens:
  assumes "integrity d" "\<And>t. rt_id (g t) = rt_id t" "\<And>t. rt_user_id (g t) = rt_user_id t"
    "\<And>t. rt_token_hash (g t) = rt_token_hash t" "\<And>t. rt_parent_id (g t) = rt_parent_id t"
    "\<And>t. rt_replaced_by_id (g t) = rt_replaced_by_id t"
  shows "integrity (d\<lparr>refresh_tokens := map g (refresh_tokens d)\<rparr>)"
proof -
  have "tokens_ok (map g (refresh_tokens d)) (users d) = tokens_ok (refresh_tokens d) (users d)"
  proof -
    have "map rt_id (map g (refresh_tokens d)) = map rt_id (refresh_tokens d)"
      "map rt_user_id (map g (refresh_tokens d)) = map rt_user_id (refresh_tokens d)"
      "map rt_token_hash (map g (refresh_tokens d)) = map rt_token_hash (refresh_tokens d)"
      "map rt_parent_id (map g (refresh_tokens d)) = map rt_parent_id (refresh_tokens d)"
      "map rt_replaced_by_id (map g (refresh_tokens d)) = map rt_replaced_by_id (refresh_tokens d)"
      using assms(2-) by simp_all
    then show ?thesis by (simp only: tokens_ok_def refresh_tokens_ok_def fk_map fk_opt_map)
  qed
  with assms(1) show ?thesis
    using integrity_tokens[of "map g (refresh_tokens d)" d] integrity_tokens_ok[of d] by blast
qed

lemma integrity_add_token:
  assumes "integrity d" "rt_id t \<notin> rt_id ` set (refresh_tokens d)" "rt_token_hash t \<notin> rt_token_hash ` set (refresh_tokens d)"
    "rt_user_id t \<in> user_id ` set (users d)" "set_option (rt_parent_id t) \<subseteq> rt_id ` set (refresh_tokens d)"
    "rt_replaced_by_id t = None"
  shows "integrity (add_token t d)"
proof -
  have "tokens_ok (refresh_tokens d) (users d)" using assms(1) integrity_tokens_ok by blast
  then have "tokens_ok (refresh_tokens d @ [t]) (users d)"
    using assms(2-)
    by (auto simp: tokens_ok_def refresh_tokens_ok_def fk_def fk_opt_def list_all_iff split: option.splits)
  with assms(1) show ?thesis
    using integrity_tokens[of "refresh_tokens d @ [t]" d] integrity_tokens_ok[of d] unfolding add_token_def by blast
qed

section \<open>Families of refresh tokens\<close>

definition families :: "db \<Rightarrow> uuid set" where
  "families d = rt_family_id ` set (refresh_tokens d)"

definition is_live :: "uuid \<Rightarrow> refresh_token \<Rightarrow> bool" where
  "is_live f t \<longleftrightarrow> rt_family_id t = f \<and> rt_revoked_at t = None"

definition live_count :: "uuid \<Rightarrow> db \<Rightarrow> nat" where
  "live_count f d = length (filter (is_live f) (refresh_tokens d))"

text \<open>\<open>families_le d d'\<close>: no family gains a live token, but a new one may start with one.\<close>

definition families_le :: "db \<Rightarrow> db \<Rightarrow> bool" where
  "families_le d d' \<longleftrightarrow> families d \<subseteq> families d' \<and>
     (\<forall>f. live_count f d' \<le> (if f \<in> families d then live_count f d else 1))"

lemma live_count_new: "f \<notin> families d \<Longrightarrow> live_count f d = 0"
  by (auto simp: live_count_def families_def is_live_def filter_empty_conv)

lemma families_leI:
  assumes "families d \<subseteq> families d'" "\<And>f. live_count f d' \<le> live_count f d"
  shows "families_le d d'"
proof -
  have "live_count f d' \<le> 1" if "f \<notin> families d" for f
    using assms(2)[of f] live_count_new[OF that] by simp
  with assms show ?thesis by (simp add: families_le_def)
qed

lemma families_leD:
  assumes "families_le d d'"
  shows "f \<in> families d \<Longrightarrow> live_count f d' \<le> live_count f d" "f \<notin> families d \<Longrightarrow> live_count f d' \<le> 1"
proof -
  have "live_count f d' \<le> (if f \<in> families d then live_count f d else 1)" using assms by (simp add: families_le_def)
  then show "f \<in> families d \<Longrightarrow> live_count f d' \<le> live_count f d" "f \<notin> families d \<Longrightarrow> live_count f d' \<le> 1" by simp_all
qed

lemma families_le_refl [simp]: "families_le d d"
  by (rule families_leI) simp_all

lemma families_le_same [simp]: "refresh_tokens d' = refresh_tokens d \<Longrightarrow> families_le d d'"
  by (rule families_leI) (simp_all add: families_def live_count_def)

lemma families_le_trans:
  assumes "families_le d d'" "families_le d' d''"
  shows "families_le d d''"
proof -
  have "live_count f d'' \<le> (if f \<in> families d then live_count f d else 1)" for f
  proof (cases "f \<in> families d'")
    case True
    with assms have "live_count f d'' \<le> live_count f d'" by (auto simp: families_le_def split: if_splits)
    also have "live_count f d' \<le> (if f \<in> families d then live_count f d else 1)"
      using assms(1) by (simp add: families_le_def)
    finally show ?thesis .
  next
    case False
    with assms show ?thesis by (auto simp: families_le_def split: if_splits)
  qed
  with assms show ?thesis by (auto simp: families_le_def)
qed

lemma length_filter_mono:
  "list_all2 (\<lambda>x y. P y \<longrightarrow> P x) xs ys \<Longrightarrow> length (filter P ys) \<le> length (filter P xs)"
  by (induction rule: list_all2_induct) auto

text \<open>Writes to existing tokens that revoke, or leave alone.\<close>

lemma families_le_map:
  assumes "refresh_tokens d' = map g (refresh_tokens d)" "\<And>t. rt_family_id (g t) = rt_family_id t"
    "\<And>t. rt_revoked_at t \<noteq> None \<Longrightarrow> rt_revoked_at (g t) \<noteq> None"
  shows "families_le d d'"
proof -
  have "families d' = families d" using assms(1,2) by (auto simp: families_def image_image)
  moreover have "list_all2 (\<lambda>x y. is_live f y \<longrightarrow> is_live f x) (refresh_tokens d) (refresh_tokens d')" for f
    using assms(2) assms(3)[THEN contrapos_nn] by (fastforce simp: assms(1) list_all2_map2 is_live_def intro!: list_all2_refl)
  then have "live_count f d' \<le> live_count f d" for f
    using length_filter_mono by (auto simp: live_count_def)
  ultimately show ?thesis by (intro families_leI) simp_all
qed

lemma families_le_put_token:
  assumes "\<And>t. rt_family_id (g t) = rt_family_id t" "\<And>t. rt_revoked_at t \<noteq> None \<Longrightarrow> rt_revoked_at (g t) \<noteq> None"
    "refresh_tokens d' = modify_row rt_id i g (refresh_tokens d)"
  shows "families_le d d'"
  by (rule families_le_map[of _ "\<lambda>t. if rt_id t = i then g t else t"]) (use assms in \<open>auto simp: modify_row_def\<close>)

lemma families_le_new:
  assumes "refresh_tokens d' = refresh_tokens d @ [t]" "rt_family_id t \<notin> families d"
  shows "families_le d d'"
  using assms live_count_new[of _ d]
  by (auto simp: families_le_def families_def live_count_def is_live_def)

lemma length_filter_modify:
  assumes "distinct (map key xs)" "x \<in> set xs" "P x" "\<not> P (g x)"
  shows "Suc (length (filter P (modify_row key (key x) g xs))) = length (filter P xs)"
  using assms
proof (induction xs)
  case (Cons y ys)
  show ?case
  proof (cases "x = y")
    case True
    then have "modify_row key (key x) g ys = ys"
      using Cons.prems(1) by (intro modify_row_cong_id) (force simp: image_iff)
    with True Cons.prems show ?thesis by (simp add: modify_row_def)
  next
    case False
    with Cons.prems have "x \<in> set ys" "key y \<noteq> key x" by (auto simp: image_iff)
    with Cons show ?thesis by (simp add: modify_row_def)
  qed
qed simp

lemma families_le_rotate:
  assumes "refresh_tokens d' = modify_row rt_id (rt_id t) g (refresh_tokens d) @ [n]" "rt_family_id n = rt_family_id t"
    "t \<in> set (refresh_tokens d)" "distinct (map rt_id (refresh_tokens d))" "rt_revoked_at t = None"
    "\<And>x. rt_family_id (g x) = rt_family_id x" "\<And>x. rt_revoked_at (g x) \<noteq> None"
  shows "families_le d d'"
proof -
  let ?ts = "modify_row rt_id (rt_id t) g (refresh_tokens d)"
  have "rt_family_id ` set ?ts = rt_family_id ` set (refresh_tokens d)" by (rule image_modify_row) (rule assms(6))
  then have fam: "families d \<subseteq> families d'" by (auto simp: families_def assms(1))
  have "live_count f d' \<le> live_count f d" for f
  proof (cases "f = rt_family_id t")
    case True
    then have "Suc (length (filter (is_live f) ?ts)) = live_count f d"
      unfolding live_count_def by (intro length_filter_modify) (use assms in \<open>auto simp: is_live_def\<close>)
    then show ?thesis by (simp add: live_count_def assms(1))
  next
    case False
    have "\<not> is_live f (g x)" for x using assms(7)[of x] by (simp add: is_live_def)
    then have "list_all2 (\<lambda>x y. is_live f y \<longrightarrow> is_live f x) (refresh_tokens d) ?ts"
      by (simp add: modify_row_def list_all2_map2 list_all2_refl)
    then have "length (filter (is_live f) ?ts) \<le> live_count f d"
      unfolding live_count_def by (rule length_filter_mono)
    with False show ?thesis by (simp add: live_count_def assms(1,2) is_live_def)
  qed
  with fam show ?thesis by (rule families_leI)
qed

section \<open>Outcomes\<close>

text \<open>The three ways a login can go.\<close>

definition credentials_of :: "auth_env \<Rightarrow> login_request \<Rightarrow> db \<Rightarrow> user option" where
  "credentials_of A rq d = (case find (\<lambda>y. user_email y = lq_email rq) (users d) of
     None \<Rightarrow> None
   | Some u \<Rightarrow> if au_verify A (user_password_hash u) (lq_password rq) \<and> user_is_active u then Some u else None)"

lemma credentials_ofD:
  "credentials_of A rq d = Some u \<Longrightarrow> u \<in> set (users d) \<and> user_email u = lq_email rq \<and> user_is_active u \<and>
     au_verify A (user_password_hash u) (lq_password rq)"
  by (auto simp: credentials_of_def split: option.splits if_splits dest: find_Some_mem)

lemma login_locked:
  "is_locked (cl_now x) (find_throttle d (throttle_key A (lq_email rq) src)) \<Longrightarrow> integrity d \<Longrightarrow>
   login A x rq src d = (Inl rate_limited,
     add_audit_event (cl_ctx x) (denied_event x ''RATE_LIMITED'' ''LOGIN_RATE_LIMITED'' None) d)"
  by (simp add: login_def Let_def commit_in_def)

lemma login_refused:
  assumes "\<not> is_locked (cl_now x) (find_throttle d (throttle_key A (lq_email rq) src))" "credentials_of A rq d = None"
  shows "\<exists>e. login A x rq src d =
     (let t = failure_row (au_settings A) (throttle_key A (lq_email rq) src) (cl_now x)
            (find_throttle d (throttle_key A (lq_email rq) src))
      in commit_in d IntegrityError (add_audit_event (cl_ctx x) e (save_throttle t d))
        (Inl (if lt_failure_count t \<ge> login_failure_limit (au_settings A) then rate_limited else invalid_credentials)))"
  using assms
  by (auto simp: login_def Let_def record_failure_def credentials_of_def split: option.splits bool.splits if_splits)

lemma login_granted:
  assumes "\<not> is_locked (cl_now x) (find_throttle d (throttle_key A (lq_email rq) src))" "credentials_of A rq d = Some u"
  shows "\<exists>e. login A x rq src d =
     (let d1 = put_user (user_id u) (\<lambda>z. z\<lparr>user_last_login_at := Some (cl_now x)\<rparr>)
            (delete_throttle (throttle_key A (lq_email rq) src) d)
      in commit_in d IntegrityError (add_audit_event (cl_ctx x) e (snd (issue_token_pair A x u d1)))
        (Inr (fst (issue_token_pair A x u d1))))"
  using assms
  by (auto simp: login_def Let_def credentials_of_def split: option.splits bool.splits if_splits prod.splits)

lemma issue_token_pair_simps [simp]:
  "users (snd (issue_token_pair A x u d)) = users d"
  "\<exists>t. refresh_tokens (snd (issue_token_pair A x u d)) = refresh_tokens d @ [t] \<and> rt_family_id t = cl_fresh x 0 \<and>
     rt_token_hash t = hash_refresh_secret A (cl_secret x)"
  "tr_access_token (fst (issue_token_pair A x u d)) = fst (create_access_token A (cl_token_now x) (cl_fresh x 2) u)"
  "tr_refresh_token (fst (issue_token_pair A x u d)) = cl_secret x"
  by (auto simp: issue_token_pair_def Let_def split: prod.splits)

text \<open>A step of the system: what may change, once it has been committed.\<close>

definition session_change :: "db \<Rightarrow> db \<Rightarrow> bool" where
  "session_change d d' \<longleftrightarrow> integrity d' \<and> users_le d d' \<and> families_le d d'"

lemma session_change_refl: "integrity d \<Longrightarrow> session_change d d"
  by (simp add: session_change_def)

lemma session_change_trans: "session_change d d' \<Longrightarrow> session_change d' d'' \<Longrightarrow> session_change d d''"
  unfolding session_change_def using users_le_trans families_le_trans by blast

lemma commit_change:
  assumes "commit_in d e d1 r1 = (r, d')" "integrity d" "users_le d d1" "families_le d d1"
  shows "session_change d d'"
  using assms by (auto simp: commit_in_eq session_change_def)

lemma login_change:
  assumes "integrity d" "cl_fresh x 0 \<notin> families d" "login A x rq src d = (r, d')"
  shows "session_change d d'"
proof (cases "is_locked (cl_now x) (find_throttle d (throttle_key A (lq_email rq) src))")
  case True
  from login_locked[OF this assms(1)] assms(1,3) show ?thesis by (auto simp: session_change_def)
next
  case nl: False
  show ?thesis
  proof (cases "credentials_of A rq d")
    case None
    from login_refused[OF nl None] assms(3) obtain e t r1 where
      "commit_in d IntegrityError (add_audit_event (cl_ctx x) e (save_throttle t d)) r1 = (r, d')" by (auto simp: Let_def)
    then show ?thesis by (rule commit_change[OF _ assms(1)]) simp_all
  next
    case (Some u)
    let ?d1 = "put_user (user_id u) (\<lambda>z. z\<lparr>user_last_login_at := Some (cl_now x)\<rparr>)
       (delete_throttle (throttle_key A (lq_email rq) src) d)"
    from login_granted[OF nl Some] assms(3) obtain e where
      c: "commit_in d IntegrityError (add_audit_event (cl_ctx x) e (snd (issue_token_pair A x u ?d1)))
        (Inr (fst (issue_token_pair A x u ?d1))) = (r, d')" by (auto simp: Let_def)
    obtain t where t: "refresh_tokens (snd (issue_token_pair A x u ?d1)) = refresh_tokens ?d1 @ [t]" "rt_family_id t = cl_fresh x 0"
      using issue_token_pair_simps(2) by blast
    show ?thesis
    proof (rule commit_change[OF c assms(1)])
      show "users_le d (add_audit_event (cl_ctx x) e (snd (issue_token_pair A x u ?d1)))"
        by (rule users_le_modify[of _ "user_id u" "\<lambda>z. z\<lparr>user_last_login_at := Some (cl_now x)\<rparr>"]) simp_all
      show "families_le d (add_audit_event (cl_ctx x) e (snd (issue_token_pair A x u ?d1)))"
        using t assms(2) by (intro families_le_new[of _ _ t]) simp_all
    qed
  qed
qed

lemma revoke_not_None [simp]: "\<exists>y. rt_revoked_at (revoke now t) = Some y"
  by (auto simp: revoke_def)

lemma families_le_revoke:
  "families_le d (revoke_family f now d)" "families_le d (revoke_user_tokens i now d)"
proof -
  show "families_le d (revoke_family f now d)"
    by (rule families_le_map[of _ "\<lambda>t. if rt_family_id t = f then revoke now t else t"]) simp_all
  show "families_le d (revoke_user_tokens i now d)"
    by (rule families_le_map[of _ "\<lambda>t. if rt_user_id t = i then revoke now t else t"]) simp_all
qed

lemma families_le_revokeI: "families_le d d1 \<Longrightarrow> families_le d (revoke_user_tokens i now d1)"
  by (erule families_le_trans) (rule families_le_revoke(2))

lemma bump_le: "users_le d (put_user i bump_epoch d)"
  by (rule users_le_modify[of _ i bump_epoch]) (simp_all add: bump_epoch_def)

lemma find_token_mem: "find_token d h = Some t \<Longrightarrow> t \<in> set (refresh_tokens d) \<and> rt_token_hash t = h"
  by (auto simp: find_token_def dest: find_Some_mem)

text \<open>The ways a refresh can go.\<close>

definition spent :: "refresh_token \<Rightarrow> bool" where
  "spent t \<longleftrightarrow> rt_revoked_at t \<noteq> None \<or> rt_replaced_by_id t \<noteq> None"

lemma refresh_unknown:
  "find_token d (hash_refresh_secret A raw) = None \<Longrightarrow> refresh A x raw d = (Inl invalid_refresh, d)"
  by (simp add: refresh_def)

lemma refresh_no_user:
  "find_token d (hash_refresh_secret A raw) = Some t \<Longrightarrow> \<not> (\<exists>u. get_user d (rt_user_id t) = Some u \<and> user_is_active u) \<Longrightarrow>
   refresh A x raw d = (Inl invalid_refresh, d)"
  by (auto simp: refresh_def split: option.splits)

lemma refresh_cases:
  assumes "find_token d (hash_refresh_secret A raw) = Some t" "get_user d (rt_user_id t) = Some u" "user_is_active u"
  shows "spent t \<Longrightarrow> refresh A x raw d = commit_in d IntegrityError (reuse_detected x u t d) (Inl reused_refresh)"
    "\<not> spent t \<Longrightarrow> rt_expires_at t \<le> cl_now x \<Longrightarrow> refresh A x raw d =
      commit_in d IntegrityError (put_token (rt_id t) (\<lambda>y. y\<lparr>rt_revoked_at := Some (cl_now x)\<rparr>) d) (Inl invalid_refresh)"
    "\<not> spent t \<Longrightarrow> \<not> rt_expires_at t \<le> cl_now x \<Longrightarrow> \<exists>ttl. refresh A x raw d =
      commit_in d IntegrityError (rotated A x u t d)
        (Inr \<lparr>tr_access_token = fst (create_access_token A (cl_token_now x) (cl_fresh x 1) u),
           tr_refresh_token = cl_secret x, tr_expires_in = ttl\<rparr>)"
  using assms by (auto simp: refresh_def spent_def Let_def split: prod.splits)

lemma reuse_le: "users_le d (reuse_detected x u t d)" "families_le d (reuse_detected x u t d)"
proof -
  let ?d1 = "put_token (rt_id t) (\<lambda>y. y\<lparr>rt_reuse_detected_at := Some (cl_now x)\<rparr>) d"
  have "families_le d ?d1" by (rule families_le_put_token[of "\<lambda>y. y\<lparr>rt_reuse_detected_at := Some (cl_now x)\<rparr>"]) simp_all
  then have "families_le d (revoke_family (rt_family_id t) (cl_now x) ?d1)"
    by (rule families_le_trans) (rule families_le_revoke)
  then show "families_le d (reuse_detected x u t d)"
    by (rule families_le_trans) (simp add: reuse_detected_def)
  show "users_le d (reuse_detected x u t d)"
    by (rule users_le_modify[of _ "user_id u" bump_epoch]) (simp_all add: reuse_detected_def bump_epoch_def)
qed

lemma rotated_tokens:
  assumes "integrity (rotated A x u t d)" "t \<in> set (refresh_tokens d)"
  shows "refresh_tokens (rotated A x u t d) = modify_row rt_id (rt_id t)
      (\<lambda>y. y\<lparr>rt_revoked_at := Some (cl_now x), rt_replaced_by_id := Some (cl_fresh x 0)\<rparr>) (refresh_tokens d) @
        [replacement_token A x u t]"
proof -
  have "distinct (map rt_id (refresh_tokens d @ [replacement_token A x u t]))"
    using integrity_users(2)[OF assms(1)] by (simp add: rotated_def)
  then have "rt_id (replacement_token A x u t) \<noteq> rt_id t" using assms(2) by (auto simp: image_iff)
  then show ?thesis by (simp add: rotated_def modify_row_def)
qed

lemma rotated_le:
  assumes "integrity d" "integrity (rotated A x u t d)" "t \<in> set (refresh_tokens d)" "\<not> spent t"
  shows "users_le d (rotated A x u t d)" "families_le d (rotated A x u t d)"
proof -
  show "users_le d (rotated A x u t d)" by (simp add: rotated_def)
  show "families_le d (rotated A x u t d)"
    by (rule families_le_rotate[OF rotated_tokens[OF assms(2,3)] _ assms(3)])
      (use assms(4) integrity_users(2)[OF assms(1)] in \<open>simp_all add: replacement_token_def spent_def\<close>)
qed

lemma refresh_change:
  assumes "integrity d" "refresh A x raw d = (r, d')"
  shows "session_change d d'"
proof (cases "find_token d (hash_refresh_secret A raw)")
  case None
  with assms show ?thesis by (simp add: refresh_unknown session_change_refl)
next
  case (Some t)
  note t = find_token_mem[OF Some]
  show ?thesis
  proof (cases "\<exists>u. get_user d (rt_user_id t) = Some u \<and> user_is_active u")
    case False
    with assms refresh_no_user[OF Some False] show ?thesis by (simp add: session_change_refl)
  next
    case True
    then obtain u where u: "get_user d (rt_user_id t) = Some u" "user_is_active u" by blast
    note cases = refresh_cases[OF Some u, of x, unfolded assms(2)]
    consider "spent t" | "\<not> spent t" "rt_expires_at t \<le> cl_now x" | "\<not> spent t" "\<not> rt_expires_at t \<le> cl_now x" by blast
    then show ?thesis
    proof cases
      case 1
      show ?thesis by (rule commit_change[OF cases(1)[OF 1, symmetric] assms(1) reuse_le])
    next
      case 2
      show ?thesis
        by (rule commit_change[OF cases(2)[OF 2, symmetric] assms(1)])
          (simp, rule families_le_put_token[of "\<lambda>y. y\<lparr>rt_revoked_at := Some (cl_now x)\<rparr>"], simp_all)
    next
      case 3
      then show ?thesis
        using cases(3)[OF 3] rotated_le[OF assms(1) _ conjunct1[OF t] 3(1), of A x u] assms(1)
        by (auto simp: commit_in_def session_change_def split: if_splits)
    qed
  qed
qed

lemma logout_change:
  assumes "integrity d" "logout A x raw d = (r, d')"
  shows "session_change d d'"
proof (cases "find_token d (hash_refresh_secret A raw)")
  case None
  with assms show ?thesis by (simp add: logout_def session_change_refl)
next
  case (Some t)
  let ?d1 = "revoke_family (rt_family_id t) (cl_now x) d"
  have le: "users_le d ?d1" "families_le d ?d1" using families_le_revoke by simp_all
  show ?thesis
  proof (cases "get_user d (rt_user_id t)")
    case None
    with Some assms(2) have "commit_in d IntegrityError ?d1 (Inr ()) = (r, d')" by (simp add: logout_def)
    then show ?thesis by (rule commit_change[OF _ assms(1) le])
  next
    case (Some u)
    with \<open>find_token d _ = Some t\<close> assms(2) obtain e where
      "commit_in d IntegrityError (add_audit_event (cl_ctx x) e (put_user (user_id u) bump_epoch ?d1)) (Inr ()) = (r, d')"
      by (auto simp: logout_def)
    moreover have "users_le d (add_audit_event (cl_ctx x) e (put_user (user_id u) bump_epoch ?d1))"
      using users_le_trans[OF le(1) bump_le[of ?d1 "user_id u"]] by (rule users_le_trans) simp
    moreover have "families_le d (add_audit_event (cl_ctx x) e (put_user (user_id u) bump_epoch ?d1))"
      by (rule families_le_trans[OF le(2)]) simp
    ultimately show ?thesis using commit_change[OF _ assms(1)] by blast
  qed
qed

section \<open>Accounts\<close>

lemma password_change:
  assumes "integrity d" "get_user d i = Some u"
    "commit_in d e (audit_account sv act i (revoke_user_tokens i now (put_user i (set_password h) d))) r1 = (r, d')"
  shows "session_change d d'"
proof (rule commit_change[OF assms(3,1)])
  show "users_le d (audit_account sv act i (revoke_user_tokens i now (put_user i (set_password h) d)))"
    by (rule users_le_modify[of _ i "set_password h"]) (simp_all add: set_password_def)
  show "families_le d (audit_account sv act i (revoke_user_tokens i now (put_user i (set_password h) d)))"
    using families_le_revokeI[of d "put_user i (set_password h) d" i now] by (rule families_le_trans) simp_all
qed

lemma change_password_change:
  assumes "integrity d" "change_password A sv h rq d = (r, d')"
  shows "session_change d d'"
proof (cases "get_account d (prin_user_id (sv_principal sv))")
  case (Inl e)
  with assms show ?thesis by (simp add: change_password_def session_change_refl)
next
  case (Inr u)
  note u = get_account_row[OF assms(1) Inr]
  show ?thesis
  proof (cases "au_verify A (user_password_hash u) (cp_current rq)")
    case True
    with Inr assms(2) u(3) have "commit_in d IntegrityError (audit_account sv ''USER_PASSWORD_CHANGED'' (user_id u)
        (revoke_user_tokens (user_id u) (sv_now sv) (put_user (user_id u) (set_password h) d))) (Inr ()) = (r, d')"
      by (simp add: change_password_def)
    then show ?thesis by (rule password_change[OF assms(1), rotated]) (use u in simp)
  qed (use Inr assms in \<open>simp add: change_password_def session_change_refl\<close>)
qed

lemma reset_password_change:
  assumes "integrity d" "reset_password sv h i d = (r, d')"
  shows "session_change d d'"
proof (cases "\<exists>u. require_super_admin sv = Inr () \<and> get_account d i = Inr u")
  case True
  then obtain u where u: "require_super_admin sv = Inr ()" "get_account d i = Inr u" by blast
  with assms(2) have "commit_in d IntegrityError (audit_account sv ''USER_PASSWORD_RESET'' i
      (revoke_user_tokens i (sv_now sv) (put_user i (set_password h) d))) (Inr ()) = (r, d')"
    by (simp add: reset_password_def)
  then show ?thesis by (rule password_change[OF assms(1) get_account_row(1)[OF assms(1) u(2)]])
qed (use assms in \<open>auto simp: reset_password_def try_in_eq session_change_refl\<close>)

lemma create_user_change:
  assumes "integrity d" "create_user sv i h rq d = (r, d')"
  shows "session_change d d'"
proof (cases "require_super_admin sv")
  case (Inr x)
  with assms(2) obtain u where c: "commit_in d (conflict_error ''A user with this email already exists.'')
      (audit_account sv ''USER_CREATED'' i (d\<lparr>users := users d @ [u]\<rparr>)) (Inr (user_response_of u)) = (r, d')"
    by (auto simp: create_user_def Let_def)
  show ?thesis by (rule commit_change[OF c assms(1)]) (auto intro: users_le_append)
qed (use assms in \<open>simp add: create_user_def session_change_refl\<close>)

lemma create_admin_change:
  assumes "integrity d" "create_admin i email name h d = (r, d')"
  shows "session_change d d'"
proof (cases "list_ex (\<lambda>u. user_email u = email) (users d)")
  case False
  with assms(2) have c: "commit_in d (PyError ''ValueError'') (d\<lparr>users := users d @ [first_admin i email name h]\<rparr>) (Inr ()) = (r, d')"
    by (simp add: create_admin_def)
  show ?thesis by (rule commit_change[OF c assms(1)]) (auto intro: users_le_append)
qed (use assms in \<open>simp add: create_admin_def session_change_refl\<close>)

lemma updated_user_epoch:
  "user_session_epoch (updated_user now rq u) = user_session_epoch u + (if status_changes rq u then 1 else 0)"
  by (simp add: updated_user_def set_status_def Let_def split: option.splits)

lemma update_user_commits:
  assumes "update_user sv i rq d = (r, d')"
  obtains "d' = d" "\<forall>x. r \<noteq> Inr x" | u e where "require_super_admin sv = Inr ()" "get_account d i = Inr u"
    "\<not> (removing_super_admin rq u \<and> length (active_super_admins d) \<le> 1)"
    "commit_in d IntegrityError (add_audit_event (sv_ctx sv) e
       (if status_changes rq u then revoke_user_tokens i (sv_now sv) (put_user i (\<lambda>_. updated_user (sv_now sv) rq u) d)
        else put_user i (\<lambda>_. updated_user (sv_now sv) rq u) d))
       (Inr (user_response_of (updated_user (sv_now sv) rq u))) = (r, d')"
  using assms unfolding update_user_def Let_def
  by (cases "require_super_admin sv"; cases "get_account d i") (auto split: if_splits)

lemma update_user_change:
  assumes "integrity d" "update_user sv i rq d = (r, d')"
  shows "session_change d d'"
  using assms(2)
proof (cases rule: update_user_commits)
  case (2 u e)
  note u = get_account_row[OF assms(1) 2(2)]
  let ?f = "\<lambda>_. updated_user (sv_now sv) rq u"
  have usr: "users_le d (add_audit_event (sv_ctx sv) e (if status_changes rq u
      then revoke_user_tokens i (sv_now sv) (put_user i ?f d) else put_user i ?f d))"
    by (rule users_le_modify[of _ i ?f]) (use u in \<open>auto simp: updated_user_epoch\<close>)
  have "families_le d (if status_changes rq u then revoke_user_tokens i (sv_now sv) (put_user i ?f d) else put_user i ?f d)"
    by (simp add: families_le_revokeI)
  then have "families_le d (add_audit_event (sv_ctx sv) e (if status_changes rq u
      then revoke_user_tokens i (sv_now sv) (put_user i ?f d) else put_user i ?f d))"
    by (rule families_le_trans) simp
  with usr show ?thesis by (rule commit_change[OF 2(4) assms(1)])
qed (use assms(1) in \<open>simp add: session_change_refl\<close>)

lemma delete_user_commits:
  assumes "delete_user sv i v d = (r, d')"
  obtains "d' = d" "r \<noteq> Inr ()" | u e where "require_super_admin sv = Inr ()" "get_account d i = Inr u"
    "i \<noteq> prin_user_id (sv_principal sv)"
    "\<not> (user_role_of u = SUPER_ADMIN \<and> user_is_active u \<and>
       length (filter (\<lambda>y. user_deleted_at y = None) (active_super_admins d)) \<le> 1)"
    "commit_in d IntegrityError (add_audit_event (sv_ctx sv) e (put_user i (\<lambda>_. erased_user (sv_now sv) u)
       (revoke_user_tokens i (sv_now sv) (d\<lparr>members := filter (\<lambda>m. mem_user_id m \<noteq> i) (members d)\<rparr>)))) (Inr ()) = (r, d')"
proof (cases "require_super_admin sv")
  case (Inl e)
  with assms show ?thesis by (intro that(1)) (simp_all add: delete_user_def, blast)
next
  case ok: (Inr x)
  show ?thesis
  proof (cases "i \<noteq> prin_user_id (sv_principal sv) \<and> (\<exists>u. get_account d i = Inr u)")
    case True
    then obtain u where "get_account d i = Inr u" by blast
    with assms ok True show ?thesis
      by (simp add: delete_user_def Let_def split: if_splits) (use that in auto)
  next
    case False
    with assms ok show ?thesis
      by (intro that(1)) (cases "get_account d i"; auto simp: delete_user_def split: if_splits)+
  qed
qed

lemma delete_user_change:
  assumes "integrity d" "delete_user sv i v d = (r, d')"
  shows "session_change d d'"
  using assms(2)
proof (cases rule: delete_user_commits)
  case (2 u e)
  note u = get_account_row[OF assms(1) 2(2)]
  let ?f = "\<lambda>_. erased_user (sv_now sv) u" and ?d0 = "d\<lparr>members := filter (\<lambda>m. mem_user_id m \<noteq> i) (members d)\<rparr>"
  have "users_le d (add_audit_event (sv_ctx sv) e (put_user i ?f (revoke_user_tokens i (sv_now sv) ?d0)))"
    by (rule users_le_modify[of _ i ?f]) (use u in \<open>auto simp: erased_user_def\<close>)
  moreover have "families_le d (add_audit_event (sv_ctx sv) e (put_user i ?f (revoke_user_tokens i (sv_now sv) ?d0)))"
    using families_le_revokeI[of d ?d0 i "sv_now sv"] by (rule families_le_trans) simp_all
  ultimately show ?thesis by (rule commit_change[OF 2(5) assms(1)])
qed (use assms(1) in \<open>simp add: session_change_refl\<close>)

section \<open>The system\<close>

text \<open>
  Operations on sessions and accounts in any order, by any callers, in any environment, between
  operations of the other services, which write neither users nor refresh tokens.  A login's new
  family has an identifier that no family has yet, as \<open>uuid4\<close> promises.
\<close>

inductive session_step :: "db \<Rightarrow> db \<Rightarrow> bool" where
  step_login: "cl_fresh x 0 \<notin> families d \<Longrightarrow> login A x rq src d = (r, d') \<Longrightarrow> session_step d d'"
| step_refresh: "refresh A x raw d = (r, d') \<Longrightarrow> session_step d d'"
| step_logout: "logout A x raw d = (r', d') \<Longrightarrow> session_step d d'"
| step_change_password: "change_password A sv h cp d = (r', d') \<Longrightarrow> session_step d d'"
| step_create_admin: "create_admin i email name h d = (r', d') \<Longrightarrow> session_step d d'"
| step_create_user: "create_user sv i h uc d = (ru, d') \<Longrightarrow> session_step d d'"
| step_update_user: "update_user sv i uu d = (ru, d') \<Longrightarrow> session_step d d'"
| step_delete_user: "delete_user sv i v d = (r', d') \<Longrightarrow> session_step d d'"
| step_reset_password: "reset_password sv h i d = (r', d') \<Longrightarrow> session_step d d'"
| step_elsewhere: "users d' = users d \<Longrightarrow> refresh_tokens d' = refresh_tokens d \<Longrightarrow> integrity d' \<Longrightarrow> session_step d d'"

lemma session_change_elsewhere:
  "users d' = users d \<Longrightarrow> refresh_tokens d' = refresh_tokens d \<Longrightarrow> integrity d' \<Longrightarrow> session_change d d'"
  by (simp add: session_change_def)

lemma session_step_change: "session_step d d' \<Longrightarrow> integrity d \<Longrightarrow> session_change d d'"
  by (induction rule: session_step.induct)
    (blast intro: login_change refresh_change logout_change change_password_change create_user_change create_admin_change
      update_user_change delete_user_change reset_password_change session_change_elsewhere)+

lemma session_steps_change: "session_step\<^sup>*\<^sup>* d d' \<Longrightarrow> integrity d \<Longrightarrow> session_change d d'"
proof (induction rule: rtranclp_induct)
  case base
  then show ?case by (rule session_change_refl)
next
  case (step e f)
  then have "session_change d e" by simp
  moreover from this step(2) have "session_change e f"
    by (auto simp: session_change_def dest: session_step_change)
  ultimately show ?case by (rule session_change_trans)
qed

end
