(* ===== verification/Token_Codec.thy ===== *)
theory Token_Codec
  imports Auth
begin

text \<open>
  Identifiers in tokens: \<open>UUID(str(u)) == u\<close>, and a small JWT library on which the hypotheses about
  PyJWT can be seen to hold.
\<close>

section \<open>UUIDs\<close>

definition hex_char :: "char \<Rightarrow> bool" where
  "hex_char c \<longleftrightarrow> c \<in> set ''0123456789abcdef''"

lemma digit_char_cases: "n < 16 \<Longrightarrow> hex_char (digit_char n) \<and> hex_value (digit_char n) = Some n"
proof -
  assume "n < 16"
  then have "n \<in> set [0..<16]" by simp
  moreover have "list_all (\<lambda>k. hex_char (digit_char k) \<and> hex_value (digit_char k) = Some k) [0..<16]"
    by code_simp
  ultimately show ?thesis by (auto simp: list_all_iff)
qed

lemma hex_digits_chars: "list_all hex_char (hex_digits k n)"
proof (induction k n rule: hex_digits.induct)
  case (2 k n)
  have "nat (n mod 16) < 16" by simp
  with 2 digit_char_cases show ?case by simp
qed simp

lemma hex_number_snoc:
  "hex_number acc (cs @ [c]) = (case hex_number acc cs of None \<Rightarrow> None
     | Some v \<Rightarrow> map_option (\<lambda>x. 16 * v + x) (hex_value c))"
  by (induction cs arbitrary: acc) (auto split: option.splits)

lemma hex_number_digits: "0 \<le> n \<Longrightarrow> hex_number 0 (hex_digits k n) = Some (nat (n mod 16 ^ k))"
proof (induction k n rule: hex_digits.induct)
  case (2 k n)
  have "nat (n mod 16) < 16" by simp
  moreover have "n mod 16 ^ Suc k = 16 * (n div 16 mod 16 ^ k) + n mod 16"
    using mod_mult2_eq'[of n 16 "16 ^ k"] by simp
  ultimately show ?case
    using 2 digit_char_cases by (simp add: hex_number_snoc nat_add_distrib nat_mult_distrib)
qed simp

lemma drop_str_absent: "x \<notin> set s \<Longrightarrow> drop_str (x # p) s = s"
  by (induction s) auto

lemma dropWhile_absent: "list_all (\<lambda>c. \<not> b c) s \<Longrightarrow> dropWhile b s = s"
  by (cases s) auto

lemma strip_braces_absent: "CHR ''{'' \<notin> set s \<Longrightarrow> CHR ''}'' \<notin> set s \<Longrightarrow> strip_braces s = s"
proof -
  assume "CHR ''{'' \<notin> set s" "CHR ''}'' \<notin> set s"
  then have "list_all (\<lambda>c. \<not> (c = CHR ''{'' \<or> c = CHR ''}'')) s" "list_all (\<lambda>c. \<not> (c = CHR ''{'' \<or> c = CHR ''}'')) (rev s)"
    by (auto simp: list_all_iff)
  then show ?thesis unfolding strip_braces_def Let_def by (simp only: dropWhile_absent rev_rev_ident)
qed

lemma groups: "take 8 h @ take 4 (drop 8 h) @ take 4 (drop 12 h) @ take 4 (drop 16 h) @ drop 20 h = h"
proof -
  have "take 4 (drop 16 h) @ drop 20 h = drop 16 h" "take 4 (drop 12 h) @ drop 16 h = drop 12 h"
    "take 4 (drop 8 h) @ drop 12 h = drop 8 h"
    using append_take_drop_id[of 4 "drop 16 h"] append_take_drop_id[of 4 "drop 12 h"] append_take_drop_id[of 4 "drop 8 h"]
    by (simp_all add: drop_drop)
  then show ?thesis by (metis append_take_drop_id)
qed

lemma uuid_round_trip:
  assumes "u < 2 ^ 128"
  shows "uuid_of_str (uuid_str u) = Some u"
proof -
  define h where "h = hex_digits 32 (int u)"
  have hex: "\<And>c. c \<in> set h \<Longrightarrow> hex_char c" using hex_digits_chars by (auto simp: h_def list_all_iff)
  have str: "uuid_str u = take 8 h @ ''-'' @ take 4 (drop 8 h) @ ''-'' @ take 4 (drop 12 h) @ ''-'' @
      take 4 (drop 16 h) @ ''-'' @ drop 20 h"
    by (simp add: uuid_str_def h_def Let_def)
  have absent: "c \<notin> set (uuid_str u)" if "\<not> hex_char c" "c \<noteq> CHR ''-''" for c
    using that hex by (auto simp: str dest: in_set_takeD in_set_dropD)
  have "drop_str ''uuid:'' (drop_str ''urn:'' (uuid_str u)) = uuid_str u"
    using absent[of "CHR ''u''"] by (simp add: drop_str_absent hex_char_def)
  moreover have "strip_braces (uuid_str u) = uuid_str u"
    using absent[of "CHR ''{''"] absent[of "CHR ''}''"] by (simp add: strip_braces_absent hex_char_def)
  moreover have "filter (\<lambda>c. c \<noteq> CHR ''-'') (uuid_str u) = h"
  proof -
    have "filter (\<lambda>c. c \<noteq> CHR ''-'') xs = xs" if "set xs \<subseteq> set h" for xs
      using that hex by (intro filter_True) (auto simp: hex_char_def)
    then show ?thesis
      by (simp add: str set_take_subset set_drop_subset groups
          subset_trans[OF set_take_subset set_drop_subset])
  qed
  moreover have "length h = 32" by (simp add: h_def)
  moreover have "hex_number 0 h = Some u"
    using hex_number_digits[of "int u" 32] assms by (simp add: h_def)
  ultimately show ?thesis by (simp add: uuid_of_str_def)
qed

section \<open>Access tokens\<close>

lemma decode_create_access_token:
  assumes "jwt_ok (au_jwt A)" "user_id u < 2 ^ 128" "now \<le> t"
    "t + 1000000 \<le> now + seconds (access_token_ttl_seconds (au_settings A))"
  shows "decode_access_token A t (fst (create_access_token A now jti u)) =
    Inr \<lparr>ac_user_id = user_id u, ac_session_epoch = user_session_epoch u\<rparr>"
proof -
  let ?S = "au_settings A"
  define p where "p = \<lparr>pl_sub = uuid_str (user_id u), pl_type = ''access'', pl_epoch = user_session_epoch u,
         pl_role = user_role_value (user_role_of u), pl_jti = uuid_str jti, pl_iat = now,
         pl_exp = now + seconds (access_token_ttl_seconds ?S), pl_iss = jwt_issuer ?S, pl_aud = jwt_audience ?S\<rparr>"
  have "jwt_decode (au_jwt A) (jwt_encode (au_jwt A) p (app_secret_key ?S)) (app_secret_key ?S) (pl_aud p) (pl_iss p) t = Some p"
    using assms(1) unfolding jwt_ok_def
    by (elim conjE allE[of _ p]) (use assms(3,4) in \<open>simp add: p_def\<close>)
  moreover have "pl_aud p = jwt_audience ?S" "pl_iss p = jwt_issuer ?S" "pl_type p = ''access''"
    "pl_sub p = uuid_str (user_id u)" "pl_epoch p = user_session_epoch u" by (simp_all add: p_def)
  ultimately show ?thesis
    using uuid_round_trip[OF assms(2)]
    by (simp add: decode_access_token_def create_access_token_def Let_def p_def[symmetric])
qed

lemma access_token_strip:
  "jwt_ok (au_jwt A) \<Longrightarrow> str_strip (fst (create_access_token A now jti u)) = fst (create_access_token A now jti u)"
  by (simp add: jwt_ok_def create_access_token_def Let_def)

section \<open>A library that keeps its promises\<close>

text \<open>Fields one after the other, every character marked; a negative number by its second field.\<close>

fun enc_str :: "string \<Rightarrow> string" where
  "enc_str [] = ''b''"
| "enc_str (c # cs) = CHR ''a'' # c # enc_str cs"

fun dec_str :: "string \<Rightarrow> (string \<times> string) option" where
  "dec_str (x # s) = (if x = CHR ''b'' then Some ([], s)
     else case s of [] \<Rightarrow> None | c # r \<Rightarrow> map_option (\<lambda>(y, z). (c # y, z)) (dec_str r))"
| "dec_str [] = None"

fun bits :: "nat \<Rightarrow> string" where
  "bits n = (if n = 0 then [] else (if odd n then CHR ''1'' else CHR ''0'') # bits (n div 2))"

declare bits.simps [simp del]

lemma bits_code [code]:
  "bits n = (case n = 0 of True \<Rightarrow> [] | False \<Rightarrow> (if odd n then CHR ''1'' else CHR ''0'') # bits (n div 2))"
  by (simp add: bits.simps[of n])

fun of_bits :: "string \<Rightarrow> nat" where
  "of_bits [] = 0"
| "of_bits (c # cs) = (if c = CHR ''1'' then 1 else 0) + 2 * of_bits cs"

lemma of_bits_bits [simp]: "of_bits (bits n) = n"
proof (induction n rule: bits.induct)
  case (1 n)
  then show ?case by (subst bits.simps) auto
qed

definition enc_int :: "int \<Rightarrow> string" where
  "enc_int i = enc_str (bits (nat i)) @ enc_str (bits (nat (- i)))"

definition dec_int :: "string \<Rightarrow> (int \<times> string) option" where
  "dec_int s = (case dec_str s of None \<Rightarrow> None | Some (a, r) \<Rightarrow>
     map_option (\<lambda>(b, z). (int (of_bits a) - int (of_bits b), z)) (dec_str r))"

lemma dec_enc_str [simp]: "dec_str (enc_str s @ r) = Some (s, r)"
  by (induction s) simp_all

lemma dec_enc_int [simp]: "dec_int (enc_int i @ r) = Some (i, r)"
  by (simp add: dec_int_def enc_int_def)

definition demo_encode :: "payload \<Rightarrow> string \<Rightarrow> string" where
  "demo_encode p key = enc_str key @ enc_str (pl_sub p) @ enc_str (pl_type p) @ enc_int (pl_epoch p) @
     enc_str (pl_role p) @ enc_str (pl_jti p) @ enc_int (pl_iat p) @ enc_int (pl_exp p) @
     enc_str (pl_iss p) @ enc_str (pl_aud p)"

definition demo_decode :: "string \<Rightarrow> string \<Rightarrow> string \<Rightarrow> string \<Rightarrow> datetime \<Rightarrow> payload option" where
  "demo_decode token key aud iss t =
     Option.bind (dec_str token) (\<lambda>(k, s). Option.bind (dec_str s) (\<lambda>(su, s). Option.bind (dec_str s) (\<lambda>(ty, s).
     Option.bind (dec_int s) (\<lambda>(ep, s). Option.bind (dec_str s) (\<lambda>(ro, s). Option.bind (dec_str s) (\<lambda>(jt, s).
     Option.bind (dec_int s) (\<lambda>(ia, s). Option.bind (dec_int s) (\<lambda>(ex, s). Option.bind (dec_str s) (\<lambda>(is, s).
     Option.bind (dec_str s) (\<lambda>(au, s).
       if k = key \<and> au = aud \<and> is = iss \<and> ia \<le> t \<and> t < ex
       then Some \<lparr>pl_sub = su, pl_type = ty, pl_epoch = ep, pl_role = ro, pl_jti = jt, pl_iat = ia, pl_exp = ex,
         pl_iss = is, pl_aud = au\<rparr> else None))))))))))"

definition demo_jwt :: jwt_lib where
  "demo_jwt = \<lparr>jwt_encode = demo_encode, jwt_decode = demo_decode\<rparr>"

lemma enc_str_ends: "\<exists>x y. enc_str s = x # y \<and> \<not> is_space x" "\<exists>x y. enc_str s = y @ [x] \<and> \<not> is_space x"
proof -
  show "\<exists>x y. enc_str s = x # y \<and> \<not> is_space x" by (cases s) (simp_all add: is_space_def)
  show "\<exists>x y. enc_str s = y @ [x] \<and> \<not> is_space x"
  proof (induction s)
    case (Cons c cs)
    then show ?case by (metis append_Cons enc_str.simps(2))
  qed (simp add: is_space_def)
qed

lemma str_strip_ends: "\<not> is_space x \<Longrightarrow> \<not> is_space y \<Longrightarrow> x # s = t @ [y] \<Longrightarrow> str_strip (x # s) = x # s"
  unfolding str_strip_def by (metis dropWhile.simps(2) rev.simps(2) rev_rev_ident rev_append append_Cons append_Nil)

lemma demo_jwt_ok: "jwt_ok demo_jwt"
proof -
  have last: "demo_decode (demo_encode p key) key (pl_aud p) (pl_iss p) t = Some p"
    if "pl_iat p \<le> t" "t + 1000000 \<le> pl_exp p" for p key t
  proof -
    have "dec_str (enc_str (pl_aud p)) = Some (pl_aud p, [])" using dec_enc_str[of "pl_aud p" "[]"] by simp
    with that show ?thesis by (simp add: demo_decode_def demo_encode_def)
  qed
  have "str_strip (demo_encode p key) = demo_encode p key" for p key
  proof -
    obtain x s where x: "enc_str key = x # s" "\<not> is_space x" using enc_str_ends(1) by blast
    obtain y t where y: "enc_str (pl_aud p) = t @ [y]" "\<not> is_space y" using enc_str_ends(2) by blast
    show ?thesis unfolding demo_encode_def x(1) y(1) append_Cons by (rule str_strip_ends[OF x(2) y(2)]) simp
  qed
  with last show ?thesis by (simp add: jwt_ok_def demo_jwt_def)
qed

end
