(* ===== verification/Session_Properties.thy ===== *)
theory Session_Properties
  imports Sessions Token_Codec Ipam_Demo
begin

text \<open>
  The properties of sessions and accounts: tokens of an ended session are refused for ever, refresh
  tokens are used once, logins are throttled, and an administrator is left.
\<close>

section \<open>Ended sessions\<close>

text \<open>The operations that end the sessions of a user.\<close>

inductive ends_session :: "uuid \<Rightarrow> db \<Rightarrow> db \<Rightarrow> bool" where
  ended_logout: "find_token d (hash_refresh_secret A raw) = Some t \<Longrightarrow> logout A x raw d = (Inr (), d') \<Longrightarrow>
    ends_session (rt_user_id t) d d'"
| ended_reuse: "find_token d (hash_refresh_secret A raw) = Some t \<Longrightarrow> refresh A x raw d = (Inl reused_refresh, d') \<Longrightarrow>
    ends_session (rt_user_id t) d d'"
| ended_password: "change_password A sv h cp d = (Inr (), d') \<Longrightarrow> ends_session (prin_user_id (sv_principal sv)) d d'"
| ended_reset: "reset_password sv h i d = (Inr (), d') \<Longrightarrow> ends_session i d d'"
| ended_status: "get_account d i = Inr u \<Longrightarrow> status_changes rq u \<Longrightarrow> update_user sv i rq d = (Inr resp, d') \<Longrightarrow>
    ends_session i d d'"
| ended_delete: "delete_user sv i v d = (Inr (), d') \<Longrightarrow> ends_session i d d'"

lemma commit_ok:
  "commit_in d e d1 (Inr y) = (Inr z, d') \<longleftrightarrow> integrity d1 \<and> d' = d1 \<and> z = y"
  "(Inr z, d') = commit_in d e d1 (Inr y) \<longleftrightarrow> integrity d1 \<and> d' = d1 \<and> z = y"
  by (auto simp: commit_in_def)

lemma exn_neq [simp]: "reused_refresh \<noteq> invalid_refresh" "reused_refresh \<noteq> IntegrityError" "invalid_refresh \<noteq> reused_refresh"
  by (simp_all add: reused_refresh_def invalid_refresh_def)

lemma bumped:
  assumes "users d' = modify_row user_id i f (users d)" "get_user d i = Some u" "user_id (f u) = i"
    "user_session_epoch (f u) = user_session_epoch u + 1" "\<And>x. user_id x = i \<Longrightarrow> user_id (f x) = i"
  shows "\<exists>u'. get_user d' i = Some u' \<and> user_session_epoch u < user_session_epoch u'"
  using assms by (auto simp: get_modify_row_at)

lemma ends_session_epoch:
  assumes "ends_session i d d'" "integrity d" "get_user d i = Some u"
  shows "\<exists>u'. get_user d' i = Some u' \<and> user_session_epoch u < user_session_epoch u'"
  using assms(1)
proof cases
  case (ended_logout A raw t x)
  have "users d' = modify_row user_id i bump_epoch (users d)"
    using ended_logout assms(3) get_row_Some[OF assms(3)] by (auto simp: logout_def Let_def commit_ok)
  then show ?thesis by (rule bumped[OF _ assms(3)]) (use get_row_Some[OF assms(3)] in \<open>simp_all add: bump_epoch_def\<close>)
next
  case (ended_reuse A raw t x)
  have "\<exists>u. get_user d (rt_user_id t) = Some u \<and> user_is_active u"
    using refresh_no_user[OF ended_reuse(2), of x] ended_reuse(3) by auto
  then have act: "user_is_active u" using assms(3) ended_reuse(1) by simp
  have "spent t"
  proof (rule ccontr)
    assume "\<not> spent t"
    with refresh_cases(2,3)[OF ended_reuse(2), of u x] ended_reuse act assms(3) show False
      by (cases "rt_expires_at t \<le> cl_now x") (auto simp: commit_in_def split: if_splits)
  qed
  then have "users d' = modify_row user_id i bump_epoch (users d)"
    using refresh_cases(1)[OF ended_reuse(2), of u x] ended_reuse act assms(3) get_row_Some[OF assms(3)]
    by (auto simp: commit_in_def reuse_detected_def split: if_splits)
  then show ?thesis by (rule bumped[OF _ assms(3)]) (use get_row_Some[OF assms(3)] in \<open>simp_all add: bump_epoch_def\<close>)
next
  case (ended_password A sv h cp)
  then obtain v where v: "get_account d i = Inr v" by (cases "get_account d i") (auto simp: change_password_def)
  have "users d' = modify_row user_id i (set_password h) (users d)"
    using ended_password v get_account_row[OF assms(2) v] by (auto simp: change_password_def commit_ok split: if_splits)
  then show ?thesis by (rule bumped[OF _ assms(3)]) (use get_row_Some[OF assms(3)] in \<open>simp_all add: set_password_def\<close>)
next
  case (ended_reset sv h)
  then have "users d' = modify_row user_id i (set_password h) (users d)"
    by (cases "require_super_admin sv"; cases "get_account d i") (auto simp: reset_password_def commit_ok)
  then show ?thesis by (rule bumped[OF _ assms(3)]) (use get_row_Some[OF assms(3)] in \<open>simp_all add: set_password_def\<close>)
next
  case (ended_status v rq sv resp)
  note v = get_account_row[OF assms(2) ended_status(1)]
  have "users d' = modify_row user_id i (\<lambda>_. updated_user (sv_now sv) rq v) (users d)"
    using ended_status(3) by (rule update_user_commits) (use ended_status(1,2) in \<open>auto simp: commit_ok\<close>)
  then show ?thesis
    by (rule bumped[OF _ assms(3)]) (use v assms(3) ended_status(2) in \<open>simp_all add: updated_user_epoch\<close>)
next
  case (ended_delete sv v)
  show ?thesis
    using ended_delete(1)
  proof (cases rule: delete_user_commits)
    case (2 w e)
    then have "users d' = modify_row user_id i (\<lambda>_. erased_user (sv_now sv) w) (users d)" by (auto simp: commit_ok)
    then show ?thesis
      by (rule bumped[OF _ assms(3)]) (use get_account_row[OF assms(2) 2(2)] assms(3) in \<open>simp_all add: erased_user_def\<close>)
  qed simp
qed

lemma session_step_ends: "ends_session i d d' \<Longrightarrow> session_step d d'"
  by (induction rule: ends_session.induct) (blast intro: session_step.intros)+

text \<open>
  C23. A session that has ended stays ended.  After a logout, a detected reuse, a change or reset of
  the password, a change of the account's status or its deletion, every access token that was good
  for the user until then is refused, in every state that any sequence of operations reaches.
\<close>

theorem ended_sessions_stay_ended:
  assumes "integrity d" "current_user d c = Some u" "ends_session (user_id u) d d1" "session_step\<^sup>*\<^sup>* d1 d2"
    "is_prefix ''Bearer '' h" "decode_access_token A now (str_strip (drop 7 h)) = Inr c"
  shows "get_current_principal A now (Some h) d2 = Inl invalid_access_token"
proof -
  from assms(2) have u: "get_user d (ac_user_id c) = Some u" "user_session_epoch u = ac_session_epoch c"
    by (auto simp: current_user_def split: option.splits if_splits)
  then have i: "user_id u = ac_user_id c" using get_row_Some[OF u(1)] by simp
  from ends_session_epoch[OF assms(3,1)] u i obtain u1 where
    u1: "get_user d1 (ac_user_id c) = Some u1" "ac_session_epoch c < user_session_epoch u1" by auto
  have "integrity d1"
    using session_step_change[OF session_step_ends[OF assms(3)] assms(1)] by (simp add: session_change_def)
  then have "users_le d1 d2" using session_steps_change[OF assms(4)] by (simp add: session_change_def)
  with u1 have "current_user d2 c = None" by (fastforce simp: users_le_def current_user_def)
  then show ?thesis using assms(5,6) by (simp add: get_current_principal_def)
qed

section \<open>A small installation\<close>

definition demo_auth :: auth_env where
  "demo_auth = \<lparr>au_settings = default_settings (replicate 32 CHR ''k''),
     au_crypto = \<lparr>sha256 = (\<lambda>m. m), hmac_sha256 = (\<lambda>k m. k @ m)\<rparr>, au_jwt = demo_jwt, au_verify = (\<lambda>h p. h = p)\<rparr>"

definition demo_call :: "datetime \<Rightarrow> nat \<Rightarrow> string \<Rightarrow> auth_call" where
  "demo_call t k s = \<lparr>cl_ctx = \<lparr>ac_now = t, ac_request_id = None, ac_source_ip = None, ac_user_agent = None\<rparr>,
     cl_request_id = ''r'', cl_token_now = t, cl_secret = s, cl_fresh = (\<lambda>n. 1000 + 10 * k + n)\<rparr>"

definition demo_bearer :: "user \<Rightarrow> string" where
  "demo_bearer u = ''Bearer '' @ fst (create_access_token demo_auth 0 7 u)"

lemma demo_auth_jwt: "jwt_ok (au_jwt demo_auth)"
  by (simp add: demo_auth_def demo_jwt_ok)

lemma demo_bearer:
  assumes "user_id u < 2 ^ 128"
  shows "is_prefix ''Bearer '' (demo_bearer u)"
    "decode_access_token demo_auth 5 (str_strip (drop 7 (demo_bearer u))) =
      Inr \<lparr>ac_user_id = user_id u, ac_session_epoch = user_session_epoch u\<rparr>"
proof -
  show "is_prefix ''Bearer '' (demo_bearer u)" by (simp add: demo_bearer_def)
  have "drop 7 (demo_bearer u) = fst (create_access_token demo_auth 0 7 u)" by (simp add: demo_bearer_def)
  then show "decode_access_token demo_auth 5 (str_strip (drop 7 (demo_bearer u))) =
      Inr \<lparr>ac_user_id = user_id u, ac_session_epoch = user_session_epoch u\<rparr>"
    using decode_create_access_token[OF demo_auth_jwt assms, of 0 5] access_token_strip[OF demo_auth_jwt]
    by (simp add: demo_auth_def default_settings_def seconds_def)
qed

lemma demo_reset: "fst (reset_password (demo_service demo_admin 0) ''new'' 2 demo_db) = Inr ()"
  by code_simp

theorem ended_sessions_stay_ended_witness:
  "get_current_principal demo_auth 5 (Some (demo_bearer (demo_user 2 ''c@example.com'' CUSTOMER)))
     (snd (reset_password (demo_service demo_admin 0) ''new'' 2 demo_db)) = Inl invalid_access_token"
proof (rule ended_sessions_stay_ended[OF demo_integrity])
  let ?u = "demo_user 2 ''c@example.com'' CUSTOMER"
  show "current_user demo_db \<lparr>ac_user_id = 2, ac_session_epoch = 1\<rparr> = Some ?u"
    by (simp add: current_user_def demo_db_def demo_user_def get_row_def)
  have "reset_password (demo_service demo_admin 0) ''new'' 2 demo_db =
      (Inr (), snd (reset_password (demo_service demo_admin 0) ''new'' 2 demo_db))"
    using demo_reset by (metis prod.collapse)
  then show "ends_session (user_id ?u) demo_db (snd (reset_password (demo_service demo_admin 0) ''new'' 2 demo_db))"
    using ended_reset by (simp add: demo_user_def)
  show "is_prefix ''Bearer '' (demo_bearer ?u)" "decode_access_token demo_auth 5 (str_strip (drop 7 (demo_bearer ?u))) =
      Inr \<lparr>ac_user_id = 2, ac_session_epoch = 1\<rparr>"
    using demo_bearer[of ?u] by (simp_all add: demo_user_def)
qed simp

section \<open>Logging in\<close>

text \<open>
  A login opens a session.  With the right password of an active user and no lock on the pair of
  email and source, and with identifiers and a secret that are not taken, it succeeds; the access
  token it returns then stands for that user, in his present role, until it expires.
\<close>

theorem login_opens_session:
  assumes "integrity d" "jwt_ok (au_jwt A)" "credentials_of A rq d = Some u" "user_id u < 2 ^ 128"
    "\<not> is_locked (cl_now x) (find_throttle d (throttle_key A (lq_email rq) src))"
    "cl_fresh x 1 \<notin> rt_id ` set (refresh_tokens d)" "find_token d (hash_refresh_secret A (cl_secret x)) = None"
    "cl_token_now x \<le> t" "t + 1000000 \<le> cl_token_now x + seconds (access_token_ttl_seconds (au_settings A))"
  shows "\<exists>resp d'. login A x rq src d = (Inr resp, d') \<and>
    get_current_principal A t (Some (''Bearer '' @ tr_access_token resp)) d' =
      Inr \<lparr>prin_user_id = user_id u, prin_email = lq_email rq, prin_role = user_role_of u,
        prin_session_epoch = user_session_epoch u\<rparr>"
proof -
  let ?k = "throttle_key A (lq_email rq) src"
  let ?d1 = "put_user (user_id u) (\<lambda>z. z\<lparr>user_last_login_at := Some (cl_now x)\<rparr>) (delete_throttle ?k d)"
  note c = credentials_ofD[OF assms(3)]
  have d1: "integrity ?d1" by (rule integrity_put_user[OF integrity_delete_throttle[OF assms(1)]]) simp_all
  have "user_id u \<in> user_id ` set (users ?d1)" using c by simp
  then have d2: "integrity (snd (issue_token_pair A x u ?d1))"
    using assms(6,7)
    by (auto simp: issue_token_pair_def Let_def find_token_def find_None_iff split: prod.splits
        intro!: integrity_add_token[OF d1])
  obtain e where login: "login A x rq src d = (Inr (fst (issue_token_pair A x u ?d1)),
      add_audit_event (cl_ctx x) e (snd (issue_token_pair A x u ?d1)))"
    using login_granted[OF assms(5,3)] d2 by (auto simp: Let_def commit_in_def)
  have "get_user d (user_id u) = Some u" using get_row_mem[OF integrity_users(1)[OF assms(1)]] c by blast
  then have row: "get_user (add_audit_event (cl_ctx x) e (snd (issue_token_pair A x u ?d1))) (user_id u) =
      Some (u\<lparr>user_last_login_at := Some (cl_now x)\<rparr>)" by (simp add: get_modify_row)
  have "decode_access_token A t (str_strip (fst (create_access_token A (cl_token_now x) (cl_fresh x 2) u))) =
      Inr \<lparr>ac_user_id = user_id u, ac_session_epoch = user_session_epoch u\<rparr>"
    using decode_create_access_token[OF assms(2,4,8,9)] access_token_strip[OF assms(2)] by simp
  with login row c show ?thesis
    by (simp add: get_current_principal_def current_user_def)
qed

definition demo_login :: login_request where
  "demo_login = \<lparr>lq_email = ''c@example.com'', lq_password = ''h''\<rparr>"

lemma demo_credentials: "credentials_of demo_auth demo_login demo_db = Some (demo_user 2 ''c@example.com'' CUSTOMER)"
  by (simp add: credentials_of_def demo_login_def demo_auth_def demo_db_def demo_user_def)

theorem login_opens_session_witness:
  "\<exists>resp d' p. login demo_auth (demo_call 0 1 ''s'') demo_login ''src'' demo_db = (Inr resp, d') \<and>
     get_current_principal demo_auth 5 (Some (''Bearer '' @ tr_access_token resp)) d' = Inr p \<and> prin_role p = CUSTOMER"
proof -
  have "find_throttle demo_db k = None" "refresh_tokens demo_db = []" "find_token demo_db h = None" for k h
    by (simp_all add: find_throttle_def find_token_def demo_db_def empty_db_def)
  then show ?thesis
    using login_opens_session[OF demo_integrity demo_auth_jwt demo_credentials, of "demo_call 0 1 ''s''" "''src''" 5]
    by (auto simp: is_locked_def demo_call_def demo_user_def demo_auth_def default_settings_def seconds_def)
qed

section \<open>Refresh tokens\<close>

lemma find_token_map:
  assumes "\<And>t. rt_token_hash (g t) = rt_token_hash t"
  shows "find (\<lambda>t. rt_token_hash t = h) (map g ts) = map_option g (find (\<lambda>t. rt_token_hash t = h) ts)"
  by (induction ts) (simp_all add: assms)

lemma find_token_distinct:
  "distinct (map rt_token_hash ts) \<Longrightarrow> t \<in> set ts \<Longrightarrow> find (\<lambda>x. rt_token_hash x = rt_token_hash t) ts = Some t"
  by (induction ts) (auto simp: image_iff)

lemma integrity_reuse: "integrity d \<Longrightarrow> integrity (reuse_detected x u t d)"
proof -
  assume d: "integrity d"
  have "put_token (rt_id t) f d = d\<lparr>refresh_tokens := map (\<lambda>y. if rt_id y = rt_id t then f y else y) (refresh_tokens d)\<rparr>" for f
    by (simp add: put_token_def modify_row_def)
  then have d1: "integrity (put_token (rt_id t) (\<lambda>y. y\<lparr>rt_reuse_detected_at := Some (cl_now x)\<rparr>) d)" (is "integrity ?d1")
    using integrity_map_tokens[OF d, of "\<lambda>y. if rt_id y = rt_id t then y\<lparr>rt_reuse_detected_at := Some (cl_now x)\<rparr> else y"]
    by simp
  have "integrity (revoke_family (rt_family_id t) (cl_now x) ?d1)"
    unfolding revoke_family_def by (rule integrity_map_tokens[OF d1]) simp_all
  then have "integrity (put_user (user_id u) bump_epoch (revoke_family (rt_family_id t) (cl_now x) ?d1))"
    by (rule integrity_put_user) (simp_all add: bump_epoch_def)
  then show ?thesis by (simp add: reuse_detected_def)
qed

lemma reuse_tokens:
  assumes "find_token d h = Some y" "rt_family_id y = rt_family_id t"
  shows "\<exists>y'. find_token (reuse_detected x u t d) h = Some y' \<and> spent y' \<and> rt_user_id y' = rt_user_id y"
proof -
  let ?g = "\<lambda>y. if rt_id y = rt_id t then y\<lparr>rt_reuse_detected_at := Some (cl_now x)\<rparr> else y"
    and ?r = "\<lambda>y. if rt_family_id y = rt_family_id t then revoke (cl_now x) y else y"
  have "refresh_tokens (reuse_detected x u t d) = map ?r (map ?g (refresh_tokens d))"
    by (simp add: reuse_detected_def put_token_def modify_row_def)
  then have "find_token (reuse_detected x u t d) h = Some (?r (?g y))"
    using assms(1) unfolding find_token_def by (simp only:) (subst find_token_map, simp, subst find_token_map, simp_all)
  moreover have "rt_family_id (?g y) = rt_family_id t" using assms(2) by simp
  ultimately show ?thesis by (auto simp: spent_def)
qed

lemma reuse_user:
  assumes "integrity d" "get_user d k = Some v" "user_is_active v"
  shows "\<exists>v'. get_user (reuse_detected x u t d) k = Some v' \<and> user_is_active v'"
  using assms by (auto simp: reuse_detected_def get_modify_row bump_epoch_def)

lemma refresh_granted:
  assumes "refresh A x raw d = (Inr resp, d1)"
  obtains t u where "find_token d (hash_refresh_secret A raw) = Some t" "get_user d (rt_user_id t) = Some u"
    "user_is_active u" "\<not> spent t" "d1 = rotated A x u t d" "integrity d1" "tr_refresh_token resp = cl_secret x"
proof -
  obtain t where t: "find_token d (hash_refresh_secret A raw) = Some t"
    using assms by (cases "find_token d (hash_refresh_secret A raw)") (simp_all add: refresh_unknown)
  obtain u where u: "get_user d (rt_user_id t) = Some u" "user_is_active u"
    using refresh_no_user[OF t, of x] assms by auto
  note c = refresh_cases[OF t u, of x, unfolded assms]
  have "\<not> spent t" using c(1) by (auto simp: commit_in_def split: if_splits)
  moreover from this have "\<not> rt_expires_at t \<le> cl_now x" using c(2) by (auto simp: commit_in_def split: if_splits)
  ultimately show ?thesis using c(3) that[OF t u] by (auto simp: commit_ok)
qed

text \<open>
  C24. A refresh token works once, and using it again ends the session.  After a successful refresh a
  second use of the same token is answered with \<open>REFRESH_TOKEN_REUSED\<close>, and from then on so is the
  use of the token that had replaced it: a thief and the owner cannot both go on.
\<close>

theorem refresh_token_works_once:
  assumes "integrity d" "refresh A x raw d = (Inr resp, d1)"
  shows "\<exists>d2. refresh A y raw d1 = (Inl reused_refresh, d2) \<and>
    fst (refresh A z (tr_refresh_token resp) d2) = Inl reused_refresh"
proof -
  obtain t u where t: "find_token d (hash_refresh_secret A raw) = Some t" "get_user d (rt_user_id t) = Some u"
    "user_is_active u" "\<not> spent t" and d1: "d1 = rotated A x u t d" "integrity d1"
    and resp: "tr_refresh_token resp = cl_secret x"
    by (rule refresh_granted[OF assms(2)])
  let ?g = "\<lambda>y. y\<lparr>rt_revoked_at := Some (cl_now x), rt_replaced_by_id := Some (cl_fresh x 0)\<rparr>"
    and ?n = "replacement_token A x u t"
  note mem = find_token_mem[OF t(1)]
  have ts: "refresh_tokens d1 = modify_row rt_id (rt_id t) ?g (refresh_tokens d) @ [?n]"
    using rotated_tokens[of A x u t d] d1 mem by simp
  have hashes: "distinct (map rt_token_hash (refresh_tokens d1))" using integrity_users(3)[OF d1(2)] .
  have old: "find_token d1 (hash_refresh_secret A raw) = Some (?g t)"
    using find_token_distinct[OF hashes, of "?g t"] mem by (auto simp: ts find_token_def set_modify_row image_iff)
  have new: "find_token d1 (hash_refresh_secret A (tr_refresh_token resp)) = Some ?n"
    using find_token_distinct[OF hashes, of ?n] by (simp add: ts resp find_token_def replacement_token_def)
  have users: "get_user d1 (rt_user_id t) = Some u" using t(2) by (simp add: d1 rotated_def)
  let ?d2 = "reuse_detected y u (?g t) d1"
  have second: "refresh A y raw d1 = (Inl reused_refresh, ?d2)"
    using refresh_cases(1)[OF old, of u y] users t(3) integrity_reuse[OF d1(2)]
    by (simp add: spent_def commit_in_def)
  obtain n' where n': "find_token ?d2 (hash_refresh_secret A (tr_refresh_token resp)) = Some n'" "spent n'"
    "rt_user_id n' = rt_user_id ?n"
    using reuse_tokens[OF new, of "?g t" y u] by (auto simp: replacement_token_def)
  obtain v where v: "get_user ?d2 (rt_user_id n') = Some v" "user_is_active v"
    using reuse_user[OF d1(2) users t(3), of y u "?g t"] n'(3) get_row_Some[OF t(2)]
    by (auto simp: replacement_token_def)
  have "fst (refresh A z (tr_refresh_token resp) ?d2) = Inl reused_refresh"
    using refresh_cases(1)[OF n'(1) v n'(2), of z] integrity_reuse[OF integrity_reuse[OF d1(2)]]
    by (simp add: commit_in_def)
  with second show ?thesis by blast
qed

definition demo_token :: refresh_token where
  "demo_token = \<lparr>rt_id = 70, rt_user_id = 2, rt_family_id = 71, rt_token_hash = hash_refresh_secret demo_auth ''old'',
     rt_parent_id = None, rt_replaced_by_id = None, rt_expires_at = 100, rt_revoked_at = None, rt_reuse_detected_at = None\<rparr>"

definition demo_session_db :: db where
  "demo_session_db = add_token demo_token demo_db"

lemma demo_session_integrity: "integrity demo_session_db"
  unfolding demo_session_db_def
  by (rule integrity_add_token[OF demo_integrity])
    (simp_all add: demo_token_def demo_db_def empty_db_def demo_user_def)

lemma demo_refresh: "\<exists>resp d1. refresh demo_auth (demo_call 5 2 ''new'') ''old'' demo_session_db = (Inr resp, d1)"
proof -
  let ?u = "demo_user 2 ''c@example.com'' CUSTOMER" and ?x = "demo_call 5 2 ''new''"
  let ?n = "replacement_token demo_auth ?x ?u demo_token"
  have ts: "refresh_tokens demo_session_db = [demo_token]" "users demo_session_db = users demo_db"
    by (simp_all add: demo_session_db_def demo_db_def empty_db_def)
  have t: "find_token demo_session_db (hash_refresh_secret demo_auth ''old'') = Some demo_token"
    by (simp add: find_token_def ts demo_token_def)
  have u: "get_user demo_session_db (rt_user_id demo_token) = Some ?u" "user_is_active ?u"
    by (simp_all add: ts demo_token_def demo_db_def demo_user_def get_row_def)
  have int: "integrity (rotated demo_auth ?x ?u demo_token demo_session_db)"
    using demo_session_integrity integrity_tokens[of "refresh_tokens (rotated demo_auth ?x ?u demo_token demo_session_db)" demo_session_db]
      integrity_tokens_ok[of demo_session_db]
    by (simp add: rotated_def put_token_def add_token_def ts demo_db_def demo_user_def tokens_ok_def refresh_tokens_ok_def fk_def
        fk_opt_def modify_row_def replacement_token_def demo_token_def demo_call_def hash_refresh_secret_def demo_auth_def encode_def)
  have "\<not> spent demo_token" "\<not> rt_expires_at demo_token \<le> cl_now ?x"
    by (simp_all add: spent_def demo_token_def demo_call_def)
  with refresh_cases(3)[OF t u, of ?x] int show ?thesis by (auto simp: commit_in_def)
qed

theorem refresh_token_works_once_witness:
  "\<exists>resp d1 d2. refresh demo_auth (demo_call 5 2 ''new'') ''old'' demo_session_db = (Inr resp, d1) \<and>
     refresh demo_auth (demo_call 6 3 ''x'') ''old'' d1 = (Inl reused_refresh, d2)"
  using demo_refresh refresh_token_works_once[OF demo_session_integrity] by blast

section \<open>One live token\<close>

interpretation tokens: invariant_system "\<lambda>d. d = empty_db" session_step "\<lambda>d. integrity d \<and> (\<forall>f. live_count f d \<le> 1)"
proof
  show "integrity d \<and> (\<forall>f. live_count f d \<le> 1)" if "d = empty_db" for d
    using that integrity_empty by (simp add: live_count_def empty_db_def)
  show "integrity d' \<and> (\<forall>f. live_count f d' \<le> 1)"
    if "session_step d d'" "integrity d \<and> (\<forall>f. live_count f d \<le> 1)" for d d'
  proof -
    have "families_le d d'" "integrity d'" using session_step_change[OF that(1)] that(2) by (auto simp: session_change_def)
    then have "live_count f d' \<le> 1" for f
      using that(2) families_leD[of d d' f] order_trans[of "live_count f d'" "live_count f d" 1]
      by (cases "f \<in> families d") simp_all
    with \<open>integrity d'\<close> show ?thesis by blast
  qed
qed

text \<open>
  C25. In every state that logins, refreshes, logouts and account operations can reach, a family of
  refresh tokens has at most one token that is not revoked, and a family that has none any more
  never gets one again.
\<close>

theorem one_live_token_per_family:
  assumes "reachable (\<lambda>d. d = empty_db) session_step d" "session_step\<^sup>*\<^sup>* d d'"
  shows "live_count f d \<le> 1 \<and> (f \<in> families d \<and> live_count f d = 0 \<longrightarrow> live_count f d' = 0)"
proof -
  have inv: "integrity d" "live_count f d \<le> 1" using tokens.inv_reachable[OF assms(1)] by auto
  have "families_le d d'" using session_steps_change[OF assms(2) inv(1)] by (simp add: session_change_def)
  then have "live_count f d' \<le> live_count f d" if "f \<in> families d" using that by (rule families_leD)
  with inv(2) show ?thesis by fastforce
qed

definition demo_first :: db where
  "demo_first = snd (create_admin 1 ''a@example.com'' ''A'' ''h'' empty_db)"

definition demo_first_login :: db where
  "demo_first_login = snd (login demo_auth (demo_call 0 1 ''s'') \<lparr>lq_email = ''a@example.com'', lq_password = ''h''\<rparr> ''src'' demo_first)"

lemma demo_first: "users demo_first = [first_admin 1 ''a@example.com'' ''A'' ''h'']" "refresh_tokens demo_first = []"
  "integrity demo_first"
proof -
  have "integrity (empty_db\<lparr>users := [first_admin 1 ''a@example.com'' ''A'' ''h'']\<rparr>)" by code_simp
  then have d: "demo_first = empty_db\<lparr>users := [first_admin 1 ''a@example.com'' ''A'' ''h'']\<rparr>"
    by (simp add: demo_first_def create_admin_def commit_in_def empty_db_def)
  show "users demo_first = [first_admin 1 ''a@example.com'' ''A'' ''h'']" "refresh_tokens demo_first = []"
    by (simp_all add: d empty_db_def)
  show "integrity demo_first" using d \<open>integrity _\<close> by simp
qed

lemma demo_first_login_reachable: "reachable (\<lambda>d. d = empty_db) session_step demo_first_login"
proof (rule reachable_step[OF reachable_step[OF reachable_init]])
  show "session_step empty_db demo_first"
    unfolding demo_first_def by (rule step_create_admin) (rule prod.collapse[symmetric])
  show "session_step demo_first demo_first_login"
    unfolding demo_first_login_def by (rule step_login[OF _ prod.collapse[symmetric]]) (simp add: families_def demo_first)
qed simp

theorem one_live_token_per_family_witness: "live_count 1010 demo_first_login \<le> 1"
  using one_live_token_per_family[OF demo_first_login_reachable, of demo_first_login 1010] by simp

section \<open>Throttling\<close>

type_synonym attempt = "auth_call \<times> login_request \<times> string"

text \<open>Logins one after the other.\<close>

fun attempts :: "auth_env \<Rightarrow> attempt list \<Rightarrow> db \<Rightarrow> db" where
  "attempts A [] d = d"
| "attempts A ((x, rq, src) # as) d = attempts A as (snd (login A x rq src d))"

lemma attempts_snoc: "attempts A (as @ [(x, rq, src)]) d = snd (login A x rq src (attempts A as d))"
  by (induction A as d rule: attempts.induct) simp_all

lemma find_save_throttle: "find_throttle (save_throttle t d) (lt_key_hash t) = Some t"
proof (cases "find_throttle d (lt_key_hash t)")
  case None
  then show ?thesis by (simp add: save_throttle_def find_throttle_def find_append)
next
  case (Some y)
  have "find (\<lambda>x. lt_key_hash x = lt_key_hash t) (modify_row lt_key_hash (lt_key_hash t) (\<lambda>_. t) ts) = Some t"
    if "find (\<lambda>x. lt_key_hash x = lt_key_hash t) ts = Some y" for ts
    using that by (induction ts) (auto simp: modify_row_def)
  with Some show ?thesis by (simp add: save_throttle_def find_throttle_def)
qed

lemma find_throttle_audit [simp]: "find_throttle (add_audit_event c e d) k = find_throttle d k"
  by (simp add: find_throttle_def)

lemma credentials_of_users: "users d' = users d \<Longrightarrow> credentials_of A rq d' = credentials_of A rq d"
  by (simp add: credentials_of_def)

text \<open>A failed login, with what it leaves in the throttle.\<close>

lemma failed_login:
  assumes "integrity d" "throttle_key A (lq_email rq) src = k" "\<not> is_locked (cl_now x) (find_throttle d k)"
    "credentials_of A rq d = None"
  shows "find_throttle (snd (login A x rq src d)) k = Some (failure_row (au_settings A) k (cl_now x) (find_throttle d k))"
    "users (snd (login A x rq src d)) = users d" "integrity (snd (login A x rq src d))"
proof -
  let ?t = "failure_row (au_settings A) k (cl_now x) (find_throttle d k)"
  have key: "lt_key_hash ?t = k"
  proof (cases "find_throttle d k")
    case (Some y)
    then have "lt_key_hash y = k" by (auto simp: find_throttle_def dest: find_Some_mem)
    with Some show ?thesis by (simp add: failure_row_def Let_def)
  qed (simp add: failure_row_def Let_def)
  obtain e r where l: "login A x rq src d = (r, add_audit_event (cl_ctx x) e (save_throttle ?t d))"
    using login_refused[of x d A rq src] assms integrity_save_throttle[OF assms(1)]
    by (auto simp: Let_def commit_in_def)
  show "find_throttle (snd (login A x rq src d)) k = Some ?t" using find_save_throttle[of ?t d] key by (simp add: l)
  show "users (snd (login A x rq src d)) = users d" "integrity (snd (login A x rq src d))"
    using integrity_save_throttle[OF assms(1)] by (simp_all add: l)
qed

definition throttle_row :: "settings \<Rightarrow> bytes \<Rightarrow> datetime \<Rightarrow> nat \<Rightarrow> datetime \<Rightarrow> login_throttle" where
  "throttle_row S k t0 n t = \<lparr>lt_key_hash = k, lt_failure_count = int n, lt_window_started_at = t0,
     lt_locked_until = (if int n \<ge> login_failure_limit S then Some (t + seconds (login_lockout_seconds S)) else None)\<rparr>"

lemma failure_row_first: "failure_row S k t0 None = throttle_row S k t0 (Suc 0) t0"
  by (auto simp: failure_row_def throttle_row_def Let_def)

lemma failure_row_next:
  assumes "t - t0 < seconds (login_failure_window_seconds S)"
  shows "failure_row S k t (Some (throttle_row S k t0 n t')) = throttle_row S k t0 (Suc n) t"
  using assms by (auto simp: failure_row_def throttle_row_def Let_def)

definition failing :: "auth_env \<Rightarrow> db \<Rightarrow> bytes \<Rightarrow> datetime \<Rightarrow> attempt \<Rightarrow> bool" where
  "failing A d k t0 a \<longleftrightarrow> (case a of (x, rq, src) \<Rightarrow> throttle_key A (lq_email rq) src = k \<and> credentials_of A rq d = None \<and>
     cl_now x - t0 < seconds (login_failure_window_seconds (au_settings A)))"

lemma attempts_row:
  assumes "integrity d" "find_throttle d k = None" "list_all (failing A d k t0) as" "as \<noteq> []" "cl_now (fst (hd as)) = t0"
    "int (length as) \<le> login_failure_limit (au_settings A)"
  shows "find_throttle (attempts A as d) k = Some (throttle_row (au_settings A) k t0 (length as) (cl_now (fst (last as)))) \<and>
    users (attempts A as d) = users d \<and> integrity (attempts A as d)"
  using assms(3-)
proof (induction as rule: rev_induct)
  case (snoc a as)
  obtain x rq src where a: "a = (x, rq, src)" by (cases a) auto
  have f: "throttle_key A (lq_email rq) src = k" "credentials_of A rq d = None"
    "cl_now x - t0 < seconds (login_failure_window_seconds (au_settings A))"
    using snoc.prems(1) by (simp_all add: a failing_def)
  let ?d = "attempts A as d"
  have before: "integrity ?d" "users ?d = users d"
    "find_throttle ?d k = (if as = [] then None
       else Some (throttle_row (au_settings A) k t0 (length as) (cl_now (fst (last as)))))"
    using snoc assms(1,2) by (cases "as = []", simp_all)+
  have "\<not> is_locked (cl_now x) (find_throttle ?d k)"
    using snoc.prems(4) by (simp add: before(3) is_locked_def throttle_row_def)
  moreover have "credentials_of A rq ?d = None" using credentials_of_users[OF before(2)] f(2) by simp
  ultimately have "find_throttle (snd (login A x rq src ?d)) k =
      Some (failure_row (au_settings A) k (cl_now x) (find_throttle ?d k))"
    "users (snd (login A x rq src ?d)) = users d" "integrity (snd (login A x rq src ?d))"
    using failed_login[OF before(1) f(1)] before(2) by simp_all
  moreover have "failure_row (au_settings A) k (cl_now x) (find_throttle ?d k) =
      throttle_row (au_settings A) k t0 (Suc (length as)) (cl_now x)"
    using failure_row_first failure_row_next[OF f(3)] snoc.prems(3) before(3) assms(2)
    by (cases "as = []") (simp_all add: a)
  ultimately show ?case by (simp add: a attempts_snoc)
qed simp

text \<open>
  C26. Guessing is throttled: after as many failed logins within the window as the settings allow,
  every login for the pair of email and source is refused until the lockout is over, also one with
  the right password; it changes nothing but the audit log.
\<close>

theorem login_lockout:
  assumes "integrity d" "find_throttle d k = None" "list_all (failing A d k (cl_now (fst (hd as)))) as"
    "int (length as) = login_failure_limit (au_settings A)" "as \<noteq> []" "throttle_key A (lq_email rq) src = k"
    "cl_now y < cl_now (fst (last as)) + seconds (login_lockout_seconds (au_settings A))"
  shows "\<exists>d'. login A y rq src (attempts A as d) = (Inl rate_limited, d') \<and> users d' = users d \<and>
    refresh_tokens d' = refresh_tokens (attempts A as d) \<and> login_throttles d' = login_throttles (attempts A as d)"
proof -
  have row: "find_throttle (attempts A as d) k =
      Some (throttle_row (au_settings A) k (cl_now (fst (hd as))) (length as) (cl_now (fst (last as))))"
    "users (attempts A as d) = users d" "integrity (attempts A as d)"
    using attempts_row[OF assms(1-3,5)] assms(4) by simp_all
  then have "is_locked (cl_now y) (find_throttle (attempts A as d) (throttle_key A (lq_email rq) src))"
    using assms(4,6,7) by (simp add: is_locked_def throttle_row_def)
  from login_locked[OF this row(3)] row(2) show ?thesis by simp
qed

definition demo_guesses :: "attempt list" where
  "demo_guesses = replicate 5 (demo_call 0 1 ''s'', \<lparr>lq_email = ''c@example.com'', lq_password = ''guess''\<rparr>, ''src'')"

theorem login_lockout_witness:
  "fst (login demo_auth (demo_call 60000000 2 ''t'') demo_login ''src'' (attempts demo_auth demo_guesses demo_db)) = Inl rate_limited"
proof -
  have "find_throttle demo_db k = None" for k by (simp add: find_throttle_def demo_db_def empty_db_def)
  moreover have "list_all (failing demo_auth demo_db (throttle_key demo_auth (lq_email demo_login) ''src'') 0) demo_guesses"
    by (simp add: demo_guesses_def failing_def list_all_iff credentials_of_def demo_db_def demo_user_def demo_login_def
        demo_auth_def demo_call_def default_settings_def seconds_def)
  moreover have "int (length demo_guesses) = login_failure_limit (au_settings demo_auth)" "demo_guesses \<noteq> []"
    "cl_now (fst (hd demo_guesses)) = 0" "cl_now (fst (last demo_guesses)) = 0"
    by (simp_all add: demo_guesses_def demo_auth_def default_settings_def demo_call_def)
  moreover have "cl_now (demo_call 60000000 2 ''t'') < 0 + seconds (login_lockout_seconds (au_settings demo_auth))"
    by (simp add: demo_auth_def default_settings_def demo_call_def seconds_def)
  ultimately show ?thesis
    using login_lockout[OF demo_integrity, of "throttle_key demo_auth (lq_email demo_login) ''src''" demo_auth demo_guesses
        demo_login "''src''" "demo_call 60000000 2 ''t''"] by auto
qed

end
