(* ===== verification/Admin_Properties.thy ===== *)
theory Admin_Properties
  imports Session_Properties
begin

text \<open>
  Who can administer the installation: a deleted account is never active, and one active super
  administrator is left whatever the operations on accounts and sessions do.
\<close>

section \<open>The invariant\<close>





text \<open>Writes to a user that leave his role and his status alone.\<close>

definition keeps_status :: "(user \<Rightarrow> user) \<Rightarrow> bool" where
  "keeps_status f \<longleftrightarrow> (\<forall>u. user_role_of (f u) = user_role_of u \<and> user_is_active (f u) = user_is_active u \<and>
     user_deleted_at (f u) = user_deleted_at u)"

lemma keeps_statusI [simp]:
  "keeps_status bump_epoch" "keeps_status (set_password h)" "keeps_status (\<lambda>u. u\<lparr>user_last_login_at := t\<rparr>)"
  by (simp_all add: keeps_status_def bump_epoch_def set_password_def)




section \<open>The operations\<close>











lemma updated_user_deleted [simp]: "user_deleted_at (updated_user now rq u) = user_deleted_at u"
  by (simp add: updated_user_def set_status_def Let_def split: option.splits)





section \<open>Properties\<close>




end
