(* ===== verification/Workload_Properties.thy ===== *)
theory Workload_Properties
  imports Workloads Ipam_Demo
begin

text \<open>
  The service for workloads implements the abstract view of ownership: the simulation of
  \<open>refinement_system\<close> on the handlers in any order.
\<close>

text \<open>
  The handlers by any callers, between operations of other services that leave assignments and the
  owner column alone.
\<close>

definition owner_columns :: "db \<Rightarrow> (uuid \<times> uuid option) list" where
  "owner_columns d = map (\<lambda>w. (wl_id w, wl_organization_id w)) (workloads d)"

inductive workload_step :: "db \<Rightarrow> db \<Rightarrow> bool" where
  step_assign: "assign sv n i g d = (r, d') \<Longrightarrow> workload_step d d'"
| step_unassign: "unassign sv i reason d = (r', d') \<Longrightarrow> workload_step d d'"
| step_other: "integrity d' \<Longrightarrow> assignments d' = assignments d \<Longrightarrow> owner_columns d' = owner_columns d \<Longrightarrow> workload_step d d'"

lemma ownership_ok_columns:
  "ownership_ok d \<longleftrightarrow> integrity d \<and> list_all (\<lambda>(i, g). g = owner_of d i) (owner_columns d)"
  by (simp add: ownership_ok_def owner_columns_def list.pred_map comp_def)

lemma workload_step_sim:
  assumes "workload_step d d'" "ownership_ok d"
  shows "ownership_ok d' \<and> ownership_step (owner_of d) (owner_of d')"
  using assms(1)
proof cases
  case (step_assign sv n i g r)
  note sim = assign_refines[OF assms(2) step_assign]
  show ?thesis
  proof (cases r)
    case (Inr x)
    with sim have o: "owner_of d' = (owner_of d)(i \<mapsto> g)" "owner_of d i \<in> {None, Some g}" "ownership_ok d'" by auto
    show ?thesis
    proof (cases "owner_of d i")
      case (Some h)
      with o have "owner_of d' = owner_of d" by (auto simp: fun_upd_idem)
      with o(3) show ?thesis by (simp add: own_same)
    qed (use o in \<open>simp add: own_assign\<close>)
  qed (use sim in \<open>auto intro: own_same\<close>)
next
  case (step_unassign sv i reason r)
  from unassign_refines[OF assms(2) this] show ?thesis by (cases r) (auto intro: own_same own_unassign)
next
  case step_other
  then have "owner_of d' = owner_of d" by (simp add: fun_eq_iff owner_of_def active_assignment_def)
  with step_other assms(2) show ?thesis by (simp add: ownership_ok_columns own_same)
qed

interpretation own: refinement_system owner_of ownership_ok workload_step ownership_step
  by unfold_locales (use workload_step_sim in blast)+

text \<open>
  C29. Ownership of workloads is refined by the tables.  Over any sequence of assignments and
  withdrawals the active assignments change only as the abstract view does: an organisation is
  entered for a workload that has none, or a workload's organisation is removed; so a workload
  never passes from one organisation to another in one step.  In every state reached the owner
  column of each workload agrees with its active assignment.
\<close>

theorem assignments_refine_ownership:
  assumes "ownership_ok d" "workload_step\<^sup>*\<^sup>* d d'"
  shows "ownership_step\<^sup>*\<^sup>* (owner_of d) (owner_of d') \<and>
    list_all (\<lambda>w. wl_organization_id w = owner_of d' (wl_id w)) (workloads d')"
  using own.sim_steps[OF assms(2,1)] by (simp add: ownership_ok_def)

definition demo_free_db :: db where
  "demo_free_db = demo_db\<lparr>workloads := [demo_workload\<lparr>wl_organization_id := None\<rparr>]\<rparr>"

lemma demo_free_ok: "integrity demo_free_db"
  "owner_of (snd (assign (demo_service demo_admin 0) 200 6 4 demo_free_db)) 6 = Some 4"
  by code_simp+

theorem assignments_refine_ownership_witness:
  "ownership_step\<^sup>*\<^sup>* (owner_of demo_free_db) (owner_of (snd (assign (demo_service demo_admin 0) 200 6 4 demo_free_db))) \<and>
   owner_of (snd (assign (demo_service demo_admin 0) 200 6 4 demo_free_db)) 6 = Some 4"
proof -
  have "ownership_ok demo_free_db"
    using demo_free_ok(1) by (simp add: ownership_ok_def demo_free_db_def demo_db_def empty_db_def owner_of_def
        active_assignment_def demo_workload_def)
  moreover have "workload_step demo_free_db (snd (assign (demo_service demo_admin 0) 200 6 4 demo_free_db))"
    by (rule step_assign) (rule prod.collapse[symmetric])
  ultimately show ?thesis using assignments_refine_ownership demo_free_ok(2) by blast
qed

end
