(* ===== verification/Secrets.thy ===== *)
theory Secrets
  imports Operations
begin

text \<open>
  Encryption at rest: \<open>CredentialCipher\<close> (src/backend/app/security/credentials.py) for the API tokens
  of clusters, and \<open>ProvisioningSecretCipher\<close> (src/backend/app/security/provisioning_secrets.py) for
  the initial passwords of Windows guests.  HKDF and AES-GCM of the \<open>cryptography\<close> package are
  parameters (\<open>aead\<close>); what the code relies on is \<open>aead_ok\<close>, that decryption under the same key,
  nonce and associated data gives the plaintext back.
\<close>

record aead =
  hkdf_sha256 :: "bytes \<Rightarrow> bytes \<Rightarrow> bytes \<Rightarrow> bytes" \<comment> \<open>salt, info, key material\<close>
  aesgcm_encrypt :: "bytes \<Rightarrow> bytes \<Rightarrow> bytes \<Rightarrow> bytes \<Rightarrow> bytes" \<comment> \<open>key, nonce, plaintext, associated data\<close>
  aesgcm_decrypt :: "bytes \<Rightarrow> bytes \<Rightarrow> bytes \<Rightarrow> bytes \<Rightarrow> bytes option" \<comment> \<open>\<open>None\<close> for \<open>InvalidTag\<close>\<close>

definition aead_ok :: "aead \<Rightarrow> bool" where
  "aead_ok X \<longleftrightarrow> (\<forall>k n p a. aesgcm_decrypt X k n (aesgcm_encrypt X k n p a) a = Some p)"

record encrypted =
  enc_ciphertext :: bytes
  enc_nonce :: bytes
  enc_key_version :: string

definition key_version :: string where
  "key_version = ''v1''"

text \<open>\<open>plaintext.decode("utf-8")\<close> of bytes that are ASCII, \<open>None\<close> for other bytes.\<close>

definition decode_utf8 :: "bytes \<Rightarrow> string option" where
  "decode_utf8 bs = (if list_all (\<lambda>b. b < 128) bs then Some (map char_of bs) else None)"

definition is_ascii :: "string \<Rightarrow> bool" where
  "is_ascii s \<longleftrightarrow> list_all (\<lambda>c. (of_char c :: nat) < 128) s"

lemma decode_encode: "is_ascii s \<Longrightarrow> decode_utf8 (encode s) = Some s"
  by (auto simp: decode_utf8_def encode_def is_ascii_def list_all_iff comp_def)

definition associated_data :: "uuid \<Rightarrow> uuid \<Rightarrow> string \<Rightarrow> bytes" where
  "associated_data cluster_id i v = encode (uuid_str cluster_id @ '':'' @ uuid_str i @ '':'' @ v)"

section \<open>Cluster credentials\<close>

definition credential_key :: "aead \<Rightarrow> string \<Rightarrow> bytes" where
  "credential_key X application_key =
     hkdf_sha256 X (encode ''pvemaster-pve-credentials-v1'') (encode ''cluster-api-token'') (encode application_key)"

definition credential_encrypt :: "aead \<Rightarrow> string \<Rightarrow> bytes \<Rightarrow> string \<Rightarrow> uuid \<Rightarrow> uuid \<Rightarrow> encrypted" where
  "credential_encrypt X application_key nonce secret cluster_id credential_id =
     \<lparr>enc_ciphertext = aesgcm_encrypt X (credential_key X application_key) nonce (encode secret)
        (associated_data cluster_id credential_id key_version),
      enc_nonce = nonce, enc_key_version = key_version\<rparr>"

definition credential_decrypt :: "aead \<Rightarrow> string \<Rightarrow> encrypted \<Rightarrow> uuid \<Rightarrow> uuid \<Rightarrow> string option" where
  "credential_decrypt X application_key e cluster_id credential_id =
     (case aesgcm_decrypt X (credential_key X application_key) (enc_nonce e) (enc_ciphertext e)
        (associated_data cluster_id credential_id (enc_key_version e)) of
        None \<Rightarrow> None | Some p \<Rightarrow> decode_utf8 p)"

section \<open>Initial passwords\<close>

definition secret_key :: "aead \<Rightarrow> string \<Rightarrow> bytes" where
  "secret_key X application_key =
     hkdf_sha256 X (encode ''pvemaster-provisioning-secrets-v1'') (encode ''windows-one-time-password'')
       (encode application_key)"

definition secret_encrypt :: "aead \<Rightarrow> string \<Rightarrow> bytes \<Rightarrow> string \<Rightarrow> uuid \<Rightarrow> uuid \<Rightarrow> encrypted" where
  "secret_encrypt X application_key nonce secret cluster_id request_id =
     \<lparr>enc_ciphertext = aesgcm_encrypt X (secret_key X application_key) nonce (encode secret)
        (associated_data cluster_id request_id key_version),
      enc_nonce = nonce, enc_key_version = key_version\<rparr>"

definition secret_decrypt :: "aead \<Rightarrow> string \<Rightarrow> encrypted \<Rightarrow> uuid \<Rightarrow> uuid \<Rightarrow> string option" where
  "secret_decrypt X application_key e cluster_id request_id =
     (case aesgcm_decrypt X (secret_key X application_key) (enc_nonce e) (enc_ciphertext e)
        (associated_data cluster_id request_id (enc_key_version e)) of
        None \<Rightarrow> None | Some p \<Rightarrow> decode_utf8 p)"

text \<open>An interface for both ciphers, so that what rests on the round trip is proved once.\<close>

locale cipher =
  fixes enc :: "bytes \<Rightarrow> string \<Rightarrow> uuid \<Rightarrow> uuid \<Rightarrow> encrypted" and dec :: "encrypted \<Rightarrow> uuid \<Rightarrow> uuid \<Rightarrow> string option"
    and ok :: bool
  assumes dec_enc: "ok \<Longrightarrow> is_ascii s \<Longrightarrow> dec (enc n s c i) c i = Some s"
    and nonce_stored: "enc_nonce (enc n s c i) = n"
begin

lemma enc_inj: "ok \<Longrightarrow> is_ascii s \<Longrightarrow> is_ascii t \<Longrightarrow> enc n s c i = enc m t c i \<Longrightarrow> s = t \<and> n = m"
  using dec_enc[of s n c i] dec_enc[of t m c i] nonce_stored[of n s c i] nonce_stored[of m t c i] by simp

text \<open>A ciphertext and nonce that are stored in separate columns and put together again.\<close>

lemma dec_columns:
  assumes "ok" "is_ascii s"
  shows "dec \<lparr>enc_ciphertext = enc_ciphertext (enc n s c i), enc_nonce = enc_nonce (enc n s c i),
     enc_key_version = enc_key_version (enc n s c i)\<rparr> c i = Some s"
proof -
  have e: "\<lparr>enc_ciphertext = enc_ciphertext e, enc_nonce = enc_nonce e, enc_key_version = enc_key_version e\<rparr> = e"
    for e :: encrypted by (cases e) simp
  show ?thesis unfolding e by (rule dec_enc[OF assms])
qed

end

interpretation credentials: cipher "credential_encrypt X k" "credential_decrypt X k" "aead_ok X" for X k
  by unfold_locales (auto simp: credential_encrypt_def credential_decrypt_def aead_ok_def decode_encode)

interpretation secrets: cipher "secret_encrypt X k" "secret_decrypt X k" "aead_ok X" for X k
  by unfold_locales (auto simp: secret_encrypt_def secret_decrypt_def aead_ok_def decode_encode)

end
