(* ===== verification/Provisioning_Service.thy ===== *)
theory Provisioning_Service
  imports Provisioning_Steps Secrets
begin

text \<open>
  \<open>ProvisioningService\<close> of src/backend/app/services/provisioning.py with the payloads of
  src/backend/app/schemas/provisioning.py: the catalogue of products, templates and nodes, and the
  requests the provisioning worker carries out.  The constructor admits super administrators only.
  The listings, whose order is the database's collation, are left out, but for that of the requests.
\<close>

section \<open>schemas/provisioning.py\<close>

record product_create =
  prc_name :: string
  prc_cpu_cores :: int
  prc_memory_bytes :: int
  prc_disk_bytes :: int

definition product_name_ok :: "string \<Rightarrow> bool" where
  "product_name_ok n \<longleftrightarrow> 1 \<le> length n \<and> length n \<le> 120"

definition product_create_valid :: "product_create \<Rightarrow> bool" where
  "product_create_valid p \<longleftrightarrow> product_name_ok (prc_name p) \<and> in_range 1 128 (prc_cpu_cores p) \<and>
     in_range 268435456 2199023255552 (prc_memory_bytes p) \<and> in_range 1073741824 70368744177664 (prc_disk_bytes p)"

record product_update =
  pru_name :: "string option"
  pru_cpu_cores :: "int option"
  pru_memory_bytes :: "int option"
  pru_disk_bytes :: "int option"
  pru_is_enabled :: "bool option"

definition product_update_valid :: "product_update \<Rightarrow> bool" where
  "product_update_valid p \<longleftrightarrow> pred_option product_name_ok (pru_name p) \<and>
     pred_option (in_range 1 128) (pru_cpu_cores p) \<and>
     pred_option (in_range 268435456 2199023255552) (pru_memory_bytes p) \<and>
     pred_option (in_range 1073741824 70368744177664) (pru_disk_bytes p)"

record template_create =
  tc_name :: string
  tc_source_workload_id :: uuid
  tc_source_disk :: string
  tc_default_storage :: string
  tc_default_bridge :: string
  tc_default_vlan_tag :: "int option"
  tc_os_type :: template_os_type

text \<open>\<open>default_vlan_tag\<close> may be given as \<open>null\<close>: \<open>Some None\<close>; not given it is \<open>None\<close>.\<close>

record template_update =
  tu_name :: "string option"
  tu_source_workload_id :: "uuid option"
  tu_source_disk :: "string option"
  tu_default_storage :: "string option"
  tu_default_bridge :: "string option"
  tu_default_vlan_tag :: "int option option"
  tu_os_type :: "template_os_type option"
  tu_is_enabled :: "bool option"

record node_upsert =
  nu_cluster_id :: uuid
  nu_name :: string
  nu_is_enabled :: bool
  nu_is_maintenance :: bool
  nu_available_memory_bytes :: int
  nu_available_storage_bytes :: int

record cloud_init_request =
  ci_username :: string
  ci_ssh_public_keys :: "string list"

record provisioning_request_create =
  rc_product_id :: uuid
  rc_template_id :: uuid
  rc_organization_id :: uuid
  rc_target_cluster_id :: uuid
  rc_target_node_id :: "uuid option"
  rc_target_vmid :: "int option"
  rc_target_name :: string
  rc_ip_pool_id :: uuid
  rc_ip_address :: "address option"
  rc_cloud_init :: cloud_init_request
  rc_start_after_create :: bool

record step_response =
  sr_order :: int
  sr_name :: string
  sr_status :: provisioning_step_status
  sr_attempt_count :: int
  sr_pve_upid :: "string option"
  sr_safe_result :: dict
  sr_error_code :: "string option"
  sr_error_summary :: "string option"
  sr_started_at :: "datetime option"
  sr_finished_at :: "datetime option"

text \<open>The response repeats the columns of the request; \<open>job_id\<close> is its id again.\<close>

record request_response =
  rq_id :: uuid
  rq_status :: provisioning_status
  rq_current_step :: string
  rq_product_id :: uuid
  rq_template_id :: uuid
  rq_os_type :: template_os_type
  rq_organization_id :: uuid
  rq_target_cluster_id :: uuid
  rq_target_node_id :: "uuid option"
  rq_target_vmid :: "int option"
  rq_target_name :: string
  rq_ip_pool_id :: uuid
  rq_ip_address :: "string option"
  rq_workload_id :: "uuid option"
  rq_error_code :: "string option"
  rq_error_summary :: "string option"
  rq_initial_password :: "string option"
  rq_requested_at :: datetime
  rq_started_at :: "datetime option"
  rq_finished_at :: "datetime option"
  rq_steps :: "step_response list"

section \<open>Products\<close>

definition provisioning_init :: "service \<Rightarrow> unit result" where
  "provisioning_init sv = require_service_role (sv_principal sv) [SUPER_ADMIN]"

abbreviation get_product :: "db \<Rightarrow> uuid \<Rightarrow> product option" where
  "get_product d i \<equiv> get_row prod_id (products d) i"

abbreviation get_template :: "db \<Rightarrow> uuid \<Rightarrow> template option" where
  "get_template d i \<equiv> get_row tmpl_id (templates d) i"

definition put_product :: "uuid \<Rightarrow> (product \<Rightarrow> product) \<Rightarrow> db \<Rightarrow> db" where
  "put_product i f d = d\<lparr>products := modify_row prod_id i f (products d)\<rparr>"

definition put_template :: "uuid \<Rightarrow> (template \<Rightarrow> template) \<Rightarrow> db \<Rightarrow> db" where
  "put_template i f d = d\<lparr>templates := modify_row tmpl_id i f (templates d)\<rparr>"

definition product_conflict :: exn where
  "product_conflict = App (app_error 409 ''PRODUCT_CONFLICT'' ''The product already exists.'')"

definition product_not_found :: "'a result" where
  "product_not_found = raise_app 404 ''PRODUCT_NOT_FOUND'' ''The product was not found.''"

definition product_audit :: "product \<Rightarrow> dict" where
  "product_audit p = [(''name'', JStr (prod_name p)), (''cpu_cores'', JInt (prod_cpu_cores p)),
     (''memory_bytes'', JInt (prod_memory_bytes p)), (''disk_bytes'', JInt (prod_disk_bytes p)),
     (''is_enabled'', JBool (prod_is_enabled p))]"

definition create_product :: "service \<Rightarrow> uuid \<Rightarrow> product_create \<Rightarrow> db \<Rightarrow> product outcome" where
  "create_product sv i c d =
     try_in d (provisioning_init sv) (\<lambda>_.
     let p = \<lparr>prod_id = i, prod_name = str_strip (prc_name c), prod_cpu_cores = prc_cpu_cores c,
               prod_memory_bytes = prc_memory_bytes c, prod_disk_bytes = prc_disk_bytes c, prod_is_enabled = True,
               prod_created_by_id = prin_user_id (sv_principal sv)\<rparr>
     in commit_in d product_conflict (d\<lparr>products := products d @ [p]\<rparr>) (Inr p))"

text \<open>\<open>if v is not None: row.column = v\<close>\<close>

definition given :: "'v option \<Rightarrow> ('v \<Rightarrow> 'r \<Rightarrow> 'r) \<Rightarrow> 'r \<Rightarrow> 'r" where
  "given v f r = (case v of None \<Rightarrow> r | Some x \<Rightarrow> f x r)"

definition updated_product :: "product_update \<Rightarrow> product \<Rightarrow> product" where
  "updated_product u p =
     given (pru_is_enabled u) (\<lambda>x r. r\<lparr>prod_is_enabled := x\<rparr>)
     (given (pru_disk_bytes u) (\<lambda>x r. r\<lparr>prod_disk_bytes := x\<rparr>)
     (given (pru_memory_bytes u) (\<lambda>x r. r\<lparr>prod_memory_bytes := x\<rparr>)
     (given (pru_cpu_cores u) (\<lambda>x r. r\<lparr>prod_cpu_cores := x\<rparr>)
     (given (pru_name u) (\<lambda>x r. r\<lparr>prod_name := str_strip x\<rparr>) p))))"

definition update_product :: "service \<Rightarrow> uuid \<Rightarrow> product_update \<Rightarrow> db \<Rightarrow> product outcome" where
  "update_product sv i u d =
     try_in d (provisioning_init sv) (\<lambda>_.
     case get_product d i of
       None \<Rightarrow> (product_not_found, d)
     | Some p \<Rightarrow>
       let p' = updated_product u p
       in commit_in d product_conflict
            (add_audit_event (sv_ctx sv) ((service_event sv ''PRODUCT_UPDATED'' ''SUCCEEDED'' ''product'' i)
               \<lparr>ev_before := Some (product_audit p), ev_after := Some (product_audit p')\<rparr>) (put_product i (\<lambda>_. p') d))
            (Inr p'))"

definition delete_product :: "service \<Rightarrow> uuid \<Rightarrow> db \<Rightarrow> unit outcome" where
  "delete_product sv i d =
     try_in d (provisioning_init sv) (\<lambda>_.
     case get_product d i of
       None \<Rightarrow> (product_not_found, d)
     | Some p \<Rightarrow>
       commit_in d (App (app_error 409 ''PRODUCT_IN_USE'' ''The product is referenced by provisioning history.''))
         ((add_audit_event (sv_ctx sv) ((service_event sv ''PRODUCT_DELETED'' ''SUCCEEDED'' ''product'' i)
             \<lparr>ev_before := Some (product_audit p)\<rparr>) d)\<lparr>products := filter (\<lambda>x. prod_id x \<noteq> i) (products d)\<rparr>)
         (Inr ()))"

section \<open>Templates\<close>

definition template_conflict :: exn where
  "template_conflict = App (app_error 409 ''TEMPLATE_CONFLICT'' ''The template already exists.'')"

definition template_not_found :: "'a result" where
  "template_not_found = raise_app 404 ''TEMPLATE_NOT_FOUND'' ''The template was not found.''"

definition template_source :: "db \<Rightarrow> uuid \<Rightarrow> workload result" where
  "template_source d i =
     (case find (\<lambda>w. wl_id w = i \<and> wl_kind w = QEMU \<and> wl_is_template w \<and> wl_is_present w) (workloads d) of
        None \<Rightarrow> raise_app 422 ''INVALID_TEMPLATE_SOURCE'' ''The source must be a present QEMU template.''
      | Some w \<Rightarrow> Inr w)"

definition template_audit :: "template \<Rightarrow> dict" where
  "template_audit t = [(''name'', JStr (tmpl_name t)), (''source_workload_id'', JStr (uuid_str (tmpl_source_workload_id t))),
     (''source_disk'', JStr (tmpl_source_disk t)), (''default_storage'', JStr (tmpl_default_storage t)),
     (''default_bridge'', JStr (tmpl_default_bridge t)), (''default_vlan_tag'', json_opt JInt (tmpl_default_vlan_tag t)),
     (''os_type'', JStr (template_os_type_value (tmpl_os_type t))), (''is_enabled'', JBool (tmpl_is_enabled t))]"

definition create_template :: "service \<Rightarrow> uuid \<Rightarrow> template_create \<Rightarrow> db \<Rightarrow> template outcome" where
  "create_template sv i c d =
     try_in d (provisioning_init sv) (\<lambda>_.
     try_in d (template_source d (tc_source_workload_id c)) (\<lambda>w.
     let t = \<lparr>tmpl_id = i, tmpl_name = str_strip (tc_name c), tmpl_source_workload_id = wl_id w,
               tmpl_source_disk = tc_source_disk c, tmpl_default_storage = tc_default_storage c,
               tmpl_default_bridge = tc_default_bridge c, tmpl_default_vlan_tag = tc_default_vlan_tag c,
               tmpl_cloud_init_enabled = True, tmpl_linux_only = (tc_os_type c = LINUX), tmpl_os_type = tc_os_type c,
               tmpl_is_enabled = True, tmpl_created_by_id = prin_user_id (sv_principal sv)\<rparr>
     in commit_in d template_conflict (d\<lparr>templates := templates d @ [t]\<rparr>) (Inr t)))"

definition updated_template :: "template_update \<Rightarrow> template \<Rightarrow> template" where
  "updated_template u t =
     given (tu_is_enabled u) (\<lambda>x r. r\<lparr>tmpl_is_enabled := x\<rparr>)
     (given (tu_os_type u) (\<lambda>x r. r\<lparr>tmpl_os_type := x, tmpl_linux_only := (x = LINUX)\<rparr>)
     (given (tu_default_vlan_tag u) (\<lambda>x r. r\<lparr>tmpl_default_vlan_tag := x\<rparr>)
     (given (tu_default_bridge u) (\<lambda>x r. r\<lparr>tmpl_default_bridge := x\<rparr>)
     (given (tu_default_storage u) (\<lambda>x r. r\<lparr>tmpl_default_storage := x\<rparr>)
     (given (tu_source_disk u) (\<lambda>x r. r\<lparr>tmpl_source_disk := x\<rparr>)
     (given (tu_name u) (\<lambda>x r. r\<lparr>tmpl_name := str_strip x\<rparr>)
     (given (tu_source_workload_id u) (\<lambda>x r. r\<lparr>tmpl_source_workload_id := x\<rparr>) t)))))))"

definition update_template :: "service \<Rightarrow> uuid \<Rightarrow> template_update \<Rightarrow> db \<Rightarrow> template outcome" where
  "update_template sv i u d =
     try_in d (provisioning_init sv) (\<lambda>_.
     case get_template d i of
       None \<Rightarrow> (template_not_found, d)
     | Some t \<Rightarrow>
       try_in d (case tu_source_workload_id u of None \<Rightarrow> Inr () | Some w \<Rightarrow>
           bind_result (template_source d w) (\<lambda>_. Inr ())) (\<lambda>_.
       let t' = updated_template u t
       in commit_in d template_conflict
            (add_audit_event (sv_ctx sv) ((service_event sv ''TEMPLATE_UPDATED'' ''SUCCEEDED'' ''template'' i)
               \<lparr>ev_before := Some (template_audit t), ev_after := Some (template_audit t')\<rparr>) (put_template i (\<lambda>_. t') d))
            (Inr t')))"

definition delete_template :: "service \<Rightarrow> uuid \<Rightarrow> db \<Rightarrow> unit outcome" where
  "delete_template sv i d =
     try_in d (provisioning_init sv) (\<lambda>_.
     case get_template d i of
       None \<Rightarrow> (template_not_found, d)
     | Some t \<Rightarrow>
       commit_in d (App (app_error 409 ''TEMPLATE_IN_USE'' ''The template is referenced by provisioning history.''))
         ((add_audit_event (sv_ctx sv) ((service_event sv ''TEMPLATE_DELETED'' ''SUCCEEDED'' ''template'' i)
             \<lparr>ev_before := Some (template_audit t)\<rparr>) d)\<lparr>templates := filter (\<lambda>x. tmpl_id x \<noteq> i) (templates d)\<rparr>)
         (Inr ()))"

section \<open>Nodes\<close>

definition upserted_node :: "node_upsert \<Rightarrow> provisioning_node \<Rightarrow> provisioning_node" where
  "upserted_node u n = n\<lparr>node_is_enabled := nu_is_enabled u, node_is_maintenance := nu_is_maintenance u,
     node_available_memory_bytes := nu_available_memory_bytes u, node_available_storage_bytes := nu_available_storage_bytes u\<rparr>"

definition new_node :: "uuid \<Rightarrow> node_upsert \<Rightarrow> provisioning_node" where
  "new_node i u = \<lparr>node_id = i, node_cluster_id = nu_cluster_id u, node_name = nu_name u,
     node_is_enabled = nu_is_enabled u, node_is_maintenance = nu_is_maintenance u,
     node_available_memory_bytes = nu_available_memory_bytes u,
     node_available_storage_bytes = nu_available_storage_bytes u, node_last_selected_at = None\<rparr>"

definition upsert_node :: "service \<Rightarrow> uuid \<Rightarrow> node_upsert \<Rightarrow> db \<Rightarrow> provisioning_node outcome" where
  "upsert_node sv i u d =
     try_in d (provisioning_init sv) (\<lambda>_.
     if (case get_row cl_id (clusters d) (nu_cluster_id u) of None \<Rightarrow> True | Some c \<Rightarrow> \<not> cl_is_active c)
     then (raise_app 404 ''CLUSTER_NOT_FOUND'' ''The cluster was not found.'', d)
     else (case find (\<lambda>n. node_cluster_id n = nu_cluster_id u \<and> node_name n = nu_name u) (nodes d) of
       None \<Rightarrow> commit_in d IntegrityError (d\<lparr>nodes := nodes d @ [new_node i u]\<rparr>) (Inr (new_node i u))
     | Some n \<Rightarrow> commit_in d IntegrityError (put_node (node_id n) (upserted_node u) d) (Inr (upserted_node u n))))"

section \<open>The initial password of a Windows guest\<close>

definition ascii_lowercase :: string where "ascii_lowercase = ''abcdefghijklmnopqrstuvwxyz''"
definition ascii_uppercase :: string where "ascii_uppercase = ''ABCDEFGHIJKLMNOPQRSTUVWXYZ''"
definition digits :: string where "digits = ''0123456789''"
definition symbols :: string where "symbols = ''!@#%_-''"

definition password_characters :: string where
  "password_characters = ascii_lowercase @ ascii_uppercase @ digits @ symbols"

text \<open>
  \<open>SystemRandom\<close> is a stream of numbers; a draw below \<open>n\<close> is a remainder.  \<open>choice\<close> takes one draw,
  \<open>shuffle\<close> exchanges each position, from the last to the second, with one not after it.
\<close>

definition choice :: "(nat \<Rightarrow> nat) \<Rightarrow> nat \<Rightarrow> string \<Rightarrow> char" where
  "choice draw k s = s ! (draw k mod length s)"

definition swap :: "nat \<Rightarrow> nat \<Rightarrow> 'a list \<Rightarrow> 'a list" where
  "swap i j xs = xs[i := xs ! j, j := xs ! i]"

fun shuffle :: "(nat \<Rightarrow> nat) \<Rightarrow> nat \<Rightarrow> nat \<Rightarrow> 'a list \<Rightarrow> 'a list" where
  "shuffle draw k 0 xs = xs"
| "shuffle draw k (Suc i) xs = shuffle draw (k + 1) i (swap (Suc i) (draw k mod (i + 2)) xs)"

definition windows_password_length :: nat where
  "windows_password_length = 24"

definition drawn_characters :: "(nat \<Rightarrow> nat) \<Rightarrow> string" where
  "drawn_characters draw =
     [choice draw 0 ascii_lowercase, choice draw 1 ascii_uppercase, choice draw 2 digits, choice draw 3 symbols]
     @ map (\<lambda>k. choice draw k password_characters) [4 ..< windows_password_length]"

definition generate_windows_password :: "(nat \<Rightarrow> nat) \<Rightarrow> string" where
  "generate_windows_password draw =
     (let password = drawn_characters draw in shuffle draw windows_password_length (length password - 1) password)"

section \<open>Requests\<close>

text \<open>\<open>json.dumps(..., sort_keys=True, separators=(",", ":"))\<close>\<close>

fun json_compact :: "json \<Rightarrow> string" where
  "json_compact JNull = ''null''"
| "json_compact (JBool b) = (if b then ''true'' else ''false'')"
| "json_compact (JInt i) = int_str i"
| "json_compact (JFloat s) = s"
| "json_compact (JStr s) = json_string s"
| "json_compact (JList xs) = ''['' @ join_with '','' (map json_compact xs) @ '']''"
| "json_compact (JObj d) =
     ''{'' @ join_with '','' (map snd (sort_key fst
       (map (\<lambda>(k, v). (k, json_string k @ '':'' @ json_compact v)) d))) @ ''}''"
| "json_compact (JOther s) = json_string s"

definition json_uuid :: "uuid \<Rightarrow> json" where
  "json_uuid i = JStr (uuid_str i)"

text \<open>\<open>payload.model_dump(mode="json")\<close>\<close>

definition model_dump :: "provisioning_request_create \<Rightarrow> dict" where
  "model_dump c = [(''product_id'', json_uuid (rc_product_id c)), (''template_id'', json_uuid (rc_template_id c)),
     (''organization_id'', json_uuid (rc_organization_id c)), (''target_cluster_id'', json_uuid (rc_target_cluster_id c)),
     (''target_node_id'', json_opt json_uuid (rc_target_node_id c)), (''target_vmid'', json_opt JInt (rc_target_vmid c)),
     (''target_name'', JStr (rc_target_name c)), (''ip_pool_id'', json_uuid (rc_ip_pool_id c)),
     (''ip_address'', json_opt (\<lambda>a. JStr (address_str a)) (rc_ip_address c)),
     (''cloud_init'', JObj [(''username'', JStr (ci_username (rc_cloud_init c))),
        (''ssh_public_keys'', JList (map JStr (ci_ssh_public_keys (rc_cloud_init c))))]),
     (''start_after_create'', JBool (rc_start_after_create c))]"

definition request_fingerprint :: "crypto \<Rightarrow> provisioning_request_create \<Rightarrow> bytes" where
  "request_fingerprint C c = sha256 C (encode (json_compact (JObj (model_dump c))))"

text \<open>\<open>re.fullmatch(r"[a-z_][a-z0-9_-]{0,31}", s)\<close>\<close>

definition linux_username :: "string \<Rightarrow> bool" where
  "linux_username s = (case s of
     [] \<Rightarrow> False
   | c # cs \<Rightarrow> c \<in> set (ascii_lowercase @ ''_'') \<and> length cs \<le> 31 \<and>
       list_all (\<lambda>x. x \<in> set (ascii_lowercase @ digits @ ''_-'')) cs)"

definition validate_references ::
    "db \<Rightarrow> provisioning_request_create \<Rightarrow> (product \<times> template \<times> workload \<times> ip_pool) result" where
  "validate_references d c =
     (let product = get_product d (rc_product_id c); template = get_template d (rc_template_id c);
          organization = get_row org_id (organizations d) (rc_organization_id c);
          cluster = get_row cl_id (clusters d) (rc_target_cluster_id c);
          pool = get_row pool_id (ip_pools d) (rc_ip_pool_id c);
          source = (case template of None \<Rightarrow> None | Some t \<Rightarrow> get_wl d (tmpl_source_workload_id t)) in
      case product of None \<Rightarrow> raise_app 422 ''PRODUCT_UNAVAILABLE'' ''The product is unavailable.'' | Some p \<Rightarrow>
      if \<not> prod_is_enabled p then raise_app 422 ''PRODUCT_UNAVAILABLE'' ''The product is unavailable.''
      else (case (template, source) of
        (Some t, Some w) \<Rightarrow>
          if \<not> tmpl_is_enabled t \<or> \<not> tmpl_cloud_init_enabled t \<or> wl_kind w \<noteq> QEMU \<or> \<not> wl_is_template w \<or> \<not> wl_is_present w
          then raise_app 422 ''TEMPLATE_UNAVAILABLE'' ''The QEMU template is unavailable.''
          else if tmpl_os_type t = LINUX \<and> \<not> linux_username (ci_username (rc_cloud_init c))
          then raise_app 422 ''LINUX_USERNAME_INVALID'' ''The Linux Cloud-Init username is invalid.''
          else if tmpl_os_type t = LINUX \<and> ci_ssh_public_keys (rc_cloud_init c) = []
          then raise_app 422 ''SSH_KEYS_REQUIRED'' ''At least one SSH public key is required for Linux Cloud-Init.''
          else if (case cluster of None \<Rightarrow> True | Some x \<Rightarrow> \<not> cl_is_active x \<or> wl_cluster_id w \<noteq> cl_id x)
          then raise_app 422 ''CLUSTER_INCOMPATIBLE'' ''The target cluster is incompatible.''
          else if (case organization of None \<Rightarrow> True | Some g \<Rightarrow> \<not> org_is_active g)
          then raise_app 422 ''ORGANIZATION_UNAVAILABLE'' ''The organization is unavailable.''
          else (case pool of
            None \<Rightarrow> raise_app 422 ''IP_POOL_INCOMPATIBLE'' ''A compatible IPv4 pool is required.''
          | Some q \<Rightarrow>
            if \<not> pool_is_active q \<or> pool_ip_family q \<noteq> 4 \<or> pool_cluster_id q \<notin> {None, Some (rc_target_cluster_id c)}
            then raise_app 422 ''IP_POOL_INCOMPATIBLE'' ''A compatible IPv4 pool is required.''
            else if (case rc_ip_address c of None \<Rightarrow> False | Some a \<Rightarrow> \<not> in_network a (pool_cidr q))
            then raise_app 422 ''IP_OUTSIDE_POOL'' ''The requested IPv4 address is outside the pool.''
            else Inr (p, t, w, q))
      | _ \<Rightarrow> raise_app 422 ''TEMPLATE_UNAVAILABLE'' ''The QEMU template is unavailable.''))"

definition validate_node :: "db \<Rightarrow> uuid \<Rightarrow> uuid \<Rightarrow> product \<Rightarrow> provisioning_node result" where
  "validate_node d i cluster_id p = (case get_node d i of
     None \<Rightarrow> raise_app 422 ''NO_ELIGIBLE_NODE'' ''No eligible node has sufficient capacity.''
   | Some n \<Rightarrow>
       if node_cluster_id n \<noteq> cluster_id \<or> \<not> node_is_enabled n \<or> node_is_maintenance n \<or>
          node_available_memory_bytes n < prod_memory_bytes p \<or> node_available_storage_bytes n < prod_disk_bytes p
       then raise_app 422 ''NO_ELIGIBLE_NODE'' ''No eligible node has sufficient capacity.''
       else Inr n)"

definition spec_snapshot :: "provisioning_request_create \<Rightarrow> product \<Rightarrow> template \<Rightarrow> workload \<Rightarrow> dict" where
  "spec_snapshot c p t w = [(''cpu_cores'', JInt (prod_cpu_cores p)), (''memory_bytes'', JInt (prod_memory_bytes p)),
     (''disk_bytes'', JInt (prod_disk_bytes p)), (''storage'', JStr (tmpl_default_storage t)),
     (''bridge'', JStr (tmpl_default_bridge t)), (''vlan_tag'', json_opt JInt (tmpl_default_vlan_tag t)),
     (''cloud_init_username'', JStr (ci_username (rc_cloud_init c))),
     (''ssh_public_keys'', JList (map JStr (ci_ssh_public_keys (rc_cloud_init c)))),
     (''start_after_create'', JBool (rc_start_after_create c)), (''source_node'', JStr (wl_node w)),
     (''source_vmid'', JInt (wl_vmid w)), (''source_disk'', JStr (tmpl_source_disk t)),
     (''os_type'', JStr (template_os_type_value (tmpl_os_type t)))]"

text \<open>
  What a call of \<open>create_request\<close> draws from outside: the identifiers, the random numbers of the
  password and the nonce; with the hash functions, the cipher and the application's key.
\<close>

record request_env =
  rv_crypto :: crypto
  rv_aead :: aead
  rv_secret_key :: string
  rv_fresh :: "nat \<Rightarrow> uuid"
  rv_draw :: "nat \<Rightarrow> nat"
  rv_nonce :: bytes

definition new_request ::
    "service \<Rightarrow> request_env \<Rightarrow> provisioning_request_create \<Rightarrow> bytes \<Rightarrow> product \<Rightarrow> template \<Rightarrow> workload \<Rightarrow> ip_pool \<Rightarrow>
     encrypted option \<Rightarrow> provisioning_request" where
  "new_request sv V c h p t w q e = \<lparr>req_id = rv_fresh V 1, req_requested_by_id = prin_user_id (sv_principal sv),
     req_idempotency_key_hash = h, req_request_fingerprint = request_fingerprint (rv_crypto V) c,
     req_product_id = prod_id p, req_template_id = tmpl_id t, req_organization_id = rc_organization_id c,
     req_target_cluster_id = rc_target_cluster_id c, req_target_node_id = rc_target_node_id c,
     req_target_vmid = rc_target_vmid c, req_target_name = str_lower (rc_target_name c), req_ip_pool_id = pool_id q,
     req_requested_ip_address = rc_ip_address c, req_ip_address_id = None, req_workload_id = None,
     req_status = Prov_QUEUED, req_current_step = hd provisioning_steps, req_spec_snapshot = spec_snapshot c p t w,
     req_initial_password_ciphertext = map_option enc_ciphertext e, req_initial_password_nonce = map_option enc_nonce e,
     req_initial_password_key_version = map_option enc_key_version e, req_initial_password_cleared_at = None,
     req_celery_task_id = uuid_str (rv_fresh V 0), req_clone_submitted = False, req_error_code = None,
     req_error_summary = None, req_requested_at = sv_now sv, req_started_at = None, req_finished_at = None,
     req_heartbeat_at = None, req_runner_id = None, req_lease_expires_at = None, req_version = 1\<rparr>"

definition new_step :: "uuid \<Rightarrow> uuid \<Rightarrow> nat \<Rightarrow> string \<Rightarrow> provisioning_step" where
  "new_step i r k name = \<lparr>step_id = i, step_request_id = r, step_order = int k, step_name = name,
     step_status = Step_PENDING, step_attempt_count = 0, step_pve_upid = None, step_safe_result = [],
     step_error_code = None, step_error_summary = None, step_started_at = None, step_finished_at = None\<rparr>"

definition new_steps :: "request_env \<Rightarrow> provisioning_step list" where
  "new_steps V = map (\<lambda>(k, name). new_step (rv_fresh V (k + 1)) (rv_fresh V 1) k name) (enumerate 1 provisioning_steps)"

definition step_response_of :: "provisioning_step \<Rightarrow> step_response" where
  "step_response_of s = \<lparr>sr_order = step_order s, sr_name = step_name s, sr_status = step_status s,
     sr_attempt_count = step_attempt_count s, sr_pve_upid = step_pve_upid s, sr_safe_result = step_safe_result s,
     sr_error_code = step_error_code s, sr_error_summary = step_error_summary s, sr_started_at = step_started_at s,
     sr_finished_at = step_finished_at s\<rparr>"

definition os_type_of :: "string \<Rightarrow> template_os_type result" where
  "os_type_of s = (case find (\<lambda>x. template_os_type_value x = s) [LINUX, WINDOWS] of
     Some x \<Rightarrow> Inr x | None \<Rightarrow> Inl (PyError ''ValueError''))"

definition request_response_of :: "db \<Rightarrow> string option \<Rightarrow> provisioning_request \<Rightarrow> request_response result" where
  "request_response_of d password r =
     bind_result (os_type_of (py_str (dict_get_or (req_spec_snapshot r) ''os_type'' (JStr ''LINUX'')))) (\<lambda>os.
     Inr \<lparr>rq_id = req_id r, rq_status = req_status r, rq_current_step = req_current_step r,
       rq_product_id = req_product_id r, rq_template_id = req_template_id r, rq_os_type = os,
       rq_organization_id = req_organization_id r, rq_target_cluster_id = req_target_cluster_id r,
       rq_target_node_id = req_target_node_id r, rq_target_vmid = req_target_vmid r,
       rq_target_name = req_target_name r, rq_ip_pool_id = req_ip_pool_id r,
       rq_ip_address = (case req_ip_address_id r of None \<Rightarrow> None
         | Some a \<Rightarrow> map_option (\<lambda>x. address_str (addr_address x)) (get_row addr_id (ip_addresses d) a)),
       rq_workload_id = req_workload_id r, rq_error_code = req_error_code r, rq_error_summary = req_error_summary r,
       rq_initial_password = password, rq_requested_at = req_requested_at r, rq_started_at = req_started_at r,
       rq_finished_at = req_finished_at r,
       rq_steps = map step_response_of (sort_key step_order (filter (\<lambda>s. step_request_id s = req_id r) (steps d)))\<rparr>)"

definition find_request_key :: "db \<Rightarrow> uuid \<Rightarrow> bytes \<Rightarrow> provisioning_request option" where
  "find_request_key d u h = find (\<lambda>r. req_requested_by_id r = u \<and> req_idempotency_key_hash r = h) (requests d)"

type_synonym accepted_request = "request_response \<times> bool \<times> (uuid \<times> string) option"

text \<open>The part of \<open>create_request\<close> that writes.\<close>

definition initial_password :: "request_env \<Rightarrow> template \<Rightarrow> string option" where
  "initial_password V t = (if tmpl_os_type t = WINDOWS then Some (generate_windows_password (rv_draw V)) else None)"

definition encrypted_password :: "request_env \<Rightarrow> provisioning_request_create \<Rightarrow> template \<Rightarrow> encrypted option" where
  "encrypted_password V c t = map_option (\<lambda>s. secret_encrypt (rv_aead V) (rv_secret_key V) (rv_nonce V) s
     (rc_target_cluster_id c) (rv_fresh V 1)) (initial_password V t)"

definition request_event :: "service \<Rightarrow> provisioning_request_create \<Rightarrow> product \<Rightarrow> template \<Rightarrow> uuid \<Rightarrow> audit_event" where
  "request_event sv c p t i =
     (service_event sv ''VM_PROVISION_REQUEST'' ''ATTEMPTED'' ''provisioning_request'' i)
       \<lparr>ev_organization_id := Some (rc_organization_id c),
        ev_details := Some [(''product_id'', JStr (uuid_str (prod_id p))), (''template_id'', JStr (uuid_str (tmpl_id t)))]\<rparr>"

definition add_request ::
    "service \<Rightarrow> request_env \<Rightarrow> provisioning_request_create \<Rightarrow> bytes \<Rightarrow> product \<Rightarrow> template \<Rightarrow> workload \<Rightarrow> ip_pool \<Rightarrow> db \<Rightarrow>
     accepted_request outcome" where
  "add_request sv V c h p t w q d =
     (let r = new_request sv V c h p t w q (encrypted_password V c t);
          d' = add_audit_event (sv_ctx sv) (request_event sv c p t (req_id r))
                 (d\<lparr>requests := requests d @ [r], steps := steps d @ new_steps V\<rparr>)
      in commit_in d (App (app_error 409 ''PROVISIONING_REQUEST_CONFLICT''
             ''The provisioning request conflicts with an existing reservation.'')) d'
           (bind_result (request_response_of d' (initial_password V t) r)
              (\<lambda>x. Inr (x, True, Some (req_id r, req_celery_task_id r)))))"

definition create_request ::
    "service \<Rightarrow> request_env \<Rightarrow> provisioning_request_create \<Rightarrow> string \<Rightarrow> db \<Rightarrow> accepted_request outcome" where
  "create_request sv V c key d =
     try_in d (provisioning_init sv) (\<lambda>_.
     let h = key_hash (rv_crypto V) (rv_secret_key V) key in
     case find_request_key d (prin_user_id (sv_principal sv)) h of
       Some r \<Rightarrow>
         if req_request_fingerprint r \<noteq> request_fingerprint (rv_crypto V) c
         then (raise_app 409 ''IDEMPOTENCY_KEY_REUSED'' ''The idempotency key was already used for another request.'', d)
         else (bind_result (request_response_of d None r) (\<lambda>x. Inr (x, False, None)), d)
     | None \<Rightarrow>
       try_in d (validate_references d c) (\<lambda>(p, t, w, q).
       try_in d (case rc_target_node_id c of None \<Rightarrow> Inr ()
           | Some n \<Rightarrow> bind_result (validate_node d n (rc_target_cluster_id c) p) (\<lambda>_. Inr ())) (\<lambda>_.
       add_request sv V c h p t w q d)))"

definition get_request :: "service \<Rightarrow> uuid \<Rightarrow> db \<Rightarrow> request_response result" where
  "get_request sv i d =
     bind_result (provisioning_init sv) (\<lambda>_.
     case get_req d i of
       None \<Rightarrow> raise_app 404 ''PROVISIONING_REQUEST_NOT_FOUND'' ''The request was not found.''
     | Some r \<Rightarrow> request_response_of d None r)"

definition list_requests :: "service \<Rightarrow> db \<Rightarrow> request_response list result" where
  "list_requests sv d =
     bind_result (provisioning_init sv) (\<lambda>_.
     map_result (request_response_of d None) (sort_key (\<lambda>r. - req_requested_at r) (requests d)))"

end
