(* ===== verification/Provisioning_Requests.thy ===== *)
theory Provisioning_Requests
  imports Provisioning_Service Provisioning_Runner Operation_Requests
begin

text \<open>
  The properties of \<open>ProvisioningService\<close>: the initial passwords, idempotent requests, what a created
  request gives the worker, and the catalogue.
\<close>

section \<open>Passwords\<close>

lemma length_swap [simp]: "length (swap i j xs) = length xs"
  by (simp add: swap_def)

lemma set_swap: "i < length xs \<Longrightarrow> j < length xs \<Longrightarrow> set (swap i j xs) = set xs"
  by (simp add: swap_def)

lemma shuffle_set: "i < length xs \<Longrightarrow> length (shuffle draw k i xs) = length xs \<and> set (shuffle draw k i xs) = set xs"
proof (induction draw k i xs rule: shuffle.induct)
  case (2 draw k i xs)
  have "draw k mod (i + 2) < i + 2" by simp
  with 2(2) have "set (swap (Suc i) (draw k mod (i + 2)) xs) = set xs" by (intro set_swap) linarith+
  with 2 show ?case by simp
qed simp

lemma choice_mem: "s \<noteq> [] \<Longrightarrow> choice draw k s \<in> set s"
  by (simp add: choice_def)

lemma password_alphabet [simp]:
  "ascii_lowercase \<noteq> []" "ascii_uppercase \<noteq> []" "digits \<noteq> []" "symbols \<noteq> []" "password_characters \<noteq> []"
  by (simp_all add: ascii_lowercase_def ascii_uppercase_def digits_def symbols_def password_characters_def)

lemma length_drawn: "length (drawn_characters draw) = 24"
  by (simp add: drawn_characters_def windows_password_length_def)

lemma password_shuffled:
  "length (generate_windows_password draw) = 24" "set (generate_windows_password draw) = set (drawn_characters draw)"
  using shuffle_set[of 23 "drawn_characters draw" draw windows_password_length]
  by (simp_all add: generate_windows_password_def Let_def length_drawn)

lemma drawn_subset: "set (drawn_characters draw) \<subseteq> set password_characters"
proof -
  have "choice draw k s \<in> set password_characters" if "s \<in> {ascii_lowercase, ascii_uppercase, digits, symbols, password_characters}" for k s
    using that choice_mem[of s draw k] by (auto simp: password_characters_def)
  then show ?thesis by (auto simp: drawn_characters_def)
qed

lemma password_ascii: "is_ascii (generate_windows_password draw)"
proof -
  have "list_all (\<lambda>c. (of_char c :: nat) < 128) password_characters" by code_simp
  then show ?thesis using drawn_subset[of draw] by (auto simp: is_ascii_def list_all_iff password_shuffled)
qed

text \<open>
  Every initial password meets the policy, whatever the random source gives: 24 characters, all
  from the four classes, and at least one of each class.
\<close>

theorem windows_password_policy:
  "length (generate_windows_password draw) = 24 \<and> set (generate_windows_password draw) \<subseteq> set password_characters \<and>
   set (generate_windows_password draw) \<inter> set ascii_lowercase \<noteq> {} \<and>
   set (generate_windows_password draw) \<inter> set ascii_uppercase \<noteq> {} \<and>
   set (generate_windows_password draw) \<inter> set digits \<noteq> {} \<and>
   set (generate_windows_password draw) \<inter> set symbols \<noteq> {}"
proof -
  have "choice draw 0 ascii_lowercase \<in> set (drawn_characters draw)" "choice draw 1 ascii_uppercase \<in> set (drawn_characters draw)"
    "choice draw 2 digits \<in> set (drawn_characters draw)" "choice draw 3 symbols \<in> set (drawn_characters draw)"
    by (simp_all add: drawn_characters_def)
  then show ?thesis
    using drawn_subset[of draw] choice_mem[of ascii_lowercase draw 0] choice_mem[of ascii_uppercase draw 1]
      choice_mem[of digits draw 2] choice_mem[of symbols draw 3] by (auto simp: password_shuffled)
qed

section \<open>Requests\<close>

lemma create_request_adds:
  assumes "create_request sv V c key d = (Inr (x, True, msg), d')"
  obtains p t w q where "prin_role (sv_principal sv) = SUPER_ADMIN"
    "find_request_key d (prin_user_id (sv_principal sv)) (key_hash (rv_crypto V) (rv_secret_key V) key) = None"
    "validate_references d c = Inr (p, t, w, q)"
    "add_request sv V c (key_hash (rv_crypto V) (rv_secret_key V) key) p t w q d = (Inr (x, True, msg), d')"
proof -
  let ?h = "key_hash (rv_crypto V) (rv_secret_key V) key"
  have role: "prin_role (sv_principal sv) = SUPER_ADMIN"
    using assms by (auto simp: create_request_def provisioning_init_def require_service_role_def split: if_splits)
  note def = create_request_def provisioning_init_def require_service_role_def Let_def
  have new: "find_request_key d (prin_user_id (sv_principal sv)) ?h = None"
    using assms role by (cases "find_request_key d (prin_user_id (sv_principal sv)) ?h")
      (auto simp: def bind_result_Inr_iff split: if_splits)
  obtain p t w q where refs: "validate_references d c = Inr (p, t, w, q)"
    using assms role new by (cases "validate_references d c") (auto simp: def)
  have "add_request sv V c ?h p t w q d = (Inr (x, True, msg), d')"
    using assms role new refs by (auto simp: def try_in_eq)
  with role new refs show thesis by (rule that)
qed

lemma add_request_commits:
  assumes "add_request sv V c h p t w q d = (Inr (x, b, msg), d')"
  defines "r \<equiv> new_request sv V c h p t w q (encrypted_password V c t)"
  shows "integrity d'" "d' = add_audit_event (sv_ctx sv) (request_event sv c p t (req_id r))
      (d\<lparr>requests := requests d @ [r], steps := steps d @ new_steps V\<rparr>)"
    "request_response_of d' (initial_password V t) r = Inr x"
  using assms(1) unfolding add_request_def Let_def r_def[symmetric]
  by (auto simp: commit_in_eq bind_result_def split: sum.splits)

lemma request_response_simps:
  assumes "request_response_of d pw r = Inr x"
  shows "rq_id x = req_id r" "rq_initial_password x = pw"
    "rq_steps x = map step_response_of (request_steps d (req_id r))"
  using assms by (auto simp: request_response_of_def bind_result_Inr_iff request_steps_def)

lemma added_request_row:
  assumes "add_request sv V c h p t w q d = (Inr (x, b, msg), d')"
  shows "get_req d' (rq_id x) = Some (new_request sv V c h p t w q (encrypted_password V c t))"
proof -
  note a = add_request_commits[OF assms]
  let ?r = "new_request sv V c h p t w q (encrypted_password V c t)"
  have "distinct (map req_id (requests d'))" using integrity_distinct(6)[OF a(1)] .
  moreover have "?r \<in> set (requests d')" by (simp add: a(2))
  ultimately show ?thesis using get_row_mem[of req_id "requests d'" ?r] request_response_simps(1)[OF a(3)] by simp
qed

section \<open>What the worker finds\<close>

lemma new_request_simps [simp]:
  "req_id (new_request sv V c h p t w q e) = rv_fresh V 1" "req_status (new_request sv V c h p t w q e) = Prov_QUEUED"
  "req_requested_by_id (new_request sv V c h p t w q e) = prin_user_id (sv_principal sv)"
  "req_idempotency_key_hash (new_request sv V c h p t w q e) = h"
  "req_request_fingerprint (new_request sv V c h p t w q e) = request_fingerprint (rv_crypto V) c"
  "req_spec_snapshot (new_request sv V c h p t w q e) = spec_snapshot c p t w"
  "req_product_id (new_request sv V c h p t w q e) = prod_id p" "req_template_id (new_request sv V c h p t w q e) = tmpl_id t"
  "req_organization_id (new_request sv V c h p t w q e) = rc_organization_id c"
  "req_target_cluster_id (new_request sv V c h p t w q e) = rc_target_cluster_id c"
  "req_initial_password_ciphertext (new_request sv V c h p t w q e) = map_option enc_ciphertext e"
  "req_initial_password_nonce (new_request sv V c h p t w q e) = map_option enc_nonce e"
  "req_initial_password_key_version (new_request sv V c h p t w q e) = map_option enc_key_version e"
  by (simp_all add: new_request_def)

text \<open>Reading the saved specification: the types the worker's \<open>_int_spec\<close> and \<open>_str_spec\<close> insist on.\<close>

definition int_keys :: "string list" where
  "int_keys = [''cpu_cores'', ''memory_bytes'', ''disk_bytes'', ''source_vmid'']"

definition str_keys :: "string list" where
  "str_keys = [''storage'', ''bridge'', ''cloud_init_username'', ''source_node'', ''source_disk'']"

definition spec_typed :: "dict \<Rightarrow> bool" where
  "spec_typed s \<longleftrightarrow> list_all (\<lambda>k. as_int (dict_get s k) \<noteq> None) int_keys \<and> list_all (\<lambda>k. as_str (dict_get s k) \<noteq> None) str_keys \<and>
     str_list (dict_get s ''ssh_public_keys'') \<noteq> None"

lemma str_list_map: "str_list (JList (map JStr ks)) = Some ks"
proof -
  have "List.map_filter as_str (map JStr ks) = ks" by (induction ks) simp_all
  moreover have "list_all (\<lambda>x. as_str x \<noteq> None) (map JStr ks)" by (simp add: list.pred_map comp_def list_all_iff)
  ultimately show ?thesis by simp
qed

lemma spec_snapshot_typed: "spec_typed (spec_snapshot c p t w)"
  by (simp add: spec_typed_def spec_snapshot_def dict_get_def int_keys_def str_keys_def str_list_map del: str_list.simps)

lemma sorted_new_steps: "sorted (map step_order (new_steps V))"
  by (simp add: new_steps_def new_step_def provisioning_steps_def)

lemma new_steps_rows:
  "map step_name (new_steps V) = provisioning_steps" "list_all (\<lambda>s. step_status s = Step_PENDING) (new_steps V)"
  "list_all (\<lambda>s. step_request_id s = rv_fresh V 1) (new_steps V)"
  by (simp_all add: new_steps_def new_step_def provisioning_steps_def)

lemma added_request_steps:
  assumes "integrity d" "add_request sv V c h p t w q d = (Inr (x, b, msg), d')"
  shows "request_steps d' (rq_id x) = new_steps V"
proof -
  note a = add_request_commits[OF assms(2)]
  have i: "rq_id x = rv_fresh V 1" using request_response_simps(1)[OF a(3)] by simp
  have "distinct (map req_id (requests d'))" using integrity_distinct(6)[OF a(1)] .
  then have "rv_fresh V 1 \<notin> req_id ` set (requests d)" by (simp add: a(2))
  moreover have "set (map step_request_id (steps d)) \<subseteq> set (map req_id (requests d))"
    using assms(1) by (simp only: integrity_def provisioning_fks_def fk_map)
  ultimately have "filter (\<lambda>s. step_request_id s = rv_fresh V 1) (steps d) = []" by (force simp: filter_empty_conv)
  moreover have "filter (\<lambda>s. step_request_id s = rv_fresh V 1) (new_steps V) = new_steps V"
    using new_steps_rows(3)[of V] by (simp add: filter_id_conv list_all_iff)
  ultimately show ?thesis
    using sorted_new_steps by (simp add: request_steps_def i a(2) sort_key_id_if_sorted)
qed

lemma validate_references_rows:
  assumes "validate_references d c = Inr (p, t, w, q)"
  shows "get_product d (rc_product_id c) = Some p" "prod_is_enabled p" "get_template d (rc_template_id c) = Some t"
    "tmpl_is_enabled t" "tmpl_cloud_init_enabled t"
    "\<exists>g. get_row org_id (organizations d) (rc_organization_id c) = Some g \<and> org_is_active g"
    "\<exists>x. get_row cl_id (clusters d) (rc_target_cluster_id c) = Some x \<and> cl_is_active x"
  using assms by (auto simp: validate_references_def Let_def split: option.splits if_splits)

lemma added_request_checks:
  assumes "validate_references d c = Inr (p, t, w, q)" "add_request sv V c h p t w q d = (Inr (x, b, msg), d')"
  shows "validate_request (rq_id x) (start_run d' world) = (Inr [(''validated'', JBool True)], start_run d' world)"
    "check_product (rq_id x) (start_run d' world) = (Inr [(''product_id'', JStr (uuid_str (prod_id p)))], start_run d' world)"
proof -
  note a = add_request_commits[OF assms(2)] and v = validate_references_rows[OF assms(1)]
  note row = added_request_row[OF assms(2)]
  have ids: "prod_id p = rc_product_id c" "tmpl_id t = rc_template_id c"
    using get_row_Some[OF v(1)] get_row_Some[OF v(3)] by simp_all
  have tables: "products d' = products d" "templates d' = templates d" "organizations d' = organizations d"
    "clusters d' = clusters d" by (simp_all add: a(2))
  show "validate_request (rq_id x) (start_run d' world) = (Inr [(''validated'', JBool True)], start_run d' world)"
    using v(6,7) row tables
    by (auto simp: validate_request_def request_row_def bindM_def readM_def returnM_def start_run_def)
  show "check_product (rq_id x) (start_run d' world) = (Inr [(''product_id'', JStr (uuid_str (prod_id p)))], start_run d' world)"
    using v(1-5) row tables ids
    by (auto simp: check_product_def request_row_def bindM_def readM_def returnM_def start_run_def spec_snapshot_def
        dict_get_def)
qed

text \<open>
  C28. What the service accepts the worker can run.  A request that has just been created is queued and
  free to claim, has its fifteen steps, pending, in the order the worker takes them, and a saved
  specification in which every entry the worker reads has the type it asks for; and the worker's
  first two steps, which check it against the catalogue, succeed on it.
\<close>

theorem created_request_is_ready:
  assumes "integrity d" "create_request sv V c key d = (Inr (x, True, msg), d')"
  shows "\<exists>r. get_req d' (rq_id x) = Some r \<and> claimable now r \<and> spec_typed (req_spec_snapshot r) \<and>
    map step_name (request_steps d' (rq_id x)) = provisioning_steps \<and>
    list_all (\<lambda>s. step_status s = Step_PENDING) (request_steps d' (rq_id x)) \<and>
    is_ok (fst (validate_request (rq_id x) (start_run d' world))) \<and> is_ok (fst (check_product (rq_id x) (start_run d' world)))"
proof -
  obtain p t w q where a: "validate_references d c = Inr (p, t, w, q)"
    "add_request sv V c (key_hash (rv_crypto V) (rv_secret_key V) key) p t w q d = (Inr (x, True, msg), d')"
    using create_request_adds[OF assms(2)] by metis
  show ?thesis
    using added_request_row[OF a(2)] added_request_steps[OF assms(1) a(2)] added_request_checks[OF a, of world]
      new_steps_rows[of V] spec_snapshot_typed[of c p t w]
    by (simp add: claimable_def)
qed

section \<open>Idempotency\<close>

lemma added_request_key:
  assumes "find_request_key d (prin_user_id (sv_principal sv)) h = None" "add_request sv V c h p t w q d = (Inr (x, b, msg), d')"
  shows "find_request_key d' (prin_user_id (sv_principal sv)) h = Some (new_request sv V c h p t w q (encrypted_password V c t))"
  using assms(1) add_request_commits(2)[OF assms(2)] by (simp add: find_request_key_def find_append)

lemma os_type_of_value [simp]: "os_type_of (template_os_type_value o') = Inr o'"
  by (cases o') (simp_all add: os_type_of_def)

lemma new_request_response:
  "\<exists>y. request_response_of d pw (new_request sv V c h p t w q e) = Inr y \<and> rq_id y = rv_fresh V 1 \<and> rq_initial_password y = pw"
  by (simp add: request_response_of_def spec_snapshot_def dict_get_or_def)

text \<open>
  Provisioning requests are idempotent under the client's key.  Once a request has been accepted,
  a further call of the same user with the same key changes nothing: the same payload is answered
  with the request already created, without queueing it again and without its initial password; a
  payload with another fingerprint is refused with \<open>IDEMPOTENCY_KEY_REUSED\<close>.
\<close>

theorem provisioning_request_idempotent:
  assumes "create_request sv V c key d = (Inr (x, True, msg), d')" "sv_principal sv2 = sv_principal sv"
    "rv_crypto V2 = rv_crypto V" "rv_secret_key V2 = rv_secret_key V"
  shows "\<exists>r. create_request sv2 V2 c2 key d' = (r, d') \<and>
    (if request_fingerprint (rv_crypto V) c2 = request_fingerprint (rv_crypto V) c
     then \<exists>y. r = Inr (y, False, None) \<and> rq_id y = rq_id x \<and> rq_initial_password y = None
     else r = raise_app 409 ''IDEMPOTENCY_KEY_REUSED'' ''The idempotency key was already used for another request.'')"
proof -
  obtain p t w q where a: "prin_role (sv_principal sv) = SUPER_ADMIN"
    "find_request_key d (prin_user_id (sv_principal sv)) (key_hash (rv_crypto V) (rv_secret_key V) key) = None"
    "add_request sv V c (key_hash (rv_crypto V) (rv_secret_key V) key) p t w q d = (Inr (x, True, msg), d')"
    using create_request_adds[OF assms(1)] by metis
  let ?r = "new_request sv V c (key_hash (rv_crypto V) (rv_secret_key V) key) p t w q (encrypted_password V c t)"
  obtain y where y: "request_response_of d' None ?r = Inr y" "rq_id y = rv_fresh V 1" "rq_initial_password y = None"
    using new_request_response by blast
  have "rq_id x = rv_fresh V 1" using request_response_simps(1)[OF add_request_commits(3)[OF a(3)]] by simp
  with a y added_request_key[OF a(2,3)] assms(2-4) show ?thesis
    by (auto simp: create_request_def provisioning_init_def require_service_role_def Let_def)
qed

section \<open>The initial password\<close>

text \<open>
  The initial password reaches the guest and nobody else.  For a Windows template the response to
  the creation is the one answer that carries the password; the stored row decrypts, with the
  worker's key, cluster and request, to that very password, and any later reading of the request
  through the service leaves it out.
\<close>

theorem initial_password_round_trip:
  assumes "create_request sv V c key d = (Inr (x, True, msg), d')" "rq_os_type x = WINDOWS" "aead_ok (rv_aead V)"
    "pv_secret W = (\<lambda>ct n v cl i. secret_decrypt (rv_aead V) (rv_secret_key V)
       \<lparr>enc_ciphertext = ct, enc_nonce = n, enc_key_version = v\<rparr> cl i)"
  shows "\<exists>s. rq_initial_password x = Some s \<and> fst (decrypt_initial_password W (rq_id x) (start_run d' world)) = Inr s \<and>
    (\<exists>y. get_request sv (rq_id x) d' = Inr y \<and> rq_initial_password y = None)"
proof -
  obtain p t w q where a: "prin_role (sv_principal sv) = SUPER_ADMIN"
    "add_request sv V c (key_hash (rv_crypto V) (rv_secret_key V) key) p t w q d = (Inr (x, True, msg), d')"
    using create_request_adds[OF assms(1)] by metis
  let ?h = "key_hash (rv_crypto V) (rv_secret_key V) key" and ?e = "encrypted_password V c t"
  note r = add_request_commits(3)[OF a(2)] and row = added_request_row[OF a(2)]
  have os: "tmpl_os_type t = WINDOWS"
    using r assms(2) by (auto simp: request_response_of_def spec_snapshot_def dict_get_or_def)
  let ?s = "generate_windows_password (rv_draw V)"
  have pw: "initial_password V t = Some ?s" by (simp add: initial_password_def os)
  have e: "?e = Some (secret_encrypt (rv_aead V) (rv_secret_key V) (rv_nonce V) ?s (rc_target_cluster_id c) (rv_fresh V 1))"
    by (simp add: encrypted_password_def pw)
  have "fst (decrypt_initial_password W (rq_id x) (start_run d' world)) = Inr ?s"
    using row secrets.dec_columns[OF assms(3) password_ascii[of "rv_draw V"]]
    by (simp add: decrypt_initial_password_def request_row_def bindM_def readM_def returnM_def start_run_def e assms(4))
  moreover have "\<exists>y. get_request sv (rq_id x) d' = Inr y \<and> rq_initial_password y = None"
    using row new_request_response[of d' None sv V c ?h p t w q ?e] a(1)
    by (auto simp: get_request_def provisioning_init_def require_service_role_def)
  moreover have "rq_initial_password x = Some ?s" using request_response_simps(2)[OF r] pw by simp
  ultimately show ?thesis by blast
qed

section \<open>Acceptance\<close>

text \<open>With fresh identifiers and a VMID that is not held, the new rows meet every constraint.\<close>

definition fresh_for :: "request_env \<Rightarrow> db \<Rightarrow> bool" where
  "fresh_for V d \<longleftrightarrow> rv_fresh V 1 \<notin> req_id ` set (requests d) \<and> distinct (map step_id (new_steps V)) \<and>
     step_id ` set (new_steps V) \<inter> step_id ` set (steps d) = {}"

definition vmid_free :: "provisioning_request_create \<Rightarrow> db \<Rightarrow> bool" where
  "vmid_free c d \<longleftrightarrow> rc_target_vmid c = None \<or>
     list_all (\<lambda>r. holds_vmid r \<longrightarrow> (req_target_cluster_id r, req_target_vmid r) \<noteq> (rc_target_cluster_id c, rc_target_vmid c)) (requests d)"

lemma fk_append: "fk col (rows @ rows') key targets \<longleftrightarrow> fk col rows key targets \<and> fk col rows' key targets"
  "fk_opt ocol (rows @ rows') key targets \<longleftrightarrow> fk_opt ocol rows key targets \<and> fk_opt ocol rows' key targets"
  by (simp_all add: fk_def fk_opt_def)

lemma fk_more: "fk col rows key targets \<Longrightarrow> fk col rows key (targets @ ts)"
  "fk_opt ocol rows key targets \<Longrightarrow> fk_opt ocol rows key (targets @ ts)"
  by (auto simp: fk_def fk_opt_def list_all_iff split: option.splits)

lemma get_row_image: "get_row key rows i = Some r \<Longrightarrow> i \<in> key ` set rows \<and> key r \<in> key ` set rows"
  using get_row_Some[of key rows i r] by auto

lemma steps_ok_new:
  assumes "integrity d" "fresh_for V d"
  shows "steps_ok (steps d @ new_steps V)"
proof -
  have old: "steps_ok (steps d)" "set (map step_request_id (steps d)) \<subseteq> set (map req_id (requests d))"
    using assms(1) by (simp_all only: integrity_def tables_ok_def provisioning_fks_def fk_map)
  have new: "s \<in> set (new_steps V) \<Longrightarrow> step_request_id s = rv_fresh V 1" for s
    using new_steps_rows(3)[of V] by (simp add: list_all_iff)
  have apart: "step_request_id s \<noteq> step_request_id s'" if "s \<in> set (new_steps V)" "s' \<in> set (steps d)" for s s'
    using that new[OF that(1)] old(2) assms(2) by (force simp: fresh_for_def)
  have "distinct (map step_order (new_steps V))" "distinct (map step_name (new_steps V))"
    by (simp_all add: new_steps_def new_step_def provisioning_steps_def)
  then have "distinct (map (\<lambda>s. (step_request_id s, step_order s)) (new_steps V))"
    "distinct (map (\<lambda>s. (step_request_id s, step_name s)) (new_steps V))"
    by (auto simp: distinct_map inj_on_def)
  with old(1) assms(2) apart show ?thesis by (fastforce simp: steps_ok_def fresh_for_def)
qed

lemma requests_ok_new:
  assumes "integrity d" "fresh_for V d" "vmid_free c d" "find_request_key d (prin_user_id (sv_principal sv)) h = None"
  shows "requests_ok (requests d @ [new_request sv V c h p t w q e])"
proof -
  have "requests_ok (requests d)" using assms(1) by (simp only: integrity_def tables_ok_def)
  moreover have "(prin_user_id (sv_principal sv), h) \<notin> (\<lambda>r. (req_requested_by_id r, req_idempotency_key_hash r)) ` set (requests d)"
    using assms(4) by (auto simp: find_request_key_def find_None_iff)
  moreover have "req_target_vmid (new_request sv V c h p t w q e) = rc_target_vmid c" by (simp add: new_request_def)
  ultimately show ?thesis
    using assms(2,3)
    by (auto simp: requests_ok_def fresh_for_def unique_on_append1 vmid_free_def holds_vmid_def list_all_iff)
qed

lemma integrity_new_request:
  assumes "integrity d" "validate_references d c = Inr (p, t, w, q)" "fresh_for V d" "vmid_free c d"
    "find_request_key d (prin_user_id (sv_principal sv)) h = None" "get_user d (prin_user_id (sv_principal sv)) \<noteq> None"
    "set_option (rc_target_node_id c) \<subseteq> node_id ` set (nodes d)"
  shows "integrity (d\<lparr>requests := requests d @ [new_request sv V c h p t w q e], steps := steps d @ new_steps V\<rparr>)"
proof -
  let ?r = "new_request sv V c h p t w q e"
  have q: "get_row pool_id (ip_pools d) (rc_ip_pool_id c) = Some q"
    using assms(2) by (auto simp: validate_references_def Let_def split: option.splits if_splits)
  note v = validate_references_rows[OF assms(2)]
  have mem: "prin_user_id (sv_principal sv) \<in> user_id ` set (users d)" "prod_id p \<in> prod_id ` set (products d)"
    "tmpl_id t \<in> tmpl_id ` set (templates d)" "pool_id q \<in> pool_id ` set (ip_pools d)"
    "rc_organization_id c \<in> org_id ` set (organizations d)" "rc_target_cluster_id c \<in> cl_id ` set (clusters d)"
    using assms(6) v(6,7) get_row_image[OF v(1)] get_row_image[OF v(3)] get_row_image[OF q]
    by (auto dest: get_row_image)
  have cols: "req_target_node_id ?r = rc_target_node_id c" "req_ip_pool_id ?r = pool_id q" "req_ip_address_id ?r = None"
    "req_workload_id ?r = None" by (simp_all add: new_request_def)
  have row: "fk req_requested_by_id [?r] user_id (users d)" "fk req_product_id [?r] prod_id (products d)"
    "fk req_template_id [?r] tmpl_id (templates d)" "fk req_organization_id [?r] org_id (organizations d)"
    "fk req_target_cluster_id [?r] cl_id (clusters d)" "fk_opt req_target_node_id [?r] node_id (nodes d)"
    "fk req_ip_pool_id [?r] pool_id (ip_pools d)" "fk_opt req_ip_address_id [?r] addr_id (ip_addresses d)"
    "fk_opt req_workload_id [?r] wl_id (workloads d)"
    using mem assms(7) by (auto simp: fk_def fk_opt_def cols split: option.splits)
  have "fk step_request_id (new_steps V) req_id (requests d @ [?r])"
    using new_steps_rows(3)[of V] by (auto simp: fk_def list_all_iff)
  with row steps_ok_new[OF assms(1,3)] requests_ok_new[OF assms(1,3-5)] assms(1) show ?thesis
    by (simp add: integrity_defs fk_append fk_more)
qed

lemma create_request_accepts:
  assumes "integrity d" "prin_role (sv_principal sv) = SUPER_ADMIN" "get_user d (prin_user_id (sv_principal sv)) \<noteq> None"
    "find_request_key d (prin_user_id (sv_principal sv)) (key_hash (rv_crypto V) (rv_secret_key V) key) = None"
    "validate_references d c = Inr (p, t, w, q)" "fresh_for V d" "vmid_free c d"
    "case rc_target_node_id c of None \<Rightarrow> True | Some n \<Rightarrow> is_ok (validate_node d n (rc_target_cluster_id c) p)"
  shows "\<exists>x d'. create_request sv V c key d = (Inr (x, True, Some (rq_id x, uuid_str (rv_fresh V 0))), d') \<and>
    rq_os_type x = tmpl_os_type t"
proof -
  let ?h = "key_hash (rv_crypto V) (rv_secret_key V) key"
  let ?r = "new_request sv V c ?h p t w q (encrypted_password V c t)"
  let ?d = "add_audit_event (sv_ctx sv) (request_event sv c p t (req_id ?r))
    (d\<lparr>requests := requests d @ [?r], steps := steps d @ new_steps V\<rparr>)"
  have node: "set_option (rc_target_node_id c) \<subseteq> node_id ` set (nodes d)"
    using assms(8) by (auto simp: validate_node_def split: option.splits dest: get_row_Some)
  have "integrity ?d" using integrity_new_request[OF assms(1,5-7,4,3) node] by simp
  moreover obtain y where y: "request_response_of ?d (initial_password V t) ?r = Inr y" "rq_id y = rv_fresh V 1"
    using new_request_response by blast
  ultimately have "add_request sv V c ?h p t w q d = (Inr (y, True, Some (rq_id y, uuid_str (rv_fresh V 0))), ?d)"
    by (simp add: add_request_def Let_def commit_in_def) (simp add: new_request_def)
  moreover have "rq_os_type y = tmpl_os_type t"
    using y(1) by (auto simp: request_response_of_def spec_snapshot_def dict_get_or_def)
  ultimately show ?thesis
    using assms(2,4,5,8)
    by (cases "rc_target_node_id c")
      (auto simp: create_request_def provisioning_init_def require_service_role_def Let_def bind_result_def
        split: sum.splits)
qed

section \<open>Instances\<close>

definition demo_source :: workload where
  "demo_source = demo_workload\<lparr>wl_id := 60, wl_vmid := 9000, wl_is_template := True, wl_organization_id := None\<rparr>"

definition demo_offer :: product where
  "demo_offer = \<lparr>prod_id = 61, prod_name = ''small'', prod_cpu_cores = 2, prod_memory_bytes = 1000, prod_disk_bytes = 2000,
     prod_is_enabled = True, prod_created_by_id = 1\<rparr>"

definition demo_image :: template where
  "demo_image = \<lparr>tmpl_id = 62, tmpl_name = ''win'', tmpl_source_workload_id = 60, tmpl_source_disk = ''scsi0'',
     tmpl_default_storage = ''local'', tmpl_default_bridge = ''vmbr0'', tmpl_default_vlan_tag = None,
     tmpl_cloud_init_enabled = True, tmpl_linux_only = False, tmpl_os_type = WINDOWS, tmpl_is_enabled = True,
     tmpl_created_by_id = 1\<rparr>"

definition demo_catalogue :: db where
  "demo_catalogue = demo_db\<lparr>workloads := [demo_workload, demo_source], products := [demo_offer], templates := [demo_image]\<rparr>"

definition demo_aead :: aead where
  "demo_aead = \<lparr>hkdf_sha256 = (\<lambda>_ _ k. k), aesgcm_encrypt = (\<lambda>_ _ p _. p), aesgcm_decrypt = (\<lambda>_ _ c _. Some c)\<rparr>"

definition demo_request_env :: request_env where
  "demo_request_env = \<lparr>rv_crypto = demo_crypto, rv_aead = demo_aead, rv_secret_key = ''s'', rv_fresh = (\<lambda>k. 300 + k),
     rv_draw = (\<lambda>k. k), rv_nonce = [1]\<rparr>"

definition demo_payload :: provisioning_request_create where
  "demo_payload = \<lparr>rc_product_id = 61, rc_template_id = 62, rc_organization_id = 4, rc_target_cluster_id = 3,
     rc_target_node_id = None, rc_target_vmid = None, rc_target_name = ''Web1'', rc_ip_pool_id = pool_id demo_pool,
     rc_ip_address = None, rc_cloud_init = \<lparr>ci_username = ''admin'', ci_ssh_public_keys = []\<rparr>, rc_start_after_create = True\<rparr>"

abbreviation demo_creation :: "accepted_request outcome" where
  "demo_creation \<equiv> create_request (demo_service demo_admin 0) demo_request_env demo_payload ''key'' demo_catalogue"

lemma demo_catalogue_integrity: "integrity demo_catalogue"
  by code_simp

lemma demo_references: "is_ok (validate_references demo_catalogue demo_payload)"
  by code_simp

lemma demo_created:
  obtains x msg d' where "demo_creation = (Inr (x, True, msg), d')" "rq_os_type x = WINDOWS"
proof -
  obtain p t w q where refs: "validate_references demo_catalogue demo_payload = Inr (p, t, w, q)"
    using demo_references by (cases "validate_references demo_catalogue demo_payload") auto
  have "t = demo_image"
    using validate_references_rows(3)[OF refs] by (simp add: demo_catalogue_def demo_payload_def demo_image_def get_row_def)
  have "\<exists>x d'. demo_creation = (Inr (x, True, Some (rq_id x, uuid_str (rv_fresh demo_request_env 0))), d') \<and>
      rq_os_type x = tmpl_os_type t"
    by (rule create_request_accepts[OF demo_catalogue_integrity _ _ _ refs])
      (simp_all add: fresh_for_def vmid_free_def demo_catalogue_def demo_db_def empty_db_def demo_payload_def
        find_request_key_def demo_service_def demo_admin_def demo_user_def get_row_def new_steps_def new_step_def
        provisioning_steps_def demo_request_env_def)
  with that \<open>t = demo_image\<close> show thesis by (auto simp: demo_image_def)
qed

theorem created_request_is_ready_witness:
  "\<exists>x msg d' r. demo_creation = (Inr (x, True, msg), d') \<and> get_req d' (rq_id x) = Some r \<and> spec_typed (req_spec_snapshot r)"
proof -
  obtain x msg d' where c: "demo_creation = (Inr (x, True, msg), d')" by (rule demo_created)
  from created_request_is_ready[OF demo_catalogue_integrity c, where now = 0 and world = "0 :: nat"] c show ?thesis by blast
qed

theorem provisioning_request_idempotent_witness:
  "\<exists>y. fst (create_request (demo_service demo_admin 5) demo_request_env demo_payload ''key'' (snd demo_creation)) = Inr (y, False, None) \<and>
     rq_initial_password y = None"
proof -
  obtain x msg d' where c: "demo_creation = (Inr (x, True, msg), d')" by (rule demo_created)
  from provisioning_request_idempotent[OF c, of "demo_service demo_admin 5" demo_request_env demo_payload] c show ?thesis
    by (auto simp: demo_service_def)
qed

definition demo_worker :: "nat prov_env" where
  "demo_worker = \<lparr>pv_env = \<lparr>re_now = (\<lambda>n. (int n, n + 1)), re_uuid4 = (\<lambda>n. (n, n + 1)), re_sleep = (\<lambda>_ n. n)\<rparr>,
     pv_settings = default_settings (replicate 32 CHR ''k''), pv_injected = None, pv_decrypt = (\<lambda>_ _. None),
     pv_secret = (\<lambda>ct n v cl i. secret_decrypt demo_aead ''s'' \<lparr>enc_ciphertext = ct, enc_nonce = n, enc_key_version = v\<rparr> cl i),
     pv_connect = (\<lambda>_ _ _. Inl (app_error 500 ''E'' [])), pv_draws = (\<lambda>n. ([], n))\<rparr>"

theorem initial_password_round_trip_witness:
  "\<exists>x msg d' s. demo_creation = (Inr (x, True, msg), d') \<and> rq_initial_password x = Some s \<and>
     fst (decrypt_initial_password demo_worker (rq_id x) (start_run d' 0)) = Inr s"
proof -
  obtain x msg d' where c: "demo_creation = (Inr (x, True, msg), d')" "rq_os_type x = WINDOWS" by (rule demo_created)
  from initial_password_round_trip[OF c, of demo_worker 0] c show ?thesis
    by (auto simp: aead_ok_def demo_request_env_def demo_aead_def demo_worker_def)
qed

end
