(* ===== verification/Endpoints.thy ===== *)
theory Endpoints
  imports Ip_Network
begin

text \<open>
  \<open>ProxmoxEndpointPolicy\<close> of src/backend/app/security/endpoints.py, the guard against requests to
  hosts outside the management network, with what it uses of \<open>urllib.parse\<close> and \<open>ipaddress\<close>
  (Python 3.12).  The name service is a parameter: it answers with address texts, or fails.
\<close>

section \<open>\<open>urlsplit\<close>\<close>

text \<open>\<open>s.partition(c)\<close> and \<open>s.rpartition(c)\<close>, as the parts and whether the separator was there.\<close>

definition partition_str :: "char \<Rightarrow> string \<Rightarrow> string \<times> bool \<times> string" where
  "partition_str c s = (takeWhile (\<lambda>x. x \<noteq> c) s, c \<in> set s, drop 1 (dropWhile (\<lambda>x. x \<noteq> c) s))"

definition after_last :: "char \<Rightarrow> string \<Rightarrow> string" where
  "after_last c s = rev (takeWhile (\<lambda>x. x \<noteq> c) (rev s))"

definition is_alpha :: "char \<Rightarrow> bool" where
  "is_alpha c \<longleftrightarrow> (let n = (of_char c :: nat) in 65 \<le> n \<and> n \<le> 90 \<or> 97 \<le> n \<and> n \<le> 122)"

definition scheme_char :: "char \<Rightarrow> bool" where
  "scheme_char c \<longleftrightarrow> is_alpha c \<or> digit_val c \<noteq> None \<or> c \<in> {CHR ''+'', CHR ''-'', CHR ''.''}"

definition clean_url :: "string \<Rightarrow> string" where
  "clean_url url = filter (\<lambda>c. (of_char c :: nat) \<notin> {9, 10, 13}) (dropWhile (\<lambda>c. (of_char c :: nat) \<le> 32) url)"

definition split_scheme :: "string \<Rightarrow> string \<times> string" where
  "split_scheme url =
     (case partition_str (CHR '':'') url of (s, found, rest) \<Rightarrow>
        if found \<and> s \<noteq> [] \<and> is_alpha (hd s) \<and> list_all scheme_char s then (str_lower s, rest) else ([], url))"

definition split_netloc :: "string \<Rightarrow> string" where
  "split_netloc url = (if take 2 url = ''//''
     then takeWhile (\<lambda>c. c \<notin> {CHR ''/'', CHR ''?'', CHR ''#''}) (drop 2 url) else [])"

definition hex_string :: "string \<Rightarrow> bool" where
  "hex_string s \<longleftrightarrow> s \<noteq> [] \<and> list_all (\<lambda>c. hex_val c \<noteq> None) s"

text \<open>\<open>_check_bracketed_host\<close>: \<open>v<hex>.<anything>\<close>, or an IPv6 address.\<close>

definition bracketed_ok :: "string \<Rightarrow> bool" where
  "bracketed_ok h = (case h of
     c # cs \<Rightarrow> if c = CHR ''v'' then (case partition_str (CHR ''.'') cs of (a, found, b) \<Rightarrow> found \<and> hex_string a \<and> b \<noteq> [])
       else ipv4_int h = None \<and> ipv6_int h \<noteq> None
   | [] \<Rightarrow> False)"

definition netloc_ok :: "string \<Rightarrow> bool" where
  "netloc_ok n \<longleftrightarrow> (CHR ''['' \<in> set n \<longleftrightarrow> CHR '']'' \<in> set n) \<and>
     (CHR ''['' \<in> set n \<longrightarrow>
        bracketed_ok (fst (partition_str (CHR '']'') (snd (snd (partition_str (CHR ''['') n))))))"

definition hostinfo :: "string \<Rightarrow> string \<times> string" where
  "hostinfo n =
     (let h = after_last (CHR ''@'') n in
      case partition_str (CHR ''['') h of (_, open_br, bracketed) \<Rightarrow>
        if open_br
        then (case partition_str (CHR '']'') bracketed of (host, _, port) \<Rightarrow>
                (host, snd (snd (partition_str (CHR '':'') port))))
        else (case partition_str (CHR '':'') h of (host, _, port) \<Rightarrow> (host, port)))"

text \<open>\<open>parsed.hostname\<close>: lower case but for a zone identifier.\<close>

definition url_hostname :: "string \<Rightarrow> string option" where
  "url_hostname n = (case hostinfo n of (host, _) \<Rightarrow>
     if host = [] then None
     else (case partition_str (CHR ''%'') host of (h, percent, zone) \<Rightarrow>
       Some (str_lower h @ (if percent then ''%'' else []) @ zone)))"

definition url_port :: "string \<Rightarrow> int option result" where
  "url_port n = (case hostinfo n of (_, port) \<Rightarrow>
     if port = [] then Inr None
     else (case digits_value digit_val 10 0 port of
       None \<Rightarrow> Inl (PyError ''ValueError'')
     | Some p \<Rightarrow> if p \<le> 65535 then Inr (Some p) else Inl (PyError ''ValueError'')))"

section \<open>Classes of addresses\<close>

definition v6_net :: "int \<Rightarrow> nat \<Rightarrow> network" where
  "v6_net hextet p = mk_network V6 (hextet * 2 ^ 112) p"

definition reserved_v6 :: "network list" where
  "reserved_v6 = [v6_net 0 8, v6_net 0x100 8, v6_net 0x200 7, v6_net 0x400 6, v6_net 0x800 5, v6_net 0x1000 4,
     v6_net 0x4000 3, v6_net 0x6000 3, v6_net 0x8000 3, v6_net 0xA000 3, v6_net 0xC000 3, v6_net 0xE000 4,
     v6_net 0xF000 5, v6_net 0xF800 6, v6_net 0xFE00 9]"

definition v4_net :: "int \<Rightarrow> int \<Rightarrow> nat \<Rightarrow> network" where
  "v4_net a b p = mk_network V4 (a * 2 ^ 24 + b * 2 ^ 16) p"

definition forbidden_v4 :: "int \<Rightarrow> bool" where
  "forbidden_v4 n \<longleftrightarrow> n = 0 \<or> in_network (Address V4 n) (v4_net 127 0 8) \<or> in_network (Address V4 n) (v4_net 169 254 16) \<or>
     in_network (Address V4 n) (v4_net 224 0 4) \<or> in_network (Address V4 n) (v4_net 240 0 4)"

definition forbidden_v6 :: "int \<Rightarrow> bool" where
  "forbidden_v6 n \<longleftrightarrow> n = 0 \<or> n = 1 \<or> in_network (Address V6 n) (v6_net 0xFE80 10) \<or> in_network (Address V6 n) (v6_net 0xFF00 8) \<or>
     list_ex (in_network (Address V6 n)) reserved_v6"

definition ipv4_mapped :: "int \<Rightarrow> int option" where
  "ipv4_mapped n = (if n div 2 ^ 32 = 0xFFFF then Some (n mod 2 ^ 32) else None)"

text \<open>
  \<open>_always_forbidden\<close>.  Releases of the library differ on an IPv4 address mapped into IPv6: the later
  ones (\<open>mapped\<close>) class it by the embedded address, the earlier ones as a reserved IPv6 address.
\<close>

definition always_forbidden :: "bool \<Rightarrow> address \<Rightarrow> bool" where
  "always_forbidden mapped a = (case a of
     Address V4 n \<Rightarrow> forbidden_v4 n
   | Address V6 n \<Rightarrow> (case (mapped, ipv4_mapped n) of (True, Some m) \<Rightarrow> forbidden_v4 m | _ \<Rightarrow> forbidden_v6 n))"

section \<open>The policy\<close>

record endpoint_policy =
  ep_allowed_hosts :: "string list"
  ep_allowed_networks :: "network list"
  ep_resolver :: "string \<Rightarrow> int \<Rightarrow> string list option" \<comment> \<open>\<open>None\<close> for an \<open>OSError\<close>\<close>
  ep_mapped :: bool

definition rstrip_dots :: "string \<Rightarrow> string" where
  "rstrip_dots s = rev (dropWhile (\<lambda>c. c = CHR ''.'') (rev s))"

definition normalize_host :: "string \<Rightarrow> string" where
  "normalize_host h = rstrip_dots (str_lower (str_strip h))"

text \<open>The constructor; \<open>ValueError\<close> for a network that cannot be parsed.\<close>

definition endpoint_policy_init ::
    "string list \<Rightarrow> string list \<Rightarrow> (string \<Rightarrow> int \<Rightarrow> string list option) \<Rightarrow> bool \<Rightarrow> endpoint_policy result" where
  "endpoint_policy_init hosts nets resolver mapped =
     bind_result (map_result (\<lambda>s. case parse_network s of Some n \<Rightarrow> Inr n | None \<Rightarrow> Inl (PyError ''ValueError'')) nets)
       (\<lambda>ns. Inr \<lparr>ep_allowed_hosts = map normalize_host hosts, ep_allowed_networks = ns, ep_resolver = resolver,
               ep_mapped = mapped\<rparr>)"

definition not_allowed :: exn where
  "not_allowed = App (app_error 422 ''PVE_ENDPOINT_NOT_ALLOWED''
     ''The Proxmox endpoint is outside the configured management network policy.'')"

definition unresolvable :: exn where
  "unresolvable = App (app_error 422 ''PVE_ENDPOINT_UNRESOLVABLE''
     ''The Proxmox endpoint could not be resolved safely.'')"

definition endpoint_addresses :: "endpoint_policy \<Rightarrow> string \<Rightarrow> int \<Rightarrow> address list result" where
  "endpoint_addresses P host port = (case parse_address host of
     Some a \<Rightarrow> Inr [a]
   | None \<Rightarrow> (case ep_resolver P host port of
       None \<Rightarrow> Inl unresolvable
     | Some values \<Rightarrow> map_result (\<lambda>s. case parse_address s of Some a \<Rightarrow> Inr a | None \<Rightarrow> Inl unresolvable) values))"

definition check_addresses :: "endpoint_policy \<Rightarrow> string \<Rightarrow> address list \<Rightarrow> unit result" where
  "check_addresses P host as =
     (if as = [] \<or> list_ex (always_forbidden (ep_mapped P)) as then Inl not_allowed
      else if host \<notin> set (ep_allowed_hosts P) \<and>
              \<not> list_all (\<lambda>a. list_ex (in_network a) (ep_allowed_networks P)) as then Inl not_allowed
      else Inr ())"

definition validate_endpoint :: "endpoint_policy \<Rightarrow> string \<Rightarrow> unit result" where
  "validate_endpoint P endpoint =
     (case split_scheme (clean_url endpoint) of (scheme, rest) \<Rightarrow>
      let netloc = split_netloc rest in
      if \<not> netloc_ok netloc then Inl (PyError ''ValueError'')
      else (case url_hostname netloc of
          None \<Rightarrow> Inl not_allowed
        | Some h \<Rightarrow>
          if scheme \<noteq> ''https'' then Inl not_allowed
          else
            let host = normalize_host h in
            bind_result (url_port netloc) (\<lambda>port.
            bind_result (endpoint_addresses P host (case port of Some p \<Rightarrow> if p = 0 then 443 else p | None \<Rightarrow> 443))
              (check_addresses P host))))"

lemma endpoint_examples:
  "url_hostname (split_netloc (snd (split_scheme (clean_url ''https://PVE.example:8006/api2'')))) = Some ''pve.example''"
  "url_port (split_netloc (snd (split_scheme (clean_url ''https://PVE.example:8006/api2'')))) = Inr (Some 8006)"
  "url_hostname (split_netloc (snd (split_scheme (clean_url ''https://u@[fe80::1%Eth0]:8006'')))) = Some ''fe80::1%Eth0''"
  by code_simp+

section \<open>What a validated endpoint can reach\<close>

text \<open>
  Addresses no endpoint may have, as numbers: unspecified, loopback, link-local, multicast and
  reserved IPv4 addresses, also when mapped into IPv6, and their IPv6 counterparts.
\<close>

definition local_v4 :: "int \<Rightarrow> bool" where
  "local_v4 n \<longleftrightarrow> n = 0 \<or> n div 2 ^ 24 = 127 \<or> n div 2 ^ 16 = 169 * 256 + 254 \<or> 224 \<le> n div 2 ^ 24"

definition local_address :: "address \<Rightarrow> bool" where
  "local_address a = (case a of
     Address V4 n \<Rightarrow> local_v4 n
   | Address V6 n \<Rightarrow> n \<in> {0, 1} \<or> n div 2 ^ 118 = 0xFE80 div 64 \<or> n div 2 ^ 120 = 0xFF \<or>
       n div 2 ^ 32 = 0xFFFF \<and> local_v4 (n mod 2 ^ 32))"

lemma in_mk_network:
  assumes "p \<le> max_prefixlen v" "0 \<le> n" "n < 2 ^ max_prefixlen v" "0 \<le> b" "b < 2 ^ p"
  shows "in_network (Address v n) (mk_network v (b * 2 ^ (max_prefixlen v - p)) p) \<longleftrightarrow> n div 2 ^ (max_prefixlen v - p) = b"
proof -
  let ?s = "2 ^ (max_prefixlen v - p) :: int"
  have "b * ?s < 2 ^ p * ?s" using assms(5) by simp
  also have "(2 :: int) ^ p * ?s = 2 ^ max_prefixlen v" using assms(1) by (simp flip: power_add)
  finally have "b * ?s AND netmask v p = b * ?s" using and_netmask[OF assms(1), of "b * ?s"] assms(4) by simp
  moreover have "n AND netmask v p = n div ?s * ?s" using and_netmask[OF assms(1-3)] by (simp add: minus_mod_eq_div_mult)
  ultimately show ?thesis by (simp add: in_network_def mk_network_def)
qed

lemma forbidden_local_v4: "0 \<le> n \<Longrightarrow> n < 2 ^ 32 \<Longrightarrow> local_v4 n \<Longrightarrow> forbidden_v4 n"
proof -
  assume n: "0 \<le> n" "n < 2 ^ 32" and l: "local_v4 n"
  have nets: "in_network (Address V4 n) (v4_net 127 0 8) \<longleftrightarrow> n div 2 ^ 24 = 127"
    "in_network (Address V4 n) (v4_net 169 254 16) \<longleftrightarrow> n div 2 ^ 16 = 43518"
    "in_network (Address V4 n) (v4_net 224 0 4) \<longleftrightarrow> n div 2 ^ 28 = 14"
    "in_network (Address V4 n) (v4_net 240 0 4) \<longleftrightarrow> n div 2 ^ 28 = 15"
    using in_mk_network[of 8 V4 n 127] in_mk_network[of 16 V4 n 43518] in_mk_network[of 4 V4 n 14]
      in_mk_network[of 4 V4 n 15] n by (simp_all add: v4_net_def)
  have "n div 2 ^ 24 < 256" using n(2) by (simp add: div_less_iff_less_mult)
  then have "224 \<le> n div 2 ^ 24 \<Longrightarrow> n div 2 ^ 28 \<in> {14, 15}"
    using zdiv_zmult2_eq[of "2 ^ 4" n "2 ^ 24"] by auto
  with l show ?thesis by (auto simp: forbidden_v4_def nets local_v4_def)
qed

lemma forbidden_local_v6:
  assumes "0 \<le> n" "n < 2 ^ 128"
  shows "n \<in> {0, 1} \<or> n div 2 ^ 118 = 1018 \<or> n div 2 ^ 120 = 255 \<or> n div 2 ^ 32 = 0xFFFF \<Longrightarrow> forbidden_v6 n"
proof -
  have nets: "in_network (Address V6 n) (v6_net 0xFE80 10) \<longleftrightarrow> n div 2 ^ 118 = 1018"
    "in_network (Address V6 n) (v6_net 0xFF00 8) \<longleftrightarrow> n div 2 ^ 120 = 255"
    "in_network (Address V6 n) (v6_net 0 8) \<longleftrightarrow> n div 2 ^ 120 = 0"
    using in_mk_network[of 10 V6 n 1018] in_mk_network[of 8 V6 n 255] in_mk_network[of 8 V6 n 0] assms
    by (simp_all add: v6_net_def)
  have "n div 2 ^ 32 = 0xFFFF \<Longrightarrow> n div 2 ^ 120 = 0" using zdiv_zmult2_eq[of "2 ^ 88" n "2 ^ 32"] by simp
  then show "n \<in> {0, 1} \<or> n div 2 ^ 118 = 1018 \<or> n div 2 ^ 120 = 255 \<or> n div 2 ^ 32 = 0xFFFF \<Longrightarrow> forbidden_v6 n"
    by (auto simp: forbidden_v6_def nets reserved_v6_def)
qed

lemma local_forbidden:
  assumes "wf_address a" "local_address a"
  shows "always_forbidden m a"
proof (cases a)
  case (Address v n)
  show ?thesis
  proof (cases v)
    case V4
    with assms Address show ?thesis
      using forbidden_local_v4[of n] by (simp add: local_address_def always_forbidden_def wf_address_def)
  next
    case V6
    have "0 \<le> n mod 2 ^ 32" "n mod 2 ^ 32 < 2 ^ 32" by simp_all
    moreover have "n div 2 ^ 32 = 0xFFFF \<Longrightarrow> n \<notin> {0, 1} \<and> n div 2 ^ 118 \<noteq> 1018 \<and> n div 2 ^ 120 \<noteq> 255"
      by auto
    ultimately show ?thesis
      using assms Address V6 forbidden_local_v6[of n] forbidden_local_v4[of "n mod 2 ^ 32"]
      by (auto simp: local_address_def always_forbidden_def wf_address_def ipv4_mapped_def split: bool.splits)
  qed
qed

lemma endpoint_addresses_wf: "endpoint_addresses P h p = Inr as \<Longrightarrow> list_all wf_address as"
proof -
  assume "endpoint_addresses P h p = Inr as"
  moreover have "list_all wf_address as"
    if "map_result (\<lambda>s. case parse_address s of Some a \<Rightarrow> Inr a | None \<Rightarrow> Inl unresolvable) vs = Inr as" for vs
    using map_result_Inr[OF that]
    by (induction rule: list_all2_induct) (auto split: option.splits intro: parse_address_wf)
  ultimately show ?thesis
    by (auto simp: endpoint_addresses_def split: option.splits intro: parse_address_wf)
qed

text \<open>
  C39. An endpoint that passes the policy is an https URL whose host has at least one address, none of
  them unspecified, loopback, link-local, multicast or reserved, also not as an IPv4 address mapped
  into IPv6, in whichever way the library classes those; and the host is on the list of allowed
  hosts or every address lies in an allowed network.
\<close>

theorem validated_endpoint_is_safe:
  assumes "validate_endpoint P url = Inr ()"
  shows "\<exists>rest h port as. split_scheme (clean_url url) = (''https'', rest) \<and> url_hostname (split_netloc rest) = Some h \<and>
    endpoint_addresses P (normalize_host h) port = Inr as \<and> as \<noteq> [] \<and> \<not> list_ex local_address as \<and>
    (normalize_host h \<in> set (ep_allowed_hosts P) \<or> list_all (\<lambda>a. list_ex (in_network a) (ep_allowed_networks P)) as)"
proof -
  obtain scheme rest where s: "split_scheme (clean_url url) = (scheme, rest)" by fastforce
  with assms obtain h where h: "url_hostname (split_netloc rest) = Some h" and https: "scheme = ''https''"
    by (auto simp: validate_endpoint_def Let_def split: option.splits if_splits)
  from assms s h https obtain port where "bind_result (endpoint_addresses P (normalize_host h) port)
      (check_addresses P (normalize_host h)) = Inr ()"
    by (auto simp: validate_endpoint_def Let_def bind_result_Inr_iff split: if_splits)
  then obtain as where as: "endpoint_addresses P (normalize_host h) port = Inr as"
    "check_addresses P (normalize_host h) as = Inr ()" by (auto simp: bind_result_Inr_iff)
  have "\<not> list_ex local_address as"
    using endpoint_addresses_wf[OF as(1)] local_forbidden as(2)
    by (auto simp: check_addresses_def list_all_iff list_ex_iff split: if_splits)
  with s h https as show ?thesis by (auto simp: check_addresses_def split: if_splits)
qed

definition demo_policy :: endpoint_policy where
  "demo_policy = \<lparr>ep_allowed_hosts = [], ep_allowed_networks = [mk_network V4 (10 * 2 ^ 24) 8],
     ep_resolver = (\<lambda>h p. if h = ''pve.lab'' then Some [''10.0.0.7''] else None), ep_mapped = True\<rparr>"

theorem validated_endpoint_is_safe_witness:
  "\<exists>rest h port as. split_scheme (clean_url ''https://pve.lab:8006/'') = (''https'', rest) \<and>
     url_hostname (split_netloc rest) = Some h \<and>
     endpoint_addresses demo_policy (normalize_host h) port = Inr as \<and> as \<noteq> [] \<and> \<not> list_ex local_address as"
proof -
  have "validate_endpoint demo_policy ''https://pve.lab:8006/'' = Inr ()" by code_simp
  from validated_endpoint_is_safe[OF this] show ?thesis by blast
qed

end
