(* ===== verification/Backup_Api.thy ===== *)
theory Backup_Api
  imports Power_Runner
begin

text \<open>
  The ground of the two workers for backups and restores
  (src/backend/app/services/backup_runner.py, restore_runner.py): their rows, the lease, the pause
  between two polls, and the access to the stored credential.  Their loops and their claim of an
  operation are those of the power worker (theory \<open>Power_Runner\<close>).

  Then what the backup worker reads from Proxmox once a backup is done
  (src/backend/app/services/backup_runner.py): the bytes sent to the backup server, from the log of
  the task, and the newest snapshot, from the content of the storage.  Strings are ASCII, as in the
  rest of the development, so that \<open>casefold\<close> is \<open>lower\<close>.
\<close>

section \<open>Rows\<close>

definition put_backup_run :: "uuid \<Rightarrow> (backup_run \<Rightarrow> backup_run) \<Rightarrow> db \<Rightarrow> db" where
  "put_backup_run i f d = d\<lparr>backup_runs := modify_row br_id i f (backup_runs d)\<rparr>"

definition put_restore_run :: "uuid \<Rightarrow> (restore_run \<Rightarrow> restore_run) \<Rightarrow> db \<Rightarrow> db" where
  "put_restore_run i f d = d\<lparr>restore_runs := modify_row rr_id i f (restore_runs d)\<rparr>"

definition put_target :: "uuid \<Rightarrow> (backup_target \<Rightarrow> backup_target) \<Rightarrow> db \<Rightarrow> db" where
  "put_target i f d = d\<lparr>backup_targets := modify_row bt_id i f (backup_targets d)\<rparr>"

abbreviation get_backup_run :: "db \<Rightarrow> uuid \<Rightarrow> backup_run option" where
  "get_backup_run d i \<equiv> get_row br_id (backup_runs d) i"

abbreviation get_target :: "db \<Rightarrow> uuid \<Rightarrow> backup_target option" where
  "get_target d i \<equiv> get_row bt_id (backup_targets d) i"

definition backup_of_operation :: "db \<Rightarrow> uuid \<Rightarrow> backup_run option" where
  "backup_of_operation d i = find (\<lambda>r. br_operation_id r = i) (backup_runs d)"

definition restore_of_operation :: "db \<Rightarrow> uuid \<Rightarrow> restore_run option" where
  "restore_of_operation d i = find (\<lambda>r. rr_operation_id r = i) (restore_runs d)"

section \<open>Shared steps\<close>

text \<open>\<open>lease_start is not None and lease_start > now - timedelta(seconds=operation_lease_seconds)\<close>\<close>

definition lease_runs :: "settings \<Rightarrow> operation \<Rightarrow> datetime \<Rightarrow> bool" where
  "lease_runs S op now =
     (case (case op_heartbeat_at op of Some t \<Rightarrow> Some t | None \<Rightarrow> op_started_at op) of
        Some t \<Rightarrow> t > now - seconds (operation_lease_seconds S) | None \<Rightarrow> False)"

definition pauseM :: "'w runner_env \<Rightarrow> settings \<Rightarrow> ('w, unit) rm" where
  "pauseM E S = thenM commitM (sleepM E (pve_task_poll_interval_seconds S))"

text \<open>\<open>try: x = await call() except AppError as exc: ...\<close>, the answer or the error as a value.\<close>

definition attemptM :: "('w, 'a) rm \<Rightarrow> ('w, app_error + 'a) rm" where
  "attemptM m = catch_app (bindM m (\<lambda>x. returnM (Inr x))) (\<lambda>e. returnM (Inl e))"

lemma wp_attemptM: "wp (attemptM m) Q E = wp m (\<lambda>x. Q (Inr x)) (\<lambda>e. case e of App a \<Rightarrow> Q (Inl a) | _ \<Rightarrow> E e)"
  by (simp add: attemptM_def wp_rules cong: exn.case_cong)

lemma keeps_attemptM: "keeps I m \<Longrightarrow> keeps I (attemptM m)"
  unfolding attemptM_def by (intro keeps_catch_app keeps_bindM keeps_returnM)

definition poll_retryable :: "app_error \<Rightarrow> bool" where
  "poll_retryable e \<longleftrightarrow> code e \<in> {''CLUSTER_UNREACHABLE'', ''PVE_UPSTREAM_ERROR'', ''PVE_TIMEOUT''}"

definition active_credential :: "db \<Rightarrow> uuid \<Rightarrow> cluster_credential option" where
  "active_credential d i = find (\<lambda>c. cred_cluster_id c = i \<and> cred_is_active c) (credentials d)"

definition decryption_failed :: app_error where
  "decryption_failed = app_error 500 ''CREDENTIAL_DECRYPTION_FAILED''
     ''The stored Proxmox credential could not be decrypted.''"

text \<open>
  \<open>_open_client\<close> once the cluster and its credential are there: decrypt, then build the client.
\<close>

definition connect_with ::
    "(cluster_credential \<Rightarrow> uuid \<Rightarrow> string option) \<Rightarrow> (cluster \<Rightarrow> string \<Rightarrow> string \<Rightarrow> app_error + 'a) \<Rightarrow> cluster \<Rightarrow>
     cluster_credential \<Rightarrow> 'a result" where
  "connect_with decrypt connect cl cr = (case decrypt cr (cl_id cl) of
     None \<Rightarrow> Inl (App decryption_failed)
   | Some secret \<Rightarrow> (case connect cl (cred_token_identifier cr) secret of Inl e \<Rightarrow> Inl (App e) | Inr api \<Rightarrow> Inr api))"

definition job_task :: "uuid \<Rightarrow> operation \<Rightarrow> uuid \<Rightarrow> workload \<Rightarrow> string \<Rightarrow> string \<Rightarrow> string \<Rightarrow> datetime \<Rightarrow> pve_task" where
  "job_task i op cluster_id w step node upid now = \<lparr>pt_id = i, pt_operation_id = op_id op,
     pt_cluster_id = cluster_id, pt_workload_id = wl_id w, pt_step_name = step, pt_upid = upid,
     pt_status = ''RUNNING'', pt_pve_node = node, pt_pve_exit_status = None,
     pt_submitted_at = now, pt_last_polled_at = None, pt_completed_at = None, pt_poll_attempts = 0,
     pt_error_code = None, pt_error_summary = None\<rparr>"

text \<open>The writes at the start of every poll, and the last ones of a task that has stopped.\<close>

definition polled :: "operation \<Rightarrow> pve_task \<Rightarrow> datetime \<Rightarrow> db \<Rightarrow> db" where
  "polled op t now d = put_op (op_id op) (\<lambda>x. x\<lparr>op_heartbeat_at := Some now\<rparr>)
     (put_task (pt_id t) (\<lambda>x. x\<lparr>pt_poll_attempts := pt_poll_attempts x + 1, pt_last_polled_at := Some now\<rparr>) d)"

definition task_exit :: "json \<Rightarrow> datetime \<Rightarrow> pve_task \<Rightarrow> pve_task" where
  "task_exit status now x = x\<lparr>pt_pve_exit_status := (if status = JNull then None else Some (py_str status)),
     pt_completed_at := Some now\<rparr>"

section \<open>The polling loop\<close>

text \<open>
  The two workers' \<open>_poll\<close> is the same loop.  What differs is what is done when the status cannot be
  read (\<open>failed\<close>), when the task has stopped (\<open>stopped\<close>) and when time or attempts are used up
  (\<open>late\<close>).  \<open>fuel\<close> bounds the turns; \<open>job_poll\<close> starts with the attempts that are left.
\<close>

definition job_turn ::
    "'w runner_env \<Rightarrow> settings \<Rightarrow> operation \<Rightarrow> pve_task \<Rightarrow> (string \<Rightarrow> string \<Rightarrow> 'w \<Rightarrow> dict result \<times> 'w) \<Rightarrow>
     (app_error \<Rightarrow> ('w, unit) rm) \<Rightarrow> (dict \<Rightarrow> ('w, unit) rm) \<Rightarrow> ('w, unit) rm \<Rightarrow> ('w, unit) rm" where
  "job_turn E S op t get_status failed stopped again =
     bindM (nowM E) (\<lambda>now.
     thenM (writeM (polled op t now))
     (bindM (attemptM (callM ''get_task_status'' [JStr (pt_pve_node t), JStr (pt_upid t)]
               (get_status (pt_pve_node t) (pt_upid t)))) (\<lambda>answer.
      case answer of
        Inl e \<Rightarrow> if poll_retryable e then thenM (pauseM E S) again else failed e
      | Inr status \<Rightarrow>
          if dict_get status ''status'' = JStr ''running'' then thenM (pauseM E S) again else stopped status)))"

fun job_loop ::
    "nat \<Rightarrow> 'w runner_env \<Rightarrow> settings \<Rightarrow> operation \<Rightarrow> pve_task \<Rightarrow> (string \<Rightarrow> string \<Rightarrow> 'w \<Rightarrow> dict result \<times> 'w) \<Rightarrow>
     (app_error \<Rightarrow> ('w, unit) rm) \<Rightarrow> (dict \<Rightarrow> ('w, unit) rm) \<Rightarrow> ('w, unit) rm \<Rightarrow> datetime \<Rightarrow> ('w, unit) rm" where
  "job_loop fuel E S op t get_status failed stopped late deadline =
     bindM (nowM E) (\<lambda>now.
     bindM (read_attempts (pt_id t)) (\<lambda>k.
       if now < deadline \<and> k < pve_task_max_poll_attempts S
       then (case fuel of
           0 \<Rightarrow> raiseM (PyError ''out of fuel'')
         | Suc n \<Rightarrow> job_turn E S op t get_status failed stopped
                     (job_loop n E S op t get_status failed stopped late deadline))
       else late))"

declare job_loop.simps [simp del]

definition job_poll ::
    "'w runner_env \<Rightarrow> settings \<Rightarrow> operation \<Rightarrow> pve_task \<Rightarrow> (string \<Rightarrow> string \<Rightarrow> 'w \<Rightarrow> dict result \<times> 'w) \<Rightarrow>
     (app_error \<Rightarrow> ('w, unit) rm) \<Rightarrow> (dict \<Rightarrow> ('w, unit) rm) \<Rightarrow> ('w, unit) rm \<Rightarrow> ('w, unit) rm" where
  "job_poll E S op t get_status failed stopped late =
     bindM (nowM E) (\<lambda>now.
     bindM (read_attempts (pt_id t)) (\<lambda>k.
       job_loop (nat (pve_task_max_poll_attempts S - k)) E S op t get_status failed stopped late
         (now + seconds (pve_task_timeout_seconds S))))"

definition task_late :: "pve_task \<Rightarrow> ('w, unit) rm" where
  "task_late t = writeM (put_task (pt_id t) (\<lambda>x. x\<lparr>pt_status := ''TIMEOUT'', pt_error_code := Some ''PVE_TASK_TIMEOUT''\<rparr>))"

section \<open>Python values\<close>

text \<open>
  The value of a number: an \<open>int\<close>, a \<open>bool\<close> (which is an \<open>int\<close>), or a float read from its \<open>repr\<close>;
  \<open>None\<close> for infinities, NaN and everything that is no number.
\<close>

definition decimal_digits :: "string \<Rightarrow> int" where
  "decimal_digits s = foldl (\<lambda>n c. 10 * n + (of_char c - 48)) 0 s"

definition scaled :: "int \<Rightarrow> int \<Rightarrow> rat" where
  "scaled n e = (if 0 \<le> e then of_int n * 10 ^ nat e else of_int n / 10 ^ nat (- e))"

definition exponent_value :: "string \<Rightarrow> int option" where
  "exponent_value s = (case s of
     [] \<Rightarrow> Some 0
   | e # ds \<Rightarrow>
       if e \<noteq> CHR ''e'' \<or> ds = [] then None
       else if hd ds = CHR ''-'' then Some (- decimal_digits (tl ds))
       else if hd ds = CHR ''+'' then Some (decimal_digits (tl ds))
       else Some (decimal_digits ds))"

definition float_value :: "string \<Rightarrow> rat option" where
  "float_value s =
     (let neg = (is_prefix ''-'' s); body = (if neg then tl s else s);
          ip = takeWhile is_digit body; rest = dropWhile is_digit body;
          fp = (if is_prefix ''.'' rest then takeWhile is_digit (tl rest) else []);
          rest' = (if is_prefix ''.'' rest then dropWhile is_digit (tl rest) else rest)
      in if ip = [] then None
         else map_option (\<lambda>e. (if neg then -1 else 1) * scaled (decimal_digits (ip @ fp)) (e - int (length fp)))
                (exponent_value rest'))"

fun num_value :: "json \<Rightarrow> rat option" where
  "num_value (JInt i) = Some (of_int i)"
| "num_value (JBool b) = Some (if b then 1 else 0)"
| "num_value (JFloat s) = float_value s"
| "num_value _ = None"

fun hashable :: "json \<Rightarrow> bool" where
  "hashable (JList _) = False"
| "hashable (JObj _) = False"
| "hashable _ = True"

definition py_eq :: "json \<Rightarrow> json \<Rightarrow> bool" where
  "py_eq a b \<longleftrightarrow> a = b \<or> num_value a \<noteq> None \<and> num_value a = num_value b"

text \<open>\<open>value in {a, b, ...}\<close>, where a list or a dict has no hash; and \<open>any(...)\<close> of a test that may raise.\<close>

definition py_in_set :: "json \<Rightarrow> json list \<Rightarrow> bool result" where
  "py_in_set v xs = (if hashable v then Inr (list_ex (py_eq v) xs) else Inl (PyError ''TypeError''))"

fun any_result :: "('a \<Rightarrow> bool result) \<Rightarrow> 'a list \<Rightarrow> bool result" where
  "any_result f [] = Inr False"
| "any_result f (x # xs) = bind_result (f x) (\<lambda>b. if b then Inr True else any_result f xs)"

lemma any_result_True: "any_result f xs = Inr True \<Longrightarrow> \<exists>x \<in> set xs. f x = Inr True"
  by (induction xs) (auto simp: bind_result_Inr_iff split: if_splits)

lemma any_result_False: "any_result f xs = Inr False \<longleftrightarrow> list_all (\<lambda>x. f x = Inr False) xs"
  by (induction xs) (auto simp: bind_result_Inr_iff split: if_splits)

text \<open>\<open>item.get("vmid") in {vmid, str(vmid)}\<close>\<close>

definition vmid_matches :: "int \<Rightarrow> json \<Rightarrow> bool result" where
  "vmid_matches vmid v = py_in_set v [JInt vmid, JStr (int_str vmid)]"

definition node_online :: "string \<Rightarrow> dict list \<Rightarrow> bool" where
  "node_online node items \<longleftrightarrow> list_ex (\<lambda>item. dict_get item ''node'' = JStr node \<and>
     str_lower (py_str (dict_get_or item ''status'' (JStr []))) = ''online'') items"

section \<open>Sizes in a log\<close>

text \<open>A \<open>Decimal\<close>: a coefficient and a number of decimal places.\<close>

record decimal =
  dec_coeff :: int
  dec_places :: nat

text \<open>\<open>\d+(?:\.\d+)?\<close> at the front of a string: no backtracking can succeed, since the rest of both
  patterns starts with no digit.\<close>

definition scan_decimal :: "string \<Rightarrow> (decimal \<times> string) option" where
  "scan_decimal s =
     (let ip = takeWhile is_digit s; rest = dropWhile is_digit s;
          fp = (if is_prefix ''.'' rest then takeWhile is_digit (tl rest) else [])
      in if ip = [] then None
         else if fp = [] then Some (\<lparr>dec_coeff = decimal_digits ip, dec_places = 0\<rparr>, rest)
         else Some (\<lparr>dec_coeff = decimal_digits (ip @ fp), dec_places = length fp\<rparr>, dropWhile is_digit (tl rest)))"

definition is_word :: "char \<Rightarrow> bool" where
  "is_word c \<longleftrightarrow> is_digit c \<or> c = CHR ''_'' \<or> (let n = (of_char (char_lower c) :: nat) in 97 \<le> n \<and> n \<le> 122)"

text \<open>\<open>[KMGTPE]?i?B\b\<close>, ignoring case; the unit is returned in upper case.\<close>

definition scan_unit :: "string \<Rightarrow> string option" where
  "scan_unit s =
     (let u = str_upper s;
          p = (if u \<noteq> [] \<and> hd u \<in> set ''KMGTPE'' then [hd u] else []);
          i = (if is_prefix ''I'' (drop (length p) u) then ''I'' else []);
          n = length p + length i
      in if is_prefix ''B'' (drop n u) \<and> (drop (n + 1) u = [] \<or> \<not> is_word (hd (drop (n + 1) u)))
         then Some (p @ i @ ''B'') else None)"

definition match_size :: "string \<Rightarrow> (decimal \<times> string) option" where
  "match_size s = (case scan_decimal s of
     None \<Rightarrow> None
   | Some (d, rest) \<Rightarrow> map_option (\<lambda>u. (d, u)) (scan_unit (dropWhile is_space rest)))"

text \<open>\<open>pattern.search\<close>: the first position at which the pattern matches.\<close>

fun search :: "(string \<Rightarrow> 'a option) \<Rightarrow> string \<Rightarrow> 'a option" where
  "search f [] = f []"
| "search f (c # s) = (case f (c # s) of Some x \<Rightarrow> Some x | None \<Rightarrow> search f s)"

definition size_multipliers :: "(string \<times> int) list" where
  "size_multipliers =
     [(''B'', 1), (''KB'', 1000), (''MB'', 1000 ^ 2), (''GB'', 1000 ^ 3), (''TB'', 1000 ^ 4), (''PB'', 1000 ^ 5),
      (''EB'', 1000 ^ 6), (''KIB'', 1024), (''MIB'', 1024 ^ 2), (''GIB'', 1024 ^ 3), (''TIB'', 1024 ^ 4),
      (''PIB'', 1024 ^ 5), (''EIB'', 1024 ^ 6)]"

text \<open>
  \<open>int(amount * multiplier)\<close>: the product is rounded to the 28 significant digits of the default
  context, half to even, and then truncated.
\<close>

definition decimal_precision :: nat where
  "decimal_precision = 28"

definition round_half_even :: "int \<Rightarrow> int \<Rightarrow> int" where
  "round_half_even n m = (let q = n div m; r = n mod m in
     if 2 * r > m \<or> 2 * r = m \<and> odd q then q + 1 else q)"

definition decimal_int :: "decimal \<Rightarrow> int \<Rightarrow> int" where
  "decimal_int d m =
     (let n = dec_coeff d * m; excess = length (int_str n) - decimal_precision
      in if excess = 0 then n div 10 ^ dec_places d
         else round_half_even n (10 ^ excess) * 10 ^ excess div 10 ^ dec_places d)"

definition first_size :: "string \<Rightarrow> int option" where
  "first_size s = (case search match_size s of
     None \<Rightarrow> None
   | Some (d, u) \<Rightarrow> map_option (decimal_int d) (map_of size_multipliers u))"

text \<open>\<open>\((?P<value>\d+(?:\.\d+)?)%\)\<close>\<close>

definition match_percent :: "string \<Rightarrow> decimal option" where
  "match_percent s =
     (if is_prefix ''('' s then
        (case scan_decimal (tl s) of
           Some (d, rest) \<Rightarrow> if is_prefix ''%)'' rest then Some d else None
         | None \<Rightarrow> None)
      else None)"

text \<open>\<open>text[lowered.index(word) + len(word):]\<close>, if the word is there.\<close>

fun after_word :: "string \<Rightarrow> string \<Rightarrow> string option" where
  "after_word w [] = (if w = [] then Some [] else None)"
| "after_word w (c # s) =
     (if is_prefix w (str_lower (c # s)) then Some (drop (length w) (c # s)) else after_word w s)"

record transfer =
  tf_transferred :: "int option"
  tf_reused :: "int option"
  tf_reused_percent :: "decimal option"

definition or_keep :: "'a option \<Rightarrow> 'a option \<Rightarrow> 'a option" where
  "or_keep new old = (case new of Some x \<Rightarrow> Some x | None \<Rightarrow> old)"

definition read_entry :: "dict \<Rightarrow> transfer \<Rightarrow> transfer" where
  "read_entry entry t = (case dict_get entry ''t'' of
     JStr s \<Rightarrow>
       let t1 = (case after_word ''transferred'' s of
                   Some rest \<Rightarrow> t\<lparr>tf_transferred := or_keep (first_size rest) (tf_transferred t)\<rparr>
                 | None \<Rightarrow> t)
       in (case after_word ''reused'' s of
             Some rest \<Rightarrow> t1\<lparr>tf_reused := or_keep (first_size rest) (tf_reused t1),
               tf_reused_percent := or_keep (search match_percent s) (tf_reused_percent t1)\<rparr>
           | None \<Rightarrow> t1)
   | _ \<Rightarrow> t)"

definition is_hundred :: "decimal \<Rightarrow> bool" where
  "is_hundred d \<longleftrightarrow> dec_coeff d = 100 * 10 ^ dec_places d"

definition new_bytes :: "transfer \<Rightarrow> int option" where
  "new_bytes t = (case (tf_transferred t, tf_reused t) of
     (None, _) \<Rightarrow> None
   | (Some n, None) \<Rightarrow> Some n
   | (Some n, Some m) \<Rightarrow>
       if n - m \<le> 0
       then (case tf_reused_percent t of Some d \<Rightarrow> if is_hundred d then Some 0 else None | None \<Rightarrow> None)
       else Some (n - m))"

definition backup_transfer_bytes :: "dict list \<Rightarrow> int option" where
  "backup_transfer_bytes entries =
     new_bytes (fold read_entry entries \<lparr>tf_transferred = None, tf_reused = None, tf_reused_percent = None\<rparr>)"


section \<open>The newest snapshot\<close>

text \<open>\<open>item.get("vmid") in {None, vmid, str(vmid)}\<close>, read only when the other two tests hold.\<close>

definition snapshot_candidate :: "int \<Rightarrow> dict \<Rightarrow> bool result" where
  "snapshot_candidate vmid item = (case dict_get item ''volid'' of
     JStr _ \<Rightarrow>
       if dict_get_or item ''content'' (JStr ''backup'') = JStr ''backup''
       then py_in_set (dict_get item ''vmid'') [JNull, JInt vmid, JStr (int_str vmid)]
       else Inr False
   | _ \<Rightarrow> Inr False)"

fun filter_result :: "('a \<Rightarrow> bool result) \<Rightarrow> 'a list \<Rightarrow> 'a list result" where
  "filter_result f [] = Inr []"
| "filter_result f (x # xs) = bind_result (f x) (\<lambda>b. bind_result (filter_result f xs) (\<lambda>ys. Inr (if b then x # ys else ys)))"

text \<open>The key of \<open>max\<close>: the numeric \<open>ctime\<close>, 0 without one.\<close>

definition timestamp :: "dict \<Rightarrow> rat" where
  "timestamp item = (case num_value (dict_get item ''ctime'') of Some q \<Rightarrow> q | None \<Rightarrow> 0)"

text \<open>\<open>max(xs, key=f)\<close>: the first element with the largest key.\<close>

fun first_max :: "('a \<Rightarrow> 'k :: linorder) \<Rightarrow> 'a \<Rightarrow> 'a list \<Rightarrow> 'a" where
  "first_max f x [] = x"
| "first_max f x (y # ys) = first_max f (if f x < f y then y else x) ys"

definition latest_snapshot :: "dict list \<Rightarrow> int \<Rightarrow> dict option result" where
  "latest_snapshot content vmid =
     bind_result (filter_result (snapshot_candidate vmid) content) (\<lambda>candidates.
     Inr (case candidates of [] \<Rightarrow> None | x # xs \<Rightarrow> Some (first_max timestamp x xs)))"

end
