(* ===== verification/Backup_Runner.thy ===== *)
theory Backup_Runner
  imports Backup_Api
begin

text \<open>
  \<open>BackupOperationRunner\<close> of src/backend/app/services/backup_runner.py: the worker that backs a guest
  up, waits for the task and records the snapshot.  The Proxmox client is a record of functions on
  the world.
\<close>

record 'w backup_api =
  ba_submit_guest_backup :: "string \<Rightarrow> int \<Rightarrow> string \<Rightarrow> string \<Rightarrow> string \<Rightarrow> 'w \<Rightarrow> string result \<times> 'w"
  ba_get_task_status :: "string \<Rightarrow> string \<Rightarrow> 'w \<Rightarrow> dict result \<times> 'w"
  ba_get_backup_content :: "string \<Rightarrow> string \<Rightarrow> int \<Rightarrow> 'w \<Rightarrow> dict list result \<times> 'w"
  ba_get_task_log :: "string \<Rightarrow> string \<Rightarrow> 'w \<Rightarrow> dict list result \<times> 'w"

record 'w backup_env =
  bx_env :: "'w runner_env"
  bx_settings :: settings
  bx_injected :: "'w backup_api option"
  bx_decrypt :: "cluster_credential \<Rightarrow> uuid \<Rightarrow> string option"
  bx_connect :: "cluster \<Rightarrow> string \<Rightarrow> string \<Rightarrow> app_error + 'w backup_api"

section \<open>Finishing\<close>

definition backup_finish_op :: "datetime \<Rightarrow> operation_status \<Rightarrow> bool \<Rightarrow> string option \<Rightarrow> operation \<Rightarrow> operation" where
  "backup_finish_op t st retry err x = x\<lparr>op_status := st, op_finished_at := Some t, op_heartbeat_at := Some t,
     op_error_code := err,
     op_error_summary := map_option (\<lambda>c. ''Backup operation failed ('' @ c @ '').'') err,
     op_retryable := Some retry, op_version := op_version x + 1\<rparr>"

definition finish_backup_row :: "datetime \<Rightarrow> operation_status \<Rightarrow> backup_run \<Rightarrow> backup_run" where
  "finish_backup_row t st r = r\<lparr>br_status := st, br_finished_at := Some t\<rparr>"

definition backup_event ::
    "operation \<Rightarrow> user option \<Rightarrow> operation_status \<Rightarrow> string option \<Rightarrow> string option \<Rightarrow> audit_event" where
  "backup_event op actor st err upid =
     (audit_event ''WORKLOAD_BACKUP'' (if st = Op_SUCCEEDED then ''SUCCEEDED'' else ''FAILED'') None)
       \<lparr>ev_actor_user_id := Some (case actor of Some u \<Rightarrow> user_id u | None \<Rightarrow> op_requested_by_id op),
        ev_actor_role := map_option user_role_of actor,
        ev_organization_id := op_organization_id op,
        ev_workload_id := Some (op_workload_id op),
        ev_operation_id := Some (op_id op),
        ev_source_ip := Some (op_source_ip op),
        ev_pve_upid := upid,
        ev_target_type := Some ''workload'',
        ev_target_id := Some (uuid_str (op_workload_id op)),
        ev_details := Some
          [(''storage_id'', dict_get_or (op_result op) ''storage_id'' (JStr [])),
           (''status'', JStr (operation_status_value st)),
           (''error_code'', JStr (case err of Some c \<Rightarrow> c | None \<Rightarrow> []))],
        ev_error_code := err\<rparr>"

definition put_backup_opt :: "backup_run option \<Rightarrow> (backup_run \<Rightarrow> backup_run) \<Rightarrow> db \<Rightarrow> db" where
  "put_backup_opt r f d = (case r of None \<Rightarrow> d | Some x \<Rightarrow> put_backup_run (br_id x) f d)"

definition backup_finish ::
    "'w backup_env \<Rightarrow> operation \<Rightarrow> backup_run option \<Rightarrow> user option \<Rightarrow> operation_status \<Rightarrow> bool \<Rightarrow> string option \<Rightarrow>
     string option \<Rightarrow> ('w, unit) rm" where
  "backup_finish X op brow actor st retry err upid =
     bindM (nowM (bx_env X)) (\<lambda>t.
     thenM (writeM (\<lambda>d. add_audit_event (worker_ctx t) (backup_event op actor st err upid)
              (put_backup_opt brow (finish_backup_row t st)
                (put_op (op_id op) (backup_finish_op t st retry err) d))))
     commitM)"

section \<open>The finished task\<close>

text \<open>
  \<open>datetime.fromtimestamp(ctime, tz=UTC)\<close> raises unless the year is between 1 and 9999.
\<close>

definition timestamp_ok :: "json \<Rightarrow> bool" where
  "timestamp_ok v = (case num_value v of Some q \<Rightarrow> - 62135596800 \<le> q \<and> q < 253402300800 | None \<Rightarrow> False)"

fun is_number :: "json \<Rightarrow> bool" where
  "is_number (JInt _) = True"
| "is_number (JBool _) = True"
| "is_number (JFloat _) = True"
| "is_number _ = False"

definition snapshot_size :: "dict \<Rightarrow> backup_run \<Rightarrow> backup_run" where
  "snapshot_size snapshot r = (case as_int (dict_get snapshot ''size'') of
     Some n \<Rightarrow> if 0 \<le> n then r\<lparr>br_size_bytes := Some n\<rparr> else r
   | None \<Rightarrow> r)"

definition record_snapshot :: "backup_run \<Rightarrow> dict \<Rightarrow> ('w, unit) rm" where
  "record_snapshot brow snapshot =
     (let ctime = dict_get snapshot ''ctime'' in
      thenM (writeM (put_backup_run (br_id brow)
               (\<lambda>r. r\<lparr>br_snapshot_volume_id := Some (py_str (dict_get snapshot ''volid''))\<rparr>)))
      (thenM
        (if is_number ctime then
           (if timestamp_ok ctime
            then writeM (put_backup_run (br_id brow) (\<lambda>r. r\<lparr>br_snapshot_time := Some ctime\<rparr>))
            else raiseM (PyError ''ValueError''))
         else returnM ())
      (writeM (put_backup_run (br_id brow) (snapshot_size snapshot)))))"

text \<open>The two reads after a successful task; the answers are \<open>metadata_pending\<close> and
  \<open>transfer_measurement_pending\<close>.\<close>

definition read_metadata ::
    "backup_run \<Rightarrow> workload \<Rightarrow> backup_target \<Rightarrow> 'w backup_api \<Rightarrow> ('w, bool) rm" where
  "read_metadata brow w target api =
     catch_app
       (bindM (callM ''get_backup_content'' [JStr (wl_node w), JStr (bt_storage_id target), JInt (wl_vmid w)]
                (ba_get_backup_content api (wl_node w) (bt_storage_id target) (wl_vmid w))) (\<lambda>content.
        bindM (liftM (latest_snapshot content (wl_vmid w))) (\<lambda>snapshot.
        case snapshot of
          Some s \<Rightarrow> thenM (record_snapshot brow s) (returnM False)
        | None \<Rightarrow> returnM True)))
       (\<lambda>_. returnM True)"

definition read_transfer :: "backup_run \<Rightarrow> pve_task \<Rightarrow> 'w backup_api \<Rightarrow> ('w, bool) rm" where
  "read_transfer brow t api =
     catch_app
       (bindM (callM ''get_task_log'' [JStr (pt_pve_node t), JStr (pt_upid t)]
                (ba_get_task_log api (pt_pve_node t) (pt_upid t))) (\<lambda>log.
        thenM (writeM (put_backup_run (br_id brow) (\<lambda>r. r\<lparr>br_transferred_bytes := backup_transfer_bytes log\<rparr>)))
        (returnM (backup_transfer_bytes log = None))))
       (\<lambda>_. returnM True)"

definition volume_of :: "backup_run \<Rightarrow> db \<Rightarrow> json" where
  "volume_of brow d = (case get_backup_run d (br_id brow) of
     Some r \<Rightarrow> (case br_snapshot_volume_id r of Some v \<Rightarrow> JStr v | None \<Rightarrow> JNull)
   | None \<Rightarrow> JNull)"

definition backup_stopped ::
    "'w backup_env \<Rightarrow> operation \<Rightarrow> backup_run \<Rightarrow> user option \<Rightarrow> workload \<Rightarrow> backup_target \<Rightarrow> pve_task \<Rightarrow>
     'w backup_api \<Rightarrow> dict \<Rightarrow> ('w, unit) rm" where
  "backup_stopped X op brow actor w target t api status =
     bindM (nowM (bx_env X)) (\<lambda>done.
     thenM (writeM (put_task (pt_id t) (task_exit (dict_get status ''exitstatus'') done)))
     (if dict_get status ''status'' \<noteq> JStr ''stopped'' \<or> dict_get status ''exitstatus'' \<noteq> JStr ''OK''
      then thenM (writeM (put_task (pt_id t) (task_failed None)))
             (backup_finish X op (Some brow) actor Op_FAILED False (Some ''PVE_TASK_FAILED'') (Some (pt_upid t)))
      else
        thenM (writeM (put_task (pt_id t) (\<lambda>x. x\<lparr>pt_status := ''SUCCEEDED''\<rparr>)))
        (bindM (read_metadata brow w target api) (\<lambda>metadata_pending.
         bindM (read_transfer brow t api) (\<lambda>transfer_pending.
         thenM (writeM (\<lambda>d. put_op (op_id op) (\<lambda>x. x\<lparr>op_result := dict_merge (op_result x)
             [(''snapshot_volume_id'', volume_of brow d), (''metadata_pending'', JBool metadata_pending),
              (''transfer_measurement_pending'', JBool transfer_pending)]\<rparr>) d))
         (backup_finish X op (Some brow) actor Op_SUCCEEDED False None (Some (pt_upid t))))))))"

section \<open>Polling\<close>

definition backup_unread ::
    "'w backup_env \<Rightarrow> operation \<Rightarrow> backup_run \<Rightarrow> user option \<Rightarrow> pve_task \<Rightarrow> app_error \<Rightarrow> ('w, unit) rm" where
  "backup_unread X op brow actor t e =
     thenM (writeM (put_task (pt_id t) (task_failed (Some (code e)))))
       (backup_finish X op (Some brow) actor Op_FAILED False (Some (code e)) (Some (pt_upid t)))"

definition backup_poll ::
    "'w backup_env \<Rightarrow> operation \<Rightarrow> backup_run \<Rightarrow> user option \<Rightarrow> workload \<Rightarrow> backup_target \<Rightarrow> pve_task \<Rightarrow>
     'w backup_api \<Rightarrow> ('w, unit) rm" where
  "backup_poll X op brow actor w target t api =
     job_poll (bx_env X) (bx_settings X) op t (ba_get_task_status api)
       (backup_unread X op brow actor t) (backup_stopped X op brow actor w target t api)
       (thenM (task_late t)
         (backup_finish X op (Some brow) actor Op_TIMEOUT True (Some ''PVE_TASK_TIMEOUT'') (Some (pt_upid t))))"

section \<open>Opening the client\<close>

definition backup_open_client :: "'w backup_env \<Rightarrow> workload \<Rightarrow> db \<Rightarrow> 'w backup_api result" where
  "backup_open_client X w d = (case bx_injected X of
     Some api \<Rightarrow> Inr api
   | None \<Rightarrow> (case (get_row cl_id (clusters d) (wl_cluster_id w), active_credential d (wl_cluster_id w)) of
       (Some cl, Some cr) \<Rightarrow>
         if cl_is_active cl then connect_with (bx_decrypt X) (bx_connect X) cl cr
         else raise_app 409 ''CLUSTER_UNAVAILABLE'' ''The workload cluster is unavailable.''
     | _ \<Rightarrow> raise_app 409 ''CLUSTER_UNAVAILABLE'' ''The workload cluster is unavailable.''))"

section \<open>\<open>run\<close>\<close>

definition call_backup :: "'w backup_api \<Rightarrow> workload \<Rightarrow> backup_target \<Rightarrow> backup_run \<Rightarrow> ('w, string) rm" where
  "call_backup api w target brow =
     callM ''submit_guest_backup'' [JStr (wl_node w), JInt (wl_vmid w), JStr (bt_storage_id target),
         JStr (br_mode brow), JStr (br_compression brow)]
       (ba_submit_guest_backup api (wl_node w) (wl_vmid w) (bt_storage_id target) (br_mode brow) (br_compression brow))"

definition backup_follow ::
    "'w backup_env \<Rightarrow> operation \<Rightarrow> backup_run \<Rightarrow> user option \<Rightarrow> workload \<Rightarrow> backup_target \<Rightarrow> 'w backup_api \<Rightarrow>
     app_error + string \<Rightarrow> ('w, unit) rm" where
  "backup_follow X op brow actor w target api answer = (case answer of
     Inl e \<Rightarrow> backup_finish X op (Some brow) actor (if code e = ''PVE_TIMEOUT'' then Op_TIMEOUT else Op_FAILED)
               False (Some (code e)) None
   | Inr upid \<Rightarrow>
       bindM (uuid4M (bx_env X)) (\<lambda>i.
       bindM (nowM (bx_env X)) (\<lambda>now.
       bindM (nowM (bx_env X)) (\<lambda>beat.
       let t = job_task i op (wl_cluster_id w) w ''backup'' (wl_node w) upid now in
       thenM (writeM (\<lambda>d. put_op (op_id op) (\<lambda>x. x\<lparr>op_heartbeat_at := Some beat\<rparr>) (add_task t d)))
       (thenM commitM
       (catch_app (backup_poll X op brow actor w target t api)
          (\<lambda>e. backup_finish X op (Some brow) actor Op_FAILED False (Some (code e)) (Some upid))))))))"

definition backup_submit ::
    "'w backup_env \<Rightarrow> operation \<Rightarrow> backup_run \<Rightarrow> user option \<Rightarrow> workload \<Rightarrow> backup_target \<Rightarrow> 'w backup_api \<Rightarrow> ('w, unit) rm" where
  "backup_submit X op brow actor w target api =
     bindM (attemptM (call_backup api w target brow)) (backup_follow X op brow actor w target api)"

definition claim_backup_row :: "datetime \<Rightarrow> backup_run \<Rightarrow> backup_run" where
  "claim_backup_row now r = r\<lparr>br_status := Op_RUNNING,
     br_started_at := (case br_started_at r of Some t \<Rightarrow> Some t | None \<Rightarrow> Some now)\<rparr>"

definition run_backup ::
    "'w backup_env \<Rightarrow> operation \<Rightarrow> backup_run \<Rightarrow> user option \<Rightarrow> workload \<Rightarrow> backup_target \<Rightarrow> ('w, unit) rm" where
  "run_backup X op brow actor w target =
     bindM (readM (\<lambda>d. find_task d (op_id op))) (\<lambda>task.
     bindM (nowM (bx_env X)) (\<lambda>now.
     if op_status op = Op_RUNNING \<and> task = None then
       (if lease_runs (bx_settings X) op now then rollbackM
        else backup_finish X op (Some brow) actor Op_FAILED False (Some ''BACKUP_SUBMISSION_STATE_UNKNOWN'') None)
     else
       thenM (writeM (\<lambda>d. put_backup_run (br_id brow) (claim_backup_row now) (put_op (op_id op) (claim_op now) d)))
       (thenM commitM
       (catch_app
         (bindM (readM (backup_open_client X w)) (\<lambda>client.
          bindM (liftM client) (\<lambda>api.
          case task of
            Some t \<Rightarrow> backup_poll X op brow actor w target t api
          | None \<Rightarrow> backup_submit X op brow actor w target api)))
         (\<lambda>e. backup_finish X op (Some brow) actor Op_FAILED False (Some (code e)) (map_option pt_upid task))))))"

text \<open>What a backup needs, if all of it is there; every workload kind is \<open>QEMU\<close> or \<open>LXC\<close>.\<close>

definition backup_source :: "db \<Rightarrow> operation \<Rightarrow> (backup_run \<times> workload \<times> backup_target) option" where
  "backup_source d op =
     (case (backup_of_operation d (op_id op), get_wl d (op_workload_id op)) of
        (Some r, Some w) \<Rightarrow>
          (case get_target d (br_backup_target_id r) of
             Some t \<Rightarrow> if wl_is_present w \<and> \<not> wl_is_template w \<and> bt_is_enabled t \<and> bt_cluster_id t = wl_cluster_id w
                       then Some (r, w, t) else None
           | None \<Rightarrow> None)
      | _ \<Rightarrow> None)"

definition backup_actor_ok :: "user option \<Rightarrow> bool" where
  "backup_actor_ok actor = (case actor of
     None \<Rightarrow> False | Some u \<Rightarrow> user_is_active u \<and> user_role_of u \<in> {SUPER_ADMIN, OPERATOR})"

definition backup_run_all :: "'w backup_env \<Rightarrow> uuid \<Rightarrow> ('w, unit) rm" where
  "backup_run_all X i =
     bindM (readM (\<lambda>d. get_op d i)) (\<lambda>row. case row of
       None \<Rightarrow> returnM ()
     | Some op \<Rightarrow>
       if op_operation_type op \<noteq> ''WORKLOAD_BACKUP'' then returnM ()
       else if terminal_status (op_status op) then returnM ()
       else
         bindM (readM (\<lambda>d. (backup_of_operation d (op_id op), backup_source d op, get_user d (op_requested_by_id op))))
         (\<lambda>(brow, source, actor). case source of
            None \<Rightarrow> backup_finish X op brow actor Op_FAILED False (Some ''BACKUP_TARGET_OR_WORKLOAD_UNAVAILABLE'') None
          | Some (r, w, target) \<Rightarrow>
              if \<not> backup_actor_ok actor
              then backup_finish X op (Some r) actor Op_FAILED False (Some ''PERMISSION_REVOKED'') None
              else run_backup X op r actor w target))"

definition run_backup_operation :: "'w backup_env \<Rightarrow> uuid \<Rightarrow> db \<Rightarrow> 'w \<Rightarrow> unit result \<times> 'w rs" where
  "run_backup_operation X i d w = backup_run_all X i (start_run d w)"

end
