(* ===== verification/Backup_Service.thy ===== *)
theory Backup_Service
  imports Backup_Runner Operations
begin

text \<open>
  \<open>BackupService\<close> of src/backend/app/services/backups.py with the payloads of
  src/backend/app/schemas/backup.py: the storages of a cluster, the registered backup targets, and the
  requests that the backup and the restore worker carry out.  Each handler asks Proxmox a question at
  most once, so that the client is a record of answers.  Timestamps filled in by the database are left
  out of the views.
\<close>

section \<open>schemas/backup.py\<close>

record storage_candidate =
  sc_cluster_id :: uuid
  sc_cluster_name :: string
  sc_storage_id :: string
  sc_datastore :: "string option"
  sc_namespace :: "string option"
  sc_available :: bool
  sc_enabled_in_pve :: bool
  sc_registered_target_id :: "uuid option"

record target_create =
  tgc_cluster_id :: uuid
  tgc_storage_id :: string

text \<open>\<open>^[A-Za-z0-9._-]+$\<close>\<close>

definition name_char :: "char \<Rightarrow> bool" where
  "name_char c \<longleftrightarrow> is_digit c \<or> c \<in> set ''._-'' \<or> (let n = (of_char (char_lower c) :: nat) in 97 \<le> n \<and> n \<le> 122)"

definition node_name_ok :: "string \<Rightarrow> bool" where
  "node_name_ok s \<longleftrightarrow> 1 \<le> length s \<and> length s \<le> 255 \<and> list_all name_char s"

definition target_create_valid :: "target_create \<Rightarrow> bool" where
  "target_create_valid c \<longleftrightarrow> node_name_ok (tgc_storage_id c)"

record target_update =
  tgu_is_enabled :: bool
  tgu_version :: int

record target_response =
  tr_id :: uuid
  tr_cluster_id :: uuid
  tr_cluster_name :: string
  tr_storage_id :: string
  tr_datastore :: "string option"
  tr_namespace :: "string option"
  tr_is_enabled :: bool
  tr_available :: bool
  tr_last_checked_at :: "datetime option"
  tr_version :: int

record backup_request =
  bq_backup_target_id :: uuid
  bq_mode :: string
  bq_compression :: string

definition backup_request_valid :: "backup_request \<Rightarrow> bool" where
  "backup_request_valid q \<longleftrightarrow> bq_mode q = ''snapshot'' \<and> bq_compression q = ''zstd''"

record backup_run_response =
  brr_id :: uuid
  brr_operation_id :: uuid
  brr_backup_target_id :: uuid
  brr_cluster_id :: uuid
  brr_cluster_name :: string
  brr_storage_id :: string
  brr_workload_id :: uuid
  brr_workload_name :: "string option"
  brr_vmid :: int
  brr_kind :: workload_kind
  brr_source_node :: string
  brr_organization_id :: "uuid option"
  brr_organization_name :: "string option"
  brr_mode :: string
  brr_compression :: string
  brr_status :: operation_status
  brr_snapshot_volume_id :: "string option"
  brr_snapshot_time :: "json option"
  brr_size_bytes :: "int option"
  brr_transferred_bytes :: "int option"
  brr_error_code :: "string option"
  brr_error_summary :: "string option"
  brr_retryable :: "bool option"
  brr_pve_exit_status :: "string option"
  brr_requested_at :: datetime
  brr_started_at :: "datetime option"
  brr_finished_at :: "datetime option"

record restore_request =
  rq_target_node :: string
  rq_target_vmid :: int
  rq_target_name :: string

text \<open>\<open>^[A-Za-z0-9](?:[A-Za-z0-9-]*[A-Za-z0-9])?$\<close>\<close>

definition host_char :: "char \<Rightarrow> bool" where
  "host_char c \<longleftrightarrow> name_char c \<and> c \<noteq> CHR ''.'' \<and> c \<noteq> CHR ''_''"

definition guest_name_ok :: "string \<Rightarrow> bool" where
  "guest_name_ok s \<longleftrightarrow> 1 \<le> length s \<and> length s \<le> 63 \<and> list_all host_char s \<and>
     hd s \<noteq> CHR ''-'' \<and> last s \<noteq> CHR ''-''"

definition restore_request_valid :: "restore_request \<Rightarrow> bool" where
  "restore_request_valid q \<longleftrightarrow> node_name_ok (rq_target_node q) \<and> in_range 100 999999999 (rq_target_vmid q) \<and>
     guest_name_ok (rq_target_name q)"

record restore_run_response =
  rrr_id :: uuid
  rrr_operation_id :: uuid
  rrr_backup_run_id :: uuid
  rrr_cluster_id :: uuid
  rrr_cluster_name :: string
  rrr_source_workload_id :: uuid
  rrr_source_workload_name :: "string option"
  rrr_kind :: workload_kind
  rrr_snapshot_volume_id :: string
  rrr_target_node :: string
  rrr_target_vmid :: int
  rrr_target_name :: string
  rrr_status :: operation_status
  rrr_error_code :: "string option"
  rrr_error_summary :: "string option"
  rrr_retryable :: "bool option"
  rrr_pve_exit_status :: "string option"
  rrr_requested_at :: datetime
  rrr_started_at :: "datetime option"
  rrr_finished_at :: "datetime option"

section \<open>The service\<close>

record pve_answers =
  pa_storage_configurations :: "dict list result"
  pa_storages :: "dict list result"
  pa_nodes :: "dict list result"
  pa_guests :: "dict list result"

record backup_service_env =
  sx_crypto :: crypto
  sx_secret_key :: string
  sx_fresh :: "nat \<Rightarrow> uuid"
  sx_decrypt :: "cluster_credential \<Rightarrow> uuid \<Rightarrow> string option"
  sx_connect :: "cluster \<Rightarrow> string \<Rightarrow> string \<Rightarrow> app_error + pve_answers"

definition service_client :: "backup_service_env \<Rightarrow> cluster \<Rightarrow> db \<Rightarrow> pve_answers result" where
  "service_client V cl d = (case active_credential d (cl_id cl) of
     None \<Rightarrow> raise_app 409 ''CLUSTER_CREDENTIAL_MISSING'' ''The cluster has no credential.''
   | Some cr \<Rightarrow> connect_with (sx_decrypt V) (sx_connect V) cl cr)"

definition active_cluster :: "db \<Rightarrow> uuid \<Rightarrow> cluster result" where
  "active_cluster d i = (case get_row cl_id (clusters d) i of
     Some cl \<Rightarrow> if cl_is_active cl then Inr cl else raise_app 404 ''CLUSTER_NOT_FOUND'' ''The cluster was not found.''
   | None \<Rightarrow> raise_app 404 ''CLUSTER_NOT_FOUND'' ''The cluster was not found.'')"

definition as_bool :: "json \<Rightarrow> bool" where
  "as_bool v \<longleftrightarrow> py_eq v (JInt 1) \<or> str_lower (py_str v) \<in> {''1'', ''true'', ''yes'', ''on''}"

fun optional_text :: "json \<Rightarrow> string option" where
  "optional_text (JStr s) = (if s = [] then None else Some s)"
| "optional_text _ = None"

section \<open>Storages and targets\<close>

text \<open>\<open>content.split(",")\<close>\<close>

fun split_on :: "char \<Rightarrow> string \<Rightarrow> string list" where
  "split_on sep [] = [[]]"
| "split_on sep (c # s) = (if c = sep then [] # split_on sep s
     else (case split_on sep s of [] \<Rightarrow> [[c]] | x # xs \<Rightarrow> (c # x) # xs))"

definition holds_backups :: "dict \<Rightarrow> bool" where
  "holds_backups item \<longleftrightarrow> dict_get item ''type'' = JStr ''pbs'' \<and>
     ''backup'' \<in> set (map str_strip (split_on (CHR '','') (py_str (dict_get_or item ''content'' (JStr [])))))"

definition storage_available :: "dict list \<Rightarrow> string \<Rightarrow> bool" where
  "storage_available live storage \<longleftrightarrow> list_ex (\<lambda>x. dict_get x ''storage'' = JStr storage \<and>
     str_lower (py_str (dict_get_or x ''status'' (JStr []))) = ''available'') live"

definition candidate_of :: "db \<Rightarrow> cluster \<Rightarrow> dict list \<Rightarrow> dict \<Rightarrow> storage_candidate option" where
  "candidate_of d cl live item = (case dict_get item ''storage'' of
     JStr storage \<Rightarrow>
       if \<not> holds_backups item then None
       else
         let disabled = as_bool (dict_get item ''disable'') in
         Some \<lparr>sc_cluster_id = cl_id cl, sc_cluster_name = cl_name cl, sc_storage_id = storage,
           sc_datastore = optional_text (dict_get item ''datastore''),
           sc_namespace = optional_text (dict_get item ''namespace''),
           sc_available = (\<not> disabled \<and> storage_available live storage), sc_enabled_in_pve = (\<not> disabled),
           sc_registered_target_id = map_option bt_id
             (find (\<lambda>t. bt_cluster_id t = cl_id cl \<and> bt_storage_id t = storage) (backup_targets d))\<rparr>
   | _ \<Rightarrow> None)"

text \<open>\<open>_refresh_observed_targets\<close>: of two candidates with one storage the last one counts.\<close>

definition observed_target :: "uuid \<Rightarrow> storage_candidate list \<Rightarrow> datetime \<Rightarrow> backup_target \<Rightarrow> backup_target" where
  "observed_target cluster_id cs now t =
     (if bt_cluster_id t \<noteq> cluster_id then t
      else (case find (\<lambda>c. sc_storage_id c = bt_storage_id t) (rev cs) of
          Some c \<Rightarrow> t\<lparr>bt_last_observed_available := sc_available c, bt_last_checked_at := Some now,
                     bt_datastore := sc_datastore c, bt_namespace := sc_namespace c\<rparr>
        | None \<Rightarrow> t\<lparr>bt_last_observed_available := False, bt_last_checked_at := Some now\<rparr>))"

definition refresh_targets ::
    "uuid \<Rightarrow> storage_candidate list \<Rightarrow> datetime \<Rightarrow> db \<Rightarrow> storage_candidate list outcome" where
  "refresh_targets cluster_id cs now d =
     (if list_ex (\<lambda>t. bt_cluster_id t = cluster_id) (backup_targets d)
      then commit_in d IntegrityError (d\<lparr>backup_targets := map (observed_target cluster_id cs now) (backup_targets d)\<rparr>) (Inr cs)
      else (Inr cs, d))"

definition discover_storages :: "service \<Rightarrow> backup_service_env \<Rightarrow> uuid \<Rightarrow> db \<Rightarrow> storage_candidate list outcome" where
  "discover_storages sv V i d =
     try_in d (require_service_role (sv_principal sv) [SUPER_ADMIN, OPERATOR]) (\<lambda>_.
     try_in d (active_cluster d i) (\<lambda>cl.
     try_in d (service_client V cl d) (\<lambda>client.
     try_in d (pa_storage_configurations client) (\<lambda>configurations.
     try_in d (pa_storages client) (\<lambda>live.
       refresh_targets (cl_id cl)
         (sort_key sc_storage_id (List.map_filter (candidate_of d cl live) configurations)) (sv_now sv) d)))))"

definition target_response_of :: "backup_target \<Rightarrow> cluster \<Rightarrow> target_response" where
  "target_response_of t cl = \<lparr>tr_id = bt_id t, tr_cluster_id = cl_id cl, tr_cluster_name = cl_name cl,
     tr_storage_id = bt_storage_id t, tr_datastore = bt_datastore t, tr_namespace = bt_namespace t,
     tr_is_enabled = bt_is_enabled t, tr_available = bt_last_observed_available t,
     tr_last_checked_at = bt_last_checked_at t, tr_version = bt_version t\<rparr>"

text \<open>The answer after a commit: \<open>assert cluster is not None\<close>.\<close>

definition target_answer :: "db \<Rightarrow> backup_target \<Rightarrow> target_response result" where
  "target_answer d t = (case get_row cl_id (clusters d) (bt_cluster_id t) of
     None \<Rightarrow> Inl AssertionError | Some cl \<Rightarrow> Inr (target_response_of t cl))"

definition new_target :: "service \<Rightarrow> uuid \<Rightarrow> target_create \<Rightarrow> storage_candidate \<Rightarrow> backup_target" where
  "new_target sv i c x = \<lparr>bt_id = i, bt_cluster_id = tgc_cluster_id c, bt_storage_id = tgc_storage_id c,
     bt_datastore = sc_datastore x, bt_namespace = sc_namespace x, bt_is_enabled = True,
     bt_last_observed_available = sc_available x, bt_last_checked_at = Some (sv_now sv),
     bt_created_by_id = prin_user_id (sv_principal sv), bt_version = 1\<rparr>"

definition create_target :: "service \<Rightarrow> backup_service_env \<Rightarrow> target_create \<Rightarrow> db \<Rightarrow> target_response outcome" where
  "create_target sv V c d =
     try_in d (require_service_role (sv_principal sv) [SUPER_ADMIN]) (\<lambda>_.
     case discover_storages sv V (tgc_cluster_id c) d of
       (Inl e, d1) \<Rightarrow> (Inl e, d1)
     | (Inr candidates, d1) \<Rightarrow>
         (case find (\<lambda>x. sc_storage_id x = tgc_storage_id c) candidates of
            None \<Rightarrow> (raise_app 404 ''BACKUP_STORAGE_NOT_FOUND'' ''The PBS storage was not found.'', d1)
          | Some x \<Rightarrow>
              if \<not> sc_enabled_in_pve x
              then (raise_app 409 ''BACKUP_STORAGE_DISABLED'' ''The PBS storage is disabled in PVE.'', d1)
              else if sc_registered_target_id x \<noteq> None
              then (raise_app 409 ''BACKUP_TARGET_EXISTS'' ''The backup target is already registered.'', d1)
              else
                let t = new_target sv (sx_fresh V 0) c x;
                    d2 = add_audit_event (sv_ctx sv)
                           ((service_event sv ''BACKUP_TARGET_CREATED'' ''SUCCEEDED'' ''backup_target'' (bt_id t))
                              \<lparr>ev_after := Some [(''storage_id'', JStr (bt_storage_id t)), (''enabled'', JBool True)]\<rparr>)
                           (d1\<lparr>backup_targets := backup_targets d1 @ [t]\<rparr>)
                in commit_in d1 (App (app_error 409 ''BACKUP_TARGET_EXISTS'' ''The backup target already exists.'')) d2
                     (target_answer d2 t)))"

definition switch_target :: "target_update \<Rightarrow> backup_target \<Rightarrow> backup_target" where
  "switch_target u t = t\<lparr>bt_is_enabled := tgu_is_enabled u, bt_version := bt_version t + 1\<rparr>"

definition update_target :: "service \<Rightarrow> uuid \<Rightarrow> target_update \<Rightarrow> db \<Rightarrow> target_response outcome" where
  "update_target sv i u d =
     try_in d (require_service_role (sv_principal sv) [SUPER_ADMIN]) (\<lambda>_.
     case get_target d i of
       None \<Rightarrow> (raise_app 404 ''BACKUP_TARGET_NOT_FOUND'' ''The backup target was not found.'', d)
     | Some t \<Rightarrow>
       if bt_version t \<noteq> tgu_version u
       then (raise_app 409 ''BACKUP_TARGET_VERSION_CONFLICT'' ''The backup target changed.'', d)
       else
         let d2 = add_audit_event (sv_ctx sv)
               ((service_event sv ''BACKUP_TARGET_UPDATED'' ''SUCCEEDED'' ''backup_target'' i)
                  \<lparr>ev_after := Some [(''enabled'', JBool (tgu_is_enabled u))]\<rparr>) (put_target i (switch_target u) d)
         in commit_in d IntegrityError d2 (target_answer d2 (switch_target u t)))"

section \<open>Views\<close>

text \<open>The rows a view joins: the run, its operation, target, cluster and workload.\<close>

definition run_rows :: "db \<Rightarrow> uuid \<Rightarrow> (backup_run \<times> operation \<times> backup_target \<times> cluster \<times> workload) option" where
  "run_rows d i = (case get_backup_run d i of None \<Rightarrow> None | Some r \<Rightarrow>
     (case (get_op d (br_operation_id r), get_target d (br_backup_target_id r), get_wl d (br_workload_id r)) of
        (Some op, Some t, Some w) \<Rightarrow>
          (case get_row cl_id (clusters d) (bt_cluster_id t) of Some cl \<Rightarrow> Some (r, op, t, cl, w) | None \<Rightarrow> None)
      | _ \<Rightarrow> None))"

definition backup_not_found :: "'a result" where
  "backup_not_found = raise_app 404 ''BACKUP_NOT_FOUND'' ''The backup run was not found.''"

definition exit_status_of :: "pve_task option \<Rightarrow> string option" where
  "exit_status_of t = (case t of Some x \<Rightarrow> pt_pve_exit_status x | None \<Rightarrow> None)"

definition run_response :: "db \<Rightarrow> uuid \<Rightarrow> backup_run_response result" where
  "run_response d i = (case run_rows d i of
     None \<Rightarrow> backup_not_found
   | Some (r, op, t, cl, w) \<Rightarrow> Inr
       \<lparr>brr_id = br_id r, brr_operation_id = op_id op, brr_backup_target_id = bt_id t, brr_cluster_id = cl_id cl,
        brr_cluster_name = cl_name cl, brr_storage_id = bt_storage_id t, brr_workload_id = wl_id w,
        brr_workload_name = wl_name w, brr_vmid = wl_vmid w, brr_kind = wl_kind w, brr_source_node = wl_node w,
        brr_organization_id = br_organization_id r,
        brr_organization_name = (case br_organization_id r of None \<Rightarrow> None
          | Some o' \<Rightarrow> map_option org_name (get_row org_id (organizations d) o')),
        brr_mode = br_mode r, brr_compression = br_compression r, brr_status = op_status op,
        brr_snapshot_volume_id = br_snapshot_volume_id r, brr_snapshot_time = br_snapshot_time r,
        brr_size_bytes = br_size_bytes r, brr_transferred_bytes = br_transferred_bytes r,
        brr_error_code = op_error_code op, brr_error_summary = op_error_summary op, brr_retryable = op_retryable op,
        brr_pve_exit_status = exit_status_of (latest_task d (op_id op)),
        brr_requested_at = op_requested_at op, brr_started_at = op_started_at op, brr_finished_at = op_finished_at op\<rparr>)"

definition get_run :: "service \<Rightarrow> uuid \<Rightarrow> db \<Rightarrow> backup_run_response result" where
  "get_run sv i d = bind_result (require_service_role (sv_principal sv) [SUPER_ADMIN, OPERATOR]) (\<lambda>_. run_response d i)"

definition get_restore_run :: "db \<Rightarrow> uuid \<Rightarrow> restore_run option" where
  "get_restore_run d i = get_row rr_id (restore_runs d) i"

definition restore_rows :: "db \<Rightarrow> uuid \<Rightarrow> (restore_run \<times> operation \<times> backup_run \<times> cluster \<times> workload) option" where
  "restore_rows d i = (case get_restore_run d i of None \<Rightarrow> None | Some r \<Rightarrow>
     (case (get_op d (rr_operation_id r), get_backup_run d (rr_backup_run_id r),
            get_row cl_id (clusters d) (rr_cluster_id r), get_wl d (rr_source_workload_id r)) of
        (Some op, Some b, Some cl, Some w) \<Rightarrow> Some (r, op, b, cl, w)
      | _ \<Rightarrow> None))"

text \<open>\<open>assert backup.snapshot_volume_id is not None\<close>\<close>

definition restore_response :: "db \<Rightarrow> uuid \<Rightarrow> restore_run_response result" where
  "restore_response d i = (case restore_rows d i of
     None \<Rightarrow> raise_app 404 ''RESTORE_NOT_FOUND'' ''The restore run was not found.''
   | Some (r, op, b, cl, w) \<Rightarrow> (case br_snapshot_volume_id b of
       None \<Rightarrow> Inl AssertionError
     | Some v \<Rightarrow> Inr
       \<lparr>rrr_id = rr_id r, rrr_operation_id = op_id op, rrr_backup_run_id = br_id b, rrr_cluster_id = cl_id cl,
        rrr_cluster_name = cl_name cl, rrr_source_workload_id = wl_id w, rrr_source_workload_name = wl_name w,
        rrr_kind = wl_kind w, rrr_snapshot_volume_id = v, rrr_target_node = rr_target_node r,
        rrr_target_vmid = rr_target_vmid r, rrr_target_name = rr_target_name r, rrr_status = op_status op,
        rrr_error_code = op_error_code op, rrr_error_summary = op_error_summary op, rrr_retryable = op_retryable op,
        rrr_pve_exit_status = exit_status_of (latest_task d (op_id op)),
        rrr_requested_at = op_requested_at op, rrr_started_at = op_started_at op, rrr_finished_at = op_finished_at op\<rparr>))"

definition get_restore :: "service \<Rightarrow> uuid \<Rightarrow> db \<Rightarrow> restore_run_response result" where
  "get_restore sv i d = bind_result (require_service_role (sv_principal sv) [SUPER_ADMIN]) (\<lambda>_. restore_response d i)"

section \<open>Backup requests\<close>

definition key_reused :: "'a result" where
  "key_reused = raise_app 409 ''IDEMPOTENCY_KEY_REUSED'' ''The idempotency key was reused.''"

definition backup_fingerprint :: "crypto \<Rightarrow> workload \<Rightarrow> backup_target \<Rightarrow> backup_request \<Rightarrow> bytes" where
  "backup_fingerprint C w t q = sha256 C (encode (json_dumps (JObj
     [(''workload_id'', JStr (uuid_str (wl_id w))), (''backup_target_id'', JStr (uuid_str (bt_id t))),
      (''mode'', JStr (bq_mode q)), (''compression'', JStr (bq_compression q))])))"

definition backup_operation ::
    "service \<Rightarrow> uuid \<Rightarrow> string \<Rightarrow> workload \<Rightarrow> backup_target \<Rightarrow> backup_request \<Rightarrow> bytes \<Rightarrow> bytes \<Rightarrow> operation" where
  "backup_operation sv i task w t q h fp =
     new_operation sv i task ''WORKLOAD_BACKUP'' ''backup'' w h fp
       [(''backup_target_id'', JStr (uuid_str (bt_id t))), (''storage_id'', JStr (bt_storage_id t)),
        (''mode'', JStr (bq_mode q)), (''compression'', JStr (bq_compression q)),
        (''workload_kind'', JStr (workload_kind_value (wl_kind w)))]"

definition new_backup_run :: "uuid \<Rightarrow> uuid \<Rightarrow> workload \<Rightarrow> backup_target \<Rightarrow> backup_request \<Rightarrow> backup_run" where
  "new_backup_run i op_i w t q = \<lparr>br_id = i, br_operation_id = op_i, br_backup_target_id = bt_id t,
     br_workload_id = wl_id w, br_organization_id = wl_organization_id w, br_mode = bq_mode q,
     br_compression = bq_compression q, br_status = Op_QUEUED, br_snapshot_volume_id = None,
     br_snapshot_time = None, br_size_bytes = None, br_transferred_bytes = None, br_started_at = None,
     br_finished_at = None\<rparr>"

text \<open>The answer: the view, whether the request is new, and what is published to the worker.\<close>

type_synonym accepted_backup = "backup_run_response \<times> bool \<times> (uuid \<times> string) option"

definition conflicting :: exn where
  "conflicting = App (app_error 409 ''OPERATION_CONFLICT'' ''A conflicting operation exists.'')"

definition add_backup ::
    "service \<Rightarrow> backup_service_env \<Rightarrow> workload \<Rightarrow> backup_target \<Rightarrow> backup_request \<Rightarrow> bytes \<Rightarrow> bytes \<Rightarrow> db \<Rightarrow>
     accepted_backup outcome" where
  "add_backup sv V w t q h fp d =
     (let task = uuid_str (sx_fresh V 1);
          op = backup_operation sv (sx_fresh V 0) task w t q h fp;
          r = new_backup_run (sx_fresh V 2) (op_id op) w t q;
          d1 = add_operation op d;
          d2 = add_audit_event (sv_ctx sv)
                 ((operation_event sv ''WORKLOAD_BACKUP'' ''workload'' w (op_id op))
                    \<lparr>ev_details := Some [(''storage_id'', JStr (bt_storage_id t)), (''mode'', JStr (bq_mode q))]\<rparr>)
                 (d1\<lparr>backup_runs := backup_runs d1 @ [r]\<rparr>)
      in if \<not> integrity d1 then (Inl conflicting, d)
         else commit_in d conflicting d2
                (bind_result (run_response d2 (br_id r)) (\<lambda>x. Inr (x, True, Some (op_id op, task)))))"

definition request_backup ::
    "service \<Rightarrow> backup_service_env \<Rightarrow> uuid \<Rightarrow> backup_request \<Rightarrow> string \<Rightarrow> db \<Rightarrow> accepted_backup outcome" where
  "request_backup sv V i q key d =
     try_in d (require_service_role (sv_principal sv) [SUPER_ADMIN, OPERATOR]) (\<lambda>_.
     case guest_workload d i of
       None \<Rightarrow> (raise_app 404 ''VM_NOT_FOUND'' ''The workload was not found.'', d)
     | Some w \<Rightarrow>
       (case get_target d (bq_backup_target_id q) of
          None \<Rightarrow> (raise_app 404 ''BACKUP_TARGET_NOT_FOUND'' ''The backup target was not found.'', d)
        | Some t \<Rightarrow>
          if \<not> bt_is_enabled t
          then (raise_app 404 ''BACKUP_TARGET_NOT_FOUND'' ''The backup target was not found.'', d)
          else if bt_cluster_id t \<noteq> wl_cluster_id w
          then (raise_app 409 ''BACKUP_TARGET_CLUSTER_MISMATCH'' ''The backup target belongs to another cluster.'', d)
          else
            let h = key_hash (sx_crypto V) (sx_secret_key V) key;
                fp = backup_fingerprint (sx_crypto V) w t q
            in case find_idempotent d (prin_user_id (sv_principal sv)) h of
                 Some x \<Rightarrow>
                   if op_request_fingerprint x \<noteq> fp then (key_reused, d)
                   else (case backup_of_operation d (op_id x) of
                       None \<Rightarrow> (key_reused, d)
                     | Some r \<Rightarrow> (bind_result (run_response d (br_id r)) (\<lambda>x. Inr (x, False, None)), d))
               | None \<Rightarrow>
                   if find_active d (wl_id w) \<noteq> None
                   then (raise_app 409 ''OPERATION_CONFLICT'' ''Another workload operation is running.'', d)
                   else add_backup sv V w t q h fp d))"

section \<open>Restore requests\<close>

definition restore_fingerprint :: "crypto \<Rightarrow> backup_run \<Rightarrow> restore_request \<Rightarrow> bytes" where
  "restore_fingerprint C b q = sha256 C (encode (json_dumps (JObj
     [(''backup_run_id'', JStr (uuid_str (br_id b))), (''target_node'', JStr (rq_target_node q)),
      (''target_vmid'', JInt (rq_target_vmid q)), (''target_name'', JStr (rq_target_name q))])))"

definition restore_operation ::
    "service \<Rightarrow> uuid \<Rightarrow> string \<Rightarrow> backup_run \<Rightarrow> backup_target \<Rightarrow> cluster \<Rightarrow> workload \<Rightarrow> restore_request \<Rightarrow> bytes \<Rightarrow> bytes \<Rightarrow>
     operation" where
  "restore_operation sv i task b t cl w q h fp =
     (new_operation sv i task ''WORKLOAD_RESTORE'' ''restore'' w h fp
       [(''backup_run_id'', JStr (uuid_str (br_id b))), (''snapshot_volume_id'', json_opt JStr (br_snapshot_volume_id b)),
        (''storage_id'', JStr (bt_storage_id t)), (''workload_kind'', JStr (workload_kind_value (wl_kind w))),
        (''target_node'', JStr (rq_target_node q)), (''target_vmid'', JInt (rq_target_vmid q)),
        (''target_name'', JStr (rq_target_name q))])
     \<lparr>op_organization_id := None, op_cluster_id := cl_id cl\<rparr>"

definition new_restore_run :: "uuid \<Rightarrow> uuid \<Rightarrow> backup_run \<Rightarrow> cluster \<Rightarrow> workload \<Rightarrow> restore_request \<Rightarrow> restore_run" where
  "new_restore_run i op_i b cl w q = \<lparr>rr_id = i, rr_operation_id = op_i, rr_backup_run_id = br_id b,
     rr_cluster_id = cl_id cl, rr_source_workload_id = wl_id w, rr_target_node = rq_target_node q,
     rr_target_vmid = rq_target_vmid q, rr_target_name = rq_target_name q, rr_status = Op_QUEUED,
     rr_started_at = None, rr_finished_at = None\<rparr>"

type_synonym accepted_restore = "restore_run_response \<times> bool \<times> (uuid \<times> string) option"

definition restore_attempted :: "service \<Rightarrow> operation \<Rightarrow> backup_run \<Rightarrow> restore_request \<Rightarrow> audit_event" where
  "restore_attempted sv op b q =
     (service_event sv ''WORKLOAD_RESTORE'' ''ATTEMPTED'' ''backup_run'' (br_id b))
       \<lparr>ev_workload_id := Some (op_workload_id op), ev_operation_id := Some (op_id op),
        ev_details := Some [(''target_node'', JStr (rq_target_node q)), (''target_vmid'', JInt (rq_target_vmid q)),
          (''target_name'', JStr (rq_target_name q))]\<rparr>"

definition add_restore ::
    "service \<Rightarrow> backup_service_env \<Rightarrow> backup_run \<Rightarrow> backup_target \<Rightarrow> cluster \<Rightarrow> workload \<Rightarrow> restore_request \<Rightarrow> bytes \<Rightarrow> bytes \<Rightarrow>
     db \<Rightarrow> accepted_restore outcome" where
  "add_restore sv V b t cl w q h fp d =
     (let task = uuid_str (sx_fresh V 1);
          op = restore_operation sv (sx_fresh V 0) task b t cl w q h fp;
          r = new_restore_run (sx_fresh V 2) (op_id op) b cl w q;
          d1 = add_operation op d;
          d2 = add_audit_event (sv_ctx sv) (restore_attempted sv op b q) (d1\<lparr>restore_runs := restore_runs d1 @ [r]\<rparr>)
      in if \<not> integrity d1
         then (raise_app 409 ''RESTORE_SOURCE_CONFLICT'' ''Another operation is running for the source workload.'', d)
         else commit_in d (App (app_error 409 ''RESTORE_CONFLICT'' ''A conflicting restore is running.'')) d2
                (bind_result (restore_response d2 (rr_id r)) (\<lambda>x. Inr (x, True, Some (op_id op, task)))))"

text \<open>What Proxmox says about the target node and VMID.\<close>

definition check_target :: "pve_answers \<Rightarrow> restore_request \<Rightarrow> unit result" where
  "check_target client q =
     bind_result (pa_nodes client) (\<lambda>ns.
     if \<not> node_online (rq_target_node q) ns
     then raise_app 409 ''RESTORE_NODE_UNAVAILABLE'' ''The target node is unavailable.''
     else bind_result (pa_guests client) (\<lambda>guests.
       bind_result (any_result (\<lambda>g. vmid_matches (rq_target_vmid q) (dict_get g ''vmid'')) guests) (\<lambda>used.
       if used then raise_app 409 ''RESTORE_VMID_IN_USE'' ''The target VMID is already in use.'' else Inr ())))"

definition local_collision :: "db \<Rightarrow> cluster \<Rightarrow> restore_request \<Rightarrow> bool" where
  "local_collision d cl q \<longleftrightarrow> list_ex (\<lambda>w. wl_cluster_id w = cl_id cl \<and> wl_vmid w = rq_target_vmid q \<and> wl_is_present w) (workloads d)"

text \<open>The backup that is to be restored, with its target, cluster and workload.\<close>

definition restorable ::
    "db \<Rightarrow> uuid \<Rightarrow> (backup_run \<times> backup_target \<times> cluster \<times> workload) result" where
  "restorable d i = (case run_rows d i of
     None \<Rightarrow> backup_not_found
   | Some (b, op, t, cl, w) \<Rightarrow>
       if \<not> cl_is_active cl then backup_not_found
       else if op_status op \<noteq> Op_SUCCEEDED \<or> br_snapshot_volume_id b \<in> {None, Some []}
       then raise_app 409 ''BACKUP_NOT_RESTORABLE'' ''Only a completed backup with a snapshot can be restored.''
       else if \<not> bt_is_enabled t then raise_app 409 ''BACKUP_TARGET_DISABLED'' ''The backup target is disabled.''
       else Inr (b, t, cl, w))"

definition request_restore ::
    "service \<Rightarrow> backup_service_env \<Rightarrow> uuid \<Rightarrow> restore_request \<Rightarrow> string \<Rightarrow> db \<Rightarrow> accepted_restore outcome" where
  "request_restore sv V i q key d =
     try_in d (require_service_role (sv_principal sv) [SUPER_ADMIN]) (\<lambda>_.
     try_in d (restorable d i) (\<lambda>(b, t, cl, w).
     let h = key_hash (sx_crypto V) (sx_secret_key V) key;
         fp = restore_fingerprint (sx_crypto V) b q
     in case find_idempotent d (prin_user_id (sv_principal sv)) h of
          Some x \<Rightarrow>
            if op_request_fingerprint x \<noteq> fp then (key_reused, d)
            else (case restore_of_operation d (op_id x) of
                None \<Rightarrow> (key_reused, d)
              | Some r \<Rightarrow> (bind_result (restore_response d (rr_id r)) (\<lambda>x. Inr (x, False, None)), d))
        | None \<Rightarrow>
            if local_collision d cl q
            then (raise_app 409 ''RESTORE_VMID_IN_USE'' ''The target VMID is already in use.'', d)
            else
              try_in d (service_client V cl d) (\<lambda>client.
              try_in d (check_target client q) (\<lambda>_.
              add_restore sv V b t cl w q h fp d))))"

end
