(* ===== verification/Restore_Runner.thy ===== *)
theory Restore_Runner
  imports Backup_Api
begin

text \<open>
  \<open>RestoreOperationRunner\<close> of src/backend/app/services/restore_runner.py: the worker that restores a
  backup into a new guest.  The Proxmox client is a record of functions on the world.
\<close>

record 'w restore_api =
  ra_get_guests :: "'w \<Rightarrow> dict list result \<times> 'w"
  ra_get_nodes :: "'w \<Rightarrow> dict list result \<times> 'w"
  ra_submit_guest_restore :: "workload_kind \<Rightarrow> string \<Rightarrow> string \<Rightarrow> int \<Rightarrow> string \<Rightarrow> 'w \<Rightarrow> string result \<times> 'w"
  ra_get_task_status :: "string \<Rightarrow> string \<Rightarrow> 'w \<Rightarrow> dict result \<times> 'w"

record 'w restore_env =
  rx_env :: "'w runner_env"
  rx_settings :: settings
  rx_injected :: "'w restore_api option"
  rx_decrypt :: "cluster_credential \<Rightarrow> uuid \<Rightarrow> string option"
  rx_connect :: "cluster \<Rightarrow> string \<Rightarrow> string \<Rightarrow> app_error + 'w restore_api"

section \<open>Finishing\<close>

definition restore_finish_op :: "datetime \<Rightarrow> operation_status \<Rightarrow> bool \<Rightarrow> string option \<Rightarrow> operation \<Rightarrow> operation" where
  "restore_finish_op t st retry err x = x\<lparr>op_status := st, op_finished_at := Some t, op_heartbeat_at := Some t,
     op_error_code := err,
     op_error_summary := map_option (\<lambda>c. ''Restore operation failed ('' @ c @ '').'') err,
     op_retryable := Some retry, op_version := op_version x + 1\<rparr>"

definition finish_restore_row :: "datetime \<Rightarrow> operation_status \<Rightarrow> restore_run \<Rightarrow> restore_run" where
  "finish_restore_row t st r = r\<lparr>rr_status := st, rr_finished_at := Some t\<rparr>"

definition restore_event ::
    "operation \<Rightarrow> restore_run option \<Rightarrow> user option \<Rightarrow> operation_status \<Rightarrow> string option \<Rightarrow> string option \<Rightarrow> audit_event" where
  "restore_event op restore actor st err upid =
     (audit_event ''WORKLOAD_RESTORE'' (if st = Op_SUCCEEDED then ''SUCCEEDED'' else ''FAILED'') None)
       \<lparr>ev_actor_user_id := Some (case actor of Some u \<Rightarrow> user_id u | None \<Rightarrow> op_requested_by_id op),
        ev_actor_role := map_option user_role_of actor,
        ev_workload_id := Some (op_workload_id op),
        ev_operation_id := Some (op_id op),
        ev_source_ip := Some (op_source_ip op),
        ev_pve_upid := upid,
        ev_target_type := Some ''backup_run'',
        ev_target_id := map_option (\<lambda>r. uuid_str (rr_backup_run_id r)) restore,
        ev_details := Some
          [(''target_node'', JStr (case restore of Some r \<Rightarrow> rr_target_node r | None \<Rightarrow> [])),
           (''target_vmid'', JInt (case restore of Some r \<Rightarrow> rr_target_vmid r | None \<Rightarrow> 0)),
           (''status'', JStr (operation_status_value st)),
           (''error_code'', JStr (case err of Some c \<Rightarrow> c | None \<Rightarrow> []))],
        ev_error_code := err\<rparr>"

definition put_restore_opt :: "restore_run option \<Rightarrow> (restore_run \<Rightarrow> restore_run) \<Rightarrow> db \<Rightarrow> db" where
  "put_restore_opt r f d = (case r of None \<Rightarrow> d | Some x \<Rightarrow> put_restore_run (rr_id x) f d)"

definition restore_finish ::
    "'w restore_env \<Rightarrow> operation \<Rightarrow> restore_run option \<Rightarrow> user option \<Rightarrow> operation_status \<Rightarrow> bool \<Rightarrow> string option \<Rightarrow>
     string option \<Rightarrow> ('w, unit) rm" where
  "restore_finish X op restore actor st retry err upid =
     bindM (nowM (rx_env X)) (\<lambda>t.
     thenM (writeM (\<lambda>d. add_audit_event (worker_ctx t) (restore_event op restore actor st err upid)
              (put_restore_opt restore (finish_restore_row t st)
                (put_op (op_id op) (restore_finish_op t st retry err) d))))
     commitM)"

section \<open>Polling\<close>

text \<open>The ways out of the loop of \<open>_poll\<close>, and the loop.\<close>

definition restore_unread ::
    "'w restore_env \<Rightarrow> operation \<Rightarrow> restore_run \<Rightarrow> user option \<Rightarrow> pve_task \<Rightarrow> app_error \<Rightarrow> ('w, unit) rm" where
  "restore_unread X op restore actor t e =
     thenM (writeM (put_task (pt_id t) (task_failed (Some (code e)))))
       (restore_finish X op (Some restore) actor Op_FAILED False (Some (code e)) (Some (pt_upid t)))"

definition restore_stopped ::
    "'w restore_env \<Rightarrow> operation \<Rightarrow> restore_run \<Rightarrow> user option \<Rightarrow> pve_task \<Rightarrow> dict \<Rightarrow> ('w, unit) rm" where
  "restore_stopped X op restore actor t status =
     bindM (nowM (rx_env X)) (\<lambda>done.
     thenM (writeM (put_task (pt_id t) (task_exit (dict_get status ''exitstatus'') done)))
     (if dict_get status ''status'' \<noteq> JStr ''stopped'' \<or> dict_get status ''exitstatus'' \<noteq> JStr ''OK''
      then thenM (writeM (put_task (pt_id t) (task_failed None)))
             (restore_finish X op (Some restore) actor Op_FAILED False (Some ''PVE_TASK_FAILED'') (Some (pt_upid t)))
      else thenM (writeM (\<lambda>d. put_op (op_id op) (\<lambda>x. x\<lparr>op_result := dict_merge (op_result x) [(''restored'', JBool True)]\<rparr>)
                     (put_task (pt_id t) (\<lambda>x. x\<lparr>pt_status := ''SUCCEEDED''\<rparr>) d)))
             (restore_finish X op (Some restore) actor Op_SUCCEEDED False None (Some (pt_upid t)))))"

definition restore_poll ::
    "'w restore_env \<Rightarrow> operation \<Rightarrow> restore_run \<Rightarrow> user option \<Rightarrow> pve_task \<Rightarrow> 'w restore_api \<Rightarrow> ('w, unit) rm" where
  "restore_poll X op restore actor t api =
     job_poll (rx_env X) (rx_settings X) op t (ra_get_task_status api)
       (restore_unread X op restore actor t) (restore_stopped X op restore actor t)
       (thenM (task_late t)
         (restore_finish X op (Some restore) actor Op_TIMEOUT True (Some ''PVE_TASK_TIMEOUT'') (Some (pt_upid t))))"

section \<open>Opening the client\<close>

definition restore_open_client :: "'w restore_env \<Rightarrow> cluster \<Rightarrow> db \<Rightarrow> 'w restore_api result" where
  "restore_open_client X cl d = (case rx_injected X of
     Some api \<Rightarrow> Inr api
   | None \<Rightarrow> (case active_credential d (cl_id cl) of
       None \<Rightarrow> raise_app 409 ''CLUSTER_UNAVAILABLE'' ''The restore cluster is unavailable.''
     | Some cr \<Rightarrow> connect_with (rx_decrypt X) (rx_connect X) cl cr))"

section \<open>\<open>run\<close>\<close>

definition target_is_free :: "'w restore_api \<Rightarrow> restore_run \<Rightarrow> ('w, bool) rm" where
  "target_is_free api r =
     bindM (callM ''get_nodes'' [] (ra_get_nodes api)) (\<lambda>nodes.
     if \<not> node_online (rr_target_node r) nodes then returnM False
     else bindM (callM ''get_guests'' [] (ra_get_guests api)) (\<lambda>guests.
       bindM (liftM (any_result (\<lambda>item. vmid_matches (rr_target_vmid r) (dict_get item ''vmid'')) guests)) (\<lambda>taken.
       returnM (\<not> taken))))"

definition call_restore :: "'w restore_api \<Rightarrow> workload \<Rightarrow> restore_run \<Rightarrow> string \<Rightarrow> ('w, string) rm" where
  "call_restore api w r archive =
     callM ''submit_guest_restore'' [JStr (workload_kind_value (wl_kind w)), JStr (rr_target_node r), JStr archive,
         JInt (rr_target_vmid r), JStr (rr_target_name r)]
       (ra_submit_guest_restore api (wl_kind w) (rr_target_node r) archive (rr_target_vmid r) (rr_target_name r))"

text \<open>What follows the submission: record the task and poll, or finish with the error.\<close>

definition restore_follow ::
    "'w restore_env \<Rightarrow> operation \<Rightarrow> restore_run \<Rightarrow> user option \<Rightarrow> workload \<Rightarrow> cluster \<Rightarrow> 'w restore_api \<Rightarrow>
     app_error + string \<Rightarrow> ('w, unit) rm" where
  "restore_follow X op restore actor w cl api answer = (case answer of
     Inl e \<Rightarrow> restore_finish X op (Some restore) actor (if code e = ''PVE_TIMEOUT'' then Op_TIMEOUT else Op_FAILED)
               False (Some (code e)) None
   | Inr upid \<Rightarrow>
       bindM (uuid4M (rx_env X)) (\<lambda>i.
       bindM (nowM (rx_env X)) (\<lambda>now.
       bindM (nowM (rx_env X)) (\<lambda>beat.
       let t = job_task i op (cl_id cl) w ''restore'' (rr_target_node restore) upid now in
       thenM (writeM (\<lambda>d. put_op (op_id op) (\<lambda>x. x\<lparr>op_heartbeat_at := Some beat\<rparr>) (add_task t d)))
       (thenM commitM
       (catch_app (restore_poll X op restore actor t api)
          (\<lambda>e. restore_finish X op (Some restore) actor Op_FAILED False (Some (code e)) (Some upid))))))))"

text \<open>The branch without a task.\<close>

definition restore_submit ::
    "'w restore_env \<Rightarrow> operation \<Rightarrow> restore_run \<Rightarrow> user option \<Rightarrow> workload \<Rightarrow> cluster \<Rightarrow> string \<Rightarrow> 'w restore_api \<Rightarrow> ('w, unit) rm" where
  "restore_submit X op restore actor w cl archive api =
     bindM (target_is_free api restore) (\<lambda>free.
     if \<not> free then restore_finish X op (Some restore) actor Op_FAILED False (Some ''RESTORE_TARGET_CONFLICT'') None
     else bindM (attemptM (call_restore api w restore archive)) (restore_follow X op restore actor w cl api))"

definition claim_restore_row :: "datetime \<Rightarrow> restore_run \<Rightarrow> restore_run" where
  "claim_restore_row now r = r\<lparr>rr_status := Op_RUNNING,
     rr_started_at := (case rr_started_at r of Some t \<Rightarrow> Some t | None \<Rightarrow> Some now)\<rparr>"

definition run_restore ::
    "'w restore_env \<Rightarrow> operation \<Rightarrow> restore_run \<Rightarrow> user option \<Rightarrow> workload \<Rightarrow> cluster \<Rightarrow> string \<Rightarrow> ('w, unit) rm" where
  "run_restore X op restore actor w cl archive =
     bindM (readM (\<lambda>d. find_task d (op_id op))) (\<lambda>task.
     bindM (nowM (rx_env X)) (\<lambda>now.
     if op_status op = Op_RUNNING \<and> task = None then
       (if lease_runs (rx_settings X) op now then rollbackM
        else restore_finish X op (Some restore) actor Op_FAILED False (Some ''RESTORE_SUBMISSION_STATE_UNKNOWN'') None)
     else
       thenM (writeM (\<lambda>d. put_restore_run (rr_id restore) (claim_restore_row now) (put_op (op_id op) (claim_op now) d)))
       (thenM commitM
       (catch_app
         (bindM (readM (restore_open_client X cl)) (\<lambda>client.
          bindM (liftM client) (\<lambda>api.
          case task of
            Some t \<Rightarrow> restore_poll X op restore actor t api
          | None \<Rightarrow> restore_submit X op restore actor w cl archive api)))
         (\<lambda>e. restore_finish X op (Some restore) actor Op_FAILED False (Some (code e)) (map_option pt_upid task))))))"

text \<open>What a restore needs, if all of it is there.\<close>

definition restore_source :: "db \<Rightarrow> operation \<Rightarrow> (restore_run \<times> workload \<times> cluster \<times> string) option" where
  "restore_source d op =
     (case restore_of_operation d (op_id op) of None \<Rightarrow> None | Some r \<Rightarrow>
      (case (get_backup_run d (rr_backup_run_id r), get_wl d (op_workload_id op), get_row cl_id (clusters d) (op_cluster_id op)) of
         (Some b, Some w, Some cl) \<Rightarrow>
           (case (get_target d (br_backup_target_id b), br_snapshot_volume_id b) of
              (Some t, Some (c # cs)) \<Rightarrow>
                if br_status b = Op_SUCCEEDED \<and> bt_is_enabled t \<and> cl_is_active cl then Some (r, w, cl, c # cs) else None
            | _ \<Rightarrow> None)
       | _ \<Rightarrow> None))"

definition restore_actor_ok :: "user option \<Rightarrow> bool" where
  "restore_actor_ok actor = (case actor of None \<Rightarrow> False | Some u \<Rightarrow> user_is_active u \<and> user_role_of u = SUPER_ADMIN)"

definition restore_run_all :: "'w restore_env \<Rightarrow> uuid \<Rightarrow> ('w, unit) rm" where
  "restore_run_all X i =
     bindM (readM (\<lambda>d. get_op d i)) (\<lambda>row. case row of
       None \<Rightarrow> returnM ()
     | Some op \<Rightarrow>
       if op_operation_type op \<noteq> ''WORKLOAD_RESTORE'' then returnM ()
       else if terminal_status (op_status op) then returnM ()
       else
         bindM (readM (\<lambda>d. (restore_of_operation d (op_id op), restore_source d op, get_user d (op_requested_by_id op))))
         (\<lambda>(restore, source, actor). case source of
            None \<Rightarrow> restore_finish X op restore actor Op_FAILED False (Some ''RESTORE_SOURCE_UNAVAILABLE'') None
          | Some (r, w, cl, archive) \<Rightarrow>
              if \<not> restore_actor_ok actor
              then restore_finish X op (Some r) actor Op_FAILED False (Some ''PERMISSION_REVOKED'') None
              else run_restore X op r actor w cl archive))"

text \<open>\<open>run_restore_operation\<close>: one task of the worker.\<close>

definition run_restore_operation :: "'w restore_env \<Rightarrow> uuid \<Rightarrow> db \<Rightarrow> 'w \<Rightarrow> unit result \<times> 'w rs" where
  "run_restore_operation X i d w = restore_run_all X i (start_run d w)"

end
