(* ===== verification/Job_Runs.thy ===== *)
theory Job_Runs
  imports Backup_Api Power_Total
begin

text \<open>
  What the backup and the restore worker have in common: which writes a run makes, that the
  operation and the row of its backup or restore change their status together, and that a job that
  has been taken up is never submitted to Proxmox again.
\<close>

section \<open>Writes of a run\<close>

definition taken_up :: "uuid \<Rightarrow> db \<Rightarrow> bool" where
  "taken_up i d = (case get_op d i of Some x \<Rightarrow> op_status x \<noteq> Op_QUEUED | None \<Rightarrow> False)"

definition job_write :: "uuid \<Rightarrow> db \<Rightarrow> db \<Rightarrow> bool" where
  "job_write i d d' \<longleftrightarrow> (taken_up i d \<longrightarrow> taken_up i d')"

lemma taken_rows [simp]:
  "taken_up i (put_task j f d) = taken_up i d" "taken_up i (add_task t d) = taken_up i d"
  "taken_up i (put_backup_run j g d) = taken_up i d" "taken_up i (put_restore_run j h d) = taken_up i d"
  "taken_up i (add_audit_event c e d) = taken_up i d"
  by (simp_all add: taken_up_def put_task_def add_task_def put_backup_run_def put_restore_run_def)

lemma taken_put_op:
  assumes "\<And>x. op_id (f x) = op_id x" "\<And>x. op_status x \<noteq> Op_QUEUED \<Longrightarrow> op_status (f x) \<noteq> Op_QUEUED"
  shows "taken_up i d \<Longrightarrow> taken_up i (put_op j f d)"
  using assms by (auto simp: taken_up_def put_op_def get_modify_row split: option.splits)

lemma taken_polled: "taken_up i d \<Longrightarrow> taken_up i (polled op t now d)"
  by (auto simp: polled_def intro!: taken_put_op)

text \<open>
  A predicate on the state of a run that survives every call but the submission named \<open>nm\<close> and
  every write that does not put the operation back into the queue.
\<close>

locale job_run_invariant =
  fixes I :: "uuid \<Rightarrow> 'w rs \<Rightarrow> bool" and nm :: string
  assumes k_write: "(\<And>d. taken_up i d \<Longrightarrow> taken_up i (f d)) \<Longrightarrow> keeps (I i) (writeM f)"
    and now: "keeps (I i) (nowM V)" and uuid4: "keeps (I i) (uuid4M V)"
    and sleep: "keeps (I i) (sleepM V t)" and commit: "keeps (I i) commitM"
    and rollback: "keeps (I i) rollbackM"
    and call_string: "n \<noteq> nm \<Longrightarrow> keeps (I i) (callM n args (h :: 'w \<Rightarrow> string result \<times> 'w))"
    and call_dict: "n \<noteq> nm \<Longrightarrow> keeps (I i) (callM n args (k :: 'w \<Rightarrow> dict result \<times> 'w))"
    and call_dicts: "n \<noteq> nm \<Longrightarrow> keeps (I i) (callM n args (l :: 'w \<Rightarrow> dict list result \<times> 'w))"
begin

lemmas basic = now uuid4 sleep commit rollback keeps_returnM keeps_raiseM keeps_readM keeps_liftM keeps_bindM
  keeps_thenM keeps_catch_app keeps_attemptM keeps_if keeps_case_option keeps_case_prod

lemma keeps_pause: "keeps (I i) (pauseM V S)"
  unfolding pauseM_def by (intro basic)

lemma keeps_attempts: "keeps (I i) (read_attempts j)"
  unfolding read_attempts_def by (intro basic)

lemma keeps_job_poll:
  assumes nm: "nm \<noteq> ''get_task_status''" and exits: "\<And>e. keeps (I i) (failed e)" "\<And>st. keeps (I i) (stopped st)" "keeps (I i) late"
  shows "keeps (I i) (job_poll E S op t get_status failed stopped late)"
proof -
  have turn: "keeps (I i) (job_turn E S op t get_status failed stopped again)" if "keeps (I i) again" for again
    unfolding job_turn_def
    by (intro basic k_write taken_polled)
      (use that nm exits in \<open>auto split: sum.splits intro!: basic keeps_pause call_dict\<close>)
  have "keeps (I i) (job_loop fuel E S op t get_status failed stopped late deadline)" for fuel deadline
    by (induction fuel; subst job_loop.simps) (auto intro!: basic keeps_attempts turn exits)
  then show ?thesis unfolding job_poll_def by (intro basic keeps_attempts)
qed

lemma keeps_task_late: "keeps (I i) (task_late t)"
  unfolding task_late_def by (rule k_write) simp

end

definition calls_named :: "string \<Rightarrow> api_call list \<Rightarrow> nat" where
  "calls_named nm cs = length (filter (\<lambda>c. call_name c = nm) cs)"

lemma calls_named_append [simp]:
  "calls_named nm (cs @ [c]) = calls_named nm cs + (if call_name c = nm then 1 else 0)" "calls_named nm [] = 0"
  by (simp_all add: calls_named_def)

definition submitted_after_claim :: "string \<Rightarrow> nat \<Rightarrow> uuid \<Rightarrow> 'w rs \<Rightarrow> bool" where
  "submitted_after_claim nm n i s \<longleftrightarrow> taken_up i (rs_db s) \<and> rs_commits s \<noteq> [] \<and> taken_up i (hd (rs_commits s)) \<and>
     calls_named nm (rs_calls s) = n"

interpretation claim: job_run_invariant "submitted_after_claim nm n" nm for nm n
  by unfold_locales (auto simp: keeps_def wp_rules submitted_after_claim_def split: prod.splits sum.splits)

lemma start_claimed: "taken_up i d \<Longrightarrow> submitted_after_claim nm 0 i (start_run d w)"
  by (simp add: submitted_after_claim_def start_run_def)

text \<open>The submission itself, whatever its answer.\<close>

lemma submission_counted:
  "submitted_after_claim nm n i s \<Longrightarrow>
   wp (callM nm args f) (\<lambda>_. submitted_after_claim nm (n + 1) i) (\<lambda>_. submitted_after_claim nm (n + 1) i) s"
  by (auto simp: wp_rules submitted_after_claim_def split: prod.splits sum.splits)

lemma wp_imp: "wp m (\<lambda>_. I) (\<lambda>_. I) s \<Longrightarrow> (\<And>t. I t \<Longrightarrow> J t) \<Longrightarrow> wp m (\<lambda>_. J) (\<lambda>_. J) s"
  by (erule wp_mono)

abbreviation once_claimed :: "string \<Rightarrow> uuid \<Rightarrow> 'w rs \<Rightarrow> bool" where
  "once_claimed nm i s \<equiv> submitted_after_claim nm 0 i s \<or> submitted_after_claim nm 1 i s"

text \<open>The first submission and what follows it.\<close>

lemma submit_then_once:
  assumes "submitted_after_claim nm 0 i s" and follow: "\<And>x. keeps (submitted_after_claim nm 1 i) (f x)"
  shows "wp (bindM (attemptM (callM nm args g)) f) (\<lambda>_. once_claimed nm i) (\<lambda>_. once_claimed nm i) s"
proof -
  have "wp (f x) (\<lambda>_. once_claimed nm i) (\<lambda>_. once_claimed nm i) t" if "submitted_after_claim nm 1 i t" for x t
    by (rule wp_imp[OF keeps_at[OF follow that]]) simp
  with submission_counted[OF assms(1), of args g] show ?thesis
    by (auto simp: wp_bindM wp_attemptM split: exn.splits elim!: wp_mono)
qed

lemma guarded_once:
  assumes "wp m (\<lambda>_. once_claimed nm i) (\<lambda>_. once_claimed nm i) t" "\<And>n e. keeps (submitted_after_claim nm n i) (h e)"
  shows "wp (catch_app m h) (\<lambda>_. once_claimed nm i) (\<lambda>_. once_claimed nm i) t"
proof -
  have "wp (h e) (\<lambda>_. once_claimed nm i) (\<lambda>_. once_claimed nm i) u" if "once_claimed nm i u" for e u
    using that by (elim disjE) (rule wp_imp[OF keeps_at[OF assms(2)]], assumption, simp)+
  with assms(1) show ?thesis unfolding wp_catch_app by (auto split: exn.splits elim!: wp_mono)
qed

text \<open>At most one submission so far, and none before the claim was committed.\<close>

definition submitted_once :: "string \<Rightarrow> uuid \<Rightarrow> 'w rs \<Rightarrow> bool" where
  "submitted_once nm i s \<longleftrightarrow> calls_named nm (rs_calls s) = 0 \<or> submitted_after_claim nm 1 i s"

lemma once_claimed_submitted: "once_claimed nm i t \<Longrightarrow> submitted_once nm i t"
  by (auto simp: submitted_once_def submitted_after_claim_def)

section \<open>Histories\<close>

text \<open>
  The life of one operation: \<open>R i d n d'\<close> says that a run of its worker, started on the stored state
  \<open>d\<close>, made \<open>n\<close> submissions and left \<open>d'\<close> stored.  Between two runs other transactions may change
  anything, but do not put the operation back into the queue.
\<close>

inductive job_history :: "(uuid \<Rightarrow> db \<Rightarrow> nat \<Rightarrow> db \<Rightarrow> bool) \<Rightarrow> uuid \<Rightarrow> db \<Rightarrow> nat \<Rightarrow> db \<Rightarrow> bool" for R i where
  start: "job_history R i d 0 d"
| ran: "job_history R i d n d' \<Longrightarrow> R i d' k d'' \<Longrightarrow> job_history R i d (n + k) d''"
| other: "job_history R i d n d' \<Longrightarrow> (taken_up i d' \<Longrightarrow> taken_up i d'') \<Longrightarrow> job_history R i d n d''"

locale submits_once =
  fixes R :: "uuid \<Rightarrow> db \<Rightarrow> nat \<Rightarrow> db \<Rightarrow> bool"
  assumes taken_run: "R i d n d' \<Longrightarrow> taken_up i d \<Longrightarrow> n = 0 \<and> taken_up i d'"
    and queued_run: "R i d n d' \<Longrightarrow> n \<le> 1 \<and> (n = 1 \<longrightarrow> taken_up i d')"
begin

lemma at_most_once: "job_history R i d n d' \<Longrightarrow> n \<le> 1 \<and> (n = 1 \<longrightarrow> taken_up i d')"
proof (induction rule: job_history.induct)
  case (ran d n d' k d'')
  with taken_run[OF ran.hyps(2)] queued_run[OF ran.hyps(2)] show ?case
    by (cases "n = 1") (auto simp: le_Suc_eq)
qed auto

end

section \<open>Two rows, one status\<close>

text \<open>
  \<open>sel d i\<close> is the key and the status of the backup or restore of operation \<open>i\<close>.  \<open>job_in\<close> says that
  the operation has a status in \<open>S\<close> and that the row with key \<open>j\<close>, if there is one, has the same.
\<close>

definition job_in ::
    "(db \<Rightarrow> uuid \<Rightarrow> (uuid \<times> operation_status) option) \<Rightarrow> (operation_status \<Rightarrow> bool) \<Rightarrow> uuid \<times> uuid option \<Rightarrow> db \<Rightarrow> bool" where
  "job_in sel S k d = (case get_op d (fst k) of
     None \<Rightarrow> False
   | Some x \<Rightarrow> S (op_status x) \<and> sel d (fst k) = map_option (\<lambda>j. (j, op_status x)) (snd k))"

lemma get_op_put_op:
  "(\<And>x. op_id (f x) = op_id x) \<Longrightarrow> get_op (put_op j f d) i = (if j = i then map_option f (get_op d i) else get_op d i)"
  by (simp add: put_op_def get_modify_row)

lemma get_op_task: "get_op (put_task j g d) i = get_op d i" "get_op (add_task t d) i = get_op d i"
  by (simp_all add: put_task_def add_task_def)

locale job_rows =
  fixes sel :: "db \<Rightarrow> uuid \<Rightarrow> (uuid \<times> operation_status) option"
    and put :: "uuid \<Rightarrow> ('r \<Rightarrow> 'r) \<Rightarrow> db \<Rightarrow> db" and status_of :: "'r \<Rightarrow> operation_status" and same_keys :: "('r \<Rightarrow> 'r) \<Rightarrow> bool"
  assumes sel_op: "sel (put_op j f d) i = sel d i" and sel_task: "sel (put_task j g d) i = sel d i"
    and sel_add: "sel (add_task t d) i = sel d i" and sel_audit: "sel (add_audit_event c e d) i = sel d i"
    and sel_put: "same_keys h \<Longrightarrow> (\<And>r. status_of (h r) = st) \<Longrightarrow> sel d i = Some (j, st') \<Longrightarrow> sel (put j h d) i = Some (j, st)"
    and sel_put_same: "same_keys h \<Longrightarrow> (\<And>r. status_of (h r) = status_of r) \<Longrightarrow> sel (put j h d) i = sel d i"
    and get_op_put: "get_op (put j h d) i = get_op d i"
begin

abbreviation in_active :: "uuid \<times> uuid option \<Rightarrow> db \<Rightarrow> bool" where
  "in_active \<equiv> job_in sel (\<lambda>st. \<not> terminal_status st)"

abbreviation in_terminal :: "uuid \<times> uuid option \<Rightarrow> db \<Rightarrow> bool" where
  "in_terminal \<equiv> job_in sel terminal_status"

lemma job_in_audit: "job_in sel S k (add_audit_event c e d) = job_in sel S k d"
  by (simp add: job_in_def sel_audit split: option.split)

lemma job_in_task:
  "job_in sel S k (put_task j g d) = job_in sel S k d" "job_in sel S k (add_task t d) = job_in sel S k d"
  by (simp_all add: job_in_def sel_task sel_add get_op_task split: option.split)

lemma job_in_put_op:
  "(\<And>x. op_id (f x) = op_id x) \<Longrightarrow> (\<And>x. op_status (f x) = op_status x) \<Longrightarrow> job_in sel S k (put_op j f d) = job_in sel S k d"
  by (auto simp: job_in_def sel_op get_op_put_op split: option.splits)

lemma job_in_put:
  "same_keys h \<Longrightarrow> (\<And>r. status_of (h r) = status_of r) \<Longrightarrow> job_in sel S k (put j h d) = job_in sel S k d"
  by (simp add: job_in_def get_op_put sel_put_same split: option.split)

text \<open>A write to both rows that gives them the status \<open>st\<close>.\<close>

lemma job_in_both:
  assumes "\<And>x. op_id (f x) = op_id x" "\<And>x. op_status (f x) = st" "same_keys h" "\<And>r. status_of (h r) = st"
    "job_in sel S (i, Some j) d" "T st"
  shows "job_in sel T (i, Some j) (put j h (put_op i f d))"
  using assms sel_put[of h st "put_op i f d" i j]
  by (auto simp: job_in_def get_op_put sel_op get_op_put_op split: option.splits)

lemma job_in_op_only:
  assumes "\<And>x. op_id (f x) = op_id x" "\<And>x. op_status (f x) = st" "job_in sel S (i, None) d" "T st"
  shows "job_in sel T (i, None) (put_op i f d)"
  using assms by (auto simp: job_in_def sel_op get_op_put_op split: option.splits)

end

sublocale job_rows \<subseteq> job: job_lifecycle "job_in sel (\<lambda>st. \<not> terminal_status st)" "job_in sel terminal_status"
  by unfold_locales (auto simp: job_in_audit, auto simp: job_in_def split: option.splits)

context job_rows
begin

lemmas keeps_basic = job.keeps_now job.keeps_uuid4 job.keeps_sleep job.keeps_call job.keeps_commit
  job.keeps_rollback keeps_returnM keeps_raiseM keeps_readM keeps_liftM keeps_bindM keeps_thenM
  keeps_catch_app keeps_attemptM keeps_if keeps_case_option

lemmas ends_basic = job.ends_bind job.ends_then job.ends_raise job.ends_if job.ends_catch

lemma keeps_polled: "keeps (live (in_active k)) (writeM (polled op t now))"
  by (rule job.keeps_write) (simp add: polled_def job_in_put_op job_in_task)

lemma keeps_put_task: "keeps (live (in_active k)) (writeM (put_task j g))"
  by (rule job.keeps_write) (simp add: job_in_task)

lemma keeps_pause: "keeps (live (in_active k)) (pauseM V S)"
  unfolding pauseM_def by (intro keeps_basic)

lemma keeps_attempts: "keeps (live (in_active k)) (read_attempts j)"
  unfolding read_attempts_def by (intro keeps_basic)

text \<open>A step that ends, taken_up after the clock has been read.\<close>

lemma ends_settles:
  assumes "ends (in_active k) (in_terminal k) m" "live (in_active k) s"
  shows "wp m (\<lambda>_ t. finished (in_active k) (in_terminal k) t \<or> P t) (\<lambda>_. live (in_active k)) (s\<lparr>rs_world := w\<rparr>)"
proof -
  have "live (in_active k) (s\<lparr>rs_world := w\<rparr>)" using assms(2) by (simp add: live_def)
  with assms(1) have "wp m (\<lambda>_. finished (in_active k) (in_terminal k)) (\<lambda>_. live (in_active k)) (s\<lparr>rs_world := w\<rparr>)"
    by (simp add: ends_def)
  then show ?thesis by (rule wp_mono) auto
qed

lemma job_poll_ends:
  assumes exits: "\<And>e. ends (in_active k) (in_terminal k) (failed e)" "\<And>st. ends (in_active k) (in_terminal k) (stopped st)"
    "ends (in_active k) (in_terminal k) late"
  shows "ends (in_active k) (in_terminal k) (job_poll E S op t get_status failed stopped late)"
proof -
  have turn: "ends (in_active k) (in_terminal k) (job_turn E S op t get_status failed stopped again)"
    if "ends (in_active k) (in_terminal k) again" for again
    unfolding job_turn_def
    by (intro ends_basic keeps_basic keeps_polled)
      (use that exits in \<open>auto split: sum.splits intro!: ends_basic keeps_pause\<close>)
  have "ends (in_active k) (in_terminal k) (job_loop fuel E S op t get_status failed stopped late deadline)" for fuel deadline
    by (induction fuel; subst job_loop.simps) (auto intro!: ends_basic keeps_basic keeps_attempts turn exits)
  then show ?thesis unfolding job_poll_def by (intro ends_basic keeps_basic keeps_attempts)
qed

lemma keeps_task_late: "keeps (live (in_active k)) (task_late t)"
  unfolding task_late_def by (rule keeps_put_task)

end

section \<open>Every run comes back\<close>

text \<open>
  The errors that can leave a run: \<open>IntegrityError\<close> of a commit, and what Python raises on answers of
  the wrong shape.  \<open>out of fuel\<close> is not among them.
\<close>

definition job_error :: "exn \<Rightarrow> bool" where
  "job_error e \<longleftrightarrow> e \<in> {IntegrityError, PyError ''TypeError'', PyError ''ValueError''}"

abbreviation app_or_job :: "exn \<Rightarrow> bool" where
  "app_or_job e \<equiv> is_app e \<or> job_error e"

abbreviation job_returns :: "('w, 'a) rm \<Rightarrow> 'w rs \<Rightarrow> bool" where
  "job_returns m s \<equiv> wp m (\<lambda>_ _. True) (\<lambda>e _. job_error e) s"

lemma job_error_integrity [simp]: "job_error IntegrityError" "job_error (PyError ''TypeError'')" "job_error (PyError ''ValueError'')"
  by (simp_all add: job_error_def)

lemma job_error_no_app [simp]: "\<not> job_error (App e)"
  by (simp add: job_error_def)

lemma raises_weaken: "raises_only X m \<Longrightarrow> (\<And>e. X e \<Longrightarrow> Y e) \<Longrightarrow> raises_only Y m"
  unfolding raises_only_def by (blast intro: wp_mono)

lemma catch_returns:
  assumes "wp m (\<lambda>_ _. True) (\<lambda>e _. app_or_job e) s" "\<And>e. raises_only job_error (h e)"
  shows "job_returns (catch_app m h) s"
  unfolding wp_catch_app
  by (rule wp_mono[OF assms(1)]) (use assms(2) in \<open>auto simp: raises_only_def is_app_def split: exn.splits\<close>)

lemma job_returns_app: "job_returns m s \<Longrightarrow> wp m (\<lambda>_ _. True) (\<lambda>e _. app_or_job e) s"
  by (erule wp_mono) simp_all

lemma catch_job_returns: "job_returns m s \<Longrightarrow> (\<And>e. raises_only job_error (h e)) \<Longrightarrow> job_returns (catch_app m h) s"
  by (rule catch_returns[OF job_returns_app])

lemma raises_catch_all:
  assumes "raises_only app_or_job m" "\<And>e. raises_only job_error (h e)"
  shows "raises_only job_error (catch_app m h)"
  using catch_returns[OF _ assms(2)] assms(1) by (simp add: raises_only_def)

lemma job_call: "app_only f \<Longrightarrow> raises_only app_or_job (callM nm args f)"
  by (rule raises_weaken[OF raises_only_call]) auto

lemma raises_try: "raises_only app_or_job m \<Longrightarrow> raises_only job_error (attemptM m)"
  unfolding attemptM_def by (auto intro!: raises_catch_all raises_rules)

lemma job_returnsI: "raises_only job_error m \<Longrightarrow> job_returns m s"
  by (simp add: raises_only_def)

lemma attempts_after:
  "attempts_in j (s\<lparr>rs_world := w\<rparr>) = attempts_in j s" "attempts_in j (s\<lparr>rs_commits := cs\<rparr>) = attempts_in j s"
  "attempts_in j (s\<lparr>rs_calls := c\<rparr>) = attempts_in j s" "attempts_in j (s\<lparr>rs_world := w, rs_db := d\<rparr>) = attempts_in j (s\<lparr>rs_db := d\<rparr>)"
  by (simp_all add: attempts_in_def)

lemma attempts_polled:
  "attempts_in (pt_id t) s = Some k \<Longrightarrow> attempts_in (pt_id t) (s\<lparr>rs_db := polled op t now (rs_db s)\<rparr>) = Some (k + 1)"
  by (auto simp: attempts_in_def polled_def get_task_put)

lemma job_turn_returns:
  assumes api: "\<And>n u. app_only (get_status n u)" and exits: "\<And>e. raises_only job_error (failed e)" "\<And>st. raises_only job_error (stopped st)"
    and k: "attempts_in (pt_id t) s = Some k"
    and again: "\<And>s'. attempts_in (pt_id t) s' = Some (k + 1) \<Longrightarrow> job_returns again s'"
  shows "job_returns (job_turn E S op t get_status failed stopped again) s"
proof -
  obtain now w1 where now: "re_now E (rs_world s) = (now, w1)" by fastforce
  obtain r w2 where call: "get_status (pt_pve_node t) (pt_upid t) w1 = (r, w2)" by fastforce
  have app: "r = Inl e \<Longrightarrow> is_app e" for e
    using api[of "pt_pve_node t" "pt_upid t"] call by (auto simp: app_only_def) (metis fst_conv sum.case(1))
  let ?s1 = "s\<lparr>rs_world := w1, rs_db := polled op t now (rs_db s)\<rparr>"
  have "attempts_in (pt_id t) ?s1 = Some (k + 1)"
    using attempts_polled[OF k] by (simp add: attempts_after)
  then have "job_returns (thenM (pauseM E S) again) (?s1\<lparr>rs_world := w2, rs_calls := cs\<rparr>)" for cs
    by (auto simp: pauseM_def wp_rules attempts_after intro!: again)
  then show ?thesis
    using app job_returnsI[OF exits(1)] job_returnsI[OF exits(2)]
    by (cases r) (auto simp: job_turn_def wp_rules wp_attemptM now call is_app_def split: exn.splits)
qed

lemma job_poll_returns:
  assumes api: "\<And>n u. app_only (get_status n u)" and exits: "\<And>e. raises_only job_error (failed e)" "\<And>st. raises_only job_error (stopped st)"
    "raises_only job_error late" and k: "attempts_in (pt_id t) s = Some k"
  shows "job_returns (job_poll E S op t get_status failed stopped late) s"
proof -
  have attempts: "wp (read_attempts (pt_id t)) Q F s' = Q k s'" if "attempts_in (pt_id t) s' = Some k" for Q F s' k
    using that by (auto simp: read_attempts_def wp_rules attempts_in_def)
  have loop: "job_returns (job_loop fuel E S op t get_status failed stopped late deadline) s"
    if "attempts_in (pt_id t) s = Some k" "nat (pve_task_max_poll_attempts S - k) \<le> fuel" for fuel deadline k s
    using that
  proof (induction fuel arbitrary: s k)
    case 0
    then show ?case using job_returnsI[OF exits(3)]
      by (subst job_loop.simps) (auto simp: wp_bindM wp_nowM wp_if wp_raiseM attempts attempts_after split: prod.splits)
  next
    case (Suc n)
    have "job_returns (job_turn E S op t get_status failed stopped (job_loop n E S op t get_status failed stopped late deadline))
        (s\<lparr>rs_world := w1\<rparr>)" for w1
      by (rule job_turn_returns[OF api exits(1,2), where k = k]) (use Suc in \<open>auto simp: attempts_after\<close>)
    then show ?case using job_returnsI[OF exits(3)] Suc.prems
      by (subst job_loop.simps) (auto simp: wp_bindM wp_nowM wp_if attempts attempts_after split: prod.splits)
  qed
  from k loop show ?thesis
    by (auto simp: job_poll_def wp_bindM wp_nowM attempts attempts_after split: prod.splits)
qed

text \<open>A task that is stored, or has just been added, has a number of attempts.\<close>

lemma attempts_stored: "t \<in> set (pve_tasks (rs_db s)) \<Longrightarrow> \<exists>k. attempts_in (pt_id t) s = Some k"
  by (cases "get_row pt_id (pve_tasks (rs_db s)) (pt_id t)") (auto simp: attempts_in_def get_row_None)

lemma attempts_added: "\<exists>k. attempts_in (pt_id t) (s\<lparr>rs_db := put_op i f (add_task t d)\<rparr>) = Some k"
  by (rule attempts_stored) (simp add: put_op_def add_task_def)

lemma added_task_returns:
  fixes p :: "('w, unit) rm"
  assumes "\<And>s k. attempts_in (pt_id t) s = Some k \<Longrightarrow> job_returns p s" "\<And>e. raises_only job_error (h e)"
  shows "raises_only job_error (thenM (writeM (\<lambda>d. put_op i f (add_task t d))) (thenM commitM (catch_app p h)))"
proof -
  have "job_returns (catch_app p h) (s\<lparr>rs_db := put_op i f (add_task t d), rs_commits := cs\<rparr>)" for s :: "'w rs" and d cs
  proof -
    obtain k where "attempts_in (pt_id t) (s\<lparr>rs_db := put_op i f (add_task t d), rs_commits := cs\<rparr>) = Some k"
      using attempts_added[where t = t and s = s and i = i and f = f and d = d] by (auto simp: attempts_after)
    from assms(1)[OF this] assms(2) show ?thesis by (rule catch_job_returns)
  qed
  then show ?thesis by (auto simp: raises_only_def wp_rules)
qed

lemma connect_with_cases:
  "connect_with dec con cl cr = Inl e \<Longrightarrow> is_app e"
  "connect_with dec con cl cr = Inr api \<Longrightarrow> \<exists>t s. con cl t s = Inr api"
  by (auto simp: connect_with_def is_app_def split: option.splits sum.splits)

end
