(* ===== verification/Restore_Lifecycle.thy ===== *)
theory Restore_Lifecycle
  imports Restore_Runner Job_Runs
begin

text \<open>
  The restore worker in the terms of \<open>Job_Runs\<close>: it submits a restore at most once, the restore row
  follows the operation, and every run comes back.
\<close>

section \<open>Submissions\<close>

lemma restore_finish_op_simps [simp]:
  "op_id (restore_finish_op t st retry err x) = op_id x" "op_status (restore_finish_op t st retry err x) = st"
  by (simp_all add: restore_finish_op_def)

lemma taken_put_restore_opt [simp]: "taken_up i (put_restore_opt r f d) = taken_up i d"
  by (simp add: put_restore_opt_def split: option.split)

context job_run_invariant
begin

lemma keeps_restore_finish: "st \<noteq> Op_QUEUED \<Longrightarrow> keeps (I i) (restore_finish X op restore actor st retry err upid)"
  unfolding restore_finish_def by (intro basic k_write) (auto intro: taken_put_op)

lemma keeps_restore_poll: "nm \<noteq> ''get_task_status'' \<Longrightarrow> keeps (I i) (restore_poll X op restore actor t api)"
  unfolding restore_poll_def restore_unread_def restore_stopped_def
  by (intro keeps_job_poll basic k_write keeps_task_late keeps_restore_finish) (auto intro: taken_put_op)

lemma keeps_target_is_free:
  "nm \<noteq> ''get_nodes'' \<Longrightarrow> nm \<noteq> ''get_guests'' \<Longrightarrow> keeps (I i) (target_is_free api r)"
  unfolding target_is_free_def by (intro basic call_dicts) auto

lemma keeps_restore_follow:
  "nm \<noteq> ''get_task_status'' \<Longrightarrow> keeps (I i) (restore_follow X op restore actor w cl api answer)"
  unfolding restore_follow_def
  by (auto split: sum.splits simp: Let_def intro!: basic k_write taken_put_op keeps_restore_finish keeps_restore_poll)

end

abbreviation restore_call :: string where
  "restore_call \<equiv> ''submit_guest_restore''"

lemma restore_submit_once:
  assumes "submitted_after_claim restore_call 0 i s"
  shows "wp (restore_submit X op restore actor w cl archive api) (\<lambda>_. once_claimed restore_call i)
    (\<lambda>_. once_claimed restore_call i) s"
proof -
  let ?I = "submitted_after_claim restore_call 0 i" and ?J = "once_claimed restore_call i"
  have free: "wp (target_is_free api restore) (\<lambda>_. ?I) (\<lambda>_. ?I) s"
    by (rule keeps_at[OF claim.keeps_target_is_free assms]) simp_all
  have fin: "wp (restore_finish X op (Some restore) actor Op_FAILED False err upid) (\<lambda>_. ?J) (\<lambda>_. ?J) t"
    if "?I t" for err upid t
    by (rule wp_imp[OF keeps_at[OF claim.keeps_restore_finish that]]) simp_all
  have sub: "wp (bindM (attemptM (call_restore api w restore archive)) (restore_follow X op restore actor w cl api))
      (\<lambda>_. ?J) (\<lambda>_. ?J) t" if "?I t" for t
    unfolding call_restore_def by (rule submit_then_once[OF that claim.keeps_restore_follow]) simp
  show ?thesis
    unfolding restore_submit_def wp_bindM[of "target_is_free _ _"]
    by (rule wp_mono[OF free]) (use fin sub in auto)
qed

text \<open>
  A run: on an operation that has been taken up nothing is submitted; otherwise the claim is
  committed before the one submission.
\<close>

lemma run_restore_taken:
  assumes "submitted_after_claim restore_call 0 i s" "op_status op \<noteq> Op_QUEUED" "active_status (op_status op)"
  shows "wp (run_restore X op restore actor w cl archive) (\<lambda>_. submitted_after_claim restore_call 0 i)
    (\<lambda>_. submitted_after_claim restore_call 0 i) s"
proof -
  let ?I = "submitted_after_claim restore_call 0 i"
  have running: "op_status op = Op_RUNNING" using assms(2,3) by (cases "op_status op") auto
  have fin: "keeps ?I (restore_finish X op (Some restore) actor Op_FAILED False err upid)" for err upid
    by (rule claim.keeps_restore_finish) simp
  have poll: "keeps ?I (restore_poll X op restore actor t api)" for t api
    by (rule claim.keeps_restore_poll) simp
  have rest: "keeps ?I (thenM (writeM (\<lambda>d. put_restore_run (rr_id restore) (claim_restore_row now) (put_op (op_id op) (claim_op now) d)))
       (thenM commitM (catch_app (bindM (readM (restore_open_client X cl)) (\<lambda>client.
          bindM (liftM client) (\<lambda>api. restore_poll X op restore actor t api)))
         (\<lambda>e. restore_finish X op (Some restore) actor Op_FAILED False (Some (code e)) upid))))" for now t upid
    by (intro claim.basic claim.k_write poll fin) (auto intro: taken_put_op)
  have none: "wp (if lease_runs (rx_settings X) op now then rollbackM
       else restore_finish X op (Some restore) actor Op_FAILED False (Some ''RESTORE_SUBMISSION_STATE_UNKNOWN'') None)
     (\<lambda>_. ?I) (\<lambda>_. ?I) t" if "?I t" for now t
    using keeps_at[OF fin that] keeps_at[OF claim.rollback that] by simp
  show ?thesis
    using running assms(1) none
    by (cases "find_task (rs_db s) (op_id op)")
      (auto simp: run_restore_def wp_bindM wp_readM wp_nowM submitted_after_claim_def
        split: prod.splits intro!: keeps_at[OF rest])
qed

lemma run_restore_queued:
  assumes "calls_named restore_call (rs_calls s) = 0" "get_op (rs_db s) i = Some op" "op_status op = Op_QUEUED"
  shows "wp (run_restore X op restore actor w cl archive) (\<lambda>_. submitted_once restore_call i)
    (\<lambda>_. submitted_once restore_call i) s"
proof -
  let ?I = "submitted_after_claim restore_call 0 i" and ?J = "once_claimed restore_call i"
  let ?client = "\<lambda>task. bindM (readM (restore_open_client X cl)) (\<lambda>client. bindM (liftM client) (\<lambda>api.
      case task of Some t \<Rightarrow> restore_poll X op restore actor t api
      | None \<Rightarrow> restore_submit X op restore actor w cl archive api))"
  let ?fin = "\<lambda>task e. restore_finish X op (Some restore) actor Op_FAILED False (Some (code e)) (map_option pt_upid task)"
  have i: "op_id op = i" using assms(2) get_row_Some by metis
  have fin: "keeps (submitted_after_claim restore_call n i) (?fin task e)" for n task e
    by (rule claim.keeps_restore_finish) simp
  have poll: "wp (restore_poll X op restore actor t api) (\<lambda>_. ?J) (\<lambda>_. ?J) u" if "?I u" for t api u
    by (rule wp_imp[OF keeps_at[OF claim.keeps_restore_poll that]]) simp_all
  have client: "wp (?client task) (\<lambda>_. ?J) (\<lambda>_. ?J) t" if "?I t" for task t
    using that poll restore_submit_once[OF that] by (auto simp: wp_rules split: option.splits sum.splits)
  have guarded: "wp (catch_app (?client task) (?fin task)) (\<lambda>_. submitted_once restore_call i)
      (\<lambda>_. submitted_once restore_call i) t" if "?I t" for task t
    by (rule wp_imp[OF guarded_once[OF client[OF that] fin]]) (rule once_claimed_submitted)
  have claim: "?I (s\<lparr>rs_world := w1, rs_db := d, rs_commits := d # cs\<rparr>)"
    if "d = put_restore_run j f (put_op i (claim_op now) (rs_db s))" for w1 cs d j f now
    using that assms(1,2) i by (simp add: submitted_after_claim_def taken_up_def put_restore_run_def get_op_put_op)
  show ?thesis
    using assms(1,3) i guarded[OF claim]
    by (auto simp: run_restore_def wp_bindM wp_thenM wp_readM wp_nowM wp_writeM wp_commitM
        split: prod.splits) (simp_all add: submitted_once_def)
qed

lemma restore_run_all_taken:
  assumes "taken_up i d"
  shows "wp (restore_run_all X i) (\<lambda>_. submitted_after_claim restore_call 0 i)
    (\<lambda>_. submitted_after_claim restore_call 0 i) (start_run d w)"
proof -
  let ?I = "submitted_after_claim restore_call 0 i"
  obtain op where op: "get_op d i = Some op" "op_status op \<noteq> Op_QUEUED"
    using assms by (auto simp: taken_up_def split: option.splits)
  note start = start_claimed[OF assms, of restore_call w]
  have "wp (restore_finish X op restore actor Op_FAILED False err upid) (\<lambda>_. ?I) (\<lambda>_. ?I) (start_run d w)"
    for restore actor err upid
    by (rule keeps_at[OF claim.keeps_restore_finish start]) simp
  with op start run_restore_taken[OF start op(2)] show ?thesis
    by (auto simp: restore_run_all_def wp_rules start_run_def split: option.splits prod.splits)
qed

lemma restore_run_all_once:
  "wp (restore_run_all X i) (\<lambda>_. submitted_once restore_call i) (\<lambda>_. submitted_once restore_call i) (start_run d w)"
proof (cases "taken_up i d")
  case True
  from restore_run_all_taken[OF this] show ?thesis
    by (rule wp_imp) (simp add: once_claimed_submitted)
next
  case False
  let ?J = "submitted_once restore_call i"
  have zero: "calls_named restore_call (rs_calls (start_run d w)) = 0" by (simp add: start_run_def)
  have fin: "wp (restore_finish X op restore actor Op_FAILED False err upid) (\<lambda>_. ?J) (\<lambda>_. ?J) (start_run d w)"
    for op restore actor err upid
    by (auto simp: restore_finish_def wp_rules start_run_def submitted_once_def split: prod.splits)
  have q: "op_status op = Op_QUEUED" if "get_op d i = Some op" for op
    using False that by (simp add: taken_up_def)
  have run: "wp (run_restore X op r actor wl cl archive) (\<lambda>_. ?J) (\<lambda>_. ?J) (start_run d w)"
    if "get_op d i = Some op" for op r actor wl cl archive
    by (rule run_restore_queued[OF zero]) (use that q in \<open>simp_all add: start_run_def\<close>)
  have "?J (start_run d w)" by (simp add: submitted_once_def start_run_def)
  with fin run show ?thesis
    by (auto simp: restore_run_all_def wp_rules start_run_def split: option.splits prod.splits)
qed

text \<open>One run of the worker, in any environment and world: the submissions it made, the state it left.\<close>

definition restore_ran :: "'w itself \<Rightarrow> uuid \<Rightarrow> db \<Rightarrow> nat \<Rightarrow> db \<Rightarrow> bool" where
  "restore_ran W i d n d' \<longleftrightarrow> (\<exists>(X :: 'w restore_env) w r s. run_restore_operation X i d w = (r, s) \<and>
     n = calls_named ''submit_guest_restore'' (rs_calls s) \<and> d' = stored s)"

interpretation restores: submits_once "restore_ran W" for W :: "'w itself"
proof
  fix i d n d' assume R: "restore_ran W i d n d'"
  then obtain X :: "'w restore_env" and w r s where run: "restore_run_all X i (start_run d w) = (r, s)"
    and n: "n = calls_named restore_call (rs_calls s)" and d': "d' = stored s"
    by (auto simp: restore_ran_def run_restore_operation_def)
  show "n \<le> 1 \<and> (n = 1 \<longrightarrow> taken_up i d')"
    using restore_run_all_once[of X i d w] run n d'
    by (auto simp: wp_def submitted_once_def submitted_after_claim_def stored_def split: sum.splits)
  assume "taken_up i d"
  with restore_run_all_taken[OF this, of X w] run n d' show "n = 0 \<and> taken_up i d'"
    by (auto simp: wp_def submitted_after_claim_def stored_def split: sum.splits)
qed

section \<open>The restore row follows the operation\<close>

definition restore_status_of :: "db \<Rightarrow> uuid \<Rightarrow> (uuid \<times> operation_status) option" where
  "restore_status_of d i = map_option (\<lambda>r. (rr_id r, rr_status r)) (restore_of_operation d i)"

definition restore_keys :: "(restore_run \<Rightarrow> restore_run) \<Rightarrow> bool" where
  "restore_keys h \<longleftrightarrow> (\<forall>r. rr_id (h r) = rr_id r \<and> rr_operation_id (h r) = rr_operation_id r)"

lemma restore_of_put:
  "restore_keys h \<Longrightarrow> restore_of_operation (put_restore_run j h d) i =
     map_option (\<lambda>r. if rr_id r = j then h r else r) (restore_of_operation d i)"
  by (simp add: restore_of_operation_def put_restore_run_def restore_keys_def find_modify_row)

lemma restore_status_put:
  "restore_keys h \<Longrightarrow> (\<And>r. rr_status (h r) = st) \<Longrightarrow> restore_status_of d i = Some (j, st') \<Longrightarrow>
   restore_status_of (put_restore_run j h d) i = Some (j, st)"
  "restore_keys h \<Longrightarrow> (\<And>r. rr_status (h r) = rr_status r) \<Longrightarrow>
   restore_status_of (put_restore_run j h d) i = restore_status_of d i"
  by (auto simp: restore_status_of_def restore_of_put restore_keys_def option.map_comp comp_def intro: option.map_cong)

interpretation rrow: job_rows restore_status_of put_restore_run rr_status restore_keys
proof (unfold_locales, goal_cases)
  case (5 h st d i j st') then show ?case by (rule restore_status_put(1))
next
  case (6 h j d i) then show ?case by (rule restore_status_put(2))
qed (simp_all add: restore_status_of_def restore_of_operation_def put_op_def put_task_def add_task_def
    add_audit_event_def put_restore_run_def)

abbreviation restore_active :: "uuid \<times> uuid option \<Rightarrow> db \<Rightarrow> bool" where
  "restore_active \<equiv> job_in restore_status_of (\<lambda>st. \<not> terminal_status st)"

abbreviation restore_terminal :: "uuid \<times> uuid option \<Rightarrow> db \<Rightarrow> bool" where
  "restore_terminal \<equiv> job_in restore_status_of terminal_status"

lemma restore_row_writes [simp]:
  "restore_keys (finish_restore_row t st)" "rr_status (finish_restore_row t st r) = st"
  "restore_keys (claim_restore_row t)" "rr_status (claim_restore_row t r) = Op_RUNNING"
  by (simp_all add: restore_keys_def finish_restore_row_def claim_restore_row_def)

lemma restore_finish_ends:
  assumes "terminal_status st" "k = (op_id op, map_option rr_id restore)"
  shows "ends (restore_active k) (restore_terminal k) (restore_finish X op restore actor st retry err upid)"
  unfolding restore_finish_def
proof (rule rrow.job.ends_bind[OF rrow.job.keeps_now], rule rrow.job.ends_finish)
  fix t d assume "restore_active k d"
  with assms show "restore_terminal k (add_audit_event (worker_ctx t) (restore_event op restore actor st err upid)
      (put_restore_opt restore (finish_restore_row t st) (put_op (op_id op) (restore_finish_op t st retry err) d)))"
    by (cases restore)
      (auto simp: rrow.job_in_audit put_restore_opt_def intro!: rrow.job_in_both rrow.job_in_op_only)
qed

lemma restore_poll_ends:
  assumes k: "k = (op_id op, Some (rr_id restore))"
  shows "ends (restore_active k) (restore_terminal k) (restore_poll X op restore actor t api)"
  unfolding restore_poll_def restore_unread_def restore_stopped_def
  by (intro rrow.job_poll_ends rrow.ends_basic rrow.keeps_basic rrow.keeps_task_late rrow.keeps_put_task
      rrow.job.keeps_write restore_finish_ends)
    (simp_all add: k rrow.job_in_put_op rrow.job_in_task)

lemma restore_submit_ends:
  assumes k: "k = (op_id op, Some (rr_id restore))"
  shows "ends (restore_active k) (restore_terminal k) (restore_submit X op restore actor w cl archive api)"
proof -
  have follow: "ends (restore_active k) (restore_terminal k) (restore_follow X op restore actor w cl api answer)" for answer
    unfolding restore_follow_def Let_def
    by (auto split: sum.splits intro!: rrow.ends_basic rrow.keeps_basic rrow.job.keeps_write restore_finish_ends
        restore_poll_ends simp: k rrow.job_in_put_op rrow.job_in_task)
  show ?thesis
    unfolding restore_submit_def target_is_free_def call_restore_def
    by (intro rrow.ends_basic rrow.keeps_basic restore_finish_ends follow) (simp_all add: k)
qed

lemma run_restore_outcome:
  assumes k: "k = (op_id op, Some (rr_id restore))" and "live (restore_active k) s"
  shows "wp (run_restore X op restore actor w cl archive)
    (\<lambda>_ t. finished (restore_active k) (restore_terminal k) t \<or>
       op_status op = Op_RUNNING \<and> rs_commits t = rs_commits s \<and> rs_calls t = rs_calls s)
    (\<lambda>_. live (restore_active k)) s"
proof -
  have fin: "ends (restore_active k) (restore_terminal k) (restore_finish X op (Some restore) actor Op_FAILED False err upid)"
    for err upid by (rule restore_finish_ends) (simp_all add: k)
  let ?rest = "\<lambda>now task. thenM (writeM (\<lambda>d. put_restore_run (rr_id restore) (claim_restore_row now) (put_op (op_id op) (claim_op now) d)))
       (thenM commitM
       (catch_app
         (bindM (readM (restore_open_client X cl)) (\<lambda>client.
          bindM (liftM client) (\<lambda>api.
          case task of
            Some t \<Rightarrow> restore_poll X op restore actor t api
          | None \<Rightarrow> restore_submit X op restore actor w cl archive api)))
         (\<lambda>e. restore_finish X op (Some restore) actor Op_FAILED False (Some (code e)) (map_option pt_upid task))))"
  have rest: "ends (restore_active k) (restore_terminal k) (?rest now task)" for now task
    by (intro rrow.ends_basic rrow.keeps_basic rrow.job.keeps_write fin)
      (auto split: option.splits intro!: restore_poll_ends restore_submit_ends rrow.job_in_both simp: k)
  note settle = rrow.ends_settles[OF _ assms(2)]
  show ?thesis
    using settle[OF fin] settle[OF rest]
    by (auto simp: run_restore_def wp_bindM wp_readM wp_nowM wp_rollbackM split: prod.splits)
qed

lemma restore_source_row: "restore_source d op = Some (r, w, cl, archive) \<Longrightarrow> restore_of_operation d (op_id op) = Some r"
  by (auto simp: restore_source_def split: option.splits list.splits if_splits)

lemma restore_run_outcome:
  assumes "restore_active (i, j) d" "\<And>op. get_op d i = Some op \<Longrightarrow> op_operation_type op = ''WORKLOAD_RESTORE''"
  shows "wp (restore_run_all X i)
    (\<lambda>_ t. finished (restore_active (i, j)) (restore_terminal (i, j)) t \<or>
       rs_commits t = [d] \<and> rs_calls t = [] \<and> map_option op_status (get_op d i) = Some Op_RUNNING)
    (\<lambda>_. live (restore_active (i, j))) (start_run d w)"
proof -
  let ?Q = "\<lambda>_ t. finished (restore_active (i, j)) (restore_terminal (i, j)) t \<or>
       rs_commits t = [d] \<and> rs_calls t = [] \<and> map_option op_status (get_op d i) = Some Op_RUNNING"
  let ?E = "\<lambda>_. live (restore_active (i, j))"
  obtain op where op: "get_op d i = Some op" "op_id op = i" "active_status (op_status op)"
      "restore_status_of d i = map_option (\<lambda>k. (k, op_status op)) j"
    using assms(1) get_row_Some[of op_id "operations d" i] by (auto simp: job_in_def split: option.splits)
  have live: "live (restore_active (i, j)) (start_run d w)" using assms(1) by (simp add: live_def start_run_def)
  have row: "map_option rr_id (restore_of_operation d i) = j"
    using op(4) by (cases "restore_of_operation d i"; cases j) (auto simp: restore_status_of_def)
  have fin: "wp (restore_finish X op restore actor Op_FAILED False err upid) ?Q ?E (start_run d w)"
    if "map_option rr_id restore = j" for restore actor err upid
    using restore_finish_ends[of Op_FAILED "(i, j)" op restore X actor False err upid] that op(2) live
    by (auto simp: ends_def elim!: wp_mono)
  have run: "wp (run_restore X op r actor wl cl archive) ?Q ?E (start_run d w)"
    if "restore_of_operation d i = Some r" for r actor wl cl archive
  proof -
    have "(i, j) = (op_id op, Some (rr_id r))" using that row op(2) by auto
    from run_restore_outcome[OF this live] show ?thesis
      by (rule wp_mono) (auto simp: start_run_def op(1))
  qed
  show ?thesis
    using op assms(2)[OF op(1)] fin[OF row] fin[of "Some _"] run row restore_source_row[of d op]
    by (auto simp: restore_run_all_def wp_rules start_run_def split: option.splits prod.splits)
qed

section \<open>Every run comes back\<close>

text \<open>The client raises nothing but \<open>AppError\<close>.\<close>

definition restore_api_safe :: "'w restore_api \<Rightarrow> bool" where
  "restore_api_safe api \<longleftrightarrow> app_only (ra_get_guests api) \<and> app_only (ra_get_nodes api) \<and>
     (\<forall>k n a v m. app_only (ra_submit_guest_restore api k n a v m)) \<and> (\<forall>n u. app_only (ra_get_task_status api n u))"

definition restore_env_safe :: "'w restore_env \<Rightarrow> bool" where
  "restore_env_safe X = (case rx_injected X of
     Some api \<Rightarrow> restore_api_safe api
   | None \<Rightarrow> (\<forall>c t s api. rx_connect X c t s = Inr api \<longrightarrow> restore_api_safe api))"

lemma restore_open_client_cases:
  "restore_open_client X cl d = Inl e \<Longrightarrow> is_app e"
  "restore_env_safe X \<Longrightarrow> restore_open_client X cl d = Inr api \<Longrightarrow> restore_api_safe api"
  by (auto simp: restore_open_client_def restore_env_safe_def is_app_def[of "App _"] split: option.splits
      dest!: connect_with_cases)

lemma restore_finish_raises: "raises_only job_error (restore_finish X op restore actor st retry err upid)"
  unfolding restore_finish_def by (intro raises_rules) simp

lemma restore_poll_returns:
  assumes "restore_api_safe api" "attempts_in (pt_id t) s = Some k"
  shows "job_returns (restore_poll X op restore actor t api) s"
  unfolding restore_poll_def
  by (rule job_poll_returns[OF _ _ _ _ assms(2)])
    (use assms(1) in \<open>auto simp: restore_api_safe_def restore_unread_def restore_stopped_def task_late_def
      intro!: raises_rules restore_finish_raises\<close>)

lemma any_result_vmid: "any_result (\<lambda>item. vmid_matches v (f item)) guests = Inl e \<Longrightarrow> e = PyError ''TypeError''"
  by (induction guests) (auto simp: bind_result_Inl_iff vmid_matches_def py_in_set_def split: if_splits)

lemma restore_submit_raises:
  assumes "restore_api_safe api"
  shows "raises_only app_or_job (restore_submit X op restore actor w cl archive api)"
proof -
  have free: "raises_only app_or_job (target_is_free api restore)"
    unfolding target_is_free_def
    by (intro raises_rules job_call raises_only_lift)
      (use assms in \<open>auto simp: restore_api_safe_def dest!: any_result_vmid intro!: raises_rules job_call raises_only_lift\<close>)
  have poll: "raises_only job_error (thenM (writeM (\<lambda>d. put_op i f (add_task t d))) (thenM commitM
      (catch_app (restore_poll X op restore actor t api) h)))" if "\<And>e. raises_only job_error (h e)" for i f t h
    by (rule added_task_returns[OF _ that]) (rule restore_poll_returns[OF assms])
  have follow: "raises_only app_or_job (restore_follow X op restore actor w cl api answer)" for answer
    by (rule raises_weaken[of job_error])
      (auto simp: restore_follow_def Let_def split: sum.splits intro!: raises_only_basic(1-7) raises_only_bind restore_finish_raises poll)
  show ?thesis
    unfolding restore_submit_def call_restore_def
    by (intro raises_only_bind free)
      (use assms follow in \<open>auto simp: restore_api_safe_def
        intro!: raises_rules raises_weaken[OF restore_finish_raises] raises_weaken[OF raises_try] job_call\<close>)
qed

lemma run_restore_returns:
  assumes "restore_env_safe X"
  shows "job_returns (run_restore X op restore actor w cl archive) s"
proof -
  let ?h = "\<lambda>task e. restore_finish X op (Some restore) actor Op_FAILED False (Some (code e)) (map_option pt_upid task)"
  have "wp (bindM (readM (restore_open_client X cl)) (\<lambda>client. bindM (liftM client) (\<lambda>api. case task of
        Some t \<Rightarrow> restore_poll X op restore actor t api
      | None \<Rightarrow> restore_submit X op restore actor w cl archive api))) (\<lambda>_ _. True) (\<lambda>e _. app_or_job e) s'"
    if "task = find_task (rs_db s) i" "pve_tasks (rs_db s') = pve_tasks (rs_db s)" for task s' i
  proof (cases "restore_open_client X cl (rs_db s')")
    case (Inl e)
    then show ?thesis using restore_open_client_cases(1) by (auto simp: wp_rules)
  next
    case (Inr api)
    with assms have safe: "restore_api_safe api" by (blast intro: restore_open_client_cases(2))
    show ?thesis
    proof (cases task)
      case None
      with Inr restore_submit_raises[OF safe] show ?thesis by (simp add: wp_rules raises_only_def)
    next
      case (Some t)
      then have "t \<in> set (pve_tasks (rs_db s'))" using that by (auto simp: find_task_def dest: find_Some_mem)
      then obtain k where "attempts_in (pt_id t) s' = Some k" using attempts_stored by blast
      from job_returns_app[OF restore_poll_returns[OF safe this]] Inr Some show ?thesis
        by (simp add: wp_rules)
    qed
  qed
  note rest = catch_returns[OF this restore_finish_raises]
  show ?thesis
    using job_returnsI[OF restore_finish_raises] rest
    by (auto simp: run_restore_def wp_bindM wp_readM wp_nowM wp_rollbackM wp_thenM wp_writeM wp_commitM
        put_restore_run_def put_op_def split: prod.splits)
qed

lemma restore_run_all_returns: "restore_env_safe X \<Longrightarrow> job_returns (restore_run_all X i) s"
  using run_restore_returns job_returnsI[OF restore_finish_raises]
  by (auto simp: restore_run_all_def wp_rules split: option.splits prod.splits)

section \<open>Targets that are in use\<close>

text \<open>
  \<open>target_refused api node vmid\<close>: whenever the client is asked, the node is not online or the VMID is
  listed (or the question fails).
\<close>

definition target_refused :: "'w restore_api \<Rightarrow> string \<Rightarrow> int \<Rightarrow> bool" where
  "target_refused api node vmid \<longleftrightarrow>
     (\<forall>w. case fst (ra_get_nodes api w) of Inl _ \<Rightarrow> True | Inr ns \<Rightarrow> \<not> node_online node ns) \<or>
     (\<forall>w. case fst (ra_get_guests api w) of Inl _ \<Rightarrow> True
        | Inr guests \<Rightarrow> any_result (\<lambda>g. vmid_matches vmid (dict_get g ''vmid'')) guests \<noteq> Inr False)"

definition restore_clients_refuse :: "'w restore_env \<Rightarrow> string \<Rightarrow> int \<Rightarrow> bool" where
  "restore_clients_refuse X node vmid = (case rx_injected X of
     Some api \<Rightarrow> target_refused api node vmid
   | None \<Rightarrow> (\<forall>c t s api. rx_connect X c t s = Inr api \<longrightarrow> target_refused api node vmid))"

definition no_submission :: "uuid \<Rightarrow> 'w rs \<Rightarrow> bool" where
  "no_submission i s \<longleftrightarrow> calls_named restore_call (rs_calls s) = 0"

interpretation unsent: job_run_invariant no_submission restore_call
  by unfold_locales (auto simp: keeps_def wp_rules no_submission_def split: prod.splits sum.splits)

lemma refused_not_free:
  assumes "target_refused api (rr_target_node r) (rr_target_vmid r)" "no_submission i s"
  shows "wp (target_is_free api r) (\<lambda>free t. \<not> free \<and> no_submission i t) (\<lambda>_. no_submission i) s"
proof -
  obtain ns w1 where n: "ra_get_nodes api (rs_world s) = (ns, w1)" by fastforce
  obtain gs w2 where g: "ra_get_guests api w1 = (gs, w2)" by fastforce
  have listed: b if "ns = Inr x" "node_online (rr_target_node r) x" "gs = Inr y"
      "any_result (\<lambda>g. vmid_matches (rr_target_vmid r) (dict_get g ''vmid'')) y = Inr b" for x y b
    using assms(1) n g that unfolding target_refused_def
    by (elim disjE) (drule spec[of _ "rs_world s"], simp, drule spec[of _ w1], cases b, simp_all)
  show ?thesis
    using assms(2) listed
    by (cases ns; cases gs) (auto simp: target_is_free_def wp_bindM wp_callM wp_if wp_liftM wp_returnM n g
        no_submission_def calls_named_def split: sum.split bool.split)
qed

lemma run_restore_refused:
  assumes "restore_clients_refuse X (rr_target_node r) (rr_target_vmid r)"
  shows "keeps (no_submission i) (run_restore X op r actor w cl archive)"
proof -
  have fin: "st \<noteq> Op_QUEUED \<Longrightarrow> keeps (no_submission i) (restore_finish X op (Some r) actor st retry err upid)"
    for st retry err upid by (rule unsent.keeps_restore_finish)
  have sub: "keeps (no_submission i) (restore_submit X op r actor w cl archive api)"
    if "target_refused api (rr_target_node r) (rr_target_vmid r)" for api
    unfolding keeps_def
  proof (intro allI impI)
    fix s :: "'a rs" assume "no_submission i s"
    from refused_not_free[OF that this]
    show "wp (restore_submit X op r actor w cl archive api) (\<lambda>_. no_submission i) (\<lambda>_. no_submission i) s"
      unfolding restore_submit_def wp_bindM[of "target_is_free _ _"]
      by (rule wp_mono) (use keeps_at[OF fin] in auto)
  qed
  have client: "keeps (no_submission i) (bindM (readM (restore_open_client X cl)) (\<lambda>client. bindM (liftM client) (\<lambda>api.
      case task of Some t \<Rightarrow> restore_poll X op r actor t api | None \<Rightarrow> restore_submit X op r actor w cl archive api)))" for task
    unfolding keeps_def
  proof (intro allI impI)
    fix s :: "'a rs" assume s: "no_submission i s"
    have poll: "keeps (no_submission i) (restore_poll X op r actor t api)" for t api
      by (rule unsent.keeps_restore_poll) simp
    have "target_refused api (rr_target_node r) (rr_target_vmid r)" if "restore_open_client X cl (rs_db s) = Inr api" for api
      using that assms
      by (auto simp: restore_open_client_def restore_clients_refuse_def split: option.splits dest!: connect_with_cases(2))
    moreover have "wp (restore_submit X op r actor w cl archive api) (\<lambda>_. no_submission i) (\<lambda>_. no_submission i) s"
      if "target_refused api (rr_target_node r) (rr_target_vmid r)" for api
      by (rule keeps_at[OF sub[OF that] s])
    ultimately show "wp (bindM (readM (restore_open_client X cl)) (\<lambda>client. bindM (liftM client) (\<lambda>api.
      case task of Some t \<Rightarrow> restore_poll X op r actor t api | None \<Rightarrow> restore_submit X op r actor w cl archive api)))
      (\<lambda>_. no_submission i) (\<lambda>_. no_submission i) s"
      using s keeps_at[OF poll s]
      by (cases task) (auto simp: wp_rules split: sum.splits)
  qed
  show ?thesis
    unfolding run_restore_def
    by (intro unsent.basic fin client unsent.k_write) (auto intro: taken_put_op)
qed

end
