(* ===== verification/Backup_Lifecycle.thy ===== *)
theory Backup_Lifecycle
  imports Backup_Runner Job_Runs
begin

text \<open>
  The backup worker in the terms of \<open>Job_Runs\<close>: it submits a backup at most once, the backup row
  follows the operation, and every run comes back.
\<close>

section \<open>Submissions\<close>

lemma backup_finish_op_simps [simp]:
  "op_id (backup_finish_op t st retry err x) = op_id x" "op_status (backup_finish_op t st retry err x) = st"
  by (simp_all add: backup_finish_op_def)

lemma taken_put_backup_opt [simp]: "taken_up i (put_backup_opt r f d) = taken_up i d"
  by (simp add: put_backup_opt_def split: option.split)

context job_run_invariant
begin

lemma keeps_backup_finish: "st \<noteq> Op_QUEUED \<Longrightarrow> keeps (I i) (backup_finish X op r actor st retry err upid)"
  unfolding backup_finish_def by (intro basic k_write) (auto intro: taken_put_op)

lemma keeps_read_metadata:
  "nm \<noteq> ''get_backup_content'' \<Longrightarrow> keeps (I i) (read_metadata r w target api)"
  unfolding read_metadata_def record_snapshot_def Let_def
  by (intro basic call_dicts k_write) simp_all

lemma keeps_read_transfer: "nm \<noteq> ''get_task_log'' \<Longrightarrow> keeps (I i) (read_transfer r t api)"
  unfolding read_transfer_def by (intro basic call_dicts k_write) simp_all

lemma keeps_backup_poll:
  assumes "nm \<noteq> ''get_task_status''" "nm \<noteq> ''get_backup_content''" "nm \<noteq> ''get_task_log''"
  shows "keeps (I i) (backup_poll X op r actor w target t api)"
  unfolding backup_poll_def backup_unread_def backup_stopped_def
  by (intro keeps_job_poll basic k_write keeps_task_late keeps_backup_finish keeps_read_metadata keeps_read_transfer)
    (use assms in \<open>auto intro: taken_put_op\<close>)

lemma keeps_backup_follow:
  assumes "nm \<noteq> ''get_task_status''" "nm \<noteq> ''get_backup_content''" "nm \<noteq> ''get_task_log''"
  shows "keeps (I i) (backup_follow X op r actor w target api answer)"
  unfolding backup_follow_def
  using assms
  by (auto split: sum.splits simp: Let_def intro!: basic k_write taken_put_op keeps_backup_finish keeps_backup_poll)

end

abbreviation backup_call :: string where
  "backup_call \<equiv> ''submit_guest_backup''"

lemma backup_submit_once:
  assumes "submitted_after_claim backup_call 0 i s"
  shows "wp (backup_submit X op r actor w target api) (\<lambda>_. once_claimed backup_call i) (\<lambda>_. once_claimed backup_call i) s"
  unfolding backup_submit_def call_backup_def
  by (rule submit_then_once[OF assms claim.keeps_backup_follow]) simp_all

text \<open>
  A run: on an operation that has been taken up nothing is submitted; otherwise the claim is
  committed before the one submission.
\<close>

lemma run_backup_taken:
  assumes "submitted_after_claim backup_call 0 i s" "op_status op \<noteq> Op_QUEUED" "active_status (op_status op)"
  shows "wp (run_backup X op r actor w target) (\<lambda>_. submitted_after_claim backup_call 0 i)
    (\<lambda>_. submitted_after_claim backup_call 0 i) s"
proof -
  let ?I = "submitted_after_claim backup_call 0 i"
  have running: "op_status op = Op_RUNNING" using assms(2,3) by (cases "op_status op") auto
  have fin: "keeps ?I (backup_finish X op (Some r) actor Op_FAILED False err upid)" for err upid
    by (rule claim.keeps_backup_finish) simp
  have poll: "keeps ?I (backup_poll X op r actor w target t api)" for t api
    by (rule claim.keeps_backup_poll) simp_all
  have rest: "keeps ?I (thenM (writeM (\<lambda>d. put_backup_run (br_id r) (claim_backup_row now) (put_op (op_id op) (claim_op now) d)))
       (thenM commitM (catch_app (bindM (readM (backup_open_client X w)) (\<lambda>client.
          bindM (liftM client) (\<lambda>api. backup_poll X op r actor w target t api)))
         (\<lambda>e. backup_finish X op (Some r) actor Op_FAILED False (Some (code e)) upid))))" for now t upid
    by (intro claim.basic claim.k_write poll fin) (auto intro: taken_put_op)
  have none: "wp (if lease_runs (bx_settings X) op now then rollbackM
       else backup_finish X op (Some r) actor Op_FAILED False (Some ''BACKUP_SUBMISSION_STATE_UNKNOWN'') None)
     (\<lambda>_. ?I) (\<lambda>_. ?I) t" if "?I t" for now t
    using keeps_at[OF fin that] keeps_at[OF claim.rollback that] by simp
  show ?thesis
    using running assms(1) none
    by (cases "find_task (rs_db s) (op_id op)")
      (auto simp: run_backup_def wp_bindM wp_readM wp_nowM submitted_after_claim_def
        split: prod.splits intro!: keeps_at[OF rest])
qed

lemma run_backup_queued:
  assumes "calls_named backup_call (rs_calls s) = 0" "get_op (rs_db s) i = Some op" "op_status op = Op_QUEUED"
  shows "wp (run_backup X op r actor w target) (\<lambda>_. submitted_once backup_call i) (\<lambda>_. submitted_once backup_call i) s"
proof -
  let ?I = "submitted_after_claim backup_call 0 i" and ?J = "once_claimed backup_call i"
  let ?client = "\<lambda>task. bindM (readM (backup_open_client X w)) (\<lambda>client. bindM (liftM client) (\<lambda>api.
      case task of Some t \<Rightarrow> backup_poll X op r actor w target t api
      | None \<Rightarrow> backup_submit X op r actor w target api))"
  let ?fin = "\<lambda>task e. backup_finish X op (Some r) actor Op_FAILED False (Some (code e)) (map_option pt_upid task)"
  have i: "op_id op = i" using assms(2) get_row_Some by metis
  have fin: "keeps (submitted_after_claim backup_call n i) (?fin task e)" for n task e
    by (rule claim.keeps_backup_finish) simp
  have poll: "wp (backup_poll X op r actor w target t api) (\<lambda>_. ?J) (\<lambda>_. ?J) u" if "?I u" for t api u
    by (rule wp_imp[OF keeps_at[OF claim.keeps_backup_poll that]]) simp_all
  have client: "wp (?client task) (\<lambda>_. ?J) (\<lambda>_. ?J) t" if "?I t" for task t
    using that poll backup_submit_once[OF that] by (auto simp: wp_rules split: option.splits sum.splits)
  have guarded: "wp (catch_app (?client task) (?fin task)) (\<lambda>_. submitted_once backup_call i)
      (\<lambda>_. submitted_once backup_call i) t" if "?I t" for task t
    by (rule wp_imp[OF guarded_once[OF client[OF that] fin]]) (rule once_claimed_submitted)
  have claim: "?I (s\<lparr>rs_world := w1, rs_db := d, rs_commits := d # cs\<rparr>)"
    if "d = put_backup_run j f (put_op i (claim_op now) (rs_db s))" for w1 cs d j f now
    using that assms(1,2) i by (simp add: submitted_after_claim_def taken_up_def put_backup_run_def get_op_put_op)
  show ?thesis
    using assms(1,3) i guarded[OF claim]
    by (auto simp: run_backup_def wp_bindM wp_thenM wp_readM wp_nowM wp_writeM wp_commitM
        split: prod.splits) (simp_all add: submitted_once_def)
qed

lemma backup_run_all_taken:
  assumes "taken_up i d"
  shows "wp (backup_run_all X i) (\<lambda>_. submitted_after_claim backup_call 0 i)
    (\<lambda>_. submitted_after_claim backup_call 0 i) (start_run d w)"
proof -
  let ?I = "submitted_after_claim backup_call 0 i"
  obtain op where op: "get_op d i = Some op" "op_status op \<noteq> Op_QUEUED"
    using assms by (auto simp: taken_up_def split: option.splits)
  note start = start_claimed[OF assms, of backup_call w]
  have "wp (backup_finish X op r actor Op_FAILED False err upid) (\<lambda>_. ?I) (\<lambda>_. ?I) (start_run d w)"
    for r actor err upid
    by (rule keeps_at[OF claim.keeps_backup_finish start]) simp
  with op start run_backup_taken[OF start op(2)] show ?thesis
    by (auto simp: backup_run_all_def wp_rules start_run_def split: option.splits prod.splits)
qed

lemma backup_run_all_once:
  "wp (backup_run_all X i) (\<lambda>_. submitted_once backup_call i) (\<lambda>_. submitted_once backup_call i) (start_run d w)"
proof (cases "taken_up i d")
  case True
  from backup_run_all_taken[OF this] show ?thesis
    by (rule wp_imp) (simp add: once_claimed_submitted)
next
  case False
  let ?J = "submitted_once backup_call i"
  have zero: "calls_named backup_call (rs_calls (start_run d w)) = 0" by (simp add: start_run_def)
  have fin: "wp (backup_finish X op r actor Op_FAILED False err upid) (\<lambda>_. ?J) (\<lambda>_. ?J) (start_run d w)"
    for op r actor err upid
    by (auto simp: backup_finish_def wp_rules start_run_def submitted_once_def split: prod.splits)
  have q: "op_status op = Op_QUEUED" if "get_op d i = Some op" for op
    using False that by (simp add: taken_up_def)
  have once: "wp (run_backup X op r actor wl target) (\<lambda>_. ?J) (\<lambda>_. ?J) (start_run d w)"
    if "get_op d i = Some op" for op r actor wl target
    by (rule run_backup_queued[OF zero]) (use that q in \<open>simp_all add: start_run_def\<close>)
  have "?J (start_run d w)" by (simp add: submitted_once_def start_run_def)
  with fin once show ?thesis
    by (auto simp: backup_run_all_def wp_rules start_run_def split: option.splits prod.splits)
qed

text \<open>One run of the worker, in any environment and world: the submissions it made, the state it left.\<close>

definition backup_ran :: "'w itself \<Rightarrow> uuid \<Rightarrow> db \<Rightarrow> nat \<Rightarrow> db \<Rightarrow> bool" where
  "backup_ran W i d n d' \<longleftrightarrow> (\<exists>(X :: 'w backup_env) w r s. run_backup_operation X i d w = (r, s) \<and>
     n = calls_named ''submit_guest_backup'' (rs_calls s) \<and> d' = stored s)"

interpretation backups: submits_once "backup_ran W" for W :: "'w itself"
proof
  fix i d n d' assume R: "backup_ran W i d n d'"
  then obtain X :: "'w backup_env" and w r s where ran: "backup_run_all X i (start_run d w) = (r, s)"
    and n: "n = calls_named backup_call (rs_calls s)" and d': "d' = stored s"
    by (auto simp: backup_ran_def run_backup_operation_def)
  show "n \<le> 1 \<and> (n = 1 \<longrightarrow> taken_up i d')"
    using backup_run_all_once[of X i d w] ran n d'
    by (auto simp: wp_def submitted_once_def submitted_after_claim_def stored_def split: sum.splits)
  assume "taken_up i d"
  with backup_run_all_taken[OF this, of X w] ran n d' show "n = 0 \<and> taken_up i d'"
    by (auto simp: wp_def submitted_after_claim_def stored_def split: sum.splits)
qed

section \<open>The backup row follows the operation\<close>

definition backup_status_of :: "db \<Rightarrow> uuid \<Rightarrow> (uuid \<times> operation_status) option" where
  "backup_status_of d i = map_option (\<lambda>r. (br_id r, br_status r)) (backup_of_operation d i)"

definition backup_keys :: "(backup_run \<Rightarrow> backup_run) \<Rightarrow> bool" where
  "backup_keys h \<longleftrightarrow> (\<forall>r. br_id (h r) = br_id r \<and> br_operation_id (h r) = br_operation_id r)"

lemma backup_of_put:
  "backup_keys h \<Longrightarrow> backup_of_operation (put_backup_run j h d) i =
     map_option (\<lambda>r. if br_id r = j then h r else r) (backup_of_operation d i)"
  by (simp add: backup_of_operation_def put_backup_run_def backup_keys_def find_modify_row)

lemma backup_status_put:
  "backup_keys h \<Longrightarrow> (\<And>r. br_status (h r) = st) \<Longrightarrow> backup_status_of d i = Some (j, st') \<Longrightarrow>
   backup_status_of (put_backup_run j h d) i = Some (j, st)"
  "backup_keys h \<Longrightarrow> (\<And>r. br_status (h r) = br_status r) \<Longrightarrow>
   backup_status_of (put_backup_run j h d) i = backup_status_of d i"
  by (auto simp: backup_status_of_def backup_of_put backup_keys_def option.map_comp comp_def intro: option.map_cong)

interpretation brow: job_rows backup_status_of put_backup_run br_status backup_keys
proof (unfold_locales, goal_cases)
  case (5 h st d i j st') then show ?case by (rule backup_status_put(1))
next
  case (6 h j d i) then show ?case by (rule backup_status_put(2))
qed (simp_all add: backup_status_of_def backup_of_operation_def put_op_def put_task_def add_task_def
    add_audit_event_def put_backup_run_def)

abbreviation backup_active :: "uuid \<times> uuid option \<Rightarrow> db \<Rightarrow> bool" where
  "backup_active \<equiv> job_in backup_status_of (\<lambda>st. \<not> terminal_status st)"

abbreviation backup_terminal :: "uuid \<times> uuid option \<Rightarrow> db \<Rightarrow> bool" where
  "backup_terminal \<equiv> job_in backup_status_of terminal_status"

lemma backup_row_writes [simp]:
  "backup_keys (finish_backup_row t st)" "br_status (finish_backup_row t st r) = st"
  "backup_keys (claim_backup_row t)" "br_status (claim_backup_row t r) = Op_RUNNING"
  "backup_keys (snapshot_size sn)" "br_status (snapshot_size sn r) = br_status r"
  by (simp_all add: backup_keys_def finish_backup_row_def claim_backup_row_def snapshot_size_def split: option.split)

lemma backup_finish_ends:
  assumes "terminal_status st" "k = (op_id op, map_option br_id r)"
  shows "ends (backup_active k) (backup_terminal k) (backup_finish X op r actor st retry err upid)"
  unfolding backup_finish_def
proof (rule brow.job.ends_bind[OF brow.job.keeps_now], rule brow.job.ends_finish)
  fix t d assume "backup_active k d"
  with assms show "backup_terminal k (add_audit_event (worker_ctx t) (backup_event op actor st err upid)
      (put_backup_opt r (finish_backup_row t st) (put_op (op_id op) (backup_finish_op t st retry err) d)))"
    by (cases r)
      (auto simp: brow.job_in_audit put_backup_opt_def intro!: brow.job_in_both brow.job_in_op_only)
qed

lemma keeps_backup_row:
  "backup_keys h \<Longrightarrow> (\<And>r. br_status (h r) = br_status r) \<Longrightarrow> keeps (live (backup_active k)) (writeM (put_backup_run j h))"
  by (rule brow.job.keeps_write) (simp add: brow.job_in_put)

lemma keeps_metadata: "keeps (live (backup_active k)) (read_metadata r w target api)"
  unfolding read_metadata_def record_snapshot_def Let_def
  by (intro brow.keeps_basic keeps_backup_row) (simp_all, simp_all add: backup_keys_def)

lemma keeps_transfer: "keeps (live (backup_active k)) (read_transfer r t api)"
  unfolding read_transfer_def
  by (intro brow.keeps_basic keeps_backup_row) (simp_all add: backup_keys_def)

lemma backup_poll_ends:
  assumes k: "k = (op_id op, Some (br_id r))"
  shows "ends (backup_active k) (backup_terminal k) (backup_poll X op r actor w target t api)"
  unfolding backup_poll_def backup_unread_def backup_stopped_def
  by (intro brow.job_poll_ends brow.ends_basic brow.keeps_basic brow.keeps_task_late brow.keeps_put_task
      keeps_metadata keeps_transfer brow.job.keeps_write backup_finish_ends)
    (simp_all add: k brow.job_in_put_op brow.job_in_task)

lemma backup_submit_ends:
  assumes k: "k = (op_id op, Some (br_id r))"
  shows "ends (backup_active k) (backup_terminal k) (backup_submit X op r actor w target api)"
proof -
  have follow: "ends (backup_active k) (backup_terminal k) (backup_follow X op r actor w target api answer)" for answer
    unfolding backup_follow_def Let_def
    by (auto split: sum.splits intro!: brow.ends_basic brow.keeps_basic brow.job.keeps_write backup_finish_ends
        backup_poll_ends simp: k brow.job_in_put_op brow.job_in_task)
  show ?thesis
    unfolding backup_submit_def call_backup_def by (intro brow.ends_basic brow.keeps_basic follow)
qed

lemma run_backup_outcome:
  assumes k: "k = (op_id op, Some (br_id r))" and "live (backup_active k) s"
  shows "wp (run_backup X op r actor w target)
    (\<lambda>_ t. finished (backup_active k) (backup_terminal k) t \<or>
       op_status op = Op_RUNNING \<and> rs_commits t = rs_commits s \<and> rs_calls t = rs_calls s)
    (\<lambda>_. live (backup_active k)) s"
proof -
  have fin: "ends (backup_active k) (backup_terminal k) (backup_finish X op (Some r) actor Op_FAILED False err upid)"
    for err upid by (rule backup_finish_ends) (simp_all add: k)
  let ?rest = "\<lambda>now task. thenM (writeM (\<lambda>d. put_backup_run (br_id r) (claim_backup_row now) (put_op (op_id op) (claim_op now) d)))
       (thenM commitM
       (catch_app
         (bindM (readM (backup_open_client X w)) (\<lambda>client.
          bindM (liftM client) (\<lambda>api.
          case task of
            Some t \<Rightarrow> backup_poll X op r actor w target t api
          | None \<Rightarrow> backup_submit X op r actor w target api)))
         (\<lambda>e. backup_finish X op (Some r) actor Op_FAILED False (Some (code e)) (map_option pt_upid task))))"
  have rest: "ends (backup_active k) (backup_terminal k) (?rest now task)" for now task
    by (intro brow.ends_basic brow.keeps_basic brow.job.keeps_write fin)
      (auto split: option.splits intro!: backup_poll_ends backup_submit_ends brow.job_in_both simp: k)
  note settle = brow.ends_settles[OF _ assms(2)]
  show ?thesis
    using settle[OF fin] settle[OF rest]
    by (auto simp: run_backup_def wp_bindM wp_readM wp_nowM wp_rollbackM split: prod.splits)
qed

lemma backup_source_row: "backup_source d op = Some (r, w, t) \<Longrightarrow> backup_of_operation d (op_id op) = Some r"
  by (auto simp: backup_source_def split: option.splits if_splits)

lemma backup_run_outcome:
  assumes "backup_active (i, j) d" "\<And>op. get_op d i = Some op \<Longrightarrow> op_operation_type op = ''WORKLOAD_BACKUP''"
  shows "wp (backup_run_all X i)
    (\<lambda>_ t. finished (backup_active (i, j)) (backup_terminal (i, j)) t \<or>
       rs_commits t = [d] \<and> rs_calls t = [] \<and> map_option op_status (get_op d i) = Some Op_RUNNING)
    (\<lambda>_. live (backup_active (i, j))) (start_run d w)"
proof -
  let ?Q = "\<lambda>_ t. finished (backup_active (i, j)) (backup_terminal (i, j)) t \<or>
       rs_commits t = [d] \<and> rs_calls t = [] \<and> map_option op_status (get_op d i) = Some Op_RUNNING"
  let ?E = "\<lambda>_. live (backup_active (i, j))"
  obtain op where op: "get_op d i = Some op" "op_id op = i" "active_status (op_status op)"
      "backup_status_of d i = map_option (\<lambda>k. (k, op_status op)) j"
    using assms(1) get_row_Some[of op_id "operations d" i] by (auto simp: job_in_def split: option.splits)
  have live: "live (backup_active (i, j)) (start_run d w)" using assms(1) by (simp add: live_def start_run_def)
  have row: "map_option br_id (backup_of_operation d i) = j"
    using op(4) by (cases "backup_of_operation d i"; cases j) (auto simp: backup_status_of_def)
  have fin: "wp (backup_finish X op r actor Op_FAILED False err upid) ?Q ?E (start_run d w)"
    if "map_option br_id r = j" for r actor err upid
    using backup_finish_ends[of Op_FAILED "(i, j)" op r X actor False err upid] that op(2) live
    by (auto simp: ends_def elim!: wp_mono)
  have ran: "wp (run_backup X op r actor wl target) ?Q ?E (start_run d w)"
    if "backup_of_operation d i = Some r" for r actor wl target
  proof -
    have "(i, j) = (op_id op, Some (br_id r))" using that row op(2) by auto
    from run_backup_outcome[OF this live] show ?thesis
      by (rule wp_mono) (auto simp: start_run_def op(1))
  qed
  show ?thesis
    using op assms(2)[OF op(1)] fin[OF row] fin[of "Some _"] ran row backup_source_row[of d op]
    by (auto simp: backup_run_all_def wp_rules start_run_def split: option.splits prod.splits)
qed

section \<open>Every run comes back\<close>

text \<open>The client raises nothing but \<open>AppError\<close>.\<close>

definition backup_api_safe :: "'w backup_api \<Rightarrow> bool" where
  "backup_api_safe api \<longleftrightarrow> (\<forall>n v s m c. app_only (ba_submit_guest_backup api n v s m c)) \<and>
     (\<forall>n u. app_only (ba_get_task_status api n u)) \<and> (\<forall>n s v. app_only (ba_get_backup_content api n s v)) \<and>
     (\<forall>n u. app_only (ba_get_task_log api n u))"

definition backup_env_safe :: "'w backup_env \<Rightarrow> bool" where
  "backup_env_safe X = (case bx_injected X of
     Some api \<Rightarrow> backup_api_safe api
   | None \<Rightarrow> (\<forall>c t s api. bx_connect X c t s = Inr api \<longrightarrow> backup_api_safe api))"

lemma backup_open_client_cases:
  "backup_open_client X w d = Inl e \<Longrightarrow> is_app e"
  "backup_env_safe X \<Longrightarrow> backup_open_client X w d = Inr api \<Longrightarrow> backup_api_safe api"
  by (auto simp: backup_open_client_def backup_env_safe_def is_app_def[of "App _"] split: option.splits if_splits
      dest!: connect_with_cases)

lemma backup_finish_raises: "raises_only job_error (backup_finish X op r actor st retry err upid)"
  unfolding backup_finish_def by (intro raises_rules) simp

lemma filter_result_error:
  "filter_result (snapshot_candidate v) items = Inl e \<Longrightarrow> e = PyError ''TypeError''"
  by (induction items)
    (auto simp: bind_result_Inl_iff snapshot_candidate_def py_in_set_def split: if_splits json.splits)

lemma latest_snapshot_error: "latest_snapshot content v = Inl e \<Longrightarrow> e = PyError ''TypeError''"
  by (auto simp: latest_snapshot_def bind_result_Inl_iff dest: filter_result_error)

lemma read_metadata_raises: "backup_api_safe api \<Longrightarrow> raises_only job_error (read_metadata r w target api)"
  unfolding read_metadata_def record_snapshot_def Let_def
  by (intro raises_catch_all raises_rules job_call raises_only_lift)
    (auto simp: backup_api_safe_def dest!: latest_snapshot_error split: option.split intro!: raises_rules)

lemma read_transfer_raises: "backup_api_safe api \<Longrightarrow> raises_only job_error (read_transfer r t api)"
  unfolding read_transfer_def
  by (intro raises_catch_all raises_rules job_call) (simp_all add: backup_api_safe_def)

lemma backup_poll_returns:
  assumes "backup_api_safe api" "attempts_in (pt_id t) s = Some k"
  shows "job_returns (backup_poll X op r actor w target t api) s"
  unfolding backup_poll_def
proof (rule job_poll_returns[OF _ _ _ _ assms(2)])
  show "raises_only job_error (backup_stopped X op r actor w target t api st)" for st
    unfolding backup_stopped_def
    by (auto intro!: raises_only_basic(1-7) raises_only_bind raises_only_then backup_finish_raises
        read_metadata_raises read_transfer_raises assms(1))
qed (use assms(1) in \<open>auto simp: backup_api_safe_def backup_unread_def task_late_def
      intro!: raises_rules backup_finish_raises\<close>)

lemma backup_submit_raises:
  assumes "backup_api_safe api"
  shows "raises_only job_error (backup_submit X op r actor w target api)"
proof -
  have poll: "raises_only job_error (thenM (writeM (\<lambda>d. put_op i f (add_task t d))) (thenM commitM
      (catch_app (backup_poll X op r actor w target t api) h)))" if "\<And>e. raises_only job_error (h e)" for i f t h
    by (rule added_task_returns[OF _ that]) (rule backup_poll_returns[OF assms])
  have follow: "raises_only job_error (backup_follow X op r actor w target api answer)" for answer
    by (auto simp: backup_follow_def Let_def split: sum.splits
        intro!: raises_only_basic(1-7) raises_only_bind backup_finish_raises poll)
  show ?thesis
    unfolding backup_submit_def call_backup_def
    by (intro raises_only_bind raises_try job_call follow) (use assms in \<open>simp add: backup_api_safe_def\<close>)
qed

lemma run_backup_returns:
  assumes "backup_env_safe X"
  shows "job_returns (run_backup X op r actor w target) s"
proof -
  let ?h = "\<lambda>task e. backup_finish X op (Some r) actor Op_FAILED False (Some (code e)) (map_option pt_upid task)"
  have "wp (bindM (readM (backup_open_client X w)) (\<lambda>client. bindM (liftM client) (\<lambda>api. case task of
        Some t \<Rightarrow> backup_poll X op r actor w target t api
      | None \<Rightarrow> backup_submit X op r actor w target api))) (\<lambda>_ _. True) (\<lambda>e _. app_or_job e) s'"
    if "task = find_task (rs_db s) i" "pve_tasks (rs_db s') = pve_tasks (rs_db s)" for task s' i
  proof (cases "backup_open_client X w (rs_db s')")
    case (Inl e)
    then show ?thesis using backup_open_client_cases(1) by (auto simp: wp_rules)
  next
    case (Inr api)
    with assms have safe: "backup_api_safe api" by (blast intro: backup_open_client_cases(2))
    show ?thesis
    proof (cases task)
      case None
      with Inr job_returns_app[OF job_returnsI[OF backup_submit_raises[OF safe]]] show ?thesis by (simp add: wp_rules)
    next
      case (Some t)
      then have "t \<in> set (pve_tasks (rs_db s'))" using that by (auto simp: find_task_def dest: find_Some_mem)
      then obtain k where "attempts_in (pt_id t) s' = Some k" using attempts_stored by blast
      from job_returns_app[OF backup_poll_returns[OF safe this]] Inr Some show ?thesis
        by (simp add: wp_rules)
    qed
  qed
  note rest = catch_returns[OF this backup_finish_raises]
  show ?thesis
    using job_returnsI[OF backup_finish_raises] rest
    by (auto simp: run_backup_def wp_bindM wp_readM wp_nowM wp_rollbackM wp_thenM wp_writeM wp_commitM
        put_backup_run_def put_op_def split: prod.splits)
qed

lemma backup_run_all_returns: "backup_env_safe X \<Longrightarrow> job_returns (backup_run_all X i) s"
  using run_backup_returns job_returnsI[OF backup_finish_raises]
  by (auto simp: backup_run_all_def wp_rules split: option.splits prod.splits)

end
