(* ===== verification/Backup_Properties.thy ===== *)
theory Backup_Properties
  imports Restore_Lifecycle Operation_Properties Backup_Lifecycle
begin

text \<open>
  What holds of the restore worker, with instances on a small installation: backup 301 of workload 6
  on storage 9, and operation 302 that restores it as guest 200 (row 303).

  And what holds of the backup worker on the same installation, and of the numbers it reads from
  Proxmox.
\<close>

definition demo_restore_api :: "(int \<times> bool) restore_api" where
  "demo_restore_api = \<lparr>
     ra_get_guests = (\<lambda>(t, b). (Inr [[(''vmid'', JInt (if b then 200 else 100))]], (t, b))),
     ra_get_nodes = (\<lambda>w. (Inr [[(''node'', JStr ''n1''), (''status'', JStr ''online'')]], w)),
     ra_submit_guest_restore = (\<lambda>_ _ _ _ _ (t, b). (Inr ''UPID:3'', (t, True))),
     ra_get_task_status = (\<lambda>_ _ w. (Inr [(''status'', JStr ''stopped''), (''exitstatus'', JStr ''OK'')], w))\<rparr>"

definition demo_restore_env :: "(int \<times> bool) restore_env" where
  "demo_restore_env = \<lparr>rx_env = demo_env, rx_settings = demo_settings, rx_injected = Some demo_restore_api,
     rx_decrypt = (\<lambda>_ _. None), rx_connect = (\<lambda>_ _ _. Inl decryption_failed)\<rparr>"

definition demo_target :: backup_target where
  "demo_target = \<lparr>bt_id = 9, bt_cluster_id = 3, bt_storage_id = ''pbs'', bt_datastore = None, bt_namespace = None,
     bt_is_enabled = True, bt_last_observed_available = True, bt_last_checked_at = None, bt_created_by_id = 1,
     bt_version = 1\<rparr>"

definition demo_backup_op :: operation where
  "demo_backup_op = (new_operation (demo_service demo_admin 0) 300 ''task'' ''WORKLOAD_BACKUP'' ''backup'' demo_workload
     [1] [2] [(''storage_id'', JStr ''pbs'')])"

definition demo_backup_row :: backup_run where
  "demo_backup_row = \<lparr>br_id = 301, br_operation_id = 300, br_backup_target_id = 9, br_workload_id = 6,
     br_organization_id = Some 4, br_mode = ''snapshot'', br_compression = ''zstd'', br_status = Op_QUEUED,
     br_snapshot_volume_id = None, br_snapshot_time = None, br_size_bytes = None,
     br_transferred_bytes = None, br_started_at = None, br_finished_at = None\<rparr>"

definition demo_restoring_op :: operation where
  "demo_restoring_op = new_operation (demo_service demo_admin 0) 302 ''task'' ''WORKLOAD_RESTORE'' ''restore'' demo_workload
     [3] [4] []"

definition demo_restore_row :: restore_run where
  "demo_restore_row = \<lparr>rr_id = 303, rr_operation_id = 302, rr_backup_run_id = 301, rr_cluster_id = 3,
     rr_source_workload_id = 6, rr_target_node = ''n1'', rr_target_vmid = 200, rr_target_name = ''web2'',
     rr_status = Op_QUEUED, rr_started_at = None, rr_finished_at = None\<rparr>"

definition demo_restore_db :: db where
  "demo_restore_db = demo_db\<lparr>
     operations := [demo_backup_op\<lparr>op_status := Op_SUCCEEDED\<rparr>, demo_restoring_op],
     backup_targets := [demo_target],
     backup_runs := [demo_backup_row\<lparr>br_status := Op_SUCCEEDED, br_snapshot_volume_id := Some ''pbs:vm/100''\<rparr>],
     restore_runs := [demo_restore_row]\<rparr>"

definition demo_backup_db :: db where
  "demo_backup_db = demo_db\<lparr>operations := [demo_backup_op], backup_targets := [demo_target],
     backup_runs := [demo_backup_row]\<rparr>"

lemma demo_restore_db_ok: "integrity demo_restore_db" "integrity demo_backup_db"
  by code_simp+

lemma demo_restore_rows:
  "get_op demo_restore_db 302 = Some demo_restoring_op" "op_status demo_restoring_op = Op_QUEUED"
  "op_operation_type demo_restoring_op = ''WORKLOAD_RESTORE''"
  "restore_of_operation demo_restore_db 302 = Some demo_restore_row"
  "restore_active (302, Some 303) demo_restore_db"
  by (simp_all add: demo_restore_db_def get_row_def demo_backup_op_def demo_restoring_op_def new_operation_def
      restore_of_operation_def demo_restore_row_def job_in_def restore_status_of_def)

text \<open>
  C40. A restore is submitted to Proxmox at most once.  However often the worker is started for an
  operation, in whatever environment, and whatever Proxmox answers or raises at any call, the number of
  submissions over the whole history of the operation is at most one, as long as the transactions in
  between do not put the operation back into the queue.
\<close>

theorem restore_submitted_at_most_once:
  assumes "job_history (restore_ran W) i d n d'"
  shows "n \<le> 1"
  using restores.at_most_once[OF assms] by simp

theorem restore_submitted_at_most_once_witness:
  "let s = snd (run_restore_operation demo_restore_env 302 demo_restore_db (5, False));
       s' = snd (run_restore_operation demo_restore_env 302 (stored s) (9, True))
   in calls_named ''submit_guest_restore'' (rs_calls s) + calls_named ''submit_guest_restore'' (rs_calls s') \<le> 1"
proof -
  let ?run = "\<lambda>d w. snd (run_restore_operation demo_restore_env 302 d w)"
  let ?n = "\<lambda>d w. calls_named ''submit_guest_restore'' (rs_calls (?run d w))"
  have ran: "restore_ran TYPE(int \<times> bool) 302 d (?n d w) (stored (?run d w))" for d w
    unfolding restore_ran_def by (metis prod.collapse)
  have step: "job_history (restore_ran TYPE(int \<times> bool)) 302 d0 m d \<Longrightarrow>
      job_history (restore_ran TYPE(int \<times> bool)) 302 d0 (m + ?n d w) (stored (?run d w))" for d0 m d w
    by (rule job_history.ran) (assumption, rule ran)
  from restore_submitted_at_most_once[OF step[OF step[OF job_history.start]], of demo_restore_db "(5, False)" "(9, True)"]
  show ?thesis by (simp add: Let_def)
qed

text \<open>
  The outcome of a restore run.  Started on an active operation whose restore row has the same
  status, a run finishes both rows by its last commit, in the same status; or another worker holds the
  lease, and nothing was called or written; or an exception came up, and in the stored state both
  rows are still active, again in the same status.
\<close>

theorem restore_run_settles:
  assumes "restore_active (i, j) d" "map_option op_operation_type (get_op d i) = Some ''WORKLOAD_RESTORE''"
    "run_restore_operation X i d w = (r, s)"
  shows "r = Inr () \<and> restore_terminal (i, j) (stored s) \<and> list_all (restore_active (i, j)) (tl (rs_commits s)) \<or>
    r = Inr () \<and> stored s = d \<and> rs_calls s = [] \<and> map_option op_status (get_op d i) = Some Op_RUNNING \<or>
    (\<exists>e. r = Inl e \<and> restore_active (i, j) (stored s))"
  using restore_run_outcome[of i j d X w] assms
  by (cases r) (auto simp: run_restore_operation_def wp_def finished_def stored_def live_def neq_Nil_conv)

theorem restore_run_settles_witness:
  "let (r, s) = run_restore_operation demo_restore_env 302 demo_restore_db (5, False) in
   r = Inr () \<and> restore_terminal (302, Some 303) (stored s) \<and> list_all (restore_active (302, Some 303)) (tl (rs_commits s)) \<or>
   r = Inr () \<and> stored s = demo_restore_db \<and> rs_calls s = [] \<and>
     map_option op_status (get_op demo_restore_db 302) = Some Op_RUNNING \<or>
   (\<exists>e. r = Inl e \<and> restore_active (302, Some 303) (stored s))"
  using restore_run_settles[OF demo_restore_rows(5), of demo_restore_env "(5, False)"] demo_restore_rows(1,3)
  by (simp split: prod.splits)

text \<open>
  A restore never overwrites a guest.  If, whenever Proxmox is asked, the target node is not online
  or the target VMID is among the guests of the cluster, then no run submits a restore.
\<close>

theorem restore_spares_used_vmid:
  assumes "restore_of_operation d i = Some r" "restore_clients_refuse X (rr_target_node r) (rr_target_vmid r)"
    "run_restore_operation X i d w = (res, s)"
  shows "calls_named ''submit_guest_restore'' (rs_calls s) = 0"
proof -
  let ?I = "no_submission i"
  have start: "?I (start_run d w)" by (simp add: no_submission_def start_run_def)
  have fin: "wp (restore_finish X op x actor Op_FAILED False err upid) (\<lambda>_. ?I) (\<lambda>_. ?I) (start_run d w)"
    for op x actor err upid by (rule keeps_at[OF unsent.keeps_restore_finish start]) simp
  have "wp (restore_run_all X i) (\<lambda>_. ?I) (\<lambda>_. ?I) (start_run d w)"
    using start fin keeps_at[OF run_restore_refused[OF assms(2)] start] assms(1)
      get_row_Some[of op_id "operations d" i] restore_source_row[of d]
    by (fastforce simp: restore_run_all_def wp_rules start_run_def split: option.splits prod.splits)
  with assms(3) show ?thesis
    by (cases res) (auto simp: run_restore_operation_def wp_def no_submission_def)
qed

theorem restore_spares_used_vmid_witness:
  "calls_named ''submit_guest_restore'' (rs_calls (snd (run_restore_operation
     (demo_restore_env\<lparr>rx_injected := Some (demo_restore_api\<lparr>ra_get_guests := \<lambda>w. (Inr [[(''vmid'', JInt 200)]], w)\<rparr>)\<rparr>)
     302 demo_restore_db (5, False)))) = 0"
proof -
  have "vmid_matches 200 (JInt 200) = Inr True" by (simp add: vmid_matches_def py_in_set_def py_eq_def)
  then show ?thesis
    by (intro restore_spares_used_vmid[OF demo_restore_rows(4), where res = "fst _", OF _ prod.collapse[symmetric]])
      (simp add: restore_clients_refuse_def target_refused_def demo_restore_row_def dict_get_def)
qed

definition demo_backup_api :: "(int \<times> bool) backup_api" where
  "demo_backup_api = \<lparr>
     ba_submit_guest_backup = (\<lambda>_ _ _ _ _ w. (Inr ''UPID:4'', w)),
     ba_get_task_status = (\<lambda>_ _ w. (Inr [(''status'', JStr ''stopped''), (''exitstatus'', JStr ''OK'')], w)),
     ba_get_backup_content = (\<lambda>_ _ _ w. (Inr [[(''volid'', JStr ''pbs:vm/100'')]], w)),
     ba_get_task_log = (\<lambda>_ _ w. (Inr [[(''t'', JStr ''transferred 3 KiB'')]], w))\<rparr>"

definition demo_backup_env :: "(int \<times> bool) backup_env" where
  "demo_backup_env = \<lparr>bx_env = demo_env, bx_settings = demo_settings, bx_injected = Some demo_backup_api,
     bx_decrypt = (\<lambda>_ _. None), bx_connect = (\<lambda>_ _ _. Inl decryption_failed)\<rparr>"

lemma demo_backup_rows:
  "map_option op_operation_type (get_op demo_backup_db 300) = Some ''WORKLOAD_BACKUP''"
  "backup_active (300, Some 301) demo_backup_db"
  by (simp_all add: demo_backup_db_def get_row_def demo_backup_op_def new_operation_def
      backup_of_operation_def demo_backup_row_def job_in_def backup_status_of_def)

section \<open>Runs\<close>

text \<open>
  A backup is submitted to Proxmox at most once, over all runs of the worker for an operation, in
  whatever environment and whatever Proxmox answers or raises, as long as the transactions in between
  do not put the operation back into the queue.
\<close>

theorem backup_submitted_at_most_once:
  assumes "job_history (backup_ran W) i d n d'"
  shows "n \<le> 1"
  using backups.at_most_once[OF assms] by simp

theorem backup_submitted_at_most_once_witness:
  "let s = snd (run_backup_operation demo_backup_env 300 demo_backup_db (5, False));
       s' = snd (run_backup_operation demo_backup_env 300 (stored s) (9, True))
   in calls_named ''submit_guest_backup'' (rs_calls s) + calls_named ''submit_guest_backup'' (rs_calls s') \<le> 1"
proof -
  let ?run = "\<lambda>d w. snd (run_backup_operation demo_backup_env 300 d w)"
  let ?n = "\<lambda>d w. calls_named ''submit_guest_backup'' (rs_calls (?run d w))"
  have ran: "backup_ran TYPE(int \<times> bool) 300 d (?n d w) (stored (?run d w))" for d w
    unfolding backup_ran_def by (metis prod.collapse)
  have step: "job_history (backup_ran TYPE(int \<times> bool)) 300 d0 m d \<Longrightarrow>
      job_history (backup_ran TYPE(int \<times> bool)) 300 d0 (m + ?n d w) (stored (?run d w))" for d0 m d w
    by (rule job_history.ran) (assumption, rule ran)
  from backup_submitted_at_most_once[OF step[OF step[OF job_history.start]], of demo_backup_db "(5, False)" "(9, True)"]
  show ?thesis by (simp add: Let_def)
qed

text \<open>
  The outcome of a backup run.  Started on an active operation whose backup row has the same
  status, a run finishes both rows by its last commit, in the same status; or another worker holds the
  lease, and nothing was called or written; or an exception came up, and in the stored state both rows
  are still active, again in the same status.
\<close>

theorem backup_run_settles:
  assumes "backup_active (i, j) d" "map_option op_operation_type (get_op d i) = Some ''WORKLOAD_BACKUP''"
    "run_backup_operation X i d w = (r, s)"
  shows "r = Inr () \<and> backup_terminal (i, j) (stored s) \<and> list_all (backup_active (i, j)) (tl (rs_commits s)) \<or>
    r = Inr () \<and> stored s = d \<and> rs_calls s = [] \<and> map_option op_status (get_op d i) = Some Op_RUNNING \<or>
    (\<exists>e. r = Inl e \<and> backup_active (i, j) (stored s))"
  using backup_run_outcome[of i j d X w] assms
  by (cases r) (auto simp: run_backup_operation_def wp_def finished_def stored_def live_def neq_Nil_conv)

theorem backup_run_settles_witness:
  "let (r, s) = run_backup_operation demo_backup_env 300 demo_backup_db (5, False) in
   r = Inr () \<and> backup_terminal (300, Some 301) (stored s) \<and> list_all (backup_active (300, Some 301)) (tl (rs_commits s)) \<or>
   r = Inr () \<and> stored s = demo_backup_db \<and> rs_calls s = [] \<and>
     map_option op_status (get_op demo_backup_db 300) = Some Op_RUNNING \<or>
   (\<exists>e. r = Inl e \<and> backup_active (300, Some 301) (stored s))"
  using backup_run_settles[OF demo_backup_rows(2,1), of demo_backup_env "(5, False)"]
  by (simp split: prod.splits)

text \<open>
  Every backup or restore run comes back.  If the Proxmox client raises nothing but \<open>AppError\<close>, the
  run returns, or raises an \<open>IntegrityError\<close> of a commit or the \<open>TypeError\<close> or \<open>ValueError\<close> of an answer of
  the wrong shape; the polling loop never needs more turns than the attempts the settings give it.
\<close>

theorem job_runs_return:
  assumes "backup_env_safe X" "restore_env_safe Y"
  shows "(case fst (run_backup_operation X i d w) of Inr _ \<Rightarrow> True | Inl e \<Rightarrow> job_error e) \<and>
    (case fst (run_restore_operation Y i d w') of Inr _ \<Rightarrow> True | Inl e \<Rightarrow> job_error e)"
  using backup_run_all_returns[OF assms(1), of i "start_run d w"] restore_run_all_returns[OF assms(2), of i "start_run d w'"]
  by (auto simp: run_backup_operation_def run_restore_operation_def wp_def split: prod.splits sum.splits)

theorem job_runs_return_witness:
  "(case fst (run_backup_operation demo_backup_env 300 demo_backup_db (5, False)) of Inr _ \<Rightarrow> True | Inl e \<Rightarrow> job_error e) \<and>
   (case fst (run_restore_operation demo_restore_env 300 demo_backup_db (5, False)) of Inr _ \<Rightarrow> True | Inl e \<Rightarrow> job_error e)"
  by (rule job_runs_return)
    (simp_all add: backup_env_safe_def demo_backup_env_def backup_api_safe_def demo_backup_api_def restore_env_safe_def
      demo_restore_env_def restore_api_safe_def demo_restore_api_def app_only_def split: prod.splits)

section \<open>What a finished backup reports\<close>

lemma decimal_digits_nonneg: "list_all is_digit s \<Longrightarrow> 0 \<le> decimal_digits s"
proof -
  have "list_all is_digit s \<Longrightarrow> 0 \<le> n \<Longrightarrow> 0 \<le> foldl (\<lambda>n c. 10 * n + (of_char c - 48)) (n :: int) s" for n
  proof (induction s arbitrary: n)
    case (Cons c s)
    then have "48 \<le> (of_char c :: nat)" by (simp add: is_digit_def Let_def)
    then have "(48 :: int) \<le> of_char c" by (metis of_nat_le_iff of_nat_numeral of_nat_of_char)
    with Cons show ?case by simp
  qed simp
  then show "list_all is_digit s \<Longrightarrow> 0 \<le> decimal_digits s" by (simp add: decimal_digits_def)
qed

lemma take_digits: "list_all is_digit (takeWhile is_digit s)"
  by (induction s) auto

lemma scan_decimal_nonneg: "scan_decimal s = Some (d, rest) \<Longrightarrow> 0 \<le> dec_coeff d"
  by (auto simp: scan_decimal_def Let_def take_digits split: if_splits intro!: decimal_digits_nonneg)

lemma round_half_even_nonneg: "0 \<le> n \<Longrightarrow> 0 < m \<Longrightarrow> 0 \<le> round_half_even n m"
  by (auto simp: round_half_even_def Let_def pos_imp_zdiv_nonneg_iff)

lemma decimal_int_nonneg: "0 \<le> dec_coeff d \<Longrightarrow> 0 \<le> m \<Longrightarrow> 0 \<le> decimal_int d m"
  by (auto simp: decimal_int_def Let_def pos_imp_zdiv_nonneg_iff intro!: mult_nonneg_nonneg round_half_even_nonneg)

lemma search_Some: "search f s = Some x \<Longrightarrow> \<exists>t. f t = Some x"
  by (induction s) (auto split: option.splits)

lemma first_size_nonneg: "first_size s = Some n \<Longrightarrow> 0 \<le> n"
proof -
  assume "first_size s = Some n"
  then obtain d u m where d: "search match_size s = Some (d, u)" "map_of size_multipliers u = Some m" "n = decimal_int d m"
    by (auto simp: first_size_def split: option.splits)
  from search_Some[OF d(1)] have "0 \<le> dec_coeff d"
    by (auto simp: match_size_def split: option.splits dest: scan_decimal_nonneg)
  moreover have "0 \<le> m" using map_of_SomeD[OF d(2)] by (auto simp: size_multipliers_def)
  ultimately show "0 \<le> n" using d(3) by (simp add: decimal_int_nonneg)
qed

text \<open>The sizes that the lines of a log report as transferred.\<close>

definition reported_transfer :: "dict list \<Rightarrow> int \<Rightarrow> bool" where
  "reported_transfer entries n \<longleftrightarrow> (\<exists>entry s rest. entry \<in> set entries \<and> dict_get entry ''t'' = JStr s \<and>
     after_word ''transferred'' s = Some rest \<and> first_size rest = Some n)"

lemma read_entry_nonneg:
  assumes "\<And>s rest n. dict_get entry ''t'' = JStr s \<Longrightarrow> after_word ''transferred'' s = Some rest \<Longrightarrow> first_size rest = Some n \<Longrightarrow> P n"
    and "pred_option P (tf_transferred t)" "pred_option (\<lambda>n. 0 \<le> n) (tf_reused t)"
  shows "pred_option P (tf_transferred (read_entry entry t)) \<and> pred_option (\<lambda>n. 0 \<le> n) (tf_reused (read_entry entry t))"
proof (cases "dict_get entry ''t''")
  case (JStr s)
  then show ?thesis
    using assms first_size_nonneg
    by (cases "after_word ''transferred'' s"; cases "after_word ''reused'' s")
      (auto simp: read_entry_def Let_def or_keep_def split: option.splits)
qed (use assms in \<open>simp_all add: read_entry_def\<close>)

text \<open>
  The bytes a backup reports as newly sent are a count: never negative, and never more than a line
  of the log says was transferred, whatever the log holds.
\<close>

theorem transfer_bytes_bounded:
  assumes "backup_transfer_bytes entries = Some n"
  shows "0 \<le> n \<and> (\<exists>m. reported_transfer entries m \<and> n \<le> m)"
proof -
  let ?t0 = "\<lparr>tf_transferred = None, tf_reused = None, tf_reused_percent = None\<rparr>"
  have "pred_option (reported_transfer entries) (tf_transferred (fold read_entry es t)) \<and>
      pred_option (\<lambda>n. 0 \<le> n) (tf_reused (fold read_entry es t))"
    if "set es \<subseteq> set entries" "pred_option (reported_transfer entries) (tf_transferred t)"
      "pred_option (\<lambda>n. 0 \<le> n) (tf_reused t)" for es t
    using that
  proof (induction es arbitrary: t)
    case (Cons e es)
    have "pred_option (reported_transfer entries) (tf_transferred (read_entry e t)) \<and>
        pred_option (\<lambda>n. 0 \<le> n) (tf_reused (read_entry e t))"
    proof (rule read_entry_nonneg)
      show "reported_transfer entries n" if "dict_get e ''t'' = JStr s" "after_word ''transferred'' s = Some rest"
          "first_size rest = Some n" for s rest n
        using that Cons.prems(1) by (auto simp: reported_transfer_def)
    qed (use Cons.prems in simp_all)
    with Cons show ?case by simp
  qed simp
  from this[of entries ?t0] have
    t: "pred_option (reported_transfer entries) (tf_transferred (fold read_entry entries ?t0))"
       "pred_option (\<lambda>n. 0 \<le> n) (tf_reused (fold read_entry entries ?t0))" by simp_all
  have "reported_transfer entries m \<Longrightarrow> 0 \<le> m" for m
    by (auto simp: reported_transfer_def dest: first_size_nonneg)
  with t assms show ?thesis
    by (fastforce simp: backup_transfer_bytes_def new_bytes_def split: option.splits if_splits)
qed

lemma demo_log: "backup_transfer_bytes [[(''t'', JStr ''transferred 3 B'')]] = Some 3"
proof -
  have "after_word ''transferred'' ''transferred 3 B'' = Some '' 3 B''" "after_word ''reused'' ''transferred 3 B'' = None"
    "search match_size '' 3 B'' = Some (\<lparr>dec_coeff = 3, dec_places = 0\<rparr>, ''B'')"
    by code_simp+
  moreover have "int_str 3 = ''3''" by code_simp
  ultimately show ?thesis
    by (simp add: backup_transfer_bytes_def read_entry_def dict_get_def or_keep_def first_size_def size_multipliers_def
        decimal_int_def decimal_precision_def new_bytes_def)
qed

theorem transfer_bytes_bounded_witness:
  "0 \<le> (3 :: int) \<and> (\<exists>m. reported_transfer [[(''t'', JStr ''transferred 3 B'')]] m \<and> 3 \<le> m)"
  by (rule transfer_bytes_bounded[OF demo_log])

text \<open>The snapshot that is recorded is a candidate, and no candidate is newer.\<close>

lemma first_max_max:
  "first_max f x xs \<in> insert x (set xs) \<and> (\<forall>y \<in> insert x (set xs). f y \<le> f (first_max f x xs))"
  by (induction xs arbitrary: x) (auto intro: order_trans less_imp_le, (meson insertCI order_trans less_imp_le not_le)+)

lemma filter_result_Inr: "filter_result f xs = Inr ys \<Longrightarrow> set ys = {x \<in> set xs. f x = Inr True}"
  by (induction xs arbitrary: ys) (auto simp: bind_result_Inr_iff split: if_splits)

lemma latest_snapshot_newest:
  assumes "latest_snapshot content v = Inr (Some s)"
  shows "s \<in> set content \<and> snapshot_candidate v s = Inr True \<and>
    (\<forall>x \<in> set content. snapshot_candidate v x = Inr True \<longrightarrow> timestamp x \<le> timestamp s)"
proof -
  obtain c cs where c: "filter_result (snapshot_candidate v) content = Inr (c # cs)" "s = first_max timestamp c cs"
    using assms by (auto simp: latest_snapshot_def bind_result_Inr_iff neq_Nil_conv split: list.split_asm)
  with filter_result_Inr[OF c(1)] first_max_max[of timestamp c cs] show ?thesis by auto
qed

end
