(* ===== verification/Backup_Requests.thy ===== *)
theory Backup_Requests
  imports Backup_Service Backup_Properties
begin

text \<open>
  From the service to the workers: what \<open>BackupService\<close> has stored for an accepted request is what
  the worker needs.
\<close>

section \<open>Accepted backups\<close>

fun accepted_as_new :: "('v \<times> bool \<times> 'm) outcome \<Rightarrow> bool" where
  "accepted_as_new (Inr (x, new, p), d) = new"
| "accepted_as_new _ = False"

lemma accepted_as_newD: "accepted_as_new o' \<Longrightarrow> \<exists>x p d'. o' = (Inr (x, True, p), d')"
  by (cases o' rule: accepted_as_new.cases) auto

lemma integrity_backup_rows:
  assumes "integrity d"
  shows "distinct (map br_id (backup_runs d))" "distinct (map br_operation_id (backup_runs d))"
    "distinct (map rr_operation_id (restore_runs d))" "distinct (map bt_id (backup_targets d))"
  using assms by (auto simp: integrity_def tables_ok_def backup_runs_ok_def restore_runs_ok_def backup_targets_ok_def
      dest: distinct_map[THEN iffD1])

lemma backup_of_operation_row: "backup_of_operation d i = get_row br_operation_id (backup_runs d) i"
  and restore_of_operation_row: "restore_of_operation d i = get_row rr_operation_id (restore_runs d) i"
  by (simp_all add: backup_of_operation_def restore_of_operation_def get_row_def)

lemma add_backup_accepts:
  assumes "add_backup sv V w t q h fp d = (Inr (x, True, p), d')"
  obtains op r e where "op = backup_operation sv (sx_fresh V 0) (uuid_str (sx_fresh V 1)) w t q h fp"
    "r = new_backup_run (sx_fresh V 2) (op_id op) w t q"
    "d' = add_audit_event (sv_ctx sv) e (d\<lparr>operations := operations d @ [op], backup_runs := backup_runs d @ [r]\<rparr>)"
    "integrity d'" "run_response d' (br_id r) = Inr x" "p = Some (op_id op, op_celery_task_id op)"
proof -
  define op where "op = backup_operation sv (sx_fresh V 0) (uuid_str (sx_fresh V 1)) w t q h fp"
  define r where "r = new_backup_run (sx_fresh V 2) (op_id op) w t q"
  have task: "op_celery_task_id op = uuid_str (sx_fresh V 1)"
    by (simp add: op_def backup_operation_def new_operation_def)
  show thesis
    using assms unfolding add_backup_def Let_def op_def[symmetric] r_def[symmetric] add_operation_def
    by (intro that[OF op_def r_def]) (auto simp: commit_in_def bind_result_Inr_iff task split: if_splits)
qed

lemma request_backup_accepts:
  assumes "request_backup sv V i q key d = (Inr (x, True, p), d')"
  obtains w t h fp where "guest_workload d i = Some w" "get_target d (bq_backup_target_id q) = Some t"
    "bt_is_enabled t" "bt_cluster_id t = wl_cluster_id w" "add_backup sv V w t q h fp d = (Inr (x, True, p), d')"
  using assms
  by (auto simp: request_backup_def try_in_eq Let_def bind_result_Inr_iff key_reused_def
      split: option.splits if_splits)

text \<open>The audit event has no part in what is checked and shown.\<close>

lemma run_response_audit: "run_response (add_audit_event c e d) i = run_response d i"
  unfolding run_response_def run_rows_def latest_task_def add_audit_event_tables ..

lemma add_backup_new:
  assumes "op = backup_operation sv (sx_fresh V 0) (uuid_str (sx_fresh V 1)) w t q h fp"
    "r = new_backup_run (sx_fresh V 2) (op_id op) w t q"
    "integrity (d\<lparr>operations := operations d @ [op]\<rparr>)"
    "integrity (d\<lparr>operations := operations d @ [op], backup_runs := backup_runs d @ [r]\<rparr>)"
    "run_response (d\<lparr>operations := operations d @ [op], backup_runs := backup_runs d @ [r]\<rparr>) (br_id r) = Inr y"
  shows "accepted_as_new (add_backup sv V w t q h fp d)"
  using assms(3-5) unfolding add_backup_def Let_def add_operation_def assms(1,2)[symmetric]
  by (simp add: commit_in_def integrity_audit run_response_audit)

lemma run_response_ids: "run_response d i = Inr x \<Longrightarrow> brr_id x = i"
  by (auto simp: run_response_def run_rows_def backup_not_found_def dest: get_row_Some split: option.splits)

text \<open>
  An accepted backup request is one the worker can carry out: the queued operation that is published
  is stored, with a backup row of the same status, and the workload and the target that the worker looks
  up again are there, enabled and on the same cluster.
\<close>

theorem accepted_backup_is_ready:
  assumes "request_backup sv V i q key d = (Inr (x, True, p), d')"
  shows "\<exists>op r w t. p = Some (op_id op, op_celery_task_id op) \<and> get_op d' (op_id op) = Some op \<and>
    op_operation_type op = ''WORKLOAD_BACKUP'' \<and> \<not> taken_up (op_id op) d' \<and>
    backup_active (op_id op, Some (brr_id x)) d' \<and> backup_source d' op = Some (r, w, t) \<and>
    br_id r = brr_id x \<and> wl_id w = i \<and> bt_id t = bq_backup_target_id q"
proof -
  obtain w t h fp where w: "guest_workload d i = Some w" and t: "get_target d (bq_backup_target_id q) = Some t"
      "bt_is_enabled t" "bt_cluster_id t = wl_cluster_id w"
    and add: "add_backup sv V w t q h fp d = (Inr (x, True, p), d')"
    using request_backup_accepts[OF assms] .
  obtain op r e where op: "op = backup_operation sv (sx_fresh V 0) (uuid_str (sx_fresh V 1)) w t q h fp"
    and r: "r = new_backup_run (sx_fresh V 2) (op_id op) w t q"
    and d': "d' = add_audit_event (sv_ctx sv) e (d\<lparr>operations := operations d @ [op], backup_runs := backup_runs d @ [r]\<rparr>)"
    and ok: "integrity d'" "run_response d' (br_id r) = Inr x" and p: "p = Some (op_id op, op_celery_task_id op)"
    using add_backup_accepts[OF add] .
  have tables: "operations d' = operations d @ [op]" "backup_runs d' = backup_runs d @ [r]"
      "workloads d' = workloads d" "backup_targets d' = backup_targets d"
    by (simp_all add: d')
  have row: "get_op d' (op_id op) = Some op"
    by (rule get_row_mem[OF integrity_distinct(4)[OF ok(1)]]) (simp add: tables)
  have "get_row br_operation_id (backup_runs d') (br_operation_id r) = Some r"
    by (rule get_row_mem[OF integrity_backup_rows(2)[OF ok(1)]]) (simp add: tables)
  then have job: "backup_of_operation d' (op_id op) = Some r"
    by (simp add: backup_of_operation_row r new_backup_run_def)
  have wl: "wl_id w = i" "wl_is_present w" "\<not> wl_is_template w" "w \<in> set (workloads d')"
    using find_Some_mem[OF w[unfolded guest_workload_def]] by (auto simp: tables)
  have "get_wl d' (wl_id w) = Some w" by (rule get_row_mem[OF integrity_distinct(5)[OF ok(1)] wl(4)])
  moreover have "bt_id t = bq_backup_target_id q" using get_row_Some[OF t(1)] by simp
  ultimately have "backup_source d' op = Some (r, w, t)"
    using job t wl
    by (simp add: backup_source_def tables op r backup_operation_def new_operation_def new_backup_run_def)
  moreover have "br_id r = brr_id x" using run_response_ids[OF ok(2)] by simp
  moreover have "backup_active (op_id op, Some (br_id r)) d'" "\<not> taken_up (op_id op) d'"
    using row job by (simp_all add: job_in_def backup_status_of_def taken_up_def op r backup_operation_def
        new_operation_def new_backup_run_def)
  moreover have "op_operation_type op = ''WORKLOAD_BACKUP''" "bt_id t = bq_backup_target_id q"
    using get_row_Some[OF t(1)] by (simp_all add: op backup_operation_def new_operation_def)
  ultimately show ?thesis using row p wl(1) by metis
qed

definition demo_backup_service :: backup_service_env where
  "demo_backup_service = \<lparr>sx_crypto = \<lparr>sha256 = (\<lambda>_. [7]), hmac_sha256 = (\<lambda>_ _. [8])\<rparr>, sx_secret_key = ''k'',
     sx_fresh = (\<lambda>n. 400 + n), sx_decrypt = (\<lambda>_ _. Some ''s''),
     sx_connect = (\<lambda>_ _ _. Inr \<lparr>pa_storage_configurations = Inr [], pa_storages = Inr [],
       pa_nodes = Inr [[(''node'', JStr ''n1''), (''status'', JStr ''online'')]],
       pa_guests = Inr [[(''vmid'', JInt 100)]]\<rparr>)\<rparr>"

definition demo_backup_request :: backup_request where
  "demo_backup_request = \<lparr>bq_backup_target_id = 9, bq_mode = ''snapshot'', bq_compression = ''zstd''\<rparr>"

abbreviation demo_backup_accepted :: "accepted_backup outcome" where
  "demo_backup_accepted \<equiv> request_backup (demo_service demo_admin 0) demo_backup_service 6 demo_backup_request ''key''
     (demo_db\<lparr>backup_targets := [demo_target]\<rparr>)"

text \<open>The rows the request adds, their result column left to the service.\<close>

lemma demo_backup_rows_ok:
  assumes "op = demo_backup_op\<lparr>op_id := 400, op_celery_task_id := c, op_result := v, op_idempotency_key_hash := [8],
       op_request_fingerprint := [7]\<rparr>"
    "d = demo_db\<lparr>backup_targets := [demo_target], operations := [op]\<rparr>"
    "r = new_backup_run 402 400 demo_workload demo_target demo_backup_request"
  shows "integrity d" "integrity (d\<lparr>backup_runs := [r]\<rparr>)" "is_ok (run_response (d\<lparr>backup_runs := [r]\<rparr>) 402)"
  unfolding assms by code_simp+

lemma demo_hashes:
  "key_hash (sx_crypto demo_backup_service) (sx_secret_key demo_backup_service) k = [8]"
  "backup_fingerprint (sx_crypto demo_backup_service) w t bq = [7]"
  "restore_fingerprint (sx_crypto demo_backup_service) b q = [7]"
  "sx_fresh demo_backup_service n = 400 + n"
  "require_service_role (sv_principal (demo_service demo_admin 0)) [SUPER_ADMIN, OPERATOR] = Inr ()"
  "require_service_role (sv_principal (demo_service demo_admin 0)) [SUPER_ADMIN] = Inr ()"
  "prin_user_id (sv_principal (demo_service demo_admin 0)) = 1"
  by (simp_all add: key_hash_def backup_fingerprint_def restore_fingerprint_def demo_backup_service_def demo_service_def
      demo_admin_def require_service_role_def)

lemma demo_add_backup:
  "accepted_as_new (add_backup (demo_service demo_admin 0) demo_backup_service demo_workload demo_target
     demo_backup_request [8] [7] (demo_db\<lparr>backup_targets := [demo_target]\<rparr>))"
proof -
  define op where "op = backup_operation (demo_service demo_admin 0) 400 (uuid_str 401) demo_workload demo_target
     demo_backup_request [8] [7]"
  define d where "d = demo_db\<lparr>backup_targets := [demo_target], operations := [op]\<rparr>"
  define r where "r = new_backup_run 402 400 demo_workload demo_target demo_backup_request"
  have op: "op = demo_backup_op\<lparr>op_id := 400, op_celery_task_id := uuid_str 401, op_result := op_result op,
       op_idempotency_key_hash := [8], op_request_fingerprint := [7]\<rparr>" "op_id op = 400"
    by (simp_all add: op_def backup_operation_def demo_backup_op_def new_operation_def)
  note rows = demo_backup_rows_ok[OF op(1) d_def r_def]
  have empty: "operations demo_db = []" "backup_runs demo_db = []" by (simp_all add: demo_db_def empty_db_def)
  obtain y where y: "run_response (d\<lparr>backup_runs := [r]\<rparr>) 402 = Inr y"
    using rows(3) by (cases "run_response (d\<lparr>backup_runs := [r]\<rparr>) 402") auto
  show ?thesis
    by (rule add_backup_new[where op = op and r = r and y = y])
      (use rows y op(2) in \<open>simp_all add: d_def empty op_def r_def demo_hashes new_backup_run_def[of 402]\<close>)
qed

lemma demo_backup_is_new: "accepted_as_new demo_backup_accepted"
proof -
  have "guest_workload (demo_db\<lparr>backup_targets := [demo_target]\<rparr>) 6 = Some demo_workload"
    "get_target (demo_db\<lparr>backup_targets := [demo_target]\<rparr>) 9 = Some demo_target"
    "find_idempotent (demo_db\<lparr>backup_targets := [demo_target]\<rparr>) 1 [8] = None"
    "find_active (demo_db\<lparr>backup_targets := [demo_target]\<rparr>) 6 = None"
    "bt_is_enabled demo_target" "bt_cluster_id demo_target = wl_cluster_id demo_workload" "wl_id demo_workload = 6"
    by (simp_all add: guest_workload_def find_idempotent_def find_active_def get_row_def demo_db_def empty_db_def
        demo_workload_def demo_target_def)
  with demo_add_backup show ?thesis
    by (simp add: request_backup_def demo_hashes demo_backup_request_def Let_def)
qed

theorem accepted_backup_is_ready_witness:
  "list_ex (\<lambda>op. op_operation_type op = ''WORKLOAD_BACKUP'' \<and> backup_source (snd demo_backup_accepted) op \<noteq> None)
     (operations (snd demo_backup_accepted))"
proof -
  obtain x p d' where a: "demo_backup_accepted = (Inr (x, True, p), d')"
    using accepted_as_newD[OF demo_backup_is_new] by blast
  from accepted_backup_is_ready[OF a] obtain op r w t where "get_op d' (op_id op) = Some op"
    "op_operation_type op = ''WORKLOAD_BACKUP''" "backup_source d' op = Some (r, w, t)" by blast
  with get_row_Some[of op_id "operations d'"] show ?thesis
    unfolding a by (auto simp: list_ex_iff intro!: bexI[of _ op])
qed

section \<open>Accepted restores\<close>

lemma add_restore_accepts:
  assumes "add_restore sv V b t cl w q h fp d = (Inr (x, True, p), d')"
  obtains op r e where "op = restore_operation sv (sx_fresh V 0) (uuid_str (sx_fresh V 1)) b t cl w q h fp"
    "r = new_restore_run (sx_fresh V 2) (op_id op) b cl w q"
    "d' = add_audit_event (sv_ctx sv) e (d\<lparr>operations := operations d @ [op], restore_runs := restore_runs d @ [r]\<rparr>)"
    "integrity d'" "restore_response d' (rr_id r) = Inr x" "p = Some (op_id op, op_celery_task_id op)"
proof -
  define op where "op = restore_operation sv (sx_fresh V 0) (uuid_str (sx_fresh V 1)) b t cl w q h fp"
  define r where "r = new_restore_run (sx_fresh V 2) (op_id op) b cl w q"
  have task: "op_celery_task_id op = uuid_str (sx_fresh V 1)"
    by (simp add: op_def restore_operation_def new_operation_def)
  show thesis
    using assms unfolding add_restore_def Let_def op_def[symmetric] r_def[symmetric] add_operation_def
    by (intro that[OF op_def r_def]) (auto simp: commit_in_def bind_result_Inr_iff task split: if_splits)
qed

lemma request_restore_accepts:
  assumes "request_restore sv V i q key d = (Inr (x, True, p), d')"
  obtains b t cl w h fp client where "restorable d i = Inr (b, t, cl, w)" "\<not> local_collision d cl q"
    "service_client V cl d = Inr client" "check_target client q = Inr ()"
    "add_restore sv V b t cl w q h fp d = (Inr (x, True, p), d')"
  using assms
  by (auto simp: request_restore_def try_in_eq Let_def bind_result_Inr_iff key_reused_def
      split: option.splits if_splits)

lemma restore_response_audit: "restore_response (add_audit_event c e d) i = restore_response d i"
  unfolding restore_response_def restore_rows_def get_restore_run_def latest_task_def add_audit_event_tables ..

lemma add_restore_new:
  assumes "op = restore_operation sv (sx_fresh V 0) (uuid_str (sx_fresh V 1)) b t cl w q h fp"
    "r = new_restore_run (sx_fresh V 2) (op_id op) b cl w q"
    "integrity (d\<lparr>operations := operations d @ [op]\<rparr>)"
    "integrity (d\<lparr>operations := operations d @ [op], restore_runs := restore_runs d @ [r]\<rparr>)"
    "restore_response (d\<lparr>operations := operations d @ [op], restore_runs := restore_runs d @ [r]\<rparr>) (rr_id r) = Inr y"
  shows "accepted_as_new (add_restore sv V b t cl w q h fp d)"
  using assms(3-5) unfolding add_restore_def Let_def add_operation_def assms(1,2)[symmetric]
  by (simp add: commit_in_def integrity_audit restore_response_audit)

lemma restore_response_ids: "restore_response d i = Inr x \<Longrightarrow> rrr_id x = i"
  by (auto simp: restore_response_def restore_rows_def get_restore_run_def dest!: get_row_Some split: option.splits)

lemma run_rowsD:
  assumes "run_rows d i = Some (b, op, t, cl, w)"
  shows "get_backup_run d i = Some b" "br_id b = i" "get_op d (br_operation_id b) = Some op" "get_target d (br_backup_target_id b) = Some t"
    "get_wl d (br_workload_id b) = Some w" "wl_id w = br_workload_id b" "bt_id t = br_backup_target_id b"
    "get_row cl_id (clusters d) (bt_cluster_id t) = Some cl" "cl_id cl = bt_cluster_id t"
  using assms get_row_Some by (force simp: run_rows_def split: option.splits)+

text \<open>The rows of finished backups say what their operations say.\<close>

definition backup_rows_agree :: "db \<Rightarrow> bool" where
  "backup_rows_agree d \<longleftrightarrow> list_all (\<lambda>b. case get_op d (br_operation_id b) of
     Some op \<Rightarrow> br_status b = op_status op | None \<Rightarrow> True) (backup_runs d)"

text \<open>
  An accepted restore request is one the worker can carry out: the queued operation that is
  published is stored, with a restore row of the same status, and the worker finds the finished backup
  with its snapshot, the enabled target and the active cluster, as long as backup rows have the status of
  their operations.
\<close>

theorem accepted_restore_is_ready:
  assumes "request_restore sv V i q key d = (Inr (x, True, p), d')" "backup_rows_agree d"
  shows "\<exists>op r w cl archive. p = Some (op_id op, op_celery_task_id op) \<and> get_op d' (op_id op) = Some op \<and>
    op_operation_type op = ''WORKLOAD_RESTORE'' \<and> \<not> taken_up (op_id op) d' \<and>
    restore_active (op_id op, Some (rrr_id x)) d' \<and> restore_source d' op = Some (r, w, cl, archive) \<and>
    rr_id r = rrr_id x \<and> rr_backup_run_id r = i \<and> rr_target_node r = rq_target_node q \<and>
    rr_target_vmid r = rq_target_vmid q"
proof -
  obtain b t cl w h fp client where src: "restorable d i = Inr (b, t, cl, w)"
    and add: "add_restore sv V b t cl w q h fp d = (Inr (x, True, p), d')"
    using request_restore_accepts[OF assms(1)] .
  obtain op r e where op: "op = restore_operation sv (sx_fresh V 0) (uuid_str (sx_fresh V 1)) b t cl w q h fp"
    and r: "r = new_restore_run (sx_fresh V 2) (op_id op) b cl w q"
    and d': "d' = add_audit_event (sv_ctx sv) e (d\<lparr>operations := operations d @ [op], restore_runs := restore_runs d @ [r]\<rparr>)"
    and ok: "integrity d'" "restore_response d' (rr_id r) = Inr x" and p: "p = Some (op_id op, op_celery_task_id op)"
    using add_restore_accepts[OF add] .
  obtain bop c cs where rows: "run_rows d i = Some (b, bop, t, cl, w)" and live: "cl_is_active cl" "bt_is_enabled t"
    and finished_ok: "op_status bop = Op_SUCCEEDED" "br_snapshot_volume_id b = Some (c # cs)"
    using src by (auto simp: restorable_def backup_not_found_def neq_Nil_conv split: option.splits if_splits)
  note rows = run_rowsD[OF rows]
  have tables: "operations d' = operations d @ [op]" "restore_runs d' = restore_runs d @ [r]"
      "workloads d' = workloads d" "backup_targets d' = backup_targets d" "backup_runs d' = backup_runs d"
      "clusters d' = clusters d"
    by (simp_all add: d')
  have row: "get_op d' (op_id op) = Some op"
    by (rule get_row_mem[OF integrity_distinct(4)[OF ok(1)]]) (simp add: tables)
  have "get_row rr_operation_id (restore_runs d') (rr_operation_id r) = Some r"
    by (rule get_row_mem[OF integrity_backup_rows(3)[OF ok(1)]]) (simp add: tables)
  then have job: "restore_of_operation d' (op_id op) = Some r"
    by (simp add: restore_of_operation_row r new_restore_run_def)
  have "br_status b = Op_SUCCEEDED"
    using assms(2) get_row_Some[OF rows(1)] rows(3) finished_ok(1) by (auto simp: backup_rows_agree_def list_all_iff)
  with job live finished_ok rows have "restore_source d' op = Some (r, w, cl, c # cs)"
    by (simp add: restore_source_def tables op r restore_operation_def new_operation_def new_restore_run_def)
  moreover have "rr_id r = rrr_id x" using restore_response_ids[OF ok(2)] by simp
  moreover have "restore_active (op_id op, Some (rr_id r)) d'" "\<not> taken_up (op_id op) d'"
    using row job by (simp_all add: job_in_def restore_status_of_def taken_up_def op r restore_operation_def
        new_operation_def new_restore_run_def)
  moreover have "op_operation_type op = ''WORKLOAD_RESTORE''" "rr_backup_run_id r = i"
      "rr_target_node r = rq_target_node q" "rr_target_vmid r = rq_target_vmid q"
    using rows(2) by (simp_all add: op r restore_operation_def new_operation_def new_restore_run_def)
  ultimately show ?thesis using row p by metis
qed

definition demo_restore_request :: restore_request where
  "demo_restore_request = \<lparr>rq_target_node = ''n1'', rq_target_vmid = 200, rq_target_name = ''web2''\<rparr>"

definition demo_credential :: cluster_credential where
  "demo_credential = \<lparr>cred_id = 12, cred_cluster_id = 3, cred_token_identifier = ''t'', cred_secret_ciphertext = [],
     cred_secret_nonce = [], cred_key_version = ''v1'', cred_is_active = True,
     cred_last_used_at = None, cred_retired_at = None\<rparr>"

abbreviation demo_finished_backup :: db where
  "demo_finished_backup \<equiv> demo_restore_db\<lparr>operations := [demo_backup_op\<lparr>op_status := Op_SUCCEEDED\<rparr>],
     restore_runs := [], credentials := [demo_credential]\<rparr>"

abbreviation demo_restore_accepted :: "accepted_restore outcome" where
  "demo_restore_accepted \<equiv> request_restore (demo_service demo_admin 0) demo_backup_service 301 demo_restore_request ''key''
     demo_finished_backup"

abbreviation demo_done_backup :: backup_run where
  "demo_done_backup \<equiv> demo_backup_row\<lparr>br_status := Op_SUCCEEDED, br_snapshot_volume_id := Some ''pbs:vm/100''\<rparr>"

lemma demo_restorable:
  "restorable demo_finished_backup 301 = Inr (demo_done_backup, demo_target, demo_cluster, demo_workload)"
  "find_idempotent demo_finished_backup 1 [8] = None"
  "\<not> local_collision demo_finished_backup demo_cluster demo_restore_request"
  by code_simp+

lemma demo_check_target:
  "case service_client demo_backup_service demo_cluster demo_finished_backup of
     Inr c \<Rightarrow> check_target c demo_restore_request = Inr () | Inl _ \<Rightarrow> False"
  by code_simp

lemma demo_restore_rows_ok:
  assumes "op = demo_restoring_op\<lparr>op_id := 400, op_celery_task_id := c, op_result := v, op_idempotency_key_hash := [8],
       op_request_fingerprint := [7], op_organization_id := None\<rparr>"
    "d = demo_finished_backup\<lparr>operations := operations demo_finished_backup @ [op]\<rparr>"
    "r = new_restore_run 402 400 demo_done_backup demo_cluster demo_workload demo_restore_request"
  shows "integrity d" "integrity (d\<lparr>restore_runs := [r]\<rparr>)" "is_ok (restore_response (d\<lparr>restore_runs := [r]\<rparr>) 402)"
  unfolding assms by code_simp+

lemma demo_add_restore:
  "accepted_as_new (add_restore (demo_service demo_admin 0) demo_backup_service demo_done_backup demo_target demo_cluster
     demo_workload demo_restore_request [8] [7] demo_finished_backup)"
proof -
  define op where "op = restore_operation (demo_service demo_admin 0) 400 (uuid_str 401) demo_done_backup demo_target
     demo_cluster demo_workload demo_restore_request [8] [7]"
  define d where "d = demo_finished_backup\<lparr>operations := operations demo_finished_backup @ [op]\<rparr>"
  define r where "r = new_restore_run 402 400 demo_done_backup demo_cluster demo_workload demo_restore_request"
  have op: "op = demo_restoring_op\<lparr>op_id := 400, op_celery_task_id := uuid_str 401, op_result := op_result op,
       op_idempotency_key_hash := [8], op_request_fingerprint := [7], op_organization_id := None\<rparr>" "op_id op = 400"
    by (simp_all add: op_def restore_operation_def demo_restoring_op_def new_operation_def demo_cluster_def demo_workload_def)
  note rows = demo_restore_rows_ok[OF op(1) d_def r_def]
  obtain y where y: "restore_response (d\<lparr>restore_runs := [r]\<rparr>) 402 = Inr y"
    using rows(3) by (cases "restore_response (d\<lparr>restore_runs := [r]\<rparr>) 402") auto
  show ?thesis
    by (rule add_restore_new[where op = op and r = r and y = y])
      (use rows y op(2) in \<open>simp_all add: d_def op_def r_def demo_hashes new_restore_run_def[of 402]\<close>)
qed

lemma demo_restore_is_new: "accepted_as_new demo_restore_accepted"
proof -
  obtain c where "service_client demo_backup_service demo_cluster demo_finished_backup = Inr c"
    "check_target c demo_restore_request = Inr ()"
    using demo_check_target by (auto split: sum.splits)
  with demo_restorable demo_add_restore show ?thesis
    by (simp add: request_restore_def demo_hashes Let_def)
qed

theorem accepted_restore_is_ready_witness:
  "list_ex (\<lambda>op. op_operation_type op = ''WORKLOAD_RESTORE'' \<and> restore_source (snd demo_restore_accepted) op \<noteq> None)
     (operations (snd demo_restore_accepted))"
proof -
  obtain x p d' where a: "demo_restore_accepted = (Inr (x, True, p), d')"
    using accepted_as_newD[OF demo_restore_is_new] by blast
  have "backup_rows_agree demo_finished_backup" by code_simp
  from accepted_restore_is_ready[OF a this] obtain op r w cl archive where "get_op d' (op_id op) = Some op"
    "op_operation_type op = ''WORKLOAD_RESTORE''" "restore_source d' op = Some (r, w, cl, archive)" by blast
  with get_row_Some[of op_id "operations d'"] show ?thesis
    unfolding a by (auto simp: list_ex_iff intro!: bexI[of _ op])
qed

end
