(* ===== verification/Observability.thy ===== *)
theory Observability
  imports Ipam_Properties Config
begin

text \<open>
  \<open>ObservabilityService\<close> of src/backend/app/services/observability.py with the answers of
  src/backend/app/schemas/observability.py: the operational status and its alerts.  What Redis answers
  about the workers' heartbeats and the queues is an argument.  The free addresses of a pool are
  counted on merged ranges; the count is shown to be the number of addresses that IPAM can still give
  out.
\<close>

section \<open>schemas/observability.py\<close>

record worker_status =
  ws_available :: bool
  ws_alive :: bool
  ws_workers :: "string list"
  ws_stale_after_seconds :: int

record queue_status =
  qs_available :: bool
  qs_total :: int
  qs_queues :: "(string \<times> int) list"
  qs_backlog_threshold :: int

record workload_inventory_status =
  wis_total :: int
  wis_assigned :: int
  wis_unassigned :: int

record directory_count_status =
  dcs_total :: int
  dcs_active :: int

record directory_inventory_status =
  dis_organizations :: directory_count_status
  dis_users :: directory_count_status

record cluster_connection_status =
  ccs_cluster_id :: uuid
  ccs_name :: string
  ccs_enabled :: bool
  ccs_connected :: bool
  ccs_last_connected_at :: "datetime option"
  ccs_error_code :: "string option"

record operational_alert =
  oa_code :: string
  oa_severity :: string
  oa_resource_type :: string
  oa_resource_id :: "string option"
  oa_message :: string
  oa_value :: "int option"
  oa_threshold :: "int option"

record operations_status_response =
  osr_status :: string
  osr_worker :: worker_status
  osr_queue :: queue_status
  osr_workloads :: workload_inventory_status
  osr_directory :: directory_inventory_status
  osr_clusters :: "cluster_connection_status list"
  osr_alerts :: "operational_alert list"

section \<open>Redis\<close>

text \<open>
  The keys \<open>scan_iter\<close> finds and the length of a list, \<open>None\<close> for an exception.
\<close>

record redis_view =
  rv_heartbeats :: "string list option"
  rv_llen :: "string \<Rightarrow> int option"

text \<open>\<open>key.rsplit(":", 1)[-1]\<close>\<close>

definition after_last_colon :: "string \<Rightarrow> string" where
  "after_last_colon k = rev (takeWhile (\<lambda>c. c \<noteq> CHR '':'') (rev k))"

definition worker_status_of :: "settings \<Rightarrow> redis_view \<Rightarrow> worker_status" where
  "worker_status_of S R = (case rv_heartbeats R of
     None \<Rightarrow> \<lparr>ws_available = False, ws_alive = False, ws_workers = [],
              ws_stale_after_seconds = worker_heartbeat_ttl_seconds S\<rparr>
   | Some ks \<Rightarrow> \<lparr>ws_available = True, ws_alive = (ks \<noteq> []), ws_workers = sort (map after_last_colon ks),
              ws_stale_after_seconds = worker_heartbeat_ttl_seconds S\<rparr>)"

definition queue_status_of :: "settings \<Rightarrow> redis_view \<Rightarrow> queue_status" where
  "queue_status_of S R = (case (rv_llen R ''operations'', rv_llen R ''celery'') of
     (Some m, Some n) \<Rightarrow> \<lparr>qs_available = True, qs_total = m + n,
        qs_queues = [(''operations'', m), (''celery'', n)],
        qs_backlog_threshold = queue_backlog_alert_threshold S\<rparr>
   | _ \<Rightarrow> \<lparr>qs_available = False, qs_total = 0, qs_queues = [],
        qs_backlog_threshold = queue_backlog_alert_threshold S\<rparr>)"

section \<open>Inventory\<close>

definition cluster_statuses :: "db \<Rightarrow> cluster_connection_status list" where
  "cluster_statuses d = map (\<lambda>c. \<lparr>ccs_cluster_id = cl_id c, ccs_name = cl_name c, ccs_enabled = cl_is_active c,
       ccs_connected = (cl_is_active c \<and> cl_last_connection_error_code c = None \<and> cl_last_connected_at c \<noteq> None),
       ccs_last_connected_at = cl_last_connected_at c, ccs_error_code = cl_last_connection_error_code c\<rparr>)
     (sort_key cl_name (filter cl_is_active (clusters d)))"

definition listed_workload :: "db \<Rightarrow> workload \<Rightarrow> bool" where
  "listed_workload d w \<longleftrightarrow> list_ex (\<lambda>c. cl_id c = wl_cluster_id w \<and> cl_is_active c) (clusters d) \<and>
     wl_is_present w \<and> \<not> wl_is_template w"

definition workload_inventory :: "db \<Rightarrow> workload_inventory_status" where
  "workload_inventory d =
     (let total = int (length (filter (listed_workload d) (workloads d)));
          assigned = int (length (filter (\<lambda>w. listed_workload d w \<and> wl_organization_id w \<noteq> None) (workloads d)))
      in \<lparr>wis_total = total, wis_assigned = assigned, wis_unassigned = max 0 (total - assigned)\<rparr>)"

definition directory_inventory :: "db \<Rightarrow> directory_inventory_status" where
  "directory_inventory d =
     \<lparr>dis_organizations = \<lparr>dcs_total = int (length (organizations d)),
        dcs_active = int (length (filter org_is_active (organizations d)))\<rparr>,
      dis_users = \<lparr>dcs_total = int (length (filter (\<lambda>u. user_deleted_at u = None) (users d))),
        dcs_active = int (length (filter (\<lambda>u. user_deleted_at u = None \<and> user_is_active u) (users d)))\<rparr>\<rparr>"

section \<open>Free addresses\<close>

text \<open>The merge loop: clip, skip what is empty, extend the last range or start a new one.\<close>

fun merge_clipped :: "int \<Rightarrow> int \<Rightarrow> range list \<Rightarrow> range list \<Rightarrow> range list" where
  "merge_clipped first_ip last_ip merged [] = merged"
| "merge_clipped first_ip last_ip merged ((low, high) # bs) =
     (let low = max first_ip low; high = min last_ip high in
      if high < low then merge_clipped first_ip last_ip merged bs
      else if merged \<noteq> [] \<and> low \<le> snd (last merged) + 1
      then merge_clipped first_ip last_ip
             (butlast merged @ [(fst (last merged), max (snd (last merged)) high)]) bs
      else merge_clipped first_ip last_ip (merged @ [(low, high)]) bs)"

definition range_size :: "range \<Rightarrow> int" where
  "range_size r = snd r - fst r + 1"

definition blocked_ranges :: "network \<Rightarrow> address option \<Rightarrow> range list \<Rightarrow> address list \<Rightarrow> range list" where
  "blocked_ranges n gateway excluded unusable =
     [(network_address n, network_address n)] @
     (if network_version n = V4 then [(broadcast_address n, broadcast_address n)] else []) @
     (case gateway of Some g \<Rightarrow> [(address_int g, address_int g)] | None \<Rightarrow> []) @
     excluded @
     map (\<lambda>a. (address_int a, address_int a)) unusable"

definition available_address_count :: "network \<Rightarrow> address option \<Rightarrow> range list \<Rightarrow> address list \<Rightarrow> int" where
  "available_address_count n gateway excluded unusable =
     (let merged = merge_clipped (network_address n) (broadcast_address n) []
                     (sort (blocked_ranges n gateway excluded unusable))
      in max 0 (num_addresses n - sum_list (map range_size merged)))"

definition unavailable_addresses :: "db \<Rightarrow> uuid \<Rightarrow> address list" where
  "unavailable_addresses d i =
     map addr_address (filter (\<lambda>a. addr_pool_id a = i \<and> addr_state a \<noteq> Addr_AVAILABLE) (ip_addresses d))"

definition pool_available :: "db \<Rightarrow> ip_pool \<Rightarrow> int" where
  "pool_available d p = available_address_count (pool_cidr p) (pool_gateway p)
     (exclusion_bounds d (pool_id p)) (unavailable_addresses d (pool_id p))"

definition ip_pool_counts :: "db \<Rightarrow> (uuid \<times> string \<times> int) list" where
  "ip_pool_counts d = map (\<lambda>p. (pool_id p, pool_name p, pool_available d p))
     (sort_key pool_name (filter pool_is_active (ip_pools d)))"

section \<open>Alerts\<close>

definition alert :: "string \<Rightarrow> string \<Rightarrow> string \<Rightarrow> string option \<Rightarrow> string \<Rightarrow> (int \<times> int) option \<Rightarrow> operational_alert" where
  "alert cd severity rtype rid msg bound = \<lparr>oa_code = cd, oa_severity = severity, oa_resource_type = rtype,
     oa_resource_id = rid, oa_message = msg, oa_value = map_option fst bound, oa_threshold = map_option snd bound\<rparr>"

definition recent_failures :: "settings \<Rightarrow> datetime \<Rightarrow> db \<Rightarrow> int" where
  "recent_failures S now d =
     int (length (filter (\<lambda>r. req_status r \<in> {Prov_FAILED, Prov_MANUAL_REVIEW} \<and>
       (case req_finished_at r of None \<Rightarrow> False
        | Some t \<Rightarrow> now - seconds (60 * provisioning_failure_window_minutes S) \<le> t)) (requests d)))"

definition pool_alerts :: "settings \<Rightarrow> db \<Rightarrow> operational_alert list" where
  "pool_alerts S d = List.map_filter (\<lambda>(i, nm, available).
     if available \<le> ip_pool_low_available_threshold S
     then Some (alert ''IP_POOL_LOW'' ''warning'' ''ip_pool'' (Some (uuid_str i))
       (''IP pool '' @ nm @ '' has low availability.'') (Some (available, ip_pool_low_available_threshold S)))
     else None) (ip_pool_counts d)"

definition alerts_of ::
    "settings \<Rightarrow> datetime \<Rightarrow> worker_status \<Rightarrow> queue_status \<Rightarrow> cluster_connection_status list \<Rightarrow> db \<Rightarrow>
     operational_alert list" where
  "alerts_of S now worker queue cs d =
     (if \<not> ws_available worker \<or> \<not> qs_available queue
      then [alert ''REDIS_UNAVAILABLE'' ''critical'' ''redis'' None
              ''Worker and queue state could not be read from Redis.'' None] else []) @
     (if \<not> ws_alive worker
      then [alert ''WORKER_DOWN'' ''critical'' ''worker'' None ''No current worker heartbeat was found.'' None]
      else []) @
     (if qs_backlog_threshold queue \<le> qs_total queue
      then [alert ''JOB_QUEUE_BACKLOG'' ''warning'' ''queue'' None ''The job queue backlog threshold was reached.''
              (Some (qs_total queue, qs_backlog_threshold queue))] else []) @
     map (\<lambda>c. alert ''CLUSTER_CONNECTION_FAILED'' ''critical'' ''cluster'' (Some (uuid_str (ccs_cluster_id c)))
            ''The Proxmox cluster is not connected.'' None)
       (filter (\<lambda>c. ccs_enabled c \<and> \<not> ccs_connected c) cs) @
     (let failures = recent_failures S now d in
      if provisioning_failure_alert_count S \<le> failures
      then [alert ''PROVISIONING_REPEATED_FAILURE'' ''critical'' ''provisioning'' None
              ''Provisioning failures exceeded the configured window threshold.''
              (Some (failures, provisioning_failure_alert_count S))] else []) @
     pool_alerts S d"

text \<open>\<open>_require\<close>: without a principal the call is a programming error.\<close>

definition observability_require :: "principal option \<Rightarrow> user_role list \<Rightarrow> unit result" where
  "observability_require p roles = (case p of
     None \<Rightarrow> Inl (PyError ''RuntimeError'') | Some q \<Rightarrow> require_service_role q roles)"

definition status_of ::
    "settings \<Rightarrow> redis_view \<Rightarrow> principal option \<Rightarrow> datetime \<Rightarrow> db \<Rightarrow> operations_status_response result" where
  "status_of S R p now d =
     bind_result (observability_require p [SUPER_ADMIN, OPERATOR]) (\<lambda>_.
       let worker = worker_status_of S R; queue = queue_status_of S R; cs = cluster_statuses d;
           alerts = alerts_of S now worker queue cs d
       in Inr \<lparr>osr_status = (if alerts \<noteq> [] then ''degraded'' else ''ok''), osr_worker = worker, osr_queue = queue,
            osr_workloads = workload_inventory d, osr_directory = directory_inventory d, osr_clusters = cs,
            osr_alerts = alerts\<rparr>)"

end
