(* ===== verification/Observability_Properties.thy ===== *)
theory Observability_Properties
  imports Observability
begin

text \<open>
  The count of free addresses is the number of addresses that IPAM can still give out, so that a pool
  is reported before it runs empty.
\<close>

section \<open>Merged ranges\<close>

text \<open>What the loop keeps: ranges that are not empty, in order, with a gap between any two.\<close>

definition separated :: "range list \<Rightarrow> bool" where
  "separated rs \<longleftrightarrow> sorted_wrt (\<lambda>a b. snd a + 1 < fst b) rs \<and> (\<forall>r \<in> set rs. fst r \<le> snd r)"

lemma separated_simps:
  "separated []"
  "separated (r # rs) \<longleftrightarrow> (\<forall>s \<in> set rs. snd r + 1 < fst s) \<and> fst r \<le> snd r \<and> separated rs"
  by (auto simp: separated_def)

lemma separated_push:
  assumes "separated merged" "starts_below (fst r) merged" "fst r \<le> snd r"
  shows "separated (push_range merged r)"
proof (cases merged rule: rev_cases)
  case Nil
  then show ?thesis using assms by (simp add: push_range_def separated_def)
next
  case (snoc ms l)
  then show ?thesis using assms
    by (fastforce simp: push_range_def separated_def sorted_wrt_append starts_below_def)
qed

lemma merge_clipped_Cons:
  "merge_clipped a b merged ((low, high) # bs) =
     (if min b high < max a low then merge_clipped a b merged bs
      else merge_clipped a b (push_range merged (max a low, min b high)) bs)"
  by (auto simp: Let_def push_range_def)

lemma merge_clipped_correct:
  assumes "sorted (map fst bs)" "separated merged" "list_all (\<lambda>r. starts_below (max a (fst r)) merged) bs"
  shows "separated (merge_clipped a b merged bs) \<and>
    (\<forall>x. covered (merge_clipped a b merged bs) x \<longleftrightarrow> covered merged x \<or> (a \<le> x \<and> x \<le> b \<and> covered bs x))"
  using assms
proof (induction bs arbitrary: merged)
  case (Cons r bs)
  obtain low high where r: "r = (low, high)" by fastforce
  let ?r = "(max a low, min b high)"
  have rest: "list_all (\<lambda>q. starts_below (max a (fst q)) merged) bs" "sorted (map fst bs)"
    and here: "starts_below (fst ?r) merged" and later: "\<And>q. q \<in> set bs \<Longrightarrow> low \<le> fst q"
    using Cons.prems r by auto
  have below: "list_all (\<lambda>q. starts_below (max a (fst q)) (push_range merged ?r)) bs"
    
    unfolding list_all_iff
  proof
    fix q assume q: "q \<in> set bs"
    then have "starts_below (max a (fst q)) merged" "max a low \<le> max a (fst q)"
      using rest(1) later[OF q] by (auto simp: list_all_iff)
    then show "starts_below (max a (fst q)) (push_range merged ?r)"
      by (intro push_range_below) simp_all
  qed
  show ?case
  proof (cases "min b high < max a low")
    case True
    then have "merge_clipped a b merged (r # bs) = merge_clipped a b merged bs"
      by (simp add: r merge_clipped_Cons del: merge_clipped.simps)
    moreover have "a \<le> x \<and> x \<le> b \<and> covered (r # bs) x \<longleftrightarrow> a \<le> x \<and> x \<le> b \<and> covered bs x" for x
      using True by (auto simp: r)
    ultimately show ?thesis
      using Cons.IH[OF rest(2) Cons.prems(2) rest(1)] by simp
  next
    case False
    have sep: "separated (push_range merged ?r)"
      by (rule separated_push[OF Cons.prems(2) here]) (use False in \<open>simp only: fst_conv snd_conv not_less\<close>)
    from False have "merge_clipped a b merged (r # bs) = merge_clipped a b (push_range merged ?r) bs"
      by (simp add: r merge_clipped_Cons del: merge_clipped.simps)
    moreover have "covered (push_range merged ?r) x \<or> a \<le> x \<and> x \<le> b \<and> covered bs x \<longleftrightarrow>
        covered merged x \<or> a \<le> x \<and> x \<le> b \<and> covered (r # bs) x" for x
      unfolding push_range_covered[OF here] by (auto simp: r)
    ultimately show ?thesis
      using Cons.IH[OF rest(2) sep below] by simp
  qed
qed simp

lemma covered_card:
  "separated rs \<Longrightarrow> finite {x. covered rs x} \<and> int (card {x. covered rs x}) = sum_list (map range_size rs)"
proof (induction rs)
  case (Cons r rs)
  then have IH: "finite {x. covered rs x}" "int (card {x. covered rs x}) = sum_list (map range_size rs)"
    and r: "fst r \<le> snd r" "\<forall>s \<in> set rs. snd r + 1 < fst s"
    by (simp_all add: separated_simps)
  have eq: "{x. covered (r # rs) x} = {fst r..snd r} \<union> {x. covered rs x}"
    by (cases r) auto
  have disjoint: "{fst r..snd r} \<inter> {x. covered rs x} = {}"
    using r by (fastforce simp: covered_def)
  show ?case
    using IH r card_Un_disjoint[OF _ IH(1) disjoint] by (simp add: eq range_size_def[of r])
next
  case Nil
  have "covered [] = (\<lambda>x. False)" by (rule ext) simp
  then show ?case by simp
qed

lemma available_address_count_card:
  assumes "wf_network n"
  shows "available_address_count n g ex un =
    int (card {x \<in> net_range n. \<not> covered (blocked_ranges n g ex un) x})"
proof -
  let ?bs = "sort (blocked_ranges n g ex un)"
  let ?ms = "merge_clipped (network_address n) (broadcast_address n) [] ?bs"
  have sorted: "sorted (map fst ?bs)"
    by (rule sort_fst_sorted)
  have ms: "separated ?ms"
    and cov: "covered ?ms x \<longleftrightarrow> x \<in> net_range n \<and> covered (blocked_ranges n g ex un) x" for x
    using merge_clipped_correct[OF sorted separated_simps(1), of "network_address n" "broadcast_address n"]
      covered_set[of ?bs "blocked_ranges n g ex un" x]
    by (auto simp: list_all_iff net_range_def broadcast_address_eq[OF assms])
  let ?B = "{x \<in> net_range n. covered (blocked_ranges n g ex un) x}"
  let ?F = "{x \<in> net_range n. \<not> covered (blocked_ranges n g ex un) x}"
  have "finite (net_range n)" "int (card (net_range n)) = num_addresses n"
    using num_addresses_ge1[of n] by (auto simp: net_range_def)
  moreover have "net_range n = ?B \<union> ?F" "?B \<inter> ?F = {}" by auto
  ultimately have "num_addresses n = int (card ?B) + int (card ?F)"
    by (metis (no_types, lifting) card_Un_disjoint finite_Un of_nat_add)
  moreover have "int (card ?B) = sum_list (map range_size ?ms)"
    using covered_card[OF ms] by (simp add: cov)
  ultimately show ?thesis
    by (simp add: available_address_count_def Let_def)
qed

section \<open>Free is what can be allocated\<close>

lemma free_iff_allocatable:
  assumes inv: "ipam_inv d" and p: "get_pool_row d (pool_id p) = Some p"
    and x: "x \<in> net_range (pool_cidr p)"
  shows "allocatable d p (Address (network_version (pool_cidr p)) x) \<longleftrightarrow>
    \<not> covered (blocked_ranges (pool_cidr p) (pool_gateway p) (exclusion_bounds d (pool_id p))
        (unavailable_addresses d (pool_id p))) x"
proof -
  let ?n = "pool_cidr p"
  have pw: "pool_wf p" using get_pool_rowD[OF p] ipam_wfD(2)[OF ipam_invD(2)[OF inv]] by auto
  then have n: "wf_network ?n" and g: "\<And>g. pool_gateway p = Some g \<Longrightarrow> in_network g ?n"
    by (auto simp: pool_wf_def opt_all_def)
  have wf: "wf_address (Address (network_version ?n) x)"
    using x wf_network_top[OF n] n by (auto simp: wf_address_def net_range_def wf_network_def)
  have mem: "in_network (Address (network_version ?n) x) ?n"
    using x in_network_iff[OF n wf] by (auto simp: net_range_def)
  have row: "address_version (addr_address a) = network_version ?n"
    if "a \<in> set (ip_addresses d)" "addr_pool_id a = pool_id p" for a
    using ipam_wfD(3)[OF ipam_invD(2)[OF inv] that(1)] that(2) p by (auto simp: addr_wf_def address_ok_def in_network_def)
  have gw: "g = Address (network_version ?n) x \<longleftrightarrow> address_int g = x" if "pool_gateway p = Some g" for g
    using g[OF that] by (cases g) (auto simp: in_network_def)
  have same: "addr_address a = Address (network_version ?n) x \<longleftrightarrow> address_int (addr_address a) = x"
    if "a \<in> set (ip_addresses d)" "addr_pool_id a = pool_id p" for a
    using row[OF that] by (cases "addr_address a") auto
  have rows: "(\<forall>a \<in> set (ip_addresses d). addr_pool_id a = pool_id p \<and> addr_address a = Address (network_version ?n) x \<longrightarrow>
        addr_state a = Addr_AVAILABLE) \<longleftrightarrow>
      \<not> covered (map (\<lambda>a. (address_int a, address_int a)) (unavailable_addresses d (pool_id p))) x"
    using same by (fastforce simp: covered_def unavailable_addresses_def)
  show ?thesis
    using wf mem rows gw
    by (auto simp: allocatable_def address_ok_def special_def is_excluded_def blocked_ranges_def
        split: option.splits)
qed


lemma pool_available_card:
  assumes inv: "ipam_inv d" and p: "get_pool_row d (pool_id p) = Some p"
  shows "pool_available d p = int (card {a. allocatable d p a})"
proof -
  let ?n = "pool_cidr p" and ?bs = "blocked_ranges (pool_cidr p) (pool_gateway p) (exclusion_bounds d (pool_id p))
        (unavailable_addresses d (pool_id p))"
  have "pool_wf p" using get_pool_rowD[OF p] ipam_wfD(2)[OF ipam_invD(2)[OF inv]] by auto
  then have n: "wf_network ?n" by (simp add: pool_wf_def)
  have range: "a = Address (network_version ?n) (address_int a) \<and> address_int a \<in> net_range ?n"
    if "allocatable d p a" for a
    using that in_network_iff[OF n, of a] by (cases a) (auto simp: allocatable_def address_ok_def net_range_def)
  have "{a. allocatable d p a} = Address (network_version ?n) ` {x \<in> net_range ?n. \<not> covered ?bs x}"
  proof (intro set_eqI iffI)
    fix a assume "a \<in> {a. allocatable d p a}"
    then show "a \<in> Address (network_version ?n) ` {x \<in> net_range ?n. \<not> covered ?bs x}"
      using range[of a] free_iff_allocatable[OF inv p, of "address_int a"] by (intro image_eqI[of _ _ "address_int a"]) auto
  qed (use free_iff_allocatable[OF inv p] in auto)
  moreover have "inj_on (Address (network_version ?n)) {x \<in> net_range ?n. \<not> covered ?bs x}"
    by (auto intro: inj_onI)
  ultimately show ?thesis
    by (simp add: pool_available_def available_address_count_card[OF n] card_image)
qed

text \<open>
  C4. The count of free addresses that the status reports for a pool is exactly the number of addresses
  that an allocation from it can still give out, in every state that satisfies the IPAM invariant.
\<close>

theorem available_count_is_allocatable:
  assumes inv: "ipam_inv d" and p: "get_pool_row d (pool_id p) = Some p"
  shows "pool_available d p = int (card {a. allocatable d p a})"
  using assms by (rule pool_available_card)

theorem available_count_is_allocatable_witness:
  "int (card {a. allocatable demo_db demo_pool a}) = 3"
proof -
  have "get_pool_row demo_db (pool_id demo_pool) = Some demo_pool" by code_simp
  moreover have "pool_available demo_db demo_pool = 3" by code_simp
  ultimately show ?thesis using available_count_is_allocatable[OF demo_inv, of demo_pool] by simp
qed


section \<open>Alerts\<close>

lemma pool_in_counts:
  assumes "get_pool_row d (pool_id p) = Some p" "pool_is_active p"
  shows "(pool_id p, pool_name p, pool_available d p) \<in> set (ip_pool_counts d)"
  using get_pool_rowD[OF assms(1)] assms(2) by (auto simp: ip_pool_counts_def)

lemma set_map_filter: "set (List.map_filter f xs) = {y. \<exists>x \<in> set xs. f x = Some y}"
  by (auto simp: List.map_filter_def intro: rev_image_eqI)

lemma low_pool_alert:
  assumes "get_pool_row d (pool_id p) = Some p" "pool_is_active p"
    "pool_available d p \<le> ip_pool_low_available_threshold S"
  shows "\<exists>a \<in> set (pool_alerts S d). oa_code a = ''IP_POOL_LOW'' \<and> oa_resource_id a = Some (uuid_str (pool_id p)) \<and>
    oa_value a = Some (pool_available d p)"
proof
  show "alert ''IP_POOL_LOW'' ''warning'' ''ip_pool'' (Some (uuid_str (pool_id p)))
       (''IP pool '' @ pool_name p @ '' has low availability.'')
       (Some (pool_available d p, ip_pool_low_available_threshold S)) \<in> set (pool_alerts S d)"
    unfolding pool_alerts_def set_map_filter
    by (intro CollectI bexI[OF _ pool_in_counts[OF assms(1,2)]]) (simp add: assms(3))
qed (simp add: alert_def)

text \<open>
  C5. A pool that runs empty is reported: when an allocation without a wish fails because no address is
  left, the status is degraded and has a warning for that pool that says 0 addresses are available,
  under every valid configuration.
\<close>

theorem exhausted_pool_is_reported:
  assumes "ipam_inv d" "get_pool_row d (pool_id p) = Some p" "pool_is_active p" "settings_valid S"
    "automatic_candidate fresh draws p d =
       raise_app 409 ''IP_POOL_EXHAUSTED'' ''No allocatable IP address remains in the pool.''"
    "status_of S R q now d = Inr r"
  shows "osr_status r = ''degraded'' \<and> (\<exists>a \<in> set (osr_alerts r). oa_code a = ''IP_POOL_LOW'' \<and>
    oa_resource_id a = Some (uuid_str (pool_id p)) \<and> oa_value a = Some 0)"
proof -
  have "{a. allocatable d p a} = {}"
    using exhausted_iff[OF assms(1,2), of fresh draws] assms(5) by auto
  then have zero: "pool_available d p = 0"
    using pool_available_card[OF assms(1,2)] by simp
  then have "pool_available d p \<le> ip_pool_low_available_threshold S"
    using assms(4) by (simp add: settings_valid_def in_range_def)
  from low_pool_alert[OF assms(2,3) this] zero
  obtain a where a: "a \<in> set (pool_alerts S d)" "oa_code a = ''IP_POOL_LOW''"
    "oa_resource_id a = Some (uuid_str (pool_id p))" "oa_value a = Some 0" by auto
  then have "a \<in> set (osr_alerts r)" "osr_status r = ''degraded''"
    using assms(6) by (auto simp: status_of_def result_simps Let_def alerts_of_def)
  with a show ?thesis by blast
qed

definition demo_full :: db where
  "demo_full = demo_db\<lparr>exclusions := [demo_exclusion\<lparr>ex_end_address := demo_addr 6\<rparr>]\<rparr>"

lemma demo_full_inv: "ipam_inv demo_full"
proof -
  have "integrity demo_full" "list_all pool_wf (ip_pools demo_full)" by code_simp+
  then show ?thesis
    by (simp add: ipam_inv_def ipam_wf_def agree_def cursors_wf_def pools_disjoint_def demo_full_def demo_defs empty_db_def)
qed

definition demo_redis :: redis_view where
  "demo_redis = \<lparr>rv_heartbeats = Some [''pvemaster:worker:heartbeat:w1''], rv_llen = (\<lambda>_. Some 0)\<rparr>"

theorem exhausted_pool_is_reported_witness:
  "\<exists>r. status_of (default_settings (replicate 32 CHR ''k'')) demo_redis (Some demo_admin) 0 demo_full = Inr r \<and>
     osr_status r = ''degraded'' \<and> (\<exists>a \<in> set (osr_alerts r). oa_code a = ''IP_POOL_LOW'' \<and>
       oa_resource_id a = Some (uuid_str (pool_id demo_pool)) \<and> oa_value a = Some 0)"
proof -
  obtain r where r: "status_of (default_settings (replicate 32 CHR ''k'')) demo_redis (Some demo_admin) 0 demo_full = Inr r"
    by (auto simp: status_of_def observability_require_def require_service_role_def demo_admin_def Let_def)
  have row: "get_pool_row demo_full (pool_id demo_pool) = Some demo_pool" by code_simp
  have "automatic_candidate demo_ids [] demo_pool demo_full =
      raise_app 409 ''IP_POOL_EXHAUSTED'' ''No allocatable IP address remains in the pool.''" by code_simp
  from exhausted_pool_is_reported[OF demo_full_inv row _ default_settings_valid this r] r
  show ?thesis by (simp add: demo_pool_def)
qed

end
