(* ===== verification/Customer_Properties.thy ===== *)
theory Customer_Properties
  imports Customer_Portal Operation_Requests
begin

text \<open>
  What the customer portal promises: a customer sees and acts on nothing but the guests of their active
  organisations, and what it accepts is what the power worker will carry out.
\<close>

section \<open>Ownership\<close>

lemma owned_vm_Inr:
  "owned_vm sv i d = Inr w \<Longrightarrow> w \<in> set (workloads d) \<and> wl_id w = i \<and> owned_workload d (prin_user_id (sv_principal sv)) w"
  by (auto simp: owned_vm_def vm_not_found_def dest!: find_Some_mem split: option.splits)









section \<open>From the portal to the worker\<close>

lemma customer_action_accepts:
  assumes "customer_power_action sv C secret fresh i a key reason confirmed d = (Inr (j, Some m), d')"
  obtains w x where "owned_vm sv i d = Inr w" "a \<in> {START, SHUTDOWN, STOP, REBOOT}"
    "x = customer_operation sv fresh a w (key_hash C secret key) (sha256 C (encode (customer_fingerprint i a))) reason"
    "d' = add_audit_event (sv_ctx sv) (customer_event sv w x) (add_operation x d)" "integrity d'"
    "customer_job_of x = Inr j" "m = (op_id x, op_celery_task_id x)"
proof -
  from assms obtain w where w: "owned_vm sv i d = Inr w" "a \<in> {START, SHUTDOWN, STOP, REBOOT}"
    by (auto simp: customer_power_action_def try_in_def split: sum.splits if_splits)
  let ?x = "customer_operation sv fresh a w (key_hash C secret key) (sha256 C (encode (customer_fingerprint i a))) reason"
  have "commit_in d operation_conflict (add_audit_event (sv_ctx sv) (customer_event sv w ?x) (add_operation ?x d))
      (map_sum id (\<lambda>r. (r, Some (op_id ?x, op_celery_task_id ?x))) (customer_job_of ?x)) = (Inr (j, Some m), d')"
  proof (cases "find_idempotent d (prin_user_id (sv_principal sv)) (key_hash C secret key)")
    case None
    with assms w show ?thesis
      by (auto simp: customer_power_action_def try_in_def Let_def vm_not_found_def split: sum.splits if_splits)
  next
    case (Some y)
    with assms w show ?thesis
      by (cases "customer_job_of y")
        (auto simp: customer_power_action_def try_in_def Let_def vm_not_found_def split: sum.splits if_splits)
  qed
  then show thesis
    by (cases "customer_job_of ?x") (auto simp: commit_in_def intro!: that[OF w] split: if_splits)
qed


text \<open>
  C17. What the portal accepts, the worker will carry out: an accepted action of an active customer is
  stored as a queued operation with the action asked for, and on the stored state it passes every
  check the power worker makes before it calls Proxmox (the workload is there and can run the action,
  the requester is authorised for it), whatever the state the request found.
\<close>

theorem portal_action_is_ready:
  assumes "customer_power_action sv C secret fresh i a key reason confirmed d = (Inr (j, Some m), d')"
    "get_user d (prin_user_id (sv_principal sv)) = Some actor" "user_is_active actor" "user_role_of actor = CUSTOMER"
  shows "\<exists>op w. get_op d' (cj_id j) = Some op \<and> op_status op = Op_QUEUED \<and> power_action_of (op_action op) = Some a \<and>
    op_requested_by_id op = user_id actor \<and> get_wl d' (op_workload_id op) = Some w \<and> wl_id w = i \<and> runnable op w \<and>
    actor_authorized d' op w (Some actor) \<and> m = (op_id op, op_celery_task_id op)"
proof -
  obtain w x where w: "owned_vm sv i d = Inr w" "a \<in> {START, SHUTDOWN, STOP, REBOOT}"
    and x: "x = customer_operation sv fresh a w (key_hash C secret key) (sha256 C (encode (customer_fingerprint i a))) reason"
    and d': "d' = add_audit_event (sv_ctx sv) (customer_event sv w x) (add_operation x d)" "integrity d'"
    and j: "customer_job_of x = Inr j" "m = (op_id x, op_celery_task_id x)"
    using customer_action_accepts[OF assms(1)] by blast
  note own = owned_vm_Inr[OF w(1)]
  have ops: "operations d' = operations d @ [x]" "workloads d' = workloads d" "members d' = members d"
    "organizations d' = organizations d"
    by (simp_all add: d'(1) add_operation_def)
  have op: "get_op d' (cj_id j) = Some x"
    using integrity_distinct(4)[OF d'(2)] j(1) get_row_mem[of op_id "operations d'" x] ops(1)
    by (auto simp: customer_job_of_def split: option.splits)
  have wl: "get_wl d' (op_workload_id x) = Some w" "op_workload_id x = i"
    using integrity_distinct(5)[OF d'(2)] own get_row_mem[of wl_id "workloads d'" w] ops(2)
    by (auto simp: x customer_operation_def new_operation_def)
  have fields: "op_status x = Op_QUEUED" "op_action x = power_action_value a" "op_organization_id x = wl_organization_id w"
    "op_requested_by_id x = prin_user_id (sv_principal sv)"
    by (simp_all add: x customer_operation_def new_operation_def)
  have user: "user_id actor = prin_user_id (sv_principal sv)"
    using get_row_Some[OF assms(2)] by simp
  have run: "runnable x w"
    using own w(2) by (auto simp: runnable_def owned_workload_def fields(2) power_action_value_inj)
  have "\<exists>m \<in> set (members d). mem_user_id m = user_id actor \<and> Some (mem_organization_id m) = wl_organization_id w \<and>
      (\<exists>g \<in> set (organizations d). org_id g = mem_organization_id m \<and> org_is_active g)"
    using own by (fastforce simp: owned_workload_def member_of_def active_organization_def list_ex_iff user)
  then have "actor_authorized d' x w (Some actor)"
    using w(2) assms(3,4)
    by (auto simp: actor_authorized_def list_ex_iff ops fields)
  with op wl run fields j user own show ?thesis by auto
qed

definition demo_portal_db :: db where
  "demo_portal_db = demo_db\<lparr>workloads := [demo_workload\<lparr>wl_organization_id := Some (org_id demo_org)\<rparr>]\<rparr>"

lemma demo_portal_accepts:
  "case customer_power_action (demo_service demo_customer 0) demo_crypto ''s'' demo_ids 6 STOP ''key-0001'' None True demo_portal_db of
     (Inr (j, m), d') \<Rightarrow> m \<noteq> None \<and> cj_id j = 100 | _ \<Rightarrow> False"
  by code_simp

theorem portal_action_is_ready_witness:
  "\<exists>d' op w. get_op d' 100 = Some op \<and> op_status op = Op_QUEUED \<and> power_action_of (op_action op) = Some STOP \<and>
    runnable op w \<and> actor_authorized d' op w (Some (demo_user 2 ''c@example.com'' CUSTOMER))"
proof -
  obtain j m d' where r: "customer_power_action (demo_service demo_customer 0) demo_crypto ''s'' demo_ids 6 STOP
      ''key-0001'' None True demo_portal_db = (Inr (j, Some m), d')" and j: "cj_id j = 100"
    using demo_portal_accepts by (auto simp: split: prod.splits sum.splits)
  have "get_user demo_portal_db (prin_user_id (sv_principal (demo_service demo_customer 0))) =
      Some (demo_user 2 ''c@example.com'' CUSTOMER)" by code_simp
  from portal_action_is_ready[OF r this] j show ?thesis
    by (simp add: demo_user_def) blast
qed

end
