(* ===== verification/Proxmox_Client.thy ===== *)
theory Proxmox_Client
  imports Endpoints Power_Runner Backup_Runner Restore_Runner Provisioning_Api
begin

text \<open>
  \<open>ProxmoxClient\<close> of src/backend/app/proxmox/client.py: the requests it sends to the Proxmox API and
  what it makes of the answers.  httpx, which sends a request, is a parameter on the outside world: it
  fails with an exception or gives a response with a status code and perhaps a JSON body.  Opening the
  WebSocket of a console is I/O and left out.
\<close>

section \<open>Requests and failures\<close>

record http_request =
  hq_method :: string
  hq_path :: string
  hq_params :: "(string \<times> string) list option"
  hq_data :: "(string \<times> string) list option"

record http_response =
  hr_status :: int
  hr_json :: "json option" \<comment> \<open>\<open>None\<close> when \<open>response.json()\<close> raises \<open>ValueError\<close>\<close>

text \<open>
  \<open>httpx.TimeoutException\<close>; \<open>ConnectError\<close>, caused by a TLS error or not; another \<open>NetworkError\<close>; and any
  other exception, such as \<open>RemoteProtocolError\<close>, by its name.
\<close>

datatype http_failure = Timeout_Failure | Connect_Failure bool | Network_Failure | Other_Failure string

record 'w proxmox_client =
  px_base_url :: string
  px_policy :: "'w \<Rightarrow> endpoint_policy" \<comment> \<open>with the addresses DNS gives at the moment\<close>
  px_send :: "http_request \<Rightarrow> 'w \<Rightarrow> (http_failure + http_response) \<times> 'w"

definition invalid_response :: exn where
  "invalid_response = App (app_error 502 ''PVE_INVALID_RESPONSE'' ''The Proxmox API returned an invalid response body.'')"

fun failure_error :: "http_failure \<Rightarrow> exn" where
  "failure_error Timeout_Failure = App (app_error 504 ''PVE_TIMEOUT''
     ''The Proxmox API did not respond within the configured timeout.'')"
| "failure_error (Connect_Failure tls) =
     (if tls then App (app_error 502 ''PVE_TLS_ERROR'' ''The Proxmox TLS certificate could not be verified.'')
      else App (app_error 503 ''CLUSTER_UNREACHABLE'' ''The Proxmox cluster is unreachable.''))"
| "failure_error Network_Failure = App (app_error 503 ''CLUSTER_UNREACHABLE'' ''The Proxmox cluster is unreachable.'')"
| "failure_error (Other_Failure n) = PyError n"

datatype json_kind = Want_dict | Want_list | Want_str

fun of_kind :: "json_kind \<Rightarrow> json \<Rightarrow> bool" where
  "of_kind Want_dict (JObj _) = True"
| "of_kind Want_list (JList _) = True"
| "of_kind Want_str (JStr _) = True"
| "of_kind _ _ = False"

definition response_data :: "json_kind \<Rightarrow> bool \<Rightarrow> http_response \<Rightarrow> json result" where
  "response_data kind allow_null r =
     (if hr_status r = 401 then raise_app 401 ''PVE_AUTH_FAILED'' ''The Proxmox API token was rejected.''
      else if hr_status r = 403
      then raise_app 403 ''PVE_PERMISSION_DENIED'' ''The Proxmox API token lacks a required permission.''
      else if 500 \<le> hr_status r then raise_app 502 ''PVE_UPSTREAM_ERROR'' ''The Proxmox API returned a server error.''
      else if 400 \<le> hr_status r
      then raise_app 502 ''PVE_INVALID_RESPONSE'' ''The Proxmox API returned an unexpected response.''
      else (case hr_json r of
          Some (JObj payload) \<Rightarrow>
            (case map_of payload ''data'' of
               None \<Rightarrow> Inl invalid_response
             | Some x \<Rightarrow> if allow_null \<and> x = JNull then Inr (JStr [])
                         else if of_kind kind x then Inr x else Inl invalid_response)
        | _ \<Rightarrow> Inl invalid_response))"

definition request_data ::
    "'w proxmox_client \<Rightarrow> http_request \<Rightarrow> json_kind \<Rightarrow> bool \<Rightarrow> 'w \<Rightarrow> json result \<times> 'w" where
  "request_data C q kind allow_null w =
     (case validate_endpoint (px_policy C w) (px_base_url C) of
        Inl e \<Rightarrow> (Inl e, w)
      | Inr _ \<Rightarrow> (case px_send C q w of
          (Inl f, w') \<Rightarrow> (Inl (failure_error f), w')
        | (Inr r, w') \<Rightarrow> (response_data kind allow_null r, w')))"

text \<open>What is done with an answer; and a call that is refused before anything is sent.\<close>

definition answer :: "(json \<Rightarrow> 'a result) \<Rightarrow> json result \<times> 'w \<Rightarrow> 'a result \<times> 'w" where
  "answer f p = (bind_result (fst p) f, snd p)"

definition refuse :: "string \<Rightarrow> 'w \<Rightarrow> 'a result \<times> 'w" where
  "refuse e w = (Inl (PyError e), w)"

definition get_request :: "string \<Rightarrow> (string \<times> string) list option \<Rightarrow> http_request" where
  "get_request path params = \<lparr>hq_method = ''GET'', hq_path = path, hq_params = params, hq_data = None\<rparr>"

definition put_request :: "string \<Rightarrow> (string \<times> string) list \<Rightarrow> http_request" where
  "put_request path form = \<lparr>hq_method = ''PUT'', hq_path = path, hq_params = None, hq_data = Some form\<rparr>"

definition post_request :: "string \<Rightarrow> (string \<times> string) list option \<Rightarrow> http_request" where
  "post_request path form = \<lparr>hq_method = ''POST'', hq_path = path, hq_params = None, hq_data = form\<rparr>"

definition delete_request :: "string \<Rightarrow> http_request" where
  "delete_request path = \<lparr>hq_method = ''DELETE'', hq_path = path, hq_params = None, hq_data = None\<rparr>"

section \<open>Shapes of answers\<close>

fun as_dict :: "json \<Rightarrow> dict result" where
  "as_dict (JObj d) = Inr d"
| "as_dict _ = Inl invalid_response"

fun require_object_list :: "json \<Rightarrow> dict list result" where
  "require_object_list (JList xs) = map_result as_dict xs"
| "require_object_list _ = Inl invalid_response"

fun require_upid :: "json \<Rightarrow> string result" where
  "require_upid (JStr s) = (if is_prefix ''UPID:'' s \<and> length s \<le> 2048 then Inr s else Inl invalid_response)"
| "require_upid _ = Inl invalid_response"

definition no_answer :: "json \<Rightarrow> unit result" where
  "no_answer _ = Inr ()"

section \<open>Paths\<close>

text \<open>\<open>quote(s, safe="")\<close> of ASCII data.\<close>

definition unreserved :: "char \<Rightarrow> bool" where
  "unreserved c \<longleftrightarrow> is_alpha c \<or> is_digit c \<or> c \<in> set ''_.-~''"

definition quote_char :: "char \<Rightarrow> string" where
  "quote_char c = (if unreserved c then [c] else CHR ''%'' # str_upper (hex_digits 2 (of_char c)))"

definition quote :: "string \<Rightarrow> string" where
  "quote s = concat (map quote_char s)"

definition guest_type :: "string \<Rightarrow> string option" where
  "guest_type kind = (if kind = ''QEMU'' then Some ''qemu'' else if kind = ''LXC'' then Some ''lxc'' else None)"

definition node_path :: "string \<Rightarrow> string \<Rightarrow> string" where
  "node_path node rest = ''/api2/json/nodes/'' @ quote node @ ''/'' @ rest"

definition guest_path :: "string \<Rightarrow> string \<Rightarrow> int \<Rightarrow> string" where
  "guest_path node gtype vmid = node_path node (gtype @ ''/'' @ int_str vmid)"

text \<open>\<open>ValueError("unsupported guest kind")\<close>, else the call with the guest's type.\<close>

definition with_guest_type :: "string \<Rightarrow> (string \<Rightarrow> 'w \<Rightarrow> 'a result \<times> 'w) \<Rightarrow> 'w \<Rightarrow> 'a result \<times> 'w" where
  "with_guest_type kind f = (case guest_type kind of None \<Rightarrow> refuse ''ValueError'' | Some g \<Rightarrow> f g)"

section \<open>Inventory\<close>

definition client_get_nodes :: "'w proxmox_client \<Rightarrow> 'w \<Rightarrow> dict list result \<times> 'w" where
  "client_get_nodes C w = answer require_object_list (request_data C (get_request ''/api2/json/nodes'' None) Want_list False w)"

definition client_get_node_status :: "'w proxmox_client \<Rightarrow> string \<Rightarrow> 'w \<Rightarrow> dict result \<times> 'w" where
  "client_get_node_status C node w =
     answer as_dict (request_data C (get_request (node_path node ''status'') None) Want_dict False w)"

definition client_get_node_rrd_data :: "'w proxmox_client \<Rightarrow> string \<Rightarrow> string \<Rightarrow> 'w \<Rightarrow> dict list result \<times> 'w" where
  "client_get_node_rrd_data C node timeframe w = answer require_object_list
     (request_data C (get_request (node_path node ''rrddata'') (Some [(''timeframe'', timeframe), (''cf'', ''AVERAGE'')]))
        Want_list False w)"

definition resources :: "string \<Rightarrow> http_request" where
  "resources ty = get_request ''/api2/json/cluster/resources'' (Some [(''type'', ty)])"

definition client_get_guests :: "'w proxmox_client \<Rightarrow> 'w \<Rightarrow> dict list result \<times> 'w" where
  "client_get_guests C w = answer require_object_list (request_data C (resources ''vm'') Want_list False w)"

definition client_get_storages :: "'w proxmox_client \<Rightarrow> 'w \<Rightarrow> dict list result \<times> 'w" where
  "client_get_storages C w = answer require_object_list (request_data C (resources ''storage'') Want_list False w)"

definition client_get_storage_configurations :: "'w proxmox_client \<Rightarrow> 'w \<Rightarrow> dict list result \<times> 'w" where
  "client_get_storage_configurations C w =
     answer require_object_list (request_data C (get_request ''/api2/json/storage'' None) Want_list False w)"

definition client_get_node_storages :: "'w proxmox_client \<Rightarrow> string \<Rightarrow> 'w \<Rightarrow> dict list result \<times> 'w" where
  "client_get_node_storages C node w =
     answer require_object_list (request_data C (get_request (node_path node ''storage'') None) Want_list False w)"

text \<open>\<open>test_connection\<close>: four requests, the first of which gives the answer.\<close>

definition client_test_connection :: "'w proxmox_client \<Rightarrow> 'w \<Rightarrow> dict result \<times> 'w" where
  "client_test_connection C w =
     (case request_data C (get_request ''/api2/json/version'' None) Want_dict False w of
        (Inl e, w1) \<Rightarrow> (Inl e, w1)
      | (Inr v, w1) \<Rightarrow> (case request_data C (get_request ''/api2/json/nodes'' None) Want_list False w1 of
          (Inl e, w2) \<Rightarrow> (Inl e, w2)
        | (Inr _, w2) \<Rightarrow> (case request_data C (resources ''vm'') Want_list False w2 of
            (Inl e, w3) \<Rightarrow> (Inl e, w3)
          | (Inr _, w3) \<Rightarrow> (case request_data C (resources ''storage'') Want_list False w3 of
              (Inl e, w4) \<Rightarrow> (Inl e, w4)
            | (Inr _, w4) \<Rightarrow> (bind_result (as_dict v) (\<lambda>d. Inr
                [(''version'', dict_get d ''version''), (''release'', dict_get d ''release''),
                 (''capabilities'', JObj [(''nodes'', JBool True), (''guests'', JBool True), (''storages'', JBool True)])]),
               w4)))))"

section \<open>Guests\<close>

definition client_get_vm_status :: "'w proxmox_client \<Rightarrow> string \<Rightarrow> int \<Rightarrow> 'w \<Rightarrow> dict result \<times> 'w" where
  "client_get_vm_status C node vmid w =
     answer as_dict (request_data C (get_request (guest_path node ''qemu'' vmid @ ''/status/current'') None) Want_dict False w)"

definition client_get_guest_status :: "'w proxmox_client \<Rightarrow> string \<Rightarrow> string \<Rightarrow> int \<Rightarrow> 'w \<Rightarrow> dict result \<times> 'w" where
  "client_get_guest_status C kind node vmid = with_guest_type kind (\<lambda>g w.
     answer as_dict (request_data C (get_request (guest_path node g vmid @ ''/status/current'') None) Want_dict False w))"

definition client_get_guest_config :: "'w proxmox_client \<Rightarrow> string \<Rightarrow> string \<Rightarrow> int \<Rightarrow> 'w \<Rightarrow> dict result \<times> 'w" where
  "client_get_guest_config C kind node vmid = with_guest_type kind (\<lambda>g w.
     answer as_dict (request_data C (get_request (guest_path node g vmid @ ''/config'') None) Want_dict False w))"

definition client_configure_guest ::
    "'w proxmox_client \<Rightarrow> string \<Rightarrow> string \<Rightarrow> int \<Rightarrow> int \<Rightarrow> int \<Rightarrow> 'w \<Rightarrow> unit result \<times> 'w" where
  "client_configure_guest C kind node vmid cores memory_mib = with_guest_type kind (\<lambda>g w.
     answer no_answer (request_data C (put_request (guest_path node g vmid @ ''/config'')
       [(''cores'', int_str cores), (''memory'', int_str memory_mib)]) Want_str True w))"

definition client_resize_guest_disk ::
    "'w proxmox_client \<Rightarrow> string \<Rightarrow> string \<Rightarrow> int \<Rightarrow> string \<Rightarrow> int \<Rightarrow> 'w \<Rightarrow> unit result \<times> 'w" where
  "client_resize_guest_disk C kind node vmid disk size_bytes = with_guest_type kind (\<lambda>g w.
     answer no_answer (request_data C (put_request (guest_path node g vmid @ ''/resize'')
       [(''disk'', disk), (''size'', int_str size_bytes)]) Want_str True w))"

definition client_delete_guest :: "'w proxmox_client \<Rightarrow> string \<Rightarrow> string \<Rightarrow> int \<Rightarrow> 'w \<Rightarrow> string result \<times> 'w" where
  "client_delete_guest C kind node vmid = with_guest_type kind (\<lambda>g w.
     answer require_upid (request_data C (delete_request (guest_path node g vmid)) Want_str False w))"

definition client_submit_guest_power_action ::
    "'w proxmox_client \<Rightarrow> string \<Rightarrow> string \<Rightarrow> int \<Rightarrow> string \<Rightarrow> 'w \<Rightarrow> string result \<times> 'w" where
  "client_submit_guest_power_action C kind node vmid action =
     (if action \<notin> {''start'', ''shutdown'', ''stop'', ''reboot''} \<union> (if kind = ''QEMU'' then {''reset''} else {})
      then refuse ''ValueError''
      else with_guest_type kind (\<lambda>g w. answer require_upid
        (request_data C (post_request (guest_path node g vmid @ ''/status/'' @ action) None) Want_str False w)))"

definition client_submit_vm_power_action ::
    "'w proxmox_client \<Rightarrow> string \<Rightarrow> int \<Rightarrow> string \<Rightarrow> 'w \<Rightarrow> string result \<times> 'w" where
  "client_submit_vm_power_action C node vmid action = client_submit_guest_power_action C ''QEMU'' node vmid action"

definition client_get_task_status :: "'w proxmox_client \<Rightarrow> string \<Rightarrow> string \<Rightarrow> 'w \<Rightarrow> dict result \<times> 'w" where
  "client_get_task_status C node upid w = answer as_dict
     (request_data C (get_request (node_path node (''tasks/'' @ quote upid @ ''/status'')) None) Want_dict False w)"

section \<open>Backups and restores\<close>

definition backup_target_bad :: "int \<Rightarrow> string \<Rightarrow> bool" where
  "backup_target_bad vmid storage \<longleftrightarrow> vmid \<le> 0 \<or> storage = [] \<or> 255 < length storage"

definition client_submit_guest_backup ::
    "'w proxmox_client \<Rightarrow> string \<Rightarrow> int \<Rightarrow> string \<Rightarrow> string \<Rightarrow> string \<Rightarrow> 'w \<Rightarrow> string result \<times> 'w" where
  "client_submit_guest_backup C node vmid storage mode compression w =
     (if mode \<noteq> ''snapshot'' \<or> compression \<noteq> ''zstd'' then refuse ''ValueError'' w
      else if backup_target_bad vmid storage then refuse ''ValueError'' w
      else answer require_upid (request_data C (post_request (node_path node ''vzdump'')
        (Some [(''vmid'', int_str vmid), (''storage'', storage), (''mode'', mode), (''compress'', compression)]))
        Want_str False w))"

definition client_get_backup_content ::
    "'w proxmox_client \<Rightarrow> string \<Rightarrow> string \<Rightarrow> int \<Rightarrow> 'w \<Rightarrow> dict list result \<times> 'w" where
  "client_get_backup_content C node storage vmid w =
     (if backup_target_bad vmid storage then refuse ''ValueError'' w
      else answer require_object_list (request_data C
        (get_request (node_path node (''storage/'' @ quote storage @ ''/content''))
          (Some [(''content'', ''backup''), (''vmid'', int_str vmid)])) Want_list False w))"

definition client_submit_guest_restore ::
    "'w proxmox_client \<Rightarrow> string \<Rightarrow> string \<Rightarrow> string \<Rightarrow> int \<Rightarrow> string \<Rightarrow> 'w \<Rightarrow> string result \<times> 'w" where
  "client_submit_guest_restore C kind node archive vmid name = with_guest_type kind (\<lambda>g w.
     if vmid < 100 \<or> archive = [] \<or> 1024 < length archive \<or> name = [] \<or> 63 < length name
     then refuse ''ValueError'' w
     else answer require_upid (request_data C (post_request (node_path node g) (Some
       ([(''vmid'', int_str vmid), (''start'', ''0'')] @
        (if g = ''qemu'' then [(''archive'', archive), (''name'', name), (''unique'', ''1'')]
         else [(''ostemplate'', archive), (''hostname'', name), (''restore'', ''1'')])))) Want_str False w))"

definition client_get_task_log :: "'w proxmox_client \<Rightarrow> string \<Rightarrow> string \<Rightarrow> 'w \<Rightarrow> dict list result \<times> 'w" where
  "client_get_task_log C node upid w =
     (if upid = [] \<or> 2048 < length upid then refuse ''ValueError'' w
      else answer require_object_list (request_data C
        (get_request (node_path node (''tasks/'' @ quote upid @ ''/log'')) (Some [(''start'', ''0''), (''limit'', ''500'')]))
        Want_list False w))"

section \<open>Provisioning\<close>

definition client_clone_qemu_template ::
    "'w proxmox_client \<Rightarrow> string \<Rightarrow> int \<Rightarrow> string \<Rightarrow> int \<Rightarrow> string \<Rightarrow> string \<Rightarrow> 'w \<Rightarrow> string result \<times> 'w" where
  "client_clone_qemu_template C source_node source_vmid target_node target_vmid name storage w =
     answer require_upid (request_data C (post_request (guest_path source_node ''qemu'' source_vmid @ ''/clone'') (Some
       [(''newid'', int_str target_vmid), (''node'', target_node), (''name'', name), (''storage'', storage),
        (''full'', ''1'')])) Want_str False w)"

definition qemu_parameters :: "string list" where
  "qemu_parameters = [''cores'', ''memory'', ''net0'', ''ipconfig0'', ''nameserver'', ''ciuser'', ''cipassword'', ''sshkeys'']"

definition client_configure_qemu ::
    "'w proxmox_client \<Rightarrow> string \<Rightarrow> int \<Rightarrow> (string \<times> string) list \<Rightarrow> 'w \<Rightarrow> unit result \<times> 'w" where
  "client_configure_qemu C node vmid form w =
     (if form = [] \<or> \<not> set (map fst form) \<subseteq> set qemu_parameters then refuse ''ValueError'' w
      else answer no_answer (request_data C (put_request (guest_path node ''qemu'' vmid @ ''/config'')
        (map (\<lambda>(k, v). (k, if k = ''sshkeys'' then quote v else v)) form)) Want_str True w))"

definition client_resize_qemu_disk ::
    "'w proxmox_client \<Rightarrow> string \<Rightarrow> int \<Rightarrow> string \<Rightarrow> int \<Rightarrow> 'w \<Rightarrow> unit result \<times> 'w" where
  "client_resize_qemu_disk C node vmid disk size_bytes w =
     answer no_answer (request_data C (put_request (guest_path node ''qemu'' vmid @ ''/resize'')
       [(''disk'', disk), (''size'', int_str size_bytes)]) Want_str True w)"

section \<open>Consoles\<close>

record console_proxy =
  cp_kind :: string
  cp_node :: string
  cp_vmid :: int
  cp_port :: int
  cp_ticket :: string
  cp_user :: "string option"

text \<open>\<open>int(s)\<close>: white space around, a sign, digits with single underscores between them.\<close>

fun digits_of :: "int \<Rightarrow> bool \<Rightarrow> string \<Rightarrow> int option" where
  "digits_of n after_digit [] = (if after_digit then Some n else None)"
| "digits_of n after_digit (c # s) =
     (if is_digit c then digits_of (10 * n + (of_char c - 48)) True s
      else if c = CHR ''_'' \<and> after_digit then digits_of n False s else None)"

definition py_int :: "string \<Rightarrow> int option" where
  "py_int s = (case str_strip s of
     [] \<Rightarrow> None
   | c # cs \<Rightarrow> if c = CHR ''-'' then map_option uminus (digits_of 0 False cs)
              else if c = CHR ''+'' then digits_of 0 False cs else digits_of 0 False (c # cs))"

fun port_of :: "json \<Rightarrow> int option" where
  "port_of (JInt i) = Some i"
| "port_of (JBool b) = Some (if b then 1 else 0)"
| "port_of (JStr s) = py_int s"
| "port_of _ = None"

definition console_ticket :: "string \<Rightarrow> string \<Rightarrow> int \<Rightarrow> dict \<Rightarrow> console_proxy result" where
  "console_ticket g node vmid d =
     (case port_of (dict_get d ''port'') of
        None \<Rightarrow> Inl invalid_response
      | Some port \<Rightarrow>
        (case dict_get d ''ticket'' of
           JStr ticket \<Rightarrow>
             (let user = (case dict_get d ''user'' of JStr u \<Rightarrow> Some u | _ \<Rightarrow> None) in
              if ticket = [] \<or> 4096 < length ticket then Inl invalid_response
              else if g = ''lxc'' \<and> (case user of None \<Rightarrow> True | Some u \<Rightarrow> u = [] \<or> 255 < length u)
              then Inl invalid_response
              else if \<not> (1 \<le> port \<and> port \<le> 65535) then Inl invalid_response
              else Inr \<lparr>cp_kind = g, cp_node = node, cp_vmid = vmid, cp_port = port, cp_ticket = ticket, cp_user = user\<rparr>)
         | _ \<Rightarrow> Inl invalid_response))"

definition client_create_console_proxy ::
    "'w proxmox_client \<Rightarrow> string \<Rightarrow> string \<Rightarrow> int \<Rightarrow> 'w \<Rightarrow> console_proxy result \<times> 'w" where
  "client_create_console_proxy C kind node vmid = with_guest_type kind (\<lambda>g w.
     answer (\<lambda>x. bind_result (as_dict x) (console_ticket g node vmid))
       (request_data C (post_request (guest_path node g vmid @ ''/'' @ (if g = ''qemu'' then ''vncproxy'' else ''termproxy''))
          (if g = ''qemu'' then Some [(''websocket'', ''1'')] else None)) Want_dict False w))"

section \<open>The client as the workers use it\<close>

definition client_power_api :: "'w proxmox_client \<Rightarrow> 'w power_api" where
  "client_power_api C = \<lparr>
     submit_guest_power_action = (\<lambda>k. client_submit_guest_power_action C (workload_kind_value k)),
     get_task_status = client_get_task_status C,
     get_guest_status = (\<lambda>k. client_get_guest_status C (workload_kind_value k)),
     get_guest_config = (\<lambda>k. client_get_guest_config C (workload_kind_value k)),
     configure_guest = (\<lambda>k. client_configure_guest C (workload_kind_value k)),
     resize_guest_disk = (\<lambda>k. client_resize_guest_disk C (workload_kind_value k)),
     delete_guest = (\<lambda>k. client_delete_guest C (workload_kind_value k))\<rparr>"

definition client_provisioning_api :: "'w proxmox_client \<Rightarrow> 'w provisioning_api" where
  "client_provisioning_api C = \<lparr>
     get_guests = client_get_guests C, clone_qemu_template = client_clone_qemu_template C,
     prov_task_status = client_get_task_status C, configure_qemu = client_configure_qemu C,
     resize_qemu_disk = client_resize_qemu_disk C, submit_vm_power_action = client_submit_vm_power_action C,
     get_vm_status = client_get_vm_status C\<rparr>"

definition client_backup_api :: "'w proxmox_client \<Rightarrow> 'w backup_api" where
  "client_backup_api C = \<lparr>ba_submit_guest_backup = client_submit_guest_backup C,
     ba_get_task_status = client_get_task_status C, ba_get_backup_content = client_get_backup_content C,
     ba_get_task_log = client_get_task_log C\<rparr>"

definition client_restore_api :: "'w proxmox_client \<Rightarrow> 'w restore_api" where
  "client_restore_api C = \<lparr>ra_get_guests = client_get_guests C, ra_get_nodes = client_get_nodes C,
     ra_submit_guest_restore = (\<lambda>k. client_submit_guest_restore C (workload_kind_value k)),
     ra_get_task_status = client_get_task_status C\<rparr>"

end
