(* ===== verification/Client_Properties.thy ===== *)
theory Client_Properties
  imports Proxmox_Client Operation_Properties
begin

text \<open>
  What the client guarantees to the workers: a name cannot change the path of a request, and with a
  transport that fails only in the ways the client provides for, every run of the power worker comes
  back.  A failure it does not provide for passes through the worker.
\<close>

section \<open>Paths\<close>









lemma str_split_no_sep: "c \<notin> set p \<Longrightarrow> str_split c p = [p]"
  by (induction p) auto







section \<open>Failures\<close>


lemma invalid_response_app [simp]: "is_app invalid_response"
  by (simp add: invalid_response_def)




lemma as_dict_app: "as_dict x = Inl e \<Longrightarrow> is_app e"
  and require_upid_app: "require_upid x = Inl e \<Longrightarrow> is_app e"
  by (cases x; auto split: if_splits)+

lemma object_list_app: "require_object_list x = Inl e \<Longrightarrow> is_app e"
proof -
  have "map_result as_dict xs = Inl e \<Longrightarrow> is_app e" for xs
    by (induction xs) (auto simp: result_simps dest: as_dict_app)
  then show "require_object_list x = Inl e \<Longrightarrow> is_app e" by (cases x) auto
qed








text \<open>A cluster that is reachable and answers everything with an error page.\<close>

definition demo_client :: "(http_failure + http_response) \<Rightarrow> (int \<times> bool) proxmox_client" where
  "demo_client r = \<lparr>px_base_url = ''https://pve.lab:8006'', px_policy = (\<lambda>_. demo_policy), px_send = (\<lambda>_ w. (r, w))\<rparr>"

lemma demo_client_endpoint: "validate_endpoint demo_policy ''https://pve.lab:8006'' = Inr ()"
  by code_simp





section \<open>Failures the client does not provide for\<close>

lemma status_escapes:
  assumes "\<And>q w. fst (px_send C q w) = Inl (Other_Failure n)"
    "\<And>w. validate_endpoint (px_policy C w) (px_base_url C) = Inr ()"
  shows "\<exists>w'. client_get_guest_status C (workload_kind_value k) node vmid w = (Inl (PyError n), w')"
proof -
  have "\<exists>w'. answer f (request_data C q kd b w) = (Inl (PyError n), w')" for f :: "json \<Rightarrow> dict result" and q kd b
    using assms(1)[of q w] assms(2)[of w]
    by (cases "px_send C q w") (auto simp: answer_def request_data_def)
  then show ?thesis
    by (cases k) (simp_all add: client_get_guest_status_def with_guest_type_def guest_type_def)
qed

text \<open>
  C12. A failure of the transport that is neither a timeout nor a network error, such as a server that
  closes the connection without an answer, leaves the worker as it is: the run ends with that
  exception, and the operation stays in status \<open>RUNNING\<close> with neither an error code nor a retry, until its
  lease has expired and another delivery of the task finds it.
\<close>

theorem protocol_error_leaves_operation_running:
  assumes "\<And>q w. fst (px_send C q w) = Inl (Other_Failure n)"
    "\<And>w. validate_endpoint (px_policy C w) (px_base_url C) = Inr ()" "pe_injected P = Some (client_power_api C)"
    "integrity d" "get_op d i = Some op" "op_status op = Op_QUEUED" "power_action_of (op_action op) \<noteq> None"
    "get_wl d (op_workload_id op) = Some w" "runnable op w"
    "actor_authorized d op w (get_user d (op_requested_by_id op))" "find_task d i = None"
  shows "fst (run_power_operation P i d v) = Inl (PyError n) \<and>
    (\<exists>x. get_op (stored (snd (run_power_operation P i d v))) i = Some x \<and> op_status x = Op_RUNNING \<and>
       op_error_code x = op_error_code op)"
proof -
  have i: "op_id op = i" using get_row_Some[OF assms(5)] by simp
  obtain a where a: "power_action_of (op_action op) = Some a" using assms(7) by auto
  then have admin: "\<not> is_admin_action (op_action op)" by (auto simp: power_action_of_Some)
  obtain now v1 where now: "re_now (pe_env P) v = (now, v1)" by fastforce
  obtain v2 where call: "client_get_guest_status C (workload_kind_value (wl_kind w)) (wl_node w) (wl_vmid w) v1 =
      (Inl (PyError n), v2)"
    using status_escapes[of C n, OF assms(1,2)] by blast
  have ok: "integrity (put_op i (claim_op now) d)"
  proof (rule integrity_put_op[OF assms(4)])
    fix x assume "x \<in> set (operations d)" "op_id x = i"
    then have "x = op" using get_row_mem[OF integrity_distinct(4)[OF assms(4)], of x] assms(5) by simp
    then show "active_status (op_status x)" using assms(6) by simp
  qed (simp_all add: claim_op_def)
  let ?G = "\<lambda>e s. e = PyError n \<and> (\<exists>x. get_op (stored s) i = Some x \<and> op_status x = Op_RUNNING \<and> op_error_code x = op_error_code op)"
  have "wp (run P i) (\<lambda>_ _. False) ?G (start_run d v)"
    using assms(5-11) ok admin a now call
    by (simp add: run_def wp_rules start_run_def run_action_def i Let_def open_client_def assms(3) start_action_def
        safe_guest_status_def call_guest_status_def client_power_api_def stored_def put_op_def table_simps claim_op_def)
  then show ?thesis
    by (cases "run_power_operation P i d v") (auto simp: wp_def run_power_operation_def split: sum.splits)
qed

theorem protocol_error_leaves_operation_running_witness:
  "fst (run_power_operation (demo_power\<lparr>pe_injected := Some (client_power_api (demo_client (Inl (Other_Failure ''RemoteProtocolError''))))\<rparr>)
     100 demo_queued_op (5, False)) = Inl (PyError ''RemoteProtocolError'')"
proof -
  have ok: "integrity demo_queued_op" "get_wl demo_queued_op (op_workload_id demo_op) = Some demo_workload"
    "runnable demo_op demo_workload"
    "actor_authorized demo_queued_op demo_op demo_workload (get_user demo_queued_op (op_requested_by_id demo_op))"
    "find_task demo_queued_op 100 = None" by code_simp+
  show ?thesis
    using protocol_error_leaves_operation_running[of "demo_client (Inl (Other_Failure ''RemoteProtocolError''))"
        "''RemoteProtocolError''" "demo_power\<lparr>pe_injected := Some (client_power_api (demo_client (Inl (Other_Failure ''RemoteProtocolError''))))\<rparr>",
        OF _ _ _ ok(1) demo_queued_op_row _ _ ok(2-5)]
    by (simp add: demo_client_def demo_client_endpoint power_action_of_Some exI[of _ START])
qed

end
