(* ===== verification/Clusters.thy ===== *)
theory Clusters
  imports Proxmox_Client Secrets
begin

text \<open>
  \<open>ClusterService\<close> of src/backend/app/services/clusters.py with the requests and answers of
  src/backend/app/schemas/cluster.py: the registration of Proxmox clusters with their encrypted API
  tokens, and the import of their guests.  The handlers let go of their transaction while they wait
  for Proxmox; what other transactions commit meanwhile is the function \<open>ce_others\<close>.
\<close>

section \<open>schemas/cluster.py\<close>

text \<open>A URL as pydantic's \<open>AnyHttpUrl\<close> has parsed it; \<open>hu_text\<close> is \<open>str(url)\<close>.\<close>

record http_url =
  hu_scheme :: string
  hu_username :: "string option"
  hu_password :: "string option"
  hu_query :: "string option"
  hu_fragment :: "string option"
  hu_text :: string

record cluster_create =
  cq_name :: string
  cq_api_base_url :: http_url
  cq_token_identifier :: string
  cq_token_secret :: string
  cq_ca_bundle_pem :: "string option"

record cluster_update =
  cu_name :: "string option"
  cu_api_base_url :: "http_url option"
  cu_token_identifier :: "string option"
  cu_token_secret :: "string option"
  cu_ca_bundle_pem :: "string option"
  cu_clear_ca_bundle :: bool
  cu_version :: "int option"

definition truthy :: "string option \<Rightarrow> bool" where
  "truthy s \<longleftrightarrow> s \<notin> {None, Some []}"

definition require_https :: "http_url \<Rightarrow> bool" where
  "require_https u \<longleftrightarrow> hu_scheme u = ''https'' \<and> \<not> truthy (hu_username u) \<and> \<not> truthy (hu_password u) \<and>
     \<not> truthy (hu_query u) \<and> \<not> truthy (hu_fragment u)"

text \<open>
  \<open>^[^\s=]+@[^\s=!]+![^\s=]+$\<close>: some \<open>@\<close> after at least one character is followed by a realm without
  \<open>!\<close>, a \<open>!\<close> and at least one more character.
\<close>

definition token_char :: "char \<Rightarrow> bool" where
  "token_char c \<longleftrightarrow> c \<noteq> CHR ''='' \<and> (of_char c :: nat) \<notin> {9, 10, 11, 12, 13, 32}"

definition realm_and_name :: "string \<Rightarrow> bool" where
  "realm_and_name t = (case partition_str (CHR ''!'') t of (realm, found, nm) \<Rightarrow> realm \<noteq> [] \<and> found \<and> nm \<noteq> [])"

definition token_identifier_ok :: "string \<Rightarrow> bool" where
  "token_identifier_ok s \<longleftrightarrow> 3 \<le> length s \<and> length s \<le> 255 \<and> list_all token_char s \<and>
     list_ex (\<lambda>k. s ! k = CHR ''@'' \<and> realm_and_name (drop (Suc k) s)) [1..<length s]"

definition cluster_create_valid :: "cluster_create \<Rightarrow> bool" where
  "cluster_create_valid q \<longleftrightarrow> cq_name q \<noteq> [] \<and> length (cq_name q) \<le> 100 \<and> require_https (cq_api_base_url q) \<and>
     token_identifier_ok (cq_token_identifier q) \<and>
     cq_token_secret q \<noteq> [] \<and> length (cq_token_secret q) \<le> 1024 \<and>
     pred_option (\<lambda>p. length p \<le> 262144) (cq_ca_bundle_pem q)"

definition cluster_update_valid :: "cluster_update \<Rightarrow> bool" where
  "cluster_update_valid q \<longleftrightarrow> pred_option (\<lambda>n. n \<noteq> [] \<and> length n \<le> 100) (cu_name q) \<and>
     pred_option require_https (cu_api_base_url q) \<and> pred_option token_identifier_ok (cu_token_identifier q) \<and>
     pred_option (\<lambda>s. s \<noteq> [] \<and> length s \<le> 1024) (cu_token_secret q) \<and>
     pred_option (\<lambda>p. length p \<le> 262144) (cu_ca_bundle_pem q) \<and> pred_option (\<lambda>v. 1 \<le> v) (cu_version q)"

record credential_summary =
  csu_token_identifier :: string
  csu_configured :: bool
  csu_last_used_at :: "datetime option"

text \<open>\<open>created_at\<close> and \<open>updated_at\<close>, filled by the database, are left out.\<close>

record cluster_response =
  clr_id :: uuid
  clr_name :: string
  clr_api_base_url :: string
  clr_is_active :: bool
  clr_ca_configured :: bool
  clr_last_connection_error_code :: "string option"
  clr_last_connected_at :: "datetime option"
  clr_credential :: credential_summary
  clr_version :: int

record removal_check_response =
  rcr_cluster_id :: uuid
  rcr_can_remove :: bool
  rcr_blocks :: "(string \<times> int) list"

record connection_test_response =
  ctr_reachable :: bool
  ctr_tls_valid :: bool
  ctr_authenticated :: bool
  ctr_version :: "string option"
  ctr_release :: "string option"
  ctr_capabilities :: "(string \<times> bool) list"

text \<open>Floats by their \<open>repr\<close>; the template flag, an \<open>int\<close> or a \<open>bool\<close>, as the integer it equals.\<close>

record node_response =
  nr_node :: string
  nr_status :: "string option"
  nr_cpu :: "string option"
  nr_maxcpu :: "int option"
  nr_mem :: "int option"
  nr_maxmem :: "int option"
  nr_disk :: "int option"
  nr_maxdisk :: "int option"
  nr_uptime :: "int option"

record guest_response =
  gu_vmid :: int
  gu_node :: "string option"
  gu_type :: string
  gu_name :: "string option"
  gu_status :: "string option"
  gu_cpu :: "string option"
  gu_maxcpu :: "int option"
  gu_mem :: "int option"
  gu_maxmem :: "int option"
  gu_disk :: "int option"
  gu_maxdisk :: "int option"
  gu_uptime :: "int option"
  gu_template :: "int option"

record storage_response =
  so_storage :: string
  so_node :: "string option"
  so_type :: "string option"
  so_status :: "string option"
  so_total :: "int option"
  so_used :: "int option"
  so_avail :: "int option"
  so_shared :: "int option"
  so_content :: "string option"

text \<open>\<open>StorageResponse.normalize_cluster_resource_capacity\<close>, before pydantic reads the fields.\<close>

definition fill_from :: "string \<Rightarrow> string \<Rightarrow> dict \<Rightarrow> dict" where
  "fill_from key other d =
     (if dict_get d key = JNull \<and> dict_get d other \<noteq> JNull then dict_merge d [(key, dict_get d other)] else d)"

definition normalize_capacity :: "dict \<Rightarrow> dict" where
  "normalize_capacity d =
     (let d2 = fill_from ''used'' ''disk'' (fill_from ''total'' ''maxdisk'' d) in
      case (dict_get d2 ''avail'', as_int (dict_get d2 ''total''), as_int (dict_get d2 ''used'')) of
        (JNull, Some tot, Some usd) \<Rightarrow> dict_merge d2 [(''avail'', JInt (max 0 (tot - usd)))]
      | _ \<Rightarrow> d2)"

section \<open>The service\<close>

record cluster_connection =
  conn_cluster_id :: uuid
  conn_credential_id :: uuid
  conn_api_base_url :: string
  conn_ca_bundle_pem :: "string option"
  conn_token_identifier :: string
  conn_token_secret :: string

text \<open>
  The clock and \<open>uuid4\<close>; the cipher with its key and \<open>os.urandom\<close>; \<open>ProxmoxClient(...)\<close>, whose
  constructor may refuse a CA bundle; pydantic's \<open>model_validate\<close>, \<open>None\<close> for a \<open>ValidationError\<close>; the
  column \<open>created_at\<close> of the credentials; and what others commit during a wait.
\<close>

record 'w cluster_env =
  ce_env :: "'w runner_env"
  ce_aead :: aead
  ce_key :: string
  ce_nonce :: "'w \<Rightarrow> bytes \<times> 'w"
  ce_connect :: "cluster_connection \<Rightarrow> app_error + 'w proxmox_client"
  ce_node :: "dict \<Rightarrow> node_response option"
  ce_guest :: "dict \<Rightarrow> guest_response option"
  ce_storage :: "dict \<Rightarrow> storage_response option"
  ce_created_at :: "cluster_credential \<Rightarrow> datetime"
  ce_others :: "'w \<Rightarrow> db \<Rightarrow> db \<times> 'w"

definition cluster_init :: "service \<Rightarrow> unit result" where
  "cluster_init sv = require_service_role (sv_principal sv) [SUPER_ADMIN, OPERATOR]"

definition nonceM :: "'w cluster_env \<Rightarrow> ('w, bytes) rm" where
  "nonceM E s = (case ce_nonce E (rs_world s) of (n, w) \<Rightarrow> (Inr n, s\<lparr>rs_world := w\<rparr>))"

text \<open>No transaction is open during \<open>m\<close>; the session reads afresh afterwards.\<close>

definition elsewhere :: "'w cluster_env \<Rightarrow> 'w rs \<Rightarrow> 'w rs" where
  "elsewhere E s = (case ce_others E (rs_world s) (stored s) of (d, w) \<Rightarrow>
     s\<lparr>rs_db := d, rs_commits := d # rs_commits s, rs_world := w\<rparr>)"

definition away :: "'w cluster_env \<Rightarrow> ('w, 'a) rm \<Rightarrow> ('w, 'a) rm" where
  "away E m s = (case m s of (r, s1) \<Rightarrow> (r, elsewhere E s1))"

definition auditM :: "'w runner_env \<Rightarrow> service \<Rightarrow> audit_event \<Rightarrow> ('w, unit) rm" where
  "auditM V sv ev = bindM (nowM V) (\<lambda>t. writeM (add_audit_event ((sv_ctx sv)\<lparr>ac_now := t\<rparr>) ev))"

definition cluster_event :: "service \<Rightarrow> string \<Rightarrow> string \<Rightarrow> uuid \<Rightarrow> audit_event" where
  "cluster_event sv act oc i = (audit_event act oc None)
     \<lparr>ev_actor_user_id := Some (prin_user_id (sv_principal sv)), ev_actor_role := Some (prin_role (sv_principal sv)),
      ev_target_type := Some ''cluster'', ev_target_id := Some (uuid_str i)\<rparr>"

definition commit_or :: "exn \<Rightarrow> ('w, unit) rm" where
  "commit_or e s = (case commitM s of (Inl _, s1) \<Rightarrow> (Inl e, s1) | r \<Rightarrow> r)"

definition commit_or_conflict :: "('w, unit) rm" where
  "commit_or_conflict = commit_or (App (app_error 409 ''CLUSTER_CONFLICT''
     ''A cluster with the same name or endpoint already exists.''))"

text \<open>\<open>str(url).rstrip("/")\<close>\<close>

definition normalize_url :: "http_url \<Rightarrow> string" where
  "normalize_url u = rev (dropWhile (\<lambda>c. c = CHR ''/'') (rev (hu_text u)))"

definition get_cluster :: "uuid \<Rightarrow> db \<Rightarrow> cluster result" where
  "get_cluster i d = (case get_row cl_id (clusters d) i of
     None \<Rightarrow> raise_app 404 ''CLUSTER_NOT_FOUND'' ''The Proxmox cluster was not found.'' | Some c \<Rightarrow> Inr c)"

definition the_credential :: "uuid \<Rightarrow> db \<Rightarrow> cluster_credential result" where
  "the_credential i d = (case active_credential d i of
     None \<Rightarrow> raise_app 409 ''CLUSTER_CREDENTIAL_MISSING'' ''The Proxmox cluster has no active credential.''
   | Some cr \<Rightarrow> Inr cr)"

definition readR :: "(db \<Rightarrow> 'a result) \<Rightarrow> ('w, 'a) rm" where
  "readR f = bindM (readM f) liftM"

definition first_latest :: "('a \<Rightarrow> datetime) \<Rightarrow> 'a list \<Rightarrow> 'a option" where
  "first_latest key xs = fold (\<lambda>x best. case best of None \<Rightarrow> Some x
     | Some b \<Rightarrow> if key b < key x then Some x else Some b) xs None"

definition display_credential :: "'w cluster_env \<Rightarrow> uuid \<Rightarrow> db \<Rightarrow> cluster_credential result" where
  "display_credential E i d = (case active_credential d i of
     Some cr \<Rightarrow> Inr cr
   | None \<Rightarrow> (case first_latest (ce_created_at E) (filter (\<lambda>cr. cred_cluster_id cr = i) (credentials d)) of
       Some cr \<Rightarrow> Inr cr
     | None \<Rightarrow> raise_app 409 ''CLUSTER_CREDENTIAL_MISSING'' ''The Proxmox cluster has no credential metadata.''))"

definition cluster_response_of :: "cluster \<Rightarrow> cluster_credential \<Rightarrow> cluster_response" where
  "cluster_response_of c cr = \<lparr>clr_id = cl_id c, clr_name = cl_name c, clr_api_base_url = cl_api_base_url c,
     clr_is_active = cl_is_active c, clr_ca_configured = (cl_ca_bundle_pem c \<noteq> None),
     clr_last_connection_error_code = cl_last_connection_error_code c,
     clr_last_connected_at = cl_last_connected_at c,
     clr_credential = \<lparr>csu_token_identifier = cred_token_identifier cr, csu_configured = True,
       csu_last_used_at = cred_last_used_at cr\<rparr>,
     clr_version = cl_version c\<rparr>"

definition cluster_decrypt :: "'w cluster_env \<Rightarrow> uuid \<Rightarrow> cluster_credential \<Rightarrow> string result" where
  "cluster_decrypt E i cr = (case credential_decrypt (ce_aead E) (ce_key E)
       \<lparr>enc_ciphertext = cred_secret_ciphertext cr, enc_nonce = cred_secret_nonce cr,
        enc_key_version = cred_key_version cr\<rparr> i (cred_id cr) of
     None \<Rightarrow> Inl (App decryption_failed) | Some s \<Rightarrow> Inr s)"

definition put_cluster :: "uuid \<Rightarrow> (cluster \<Rightarrow> cluster) \<Rightarrow> db \<Rightarrow> db" where
  "put_cluster i f d = d\<lparr>clusters := modify_row cl_id i f (clusters d)\<rparr>"

definition put_credential :: "uuid \<Rightarrow> (cluster_credential \<Rightarrow> cluster_credential) \<Rightarrow> db \<Rightarrow> db" where
  "put_credential i f d = d\<lparr>credentials := modify_row cred_id i f (credentials d)\<rparr>"

section \<open>Calls to Proxmox\<close>

definition connection_args :: "cluster_connection \<Rightarrow> json list" where
  "connection_args k = [JStr (conn_api_base_url k), json_opt JStr (conn_ca_bundle_pem k),
     JStr (conn_token_identifier k), JStr (conn_token_secret k)]"

definition call_client ::
    "'w cluster_env \<Rightarrow> cluster_connection \<Rightarrow> string \<Rightarrow> ('w proxmox_client \<Rightarrow> 'w \<Rightarrow> 'a result \<times> 'w) \<Rightarrow> ('w, 'a) rm" where
  "call_client E k name f = away E (case ce_connect E k of
     Inl e \<Rightarrow> raiseM (App e) | Inr C \<Rightarrow> callM name (connection_args k) (f C))"

definition probe :: "'w cluster_env \<Rightarrow> cluster_connection \<Rightarrow> ('w, dict) rm" where
  "probe E k = call_client E k ''test_connection'' client_test_connection"

definition snapshot_of :: "'w cluster_env \<Rightarrow> uuid \<Rightarrow> db \<Rightarrow> cluster_connection result" where
  "snapshot_of E i d =
     bind_result (get_cluster i d) (\<lambda>c.
     if \<not> cl_is_active c then raise_app 409 ''CLUSTER_DISABLED'' ''The Proxmox cluster is disabled.''
     else bind_result (the_credential i d) (\<lambda>cr.
     bind_result (cluster_decrypt E i cr) (\<lambda>s.
     Inr \<lparr>conn_cluster_id = i, conn_credential_id = cred_id cr, conn_api_base_url = cl_api_base_url c,
          conn_ca_bundle_pem = cl_ca_bundle_pem c, conn_token_identifier = cred_token_identifier cr,
          conn_token_secret = s\<rparr>)))"

definition connection_snapshot :: "'w cluster_env \<Rightarrow> uuid \<Rightarrow> ('w, cluster_connection) rm" where
  "connection_snapshot E i = bindM (readR (snapshot_of E i)) (\<lambda>k. thenM rollbackM (returnM k))"

definition record_connection_result :: "'w cluster_env \<Rightarrow> uuid \<Rightarrow> string option \<Rightarrow> ('w, unit) rm" where
  "record_connection_result E i error_code =
     bindM (readR (get_cluster i)) (\<lambda>c.
     thenM (writeM (put_cluster i (\<lambda>x. x\<lparr>cl_last_connection_error_code := error_code\<rparr>)))
     (thenM
       (if error_code = None then
          bindM (nowM (ce_env E)) (\<lambda>now.
          thenM (writeM (put_cluster i (\<lambda>x. x\<lparr>cl_last_connected_at := Some now\<rparr>)))
          (bindM (nowM (ce_env E)) (\<lambda>used.
           bindM (readR (the_credential i)) (\<lambda>cr.
           writeM (put_credential (cred_id cr) (\<lambda>x. x\<lparr>cred_last_used_at := Some used\<rparr>))))))
        else returnM ())
       commitM))"

definition call_resource ::
    "'w cluster_env \<Rightarrow> uuid \<Rightarrow> string \<Rightarrow> ('w proxmox_client \<Rightarrow> 'w \<Rightarrow> dict list result \<times> 'w) \<Rightarrow> ('w, dict list) rm" where
  "call_resource E i name f =
     bindM (connection_snapshot E i) (\<lambda>k.
     bindM (catch_app (call_client E k name f)
              (\<lambda>e. thenM (record_connection_result E i (Some (code e))) (raiseM (App e)))) (\<lambda>xs.
     thenM (record_connection_result E i None) (returnM xs)))"

definition validate_items :: "(dict \<Rightarrow> 'a option) \<Rightarrow> dict list \<Rightarrow> 'a list result" where
  "validate_items f xs = (if list_all (\<lambda>x. f x \<noteq> None) xs then Inr (List.map_filter f xs)
     else raise_app 502 ''PVE_INVALID_RESPONSE'' ''The Proxmox API returned an invalid resource item.'')"

section \<open>Registration\<close>

definition new_cluster :: "cluster_create \<Rightarrow> cluster_connection \<Rightarrow> datetime \<Rightarrow> cluster" where
  "new_cluster q k now = \<lparr>cl_id = conn_cluster_id k, cl_name = str_strip (cq_name q),
     cl_api_base_url = conn_api_base_url k, cl_ca_bundle_pem = cq_ca_bundle_pem q, cl_is_active = True,
     cl_last_connection_error_code = None, cl_last_connected_at = Some now, cl_disabled_at = None,
     cl_version = 1\<rparr>"

definition new_credential :: "uuid \<Rightarrow> uuid \<Rightarrow> string \<Rightarrow> encrypted \<Rightarrow> datetime \<Rightarrow> cluster_credential" where
  "new_credential k i ident x now = \<lparr>cred_id = k, cred_cluster_id = i, cred_token_identifier = ident,
     cred_secret_ciphertext = enc_ciphertext x, cred_secret_nonce = enc_nonce x,
     cred_key_version = enc_key_version x, cred_is_active = True, cred_last_used_at = Some now,
     cred_retired_at = None\<rparr>"

definition create_connection :: "cluster_create \<Rightarrow> uuid \<Rightarrow> uuid \<Rightarrow> cluster_connection" where
  "create_connection q i k = \<lparr>conn_cluster_id = i, conn_credential_id = k,
     conn_api_base_url = normalize_url (cq_api_base_url q), conn_ca_bundle_pem = cq_ca_bundle_pem q,
     conn_token_identifier = cq_token_identifier q, conn_token_secret = cq_token_secret q\<rparr>"

definition cluster_facts :: "cluster \<Rightarrow> cluster_credential \<Rightarrow> dict" where
  "cluster_facts c cr = [(''name'', JStr (cl_name c)), (''api_base_url'', JStr (cl_api_base_url c)),
     (''ca_configured'', JBool (cl_ca_bundle_pem c \<noteq> None)),
     (''token_identifier'', JStr (cred_token_identifier cr))]"

definition create_cluster :: "'w cluster_env \<Rightarrow> service \<Rightarrow> cluster_create \<Rightarrow> ('w, cluster_response) rm" where
  "create_cluster E sv q =
     thenM (liftM (cluster_init sv))
     (bindM (uuid4M (ce_env E)) (\<lambda>i.
      bindM (uuid4M (ce_env E)) (\<lambda>k.
      bindM (probe E (create_connection q i k)) (\<lambda>_.
      bindM (nonceM E) (\<lambda>n.
      bindM (nowM (ce_env E)) (\<lambda>now.
      let c = new_cluster q (create_connection q i k) now;
          cr = new_credential k i (cq_token_identifier q)
                 (credential_encrypt (ce_aead E) (ce_key E) n (cq_token_secret q) i k) now
      in thenM (writeM (\<lambda>d. d\<lparr>clusters := clusters d @ [c], credentials := credentials d @ [cr]\<rparr>))
         (thenM (auditM (ce_env E) sv ((cluster_event sv ''CLUSTER_CREATED'' ''SUCCEEDED'' i)\<lparr>ev_after := Some (cluster_facts c cr)\<rparr>))
         (thenM commit_or_conflict
         (returnM (cluster_response_of c cr))))))))))"

definition get_cluster_response :: "'w cluster_env \<Rightarrow> service \<Rightarrow> uuid \<Rightarrow> db \<Rightarrow> cluster_response result" where
  "get_cluster_response E sv i d =
     bind_result (cluster_init sv) (\<lambda>_. bind_result (get_cluster i d) (\<lambda>c.
     bind_result (display_credential E i d) (\<lambda>cr. Inr (cluster_response_of c cr))))"

section \<open>Changes\<close>

text \<open>\<open>request.token_identifier or credential.token_identifier\<close>, and what the request makes of the rest.\<close>

definition updated_connection :: "cluster_update \<Rightarrow> cluster \<Rightarrow> cluster_credential \<Rightarrow> string \<Rightarrow> cluster_connection" where
  "updated_connection q c cr secret = \<lparr>conn_cluster_id = cl_id c, conn_credential_id = cred_id cr,
     conn_api_base_url = (case cu_api_base_url q of Some u \<Rightarrow> normalize_url u | None \<Rightarrow> cl_api_base_url c),
     conn_ca_bundle_pem = (if cu_clear_ca_bundle q then None
       else case cu_ca_bundle_pem q of Some p \<Rightarrow> Some p | None \<Rightarrow> cl_ca_bundle_pem c),
     conn_token_identifier = (case cu_token_identifier q of
         Some (x # xs) \<Rightarrow> x # xs | _ \<Rightarrow> cred_token_identifier cr),
     conn_token_secret = secret\<rparr>"

definition identity_changed :: "cluster_connection \<Rightarrow> cluster \<Rightarrow> cluster_credential \<Rightarrow> bool" where
  "identity_changed k c cr \<longleftrightarrow> conn_api_base_url k \<noteq> cl_api_base_url c \<or>
     conn_ca_bundle_pem k \<noteq> cl_ca_bundle_pem c \<or> conn_token_identifier k \<noteq> cred_token_identifier cr"

definition connection_changed :: "cluster_update \<Rightarrow> bool" where
  "connection_changed q \<longleftrightarrow> cu_api_base_url q \<noteq> None \<or> cu_ca_bundle_pem q \<noteq> None \<or> cu_clear_ca_bundle q \<or>
     cu_token_identifier q \<noteq> None \<or> cu_token_secret q \<noteq> None"

definition token_changed :: "cluster_update \<Rightarrow> bool" where
  "token_changed q \<longleftrightarrow> cu_token_identifier q \<noteq> None \<or> cu_token_secret q \<noteq> None"

definition updated_cluster :: "cluster_update \<Rightarrow> cluster_connection \<Rightarrow> cluster \<Rightarrow> cluster" where
  "updated_cluster q k c = c\<lparr>cl_name := (case cu_name q of Some n \<Rightarrow> str_strip n | None \<Rightarrow> cl_name c),
     cl_api_base_url := conn_api_base_url k, cl_ca_bundle_pem := conn_ca_bundle_pem k,
     cl_version := cl_version c + 1\<rparr>"

definition mark_connected :: "datetime \<Rightarrow> cluster \<Rightarrow> cluster" where
  "mark_connected now c = c\<lparr>cl_last_connected_at := Some now, cl_last_connection_error_code := None\<rparr>"

definition retire :: "datetime \<Rightarrow> cluster_credential \<Rightarrow> cluster_credential" where
  "retire now cr = cr\<lparr>cred_is_active := False, cred_retired_at := Some now\<rparr>"

definition update_facts :: "cluster \<Rightarrow> cluster_credential \<Rightarrow> dict" where
  "update_facts c cr = cluster_facts c cr @ [(''is_active'', JBool (cl_is_active c))]"

text \<open>The changes of the session after the probe; \<open>k\<close> is what was probed.\<close>

definition replace_credential ::
    "'w cluster_env \<Rightarrow> uuid \<Rightarrow> cluster_connection \<Rightarrow> cluster_credential \<Rightarrow> datetime \<Rightarrow> ('w, cluster_credential) rm" where
  "replace_credential E i k cr now =
     thenM (writeM (put_credential (cred_id cr) (retire now)))
     (bindM (uuid4M (ce_env E)) (\<lambda>j.
      bindM (nonceM E) (\<lambda>n.
      let new = new_credential j i (conn_token_identifier k)
                  (credential_encrypt (ce_aead E) (ce_key E) n (conn_token_secret k) i j) now
      in thenM (writeM (\<lambda>d. d\<lparr>credentials := credentials d @ [new]\<rparr>)) (returnM new))))"

definition apply_update ::
    "'w cluster_env \<Rightarrow> uuid \<Rightarrow> cluster_update \<Rightarrow> cluster_connection \<Rightarrow> cluster \<Rightarrow> cluster_credential \<Rightarrow>
     ('w, cluster \<times> cluster_credential) rm" where
  "apply_update E i q k c cr =
     thenM (writeM (put_cluster i (updated_cluster q k)))
     (if \<not> connection_changed q then returnM (updated_cluster q k c, cr)
      else bindM (nowM (ce_env E)) (\<lambda>now.
        let c1 = mark_connected now (updated_cluster q k c); cr1 = cr\<lparr>cred_last_used_at := Some now\<rparr> in
        thenM (writeM (put_cluster i (mark_connected now)))
        (thenM (writeM (put_credential (cred_id cr) (\<lambda>x. x\<lparr>cred_last_used_at := Some now\<rparr>)))
        (if token_changed q then bindM (replace_credential E i k cr now) (\<lambda>new. returnM (c1, new))
         else returnM (c1, cr1)))))"

definition probed_rows ::
    "'w cluster_env \<Rightarrow> uuid \<Rightarrow> cluster_update \<Rightarrow> cluster_connection \<Rightarrow> cluster \<Rightarrow> cluster_credential \<Rightarrow>
     ('w, cluster \<times> cluster_credential) rm" where
  "probed_rows E i q k c cr =
     (if \<not> connection_changed q then returnM (c, cr)
      else thenM rollbackM
        (bindM (probe E k) (\<lambda>_.
         bindM (readR (get_cluster i)) (\<lambda>c2.
         bindM (readR (the_credential i)) (\<lambda>cr2. returnM (c2, cr2))))))"

definition update_cluster ::
    "'w cluster_env \<Rightarrow> service \<Rightarrow> uuid \<Rightarrow> cluster_update \<Rightarrow> ('w, cluster_response) rm" where
  "update_cluster E sv i q =
     thenM (liftM (cluster_init sv))
     (bindM (readR (get_cluster i)) (\<lambda>c.
      bindM (readR (the_credential i)) (\<lambda>cr.
      if cu_version q \<noteq> None \<and> cu_version q \<noteq> Some (cl_version c)
      then raiseM (App (app_error 409 ''CLUSTER_VERSION_CONFLICT'' ''The cluster was modified by another request.''))
      else if identity_changed (updated_connection q c cr []) c cr \<and> cu_token_secret q = None
      then raiseM (App (app_error 422 ''PVE_CREDENTIAL_REENTRY_REQUIRED''
             ''The Proxmox token secret must be re-entered when connection details change.''))
      else bindM (case cu_token_secret q of Some s \<Rightarrow> returnM s | None \<Rightarrow> liftM (cluster_decrypt E i cr)) (\<lambda>secret.
        let k = updated_connection q c cr secret in
        bindM (probed_rows E i q k c cr) (\<lambda>(c2, cr2).
        bindM (apply_update E i q k c2 cr2) (\<lambda>(c3, cr3).
        thenM (auditM (ce_env E) sv ((cluster_event sv
                  (if token_changed q then ''CLUSTER_API_TOKEN_CHANGED'' else ''CLUSTER_UPDATED'') ''SUCCEEDED'' i)
                \<lparr>ev_before := Some (update_facts c cr), ev_after := Some (update_facts c3 cr3)\<rparr>))
        (thenM commit_or_conflict
        (returnM (cluster_response_of c3 cr3)))))))))"

section \<open>Removal\<close>

text \<open>The six counts that keep a cluster, those above zero in this order.\<close>

definition removal_counts :: "uuid \<Rightarrow> db \<Rightarrow> (string \<times> int) list" where
  "removal_counts i d =
     [(''ASSIGNED_WORKLOADS'', int (length (filter (\<lambda>w. wl_cluster_id w = i \<and> wl_organization_id w \<noteq> None) (workloads d)))),
      (''ACTIVE_OPERATIONS'', int (length (filter (\<lambda>x. op_cluster_id x = i \<and> op_status x \<in> {Op_QUEUED, Op_RUNNING}) (operations d)))),
      (''ACTIVE_PROVISIONING_REQUESTS'', int (length (filter (\<lambda>r. req_target_cluster_id r = i \<and>
          req_status r \<in> {Prov_QUEUED, Prov_RUNNING, Prov_MANUAL_REVIEW}) (requests d)))),
      (''PROVISIONING_NODES'', int (length (filter (\<lambda>n. node_cluster_id n = i) (nodes d)))),
      (''TEMPLATES'', int (length (concat (map (\<lambda>t. filter (\<lambda>w. tmpl_source_workload_id t = wl_id w \<and> wl_cluster_id w = i)
          (workloads d)) (templates d))))),
      (''CLUSTER_IP_POOLS'', int (length (filter (\<lambda>p. pool_cluster_id p = Some i) (ip_pools d))))]"

definition removal_blocks :: "uuid \<Rightarrow> db \<Rightarrow> (string \<times> int) list" where
  "removal_blocks i d = filter (\<lambda>(_, n). 0 < n) (removal_counts i d)"

definition removal_check :: "service \<Rightarrow> uuid \<Rightarrow> db \<Rightarrow> removal_check_response result" where
  "removal_check sv i d =
     bind_result (cluster_init sv) (\<lambda>_. bind_result (get_cluster i d) (\<lambda>_.
     Inr \<lparr>rcr_cluster_id = i, rcr_can_remove = (removal_blocks i d = []), rcr_blocks = removal_blocks i d\<rparr>))"

definition block_json :: "string \<times> int \<Rightarrow> json" where
  "block_json b = JObj [(''code'', JStr (fst b)), (''count'', JInt (snd b))]"

definition tombstone :: "datetime \<Rightarrow> cluster \<Rightarrow> cluster" where
  "tombstone now c = c\<lparr>cl_is_active := False, cl_disabled_at := Some now, cl_version := cl_version c + 1\<rparr>"

definition absent :: "uuid \<Rightarrow> datetime \<Rightarrow> workload \<Rightarrow> workload" where
  "absent i now w = (if wl_cluster_id w = i \<and> wl_is_present w
     then w\<lparr>wl_is_present := False, wl_observed_at := now, wl_version := wl_version w + 1\<rparr> else w)"

definition delete_cluster :: "'w cluster_env \<Rightarrow> service \<Rightarrow> uuid \<Rightarrow> ('w, unit) rm" where
  "delete_cluster E sv i =
     thenM (liftM (cluster_init sv))
     (bindM (readR (get_cluster i)) (\<lambda>c.
      if \<not> cl_is_active c then returnM ()
      else bindM (readM (removal_blocks i)) (\<lambda>blocks.
      if blocks \<noteq> []
      then raiseM (App (AppError 409 ''CLUSTER_REMOVAL_BLOCKED'' ''The cluster still has dependent resources.''
             [(''blocks'', JList (map block_json blocks))]))
      else bindM (nowM (ce_env E)) (\<lambda>now.
        thenM (writeM (put_cluster i (tombstone now)))
        (bindM (readR (the_credential i)) (\<lambda>cr.
         thenM (writeM (put_credential (cred_id cr) (retire now)))
         (thenM (writeM (\<lambda>d. d\<lparr>workloads := map (absent i now) (workloads d)\<rparr>))
         (thenM (auditM (ce_env E) sv ((cluster_event sv ''CLUSTER_DISABLED'' ''SUCCEEDED'' i)
                   \<lparr>ev_before := Some [(''is_active'', JBool True)], ev_after := Some [(''is_active'', JBool False)]\<rparr>))
         commitM))))))))"

section \<open>Connection test\<close>

fun optional_string :: "json \<Rightarrow> string option" where
  "optional_string (JStr s) = Some s"
| "optional_string _ = None"

fun bool_of :: "json \<Rightarrow> bool option" where
  "bool_of (JBool b) = Some b"
| "bool_of _ = None"

fun capabilities :: "json \<Rightarrow> (string \<times> bool) list result" where
  "capabilities (JObj d) =
     (if list_all (\<lambda>(k, v). bool_of v \<noteq> None) d then Inr (List.map_filter (\<lambda>(k, v). map_option (Pair k) (bool_of v)) d)
      else raise_app 502 ''PVE_INVALID_RESPONSE'' ''The Proxmox API returned invalid capability information.'')"
| "capabilities _ = raise_app 502 ''PVE_INVALID_RESPONSE'' ''The Proxmox API returned invalid capability information.''"

definition test_response :: "dict \<Rightarrow> connection_test_response result" where
  "test_response r = bind_result (capabilities (dict_get r ''capabilities'')) (\<lambda>cs. Inr
     \<lparr>ctr_reachable = True, ctr_tls_valid = True, ctr_authenticated = True,
      ctr_version = optional_string (dict_get r ''version''), ctr_release = optional_string (dict_get r ''release''),
      ctr_capabilities = cs\<rparr>)"

definition test_cluster_connection :: "'w cluster_env \<Rightarrow> service \<Rightarrow> uuid \<Rightarrow> ('w, connection_test_response) rm" where
  "test_cluster_connection E sv i =
     thenM (liftM (cluster_init sv))
     (bindM (connection_snapshot E i) (\<lambda>k.
      bindM (catch_app (probe E k) (\<lambda>e.
          thenM (record_connection_result E i (Some (code e)))
          (thenM (auditM (ce_env E) sv ((cluster_event sv ''CLUSTER_CONNECTION_TEST'' ''FAILED'' i)\<lparr>ev_error_code := Some (code e)\<rparr>))
          (thenM commitM (raiseM (App e)))))) (\<lambda>r.
      thenM (record_connection_result E i None)
      (thenM (auditM (ce_env E) sv (cluster_event sv ''CLUSTER_CONNECTION_TEST'' ''SUCCEEDED'' i))
      (thenM commitM
      (liftM (test_response r)))))))"

section \<open>Inventory\<close>

definition cluster_nodes :: "'w cluster_env \<Rightarrow> service \<Rightarrow> uuid \<Rightarrow> ('w, node_response list) rm" where
  "cluster_nodes E sv i = thenM (liftM (cluster_init sv))
     (bindM (call_resource E i ''get_nodes'' client_get_nodes) (\<lambda>xs. liftM (validate_items (ce_node E) xs)))"

definition cluster_guests :: "'w cluster_env \<Rightarrow> service \<Rightarrow> uuid \<Rightarrow> ('w, guest_response list) rm" where
  "cluster_guests E sv i = thenM (liftM (cluster_init sv))
     (bindM (call_resource E i ''get_guests'' client_get_guests) (\<lambda>xs. liftM (validate_items (ce_guest E) xs)))"

definition cluster_storages :: "'w cluster_env \<Rightarrow> service \<Rightarrow> uuid \<Rightarrow> ('w, storage_response list) rm" where
  "cluster_storages E sv i = thenM (liftM (cluster_init sv))
     (bindM (call_resource E i ''get_storages'' client_get_storages)
        (\<lambda>xs. liftM (validate_items (\<lambda>x. ce_storage E (normalize_capacity x)) xs)))"

definition guest_kind :: "guest_response \<Rightarrow> workload_kind option" where
  "guest_kind g = (let k = str_upper (gu_type g) in
     if k = ''QEMU'' then Some QEMU else if k = ''LXC'' then Some LXC else None)"

text \<open>The refused guests, with the VMIDs seen before.\<close>

definition guest_bad :: "int list \<Rightarrow> guest_response \<Rightarrow> bool" where
  "guest_bad seen g \<longleftrightarrow> gu_vmid g \<le> 0 \<or> gu_vmid g \<in> set seen \<or> guest_kind g = None \<or>
     (case gu_node g of None \<Rightarrow> True | Some n \<Rightarrow> str_strip n = [] \<or> 255 < length n) \<or>
     (case gu_name g of None \<Rightarrow> False | Some n \<Rightarrow> 255 < length n)"

definition guest_power_state :: "guest_response \<Rightarrow> string" where
  "guest_power_state g =
     (let st = (case gu_status g of Some (x # xs) \<Rightarrow> str_upper (x # xs) | _ \<Rightarrow> ''UNKNOWN'')
      in if 20 < length st then ''UNKNOWN'' else st)"

definition observe :: "datetime \<Rightarrow> guest_response \<Rightarrow> workload \<Rightarrow> workload" where
  "observe now g w = w\<lparr>wl_node := the (gu_node g), wl_kind := the (guest_kind g), wl_name := gu_name g,
     wl_power_state := guest_power_state g, wl_cpu_cores := gu_maxcpu g, wl_memory_bytes := gu_maxmem g,
     wl_disk_bytes := gu_maxdisk g, wl_is_template := (gu_template g \<notin> {None, Some 0}), wl_is_present := True,
     wl_observed_at := now, wl_version := wl_version w + 1\<rparr>"

definition found_workload :: "uuid \<Rightarrow> uuid \<Rightarrow> datetime \<Rightarrow> guest_response \<Rightarrow> workload" where
  "found_workload k i now g = \<lparr>wl_id = k, wl_cluster_id = i, wl_vmid = gu_vmid g, wl_node = the (gu_node g),
     wl_kind = the (guest_kind g), wl_name = gu_name g, wl_power_state = guest_power_state g,
     wl_cpu_cores = gu_maxcpu g, wl_memory_bytes = gu_maxmem g, wl_disk_bytes = gu_maxdisk g,
     wl_is_template = (gu_template g \<notin> {None, Some 0}), wl_is_present = True, wl_organization_id = None,
     wl_observed_at = now, wl_version = 1\<rparr>"

text \<open>
  \<open>existing.get(vmid)\<close>; the dictionary holds the rows of the cluster and those the loop added, one for
  each VMID as the unique constraint has it.
\<close>

definition workload_at :: "uuid \<Rightarrow> int \<Rightarrow> db \<Rightarrow> workload option" where
  "workload_at i v d = find (\<lambda>w. wl_cluster_id w = i \<and> wl_vmid w = v) (workloads d)"

text \<open>One guest: whether a row was created.  The id is the column's default, \<open>uuid4\<close>.\<close>

definition import_guest :: "'w cluster_env \<Rightarrow> uuid \<Rightarrow> datetime \<Rightarrow> guest_response \<Rightarrow> ('w, bool) rm" where
  "import_guest E i now g = bindM (readM (workload_at i (gu_vmid g))) (\<lambda>r. case r of
     Some w \<Rightarrow> thenM (writeM (put_wl (wl_id w) (observe now g))) (returnM False)
   | None \<Rightarrow> bindM (uuid4M (ce_env E)) (\<lambda>k.
       thenM (writeM (\<lambda>d. d\<lparr>workloads := workloads d @ [found_workload k i now g]\<rparr>)) (returnM True)))"

fun import_guests ::
    "'w cluster_env \<Rightarrow> uuid \<Rightarrow> datetime \<Rightarrow> int list \<Rightarrow> guest_response list \<Rightarrow> ('w, int \<times> int) rm" where
  "import_guests E i now seen [] = returnM (0, 0)"
| "import_guests E i now seen (g # gs) =
     (if guest_bad seen g
      then raiseM (App (app_error 502 ''PVE_INVALID_RESPONSE'' ''The Proxmox API returned an invalid workload item.''))
      else bindM (import_guest E i now g) (\<lambda>new.
           bindM (import_guests E i now (gu_vmid g # seen) gs) (\<lambda>(created, updated).
           returnM (if new then (created + 1, updated) else (created, updated + 1)))))"

record import_response =
  imp_cluster_id :: uuid
  imp_discovered :: int
  imp_created :: int
  imp_updated :: int

definition import_workloads :: "'w cluster_env \<Rightarrow> service \<Rightarrow> uuid \<Rightarrow> ('w, import_response) rm" where
  "import_workloads E sv i =
     bindM (cluster_guests E sv i) (\<lambda>guests.
     bindM (readR (get_cluster i)) (\<lambda>_.
     bindM (nowM (ce_env E)) (\<lambda>now.
     bindM (import_guests E i now [] guests) (\<lambda>(created, updated).
     thenM (auditM (ce_env E) sv ((cluster_event sv ''PVE_WORKLOADS_IMPORTED'' ''SUCCEEDED'' i)
              \<lparr>ev_after := Some [(''discovered'', JInt (int (length guests))), (''created'', JInt created),
                 (''updated'', JInt updated)]\<rparr>))
     (thenM (commit_or (App (app_error 409 ''WORKLOAD_IMPORT_CONFLICT''
               ''The workload inventory changed during import; retry the request.'')))
     (returnM \<lparr>imp_cluster_id = i, imp_discovered = int (length guests), imp_created = created,
                imp_updated = updated\<rparr>))))))"

end
