(* ===== verification/Cluster_Runs.thy ===== *)
theory Cluster_Runs
  imports Clusters
begin

text \<open>
  What the handlers of theory \<open>Clusters\<close> may do: weakest preconditions of their building blocks, and
  the invariant that a cluster is active if and only if it has an active credential, which every state
  they commit satisfies.
\<close>

section \<open>Weakest preconditions\<close>

lemma wp_nonceM [wp_rules]:
  "wp (nonceM E) Q X s = (case ce_nonce E (rs_world s) of (n, w) \<Rightarrow> Q n (s\<lparr>rs_world := w\<rparr>))"
  by (simp add: wp_def nonceM_def split: prod.splits)

lemma wp_away [wp_rules]: "wp (away E m) Q X = wp m (\<lambda>x s. Q x (elsewhere E s)) (\<lambda>e s. X e (elsewhere E s))"
  by (rule ext) (simp add: wp_def away_def split: prod.splits sum.splits)

lemma wp_readR [wp_rules]: "wp (readR f) Q X s = (case f (rs_db s) of Inl e \<Rightarrow> X e s | Inr x \<Rightarrow> Q x s)"
  by (simp add: readR_def wp_rules split: sum.splits)

lemma wp_commit_or [wp_rules]:
  "wp (commit_or e) Q X s =
     (if integrity (rs_db s) then Q () (s\<lparr>rs_commits := rs_db s # rs_commits s\<rparr>)
      else X e (s\<lparr>rs_db := hd (rs_commits s)\<rparr>))"
  by (simp add: wp_def commit_or_def commitM_def)

lemma wp_auditM [wp_rules]:
  "wp (auditM V sv ev) Q X s = (case re_now V (rs_world s) of (t, w) \<Rightarrow>
     Q () (s\<lparr>rs_world := w, rs_db := add_audit_event ((sv_ctx sv)\<lparr>ac_now := t\<rparr>) ev (rs_db s)\<rparr>))"
  by (simp add: auditM_def wp_rules split: prod.splits)

section \<open>The invariant\<close>

definition active_credentials :: "db \<Rightarrow> uuid \<Rightarrow> cluster_credential list" where
  "active_credentials d i = filter (\<lambda>cr. cred_cluster_id cr = i \<and> cred_is_active cr) (credentials d)"

definition credentials_match :: "db \<Rightarrow> bool" where
  "credentials_match d \<longleftrightarrow> (\<forall>c \<in> set (clusters d). cl_is_active c \<longleftrightarrow> active_credentials d (cl_id c) \<noteq> [])"

definition clusters_good :: "db \<Rightarrow> bool" where
  "clusters_good d \<longleftrightarrow> integrity d \<and> credentials_match d"

definition others_good :: "'w cluster_env \<Rightarrow> bool" where
  "others_good E \<longleftrightarrow> (\<forall>w d. clusters_good d \<longrightarrow> clusters_good (fst (ce_others E w d)))"

text \<open>All committed states are good; with nothing pending the working state is the latest of them.\<close>

definition commits_good :: "'w rs \<Rightarrow> bool" where
  "commits_good s \<longleftrightarrow> rs_commits s \<noteq> [] \<and> (\<forall>d \<in> set (rs_commits s). clusters_good d)"

definition settled :: "'w rs \<Rightarrow> bool" where
  "settled s \<longleftrightarrow> commits_good s \<and> rs_db s = stored s"

lemma settled_start: "clusters_good d \<Longrightarrow> settled (start_run d w)"
  by (simp add: settled_def commits_good_def start_run_def stored_def)

lemma settled_good: "settled s \<Longrightarrow> clusters_good (rs_db s)"
  by (auto simp: settled_def commits_good_def stored_def)

lemma settled_commits: "settled s \<Longrightarrow> commits_good s"
  by (simp add: settled_def)

lemma settled_simps [simp]:
  "settled (s\<lparr>rs_world := w\<rparr>) = settled s" "settled (s\<lparr>rs_calls := xs\<rparr>) = settled s"
  "commits_good (s\<lparr>rs_world := w\<rparr>) = commits_good s" "commits_good (s\<lparr>rs_calls := xs\<rparr>) = commits_good s"
  "commits_good (s\<lparr>rs_db := d\<rparr>) = commits_good s"
  by (simp_all add: settled_def commits_good_def stored_def)

lemma settled_elsewhere:
  assumes "others_good E" "commits_good s"
  shows "settled (elsewhere E s)"
proof -
  have "clusters_good (stored s)" using assms(2) by (auto simp: commits_good_def stored_def)
  then have "clusters_good (fst (ce_others E (rs_world s) (stored s)))" using assms(1) by (simp add: others_good_def)
  then show ?thesis using assms(2)
    by (auto simp: elsewhere_def settled_def commits_good_def stored_def split: prod.splits)
qed

lemma settled_committed:
  "commits_good s \<Longrightarrow> integrity (rs_db s) \<Longrightarrow> credentials_match (rs_db s) \<Longrightarrow> settled (s\<lparr>rs_commits := rs_db s # rs_commits s\<rparr>)"
  by (auto simp: settled_def commits_good_def stored_def clusters_good_def)

lemma settled_rollback: "commits_good s \<Longrightarrow> settled (s\<lparr>rs_db := hd (rs_commits s)\<rparr>)"
  by (simp add: settled_def commits_good_def stored_def)

text \<open>
  A step of a handler from a settled state to a settled state, or to an exception after which what was
  committed is good.
\<close>

definition tidy :: "('w, 'a) rm \<Rightarrow> bool" where
  "tidy m \<longleftrightarrow> (\<forall>s. settled s \<longrightarrow> wp m (\<lambda>_. settled) (\<lambda>_. commits_good) s)"

lemma tidyD: "tidy m \<Longrightarrow> settled s \<Longrightarrow> wp m (\<lambda>_. settled) (\<lambda>_. commits_good) s"
  by (simp add: tidy_def)

lemma tidy_bindM: "tidy m \<Longrightarrow> (\<And>x. tidy (f x)) \<Longrightarrow> tidy (bindM m f)"
  by (auto simp: tidy_def wp_bindM intro: wp_mono)

lemma tidy_thenM: "tidy m \<Longrightarrow> tidy k \<Longrightarrow> tidy (thenM m k)"
  by (auto simp: thenM_def intro: tidy_bindM)

lemma tidy_returnM: "tidy (returnM x)"
  and tidy_raiseM: "tidy (raiseM e)"
  and tidy_liftM: "tidy (liftM r)"
  and tidy_readR: "tidy (readR f)"
  and tidy_readM: "tidy (readM g)"
  and tidy_nowM: "tidy (nowM V)"
  and tidy_uuid4M: "tidy (uuid4M V)"
  and tidy_nonceM: "tidy (nonceM E)"
  and tidy_rollbackM: "tidy rollbackM"
  by (auto simp: tidy_def wp_rules settled_commits settled_rollback split: sum.splits prod.splits)

lemma tidy_if: "tidy m \<Longrightarrow> tidy n \<Longrightarrow> tidy (if b then m else n)"
  by simp

text \<open>An exception that is caught leaves a state to go on from only after a call to Proxmox.\<close>

lemma tidy_call_client:
  assumes "others_good E"
  shows "tidy (call_client E k nm f)"
    and "settled s \<Longrightarrow> wp (call_client E k nm f) (\<lambda>_. settled) (\<lambda>_. settled) s"
proof -
  show *: "wp (call_client E k nm f) (\<lambda>_. settled) (\<lambda>_. settled) s" if "settled s" for s
    using that settled_commits[OF that]
    by (auto simp: call_client_def wp_rules split: sum.splits prod.splits intro!: settled_elsewhere[OF assms])
  show "tidy (call_client E k nm f)"
    unfolding tidy_def by (intro allI impI, rule wp_mono[OF *]) (auto intro: settled_commits)
qed

lemma tidy_catch_client:
  assumes "others_good E" "\<And>e. tidy (h e)"
  shows "tidy (catch_app (call_client E k nm f) h)"
  unfolding tidy_def
proof (intro allI impI)
  fix s :: "'a rs" assume "settled s"
  then show "wp (catch_app (call_client E k nm f) h) (\<lambda>_. settled) (\<lambda>_. commits_good) s"
    using tidy_call_client(2)[OF assms(1), of s k nm f] assms(2)
    by (auto simp: wp_rules tidy_def settled_commits elim!: wp_mono split: exn.splits)
qed

section \<open>Writes\<close>

text \<open>
  Between the first write and the commit: what was committed is good, and the working state has
  matching credentials if the database will accept it.
\<close>

definition pending :: "'w rs \<Rightarrow> bool" where
  "pending s \<longleftrightarrow> commits_good s \<and> credentials_match (rs_db s)"

lemma settled_pending: "settled s \<Longrightarrow> pending s"
  using settled_good[of s] by (simp add: pending_def settled_commits clusters_good_def)

lemma pending_commits: "pending s \<Longrightarrow> commits_good s"
  by (simp add: pending_def)

lemma pending_worldless: "worldless pending"
  by (simp add: worldless_def pending_def)

lemma keeps_pending_write: "(\<And>d. credentials_match d \<Longrightarrow> credentials_match (f d)) \<Longrightarrow> keeps pending (writeM f)"
  by (simp add: keeps_def wp_rules pending_def)

lemma keeps_pending_readR: "keeps pending (readR f)"
  by (simp add: keeps_def wp_rules split: sum.splits)

lemma match_audit [simp]: "credentials_match (add_audit_event x ev d) = credentials_match d"
  by (simp add: credentials_match_def active_credentials_def)

lemma keeps_pending_audit: "keeps pending (auditM (ce_env E) sv ev)"
  by (simp add: keeps_def wp_rules pending_def split: prod.splits)

lemma match_workloads [simp]: "credentials_match (d\<lparr>workloads := ws\<rparr>) = credentials_match d"
  by (simp add: credentials_match_def active_credentials_def)

lemma ball_modify_row:
  assumes "\<And>r. Q (f r) = Q r"
  shows "(\<forall>r \<in> set (modify_row key i f rows). Q r) = (\<forall>r \<in> set rows. Q r)"
proof -
  have "Q (if key r = i then f r else r) = Q r" for r using assms by simp
  then show ?thesis by (simp only: set_modify_row ball_simps)
qed

lemma match_put_cluster:
  assumes "\<And>c. cl_id (f c) = cl_id c" "\<And>c. cl_is_active (f c) = cl_is_active c"
  shows "credentials_match (put_cluster i f d) = credentials_match d"
proof -
  have "active_credentials (put_cluster i f d) = active_credentials d"
    by (simp add: fun_eq_iff active_credentials_def put_cluster_def)
  then show ?thesis
    unfolding credentials_match_def by (simp add: put_cluster_def ball_modify_row assms)
qed

lemma filter_modify_row:
  "(\<And>x. P (f x) = P x) \<Longrightarrow> filter P (modify_row key i f rows) = modify_row key i f (filter P rows)"
  by (induction rows) (auto simp: modify_row_def)

lemma active_credentials_put:
  assumes "\<And>x. cred_cluster_id (f x) = cred_cluster_id x" "\<And>x. cred_is_active (f x) = cred_is_active x"
  shows "active_credentials (put_credential k f d) j = modify_row cred_id k f (active_credentials d j)"
  unfolding active_credentials_def put_credential_def
  using filter_modify_row[of "\<lambda>cr. cred_cluster_id cr = j \<and> cred_is_active cr" f cred_id k "credentials d"] assms by simp

lemma match_put_credential:
  assumes "\<And>x. cred_cluster_id (f x) = cred_cluster_id x" "\<And>x. cred_is_active (f x) = cred_is_active x"
  shows "credentials_match (put_credential k f d) = credentials_match d"
  unfolding credentials_match_def active_credentials_put[OF assms]
  by (simp add: modify_row_def put_credential_def)

lemmas pending_rules = keeps_rules keeps_pending_write keeps_pending_readR keeps_pending_audit
  keeps_nowM[OF pending_worldless] keeps_uuid4M[OF pending_worldless]

text \<open>A commit settles what is pending.\<close>

lemma wp_commit_pending:
  assumes "pending s"
  shows "wp commitM (\<lambda>_. settled) (\<lambda>_. commits_good) s" "wp (commit_or e) (\<lambda>_. settled) (\<lambda>_. commits_good) s"
  using assms by (auto simp: wp_rules pending_def intro: settled_committed)

lemma tidy_pending_commit:
  assumes "keeps pending m"
  shows "tidy (thenM m commitM)" "tidy (thenM m (thenM (commit_or e) (returnM x)))"
  unfolding tidy_def
  by (auto simp: wp_thenM wp_returnM intro!: wp_mono[OF keeps_at[OF assms settled_pending]]
      intro: wp_commit_pending pending_commits)

lemma thenM_assoc: "thenM a (thenM b c) = thenM (thenM a b) c"
  by (rule ext) (simp add: thenM_def bindM_def split: prod.splits sum.splits)

lemma tidy_record: "tidy (record_connection_result E i err)"
  unfolding record_connection_result_def thenM_assoc
  by (intro tidy_bindM tidy_readR tidy_pending_commit(1) pending_rules)
    (simp_all add: match_put_cluster match_put_credential)

section \<open>Handlers\<close>

lemma tidy_write_audit_commit:
  assumes "\<And>d. clusters_good d \<Longrightarrow> integrity (F d) \<Longrightarrow> credentials_match (F d)"
  shows "tidy (thenM (writeM F) (thenM (auditM (ce_env E) sv ev) (thenM (commit_or e) (returnM x))))"
  unfolding tidy_def
proof (intro allI impI)
  fix s :: "'a rs" assume s: "settled s"
  show "wp (thenM (writeM F) (thenM (auditM (ce_env E) sv ev) (thenM (commit_or e) (returnM x)))) (\<lambda>_. settled) (\<lambda>_. commits_good) s"
    using assms[OF settled_good[OF s]] settled_commits[OF s]
    by (auto simp: wp_rules settled_def commits_good_def stored_def clusters_good_def split: prod.splits)
qed

lemma match_added:
  assumes "clusters_good d" "integrity (d\<lparr>clusters := clusters d @ [c], credentials := credentials d @ [cr]\<rparr>)"
    "cl_is_active c" "cred_is_active cr" "cred_cluster_id cr = cl_id c"
  shows "credentials_match (d\<lparr>clusters := clusters d @ [c], credentials := credentials d @ [cr]\<rparr>)"
proof -
  have "cl_id c \<notin> cl_id ` set (clusters d)"
    using assms(2) by (auto simp: integrity_def tables_ok_def clusters_ok_def)
  then show ?thesis using assms(1,3-5)
    by (auto simp: credentials_match_def clusters_good_def active_credentials_def)
qed

lemma tidy_create: "others_good E \<Longrightarrow> tidy (create_cluster E sv q)"
  unfolding create_cluster_def probe_def Let_def commit_or_conflict_def
  by (intro tidy_thenM tidy_bindM tidy_liftM tidy_uuid4M tidy_nonceM tidy_nowM tidy_call_client tidy_write_audit_commit
      match_added) (simp_all add: new_cluster_def new_credential_def create_connection_def)

lemma tidy_connection_snapshot: "tidy (connection_snapshot E i)"
  unfolding connection_snapshot_def by (intro tidy_bindM tidy_thenM tidy_readR tidy_rollbackM tidy_returnM)

lemma tidy_call_resource: "others_good E \<Longrightarrow> tidy (call_resource E i nm f)"
  unfolding call_resource_def
  by (intro tidy_bindM tidy_thenM tidy_connection_snapshot tidy_catch_client tidy_record tidy_returnM tidy_raiseM)

lemma tidy_listings:
  assumes "others_good E"
  shows "tidy (cluster_nodes E sv i)" "tidy (cluster_guests E sv i)" "tidy (cluster_storages E sv i)"
  unfolding cluster_nodes_def cluster_guests_def cluster_storages_def
  by (intro tidy_bindM tidy_thenM tidy_liftM tidy_call_resource assms)+

lemma tidy_audit_commit: "tidy m \<Longrightarrow> tidy (thenM (auditM (ce_env E) sv ev) (thenM commitM m))"
  unfolding thenM_assoc by (intro tidy_thenM tidy_pending_commit keeps_pending_audit)

lemma tidy_test: "others_good E \<Longrightarrow> tidy (test_cluster_connection E sv i)"
  unfolding test_cluster_connection_def probe_def
  by (intro tidy_bindM tidy_thenM[of "liftM _"] tidy_thenM[of "record_connection_result _ _ _"] tidy_audit_commit
      tidy_connection_snapshot tidy_catch_client tidy_record tidy_liftM tidy_raiseM)

lemma keeps_import_guests: "keeps pending (import_guests E i now seen gs)"
proof (induction gs arbitrary: seen)
  case (Cons g gs)
  have "keeps pending (import_guest E i now g)"
    unfolding import_guest_def put_wl_def by (intro pending_rules) simp_all
  then show ?case
    unfolding import_guests.simps by (intro pending_rules Cons.IH)
qed (simp add: pending_rules)

lemma bindM_assoc: "bindM (bindM m f) g = bindM m (\<lambda>x. bindM (f x) g)"
  by (rule ext) (simp add: bindM_def split: prod.splits sum.splits)

lemma bindM_returnM: "bindM (returnM x) f = f x"
  by (rule ext) (simp add: bindM_def returnM_def)

lemma tidy_import_rest:
  "tidy (bindM (import_guests E i now [] gs) (\<lambda>x. case x of (created, updated) \<Rightarrow>
     thenM (auditM (ce_env E) sv (ev created updated)) (thenM (commit_or e) (returnM (r created updated)))))"
  unfolding tidy_def
  by (auto simp: wp_bindM wp_thenM wp_returnM split: prod.splits
      intro!: wp_mono[OF keeps_at[OF keeps_import_guests settled_pending]] wp_mono[OF keeps_at[OF keeps_pending_audit]]
      intro: wp_commit_pending pending_commits)

lemma tidy_import: "others_good E \<Longrightarrow> tidy (import_workloads E sv i)"
  unfolding import_workloads_def
  by (rule tidy_bindM[OF tidy_listings(2)], assumption, rule tidy_bindM[OF tidy_readR], rule tidy_bindM[OF tidy_nowM],
      rule tidy_import_rest)

section \<open>Changes of a cluster\<close>

definition replacing :: "uuid \<Rightarrow> uuid \<Rightarrow> 'w rs \<Rightarrow> bool" where
  "replacing i k s \<longleftrightarrow> pending s \<and> active_credentials (rs_db s) i \<noteq> [] \<and>
     (\<forall>x \<in> set (credentials (rs_db s)). cred_id x = k \<longrightarrow> cred_cluster_id x = i)"

lemma active_credentials_hd: "active_credential d i = Some cr \<Longrightarrow> cr \<in> set (active_credentials d i)"
  unfolding active_credential_def active_credentials_def by (auto simp: find_Some_iff)

lemma the_credential_Inr: "the_credential i d = Inr cr \<longleftrightarrow> active_credential d i = Some cr"
  by (auto simp: the_credential_def split: option.splits)

lemma active_credential_row:
  "active_credential d i = Some cr \<Longrightarrow> cr \<in> set (credentials d) \<and> cred_cluster_id cr = i \<and> cred_is_active cr"
  using active_credentials_hd[of d i cr] by (simp add: active_credentials_def)

lemma replacing_start:
  assumes "settled s" "the_credential i (rs_db s) = Inr cr"
  shows "replacing i (cred_id cr) s"
proof -
  have cr: "active_credential (rs_db s) i = Some cr" using assms(2) by (simp add: the_credential_Inr)
  have "distinct (map cred_id (credentials (rs_db s)))"
    using settled_good[OF assms(1)] by (simp add: clusters_good_def integrity_def tables_ok_def credentials_ok_def)
  then show ?thesis
    using settled_pending[OF assms(1)] active_credentials_hd[OF cr] active_credential_row[OF cr]
    by (auto simp: replacing_def distinct_map inj_on_def)
qed

lemma replacing_worldless: "worldless (replacing i k)"
  by (simp add: worldless_def replacing_def pending_def)

lemma keeps_replacing_cluster:
  assumes "\<And>c. cl_id (f c) = cl_id c" "\<And>c. cl_is_active (f c) = cl_is_active c"
  shows "keeps (replacing i k) (writeM (put_cluster j f))"
  using assms by (simp add: keeps_def wp_rules replacing_def pending_def match_put_cluster)
    (simp add: active_credentials_def put_cluster_def)

lemma keeps_replacing_credential:
  assumes "\<And>x. cred_id (f x) = cred_id x" "\<And>x. cred_cluster_id (f x) = cred_cluster_id x" "\<And>x. cred_is_active (f x) = cred_is_active x"
  shows "keeps (replacing i k) (writeM (put_credential j f))"
  using assms by (auto simp: keeps_def wp_rules replacing_def pending_def match_put_credential active_credentials_put)
    (auto simp: put_credential_def set_modify_row modify_row_def split: if_splits)

lemma filter_map_same:
  "(\<And>x. x \<in> set xs \<Longrightarrow> P (g x) = P x \<and> (P x \<longrightarrow> g x = x)) \<Longrightarrow> filter P (map g xs) = filter P xs"
  by (induction xs) auto

lemma match_replaced:
  assumes "credentials_match d" "active_credentials d i \<noteq> []"
    "\<forall>x \<in> set (credentials d). cred_id x = k \<longrightarrow> cred_cluster_id x = i"
    "cred_cluster_id new = i" "cred_is_active new"
  shows "credentials_match ((put_credential k (retire now) d)\<lparr>credentials :=
           credentials (put_credential k (retire now) d) @ [new]\<rparr>)" (is "credentials_match ?d")
proof -
  have "active_credentials ?d (cl_id c) \<noteq> [] \<longleftrightarrow> active_credentials d (cl_id c) \<noteq> []" for c :: cluster
  proof (cases "cl_id c = i")
    case True
    then show ?thesis using assms(2,4,5) by (simp add: active_credentials_def)
  next
    case False
    then have "active_credentials ?d (cl_id c) = active_credentials d (cl_id c)"
      using assms(3,4) unfolding active_credentials_def put_credential_def modify_row_def
      by (auto simp: retire_def split: if_splits intro!: filter_map_same)
    then show ?thesis by simp
  qed
  then show ?thesis using assms(1) by (simp add: credentials_match_def put_credential_def)
qed

lemma wp_replace_credential:
  assumes "replacing i (cred_id cr) s"
  shows "wp (replace_credential E i k cr now) (\<lambda>_. pending) (\<lambda>_. commits_good) s"
proof -
  have "credentials_match ((put_credential (cred_id cr) (retire now) (rs_db s))\<lparr>credentials :=
      credentials (put_credential (cred_id cr) (retire now) (rs_db s)) @
        [new_credential j i (conn_token_identifier k) x now]\<rparr>)" for j x
    by (rule match_replaced) (use assms in \<open>auto simp: replacing_def pending_def new_credential_def\<close>)
  then show ?thesis
    using assms by (auto simp: replace_credential_def wp_rules Let_def replacing_def pending_def split: prod.splits)
qed

lemma wp_apply_update:
  assumes "settled s" "the_credential i (rs_db s) = Inr cr"
  shows "wp (apply_update E i q k c cr) (\<lambda>_. pending) (\<lambda>_. commits_good) s"
proof -
  define m :: "'a cluster_env \<Rightarrow> ('a, datetime) rm" where
    "m = (\<lambda>E. thenM (writeM (put_cluster i (updated_cluster q k))) (bindM (nowM (ce_env E)) (\<lambda>now.
      thenM (writeM (put_cluster i (mark_connected now)))
      (thenM (writeM (put_credential (cred_id cr) (\<lambda>x. x\<lparr>cred_last_used_at := Some now\<rparr>))) (returnM now)))))"
  have keeps_m: "keeps (replacing i (cred_id cr)) (m E)"
    unfolding m_def
    by (intro keeps_thenM keeps_bindM keeps_replacing_cluster keeps_replacing_credential keeps_returnM
        keeps_nowM replacing_worldless) (simp_all add: updated_cluster_def mark_connected_def)
  have split_update: "apply_update E i q k c cr =
      (if \<not> connection_changed q
       then thenM (writeM (put_cluster i (updated_cluster q k))) (returnM (updated_cluster q k c, cr))
       else bindM (m E) (\<lambda>now. if token_changed q
         then bindM (replace_credential E i k cr now) (\<lambda>new. returnM (mark_connected now (updated_cluster q k c), new))
         else returnM (mark_connected now (updated_cluster q k c), cr\<lparr>cred_last_used_at := Some now\<rparr>)))"
    unfolding apply_update_def m_def Let_def thenM_def bindM_assoc bindM_returnM by simp
  have r: "replacing i (cred_id cr) s" by (rule replacing_start[OF assms])
  show ?thesis
  proof (cases "connection_changed q")
    case True
    have "wp (bindM (m E) (\<lambda>now. if token_changed q
         then bindM (replace_credential E i k cr now) (\<lambda>new. returnM (mark_connected now (updated_cluster q k c), new))
         else returnM (mark_connected now (updated_cluster q k c), cr\<lparr>cred_last_used_at := Some now\<rparr>)))
       (\<lambda>_. pending) (\<lambda>_. commits_good) s"
      unfolding wp_bindM
      by (rule wp_mono[OF keeps_at[OF keeps_m r]])
        (auto simp: wp_if wp_bindM wp_returnM replacing_def pending_def
          intro: wp_mono[OF wp_replace_credential, unfolded replacing_def pending_def])
    then show ?thesis using True by (simp add: split_update)
  next
    case False
    have "keeps pending (thenM (writeM (put_cluster i (updated_cluster q k))) (returnM (updated_cluster q k c, cr)) :: ('a, _) rm)"
      by (intro pending_rules) (simp add: match_put_cluster updated_cluster_def)
    from keeps_at[OF this settled_pending[OF assms(1)]] show ?thesis
      using False by (simp add: split_update wp_thenM wp_writeM wp_returnM)
  qed
qed

lemma wp_probed_rows:
  assumes "others_good E" "settled s" "the_credential i (rs_db s) = Inr cr"
  shows "wp (probed_rows E i q k c cr) (\<lambda>(c2, cr2) t. settled t \<and> the_credential i (rs_db t) = Inr cr2) (\<lambda>_. commits_good) s"
proof -
  have "settled (s\<lparr>rs_db := hd (rs_commits s)\<rparr>)" by (rule settled_rollback[OF settled_commits[OF assms(2)]])
  then have "wp (probe E k) (\<lambda>_. settled) (\<lambda>_. settled) (s\<lparr>rs_db := hd (rs_commits s)\<rparr>)"
    unfolding probe_def by (rule tidy_call_client(2)[OF assms(1)])
  then show ?thesis
    using assms(2,3)
    by (auto simp: probed_rows_def wp_rules settled_commits split: sum.splits elim!: wp_mono)
qed

lemma tidy_update:
  assumes "others_good E"
  shows "tidy (update_cluster E sv i q)"
  unfolding tidy_def
proof (intro allI impI)
  fix s :: "'a rs" assume s: "settled s"
  have audited: "wp (thenM (auditM (ce_env E) sv ev) (thenM commit_or_conflict (returnM x))) (\<lambda>_. settled) (\<lambda>_. commits_good) t"
    if "pending t" for ev x t
    unfolding commit_or_conflict_def wp_thenM wp_returnM
    by (rule wp_mono[OF keeps_at[OF keeps_pending_audit that]]) (auto intro: wp_commit_pending pending_commits)
  show "wp (update_cluster E sv i q) (\<lambda>_. settled) (\<lambda>_. commits_good) s"
    using s settled_commits[OF s]
    by (auto simp: update_cluster_def wp_thenM wp_bindM wp_liftM wp_readR wp_if wp_raiseM wp_returnM Let_def
        split: sum.splits option.splits prod.splits
        intro!: wp_mono[OF wp_probed_rows[OF assms]] wp_mono[OF wp_apply_update] audited)
qed

lemma match_removed:
  assumes "clusters_good d" "active_credential d i = Some cr"
  shows "credentials_match (put_credential (cred_id cr) (retire now) (put_cluster i (tombstone now) d))"
proof -
  have row: "cr \<in> set (credentials d)" "cred_cluster_id cr = i" "cred_is_active cr"
    using active_credential_row[OF assms(2)] by auto
  have ids: "x = y" if "x \<in> set (credentials d)" "y \<in> set (credentials d)" "cred_id x = cred_id y" for x y
    using assms(1) that
    by (auto simp: clusters_good_def integrity_def tables_ok_def credentials_ok_def distinct_map inj_on_def)
  have one: "x = cr" if "x \<in> set (credentials d)" "cred_cluster_id x = i" "cred_is_active x" for x
    using assms(1) row that unique_onD[of cred_cluster_id cred_is_active "credentials d" x cr]
    by (auto simp: clusters_good_def integrity_def tables_ok_def credentials_ok_def)
  have "(\<exists>x \<in> set (modify_row cred_id (cred_id cr) (retire now) (credentials d)). cred_cluster_id x = j \<and> cred_is_active x)
      \<longleftrightarrow> j \<noteq> i \<and> (\<exists>x \<in> set (credentials d). cred_cluster_id x = j \<and> cred_is_active x)" for j
    using row ids one by (fastforce simp: set_modify_row retire_def)
  then show ?thesis
    using assms(1)
    by (auto simp: credentials_match_def clusters_good_def active_credentials_def put_credential_def put_cluster_def
        set_modify_row tombstone_def filter_empty_conv)
qed

lemma tidy_delete: "tidy (delete_cluster E sv i)"
  unfolding tidy_def
proof (intro allI impI)
  fix s :: "'a rs" assume s: "settled s"
  have m: "credentials_match (put_credential (cred_id cr) (retire now) (put_cluster i (tombstone now) (rs_db s)))"
    if "the_credential i (put_cluster i (tombstone now) (rs_db s)) = Inr cr" for cr now
    using that match_removed[OF settled_good[OF s]]
    by (simp add: the_credential_Inr active_credential_def put_cluster_def)
  show "wp (delete_cluster E sv i) (\<lambda>_. settled) (\<lambda>_. commits_good) s"
    using s settled_commits[OF s] m
    by (auto simp: delete_cluster_def wp_rules settled_def commits_good_def stored_def clusters_good_def
        split: sum.splits prod.splits)
qed

end
