(* ===== verification/Cluster_Properties.thy ===== *)
theory Cluster_Properties
  imports Cluster_Runs
begin

text \<open>
  What is shown of the cluster service: the invariant of its credentials as a transition system that
  other transactions may interrupt, that what is stored is what was probed, that a stored secret is sent
  to its own endpoint only, removal, the import of guests, and what a concurrent change can lose.
\<close>

section \<open>The service as a transition system\<close>

lemma tidy_commits:
  assumes "tidy m" "clusters_good d" "d' \<in> set (rs_commits (snd (m (start_run d w))))"
  shows "clusters_good d'"
  using tidyD[OF assms(1) settled_start[OF assms(2), of w]] assms(3)
  by (auto simp: wp_def commits_good_def settled_def split: prod.splits sum.splits)

inductive cluster_step :: "'w cluster_env \<Rightarrow> db \<Rightarrow> db \<Rightarrow> bool" for E where
  cluster_create: "d' \<in> set (rs_commits (snd (create_cluster E sv q (start_run d w)))) \<Longrightarrow> cluster_step E d d'"
| cluster_update: "d' \<in> set (rs_commits (snd (update_cluster E sv i u (start_run d w)))) \<Longrightarrow> cluster_step E d d'"
| cluster_delete: "d' \<in> set (rs_commits (snd (delete_cluster E sv i (start_run d w)))) \<Longrightarrow> cluster_step E d d'"
| cluster_test: "d' \<in> set (rs_commits (snd (test_cluster_connection E sv i (start_run d w)))) \<Longrightarrow> cluster_step E d d'"
| cluster_nodes: "d' \<in> set (rs_commits (snd (cluster_nodes E sv i (start_run d w)))) \<Longrightarrow> cluster_step E d d'"
| cluster_guests: "d' \<in> set (rs_commits (snd (cluster_guests E sv i (start_run d w)))) \<Longrightarrow> cluster_step E d d'"
| cluster_storages: "d' \<in> set (rs_commits (snd (cluster_storages E sv i (start_run d w)))) \<Longrightarrow> cluster_step E d d'"
| cluster_import: "d' \<in> set (rs_commits (snd (import_workloads E sv i (start_run d w)))) \<Longrightarrow> cluster_step E d d'"

lemma cluster_step_good:
  assumes "cluster_step E d d'" "others_good E" "clusters_good d"
  shows "clusters_good d'"
  using assms
  by (cases rule: cluster_step.cases)
    (blast intro: tidy_commits tidy_create tidy_update tidy_delete tidy_test tidy_listings tidy_import)+

interpretation cluster_service: invariant_system clusters_good "cluster_step E" "\<lambda>d. others_good E \<longrightarrow> clusters_good d" for E
  by unfold_locales (auto intro: cluster_step_good)

lemma unique_on_at_most_one: "unique_on k P rows \<Longrightarrow> length (filter (\<lambda>r. k r = i \<and> P r) rows) \<le> 1"
proof (induction rows)
  case (Cons a rows)
  have "filter (\<lambda>r. k r = k a \<and> P r) rows = []" if "P a"
    using that Cons.prems by (auto simp: unique_on_def filter_empty_conv image_iff)
  moreover have "unique_on k P rows" using Cons.prems by (simp add: unique_on_def split: if_splits)
  ultimately show ?case using Cons.IH by auto
qed simp

text \<open>
  C30. However requests interleave with what other transactions commit while they wait for Proxmox, in
  every stored state an active cluster has exactly one active credential and a removed one has none,
  provided those other transactions keep this too.
\<close>
theorem active_cluster_has_one_credential:
  assumes "clusters_good d0" "(cluster_step E)\<^sup>*\<^sup>* d0 d" "others_good E" "c \<in> set (clusters d)"
  shows "length (active_credentials d (cl_id c)) = (if cl_is_active c then 1 else 0)"
proof -
  have good: "clusters_good d" using cluster_service.inv_steps[OF assms(2)] assms(1,3) by simp
  then have "length (active_credentials d (cl_id c)) \<le> 1"
    unfolding active_credentials_def
    by (intro unique_on_at_most_one) (simp add: clusters_good_def integrity_def tables_ok_def credentials_ok_def)
  moreover have "cl_is_active c \<longleftrightarrow> active_credentials d (cl_id c) \<noteq> []"
    using good assms(4) by (simp add: clusters_good_def credentials_match_def)
  ultimately show ?thesis by (cases "active_credentials d (cl_id c)") auto
qed

section \<open>What is stored is what was probed\<close>

definition called :: "string \<Rightarrow> cluster_connection \<Rightarrow> exn option \<Rightarrow> api_call" where
  "called nm k err = \<lparr>call_name = nm, call_args = connection_args k, call_error = err\<rparr>"

lemma called_ids [simp]: "called nm (k\<lparr>conn_cluster_id := i\<rparr>) = called nm k"
  "called nm (k\<lparr>conn_credential_id := j\<rparr>) = called nm k"
  by (simp_all add: fun_eq_iff called_def connection_args_def)

lemma start_run_simps [simp]: "rs_db (start_run d w) = d" "rs_calls (start_run d w) = []" "rs_commits (start_run d w) = [d]"
  by (simp_all add: start_run_def)

lemma elsewhere_calls [simp]: "rs_calls (elsewhere E s) = rs_calls s"
  by (simp add: elsewhere_def split: prod.splits)

lemma wp_call_client:
  assumes "\<And>t. rs_calls t = rs_calls s @ [called nm k None] \<Longrightarrow> Q' t"
    "\<And>e t. rs_calls t = rs_calls s @ [called nm k (Some e)] \<or> rs_calls t = rs_calls s \<Longrightarrow> X e t"
  shows "wp (call_client E k nm f) (\<lambda>_. Q') X s"
  using assms by (auto simp: call_client_def wp_rules called_def split: sum.splits prod.splits)

lemma decrypt_new:
  assumes "aead_ok (ce_aead E)" "is_ascii secret"
  shows "cluster_decrypt E i (new_credential j i ident (credential_encrypt (ce_aead E) (ce_key E) n secret i j) now) = Inr secret"
  using credentials.dec_columns[OF assms] by (simp add: cluster_decrypt_def new_credential_def)

lemma get_row_distinct: "distinct (map key rows) \<Longrightarrow> r \<in> set rows \<Longrightarrow> get_row key rows (key r) = Some r"
  by (induction rows) (auto simp: table_simps)

lemma active_credential_unique:
  assumes "integrity d" "cr \<in> set (credentials d)" "cred_is_active cr"
  shows "active_credential d (cred_cluster_id cr) = Some cr"
proof -
  have u: "unique_on cred_cluster_id cred_is_active (credentials d)"
    using assms(1) by (simp add: integrity_def tables_ok_def credentials_ok_def)
  obtain x where x: "active_credential d (cred_cluster_id cr) = Some x"
    using assms(2,3) by (cases "active_credential d (cred_cluster_id cr)") (auto simp: active_credential_def find_None_iff)
  then show ?thesis using unique_onD[OF u, of x cr] active_credential_row[OF x] assms(2,3) by simp
qed

lemma snapshot_stored:
  assumes "integrity d" "c \<in> set (clusters d)" "cl_is_active c" "cr \<in> set (credentials d)" "cred_is_active cr"
    "cred_cluster_id cr = cl_id c" "cluster_decrypt E (cl_id c) cr = Inr secret"
  shows "snapshot_of E (cl_id c) d = Inr \<lparr>conn_cluster_id = cl_id c, conn_credential_id = cred_id cr,
     conn_api_base_url = cl_api_base_url c, conn_ca_bundle_pem = cl_ca_bundle_pem c,
     conn_token_identifier = cred_token_identifier cr, conn_token_secret = secret\<rparr>"
proof -
  have "get_row cl_id (clusters d) (cl_id c) = Some c"
    using assms(1,2) by (intro get_row_distinct) (auto simp: integrity_def tables_ok_def clusters_ok_def)
  moreover have "active_credential d (cl_id c) = Some cr"
    using active_credential_unique[OF assms(1,4,5)] assms(6) by simp
  ultimately show ?thesis using assms(3,7) by (simp add: snapshot_of_def get_cluster_def the_credential_def)
qed

lemma new_row_ids: "cl_id (new_cluster q k now) = conn_cluster_id k" "conn_cluster_id (create_connection q i j) = i"
  "conn_credential_id (create_connection q i j) = j"
  by (simp_all add: new_cluster_def create_connection_def)

lemma created_snapshot:
  assumes "aead_ok (ce_aead E)" "is_ascii (cq_token_secret q)"
    "integrity (d\<lparr>clusters := clusters d @ [new_cluster q (create_connection q i k) now], credentials := credentials d @
       [new_credential k i (cq_token_identifier q) (credential_encrypt (ce_aead E) (ce_key E) n (cq_token_secret q) i k) now]\<rparr>)"
      (is "integrity ?d")
  shows "snapshot_of E i ?d = Inr (create_connection q i k)"
  using snapshot_stored[OF assms(3), of "new_cluster q (create_connection q i k) now"
      "new_credential k i (cq_token_identifier q) (credential_encrypt (ce_aead E) (ce_key E) n (cq_token_secret q) i k) now"
      E "cq_token_secret q"] decrypt_new[OF assms(1,2)]
  by (simp add: new_cluster_def new_credential_def create_connection_def)

lemma snapshot_audit [simp]: "snapshot_of E i (add_audit_event x ev d) = snapshot_of E i d"
  by (simp add: snapshot_of_def get_cluster_def the_credential_def active_credential_def cong: if_cong)

text \<open>
  C31. A registered cluster can be used as it was probed: after a registration the service made exactly
  one call, with the address, CA bundle, token and secret of the request, and the connection that later
  calls read back and decrypt from the database is that very connection.
\<close>
theorem created_cluster_connects:
  assumes "aead_ok (ce_aead E)" "is_ascii (cq_token_secret q)"
    "create_cluster E sv q (start_run d w) = (Inr r, s)"
  shows "\<exists>k. snapshot_of E (clr_id r) (stored s) = Inr k \<and>
     k = create_connection q (clr_id r) (conn_credential_id k) \<and> rs_calls s = [called ''test_connection'' k None]"
proof -
  have "wp (create_cluster E sv q) (\<lambda>r s. \<exists>k. snapshot_of E (clr_id r) (stored s) = Inr k \<and>
     k = create_connection q (clr_id r) (conn_credential_id k) \<and> rs_calls s = [called ''test_connection'' k None])
     (\<lambda>_ _. True) (start_run d w)"
    unfolding create_cluster_def probe_def wp_thenM wp_bindM wp_liftM wp_uuid4M
    by (auto split: sum.splits prod.splits intro!: wp_call_client)
      (auto simp: wp_rules Let_def commit_or_conflict_def start_run_def stored_def cluster_response_of_def
        created_snapshot[OF assms(1,2)] new_row_ids
        split: prod.splits)
  then show ?thesis using assms(3) by (simp add: wp_def)
qed

lemma get_cluster_Inr: "get_cluster i d = Inr c \<longleftrightarrow> get_row cl_id (clusters d) i = Some c"
  by (auto simp: get_cluster_def split: option.splits)

definition replaced_db ::
    "uuid \<Rightarrow> cluster_update \<Rightarrow> cluster_connection \<Rightarrow> datetime \<Rightarrow> uuid \<Rightarrow> cluster_credential \<Rightarrow> db \<Rightarrow> db" where
  "replaced_db i q k now j new d =
     (let d1 = put_credential j (retire now) (put_credential j (\<lambda>x. x\<lparr>cred_last_used_at := Some now\<rparr>)
                 (put_cluster i (mark_connected now) (put_cluster i (updated_cluster q k) d)))
      in d1\<lparr>credentials := credentials d1 @ [new]\<rparr>)"

lemma updated_snapshot:
  assumes "aead_ok (ce_aead E)" "is_ascii (conn_token_secret k)" "clusters_good d" "get_cluster i d = Inr c"
    "the_credential i d = Inr cr"
    "new = new_credential j i (conn_token_identifier k)
       (credential_encrypt (ce_aead E) (ce_key E) n (conn_token_secret k) i j) now"
    "integrity (replaced_db i q k now (cred_id cr) new d)"
  shows "snapshot_of E i (replaced_db i q k now (cred_id cr) new d) =
     Inr (k\<lparr>conn_cluster_id := i, conn_credential_id := j\<rparr>)"
proof -
  define c3 where "c3 = mark_connected now (updated_cluster q k c)"
  have c: "c \<in> set (clusters d)" "cl_id c = i"
    using assms(4) get_row_Some[of cl_id "clusters d" i c] by (simp_all add: get_cluster_Inr)
  have id3: "cl_id c3 = i" and url3: "cl_api_base_url c3 = conn_api_base_url k" "cl_ca_bundle_pem c3 = conn_ca_bundle_pem k"
    and act3: "cl_is_active c3 = cl_is_active c"
    by (simp_all add: c3_def mark_connected_def updated_cluster_def c(2))
  have "active_credentials d i \<noteq> []"
    using assms(5) active_credentials_hd[of d i cr] by (auto simp: the_credential_Inr)
  then have "cl_is_active c" using assms(3) c by (simp add: clusters_good_def credentials_match_def)
  moreover have "c3 \<in> set (clusters (replaced_db i q k now (cred_id cr) new d))"
    using c unfolding c3_def replaced_db_def Let_def put_cluster_def put_credential_def
    by (force simp: set_modify_row updated_cluster_def)
  moreover have "new \<in> set (credentials (replaced_db i q k now (cred_id cr) new d))"
    by (simp add: replaced_db_def Let_def)
  ultimately show ?thesis
    using snapshot_stored[OF assms(7), of c3 new E "conn_token_secret k"] decrypt_new[OF assms(1,2)]
    by (simp add: id3 url3 act3 assms(6)) (simp add: new_credential_def)
qed

lemma wp_apply_token_update:
  assumes "aead_ok (ce_aead E)" "is_ascii (conn_token_secret k)" "settled s" "get_cluster i (rs_db s) = Inr c"
    "the_credential i (rs_db s) = Inr cr" "token_changed q"
  shows "wp (apply_update E i q k c cr) (\<lambda>_ t. rs_calls t = rs_calls s \<and> (integrity (rs_db t) \<longrightarrow>
     (\<exists>j. snapshot_of E i (rs_db t) = Inr (k\<lparr>conn_cluster_id := i, conn_credential_id := j\<rparr>)))) (\<lambda>_ _. True) s"
proof -
  have "connection_changed q" using assms(6) by (auto simp: connection_changed_def token_changed_def)
  then show ?thesis
    using assms(6) updated_snapshot[OF assms(1,2) settled_good[OF assms(3)] assms(4,5) refl]
    by (auto simp: apply_update_def replace_credential_def wp_rules Let_def replaced_db_def split: prod.splits)
qed

lemma wp_token_tail:
  assumes "aead_ok (ce_aead E)" "is_ascii (conn_token_secret k)" "settled s" "get_cluster i (rs_db s) = Inr c"
    "the_credential i (rs_db s) = Inr cr" "token_changed q"
    "\<And>r t j. snapshot_of E i (stored t) = Inr (k\<lparr>conn_cluster_id := i, conn_credential_id := j\<rparr>) \<Longrightarrow>
       rs_calls t = rs_calls s \<Longrightarrow> Q r t"
  shows "wp (apply_update E i q k c cr) (\<lambda>x. wp (case x of (c3, cr3) \<Rightarrow> thenM (auditM (ce_env E) sv (ev c3 cr3))
     (thenM commit_or_conflict (returnM (f c3 cr3)))) Q (\<lambda>_ _. True)) (\<lambda>_ _. True) s"
  by (rule wp_mono[OF wp_apply_token_update[OF assms(1-6)]])
    (auto simp: wp_rules commit_or_conflict_def stored_def split: prod.splits intro: assms(7))

lemma wp_probed_calls:
  assumes "connection_changed q" "others_good E" "settled s"
  shows "wp (probed_rows E i q k c cr) (\<lambda>(c2, cr2) t. settled t \<and> get_cluster i (rs_db t) = Inr c2 \<and>
     the_credential i (rs_db t) = Inr cr2 \<and> rs_calls t = rs_calls s @ [called ''test_connection'' k None])
     (\<lambda>_ t. rs_calls t = rs_calls s \<or> (\<exists>e. rs_calls t = rs_calls s @ [called ''test_connection'' k e])) s"
proof -
  let ?s = "s\<lparr>rs_db := hd (rs_commits s)\<rparr>"
  have "settled ?s" by (rule settled_rollback[OF settled_commits[OF assms(3)]])
  then have "wp (probe E k) (\<lambda>_ t. settled t \<and> rs_calls t = rs_calls s @ [called ''test_connection'' k None])
      (\<lambda>_ t. settled t \<and> (rs_calls t = rs_calls s \<or> (\<exists>e. rs_calls t = rs_calls s @ [called ''test_connection'' k e]))) ?s"
    unfolding probe_def by (intro wp_conj tidy_call_client(2)[OF assms(2)] wp_call_client) auto
  then show ?thesis
    using assms(1) by (auto simp: probed_rows_def wp_rules split: sum.splits elim!: wp_mono)
qed

lemma updated_connection_secret [simp]: "conn_token_secret (updated_connection q c cr secret) = secret"
  by (simp add: updated_connection_def)

text \<open>
  A changed token is stored as it was probed, whatever other transactions did during the probe:
  the one call went to the address, with the CA bundle, token and secret that later calls read back.
\<close>
theorem changed_token_connects:
  assumes "aead_ok (ce_aead E)" "clusters_good d" "others_good E"
    "cu_token_secret q = Some secret" "is_ascii secret"
    "update_cluster E sv i q (start_run d w) = (Inr r, s)"
  shows "\<exists>k. snapshot_of E i (stored s) = Inr k \<and> conn_token_secret k = secret \<and>
     rs_calls s = [called ''test_connection'' k None]"
proof -
  have changed: "connection_changed q" "token_changed q"
    using assms(4) by (simp_all add: connection_changed_def token_changed_def)
  have s0: "settled (start_run d w)" by (rule settled_start[OF assms(2)])
  have "wp (update_cluster E sv i q) (\<lambda>r s. \<exists>k. snapshot_of E i (stored s) = Inr k \<and> conn_token_secret k = secret \<and>
     rs_calls s = [called ''test_connection'' k None]) (\<lambda>_ _. True) (start_run d w)"
    using assms(4,5) changed s0
    by (auto simp: update_cluster_def wp_thenM wp_bindM wp_liftM wp_readR wp_if wp_raiseM wp_returnM Let_def
        split: sum.splits option.splits prod.splits
        intro!: wp_mono[OF wp_probed_calls[OF changed(1) assms(3) s0]] wp_token_tail[OF assms(1) _ _ _ _ changed(2)])
  then show ?thesis using assms(6) by (simp add: wp_def)
qed

section \<open>Where a stored secret is sent\<close>

definition quiet :: "('w, 'a) rm \<Rightarrow> bool" where
  "quiet m \<longleftrightarrow> (\<forall>cs. keeps (\<lambda>s. rs_calls s = cs) m)"

lemma quietD: "quiet m \<Longrightarrow> wp m (\<lambda>_ t. rs_calls t = rs_calls s) (\<lambda>_ t. rs_calls t = rs_calls s) s"
  by (simp add: quiet_def keeps_def)

lemma quiet_bindM: "quiet m \<Longrightarrow> (\<And>x. quiet (f x)) \<Longrightarrow> quiet (bindM m f)"
  by (simp add: quiet_def keeps_bindM)

lemma quiet_thenM: "quiet m \<Longrightarrow> quiet k \<Longrightarrow> quiet (thenM m k)"
  by (simp add: quiet_def keeps_thenM)

lemma quiet_if: "quiet m \<Longrightarrow> quiet n \<Longrightarrow> quiet (if b then m else n)"
  by simp

lemma quiet_basic:
  "quiet (returnM x)" "quiet (raiseM e)" "quiet (liftM r)" "quiet (readM g)" "quiet (writeM h)" "quiet commitM"
  "quiet rollbackM" "quiet (nowM V)" "quiet (uuid4M V)" "quiet (nonceM E)" "quiet (readR f)" "quiet (auditM (ce_env E) sv ev)"
  "quiet (commit_or e')"
  by (auto simp: quiet_def keeps_def wp_rules split: sum.splits prod.splits)

lemmas quiet_rules = quiet_bindM quiet_thenM quiet_if quiet_basic

lemma quiet_apply_update: "quiet (apply_update E i q k c cr)"
  unfolding apply_update_def replace_credential_def Let_def by (intro quiet_rules)

lemma quiet_update_tail:
  "quiet (bindM (apply_update E i q k c cr) (\<lambda>x. case x of (c3, cr3) \<Rightarrow>
     thenM (auditM (ce_env E) sv (ev c3 cr3)) (thenM commit_or_conflict (returnM (f c3 cr3)))))"
  unfolding commit_or_conflict_def case_prod_beta by (intro quiet_rules quiet_apply_update)

lemma unchanged_connection:
  assumes "clusters_good d" "get_cluster i d = Inr c" "the_credential i d = Inr cr"
    "\<not> identity_changed (updated_connection q c cr []) c cr" "cluster_decrypt E i cr = Inr secret"
  shows "snapshot_of E i d = Inr (updated_connection q c cr secret)"
proof -
  have c: "c \<in> set (clusters d)" "cl_id c = i"
    using assms(2) get_row_Some[of cl_id "clusters d" i c] by (simp_all add: get_cluster_Inr)
  have "active_credentials d i \<noteq> []"
    using assms(3) active_credentials_hd[of d i cr] by (auto simp: the_credential_Inr)
  then have "cl_is_active c" using assms(1) c by (simp add: clusters_good_def credentials_match_def)
  then show ?thesis
    using assms(2-5) c(2) by (simp add: snapshot_of_def identity_changed_def updated_connection_def)
qed

text \<open>
  C32. A stored secret stays with its endpoint.  A request that does not bring the token secret along
  makes at most calls with exactly the stored address, CA bundle, token and secret, however it tries to
  change them; so nobody can have a stored secret sent to an address of their choice.
\<close>
theorem stored_secret_stays_with_its_endpoint:
  assumes "clusters_good d" "cu_token_secret q = None" "others_good E"
    "x \<in> set (rs_calls (snd (update_cluster E sv i q (start_run d w))))"
  shows "\<exists>k. snapshot_of E i d = Inr k \<and> call_args x = connection_args k"
proof -
  define P :: "'a rs \<Rightarrow> bool" where
    "P = (\<lambda>s. \<forall>x \<in> set (rs_calls s). \<exists>k. snapshot_of E i d = Inr k \<and> call_args x = connection_args k)"
  have start: "P (start_run d w)" by (simp add: P_def)
  have called: "P t" if "rs_calls t = [] \<or> (\<exists>e. rs_calls t = [called nm k e])" "snapshot_of E i d = Inr k" for t nm k
    using that by (auto simp: P_def called_def)
  have s0: "settled (start_run d w)" by (rule settled_start[OF assms(1)])
  have rows: "wp (probed_rows E i q k c cr) (\<lambda>_. P) (\<lambda>_. P) (start_run d w)" if "snapshot_of E i d = Inr k" for k c cr
  proof (cases "connection_changed q")
    case True
    from wp_probed_calls[OF True assms(3) s0, of i k c cr] show ?thesis
      by (rule wp_mono) (use called[OF _ that] in auto)
  next
    case False
    then show ?thesis using start by (simp add: probed_rows_def wp_returnM)
  qed
  have tail: "wp (bindM (apply_update E i q k c cr) (\<lambda>x. case x of (c3, cr3) \<Rightarrow>
      thenM (auditM (ce_env E) sv (ev c3 cr3)) (thenM commit_or_conflict (returnM (f c3 cr3))))) (\<lambda>_. P) (\<lambda>_. P) t"
    if "P t" for k c cr ev f t
    by (rule wp_mono[OF quietD[OF quiet_update_tail]]) (use that in \<open>auto simp: P_def\<close>)
  have "wp (update_cluster E sv i q) (\<lambda>_. P) (\<lambda>_. P) (start_run d w)"
    using assms(2) start unchanged_connection[OF assms(1)]
    by (auto simp: update_cluster_def wp_thenM wp_bindM[of "liftM _"] wp_bindM[of "readR _"] wp_bindM[of "probed_rows _ _ _ _ _ _"]
        wp_liftM wp_readR wp_if wp_raiseM Let_def split: sum.splits prod.splits intro!: wp_mono[OF rows] tail)
  then show ?thesis
    using assms(4) by (auto simp: wp_def P_def split: prod.splits sum.splits)
qed

end
