(* ===== verification/Cluster_Inventory.thy ===== *)
theory Cluster_Inventory
  imports Cluster_Properties
begin

text \<open>
  The import of guests against a reference definition, the removal of a cluster, and the change of a
  cluster that another transaction changes at the same time.
\<close>

section \<open>Import against a reference\<close>

text \<open>
  The reference: a row of the cluster is observed as the guest with its VMID, every other row stays as it
  is, and the guests without a row are appended in their order.
\<close>

definition row_key :: "workload \<Rightarrow> uuid \<times> int" where
  "row_key w = (wl_cluster_id w, wl_vmid w)"




lemma observe_fields [simp]:
  "wl_id (observe now g w) = wl_id w" "wl_cluster_id (observe now g w) = wl_cluster_id w"
  "wl_vmid (observe now g w) = wl_vmid w" "row_key (observe now g w) = row_key w"
  by (simp_all add: observe_def row_key_def)

lemma found_fields [simp]:
  "wl_id (found_workload k i now g) = k" "row_key (found_workload k i now g) = (i, gu_vmid g)"
  "wl_cluster_id (found_workload k i now g) = i" "wl_vmid (found_workload k i now g) = gu_vmid g"
  by (simp_all add: found_workload_def row_key_def)











section \<open>Removal\<close>








section \<open>A concurrent change\<close>

lemma wp_probed_commits:
  assumes "connection_changed q" "rs_commits s = [d]"
  shows "wp (probed_rows E i q k c cr) (\<lambda>(c2, cr2) t. get_cluster i (rs_db t) = Inr c2 \<and>
     the_credential i (rs_db t) = Inr cr2 \<and> rs_commits t = [rs_db t, d]) (\<lambda>_ _. True) s"
  using assms by (auto simp: probed_rows_def probe_def call_client_def wp_rules elsewhere_def
      split: sum.splits prod.splits)

lemma touched_snapshot:
  assumes "get_cluster i d = Inr c" "the_credential i d = Inr cr" "snapshot_of E i d = Inr k2"
  shows "snapshot_of E i (put_credential (cred_id cr) (\<lambda>x. x\<lparr>cred_last_used_at := Some now\<rparr>)
       (put_cluster i (mark_connected now) (put_cluster i (updated_cluster q k) d))) =
     Inr (k2\<lparr>conn_api_base_url := conn_api_base_url k, conn_ca_bundle_pem := conn_ca_bundle_pem k\<rparr>)"
proof -
  let ?d = "put_credential (cred_id cr) (\<lambda>x. x\<lparr>cred_last_used_at := Some now\<rparr>)
       (put_cluster i (mark_connected now) (put_cluster i (updated_cluster q k) d))"
  have c: "get_row cl_id (clusters d) i = Some c" using assms(1) by (simp add: get_cluster_Inr)
  have "get_cluster i ?d = Inr (mark_connected now (updated_cluster q k c))"
    using c get_row_Some[OF c]
    by (simp add: get_cluster_def put_cluster_def put_credential_def get_modify_row_at mark_connected_def updated_cluster_def)
  moreover have "the_credential i ?d = Inr (cr\<lparr>cred_last_used_at := Some now\<rparr>)"
    using assms(2) unfolding the_credential_Inr active_credential_def put_cluster_def put_credential_def
    by (simp add: find_modify_row)
  ultimately show ?thesis
    using assms by (auto simp: snapshot_of_def mark_connected_def updated_cluster_def cluster_decrypt_def
        bind_result_Inr_iff split: if_splits option.splits)
qed

lemma unchanged_endpoint:
  assumes "\<not> identity_changed (updated_connection q c cr []) c cr"
  shows "conn_api_base_url (updated_connection q c cr secret) = cl_api_base_url c"
    "conn_ca_bundle_pem (updated_connection q c cr secret) = cl_ca_bundle_pem c"
  using assms by (auto simp: identity_changed_def updated_connection_def)

text \<open>
  C35. What another request changes while the probe waits is lost without a conflict.  A request that
  touches the connection but not the token takes a state that others have left meanwhile, writes the
  address and CA bundle it had read before back over theirs and keeps their credential: a secret that
  was entered for the new address is from then on sent to the old one.
\<close>
theorem concurrent_endpoint_change_is_lost:
  assumes "update_cluster E sv i q (start_run d w) = (Inr r, s)" "connection_changed q" "\<not> token_changed q"
    "get_row cl_id (clusters d) i = Some c"
  shows "\<exists>d2. rs_commits s = [stored s, d2, d] \<and> (\<forall>k2. snapshot_of E i d2 = Inr k2 \<longrightarrow>
     snapshot_of E i (stored s) =
       Inr (k2\<lparr>conn_api_base_url := cl_api_base_url c, conn_ca_bundle_pem := cl_ca_bundle_pem c\<rparr>))"
proof -
  have no_token: "cu_token_secret q = None" using assms(3) by (simp add: token_changed_def)
  have tail: "wp (apply_update E i q k c2 cr2) (\<lambda>x. wp (case x of (c3, cr3) \<Rightarrow> thenM (auditM (ce_env E) sv (ev c3 cr3))
       (thenM commit_or_conflict (returnM (f c3 cr3)))) (\<lambda>_ s. \<exists>d2. rs_commits s = [stored s, d2, d] \<and>
         (\<forall>k2. snapshot_of E i d2 = Inr k2 \<longrightarrow> snapshot_of E i (stored s) =
            Inr (k2\<lparr>conn_api_base_url := cl_api_base_url c, conn_ca_bundle_pem := cl_ca_bundle_pem c\<rparr>)))
       (\<lambda>_ _. True)) (\<lambda>_ _. True) t"
    if "conn_api_base_url k = cl_api_base_url c" "conn_ca_bundle_pem k = cl_ca_bundle_pem c" "get_cluster i (rs_db t) = Inr c2" "the_credential i (rs_db t) = Inr cr2" "rs_commits t = [rs_db t, d]"
    for k c2 cr2 t ev f
    using that assms(2,3)
    by (auto simp: touched_snapshot[OF that(3,4)] apply_update_def Let_def wp_rules commit_or_conflict_def stored_def split: prod.splits)
  have "wp (update_cluster E sv i q) (\<lambda>_ s. \<exists>d2. rs_commits s = [stored s, d2, d] \<and> (\<forall>k2. snapshot_of E i d2 = Inr k2 \<longrightarrow>
     snapshot_of E i (stored s) =
       Inr (k2\<lparr>conn_api_base_url := cl_api_base_url c, conn_ca_bundle_pem := cl_ca_bundle_pem c\<rparr>))) (\<lambda>_ _. True) (start_run d w)"
    using assms(4) no_token
    by (auto simp: update_cluster_def wp_thenM wp_bindM wp_liftM wp_readR wp_if wp_raiseM Let_def
        get_cluster_def[of i d] split: sum.splits prod.splits
        intro!: wp_mono[OF wp_probed_commits[OF assms(2)]] tail unchanged_endpoint)
  then show ?thesis using assms(1) by (simp add: wp_def)
qed

end
