(* ===== verification/Cluster_Demo.thy ===== *)
theory Cluster_Demo
  imports Cluster_Inventory Ipam_Demo
begin

text \<open>
  The properties of the cluster service on a small installation: a client that answers every request,
  and a cluster registered at it.
\<close>

definition demo_guest :: guest_response where
  "demo_guest = \<lparr>gu_vmid = 200, gu_node = Some ''n1'', gu_type = ''qemu'', gu_name = Some ''db'', gu_status = Some ''running'',
     gu_cpu = None, gu_maxcpu = Some 2, gu_mem = None, gu_maxmem = Some 1024, gu_disk = None, gu_maxdisk = Some 4096,
     gu_uptime = None, gu_template = None\<rparr>"

definition demo_answering :: "nat proxmox_client" where
  "demo_answering = \<lparr>px_base_url = ''https://pve.lab:8006'', px_policy = (\<lambda>_. demo_policy),
     px_send = (\<lambda>q w. (Inr \<lparr>hr_status = 200, hr_json = Some (JObj [(''data'',
       if hq_path q = ''/api2/json/version'' then JObj [] else JList [JObj []])])\<rparr>, w))\<rparr>"

definition demo_cluster_env :: "nat cluster_env" where
  "demo_cluster_env = \<lparr>ce_env = \<lparr>re_now = (\<lambda>w. (7, w)), re_uuid4 = (\<lambda>w. (100 + w, Suc w)), re_sleep = (\<lambda>_ w. w)\<rparr>,
     ce_aead = \<lparr>hkdf_sha256 = (\<lambda>_ _ k. k), aesgcm_encrypt = (\<lambda>_ _ p _. p), aesgcm_decrypt = (\<lambda>_ _ c _. Some c)\<rparr>,
     ce_key = ''k'', ce_nonce = (\<lambda>w. ([1], w)), ce_connect = (\<lambda>_. Inr demo_answering), ce_node = (\<lambda>_. None),
     ce_guest = (\<lambda>_. Some demo_guest), ce_storage = (\<lambda>_. None), ce_created_at = (\<lambda>_. 0), ce_others = (\<lambda>w d. (d, w))\<rparr>"

definition demo_url :: http_url where
  "demo_url = \<lparr>hu_scheme = ''https'', hu_username = None, hu_password = None, hu_query = None, hu_fragment = None,
     hu_text = ''https://pve.lab:8006/''\<rparr>"

definition demo_create :: cluster_create where
  "demo_create = \<lparr>cq_name = ''lab'', cq_api_base_url = demo_url, cq_token_identifier = ''svc@pve!api'',
     cq_token_secret = ''s'', cq_ca_bundle_pem = None\<rparr>"

lemma demo_endpoint: "validate_endpoint demo_policy ''https://pve.lab:8006'' = Inr ()"
  by code_simp

lemma demo_answers:
  "client_test_connection demo_answering w = (Inr [(''version'', JNull), (''release'', JNull),
     (''capabilities'', JObj [(''nodes'', JBool True), (''guests'', JBool True), (''storages'', JBool True)])], w)"
  "client_get_guests demo_answering w = (Inr [[]], w)"
  by (simp_all add: client_test_connection_def client_get_guests_def answer_def request_data_def response_data_def
      demo_answering_def demo_endpoint get_request_def resources_def dict_get_def)

lemma demo_env_fields:
  "re_now (ce_env demo_cluster_env) = (\<lambda>w. (7, w))" "re_uuid4 (ce_env demo_cluster_env) = (\<lambda>w. (100 + w, Suc w))"
  "ce_nonce demo_cluster_env = (\<lambda>w. ([1], w))" "ce_connect demo_cluster_env = (\<lambda>_. Inr demo_answering)"
  "ce_guest demo_cluster_env = (\<lambda>_. Some demo_guest)" "ce_others demo_cluster_env = (\<lambda>w d. (d, w))"
  by (simp_all add: demo_cluster_env_def)

lemmas demo_cluster_run = demo_env_fields bindM_def thenM_def liftM_def returnM_def raiseM_def readM_def writeM_def
  readR_def nowM_def uuid4M_def nonceM_def auditM_def away_def elsewhere_def callM_def rollbackM_def commitM_def commit_or_def
  commit_or_conflict_def catch_app_def probe_def Let_def call_client_def demo_answers stored_def start_run_def

abbreviation demo_boss :: service where
  "demo_boss \<equiv> demo_service demo_admin 5"

lemma demo_boss_allowed [simp]: "cluster_init demo_boss = Inr ()"
  by (simp add: cluster_init_def require_service_role_def demo_service_def demo_admin_def)

lemma demo_integrity_clusters:
  assumes "cred_cluster_id cr = cl_id c" "list_all (\<lambda>w. wl_cluster_id w = cl_id c \<and> wl_organization_id w = None) ws"
    "distinct (map wl_id ws)" "distinct (map (\<lambda>w. (wl_cluster_id w, wl_vmid w)) ws)"
    "list_all (\<lambda>x. cred_cluster_id x = cl_id c \<and> \<not> cred_is_active x) crs" "distinct (map cred_id (crs @ [cr]))"
  shows "integrity (empty_db\<lparr>clusters := [c], credentials := crs @ [cr], workloads := ws\<rparr>)"
  using assms integrity_empty
  by (auto simp: integrity_defs empty_db_def clusters_ok_def credentials_ok_def workloads_ok_def unique_on_def fk_def fk_opt_def
      list_all_iff filter_empty_conv)

lemma demo_integrity_registered:
  "cred_cluster_id cr = cl_id c \<Longrightarrow> integrity (empty_db\<lparr>clusters := [c], credentials := [cr]\<rparr>)"
  using demo_integrity_clusters[of cr c "[]" "[]"] by (simp add: empty_db_def)

lemma demo_integrity_replaced:
  "cred_cluster_id old = cl_id c \<Longrightarrow> cred_cluster_id cr = cl_id c \<Longrightarrow> \<not> cred_is_active old \<Longrightarrow> cred_id old \<noteq> cred_id cr \<Longrightarrow>
   integrity (empty_db\<lparr>clusters := [c], credentials := [old, cr]\<rparr>)"
  using demo_integrity_clusters[of cr c "[]" "[old]"] by (simp add: empty_db_def)

lemma demo_new_rows: "cred_cluster_id (new_credential k i ident x now) = i" "cl_is_active (new_cluster q k2 now)"
  by (simp_all add: new_credential_def new_cluster_def)

lemma empty_db_rows [simp]: "clusters empty_db = []" "credentials empty_db = []" "workloads empty_db = []"
  by (simp_all add: empty_db_def)

lemma demo_others_good: "others_good demo_cluster_env"
  by (simp add: others_good_def demo_cluster_env_def)

lemma demo_aead_ok: "aead_ok (ce_aead demo_cluster_env)"
  by (simp add: aead_ok_def demo_cluster_env_def)

lemma demo_registration:
  "is_ok (fst (create_cluster demo_cluster_env demo_boss demo_create (start_run empty_db 0)))"
  "clusters (stored (snd (create_cluster demo_cluster_env demo_boss demo_create (start_run empty_db 0)))) =
     [new_cluster demo_create (create_connection demo_create 100 101) 7]"
  by (simp_all add: create_cluster_def demo_cluster_run demo_integrity_registered new_row_ids demo_new_rows)

theorem created_cluster_connects_witness:
  "\<exists>r s k. create_cluster demo_cluster_env demo_boss demo_create (start_run empty_db 0) = (Inr r, s) \<and>
     snapshot_of demo_cluster_env (clr_id r) (stored s) = Inr k \<and> conn_token_secret k = ''s''"
proof -
  obtain r s where run: "create_cluster demo_cluster_env demo_boss demo_create (start_run empty_db 0) = (Inr r, s)"
    using demo_registration(1) by (cases "create_cluster demo_cluster_env demo_boss demo_create (start_run empty_db 0)"
        rule: prod.exhaust) (auto elim!: is_ok.elims)
  have "is_ascii (cq_token_secret demo_create)" by (simp add: is_ascii_def demo_create_def)
  from created_cluster_connects[OF demo_aead_ok this run] run show ?thesis
    by (metis (no_types, lifting) cluster_connection.simps(6) cluster_create.simps(4) create_connection_def demo_create_def)
qed

theorem active_cluster_has_one_credential_witness:
  "\<exists>d c. (cluster_step demo_cluster_env)\<^sup>*\<^sup>* empty_db d \<and> c \<in> set (clusters d) \<and> length (active_credentials d (cl_id c)) = 1"
proof -
  let ?d = "stored (snd (create_cluster demo_cluster_env demo_boss demo_create (start_run empty_db 0)))"
  let ?c = "new_cluster demo_create (create_connection demo_create 100 101) 7"
  have "clusters_good empty_db" by (simp add: clusters_good_def integrity_empty credentials_match_def)
  moreover have steps: "(cluster_step demo_cluster_env)\<^sup>*\<^sup>* empty_db ?d"
    by (rule r_into_rtranclp, rule cluster_create[of _ _ demo_boss demo_create _ 0])
      (simp add: stored_def create_cluster_def demo_cluster_run demo_integrity_registered new_row_ids demo_new_rows)
  moreover have c: "?c \<in> set (clusters ?d)" by (simp add: demo_registration(2))
  ultimately have "length (active_credentials ?d (cl_id ?c)) = (if cl_is_active ?c then 1 else 0)"
    using active_cluster_has_one_credential[OF _ _ demo_others_good] by blast
  then have "length (active_credentials ?d (cl_id ?c)) = 1" by (simp add: demo_new_rows)
  with steps c show ?thesis by blast
qed

section \<open>A registered cluster\<close>

definition demo_site :: cluster where
  "demo_site = \<lparr>cl_id = 3, cl_name = ''lab'', cl_api_base_url = ''https://pve.lab:8006'', cl_ca_bundle_pem = None,
     cl_is_active = True, cl_last_connection_error_code = None, cl_last_connected_at = None, cl_disabled_at = None,
     cl_version = 1\<rparr>"

definition demo_token :: cluster_credential where
  "demo_token = \<lparr>cred_id = 9, cred_cluster_id = 3, cred_token_identifier = ''svc@pve!api'',
     cred_secret_ciphertext = encode ''s'', cred_secret_nonce = [1], cred_key_version = ''v1'', cred_is_active = True,
     cred_last_used_at = None, cred_retired_at = None\<rparr>"

definition demo_registered :: db where
  "demo_registered = empty_db\<lparr>clusters := [demo_site], credentials := [demo_token]\<rparr>"

definition demo_update :: cluster_update where
  "demo_update = \<lparr>cu_name = None, cu_api_base_url = None, cu_token_identifier = None, cu_token_secret = None,
     cu_ca_bundle_pem = None, cu_clear_ca_bundle = False, cu_version = None\<rparr>"

lemma demo_registered_good: "clusters_good demo_registered"
proof -
  have "integrity demo_registered"
    unfolding demo_registered_def by (rule demo_integrity_registered) (simp add: demo_token_def demo_site_def)
  then show ?thesis
    by (simp add: clusters_good_def credentials_match_def active_credentials_def demo_registered_def demo_site_def demo_token_def)
qed

lemma demo_rows:
  "get_cluster 3 demo_registered = Inr demo_site" "the_credential 3 demo_registered = Inr demo_token"
  by (simp_all add: get_cluster_def the_credential_def active_credential_def demo_registered_def demo_site_def demo_token_def
      table_simps)

lemma demo_secret: "cluster_decrypt demo_cluster_env 3 demo_token = Inr ''s''"
  by (simp add: cluster_decrypt_def credential_decrypt_def demo_cluster_env_def demo_token_def decode_encode is_ascii_def)

lemma demo_same_url: "normalize_url demo_url = cl_api_base_url demo_site"
  by (simp add: normalize_url_def demo_url_def demo_site_def)

lemma ok_result: "is_ok (fst p) \<Longrightarrow> \<exists>r s. p = (Inr r, s)"
  by (cases p, cases "fst p") auto

lemma demo_changes: "connection_changed (demo_update\<lparr>cu_token_secret := Some t\<rparr>)" "token_changed (demo_update\<lparr>cu_token_secret := Some t\<rparr>)"
  "connection_changed (demo_update\<lparr>cu_api_base_url := Some u\<rparr>)" "\<not> token_changed (demo_update\<lparr>cu_api_base_url := Some u\<rparr>)"
  "cu_version demo_update = None" "cu_token_secret demo_update = None"
  by (simp_all add: connection_changed_def token_changed_def demo_update_def)

lemma demo_puts:
  "cl_id (updated_cluster q k c) = cl_id c" "cl_id (mark_connected now c) = cl_id c" "cl_id (tombstone now c) = cl_id c"
  "cred_id (retire now cr) = cred_id cr" "cred_cluster_id (retire now cr) = cred_cluster_id cr" "\<not> cred_is_active (retire now cr)"
  "cl_id demo_site = 3" "cred_id demo_token = 9" "cred_cluster_id demo_token = 3" "cl_is_active demo_site"
  "cred_id (new_credential j i ident x now) = j"
  by (simp_all add: updated_cluster_def mark_connected_def tombstone_def retire_def demo_site_def demo_token_def new_credential_def)

lemmas demo_cluster_writes = probed_rows_def apply_update_def replace_credential_def put_cluster_def put_credential_def
  modify_row_def demo_puts demo_changes demo_rows demo_registered_def demo_new_rows demo_integrity_registered
  demo_integrity_replaced

text \<open>A new secret.\<close>

lemma demo_replaced:
  "is_ok (fst (update_cluster demo_cluster_env demo_boss 3 (demo_update\<lparr>cu_token_secret := Some ''t''\<rparr>) (start_run demo_registered 0)))"
  using demo_rows by (simp add: update_cluster_def demo_cluster_run demo_cluster_writes)

theorem changed_token_connects_witness:
  "\<exists>r s k. update_cluster demo_cluster_env demo_boss 3 (demo_update\<lparr>cu_token_secret := Some ''t''\<rparr>) (start_run demo_registered 0) =
     (Inr r, s) \<and> snapshot_of demo_cluster_env 3 (stored s) = Inr k \<and> conn_token_secret k = ''t''"
proof -
  obtain r s where run: "update_cluster demo_cluster_env demo_boss 3 (demo_update\<lparr>cu_token_secret := Some ''t''\<rparr>)
      (start_run demo_registered 0) = (Inr r, s)" using ok_result[OF demo_replaced] by blast
  show ?thesis
    using changed_token_connects[OF demo_aead_ok demo_registered_good demo_others_good _ _ run, of "''t''"] run
    by (auto simp: is_ascii_def)
qed

text \<open>An address without the secret: the stored one is sent to the stored address.\<close>

lemma demo_same_identity:
  "\<not> identity_changed (updated_connection (demo_update\<lparr>cu_api_base_url := Some demo_url\<rparr>) demo_site demo_token []) demo_site demo_token"
  using demo_same_url by (simp add: identity_changed_def updated_connection_def demo_update_def demo_site_def)

lemma demo_probed:
  "called ''test_connection'' (updated_connection (demo_update\<lparr>cu_api_base_url := Some demo_url\<rparr>) demo_site demo_token ''s'') None
   \<in> set (rs_calls (snd (update_cluster demo_cluster_env demo_boss 3 (demo_update\<lparr>cu_api_base_url := Some demo_url\<rparr>)
       (start_run demo_registered 0))))"
  using demo_rows
  by (simp add: update_cluster_def demo_cluster_run demo_cluster_writes demo_same_identity demo_secret called_def)

theorem stored_secret_stays_with_its_endpoint_witness:
  "\<exists>k. snapshot_of demo_cluster_env 3 demo_registered = Inr k \<and>
     connection_args (updated_connection (demo_update\<lparr>cu_api_base_url := Some demo_url\<rparr>) demo_site demo_token ''s'') = connection_args k"
  using stored_secret_stays_with_its_endpoint[OF demo_registered_good _ demo_others_good demo_probed]
  by (simp add: demo_changes called_def)

section \<open>Import and removal\<close>









lemma demo_order: "d\<lparr>credentials := crs, clusters := cs\<rparr> = d\<lparr>clusters := cs, credentials := crs\<rparr>"
  by simp



section \<open>A change during the probe\<close>

text \<open>Meanwhile another administrator moves the cluster to a new address with a new secret.\<close>

definition demo_moved_site :: cluster where
  "demo_moved_site = demo_site\<lparr>cl_api_base_url := ''https://new.lab:8006'', cl_version := 2\<rparr>"

definition demo_moved_token :: cluster_credential where
  "demo_moved_token = demo_token\<lparr>cred_id := 10, cred_secret_ciphertext := encode ''n''\<rparr>"

definition demo_moved :: db where
  "demo_moved = empty_db\<lparr>clusters := [demo_moved_site], credentials := [demo_moved_token]\<rparr>"

definition demo_moving :: "nat cluster_env" where
  "demo_moving = demo_cluster_env\<lparr>ce_others := (\<lambda>w d. (demo_moved, w))\<rparr>"

lemma demo_moving_fields:
  "ce_env demo_moving = ce_env demo_cluster_env" "ce_connect demo_moving = ce_connect demo_cluster_env"
  "ce_others demo_moving = (\<lambda>w d. (demo_moved, w))" "cluster_decrypt demo_moving = cluster_decrypt demo_cluster_env"
  by (simp_all add: demo_moving_def fun_eq_iff cluster_decrypt_def)

lemma demo_moved_rows:
  "get_cluster 3 demo_moved = Inr demo_moved_site" "the_credential 3 demo_moved = Inr demo_moved_token"
  "cl_id demo_moved_site = 3" "cred_id demo_moved_token = 10" "cred_cluster_id demo_moved_token = 3" "cl_is_active demo_moved_site"
  by (simp_all add: demo_moved_def demo_moved_site_def demo_moved_token_def get_cluster_def the_credential_def
      active_credential_def demo_site_def demo_token_def table_simps)

lemma demo_moved_run:
  "is_ok (fst (update_cluster demo_moving demo_boss 3 (demo_update\<lparr>cu_api_base_url := Some demo_url\<rparr>) (start_run demo_registered 0)))"
  "rs_commits (snd (update_cluster demo_moving demo_boss 3 (demo_update\<lparr>cu_api_base_url := Some demo_url\<rparr>)
     (start_run demo_registered 0))) ! 1 = demo_moved"
  using demo_rows demo_moved_rows
  by (simp_all add: update_cluster_def demo_moving_fields demo_cluster_run demo_cluster_writes demo_same_identity demo_secret
      demo_moved_def demo_order)

lemma demo_moved_secret: "cluster_decrypt demo_moving 3 demo_moved_token = Inr ''n''"
  unfolding demo_moving_fields
  by (simp add: cluster_decrypt_def credential_decrypt_def demo_cluster_env_def demo_moved_token_def demo_token_def
      decode_encode is_ascii_def)

theorem concurrent_endpoint_change_is_lost_witness:
  "\<exists>r s k. update_cluster demo_moving demo_boss 3 (demo_update\<lparr>cu_api_base_url := Some demo_url\<rparr>) (start_run demo_registered 0) =
     (Inr r, s) \<and> snapshot_of demo_moving 3 (stored s) = Inr k \<and> conn_api_base_url k = ''https://pve.lab:8006'' \<and>
     conn_token_secret k = ''n''"
proof -
  obtain r s where run: "update_cluster demo_moving demo_boss 3 (demo_update\<lparr>cu_api_base_url := Some demo_url\<rparr>)
      (start_run demo_registered 0) = (Inr r, s)" using ok_result[OF demo_moved_run(1)] by blast
  have "get_row cl_id (clusters demo_registered) 3 = Some demo_site" using demo_rows(1) by (simp add: get_cluster_Inr)
  from concurrent_endpoint_change_is_lost[OF run _ _ this] obtain d2 where d2: "rs_commits s = [stored s, d2, demo_registered]"
    "\<And>k2. snapshot_of demo_moving 3 d2 = Inr k2 \<Longrightarrow> snapshot_of demo_moving 3 (stored s) = Inr (k2\<lparr>conn_api_base_url :=
       cl_api_base_url demo_site, conn_ca_bundle_pem := cl_ca_bundle_pem demo_site\<rparr>)"
    by (auto simp: demo_changes)
  have "d2 = demo_moved" using demo_moved_run(2) run d2(1) by simp
  moreover obtain k2 where "snapshot_of demo_moving 3 demo_moved = Inr k2" "conn_token_secret k2 = ''n''"
    by (simp add: snapshot_of_def demo_moved_rows demo_moved_secret)
  ultimately show ?thesis using run d2(2)[of k2] by (simp add: demo_site_def)
qed

end
