(* ===== verification/Console.thy ===== *)
theory Console
  imports Customer_Portal Clusters Auth
begin

text \<open>
  Consoles: \<open>ConsoleSessionService\<close> and the functions of src/backend/app/services/console.py, with the
  WebSocket handler of src/backend/app/api/console.py up to the relay of the frames.  A console session is
  a hash in Redis that one WebSocket may take out; Redis and the relay are parameters on the outside world.
\<close>

section \<open>Redis\<close>

text \<open>
  The commands as the server carries them out, and the connection to it: a command that raises
  \<open>RedisError\<close> may have been carried out or not.  A Lua script runs on the server as one command.
\<close>

datatype redis_link = Link_up | Link_lost bool

record 'w redis =
  rd_link :: "'w \<Rightarrow> redis_link \<times> 'w"
  rd_hget :: "string \<Rightarrow> string \<Rightarrow> 'w \<Rightarrow> string option"
  rd_hgetall :: "string \<Rightarrow> 'w \<Rightarrow> (string \<times> string) list"
  rd_hset :: "string \<Rightarrow> (string \<times> string) list \<Rightarrow> 'w \<Rightarrow> 'w"
  rd_get :: "string \<Rightarrow> 'w \<Rightarrow> string option"
  rd_set_nx :: "string \<Rightarrow> string \<Rightarrow> int \<Rightarrow> 'w \<Rightarrow> bool \<times> 'w" \<comment> \<open>\<open>SET key value EX ttl NX\<close>\<close>
  rd_del :: "string \<Rightarrow> 'w \<Rightarrow> 'w"
  rd_incr :: "string \<Rightarrow> 'w \<Rightarrow> int \<times> 'w"
  rd_expire :: "string \<Rightarrow> int \<Rightarrow> 'w \<Rightarrow> 'w"

text \<open>\<open>None\<close> for a \<open>RedisError\<close>.\<close>

definition redis_command :: "'w redis \<Rightarrow> ('w \<Rightarrow> 'a \<times> 'w) \<Rightarrow> 'w \<Rightarrow> 'a option \<times> 'w" where
  "redis_command R f w = (case rd_link R w of
     (Link_up, w1) \<Rightarrow> (case f w1 of (x, w2) \<Rightarrow> (Some x, w2))
   | (Link_lost done_anyway, w1) \<Rightarrow> (None, if done_anyway then snd (f w1) else w1))"

definition redisM :: "'w redis \<Rightarrow> ('w \<Rightarrow> 'a \<times> 'w) \<Rightarrow> ('w, 'a option) rm" where
  "redisM R f s = (case redis_command R f (rs_world s) of (r, w) \<Rightarrow> (Inr r, s\<lparr>rs_world := w\<rparr>))"

text \<open>\<open>_CONSUME_SCRIPT\<close> and \<open>_RELEASE_SCRIPT\<close>; \<open>HGETALL\<close> answers with keys and values in turn.\<close>

definition flatten :: "(string \<times> string) list \<Rightarrow> string list" where
  "flatten kvs = concat (map (\<lambda>(k, v). [k, v]) kvs)"

definition consume_script :: "'w redis \<Rightarrow> string \<Rightarrow> string \<Rightarrow> 'w \<Rightarrow> string list \<times> 'w" where
  "consume_script R key hash w =
     (case rd_hget R key ''token_hash'' w of
        None \<Rightarrow> ([], w)
      | Some expected \<Rightarrow> if expected \<noteq> hash then ([], w) else (flatten (rd_hgetall R key w), rd_del R key w))"

definition release_script :: "'w redis \<Rightarrow> string \<Rightarrow> string \<Rightarrow> 'w \<Rightarrow> int \<times> 'w" where
  "release_script R key v w = (if rd_get R key w = Some v then (1, rd_del R key w) else (0, w))"

section \<open>Grants\<close>

record console_grant =
  cg_session_id :: uuid
  cg_user_id :: uuid
  cg_session_epoch :: int
  cg_role :: user_role
  cg_workload_id :: uuid
  cg_pve_kind :: string
  cg_pve_user :: "string option"
  cg_pve_port :: int
  cg_pve_ticket :: string

record 'w console_connection =
  cx_workload :: workload
  cx_client :: "'w proxmox_client"
  cx_proxy :: console_proxy

record console_session_response =
  csr_session_id :: uuid
  csr_websocket_path :: string
  csr_protocol_token :: string
  csr_console_type :: string
  csr_rfb_password :: "string option"
  csr_expires_in :: int

record 'w console_env =
  co_env :: "'w runner_env"
  co_redis :: "'w redis"
  co_settings :: settings
  co_crypto :: crypto
  co_token :: "'w \<Rightarrow> string \<times> 'w" \<comment> \<open>\<open>token_urlsafe(32)\<close>\<close>
  co_decrypt :: "cluster_credential \<Rightarrow> uuid \<Rightarrow> string option"
  co_connect :: "cluster \<Rightarrow> string \<Rightarrow> string \<Rightarrow> app_error + 'w proxmox_client"
  co_relay :: "'w console_connection \<Rightarrow> 'w \<Rightarrow> unit result \<times> 'w" \<comment> \<open>accept, connect, relay\<close>

text \<open>\<open>hashlib.sha256(token.encode()).hexdigest()\<close>\<close>

definition token_hash :: "'w console_env \<Rightarrow> string \<Rightarrow> string" where
  "token_hash E t = concat (map (\<lambda>b. hex_digits 2 (int b)) (sha256 (co_crypto E) (encode t)))"

definition session_key :: "uuid \<Rightarrow> string" where
  "session_key i = ''console:session:'' @ uuid_str i"

definition slot_key :: "uuid \<Rightarrow> uuid \<Rightarrow> string" where
  "slot_key u w = ''console:live:'' @ uuid_str u @ '':'' @ uuid_str w"

definition rate_key :: "uuid \<Rightarrow> string" where
  "rate_key u = ''console:rate:'' @ uuid_str u"

definition session_fields :: "principal \<Rightarrow> workload \<Rightarrow> console_proxy \<Rightarrow> string \<Rightarrow> (string \<times> string) list" where
  "session_fields p w px hash =
     [(''token_hash'', hash), (''user_id'', uuid_str (prin_user_id p)), (''session_epoch'', int_str (prin_session_epoch p)),
      (''role'', user_role_value (prin_role p)), (''workload_id'', uuid_str (wl_id w)), (''pve_kind'', cp_kind px),
      (''pve_user'', (case cp_user px of Some u \<Rightarrow> u | None \<Rightarrow> [])), (''pve_port'', int_str (cp_port px)),
      (''pve_ticket'', cp_ticket px)]"

text \<open>\<open>{values[i]: values[i + 1] for i in range(0, len(values), 2)}\<close>, the last value of a key winning.\<close>

fun pair_up :: "string list \<Rightarrow> (string \<times> string) list" where
  "pair_up (k # v # xs) = (k, v) # pair_up xs"
| "pair_up _ = []"

definition user_role_of_str :: "string \<Rightarrow> user_role option" where
  "user_role_of_str s = find (\<lambda>r. user_role_value r = s) [SUPER_ADMIN, OPERATOR, CUSTOMER]"

definition grant_of :: "uuid \<Rightarrow> (string \<times> string) list \<Rightarrow> console_grant option" where
  "grant_of i kvs =
     (let field = map_of (rev kvs) in
      case (Option.bind (field ''user_id'') uuid_of_str, Option.bind (field ''session_epoch'') py_int,
            Option.bind (field ''role'') user_role_of_str, Option.bind (field ''workload_id'') uuid_of_str) of
        (Some u, Some epoch, Some r, Some w) \<Rightarrow>
          (case (field ''pve_kind'', Option.bind (field ''pve_port'') py_int, field ''pve_ticket'') of
             (Some kind, Some port, Some ticket) \<Rightarrow>
               Some \<lparr>cg_session_id = i, cg_user_id = u, cg_session_epoch = epoch, cg_role = r, cg_workload_id = w,
                     cg_pve_kind = kind, cg_pve_user = or_str (field ''pve_user'') None, cg_pve_port = port,
                     cg_pve_ticket = ticket\<rparr>
           | _ \<Rightarrow> None)
      | _ \<Rightarrow> None)"

section \<open>Authorisation and the client\<close>

definition console_workload_row :: "principal \<Rightarrow> uuid \<Rightarrow> db \<Rightarrow> workload \<Rightarrow> bool" where
  "console_workload_row p i d w \<longleftrightarrow> wl_id w = i \<and> wl_is_present w \<and> \<not> wl_is_template w \<and>
     (prin_role p = CUSTOMER \<longrightarrow> wl_organization_id w \<noteq> None \<and> member_of d (prin_user_id p) (wl_organization_id w) \<and>
        active_organization d (wl_organization_id w))"

definition authorized_console_workload :: "principal \<Rightarrow> uuid \<Rightarrow> db \<Rightarrow> workload result" where
  "authorized_console_workload p i d =
     (if prin_role p \<notin> {CUSTOMER, SUPER_ADMIN, OPERATOR}
      then raise_app 403 ''FORBIDDEN'' ''You do not have permission to open a console.''
      else (case find (console_workload_row p i d) (workloads d) of
          Some w \<Rightarrow> Inr w
        | None \<Rightarrow> raise_app 404 (if prin_role p = CUSTOMER then ''VM_NOT_FOUND'' else ''WORKLOAD_NOT_FOUND'')
                     ''The workload was not found.''))"

definition build_console_client :: "'w console_env \<Rightarrow> workload \<Rightarrow> db \<Rightarrow> 'w proxmox_client option result" where
  "build_console_client E w d =
     (case (find (\<lambda>c. cl_id c = wl_cluster_id w \<and> cl_is_active c) (clusters d), active_credential d (wl_cluster_id w)) of
        (Some c, Some cr) \<Rightarrow>
          (case co_decrypt E cr (cl_id c) of
             None \<Rightarrow> Inr None
           | Some secret \<Rightarrow> (case co_connect E c (cred_token_identifier cr) secret of
               Inl e \<Rightarrow> Inl (App e) | Inr C \<Rightarrow> Inr (Some C)))
      | _ \<Rightarrow> Inr None)"

section \<open>Creating a session\<close>

definition session_unavailable :: exn where
  "session_unavailable = App (app_error 503 ''CONSOLE_SESSION_UNAVAILABLE'' ''A console session could not be created.'')"

definition try_redis :: "'w redis \<Rightarrow> ('w \<Rightarrow> 'a \<times> 'w) \<Rightarrow> ('w, 'a) rm" where
  "try_redis R f = bindM (redisM R f) (\<lambda>r. case r of Some x \<Rightarrow> returnM x | None \<Rightarrow> raiseM session_unavailable)"

definition unit_command :: "('w \<Rightarrow> 'w) \<Rightarrow> 'w \<Rightarrow> unit \<times> 'w" where
  "unit_command f w = ((), f w)"

definition check_rate_limit :: "'w console_env \<Rightarrow> uuid \<Rightarrow> ('w, unit) rm" where
  "check_rate_limit E u =
     bindM (try_redis (co_redis E) (rd_incr (co_redis E) (rate_key u))) (\<lambda>n.
     thenM (if n = 1 then try_redis (co_redis E) (unit_command (rd_expire (co_redis E) (rate_key u) 60)) else returnM ())
       (if console_sessions_per_minute (co_settings E) < n
        then raiseM (App (app_error 429 ''CONSOLE_RATE_LIMITED'' ''Too many console sessions were requested.''))
        else returnM ()))"

definition tokenM :: "'w console_env \<Rightarrow> ('w, string) rm" where
  "tokenM E s = (case co_token E (rs_world s) of (t, w) \<Rightarrow> (Inr t, s\<lparr>rs_world := w\<rparr>))"

definition console_event :: "service \<Rightarrow> workload \<Rightarrow> audit_event" where
  "console_event sv w = (service_event sv ''CONSOLE_SESSION_CREATED'' ''SUCCEEDED'' ''workload'' (wl_id w))
     \<lparr>ev_organization_id := wl_organization_id w, ev_workload_id := Some (wl_id w),
      ev_details := Some [(''console_kind'', JStr (workload_kind_value (wl_kind w)))]\<rparr>"

definition console_response :: "settings \<Rightarrow> uuid \<Rightarrow> string \<Rightarrow> workload \<Rightarrow> console_proxy \<Rightarrow> console_session_response" where
  "console_response S i t w px = \<lparr>csr_session_id = i, csr_websocket_path = ''/api/v1/console/ws/'' @ uuid_str i,
     csr_protocol_token = t, csr_console_type = (if wl_kind w = QEMU then ''NOVNC'' else ''TERMINAL''),
     csr_rfb_password = (if wl_kind w = QEMU then Some (cp_ticket px) else None),
     csr_expires_in = console_session_ttl_seconds S\<rparr>"

definition create_console_session ::
    "'w console_env \<Rightarrow> service \<Rightarrow> uuid \<Rightarrow> ('w, console_session_response) rm" where
  "create_console_session E sv wid =
     bindM (readR (authorized_console_workload (sv_principal sv) wid)) (\<lambda>w.
     if str_upper (wl_power_state w) \<noteq> ''RUNNING''
     then raiseM (App (app_error 409 ''CONSOLE_REQUIRES_RUNNING_GUEST'' ''The guest must be running before opening its console.''))
     else
       thenM (check_rate_limit E (prin_user_id (sv_principal sv)))
       (bindM (readR (build_console_client E w)) (\<lambda>client. case client of
          None \<Rightarrow> raiseM (App (app_error 503 ''CONSOLE_CLUSTER_UNAVAILABLE''
                    ''The Proxmox cluster is not available for console access.''))
        | Some C \<Rightarrow>
          bindM (callM ''create_console_proxy'' [JStr (workload_kind_value (wl_kind w)), JStr (wl_node w), JInt (wl_vmid w)]
                   (client_create_console_proxy C (workload_kind_value (wl_kind w)) (wl_node w) (wl_vmid w))) (\<lambda>px.
          bindM (uuid4M (co_env E)) (\<lambda>i.
          bindM (tokenM E) (\<lambda>t.
          thenM (try_redis (co_redis E) (unit_command (rd_hset (co_redis E) (session_key i)
                   (session_fields (sv_principal sv) w px (token_hash E t)))))
          (thenM (try_redis (co_redis E) (unit_command (rd_expire (co_redis E) (session_key i)
                   (console_session_ttl_seconds (co_settings E)))))
          (thenM (auditM (co_env E) sv (console_event sv w))
          (thenM commitM
          (returnM (console_response (co_settings E) i t w px)))))))))))"

section \<open>Using a session\<close>

definition consume_console_grant :: "'w console_env \<Rightarrow> uuid \<Rightarrow> string \<Rightarrow> ('w, console_grant option) rm" where
  "consume_console_grant E i t =
     bindM (redisM (co_redis E) (consume_script (co_redis E) (session_key i) (token_hash E t))) (\<lambda>r.
     returnM (case r of None \<Rightarrow> None | Some [] \<Rightarrow> None | Some (x # xs) \<Rightarrow> grant_of i (pair_up (x # xs))))"

definition grant_slot :: "console_grant \<Rightarrow> string" where
  "grant_slot g = slot_key (cg_user_id g) (cg_workload_id g)"

definition acquire_console_slot :: "'w redis \<Rightarrow> console_grant \<Rightarrow> int \<Rightarrow> ('w, bool) rm" where
  "acquire_console_slot R g ttl =
     bindM (redisM R (rd_set_nx R (grant_slot g) (uuid_str (cg_session_id g)) ttl)) (\<lambda>r. returnM (r = Some True))"

definition release_console_slot :: "'w redis \<Rightarrow> console_grant \<Rightarrow> ('w, unit) rm" where
  "release_console_slot R g =
     bindM (redisM R (release_script R (grant_slot g) (uuid_str (cg_session_id g)))) (\<lambda>_. returnM ())"

definition granted_principal :: "console_grant \<Rightarrow> db \<Rightarrow> principal option" where
  "granted_principal g d = (case get_user d (cg_user_id g) of
     None \<Rightarrow> None
   | Some u \<Rightarrow> if \<not> user_is_active u \<or> user_session_epoch u \<noteq> cg_session_epoch g \<or> user_role_of u \<noteq> cg_role g then None
     else Some \<lparr>prin_user_id = user_id u, prin_email = user_email u, prin_role = user_role_of u,
                prin_session_epoch = user_session_epoch u\<rparr>)"

definition grant_fits :: "console_grant \<Rightarrow> workload \<Rightarrow> bool" where
  "grant_fits g w \<longleftrightarrow> str_upper (wl_power_state w) = ''RUNNING'' \<and>
     cg_pve_kind g = (if wl_kind w = QEMU then ''qemu'' else ''lxc'') \<and>
     \<not> (cg_pve_kind g = ''lxc'' \<and> cg_pve_user g = None)"

definition load_console_connection :: "'w console_env \<Rightarrow> console_grant \<Rightarrow> db \<Rightarrow> 'w console_connection option result" where
  "load_console_connection E g d =
     (case granted_principal g d of
        None \<Rightarrow> Inr None
      | Some p \<Rightarrow> (case authorized_console_workload p (cg_workload_id g) d of
          Inl (App e) \<Rightarrow> Inr None
        | Inl e \<Rightarrow> Inl e
        | Inr w \<Rightarrow>
          if \<not> grant_fits g w then Inr None
          else bind_result (build_console_client E w d) (\<lambda>client. Inr (map_option (\<lambda>C.
             \<lparr>cx_workload = w, cx_client = C, cx_proxy = \<lparr>cp_kind = cg_pve_kind g, cp_node = wl_node w, cp_vmid = wl_vmid w,
                cp_port = cg_pve_port g, cp_ticket = cg_pve_ticket g, cp_user = cg_pve_user g\<rparr>\<rparr>) client))))"

definition protocol_prefix :: string where
  "protocol_prefix = ''pvemaster.console.''"

definition protocol_token_from_header :: "string option \<Rightarrow> string option" where
  "protocol_token_from_header header = (case header of
     None \<Rightarrow> None
   | Some h \<Rightarrow> if h = [] then None else map_option (drop (length protocol_prefix))
       (find (\<lambda>v. is_prefix protocol_prefix v \<and> length protocol_prefix < length v) (map str_strip (str_split (CHR '','') h))))"

section \<open>The WebSocket handler\<close>

datatype console_end = Closed int | Ended

definition rstrip_slash :: "string \<Rightarrow> string" where
  "rstrip_slash s = rev (dropWhile (\<lambda>c. c = CHR ''/'') (rev s))"

definition socket_allowed :: "settings \<Rightarrow> string \<Rightarrow> string \<Rightarrow> bool" where
  "socket_allowed S origin protocols \<longleftrightarrow>
     rstrip_slash origin \<in> set (map rstrip_slash (cors_origins S)) \<and>
     ''binary'' \<in> set (map str_strip (str_split (CHR '','') protocols)) \<and>
     protocol_token_from_header (Some protocols) \<notin> {None, Some []}"

text \<open>
  The part under \<open>try\<close>: what is raised there is logged, the WebSocket closed if it was accepted; the
  slot is given back in any case.
\<close>

definition relay_args :: "console_grant \<Rightarrow> console_proxy \<Rightarrow> json list" where
  "relay_args g px = [JStr (uuid_str (cg_session_id g)), JStr (cp_kind px), JStr (cp_node px), JInt (cp_vmid px)]"

definition serve_console :: "'w console_env \<Rightarrow> console_grant \<Rightarrow> ('w, console_end) rm" where
  "serve_console E g s =
     (case bindM (readR (load_console_connection E g)) (\<lambda>cx. case cx of
          None \<Rightarrow> returnM (Closed 4404)
        | Some x \<Rightarrow> thenM (callM ''relay'' (relay_args g (cx_proxy x)) (co_relay E x)) (returnM Ended)) s of
        (Inl e, s1) \<Rightarrow> (Inr Ended, s1)
      | r \<Rightarrow> r)"

definition console_websocket :: "'w console_env \<Rightarrow> string \<Rightarrow> string \<Rightarrow> uuid \<Rightarrow> ('w, console_end) rm" where
  "console_websocket E origin protocols i =
     (if \<not> socket_allowed (co_settings E) origin protocols then returnM (Closed 4403)
      else bindM (consume_console_grant E i (the (protocol_token_from_header (Some protocols)))) (\<lambda>grant. case grant of
        None \<Rightarrow> returnM (Closed 4401)
      | Some g \<Rightarrow>
        bindM (acquire_console_slot (co_redis E) g (console_max_duration_seconds (co_settings E))) (\<lambda>acquired.
        if \<not> acquired then returnM (Closed 4429)
        else bindM (serve_console E g) (\<lambda>r.
             thenM (release_console_slot (co_redis E) g) (returnM r)))))"

end
