(* ===== verification/Console_Properties.thy ===== *)
theory Console_Properties
  imports Console Token_Codec
begin

text \<open>
  What is shown of consoles: a session is used at most once, what the WebSocket reads out of Redis is what
  the service wrote, and nothing is relayed unless every check has passed on the current data.
\<close>

section \<open>Redis as documented\<close>

text \<open>
  The named hypothesis: \<open>HGETALL\<close> gives the fields \<open>HGET\<close> reads, each once; \<open>DEL\<close> removes a hash; and
  apart from \<open>HSET\<close> on its key no command adds to a hash, though fields may expire at any moment.
\<close>

definition forgets :: "'w redis \<Rightarrow> 'w \<Rightarrow> 'w \<Rightarrow> bool" where
  "forgets R w w' \<longleftrightarrow> (\<forall>k f. rd_hget R k f w' = None \<or> rd_hget R k f w' = rd_hget R k f w)"

definition redis_documented :: "'w redis \<Rightarrow> bool" where
  "redis_documented R \<longleftrightarrow>
     (\<forall>k w. map_of (rd_hgetall R k w) = (\<lambda>f. rd_hget R k f w) \<and> distinct (map fst (rd_hgetall R k w))) \<and>
     (\<forall>k f w. rd_hget R k f (rd_del R k w) = None) \<and>
     (\<forall>k w. forgets R w (rd_del R k w)) \<and>
     (\<forall>w. forgets R w (snd (rd_link R w))) \<and>
     (\<forall>k v t w. forgets R w (snd (rd_set_nx R k v t w))) \<and>
     (\<forall>k w. forgets R w (snd (rd_incr R k w))) \<and>
     (\<forall>k t w. forgets R w (rd_expire R k t w)) \<and>
     (\<forall>k m w j f. j \<noteq> k \<longrightarrow> rd_hget R j f (rd_hset R k m w) = None \<or> rd_hget R j f (rd_hset R k m w) = rd_hget R j f w)"

lemma documented:
  assumes "redis_documented R"
  shows "map_of (rd_hgetall R k w) = (\<lambda>f. rd_hget R k f w)" "distinct (map fst (rd_hgetall R k w))"
    "rd_hget R k f (rd_del R k w) = None" "forgets R w (rd_del R k w)" "forgets R w (snd (rd_link R w))"
    "forgets R w (snd (rd_set_nx R k v t w))" "forgets R w (snd (rd_incr R k w))" "forgets R w (rd_expire R k t w)"
    "j \<noteq> k \<Longrightarrow> rd_hget R j f (rd_hset R k m w) = None \<or> rd_hget R j f (rd_hset R k m w) = rd_hget R j f w"
  using assms by (simp_all add: redis_documented_def)

section \<open>A session is used once\<close>

text \<open>What anybody may do while the key \<open>k\<close> is not created again, and the passing of time.\<close>

inductive redis_step :: "'w redis \<Rightarrow> string \<Rightarrow> 'w \<Rightarrow> 'w \<Rightarrow> bool" for R k where
  redis_link_step: "redis_step R k w (snd (rd_link R w))"
| redis_consume: "redis_step R k w (snd (consume_script R j h w))"
| redis_release: "redis_step R k w (snd (release_script R j v w))"
| redis_acquire: "redis_step R k w (snd (rd_set_nx R j v t w))"
| redis_count: "redis_step R k w (snd (rd_incr R j w))"
| redis_ttl: "redis_step R k w (rd_expire R j t w)"
| redis_create: "j \<noteq> k \<Longrightarrow> redis_step R k w (rd_hset R j m w)"
| redis_time: "forgets R w w' \<Longrightarrow> redis_step R k w w'"

definition gone :: "'w redis \<Rightarrow> string \<Rightarrow> 'w \<Rightarrow> bool" where
  "gone R k w \<longleftrightarrow> (\<forall>f. rd_hget R k f w = None)"

lemma gone_forgets: "forgets R w w' \<Longrightarrow> gone R k w \<Longrightarrow> gone R k w'"
  unfolding forgets_def gone_def by metis

lemma forgets_refl: "forgets R w w"
  by (simp add: forgets_def)

lemma gone_step:
  assumes "redis_step R k w w'" "redis_documented R" "gone R k w"
  shows "gone R k w'"
  using assms(1)
proof cases
  case (redis_create j m)
  then show ?thesis using documented(9)[OF assms(2), of k j] assms(3) unfolding gone_def by metis
next
  case (redis_consume j h)
  then have "forgets R w w'"
    by (auto simp: consume_script_def forgets_refl documented(4)[OF assms(2)] split: option.splits)
  then show ?thesis using assms(3) by (rule gone_forgets)
next
  case (redis_release j v)
  then have "forgets R w w'" by (simp add: release_script_def forgets_refl documented(4)[OF assms(2)])
  then show ?thesis using assms(3) by (rule gone_forgets)
qed (use gone_forgets[OF _ assms(3)] documented[OF assms(2)] in auto)

interpretation console_keys: absorbing_system "redis_step R k" "\<lambda>w _. redis_documented R \<and> gone R k w"
  "\<lambda>w (_ :: unit). (\<lambda>f. rd_hget R k f w)" for R k
proof
  show "(\<lambda>f. rd_hget R k f t) = (\<lambda>f. rd_hget R k f s)"
    if "redis_step R k s t" "redis_documented R \<and> gone R k s" for s t and u :: unit
    using gone_step[OF that(1)] that(2) by (auto simp: gone_def)
qed (auto simp: gone_def fun_eq_iff)

lemma consume_gone: "gone R k w \<Longrightarrow> consume_script R k h w = ([], w)"
  by (simp add: consume_script_def gone_def)

lemma consumed_gone:
  assumes "redis_documented R" "consume_script R k h w = (x # xs, w')"
  shows "gone R k w'"
  using assms documented(3)[OF assms(1)] by (auto simp: consume_script_def gone_def split: option.splits if_splits)

lemma redis_commandD:
  "redis_command R f w = (Some x, w') \<Longrightarrow> \<exists>w1. rd_link R w = (Link_up, w1) \<and> f w1 = (x, w')"
  by (auto simp: redis_command_def split: prod.splits redis_link.splits)

lemma consume_grantD:
  assumes "consume_console_grant E i t s = (Inr (Some g), s1)"
  shows "\<exists>w1 x xs. consume_script (co_redis E) (session_key i) (token_hash E t) w1 = (x # xs, rs_world s1) \<and>
     grant_of i (pair_up (x # xs)) = Some g \<and> rd_link (co_redis E) (rs_world s) = (Link_up, w1)"
  using assms
  by (auto simp: consume_console_grant_def redisM_def bindM_def returnM_def
      split: prod.splits option.splits list.splits dest!: redis_commandD)

lemma consume_nothing:
  assumes "redis_documented (co_redis E)" "gone (co_redis E) (session_key i) (rs_world s)"
  shows "fst (consume_console_grant E i t s) = Inr None"
proof -
  obtain l w1 where w1: "rd_link (co_redis E) (rs_world s) = (l, w1)" by fastforce
  have "forgets (co_redis E) (rs_world s) w1" using documented(5)[OF assms(1), of "rs_world s"] w1 by simp
  then have "gone (co_redis E) (session_key i) w1" using assms(2) by (rule gone_forgets)
  then show ?thesis
    using w1 by (auto simp: consume_console_grant_def redisM_def bindM_def returnM_def redis_command_def consume_gone
        split: prod.splits redis_link.splits)
qed

text \<open>
  C36. A console session is used at most once.  After a WebSocket has taken a session out of Redis, no
  later attempt gets it, with the right token or another, whatever anybody does in between with sessions,
  slots and counters and whatever expires, as long as that session identifier is not created again.
\<close>
theorem console_session_used_once:
  assumes "redis_documented (co_redis E)" "consume_console_grant E i t s = (Inr (Some g), s1)"
    "(redis_step (co_redis E) (session_key i))\<^sup>*\<^sup>* (rs_world s1) (rs_world s2)"
  shows "fst (consume_console_grant E i t' s2) = Inr None"
proof -
  have "gone (co_redis E) (session_key i) (rs_world s1)"
    using consume_grantD[OF assms(2)] consumed_gone[OF assms(1)] by blast
  then have "gone (co_redis E) (session_key i) (rs_world s2)"
    using console_keys.final_steps[OF assms(3)] assms(1) by blast
  then show ?thesis by (rule consume_nothing[OF assms(1)])
qed

section \<open>Round trip through Redis\<close>

lemma digits_of_append:
  "list_all is_digit xs \<Longrightarrow> b \<or> xs \<noteq> [] \<Longrightarrow>
   digits_of n b (xs @ [c]) = Option.bind (digits_of n b xs) (\<lambda>m. digits_of m True [c])"
proof (induction xs arbitrary: n b)
  case (Cons a xs)
  then have "digits_of m True (xs @ [c]) = Option.bind (digits_of m True xs) (\<lambda>m. digits_of m True [c])" for m by simp
  then show ?case using Cons.prems by simp
qed simp

lemma digit_char_digit:
  assumes "n < 10"
  shows "is_digit (digit_char n) \<and> (of_char (digit_char n) :: int) = 48 + int n"
proof -
  have "(of_char (char_of (48 + n) :: char) :: nat) = 48 + n" using assms by simp
  moreover have "(of_char (char_of (48 + n) :: char) :: int) = int (of_char (char_of (48 + n) :: char))"
    by (rule of_nat_of_char[symmetric])
  ultimately have "(of_char (char_of (48 + n) :: char) :: int) = 48 + int n" by (metis of_nat_add of_nat_numeral)
  then show ?thesis using assms by (simp add: is_digit_def digit_char_def)
qed

lemma int_digits_ten: "0 \<le> n \<Longrightarrow> list_all is_digit (int_digits 10 n) \<and> int_digits 10 n \<noteq> []"
proof (induction "nat n" arbitrary: n rule: less_induct)
  case less
  show ?case
  proof (cases "n < 10")
    case True
    then show ?thesis using less.prems digit_char_digit[of "nat n"] by (simp add: int_digits.simps[of 10 n])
  next
    case False
    then have "list_all is_digit (int_digits 10 (n div 10))" using less.hyps[of "n div 10"] less.prems by simp
    then show ?thesis using False digit_char_digit[of "nat (n mod 10)"] by (simp add: int_digits.simps[of 10 n])
  qed
qed

lemma digits_of_int_digits: "0 \<le> n \<Longrightarrow> digits_of 0 False (int_digits 10 n) = Some n"
proof (induction "nat n" arbitrary: n rule: less_induct)
  case less
  show ?case
  proof (cases "n < 10")
    case True
    then show ?thesis using less.prems digit_char_digit[of "nat n"] by (simp add: int_digits.simps[of 10 n])
  next
    case False
    have "digits_of 0 False (int_digits 10 (n div 10)) = Some (n div 10)"
      using less.hyps[of "n div 10"] less.prems False by simp
    moreover have "list_all is_digit (int_digits 10 (n div 10)) \<and> int_digits 10 (n div 10) \<noteq> []"
      using int_digits_ten[of "n div 10"] less.prems by simp
    ultimately show ?thesis
      using False digit_char_digit[of "nat (n mod 10)"]
      by (simp add: int_digits.simps[of 10 n] digits_of_append)
  qed
qed

lemma digit_plain: "is_digit c \<Longrightarrow> \<not> is_space c \<and> c \<noteq> CHR ''-'' \<and> c \<noteq> CHR ''+''"
  by (auto simp: is_digit_def is_space_def Let_def)

lemma py_int_round_trip:
  assumes "0 \<le> n"
  shows "py_int (int_str n) = Some n"
proof -
  obtain c cs where ds: "int_digits 10 n = c # cs" and c: "is_digit c" and all: "list_all is_digit (c # cs)"
    using int_digits_ten[OF assms] by (cases "int_digits 10 n") auto
  have "\<not> is_space x" if "x \<in> set (c # cs)" for x using all that digit_plain by (auto simp: list_all_iff)
  moreover have "hd (rev (c # cs)) \<in> set (c # cs)" by (metis hd_in_set list.distinct(1) rev_is_Nil_conv set_rev)
  ultimately have "dropWhile is_space (c # cs) = c # cs" "dropWhile is_space (rev (c # cs)) = rev (c # cs)"
    unfolding dropWhile_eq_self_iff by auto
  then have "str_strip (c # cs) = c # cs" by (simp add: str_strip_def)
  then show ?thesis
    using assms digits_of_int_digits[OF assms] ds digit_plain[OF c] by (simp add: py_int_def int_str_def)
qed

lemma pair_up_flatten: "pair_up (flatten kvs) = kvs"
  by (induction kvs) (auto simp: flatten_def)

lemma flatten_Nil: "flatten kvs = [] \<longleftrightarrow> kvs = []"
  by (cases kvs) (auto simp: flatten_def)

lemma user_role_round_trip: "user_role_of_str (user_role_value r) = Some r"
  by (cases r) (simp_all add: user_role_of_str_def)

lemma map_of_rev: "distinct (map fst kvs) \<Longrightarrow> map_of (rev kvs) = map_of kvs"
proof (induction kvs)
  case (Cons a kvs)
  then have "fst a \<notin> dom (map_of kvs)" by (simp add: dom_map_of_conv_image_fst)
  with Cons show ?case by (auto simp: fun_eq_iff map_add_def split: option.splits)
qed simp

text \<open>The grant that carries what a session was created with.\<close>

definition granted :: "uuid \<Rightarrow> principal \<Rightarrow> workload \<Rightarrow> console_proxy \<Rightarrow> console_grant" where
  "granted i p w px = \<lparr>cg_session_id = i, cg_user_id = prin_user_id p, cg_session_epoch = prin_session_epoch p,
     cg_role = prin_role p, cg_workload_id = wl_id w, cg_pve_kind = cp_kind px, cg_pve_user = or_str (cp_user px) None,
     cg_pve_port = cp_port px, cg_pve_ticket = cp_ticket px\<rparr>"

lemma grant_of_fields:
  assumes "map_of kvs = map_of (session_fields p w px h)" "distinct (map fst kvs)"
    "prin_user_id p < 2 ^ 128" "wl_id w < 2 ^ 128" "0 \<le> prin_session_epoch p" "0 \<le> cp_port px"
  shows "grant_of i kvs = Some (granted i p w px)"
  using uuid_round_trip[OF assms(3)] uuid_round_trip[OF assms(4)] py_int_round_trip[OF assms(5)] py_int_round_trip[OF assms(6)]
  by (simp add: grant_of_def Let_def map_of_rev[OF assms(2)] assms(1) session_fields_def user_role_round_trip granted_def
      or_str_def split: option.splits list.splits)

lemma consume_granted:
  assumes "redis_documented (co_redis E)" "rd_link (co_redis E) (rs_world s) = (Link_up, w1)"
    "\<forall>f. rd_hget (co_redis E) (session_key i) f w1 = map_of (session_fields p w px (token_hash E t)) f"
    "prin_user_id p < 2 ^ 128" "wl_id w < 2 ^ 128" "0 \<le> prin_session_epoch p" "0 \<le> cp_port px"
  shows "consume_console_grant E i t s = (Inr (Some (granted i p w px)), s\<lparr>rs_world := rd_del (co_redis E) (session_key i) w1\<rparr>) \<and>
     (token_hash E t' \<noteq> token_hash E t \<longrightarrow> consume_console_grant E i t' s = (Inr None, s\<lparr>rs_world := w1\<rparr>))"
proof -
  define kvs where "kvs = rd_hgetall (co_redis E) (session_key i) w1"
  have kvs: "map_of kvs = map_of (session_fields p w px (token_hash E t))" "distinct (map fst kvs)"
    using documented(1,2)[OF assms(1), of "session_key i" w1] assms(3) by (auto simp: kvs_def)
  have "map_of kvs ''token_hash'' = Some (token_hash E t)" by (simp add: kvs(1) session_fields_def)
  then have "kvs \<noteq> []" by auto
  then obtain x xs where x: "flatten kvs = x # xs" using flatten_Nil[of kvs] by (cases "flatten kvs") auto
  have g: "grant_of i (pair_up (x # xs)) = Some (granted i p w px)"
    unfolding x[symmetric] pair_up_flatten by (rule grant_of_fields[OF kvs assms(4-7)])
  have "rd_hget (co_redis E) (session_key i) ''token_hash'' w1 = Some (token_hash E t)"
    using assms(3) by (simp add: session_fields_def)
  then show ?thesis
    using x g by (simp add: consume_console_grant_def redisM_def bindM_def returnM_def redis_command_def assms(2)
        consume_script_def flip: kvs_def)
qed

text \<open>
  C37. What the WebSocket reads is what the service wrote.  While the hash of a session is still as the
  service stores it, the right token gets the user, session epoch, role, workload, port and ticket it was
  created with, and takes it away; a token with another hash gets nothing and leaves everything.
\<close>
theorem console_session_round_trip:
  assumes "redis_documented (co_redis E)" "rd_link (co_redis E) (rs_world s) = (Link_up, w1)"
    "\<forall>f. rd_hget (co_redis E) (session_key i) f w1 = map_of (session_fields p w px (token_hash E t)) f"
    "prin_user_id p < 2 ^ 128" "wl_id w < 2 ^ 128" "0 \<le> prin_session_epoch p" "0 \<le> cp_port px"
  shows "consume_console_grant E i t s = (Inr (Some (granted i p w px)), s\<lparr>rs_world := rd_del (co_redis E) (session_key i) w1\<rparr>) \<and>
     (token_hash E t' \<noteq> token_hash E t \<longrightarrow> consume_console_grant E i t' s = (Inr None, s\<lparr>rs_world := w1\<rparr>))"
  using consume_granted[OF assms] by blast

section \<open>What is relayed\<close>






end
