(* ===== verification/Console_Demo.thy ===== *)
theory Console_Demo
  imports Console_Properties Ipam_Demo
begin

text \<open>
  The properties of consoles on a small installation, with a Redis server whose data is part of the
  outside world.
\<close>

type_synonym demo_store = "(string \<Rightarrow> (string \<times> string) list) \<times> (string \<Rightarrow> string option) \<times> (string \<Rightarrow> int)"

definition demo_redis :: "demo_store redis" where
  "demo_redis = \<lparr>rd_link = (\<lambda>w. (Link_up, w)), rd_hget = (\<lambda>k f (h, _, _). map_of (h k) f),
     rd_hgetall = (\<lambda>k (h, _, _). AList.clearjunk (h k)), rd_hset = (\<lambda>k m (h, g, n). (h(k := m @ h k), g, n)),
     rd_get = (\<lambda>k (h, g, n). g k),
     rd_set_nx = (\<lambda>k v t (h, g, n). if g k = None then (True, (h, g(k \<mapsto> v), n)) else (False, (h, g, n))),
     rd_del = (\<lambda>k (h, g, n). (h(k := []), g(k := None), n)),
     rd_incr = (\<lambda>k (h, g, n). (n k + 1, (h, g, n(k := n k + 1)))), rd_expire = (\<lambda>k t w. w)\<rparr>"

lemma demo_redis_documented: "redis_documented demo_redis"
  by (auto simp: redis_documented_def forgets_def demo_redis_def map_of_clearjunk)

definition demo_settings_console :: settings where
  "demo_settings_console = (default_settings ''k'')\<lparr>cors_origins := [''https://ui/'']\<rparr>"

definition demo_console :: "demo_store console_env" where
  "demo_console = \<lparr>co_env = \<lparr>re_now = (\<lambda>w. (7, w)), re_uuid4 = (\<lambda>w. (50, w)), re_sleep = (\<lambda>_ w. w)\<rparr>,
     co_redis = demo_redis, co_settings = demo_settings_console,
     co_crypto = \<lparr>sha256 = (\<lambda>b. b), hmac_sha256 = (\<lambda>k b. k @ b)\<rparr>, co_token = (\<lambda>w. (''t'', w)),
     co_decrypt = (\<lambda>_ _. Some ''s''),
     co_connect = (\<lambda>_ _ _. Inr \<lparr>px_base_url = ''https://pve.lab:8006'', px_policy = (\<lambda>_. demo_policy),
        px_send = (\<lambda>_ w. (Inl Timeout_Failure, w))\<rparr>),
     co_relay = (\<lambda>_ w. (Inr (), w))\<rparr>"

definition demo_proxy :: console_proxy where
  "demo_proxy = \<lparr>cp_kind = ''qemu'', cp_node = ''n1'', cp_vmid = 100, cp_port = 5900, cp_ticket = ''x'', cp_user = None\<rparr>"

definition demo_running :: db where
  "demo_running = demo_db\<lparr>workloads := [demo_workload\<lparr>wl_power_state := ''RUNNING''\<rparr>],
     credentials := [\<lparr>cred_id = 9, cred_cluster_id = 3, cred_token_identifier = ''svc@pve!api'',
       cred_secret_ciphertext = [], cred_secret_nonce = [], cred_key_version = ''v1'', cred_is_active = True,
       cred_last_used_at = None, cred_retired_at = None\<rparr>]\<rparr>"

definition demo_held :: demo_store where
  "demo_held = ((\<lambda>_. [])(session_key 50 := session_fields demo_admin demo_workload demo_proxy (token_hash demo_console ''t'')),
     Map.empty, (\<lambda>_. 0))"

lemma demo_held_link: "rd_link (co_redis demo_console) w = (Link_up, w)"
  by (simp add: demo_console_def demo_redis_def)

lemma demo_held_fields:
  "rd_hget (co_redis demo_console) (session_key 50) f demo_held =
     map_of (session_fields demo_admin demo_workload demo_proxy (token_hash demo_console ''t'')) f"
  by (simp add: demo_console_def demo_redis_def demo_held_def)

lemma demo_console_redis: "redis_documented (co_redis demo_console)"
  using demo_redis_documented by (simp add: demo_console_def)

lemma demo_bounds: "prin_user_id demo_admin < 2 ^ 128" "wl_id demo_workload < 2 ^ 128"
  "0 \<le> prin_session_epoch demo_admin" "0 \<le> cp_port demo_proxy"
  by (simp_all add: demo_admin_def demo_workload_def demo_proxy_def)

theorem console_session_round_trip_witness:
  "fst (consume_console_grant demo_console 50 ''t'' (start_run demo_running demo_held)) =
     Inr (Some (granted 50 demo_admin demo_workload demo_proxy)) \<and>
   fst (consume_console_grant demo_console 50 ''u'' (start_run demo_running demo_held)) = Inr None"
proof -
  have "token_hash demo_console ''u'' \<noteq> token_hash demo_console ''t''" by code_simp
  then show ?thesis
    using console_session_round_trip[OF demo_console_redis, of "start_run demo_running demo_held" demo_held 50 demo_admin
        demo_workload demo_proxy "''t''" "''u''"] demo_held_link demo_held_fields demo_bounds
    by (simp add: start_run_def)
qed

theorem console_session_used_once_witness:
  "\<exists>s1. consume_console_grant demo_console 50 ''t'' (start_run demo_running demo_held) =
     (Inr (Some (granted 50 demo_admin demo_workload demo_proxy)), s1) \<and>
     fst (consume_console_grant demo_console 50 ''t'' s1) = Inr None"
proof -
  obtain s1 where s1: "consume_console_grant demo_console 50 ''t'' (start_run demo_running demo_held) =
      (Inr (Some (granted 50 demo_admin demo_workload demo_proxy)), s1)"
    using consume_granted[OF demo_console_redis, of "start_run demo_running demo_held" demo_held 50 demo_admin
        demo_workload demo_proxy "''t''" "''u''"] demo_held_link demo_held_fields demo_bounds
    by (simp add: start_run_def)
  with console_session_used_once[OF demo_console_redis s1 rtranclp.rtrancl_refl] show ?thesis by blast
qed









end
