(* ===== verification/Spec2Isabelle.thy ===== *)
theory Spec2Isabelle
  imports Provisioning_Properties Admin_Properties Workload_Properties Provisioning_Requests Endpoints Backup_Requests
    Observability_Properties Customer_Properties Client_Properties Cluster_Demo Console_Demo
begin

text \<open>
  PVE Master: the backend of a management portal for Proxmox clusters (src/backend/app, Python,
  FastAPI and SQLAlchemy).

  The program.  Requests come in through routes (app/api) that build a service object and call one
  method of it.  A service (app/services) reads and writes one PostgreSQL database through a session,
  checks the caller's role, records audit rows and commits once; long work is stored as an operation
  or a provisioning request and sent to Celery (app/tasks).  The workers (power, backup, restore and
  provisioning runner) carry it out: they commit several times and call Proxmox in between.

  The model.  A table is a list of rows, a row a record with the columns of its class, \<open>db\<close> the record
  of all tables and \<open>integrity\<close> the conjunction of the keys, unique and partial unique indexes, check
  constraints and foreign keys (theories \<open>Models_*\<close> for app/models, \<open>Database\<close>).  A service method is a
  function from a database to a result (the value, or the exception) and the database it leaves: a
  commit stores the working state if \<open>integrity\<close> holds and raises \<open>IntegrityError\<close> otherwise.  A worker
  is a term of the state and exception monad of \<open>Runner_Monad\<close>, whose state is the working database,
  the commits so far, the outside world and the log of the calls to Proxmox.  The outside world is a
  type variable: the clock, \<open>uuid4\<close>, \<open>sleep\<close>, random draws and every answer of Proxmox are functions on
  it about which nothing is assumed.  Cryptography (sha256, hmac, argon2, PyJWT, HKDF, AES-GCM) is a
  parameter; where a property relies on it, the documented law (what is encrypted decrypts to itself,
  a signed token decodes to its claims) is a named hypothesis, and its witness gives a function with it.

  The parts, each with its theories:

  \<^item> Shared: \<open>Prelude\<close> (identifiers, JSON, exceptions, strings, tables, the locales of transition
    systems), \<open>Audit_Log\<close> (security/access.py, services/audit.py), \<open>Config\<close> (core/config.py).

  \<^item> Addresses: \<open>Ip_Network\<close> (Python's \<open>ipaddress\<close>), \<open>Free_Offset\<close> (the search for a free address and its
    reference definition), \<open>Ipam\<close> and \<open>Ipam_Allocation\<close> (services/ipam.py, schemas/ipam.py),
    \<open>Ipam_Invariant\<close>, \<open>Ipam_Steps\<close>, \<open>Ipam_Pools\<close> (the invariant and that every handler keeps it),
    \<open>Ipam_Demo\<close>, \<open>Ipam_Properties\<close>, \<open>Ipam_Lifecycle\<close> (sequences of calls).

  \<^item> Operations: \<open>Operations\<close> (services/operations.py), \<open>Operation_Requests\<close> (idempotency keys),
    \<open>Operation_Properties\<close> (services and worker as one transition system, and the properties of runs).

  \<^item> Power worker: \<open>Power_Runner\<close> (services/power_runner.py), \<open>Runner_Service\<close> (what all workers share),
    \<open>Power_Lifecycle\<close>, \<open>Power_Safety\<close>, \<open>Power_Total\<close>, \<open>Power_Frame\<close>.

  \<^item> Provisioning: \<open>Provisioning_Service\<close> (services/provisioning.py), \<open>Provisioning_Requests\<close>,
    \<open>Provisioning_Api\<close>, \<open>Provisioning_Steps\<close>, \<open>Provisioning_Runner\<close> (services/provisioning_runner.py),
    and for its proofs \<open>Provisioning_Frame\<close>, \<open>Provisioning_Lifecycle\<close>,
    \<open>Provisioning_Result\<close>, \<open>Provisioning_Safety\<close>, \<open>Provisioning_Capacity\<close>,
    \<open>Provisioning_Ipam\<close>, \<open>Provisioning_Properties\<close>.

  \<^item> Backups and restores: \<open>Backup_Api\<close>, \<open>Backup_Runner\<close> (services/backup_runner.py),
    \<open>Restore_Runner\<close> (services/restore_runner.py), \<open>Job_Runs\<close> with \<open>Backup_Lifecycle\<close> and
    \<open>Restore_Lifecycle\<close> (what a run may do), \<open>Backup_Service\<close> (services/backups.py), \<open>Backup_Requests\<close>,
    \<open>Backup_Properties\<close>.

  \<^item> Sessions and accounts: \<open>Auth\<close> (services/auth.py, security/tokens.py, dependencies.py), \<open>Accounts\<close>
    (services/accounts.py, cli/create_admin.py), \<open>Sessions\<close>, \<open>Token_Codec\<close>, \<open>Session_Properties\<close>,
    \<open>Admin_Properties\<close>.

  \<^item> Workloads: \<open>Workloads\<close> (services/workloads.py), \<open>Workload_Properties\<close>.

  \<^item> Security of the way to Proxmox: \<open>Secrets\<close> (security/credentials.py, provisioning_secrets.py),
    \<open>Endpoints\<close> (security/endpoints.py).

  \<^item> The way to Proxmox: \<open>Proxmox_Client\<close> (proxmox/client.py: every request over httpx as a parameter, and
    the client as the workers' interfaces), \<open>Client_Properties\<close> (the power worker composed with it).

  \<^item> Clusters: \<open>Clusters\<close> (services/clusters.py, schemas/cluster.py), \<open>Cluster_Runs\<close> (weakest preconditions
    and the invariant of the credentials), \<open>Cluster_Properties\<close>, \<open>Cluster_Inventory\<close> (the import against its
    reference, removal, concurrent changes), \<open>Cluster_Demo\<close> (the witnesses).

  \<^item> Consoles: \<open>Console\<close> (services/console.py, the WebSocket handler of api/console.py),
    \<open>Console_Properties\<close>.

  \<^item> Customers and monitoring: \<open>Customer_Portal\<close> (services/customer_portal.py, schemas/customer.py),
    \<open>Customer_Properties\<close>, \<open>Observability\<close> (services/observability.py), \<open>Observability_Properties\<close>.

  \<^item> Background: \<open>Tasks\<close> (app/tasks, worker.py).

  The interfaces are locales, each interpreted on the code's own definitions: \<open>invariant_system\<close>,
  \<open>absorbing_system\<close> and \<open>refinement_system\<close> (a service as a transition system; IPAM, operations,
  sessions, administrators, ownership, clusters, console sessions), \<open>job_lifecycle\<close> and \<open>job_run_invariant\<close>, \<open>submits_once\<close>, \<open>job_rows\<close>
  (a worker's run; power, backup and restore), \<open>power_run_invariant\<close>, \<open>provisioning_invariant\<close> and
  \<open>provisioning_run_invariant\<close> (what each commit of a run satisfies), \<open>cipher\<close> (both ciphers).

  Loops and bounds.  Polling loops recurse on fuel that starts with the number of polls the settings
  still allow; as each turn records one, the branch \<open>out of fuel\<close> is never reached
  (\<open>power_run_returns\<close>, \<open>job_runs_return\<close>).  Submission loops recurse on the settings' number of tries.

  Concurrency.  A handler that commits once is one step, as the row and advisory locks of the code
  make it; a worker's run is not, and the invariants are shown of every state it commits.  Other
  transactions between two commits of one run are not interleaved, except in \<open>Clusters\<close>, whose handlers
  wait for Proxmox without a transaction: what others commit meanwhile is a function of the environment.

  Not modelled: routes (but for the console's WebSocket), middleware, logging, health checks and
  migrations, which pass arguments on or do I/O; listings that only read and page; the overview of
  resources and the metrics of nodes in services/clusters.py, which compute floats from the answers of
  concurrent requests; the pages of the audit log and the Prometheus text in services/observability.py;
  the relay of console frames and the construction of the httpx client.  Redis is a parameter with the
  commands' documented behaviour as a named hypothesis.  Strings are ASCII, \<open>server_default\<close>
  timestamps that no modelled code reads are left out, integers are unbounded as in Python.
\<close>

section \<open>Auditing\<close>

text \<open>
  C7. The audit trail never stores a secret: if no stored row carries an unmasked value under a
  sensitive key, then none does after any further event, whatever nested details it records.
\<close>

theorem audit_trail_masked:
  assumes "audit_clean d"
  shows "audit_clean (add_audit_event c e d)"
  using assms by (rule add_audit_event_clean)

theorem audit_trail_masked_witness:
  "audit_clean (add_audit_event (sv_ctx (demo_service demo_admin 0))
     ((audit_event ''X'' ''SUCCEEDED'' None)
       \<lparr>ev_details := Some [(''auth'', JObj [(''API-Token'', JStr ''s3cret'')])]\<rparr>) empty_db)"
  by (rule audit_trail_masked) (simp add: audit_clean_def empty_db_def)

end
